(* ===== verification/Prelude.thy ===== *)
theory Prelude
  imports Main "HOL-Library.AList" "HOL-Library.Sublist" "HOL-Library.Char_ord" "HOL-Library.List_Lexorder"
begin

text \<open>
  What every component of the development shares:
  \<^item> Go's \<open>map[K]V\<close> as an association list with distinct keys. The order of the list is the
    order in which a \<open>for k, v := range m\<close> loop visits the map; Go leaves that order open, so a
    theorem about all well-formed lists is a theorem about every iteration order. The laws of
    reading, writing and deleting are the locale \<open>go_map\<close>; the lemmas on loops that write or
    delete many keys are proved in it once and interpreted on association lists.
  \<^item> the functions of the packages \<open>strings\<close>, \<open>strconv\<close> and \<open>fmt\<close> that the code
    uses, on byte strings (\<open>string\<close>). Case mapping and white space are the ASCII ones.
  \<^item> the collection \<open>go_consts\<close>, the defining equations of the program's string constants.
\<close>

named_theorems go_consts \<open>defining equations of the program's string constants\<close>

section \<open>Go maps\<close>

type_synonym ('k, 'v) gomap = "('k \<times> 'v) list"
type_synonym smap = "(string, string) gomap"

definition gwf :: "('k, 'v) gomap \<Rightarrow> bool" where
  "gwf m \<longleftrightarrow> distinct (map fst m)"

definition gget :: "('k, 'v) gomap \<Rightarrow> 'k \<Rightarrow> 'v option" where
  "gget m k = map_of m k"

definition gput :: "'k \<Rightarrow> 'v \<Rightarrow> ('k, 'v) gomap \<Rightarrow> ('k, 'v) gomap" where
  "gput k v m = AList.update k v m"

definition gdel :: "'k \<Rightarrow> ('k, 'v) gomap \<Rightarrow> ('k, 'v) gomap" where
  "gdel k m = AList.delete k m"

definition gkeys :: "('k, 'v) gomap \<Rightarrow> 'k list" where
  "gkeys m = map fst m"

text \<open>\<open>m[k]\<close> on a map with string values: the empty string when the key is missing.\<close>

definition gstr :: "smap \<Rightarrow> string \<Rightarrow> string" where
  "gstr m k = (case gget m k of None \<Rightarrow> [] | Some v \<Rightarrow> v)"

text \<open>\<open>for k, v := range src { dst[k] = v }\<close>.\<close>

fun grange_put :: "('k, 'v) gomap \<Rightarrow> ('k, 'v) gomap \<Rightarrow> ('k, 'v) gomap" where
  "grange_put [] dst = dst"
| "grange_put ((k, v) # src) dst = grange_put src (gput k v dst)"

text \<open>\<open>for _, k := range ks { delete(m, k) }\<close>.\<close>

fun gdels :: "'k list \<Rightarrow> ('k, 'v) gomap \<Rightarrow> ('k, 'v) gomap" where
  "gdels [] m = m"
| "gdels (k # ks) m = gdels ks (gdel k m)"

locale go_map =
  fixes get :: "'m \<Rightarrow> 'k \<Rightarrow> 'v option"
    and put :: "'k \<Rightarrow> 'v \<Rightarrow> 'm \<Rightarrow> 'm"
    and del :: "'k \<Rightarrow> 'm \<Rightarrow> 'm"
    and wf :: "'m \<Rightarrow> bool"
  assumes get_put: "get (put k v m) k' = (if k' = k then Some v else get m k')"
    and get_del: "wf m \<Longrightarrow> get (del k m) k' = (if k' = k then None else get m k')"
    and wf_put: "wf m \<Longrightarrow> wf (put k v m)"
    and wf_del: "wf m \<Longrightarrow> wf (del k m)"
begin

lemma get_fold_put_other:
  "k \<notin> fst ` set src \<Longrightarrow> get (fold (\<lambda>(k, v). put k v) src m) k = get m k"
  by (induction src arbitrary: m) (auto simp: get_put)

lemma wf_fold_put: "wf m \<Longrightarrow> wf (fold (\<lambda>(k, v). put k v) src m)"
  by (induction src arbitrary: m) (auto simp: wf_put)

lemma get_fold_put:
  "distinct (map fst src) \<Longrightarrow>
     get (fold (\<lambda>(k, v). put k v) src m) k
     = (case map_of src k of Some v \<Rightarrow> Some v | None \<Rightarrow> get m k)"
proof (induction src arbitrary: m)
  case Nil
  then show ?case by simp
next
  case (Cons kv src)
  obtain k' v' where kv: "kv = (k', v')" by (cases kv)
  show ?case
  proof (cases "k = k'")
    case True
    with Cons.prems kv have "k \<notin> fst ` set src" by auto
    then have "get (fold (\<lambda>(k, v). put k v) src (put k' v' m)) k = get (put k' v' m) k"
      by (rule get_fold_put_other)
    with True kv show ?thesis by (simp add: get_put)
  next
    case False
    with Cons kv show ?thesis by (simp add: get_put split: option.split)
  qed
qed

lemma wf_fold_del: "wf m \<Longrightarrow> wf (fold del ks m)"
  by (induction ks arbitrary: m) (auto simp: wf_del)

lemma get_fold_del:
  "wf m \<Longrightarrow> get (fold del ks m) k = (if k \<in> set ks then None else get m k)"
  by (induction ks arbitrary: m) (auto simp: get_del wf_del)

lemma del_put_get:
  "wf m \<Longrightarrow> get m k = None \<Longrightarrow> get (del k (put k v m)) = get m"
  by (rule ext) (auto simp: get_put get_del wf_put)

end

interpretation gm: go_map gget gput gdel gwf
  by unfold_locales
    (auto simp: gget_def gput_def gdel_def gwf_def update_conv delete_conv
      intro: distinct_update distinct_delete)

lemma grange_put_fold: "grange_put src dst = fold (\<lambda>(k, v). gput k v) src dst"
  by (induction src dst rule: grange_put.induct) simp_all

lemma gdels_fold: "gdels ks m = fold gdel ks m"
  by (induction ks m rule: gdels.induct) simp_all

lemma gget_grange_put:
  "gwf src \<Longrightarrow>
     gget (grange_put src dst) k = (case gget src k of Some v \<Rightarrow> Some v | None \<Rightarrow> gget dst k)"
  unfolding grange_put_fold gwf_def gget_def [of src] by (rule gm.get_fold_put)

lemma gget_grange_put_other:
  "gget src k = None \<Longrightarrow> gget (grange_put src dst) k = gget dst k"
  unfolding grange_put_fold
  by (rule gm.get_fold_put_other) (simp add: gget_def map_of_eq_None_iff)

lemma gwf_grange_put [simp]: "gwf dst \<Longrightarrow> gwf (grange_put src dst)"
  unfolding grange_put_fold by (rule gm.wf_fold_put)

lemma gget_gdels: "gwf m \<Longrightarrow> gget (gdels ks m) k = (if k \<in> set ks then None else gget m k)"
  unfolding gdels_fold by (rule gm.get_fold_del)

lemma gwf_gdels [simp]: "gwf m \<Longrightarrow> gwf (gdels ks m)"
  unfolding gdels_fold by (rule gm.wf_fold_del)

lemmas gwf_put [simp] = gm.wf_put
lemmas gwf_del [simp] = gm.wf_del
lemmas gget_put = gm.get_put
lemmas gget_del = gm.get_del

lemma gwf_Nil [simp]: "gwf []"
  by (simp add: gwf_def)

lemma gget_Nil [simp]: "gget [] k = None"
  by (simp add: gget_def)

lemma gget_Cons: "gget ((k', v) # m) k = (if k = k' then Some v else gget m k)"
  by (simp add: gget_def)

lemma gget_in_set: "gget m k = Some v \<Longrightarrow> (k, v) \<in> set m"
  by (simp add: gget_def map_of_SomeD)

lemma in_set_gget: "gwf m \<Longrightarrow> (k, v) \<in> set m \<Longrightarrow> gget m k = Some v"
  by (simp add: gget_def gwf_def)

lemma gget_None_iff: "gget m k = None \<longleftrightarrow> k \<notin> set (gkeys m)"
  by (simp add: gget_def gkeys_def map_of_eq_None_iff)

lemma gkeys_iff: "k \<in> set (gkeys m) \<longleftrightarrow> (\<exists>v. gget m k = Some v)"
  using gget_None_iff [of m k] by auto

lemma distinct_gkeys: "gwf m \<Longrightarrow> distinct (gkeys m)"
  by (simp add: gwf_def gkeys_def)

lemma set_gkeys_put: "set (gkeys (gput k v m)) = insert k (set (gkeys m))"
  by (simp add: gkeys_def gput_def dom_update)

section \<open>Calls that change state and may fail\<close>

text \<open>\<open>if err != nil { return err }\<close> between two calls, with the state either of them leaves.\<close>

definition andThen :: "('s \<Rightarrow> ('e + 'a) \<times> 's) \<Rightarrow> ('a \<Rightarrow> 's \<Rightarrow> ('e + 'b) \<times> 's) \<Rightarrow> 's \<Rightarrow> ('e + 'b) \<times> 's" where
  "andThen m f s = (case m s of (Inl e, s') \<Rightarrow> (Inl e, s') | (Inr a, s') \<Rightarrow> f a s')"

definition returnE :: "'a \<Rightarrow> 's \<Rightarrow> ('e + 'a) \<times> 's" where
  "returnE a s = (Inr a, s)"

definition failE :: "'e \<Rightarrow> 's \<Rightarrow> ('e + 'a) \<times> 's" where
  "failE e s = (Inl e, s)"

lemma andThen_returnE [simp]: "andThen (returnE a) f = f a"
  by (simp add: andThen_def returnE_def fun_eq_iff)

lemma andThen_failE [simp]: "andThen (failE e) f = failE e"
  by (simp add: andThen_def failE_def fun_eq_iff)

lemma andThen_Inr:
  "andThen m f s = (Inr b, s'') \<longleftrightarrow> (\<exists>a s'. m s = (Inr a, s') \<and> f a s' = (Inr b, s''))"
  by (auto simp: andThen_def split: prod.splits sum.splits)

text \<open>A relation between states that both calls keep is kept by their sequence.\<close>

lemma andThen_invariant:
  assumes "R s (snd (m s))" and "\<And>a s'. R s s' \<Longrightarrow> R s (snd (f a s'))"
  shows "R s (snd (andThen m f s))"
  using assms by (auto simp: andThen_def split: prod.split sum.split)

end
