(* ===== verification/GoStrings.thy ===== *)
theory GoStrings
  imports Prelude
begin

text \<open>
  The functions of Go's \<open>strings\<close>, \<open>strconv\<close> and \<open>fmt\<close> that the program calls,
  on byte strings: prefixes and suffixes, searching and cutting, ASCII case and white space,
  decimal numbers (\<open>%d\<close>, \<open>Itoa\<close>, \<open>ParseInt\<close>), \<open>ParseBool\<close>, and the
  quoting that \<open>encoding/json\<close> does. The lemmas are the round trip of decimal numbers and
  the injectivity of \<open>%d\<close>, which the numbered names of the program rest on.
\<close>

section \<open>Prefixes, suffixes, searching\<close>

definition hasPrefix :: "string \<Rightarrow> string \<Rightarrow> bool" where
  "hasPrefix s p \<longleftrightarrow> prefix p s"

definition hasSuffix :: "string \<Rightarrow> string \<Rightarrow> bool" where
  "hasSuffix s p \<longleftrightarrow> suffix p s"

definition trimPrefix :: "string \<Rightarrow> string \<Rightarrow> string" where
  "trimPrefix s p = (if hasPrefix s p then drop (length p) s else s)"

definition trimSuffix :: "string \<Rightarrow> string \<Rightarrow> string" where
  "trimSuffix s p = (if hasSuffix s p then take (length s - length p) s else s)"

definition contains :: "string \<Rightarrow> string \<Rightarrow> bool" where
  "contains s sub \<longleftrightarrow> sublist sub s"

text \<open>\<open>strings.Index\<close> and \<open>strings.LastIndex\<close> of one character; \<open>None\<close> for the source's -1.\<close>

fun index :: "string \<Rightarrow> char \<Rightarrow> nat option" where
  "index [] c = None"
| "index (x # xs) c = (if x = c then Some 0 else map_option Suc (index xs c))"

fun lastIndex :: "string \<Rightarrow> char \<Rightarrow> nat option" where
  "lastIndex [] c = None"
| "lastIndex (x # xs) c =
     (case lastIndex xs c of Some i \<Rightarrow> Some (Suc i) | None \<Rightarrow> if x = c then Some 0 else None)"

fun join :: "string \<Rightarrow> string list \<Rightarrow> string" where
  "join sep [] = []"
| "join sep [x] = x"
| "join sep (x # y # xs) = x @ sep @ join sep (y # xs)"

text \<open>\<open>strings.Split\<close> on one character.\<close>

fun split :: "char \<Rightarrow> string \<Rightarrow> string list" where
  "split c [] = [[]]"
| "split c (x # xs) =
     (if x = c then [] # split c xs
      else case split c xs of [] \<Rightarrow> [[x]] | y # ys \<Rightarrow> (x # y) # ys)"

lemma split_not_Nil [simp]: "split c s \<noteq> []"
  by (induction s) (auto split: list.splits)

lemma join_Cons_Cons: "join [c] ((x # y) # ys) = x # join [c] (y # ys)"
  by (cases ys) simp_all

lemma join_split: "join [c] (split c s) = s"
proof (induction s)
  case Nil
  then show ?case by simp
next
  case (Cons x xs)
  obtain y ys where s: "split c xs = y # ys"
    using split_not_Nil by (metis neq_Nil_conv)
  with Cons show ?case by (simp add: join_Cons_Cons)
qed

lemma split_no_sep: "p \<in> set (split c s) \<Longrightarrow> c \<notin> set p"
  by (induction s arbitrary: p) (auto split: if_splits list.splits)

section \<open>ASCII case and white space\<close>

definition lowerChar :: "char \<Rightarrow> char" where
  "lowerChar c = (if CHR ''A'' \<le> c \<and> c \<le> CHR ''Z'' then char_of (of_char c + 32 :: nat) else c)"

definition toLower :: "string \<Rightarrow> string" where
  "toLower s = map lowerChar s"

definition upperChar :: "char \<Rightarrow> char" where
  "upperChar c = (if CHR ''a'' \<le> c \<and> c \<le> CHR ''z'' then char_of (of_char c - 32 :: nat) else c)"

definition toUpper :: "string \<Rightarrow> string" where
  "toUpper = map upperChar"

definition isSpace :: "char \<Rightarrow> bool" where
  "isSpace c \<longleftrightarrow> c \<in> {CHR 0x09, CHR 0x0A, CHR 0x0B, CHR 0x0C, CHR 0x0D, CHR 0x20}"

definition trimSpace :: "string \<Rightarrow> string" where
  "trimSpace s = rev (dropWhile isSpace (rev (dropWhile isSpace s)))"

section \<open>Decimal numbers\<close>

definition digitChar :: "nat \<Rightarrow> char" where
  "digitChar d = char_of (48 + d)"

definition isDigit :: "char \<Rightarrow> bool" where
  "isDigit c \<longleftrightarrow> 48 \<le> (of_char c :: nat) \<and> (of_char c :: nat) \<le> 57"

definition digitVal :: "char \<Rightarrow> nat" where
  "digitVal c = of_char c - 48"

fun showNat :: "nat \<Rightarrow> string" where
  "showNat n = (if n < 10 then [digitChar n] else showNat (n div 10) @ [digitChar (n mod 10)])"

declare showNat.simps [simp del]

definition showInt :: "int \<Rightarrow> string" where
  "showInt i = (if i < 0 then CHR ''-'' # showNat (nat (- i)) else showNat (nat i))"

definition readNat :: "string \<Rightarrow> nat" where
  "readNat s = foldl (\<lambda>n c. 10 * n + digitVal c) 0 s"

text \<open>
  \<open>strconv.ParseInt(s, 10, bits)\<close>: an optional sign, at least one decimal digit and nothing
  else, and a value in range; \<open>None\<close> stands for the error.
\<close>

definition parseUnsigned :: "string \<Rightarrow> nat option" where
  "parseUnsigned s = (if s \<noteq> [] \<and> list_all isDigit s then Some (readNat s) else None)"

definition parseInt :: "nat \<Rightarrow> string \<Rightarrow> int option" where
  "parseInt bits s =
     (let (neg, ds) = (case s of [] \<Rightarrow> (False, [])
                       | c # cs \<Rightarrow> if c = CHR ''-'' then (True, cs)
                                   else if c = CHR ''+'' then (False, cs) else (False, s))
      in case parseUnsigned ds of
           None \<Rightarrow> None
         | Some n \<Rightarrow>
             let v = (if neg then - int n else int n)
             in if - (2 ^ (bits - 1)) \<le> v \<and> v < 2 ^ (bits - 1) then Some v else None)"

definition parseBool :: "string \<Rightarrow> bool option" where
  "parseBool s =
     (if s \<in> {''1'', ''t'', ''T'', ''TRUE'', ''true'', ''True''} then Some True
      else if s \<in> {''0'', ''f'', ''F'', ''FALSE'', ''false'', ''False''} then Some False
      else None)"

definition formatBool :: "bool \<Rightarrow> string" where
  "formatBool b = (if b then ''true'' else ''false'')"

lemma parseBool_formatBool: "parseBool (formatBool b) = Some b"
  by (simp add: parseBool_def formatBool_def)

lemma of_char_digitChar [simp]: "d < 10 \<Longrightarrow> (of_char (digitChar d) :: nat) = 48 + d"
  by (simp add: digitChar_def)

lemma isDigit_digitChar [simp]: "d < 10 \<Longrightarrow> isDigit (digitChar d)"
  by (simp add: isDigit_def)

lemma digitVal_digitChar [simp]: "d < 10 \<Longrightarrow> digitVal (digitChar d) = d"
  by (simp add: digitVal_def)

lemma showNat_not_Nil [simp]: "showNat n \<noteq> []"
  by (subst showNat.simps) simp

lemma showNat_digits: "list_all isDigit (showNat n)"
proof (induction n rule: showNat.induct)
  case (1 n)
  then show ?case by (subst showNat.simps) (cases "n < 10"; simp)
qed

lemma readNat_snoc: "readNat (s @ [c]) = 10 * readNat s + digitVal c"
  by (simp add: readNat_def)

lemma readNat_showNat [simp]: "readNat (showNat n) = n"
proof (induction n rule: showNat.induct)
  case (1 n)
  show ?case
  proof (cases "n < 10")
    case True
    then show ?thesis by (subst showNat.simps) (simp add: readNat_def)
  next
    case False
    then have "readNat (showNat n) = 10 * readNat (showNat (n div 10)) + n mod 10"
      by (subst showNat.simps) (simp add: readNat_snoc)
    also have "\<dots> = n" using "1.IH" [OF False] by simp
    finally show ?thesis .
  qed
qed

lemma showNat_inj [simp]: "showNat m = showNat n \<longleftrightarrow> m = n"
  by (metis readNat_showNat)

lemma showNat_hd_digit: "showNat n = c # cs \<Longrightarrow> isDigit c"
  using showNat_digits [of n] by simp

lemma showNat_no_sign: "showNat n \<noteq> CHR ''-'' # cs" "showNat n \<noteq> CHR ''+'' # cs"
  using showNat_hd_digit by (fastforce simp: isDigit_def)+

lemma showInt_inj [simp]: "showInt i = showInt j \<longleftrightarrow> i = j"
  using showNat_no_sign(1) by (auto simp: showInt_def split: if_splits) metis+

lemma parseUnsigned_showNat [simp]: "parseUnsigned (showNat n) = Some n"
  by (simp add: parseUnsigned_def showNat_digits)

lemma parseInt_showInt:
  assumes "- (2 ^ (bits - 1)) \<le> i" and "i < 2 ^ (bits - 1)"
  shows "parseInt bits (showInt i) = Some i"
proof (cases "i < 0")
  case True
  with assms show ?thesis by (simp add: parseInt_def showInt_def)
next
  case False
  obtain c cs where s: "showNat (nat i) = c # cs"
    using showNat_not_Nil by (metis neq_Nil_conv)
  with showNat_no_sign have "c \<noteq> CHR ''-''" "c \<noteq> CHR ''+''" by metis+
  with False assms s parseUnsigned_showNat [of "nat i"] show ?thesis
    by (simp add: parseInt_def showInt_def)
qed

section \<open>Replacing\<close>

text \<open>
  \<open>strings.ReplaceAll\<close>, and \<open>strings.Replace\<close> with the limit 1. Replacing the empty string puts
  the new one before every character and at the end.
\<close>

function replaceEach :: "string \<Rightarrow> string \<Rightarrow> string \<Rightarrow> string" where
  "replaceEach old new s =
     (if s = [] then []
      else if old \<noteq> [] \<and> prefix old s then new @ replaceEach old new (drop (length old) s)
      else hd s # replaceEach old new (tl s))"
  by pat_completeness auto
termination by (relation "measure (\<lambda>(old, new, s). length s)") auto

declare replaceEach.simps [simp del]

definition replaceAll :: "string \<Rightarrow> string \<Rightarrow> string \<Rightarrow> string" where
  "replaceAll s old new =
     (if old = [] then new @ concat (map (\<lambda>c. c # new) s) else replaceEach old new s)"

fun replaceFirst :: "string \<Rightarrow> string \<Rightarrow> string \<Rightarrow> string" where
  "replaceFirst s old new =
     (if prefix old s then new @ drop (length old) s
      else case s of [] \<Rightarrow> [] | c # s' \<Rightarrow> c # replaceFirst s' old new)"

declare replaceFirst.simps [simp del]

text \<open>A string without the text to replace is left alone.\<close>

lemma replaceEach_absent: "\<not> contains s old \<Longrightarrow> replaceEach old new s = s"
proof (induction s)
  case Nil
  then show ?case by (simp add: replaceEach.simps)
next
  case (Cons c s)
  then have "\<not> prefix old (c # s)" "\<not> contains s old"
    by (auto simp: contains_def sublist_Cons_right)
  with Cons.IH show ?case by (simp add: replaceEach.simps [of old new "c # s"])
qed

lemma replaceAll_absent: "\<not> contains s old \<Longrightarrow> replaceAll s old new = s"
  by (auto simp: replaceAll_def replaceEach_absent contains_def)

section \<open>Strings in JSON\<close>

definition hexChar :: "nat \<Rightarrow> char" where
  "hexChar d = (if d < 10 then digitChar d else char_of (87 + d))"

text \<open>
  How \<open>json.Marshal\<close> writes one ASCII byte of a string: the escapes of the quote, the
  backslash and the control characters, and the escapes of the three HTML characters.
\<close>

definition jsonChar :: "char \<Rightarrow> string" where
  "jsonChar c =
     (let n = (of_char c :: nat) in
      if c = CHR 0x22 then [CHR 0x5C, CHR 0x22]
      else if c = CHR 0x5C then [CHR 0x5C, CHR 0x5C]
      else if n = 8 then [CHR 0x5C, CHR ''b'']
      else if n = 12 then [CHR 0x5C, CHR ''f'']
      else if n = 10 then [CHR 0x5C, CHR ''n'']
      else if n = 13 then [CHR 0x5C, CHR ''r'']
      else if n = 9 then [CHR 0x5C, CHR ''t'']
      else if n < 32 \<or> c \<in> {CHR ''<'', CHR ''>'', CHR ''&''}
        then [CHR 0x5C, CHR ''u'', CHR ''0'', CHR ''0'', hexChar (n div 16), hexChar (n mod 16)]
      else [c])"

definition jsonString :: "string \<Rightarrow> string" where
  "jsonString s = [CHR 0x22] @ concat (map jsonChar s) @ [CHR 0x22]"

text \<open>\<open>IsNotFound\<close> of \<^verbatim>\<open>src/pkg/errors/errors.go\<close> goes by the text of an error; \<open>'%s'\<close> is a format many texts use.\<close>

definition IsNotFound :: "string \<Rightarrow> bool" where
  "IsNotFound e \<longleftrightarrow> contains e ''not found'' \<or> contains e (''doesn'' @ [CHR 0x27] @ ''t exist'') \<or> contains e ''not-found''"

definition quote :: "string \<Rightarrow> string" where
  "quote s = [CHR 0x27] @ s @ [CHR 0x27]"

end
