(* ===== verification/DependencyGraph.thy ===== *)
theory DependencyGraph
  imports GoStrings
begin

text \<open>
  The cycle detection of \<^verbatim>\<open>src/pkg/model/utils/utils.go\<close>: \<open>GetDependentCyclic\<close> and the
  depth first search \<open>dfs\<close> behind it. A graph is a Go map from a service to the services it
  depends on; the search threads the two maps \<open>visited\<close> and \<open>stack\<close> that the code mutates.
  The search is a total function (the visited nodes grow), and the main lemma is the invariant
  that relates the two maps to the edges of the graph: finished nodes are closed under edges and
  lie on no cycle, and every node of the stack reaches the node being searched.
\<close>

type_synonym graph = "(string, string list) gomap"
type_synonym bmap = "(string, bool) gomap"

text \<open>\<open>m[k]\<close> on a \<open>map[string]bool\<close>, and the missing key of a \<open>map[string][]string\<close>.\<close>

definition gbool :: "bmap \<Rightarrow> string \<Rightarrow> bool" where
  "gbool m k \<longleftrightarrow> gget m k = Some True"

definition succs :: "graph \<Rightarrow> string \<Rightarrow> string list" where
  "succs g n = (case gget g n of None \<Rightarrow> [] | Some ds \<Rightarrow> ds)"

definition nodes :: "graph \<Rightarrow> string set" where
  "nodes g = set (gkeys g)"

definition trues :: "bmap \<Rightarrow> string set" where
  "trues m = {k. gbool m k}"

definition edges :: "graph \<Rightarrow> (string \<times> string) set" where
  "edges g = {(u, v). v \<in> set (succs g u)}"

lemma gbool_put: "gbool (gput k b m) k' \<longleftrightarrow> (if k' = k then b else gbool m k')"
  by (simp add: gbool_def gget_put)

lemma trues_put: "trues (gput k b m) = (if b then insert k (trues m) else trues m - {k})"
  by (auto simp: trues_def gbool_put)

lemma trues_Nil [simp]: "trues [] = {}"
  by (simp add: trues_def gbool_def)

lemma gbool_trues: "gbool m k \<longleftrightarrow> k \<in> trues m"
  by (simp add: trues_def)

lemma succs_outside: "n \<notin> nodes g \<Longrightarrow> succs g n = []"
  by (simp add: succs_def nodes_def gget_None_iff [symmetric])

text \<open>
  The loop of \<open>dfs\<close> over the dependencies of \<open>n\<close>, after \<open>n\<close> has been marked visited and
  on the stack; a dependency that has not been visited is searched first.
\<close>

function dfsDeps :: "graph \<Rightarrow> string \<Rightarrow> string list \<Rightarrow> bmap \<Rightarrow> bmap \<Rightarrow> bool \<times> bmap \<times> bmap" where
  "dfsDeps g n [] visited stack = (False, visited, gput n False stack)"
| "dfsDeps g n (d # ds) visited stack =
     (case (if gbool visited d then (False, visited, stack)
            else dfsDeps g d (succs g d) (gput d True visited) (gput d True stack)) of
        (found, visited', stack') \<Rightarrow>
          if found then (True, visited', stack')
          else if gbool stack' d then (True, visited', stack')
          else dfsDeps g n ds visited' stack')"
  by pat_completeness auto

lemma dfsDeps_visited_grows:
  "dfsDeps_dom (g, n, ds, vis, stk) \<Longrightarrow> trues vis \<subseteq> trues (fst (snd (dfsDeps g n ds vis stk)))"
proof (induction rule: dfsDeps.pinduct)
  case (1 g n vis stk)
  then show ?case by (simp add: dfsDeps.psimps)
next
  case (2 g n d ds vis stk)
  show ?case
  proof (cases "gbool vis d")
    case True
    with 2 show ?thesis by (auto simp: dfsDeps.psimps)
  next
    case False
    obtain f v s where r: "dfsDeps g d (succs g d) (gput d True vis) (gput d True stk) = (f, v, s)"
      by (cases "dfsDeps g d (succs g d) (gput d True vis) (gput d True stk)") auto
    with 2(2) False have "trues vis \<subseteq> trues v" by (auto simp: trues_put)
    with 2(1,3) False r show ?thesis by (fastforce simp: dfsDeps.psimps)
  qed
qed

termination dfsDeps
proof (relation "measures [\<lambda>(g, n, ds, vis, stk). card (nodes g - trues vis),
                           \<lambda>(g, n, ds, vis, stk). length ds]", goal_cases)
  case 1
  show ?case by simp
next
  case (2 g n d ds vis stk)
  show ?case
  proof (cases "d \<in> nodes g")
    case True
    with 2 have "nodes g - trues (gput d True vis) \<subset> nodes g - trues vis"
      by (auto simp: trues_put gbool_trues)
    then have "card (nodes g - trues (gput d True vis)) < card (nodes g - trues vis)"
      by (intro psubset_card_mono) (auto simp: nodes_def)
    then show ?thesis by simp
  next
    case False
    then have "nodes g - trues (gput d True vis) = nodes g - trues vis"
      by (auto simp: trues_put)
    with False show ?thesis by (simp add: succs_outside)
  qed
next
  case (3 g n d ds vis stk f p vis' stk')
  have "trues vis \<subseteq> trues vis'"
  proof (cases "gbool vis d")
    case True
    with 3 show ?thesis by simp
  next
    case False
    with 3 have "dfsDeps g d (succs g d) (gput d True vis) (gput d True stk) = (f, vis', stk')"
      and "dfsDeps_dom (g, d, succs g d, gput d True vis, gput d True stk)" by auto
    with dfsDeps_visited_grows show ?thesis by (fastforce simp: trues_put)
  qed
  then have "card (nodes g - trues vis') \<le> card (nodes g - trues vis)"
    by (intro card_mono) (auto simp: nodes_def)
  then show ?case by auto
qed

definition dfs :: "graph \<Rightarrow> string \<Rightarrow> bmap \<Rightarrow> bmap \<Rightarrow> bool \<times> bmap \<times> bmap" where
  "dfs g svcName visited stack =
     (if gbool visited svcName then (False, visited, gput svcName False stack)
      else dfsDeps g svcName (succs g svcName) (gput svcName True visited) (gput svcName True stack))"

fun cyclicLoop :: "graph \<Rightarrow> string list \<Rightarrow> bmap \<Rightarrow> bmap \<Rightarrow> string list" where
  "cyclicLoop g [] visited stack = []"
| "cyclicLoop g (svcName # rest) visited stack =
     (case dfs g svcName visited stack of
        (found, visited', stack') \<Rightarrow>
          if found then map fst (filter snd stack') else cyclicLoop g rest visited' stack')"

definition GetDependentCyclic :: "graph \<Rightarrow> string list" where
  "GetDependentCyclic g = cyclicLoop g (gkeys g) [] []"

section \<open>The search invariant\<close>

text \<open>
  \<open>finished\<close>: the visited nodes that left the stack. They are closed under edges and lie on no
  cycle; the stack holds visited nodes only.
\<close>

definition finished :: "bmap \<Rightarrow> bmap \<Rightarrow> string set" where
  "finished vis stk = trues vis - trues stk"

definition dfsInv :: "graph \<Rightarrow> bmap \<Rightarrow> bmap \<Rightarrow> bool" where
  "dfsInv g vis stk \<longleftrightarrow>
     gwf stk \<and> trues stk \<subseteq> trues vis \<and>
     edges g `` finished vis stk \<subseteq> finished vis stk \<and>
     (\<forall>v \<in> finished vis stk. (v, v) \<notin> (edges g)\<^sup>+)"

text \<open>What a search that found nothing has established, and what a hit has found.\<close>

definition searchedTo :: "graph \<Rightarrow> string \<Rightarrow> bmap \<Rightarrow> bmap \<Rightarrow> bmap \<Rightarrow> bmap \<Rightarrow> bool" where
  "searchedTo g n vis stk vis' stk' \<longleftrightarrow>
     dfsInv g vis' stk' \<and> trues stk' = trues stk - {n} \<and> trues vis \<subseteq> trues vis'"

definition onCycle :: "graph \<Rightarrow> bmap \<Rightarrow> bool" where
  "onCycle g stk \<longleftrightarrow>
     gwf stk \<and> (\<exists>c \<in> trues stk. (c, c) \<in> (edges g)\<^sup>+ \<and> (\<forall>s \<in> trues stk. (s, c) \<in> (edges g)\<^sup>*))"

lemma dfsInv_mark:
  "dfsInv g vis stk \<Longrightarrow> d \<notin> trues vis \<Longrightarrow> dfsInv g (gput d True vis) (gput d True stk)"
  by (auto simp: dfsInv_def finished_def trues_put)

lemma closed_trancl:
  assumes "E `` F \<subseteq> F" and "(u, v) \<in> E\<^sup>+" and "u \<in> F"
  shows "v \<in> F"
  using assms(2,3,1) by (induction rule: trancl_induct) auto

text \<open>Leaving the stack: a node whose dependencies are all finished is finished too.\<close>

lemma dfsInv_leave:
  assumes inv: "dfsInv g vis stk" and n: "n \<in> trues stk"
    and deps: "set (succs g n) \<subseteq> finished vis stk"
  shows "dfsInv g vis (gput n False stk)"
proof -
  let ?F = "finished vis stk"
  have cl: "edges g `` ?F \<subseteq> ?F" using inv by (simp add: dfsInv_def)
  have F': "finished vis (gput n False stk) = insert n ?F"
    using inv n by (auto simp: dfsInv_def finished_def trues_put)
  have "(n, n) \<notin> (edges g)\<^sup>+"
  proof
    assume "(n, n) \<in> (edges g)\<^sup>+"
    then obtain d where d: "(n, d) \<in> edges g" and dn: "d = n \<or> (d, n) \<in> (edges g)\<^sup>+"
      by (meson converse_tranclE)
    from d deps have dF: "d \<in> ?F" by (auto simp: edges_def)
    with dn have "n \<in> ?F" using closed_trancl [OF cl] by blast
    with n show False by (simp add: finished_def)
  qed
  moreover have "edges g `` insert n ?F \<subseteq> insert n ?F"
    using cl deps by (auto simp: edges_def)
  moreover have "trues (gput n False stk) \<subseteq> trues vis"
    using inv by (auto simp: dfsInv_def trues_put)
  ultimately show ?thesis
    using inv F' by (simp add: dfsInv_def)
qed

lemma finished_mono:
  "trues vis \<subseteq> trues vis' \<Longrightarrow> trues stk' \<subseteq> trues stk \<Longrightarrow> finished vis stk \<subseteq> finished vis' stk'"
  by (auto simp: finished_def)

text \<open>
  The main lemma: from a state that satisfies the invariant, with every stacked node above \<open>n\<close>
  and the dependencies before \<open>ds\<close> finished, the loop either hits a cycle or finishes \<open>n\<close>.
\<close>

lemma dfsDeps_correct:
  assumes "dfsInv g vis stk" and "n \<in> trues stk"
    and "set (succs g n) \<subseteq> finished vis stk \<union> set ds" and "set ds \<subseteq> set (succs g n)"
    and "\<forall>s \<in> trues stk. (s, n) \<in> (edges g)\<^sup>*"
    and "dfsDeps g n ds vis stk = (found, vis', stk')"
  shows "if found then onCycle g stk' else searchedTo g n vis stk vis' stk'"
  using assms
proof (induction g n ds vis stk arbitrary: found vis' stk' rule: dfsDeps.induct)
  case (1 g n vis stk)
  then have "dfsInv g vis (gput n False stk)" by (intro dfsInv_leave) auto
  with 1 show ?case by (auto simp: searchedTo_def trues_put)
next
  case (2 g n d ds vis stk)
  have edge: "(n, d) \<in> edges g" using "2.prems"(4) by (simp add: edges_def)
  obtain f v s where r: "(if gbool vis d then (False, vis, stk)
      else dfsDeps g d (succs g d) (gput d True vis) (gput d True stk)) = (f, v, s)"
    by (metis prod_cases3)
  have step: "if f then onCycle g s
      else dfsInv g v s \<and> trues s = trues stk \<and> trues vis \<subseteq> trues v \<and> d \<in> trues v"
  proof (cases "gbool vis d")
    case True
    with r "2.prems"(1) show ?thesis by (auto simp: gbool_trues)
  next
    case False
    then have dV: "d \<notin> trues vis" by (simp add: gbool_trues)
    with "2.prems"(1) have dS: "d \<notin> trues stk" by (auto simp: dfsInv_def)
    have "\<forall>x \<in> trues (gput d True stk). (x, d) \<in> (edges g)\<^sup>*"
      using "2.prems"(5) edge by (auto simp: trues_put intro: rtrancl_into_rtrancl)
    with "2.IH"(1) [OF False dfsInv_mark [OF "2.prems"(1) dV], of f v s] False r
    have "if f then onCycle g s else searchedTo g d (gput d True vis) (gput d True stk) v s"
      by (simp add: trues_put)
    with dS show ?thesis by (auto simp: searchedTo_def trues_put)
  qed
  show ?case
  proof (cases f)
    case True
    with r step "2.prems"(6) show ?thesis by simp
  next
    case notf: False
    with step have inv: "dfsInv g v s" and S: "trues s = trues stk"
      and V: "trues vis \<subseteq> trues v" and dv: "d \<in> trues v" by auto
    show ?thesis
    proof (cases "gbool s d")
      case True
      with S have "d \<in> trues stk" by (simp add: gbool_trues)
      with "2.prems"(2,5) edge have "(d, d) \<in> (edges g)\<^sup>+" and
        "\<forall>x \<in> trues stk. (x, d) \<in> (edges g)\<^sup>*"
        by (auto intro: rtrancl_into_trancl1 rtrancl_into_rtrancl)
      with inv S \<open>d \<in> trues stk\<close> have "onCycle g s"
        by (auto simp: onCycle_def dfsInv_def)
      with r notf True "2.prems"(6) show ?thesis by simp
    next
      case False
      then have "d \<in> finished v s" using dv by (simp add: finished_def gbool_trues)
      moreover have "finished vis stk \<subseteq> finished v s" using V S by (auto simp: finished_def)
      ultimately have deps: "set (succs g n) \<subseteq> finished v s \<union> set ds"
        using "2.prems"(3) by auto
      have rec: "dfsDeps g n ds v s = (found, vis', stk')"
        using r notf False "2.prems"(6) by simp
      have "if found then onCycle g stk' else searchedTo g n v s vis' stk'"
        using "2.IH"(2) [OF r [symmetric] refl notf False inv _ deps _ _ rec] S "2.prems"(2,4,5)
        by simp
      with S subset_trans [OF V] show ?thesis by (simp add: searchedTo_def split: if_splits)
    qed
  qed
qed

lemma dfs_correct:
  assumes inv: "dfsInv g vis stk" and empty: "trues stk = {}"
    and r: "dfs g n vis stk = (found, vis', stk')"
  shows "if found then onCycle g stk'
         else dfsInv g vis' stk' \<and> trues stk' = {} \<and> trues vis \<subseteq> trues vis' \<and> n \<in> trues vis'"
proof (cases "gbool vis n")
  case True
  with r inv empty show ?thesis
    by (auto simp: dfs_def trues_put dfsInv_def finished_def gbool_trues)
next
  case False
  then have nV: "n \<notin> trues vis" by (simp add: gbool_trues)
  have "if found then onCycle g stk'
        else searchedTo g n (gput n True vis) (gput n True stk) vis' stk'"
  proof (rule dfsDeps_correct [OF dfsInv_mark [OF inv nV]])
    show "dfsDeps g n (succs g n) (gput n True vis) (gput n True stk) = (found, vis', stk')"
      using r False by (simp add: dfs_def)
  qed (use empty in \<open>auto simp: trues_put\<close>)
  with empty show ?thesis by (auto simp: searchedTo_def trues_put)
qed

lemma trues_reported: "gwf stk \<Longrightarrow> set (map fst (filter snd stk)) = trues stk"
  by (force simp: trues_def gbool_def dest: in_set_gget gget_in_set)

lemma cyclicLoop_correct:
  assumes "dfsInv g vis stk" and "trues stk = {}" and "nodes g \<subseteq> trues vis \<union> set ns"
  shows "if (\<exists>v. (v, v) \<in> (edges g)\<^sup>+)
         then (\<exists>c \<in> set (cyclicLoop g ns vis stk). (c, c) \<in> (edges g)\<^sup>+
                \<and> (\<forall>s \<in> set (cyclicLoop g ns vis stk). (s, c) \<in> (edges g)\<^sup>*))
         else cyclicLoop g ns vis stk = []"
  using assms
proof (induction g ns vis stk rule: cyclicLoop.induct)
  case (1 g vis stk)
  have "\<not> (\<exists>v. (v, v) \<in> (edges g)\<^sup>+)"
  proof clarify
    fix v assume cyc: "(v, v) \<in> (edges g)\<^sup>+"
    then obtain d where "(v, d) \<in> edges g" by (meson tranclD)
    then have "v \<in> nodes g" using succs_outside by (force simp: edges_def)
    with 1 have "v \<in> finished vis stk" by (auto simp: finished_def)
    with 1(1) cyc show False by (auto simp: dfsInv_def)
  qed
  then show ?case by simp
next
  case (2 g n ns vis stk)
  obtain f v s where r: "dfs g n vis stk = (f, v, s)" by (metis prod_cases3)
  note step = dfs_correct [OF "2.prems"(1,2) r]
  show ?case
  proof (cases f)
    case True
    with step have "onCycle g s" by simp
    moreover from this have "set (map fst (filter snd s)) = trues s"
      by (intro trues_reported) (simp add: onCycle_def)
    ultimately show ?thesis using r True by (auto simp: onCycle_def)
  next
    case False
    with step "2.prems"(3) have "nodes g \<subseteq> trues v \<union> set ns" by auto
    with "2.IH" [OF r [symmetric] refl False] step False r show ?thesis by simp
  qed
qed

lemma GetDependentCyclic_cases:
  "if (\<exists>v. (v, v) \<in> (edges g)\<^sup>+)
   then (\<exists>c \<in> set (GetDependentCyclic g). (c, c) \<in> (edges g)\<^sup>+
          \<and> (\<forall>s \<in> set (GetDependentCyclic g). (s, c) \<in> (edges g)\<^sup>*))
   else GetDependentCyclic g = []"
  unfolding GetDependentCyclic_def
  by (rule cyclicLoop_correct) (auto simp: dfsInv_def finished_def nodes_def)

lemma GetDependentCyclic_Nil_iff: "GetDependentCyclic g = [] \<longleftrightarrow> acyclic (edges g)"
  using GetDependentCyclic_cases [of g] by (auto simp: acyclic_def split: if_splits)

section \<open>Properties\<close>

text \<open>C11. Cycle detection is sound and complete: the search reports nothing exactly when the dependency
  graph is acyclic, and every service it reports reaches a reported service that lies on a cycle.\<close>

theorem GetDependentCyclic_detects_cycles:
  "(GetDependentCyclic g = [] \<longleftrightarrow> acyclic (edges g)) \<and>
   (\<forall>s \<in> set (GetDependentCyclic g). \<exists>c \<in> set (GetDependentCyclic g).
      (s, c) \<in> (edges g)\<^sup>* \<and> (c, c) \<in> (edges g)\<^sup>+)"
  using GetDependentCyclic_cases [of g] GetDependentCyclic_Nil_iff [of g]
  by (auto split: if_splits)

text \<open>Three services where \<open>b\<close> and \<open>c\<close> depend on each other, and a caller \<open>a\<close> of the cycle.\<close>

definition callerOfCycle :: graph where
  "callerOfCycle = [(''a'', [''b'']), (''b'', [''c'']), (''c'', [''b''])]"

lemma GetDependentCyclic_callerOfCycle:
  "GetDependentCyclic callerOfCycle = [''a'', ''b'', ''c'']"
  by code_simp

lemma a_not_on_cycle: "(''a'', ''a'') \<notin> (edges callerOfCycle)\<^sup>+"
proof
  assume "(''a'', ''a'') \<in> (edges callerOfCycle)\<^sup>+"
  then obtain u where "(u, ''a'') \<in> edges callerOfCycle" by (meson tranclD2)
  then show False by (auto simp: edges_def succs_def callerOfCycle_def gget_Cons split: if_splits)
qed

text \<open>
  The report is the whole stack of the search, so it can name a service that is on no cycle: here
  \<open>a\<close>, from which the search entered the cycle.
\<close>

lemma GetDependentCyclic_reports_caller:
  "''a'' \<in> set (GetDependentCyclic callerOfCycle) \<and> (''a'', ''a'') \<notin> (edges callerOfCycle)\<^sup>+"
  by (simp add: GetDependentCyclic_callerOfCycle a_not_on_cycle)

theorem GetDependentCyclic_detects_cycles_witness:
  "\<not> acyclic (edges callerOfCycle) \<and>
   (\<exists>c \<in> set (GetDependentCyclic callerOfCycle). (''a'', c) \<in> (edges callerOfCycle)\<^sup>*
      \<and> (c, c) \<in> (edges callerOfCycle)\<^sup>+)"
  using GetDependentCyclic_detects_cycles [of callerOfCycle]
  by (simp add: GetDependentCyclic_callerOfCycle)

end
