(* ===== verification/Names.thy ===== *)
theory Names
  imports GoStrings
begin

text \<open>
  Names of Kubernetes resources: the sanitiser \<open>ResourceK8sMetaString\<close> of
  \<^verbatim>\<open>src/pkg/format/format.go\<close>, the check \<open>validateStackName\<close> of
  \<^verbatim>\<open>src/pkg/model/stack.go\<close>, and the repository names of
  \<^verbatim>\<open>src/pkg/model/utils/utils.go\<close>. The lemmas say when a sanitised name passes the
  check, that a valid name is left alone, and which name a repository URL gets.
\<close>

section \<open>pkg/format: ResourceK8sMetaString\<close>

text \<open>The characters the regular expression \<open>[^a-z0-9\-]+\<close> does not match.\<close>

definition validKubeChar :: "char \<Rightarrow> bool" where
  "validKubeChar c \<longleftrightarrow>
     (CHR ''a'' \<le> c \<and> c \<le> CHR ''z'') \<or> (CHR ''0'' \<le> c \<and> c \<le> CHR ''9'') \<or> c = CHR ''-''"

text \<open>\<open>ReplaceAllString(name, "-")\<close>: each maximal run of other characters becomes one dash.\<close>

fun replaceInvalid :: "bool \<Rightarrow> string \<Rightarrow> string" where
  "replaceInvalid inRun [] = []"
| "replaceInvalid inRun (c # cs) =
     (if validKubeChar c then c # replaceInvalid False cs
      else if inRun then replaceInvalid True cs
      else CHR ''-'' # replaceInvalid True cs)"

definition maxK8sResourceMetaLength :: nat where
  "maxK8sResourceMetaLength = 63"

definition ResourceK8sMetaString :: "string \<Rightarrow> string" where
  "ResourceK8sMetaString name =
     (let name = trimSpace name;
          name = toLower name;
          name = replaceInvalid False name;
          name = (if length name > maxK8sResourceMetaLength
                  then take maxK8sResourceMetaLength name else name);
          name = trimSuffix name ''-''
      in trimPrefix name ''-'')"

section \<open>pkg/model: validateStackName\<close>

datatype nameErr = NameEmpty | BadStackName

definition validateStackName :: "string \<Rightarrow> nameErr option" where
  "validateStackName name =
     (if name = [] then Some NameEmpty
      else if \<not> list_all validKubeChar name then Some BadStackName
      else if hasPrefix name ''-'' \<or> hasSuffix name ''-'' then Some BadStackName
      else None)"

section \<open>pkg/model/utils: names of repositories\<close>

text \<open>\<open>strings.LastIndex\<close> of a substring.\<close>

fun lastIndexSub :: "string \<Rightarrow> string \<Rightarrow> nat option" where
  "lastIndexSub [] sub = (if sub = [] then Some 0 else None)"
| "lastIndexSub (x # xs) sub =
     (case lastIndexSub xs sub of
        Some i \<Rightarrow> Some (Suc i)
      | None \<Rightarrow> if prefix sub (x # xs) then Some 0 else None)"

text \<open>\<open>s[strings.Index(s, "/")+1:]\<close>, \<open>n\<close> times.\<close>

fun dropSegments :: "nat \<Rightarrow> string \<Rightarrow> string" where
  "dropSegments 0 s = s"
| "dropSegments (Suc n) s =
     dropSegments n (case index s (CHR ''/'') of None \<Rightarrow> s | Some i \<Rightarrow> drop (Suc i) s)"

text \<open>\<open>None\<close> is the slice bounds panic of \<open>possibleName[:len(possibleName)-1]\<close>.\<close>

definition findRepoName :: "string \<Rightarrow> string option" where
  "findRepoName repoURL =
     (let possibleName = (case lastIndex repoURL (CHR ''/'') of
                            None \<Rightarrow> repoURL | Some i \<Rightarrow> drop (Suc i) repoURL)
      in if possibleName = []
         then let nthTrim = count_list repoURL (CHR ''/'');
                  possibleName = dropSegments (nthTrim - 1) repoURL
              in if possibleName = [] then None
                 else Some (take (length possibleName - 1) possibleName)
         else Some possibleName)"

definition TranslateURLToName :: "string \<Rightarrow> string option" where
  "TranslateURLToName repoURL =
     (case findRepoName repoURL of
        None \<Rightarrow> None
      | Some repoName \<Rightarrow>
          if hasSuffix repoName ''.git''
          then map_option (\<lambda>i. take i repoName) (lastIndexSub repoName ''.git'')
          else Some repoName)"

section \<open>Lemmas on sanitised names\<close>

lemma replaceInvalid_valid: "list_all validKubeChar (replaceInvalid r s)"
  by (induction r s rule: replaceInvalid.induct) (auto simp: validKubeChar_def)

lemma replaceInvalid_id: "list_all validKubeChar s \<Longrightarrow> replaceInvalid False s = s"
  by (induction s) auto

lemma list_all_take: "list_all P s \<Longrightarrow> list_all P (take n s)"
  by (auto simp: list_all_iff dest: in_set_takeD)

lemma list_all_drop: "list_all P s \<Longrightarrow> list_all P (drop n s)"
  by (auto simp: list_all_iff dest: in_set_dropD)

lemma ResourceK8sMetaString_valid: "list_all validKubeChar (ResourceK8sMetaString s)"
  by (auto simp: ResourceK8sMetaString_def Let_def trimPrefix_def trimSuffix_def
      intro!: list_all_take list_all_drop replaceInvalid_valid)

lemma ResourceK8sMetaString_length: "length (ResourceK8sMetaString s) \<le> 63"
  by (auto simp: ResourceK8sMetaString_def Let_def trimPrefix_def trimSuffix_def
      maxK8sResourceMetaLength_def)

text \<open>No two dashes stand next to each other.\<close>

fun noDoubleDash :: "string \<Rightarrow> bool" where
  "noDoubleDash (a # b # s) = (\<not> (a = CHR ''-'' \<and> b = CHR ''-'') \<and> noDoubleDash (b # s))"
| "noDoubleDash _ = True"

lemma noDoubleDash_Cons:
  "noDoubleDash (a # s) \<longleftrightarrow> noDoubleDash s \<and> \<not> (a = CHR ''-'' \<and> s \<noteq> [] \<and> hd s = CHR ''-'')"
  by (cases s) auto

lemma noDoubleDash_append:
  "noDoubleDash (s @ t) \<longleftrightarrow> noDoubleDash s \<and> noDoubleDash t
     \<and> \<not> (s \<noteq> [] \<and> t \<noteq> [] \<and> last s = CHR ''-'' \<and> hd t = CHR ''-'')"
  by (induction s) (auto simp: noDoubleDash_Cons hd_append)

lemma noDoubleDash_take: "noDoubleDash s \<Longrightarrow> noDoubleDash (take n s)"
  by (metis append_take_drop_id noDoubleDash_append)

lemma hasPrefix1: "hasPrefix s [c] \<longleftrightarrow> s \<noteq> [] \<and> hd s = c"
  by (cases s) (auto simp: hasPrefix_def)

lemma hasSuffix1: "hasSuffix s [c] \<longleftrightarrow> s \<noteq> [] \<and> last s = c"
  by (cases s rule: rev_cases) (auto simp: hasSuffix_def)

lemma trimSuffix1_snoc: "trimSuffix (s @ [c]) [c] = s"
  by (simp add: trimSuffix_def hasSuffix1)

lemma trimPrefix1_Cons: "trimPrefix (c # s) [c] = s"
  by (simp add: trimPrefix_def hasPrefix1)

lemma trimSuffix_no_dash:
  assumes "noDoubleDash s"
  shows "\<not> hasSuffix (trimSuffix s ''-'') ''-''" and "noDoubleDash (trimSuffix s ''-'')"
proof -
  have "\<not> hasSuffix (trimSuffix s ''-'') ''-'' \<and> noDoubleDash (trimSuffix s ''-'')"
  proof (cases "hasSuffix s ''-''")
    case True
    then obtain t where s: "s = t @ ''-''" by (auto simp: hasSuffix_def suffix_def)
    with assms show ?thesis by (auto simp: trimSuffix1_snoc hasSuffix1 noDoubleDash_append)
  next
    case False
    with assms show ?thesis by (simp add: trimSuffix_def)
  qed
  then show "\<not> hasSuffix (trimSuffix s ''-'') ''-''" and "noDoubleDash (trimSuffix s ''-'')"
    by simp_all
qed

lemma trimPrefix_no_dash:
  assumes "noDoubleDash s" and "\<not> hasSuffix s ''-''"
  shows "\<not> hasPrefix (trimPrefix s ''-'') ''-'' \<and> \<not> hasSuffix (trimPrefix s ''-'') ''-''"
proof (cases s)
  case Nil
  then show ?thesis by (simp add: trimPrefix_def hasPrefix1 hasSuffix1)
next
  case (Cons c t)
  with assms show ?thesis
    by (auto simp: trimPrefix_def hasPrefix1 hasSuffix1 noDoubleDash_Cons split: if_splits)
qed

lemma ResourceK8sMetaString_ok:
  assumes "noDoubleDash (replaceInvalid False (toLower (trimSpace s)))"
    and "ResourceK8sMetaString s \<noteq> []"
  shows "validateStackName (ResourceK8sMetaString s) = None"
proof -
  let ?n = "replaceInvalid False (toLower (trimSpace s))"
  let ?t = "if length ?n > maxK8sResourceMetaLength then take maxK8sResourceMetaLength ?n else ?n"
  have "noDoubleDash ?t" using assms(1) by (simp add: noDoubleDash_take)
  then have "\<not> hasPrefix (ResourceK8sMetaString s) ''-''" "\<not> hasSuffix (ResourceK8sMetaString s) ''-''"
    using trimPrefix_no_dash [OF trimSuffix_no_dash(2) trimSuffix_no_dash(1)]
    by (simp_all add: ResourceK8sMetaString_def Let_def)
  with assms(2) ResourceK8sMetaString_valid [of s] show ?thesis
    by (simp add: validateStackName_def)
qed

lemma replaceInvalid_noDoubleDash:
  "CHR ''-'' \<notin> set s \<Longrightarrow> noDoubleDash (replaceInvalid r s)
     \<and> (r \<longrightarrow> replaceInvalid r s \<noteq> [] \<longrightarrow> hd (replaceInvalid r s) \<noteq> CHR ''-'')"
  by (induction r s rule: replaceInvalid.induct) (auto simp: noDoubleDash_Cons)

lemma lowerChar_dash: "lowerChar c = CHR ''-'' \<longleftrightarrow> c = CHR ''-''"
proof
  assume a: "lowerChar c = CHR ''-''"
  show "c = CHR ''-''"
  proof (cases "CHR ''A'' \<le> c \<and> c \<le> CHR ''Z''")
    case True
    then have b: "65 \<le> (of_char c :: nat)" "(of_char c :: nat) \<le> 90"
      by (simp_all add: less_eq_char_def)
    with a True have "(of_char (char_of (of_char c + 32 :: nat) :: char) :: nat) = 45"
      by (simp add: lowerChar_def)
    with b show ?thesis by simp
  next
    case False
    with a show ?thesis by (simp add: lowerChar_def split: if_splits)
  qed
qed (simp add: lowerChar_def less_eq_char_def)

lemma set_trimSpace: "set (trimSpace s) \<subseteq> set s"
  by (metis set_dropWhileD set_rev subsetI trimSpace_def)

text \<open>A valid name has no upper case letter and no space, so the sanitiser keeps it.\<close>

lemma lowerChar_valid: "validKubeChar c \<Longrightarrow> lowerChar c = c"
  by (auto simp: lowerChar_def validKubeChar_def less_eq_char_def)

lemma isSpace_invalid: "validKubeChar c \<Longrightarrow> \<not> isSpace c"
  by (auto simp: isSpace_def validKubeChar_def less_eq_char_def)

lemma dropWhile_none: "list_all validKubeChar s \<Longrightarrow> dropWhile isSpace s = s"
  by (cases s) (auto simp: isSpace_invalid)

lemma trimSpace_valid: "list_all validKubeChar s \<Longrightarrow> trimSpace s = s"
  by (simp add: trimSpace_def dropWhile_none)

lemma toLower_valid: "list_all validKubeChar s \<Longrightarrow> toLower s = s"
  by (induction s) (auto simp: toLower_def lowerChar_valid)

lemma ResourceK8sMetaString_id:
  assumes "validateStackName s = None" and "length s \<le> 63"
  shows "ResourceK8sMetaString s = s"
proof -
  have "list_all validKubeChar s" "\<not> hasPrefix s ''-''" "\<not> hasSuffix s ''-''"
    using assms(1) by (auto simp: validateStackName_def split: if_splits)
  with assms(2) show ?thesis
    by (simp add: ResourceK8sMetaString_def trimSpace_valid toLower_valid replaceInvalid_id
        maxK8sResourceMetaLength_def trimSuffix_def trimPrefix_def)
qed

section \<open>Lemmas on repository names\<close>

lemma lastIndexSub_suffix:
  "sub \<noteq> [] \<Longrightarrow> lastIndexSub (s @ sub) sub = Some (length s)"
proof (induction s)
  case Nil
  have "lastIndexSub xs sub = None" if "length xs < length sub" for xs
    using that Nil
    by (induction xs) (auto dest: prefix_length_le split: option.split)
  with Nil show ?case by (cases sub) auto
next
  case (Cons x s)
  then show ?case by simp
qed

lemma lastIndex_None: "c \<notin> set s \<Longrightarrow> lastIndex s c = None"
  by (induction s) auto

lemma lastIndex_append: "c \<notin> set t \<Longrightarrow> lastIndex (s @ c # t) c = Some (length s)"
  by (induction s) (auto simp: lastIndex_None)

lemma index_append: "c \<notin> set s \<Longrightarrow> index (s @ c # t) c = Some (length s)"
  by (induction s) auto

lemma dropSegments_append:
  "dropSegments (Suc (count_list s (CHR ''/''))) (s @ CHR ''/'' # t) = t"
proof (induction "length s" arbitrary: s rule: less_induct)
  case less
  show ?case
  proof (cases "CHR ''/'' \<in> set s")
    case False
    then show ?thesis by (simp add: index_append count_notin)
  next
    case True
    then obtain a b where s: "s = a @ CHR ''/'' # b" "CHR ''/'' \<notin> set a"
      by (meson split_list_first)
    then have "dropSegments (Suc (count_list b (CHR ''/''))) (b @ CHR ''/'' # t) = t"
      by (intro less) simp
    with s show ?thesis by (simp add: index_append count_notin)
  qed
qed

lemma findRepoName_plain:
  "n \<noteq> [] \<Longrightarrow> CHR ''/'' \<notin> set n \<Longrightarrow> findRepoName (u @ CHR ''/'' # n) = Some n"
  by (simp add: findRepoName_def lastIndex_append)

lemma findRepoName_slash:
  "n \<noteq> [] \<Longrightarrow> CHR ''/'' \<notin> set n \<Longrightarrow> findRepoName (u @ CHR ''/'' # n @ ''/'') = Some n"
  using lastIndex_append [of "CHR ''/''" "[]" "u @ CHR ''/'' # n"] dropSegments_append [of u "n @ ''/''"]
  by (simp add: findRepoName_def count_notin)

lemma TranslateURLToName_of:
  assumes "findRepoName u = Some (n @ ''.git'')"
  shows "TranslateURLToName u = Some n"
  using assms lastIndexSub_suffix [of "''.git''" n]
  by (simp add: TranslateURLToName_def hasSuffix_def suffix_def)

section \<open>Properties\<close>

lemma sanitised_dashless:
  assumes "CHR ''-'' \<notin> set s"
  shows "noDoubleDash (replaceInvalid False (toLower (trimSpace s)))"
proof -
  have "CHR ''-'' \<notin> set (toLower (trimSpace s))"
    using assms set_trimSpace [of s] lowerChar_dash unfolding toLower_def set_map
    by (metis imageE subsetD)
  then show ?thesis using replaceInvalid_noDoubleDash by blast
qed

text \<open>A sanitised name never breaks the limits of Kubernetes metadata: at most 63 characters, all of
  them lower case letters, digits or dashes; and when the original name has no dash, the result is
  either empty or passes the check of compose names.\<close>

theorem sanitised_name_valid:
  "length (ResourceK8sMetaString s) \<le> 63 \<and> list_all validKubeChar (ResourceK8sMetaString s) \<and>
   (CHR ''-'' \<notin> set s \<longrightarrow>
      ResourceK8sMetaString s = [] \<or> validateStackName (ResourceK8sMetaString s) = None)"
  using ResourceK8sMetaString_length [of s] ResourceK8sMetaString_valid [of s]
    ResourceK8sMetaString_ok [OF sanitised_dashless, of s]
  by metis

theorem sanitised_name_valid_witness:
  "CHR ''-'' \<notin> set '' My App/2'' \<and> ResourceK8sMetaString '' My App/2'' = ''my-app-2'' \<and>
   validateStackName ''my-app-2'' = None"
proof -
  have "ResourceK8sMetaString '' My App/2'' = ''my-app-2''" by code_simp
  with sanitised_name_valid [of "'' My App/2''"] show ?thesis by simp
qed

text \<open>The sanitiser and the check agree: a name that passes the check and fits in a label is kept as
  it is.\<close>

theorem valid_name_is_kept:
  assumes "validateStackName s = None" and "length s \<le> 63"
  shows "ResourceK8sMetaString s = s"
  using assms by (rule ResourceK8sMetaString_id)

theorem valid_name_is_kept_witness: "ResourceK8sMetaString ''voting-app'' = ''voting-app''"
proof (rule valid_name_is_kept)
  show "validateStackName ''voting-app'' = None" by code_simp
qed simp

text \<open>
  One trailing dash is trimmed, not all of them: a name that ends in two dashes keeps one, the
  result fails the check, and sanitising it again changes it.
\<close>

lemma ResourceK8sMetaString_double_dash:
  "ResourceK8sMetaString ''a--'' = ''a-''"
  "validateStackName (ResourceK8sMetaString ''a--'') = Some BadStackName"
  "ResourceK8sMetaString (ResourceK8sMetaString ''a--'') = ''a''"
  by code_simp+

text \<open>The name of a repository is recovered from its URL: with or without the suffix \<open>.git\<close>, and with
  or without a trailing slash.\<close>

theorem repository_name_roundtrip:
  assumes "n \<noteq> []" and "CHR ''/'' \<notin> set n" and "\<not> hasSuffix n ''.git''"
  shows "TranslateURLToName (u @ ''/'' @ n) = Some n \<and>
         TranslateURLToName (u @ ''/'' @ n @ ''/'') = Some n \<and>
         TranslateURLToName (u @ ''/'' @ n @ ''.git'') = Some n \<and>
         TranslateURLToName (u @ ''/'' @ n @ ''.git/'') = Some n"
proof -
  have "TranslateURLToName (u @ ''/'' @ n @ ''.git'') = Some n"
    "TranslateURLToName (u @ ''/'' @ n @ ''.git/'') = Some n"
    using assms findRepoName_plain [of "n @ ''.git''" u] findRepoName_slash [of "n @ ''.git''" u]
    by (simp_all add: TranslateURLToName_of)
  moreover have "TranslateURLToName (u @ ''/'' @ n) = Some n"
    "TranslateURLToName (u @ ''/'' @ n @ ''/'') = Some n"
    using assms findRepoName_plain [of n u] findRepoName_slash [of n u]
    by (simp_all add: TranslateURLToName_def)
  ultimately show ?thesis by simp
qed

theorem repository_name_roundtrip_witness:
  "TranslateURLToName ''https://github.com/okteto/movies.git'' = Some ''movies'' \<and>
   TranslateURLToName ''https://github.com/okteto/movies/'' = Some ''movies''"
  using repository_name_roundtrip [of "''movies''" "''https://github.com/okteto''"]
  by (simp add: hasSuffix_def suffix_def)

text \<open>The empty URL makes the code slice an empty string below zero.\<close>

lemma findRepoName_empty_panics: "findRepoName [] = None"
  by code_simp

end
