(* ===== verification/GoPath.thy ===== *)
theory GoPath
  imports GoStrings
begin

text \<open>
  The part of Go's \<open>path/filepath\<close> that the program calls, for a system whose separator is the
  slash: \<open>Clean\<close>, \<open>Join\<close>, \<open>Rel\<close>, \<open>Base\<close>, \<open>Dir\<close>, \<open>Ext\<close> and \<open>IsAbs\<close>
  (\<open>ToSlash\<close> is the identity there and \<open>VolumeName\<close> is empty). A path is cleaned on the list
  of its elements. The lemmas say that cleaned paths are normal and that \<open>Rel\<close> of a path to
  itself is the dot.
\<close>

definition IsAbs :: "string \<Rightarrow> bool" where
  "IsAbs p \<longleftrightarrow> hasPrefix p ''/''"

text \<open>One pass over the elements; \<open>out\<close> holds the elements kept so far, last one first.\<close>

fun cleanElems :: "bool \<Rightarrow> string list \<Rightarrow> string list \<Rightarrow> string list" where
  "cleanElems rooted out [] = rev out"
| "cleanElems rooted out (e # es) =
     (if e = [] \<or> e = ''.'' then cleanElems rooted out es
      else if e = ''..'' then
        (case out of
           [] \<Rightarrow> if rooted then cleanElems rooted [] es else cleanElems rooted [''..''] es
         | x # xs \<Rightarrow> if x = ''..'' then cleanElems rooted (''..'' # out) es
                      else cleanElems rooted xs es)
      else cleanElems rooted (e # out) es)"

definition pathElems :: "string \<Rightarrow> string list" where
  "pathElems p = cleanElems (IsAbs p) [] (split (CHR ''/'') p)"

definition unelems :: "bool \<Rightarrow> string list \<Rightarrow> string" where
  "unelems rooted es =
     (if rooted then CHR ''/'' # join ''/'' es else if es = [] then ''.'' else join ''/'' es)"

definition Clean :: "string \<Rightarrow> string" where
  "Clean p = unelems (IsAbs p) (pathElems p)"

definition joinPaths :: "string list \<Rightarrow> string" where
  "joinPaths elems =
     (case dropWhile (\<lambda>e. e = []) elems of [] \<Rightarrow> [] | es \<Rightarrow> Clean (join ''/'' es))"

fun stripCommon :: "string list \<Rightarrow> string list \<Rightarrow> string list \<times> string list" where
  "stripCommon (b # bs) (t # ts) = (if b = t then stripCommon bs ts else (b # bs, t # ts))"
| "stripCommon bs ts = (bs, ts)"

text \<open>\<open>None\<close> is the error that no relative path exists.\<close>

definition Rel :: "string \<Rightarrow> string \<Rightarrow> string option" where
  "Rel base targ =
     (if Clean base = Clean targ then Some ''.''
      else if IsAbs base \<noteq> IsAbs targ then None
      else case stripCommon (pathElems base) (pathElems targ) of
        (bs, ts) \<Rightarrow>
          if bs \<noteq> [] \<and> hd bs = ''..'' \<and> ts \<noteq> [] then None
          else Some (join ''/'' (replicate (length bs) ''..'' @ ts)))"

definition Base :: "string \<Rightarrow> string" where
  "Base p =
     (if p = [] then ''.''
      else let q = rev (dropWhile (\<lambda>c. c = CHR ''/'') (rev p));
               r = (case lastIndex q (CHR ''/'') of None \<Rightarrow> q | Some i \<Rightarrow> drop (Suc i) q)
           in if r = [] then ''/'' else r)"

definition Dir :: "string \<Rightarrow> string" where
  "Dir p = Clean (case lastIndex p (CHR ''/'') of None \<Rightarrow> [] | Some i \<Rightarrow> take (Suc i) p)"

definition Ext :: "string \<Rightarrow> string" where
  "Ext p =
     (let b = (case lastIndex p (CHR ''/'') of None \<Rightarrow> p | Some i \<Rightarrow> drop (Suc i) p)
      in case lastIndex b (CHR ''.'') of None \<Rightarrow> [] | Some i \<Rightarrow> drop i b)"

section \<open>Lemmas\<close>

lemma Rel_same [simp]: "Rel p p = Some ''.''"
  by (simp add: Rel_def)

text \<open>The elements of a cleaned path: none is empty, a dot, or holds a slash.\<close>

definition normalElem :: "string \<Rightarrow> bool" where
  "normalElem e \<longleftrightarrow> e \<noteq> [] \<and> e \<noteq> ''.'' \<and> CHR ''/'' \<notin> set e"

lemma normalElem_dotdot [simp]: "normalElem ''..''"
  by (simp add: normalElem_def)

lemma normalElem_cleanElems:
  "list_all normalElem out \<Longrightarrow> \<forall>e \<in> set es. CHR ''/'' \<notin> set e \<Longrightarrow>
     list_all normalElem (cleanElems r out es)"
proof (induction es arbitrary: out)
  case Nil
  then show ?case by simp
next
  case (Cons e es)
  have "normalElem e \<or> e = [] \<or> e = ''.''"
    using Cons.prems by (auto simp: normalElem_def)
  moreover have "\<forall>e \<in> set es. CHR ''/'' \<notin> set e" using Cons.prems by simp
  ultimately show ?case
    using Cons.IH Cons.prems(1)
    by (cases out; cases r) auto
qed

lemma normalElem_pathElems: "list_all normalElem (pathElems p)"
  unfolding pathElems_def
  by (rule normalElem_cleanElems) (auto dest: split_no_sep)

lemma split_join:
  "es \<noteq> [] \<Longrightarrow> \<forall>e \<in> set es. c \<notin> set e \<Longrightarrow> split c (join [c] es) = es"
proof (induction "[c]" es rule: join.induct)
  case (2 x)
  have "c \<notin> set y \<Longrightarrow> split c y = [y]" for y by (induction y) auto
  with 2 show ?case by simp
next
  case (3 x y xs)
  have "c \<notin> set z \<Longrightarrow> split c (z @ c # s) = z # split c s" for z s
    by (induction z) auto
  with 3 show ?case by simp
qed simp

end
