(* ===== verification/K8sTypes.thy ===== *)
theory K8sTypes
  imports GoStrings
begin

text \<open>
  The Kubernetes objects the program builds and edits, as records with the fields it reads or
  writes, and the program's own label and annotation keys
  (\<^verbatim>\<open>src/pkg/model/const.go\<close>, \<^verbatim>\<open>src/pkg/constants/constants.go\<close>). The types
  are data of the Kubernetes API; nothing of the API's behaviour is assumed here. A nil pointer is
  \<open>None\<close>. A nil map and an empty one are both \<open>[]\<close>, except for resource lists, where the
  program tells them apart and the field is optional. A quantity is the number it denotes, in
  thousandths of its unit, which is what \<open>Cmp\<close> and \<open>IsZero\<close> look at. What the program only
  carries along (the source of a volume it did not create, say) is an uninterpreted string.
\<close>

section \<open>Pods\<close>

type_synonym quantity = int
type_synonym resourceList = "(string, quantity) gomap option"

record objectMeta =
  om_Name :: string
  om_Namespace :: string
  om_UID :: string
  om_Labels :: smap
  om_Annotations :: smap

record envVar =
  ev_Name :: string
  ev_Value :: string
  ev_ValueFrom :: "string option"

record volumeMount =
  vm_Name :: string
  vm_MountPath :: string
  vm_SubPath :: string
  vm_ReadOnly :: bool

record keyToPath =
  kp_Key :: string
  kp_Path :: string
  kp_Mode :: int

datatype volumeSource =
    PVCSource string bool
  | EmptyDirSource
  | SecretSource string "keyToPath list"
  | TokenSource string int string
  | OtherSource string

record volume =
  v_Name :: string
  v_Source :: volumeSource

datatype handler =
    ExecHandler "string list"
  | HTTPGetHandler string int
  | OtherHandler string

record probe =
  pr_Handler :: handler
  pr_TimeoutSeconds :: int
  pr_PeriodSeconds :: int
  pr_FailureThreshold :: int
  pr_InitialDelaySeconds :: int

record lifecycle =
  lc_PostStart :: "handler option"
  lc_PreStop :: "handler option"

record capabilities =
  cap_Add :: "string list"
  cap_Drop :: "string list"

record securityContext =
  sc_RunAsUser :: "int option"
  sc_RunAsGroup :: "int option"
  sc_RunAsNonRoot :: "bool option"
  sc_AllowPrivilegeEscalation :: "bool option"
  sc_ReadOnlyRootFilesystem :: "bool option"
  sc_Capabilities :: "capabilities option"

record resourceRequirements =
  rr_Limits :: resourceList
  rr_Requests :: resourceList

record container =
  c_Name :: string
  c_Image :: string
  c_ImagePullPolicy :: string
  c_Command :: "string list"
  c_Args :: "string list"
  c_WorkingDir :: string
  c_Env :: "envVar list"
  c_Ports :: "int list"
  c_Resources :: resourceRequirements
  c_VolumeMounts :: "volumeMount list"
  c_ReadinessProbe :: "probe option"
  c_LivenessProbe :: "probe option"
  c_StartupProbe :: "probe option"
  c_Lifecycle :: "lifecycle option"
  c_SecurityContext :: "securityContext option"

definition emptyContainer :: container where
  "emptyContainer =
     \<lparr>c_Name = [], c_Image = [], c_ImagePullPolicy = [], c_Command = [], c_Args = [],
      c_WorkingDir = [], c_Env = [], c_Ports = [],
      c_Resources = \<lparr>rr_Limits = None, rr_Requests = None\<rparr>, c_VolumeMounts = [],
      c_ReadinessProbe = None, c_LivenessProbe = None, c_StartupProbe = None,
      c_Lifecycle = None, c_SecurityContext = None\<rparr>"

record podAffinityTerm =
  pat_TopologyKey :: string
  pat_MatchExpressions :: "(string \<times> string) list"

record affinity =
  aff_NodeAffinity :: "string option"
  aff_PodAffinity :: "podAffinityTerm list option"
  aff_PodAntiAffinity :: "string option"

record podSpec =
  ps_InitContainers :: "container list"
  ps_Containers :: "container list"
  ps_Volumes :: "volume list"
  ps_Affinity :: "affinity option"
  ps_NodeSelector :: smap
  ps_EnableServiceLinks :: "bool option"
  ps_TerminationGracePeriodSeconds :: "int option"
  ps_RestartPolicy :: string
  ps_ServiceAccountName :: string
  ps_PriorityClassName :: string
  ps_FSGroup :: "int option option"
  ps_Tolerations :: "string list"

definition emptyPodSpec :: podSpec where
  "emptyPodSpec =
     \<lparr>ps_InitContainers = [], ps_Containers = [], ps_Volumes = [], ps_Affinity = None,
      ps_NodeSelector = [], ps_EnableServiceLinks = None, ps_TerminationGracePeriodSeconds = None,
      ps_RestartPolicy = [], ps_ServiceAccountName = [], ps_PriorityClassName = [],
      ps_FSGroup = None, ps_Tolerations = []\<rparr>"

section \<open>Workloads, services, volumes, configuration\<close>

record podTemplate =
  pt_Meta :: objectMeta
  pt_Spec :: podSpec

record persistentVolumeClaim =
  pvc_Meta :: objectMeta
  pvc_AccessModes :: "string list"
  pvc_Storage :: quantity
  pvc_StorageClassName :: "string option"

record deployment =
  d_Meta :: objectMeta
  d_Replicas :: "int option"
  d_MatchLabels :: smap
  d_Strategy :: string
  d_Template :: podTemplate

record statefulSet =
  sfs_Meta :: objectMeta
  sfs_Replicas :: "int option"
  sfs_RevisionHistoryLimit :: "int option"
  sfs_MatchLabels :: smap
  sfs_UpdateStrategy :: string
  sfs_ServiceName :: string
  sfs_Template :: podTemplate
  sfs_VolumeClaimTemplates :: "persistentVolumeClaim list"

record job =
  j_Meta :: objectMeta
  j_Completions :: int
  j_Parallelism :: int
  j_BackoffLimit :: int
  j_Template :: podTemplate

record servicePort =
  sp_Name :: string
  sp_Port :: int
  sp_TargetPort :: int
  sp_Protocol :: string

record k8sService =
  ks_Meta :: objectMeta
  ks_Selector :: smap
  ks_Type :: string
  ks_ClusterIP :: string
  ks_ExternalName :: string
  ks_Ports :: "servicePort list"

record configMap =
  cm_Namespace :: string
  cm_Name :: string
  cm_Labels :: smap
  cm_Annotations :: smap
  cm_Data :: smap

text \<open>\<open>metav1.ObjectMeta{Name, Namespace, Labels, Annotations}\<close>: a new object has no UID.\<close>

definition newMeta :: "string \<Rightarrow> string \<Rightarrow> smap \<Rightarrow> smap \<Rightarrow> objectMeta" where
  "newMeta name ns labels annotations =
     \<lparr>om_Name = name, om_Namespace = ns, om_UID = [], om_Labels = labels,
      om_Annotations = annotations\<rparr>"

lemma newMeta_simps [simp]:
  "om_Name (newMeta n ns ls as) = n" "om_Namespace (newMeta n ns ls as) = ns"
  "om_Labels (newMeta n ns ls as) = ls" "om_Annotations (newMeta n ns ls as) = as"
  "om_UID (newMeta n ns ls as) = []"
  by (simp_all add: newMeta_def)

section \<open>Constants of the Kubernetes API\<close>

definition PullAlways :: string where [go_consts]: "PullAlways = ''Always''"
definition PullIfNotPresent :: string where [go_consts]: "PullIfNotPresent = ''IfNotPresent''"
definition PullNever :: string where [go_consts]: "PullNever = ''Never''"
definition RestartPolicyAlways :: string where [go_consts]: "RestartPolicyAlways = ''Always''"
definition RestartPolicyOnFailure :: string where [go_consts]: "RestartPolicyOnFailure = ''OnFailure''"
definition RestartPolicyNever :: string where [go_consts]: "RestartPolicyNever = ''Never''"
definition ReadWriteOnce :: string where [go_consts]: "ReadWriteOnce = ''ReadWriteOnce''"
definition ReadWriteMany :: string where [go_consts]: "ReadWriteMany = ''ReadWriteMany''"
definition ResourceCPU :: string where [go_consts]: "ResourceCPU = ''cpu''"
definition ResourceMemory :: string where [go_consts]: "ResourceMemory = ''memory''"
definition ResourceEphemeralStorage :: string where
  [go_consts]: "ResourceEphemeralStorage = ''ephemeral-storage''"

section \<open>Label and annotation keys of the program\<close>

definition DevCloneLabel :: string where [go_consts]: "DevCloneLabel = ''dev.okteto.com/clone''"
definition AppReplicasAnnotation :: string where
  [go_consts]: "AppReplicasAnnotation = ''dev.okteto.com/replicas''"
definition InteractiveDevLabel :: string where
  [go_consts]: "InteractiveDevLabel = ''interactive.dev.okteto.com''"
definition OktetoSampleAnnotation :: string where
  [go_consts]: "OktetoSampleAnnotation = ''dev.okteto.com/sample''"
definition OktetoComposeUpdateStrategyAnnotation :: string where
  [go_consts]: "OktetoComposeUpdateStrategyAnnotation = ''dev.okteto.com/update''"
definition DetachedDevLabel :: string where
  [go_consts]: "DetachedDevLabel = ''detached.dev.okteto.com''"
definition OktetoRevisionAnnotation :: string where
  [go_consts]: "OktetoRevisionAnnotation = ''dev.okteto.com/revision''"
definition DeploymentAnnotation :: string where
  [go_consts]: "DeploymentAnnotation = ''dev.okteto.com/deployment''"
definition StatefulsetAnnotation :: string where
  [go_consts]: "StatefulsetAnnotation = ''dev.okteto.com/statefulset''"
definition TranslationAnnotation :: string where
  [go_consts]: "TranslationAnnotation = ''dev.okteto.com/translation''"
definition StateBeforeSleepingAnnontation :: string where
  [go_consts]: "StateBeforeSleepingAnnontation = ''dev.okteto.com/state-before-sleeping''"
definition DeployedByLabel :: string where
  [go_consts]: "DeployedByLabel = ''dev.okteto.com/deployed-by''"
definition StackLabel :: string where [go_consts]: "StackLabel = ''stack.okteto.com''"
definition StackNameLabel :: string where [go_consts]: "StackNameLabel = ''stack.okteto.com/name''"
definition StackServiceNameLabel :: string where
  [go_consts]: "StackServiceNameLabel = ''stack.okteto.com/service''"
definition StackEndpointNameLabel :: string where
  [go_consts]: "StackEndpointNameLabel = ''stack.okteto.com/endpoint''"
definition StackVolumeNameLabel :: string where
  [go_consts]: "StackVolumeNameLabel = ''stack.okteto.com/volume''"
definition OktetoAutoCreateAnnotation :: string where
  [go_consts]: "OktetoAutoCreateAnnotation = ''dev.okteto.com/auto-create''"
definition OktetoUpCmd :: string where [go_consts]: "OktetoUpCmd = ''up''"
definition OktetoRestartAnnotation :: string where
  [go_consts]: "OktetoRestartAnnotation = ''dev.okteto.com/restart''"
definition OktetoSyncAnnotation :: string where
  [go_consts]: "OktetoSyncAnnotation = ''dev.okteto.com/sync''"
definition OktetoStignoreAnnotation :: string where
  [go_consts]: "OktetoStignoreAnnotation = ''dev.okteto.com/stignore''"
definition DevLabel :: string where [go_consts]: "DevLabel = ''dev.okteto.com''"
definition OktetoDevModeAnnotation :: string where
  [go_consts]: "OktetoDevModeAnnotation = ''dev.okteto.com/dev-mode''"

end
