(* ===== verification/Compose.thy ===== *)
theory Compose
  imports DependencyGraph Names GoPath K8sTypes
begin

text \<open>
  The compose model of \<^verbatim>\<open>src/pkg/model/stack.go\<close>: the types of a stack and its services, the
  classification of services into deployments, stateful sets and jobs, the merge of a compose file
  with its override, the defaults \<open>ReadStack\<close> fills in, the environment read from \<open>env_file\<close>s,
  and \<open>Validate\<close> with the checks of \<open>depends_on\<close>. A \<open>map[string]*Service\<close> is a Go map of
  records: every pointer of it is reached through the map only. Ports and counters are integers;
  the code compares and copies them and never computes with them. Durations are nanoseconds.
\<close>

section \<open>Types\<close>

record port =
  p_Protocol :: string
  p_HostPort :: int
  p_ContainerPort :: int

record volumeMounts =
  vo_LocalPath :: string
  vo_RemotePath :: string

record var =
  va_Name :: string
  va_Value :: string

type_synonym environment = "var list"

text \<open>A secret of a build: a file, or the name of a variable.\<close>

record buildSecret =
  bse_File :: string
  bse_Env :: string

record buildInfo =
  bi_Secrets :: "(string, buildSecret) gomap"
  bi_Context :: string
  bi_Dockerfile :: string
  bi_Target :: string
  bi_Image :: string
  bi_CacheFrom :: "string list"
  bi_Args :: "var list"
  bi_VolumesToInclude :: "volumeMounts list"
  bi_ExportCache :: "string list"
  bi_DependsOn :: "string list"

record httpHealthcheck =
  hh_Path :: string
  hh_Port :: int

record healthCheck =
  hc_HTTP :: "httpHealthcheck option"
  hc_Test :: "string list"
  hc_Interval :: int
  hc_Timeout :: int
  hc_Retries :: int
  hc_StartPeriod :: int
  hc_Disable :: bool
  hc_Liveness :: bool
  hc_Readiness :: bool

record storageResource =
  st_Size :: quantity
  st_Class :: string

record serviceResources =
  sr_CPU :: quantity
  sr_Memory :: quantity
  sr_Storage :: storageResource

record stackResources =
  sr_Limits :: serviceResources
  sr_Requests :: serviceResources

record stackSecurityContext =
  ss_RunAsUser :: "int option"
  ss_RunAsGroup :: "int option"

record serviceIdentityToken =
  it_ExpirationSeconds :: "int option"
  it_Audience :: string
  it_MountPath :: string

type_synonym dependsOn = "(string, string) gomap"

definition DependsOnServiceHealthy :: string where
  [go_consts]: "DependsOnServiceHealthy = ''service_healthy''"
definition DependsOnServiceRunning :: string where
  [go_consts]: "DependsOnServiceRunning = ''service_started''"
definition DependsOnServiceCompleted :: string where
  [go_consts]: "DependsOnServiceCompleted = ''service_completed_successfully''"
definition EndpointModeVIP :: string where [go_consts]: "EndpointModeVIP = ''vip''"
definition EndpointModeDNSRR :: string where [go_consts]: "EndpointModeDNSRR = ''dnsrr''"

record service =
  s_Healtcheck :: "healthCheck option"
  s_Labels :: smap
  s_Resources :: "stackResources option"
  s_NodeSelector :: smap
  s_EnableServiceLinks :: "bool option"
  s_User :: "stackSecurityContext option"
  s_DependsOn :: dependsOn
  s_Build :: "buildInfo option"
  s_IdentityToken :: "serviceIdentityToken option"
  s_Workdir :: string
  s_Image :: string
  s_RestartPolicy :: string
  s_Environment :: environment
  s_Ports :: "port list"
  s_Volumes :: "volumeMounts list"
  s_CapAdd :: "string list"
  s_CapDrop :: "string list"
  s_VolumeMounts :: "volumeMounts list"
  s_EnvFiles :: "string list"
  s_Command :: "string list"
  s_Annotations :: smap
  s_Entrypoint :: "string list"
  s_StopGracePeriod :: int
  s_Replicas :: int
  s_BackOffLimit :: int
  s_Public :: bool
  s_EndpointMode :: string

type_synonym composeServices = "(string, service) gomap"

record volumeSpec =
  vs_Labels :: smap
  vs_Annotations :: smap
  vs_Size :: quantity
  vs_Class :: string

record endpointRule =
  er_Path :: string
  er_Service :: string
  er_Port :: int

record endpoint =
  en_Labels :: smap
  en_Annotations :: smap
  en_Rules :: "endpointRule list"

type_synonym endpointSpec = "(string, endpoint) gomap"

record stackWarnings =
  sw_NotSupportedFields :: "string list"
  sw_SanitizedServices :: smap
  sw_VolumeMountWarnings :: "string list"

record stack =
  sk_Volumes :: "(string, volumeSpec) gomap"
  sk_Services :: composeServices
  sk_Endpoints :: endpointSpec
  sk_Name :: string
  sk_Namespace :: string
  sk_Context :: string
  sk_Warnings :: stackWarnings
  sk_Manifest :: string
  sk_Paths :: "string list"
  sk_IsCompose :: bool

text \<open>The zero value of \<open>Service\<close>.\<close>

definition emptyService :: service where
  "emptyService =
     \<lparr>s_Healtcheck = None, s_Labels = [], s_Resources = None, s_NodeSelector = [],
      s_EnableServiceLinks = None, s_User = None, s_DependsOn = [], s_Build = None,
      s_IdentityToken = None, s_Workdir = [], s_Image = [], s_RestartPolicy = [],
      s_Environment = [], s_Ports = [], s_Volumes = [], s_CapAdd = [], s_CapDrop = [],
      s_VolumeMounts = [], s_EnvFiles = [], s_Command = [], s_Annotations = [],
      s_Entrypoint = [], s_StopGracePeriod = 0, s_Replicas = 0, s_BackOffLimit = 0,
      s_Public = False, s_EndpointMode = []\<rparr>"

definition emptyStack :: stack where
  "emptyStack =
     \<lparr>sk_Volumes = [], sk_Services = [], sk_Endpoints = [], sk_Name = [], sk_Namespace = [],
      sk_Context = [], sk_Warnings = \<lparr>sw_NotSupportedFields = [], sw_SanitizedServices = [],
        sw_VolumeMountWarnings = []\<rparr>, sk_Manifest = [], sk_Paths = [], sk_IsCompose = False\<rparr>"

text \<open>Errors, in the order the code returns them; \<open>GoPanic\<close> stands for a run time panic.\<close>

datatype composeErr =
    GoPanic
  | InvalidComposeName nameErr
  | ServicesEmpty
  | EndpointPortMissing string string int
  | GetwdFailed
  | InvalidServiceName string nameErr
  | ImageEmpty string
  | VolumeNotAbsolute string string
  | ServiceNotDefined string
  | DependsOnItself string
  | DependsOnUndefined string string
  | DependsOnNotJob string
  | DependencyCycle "string list"
  | FileError string
  | EnvFileError string
  | ManifestEmpty
  | UnmarshalError string
  | SetenvFailed
  | ComposeFileNotFound

section \<open>Services\<close>

definition getNames :: "composeServices \<Rightarrow> string list" where
  "getNames cs = gkeys cs"

definition volumeToString :: "volumeMounts \<Rightarrow> string" where
  "volumeToString v =
     (if vo_LocalPath v \<noteq> [] then vo_LocalPath v @ '':'' @ vo_RemotePath v else vo_RemotePath v)"

fun IsPortInService :: "int \<Rightarrow> port list \<Rightarrow> bool" where
  "IsPortInService q [] = False"
| "IsPortInService q (p # ps) = (if p_ContainerPort p = q then True else IsPortInService q ps)"

fun IsAlreadyAdded :: "port \<Rightarrow> port list \<Rightarrow> bool" where
  "IsAlreadyAdded p [] = False"
| "IsAlreadyAdded p (q # qs) =
     (if p_ContainerPort q = p_ContainerPort p then True else IsAlreadyAdded p qs)"

fun IsAlreadyAddedExpose :: "port \<Rightarrow> port list \<Rightarrow> bool" where
  "IsAlreadyAddedExpose p [] = False"
| "IsAlreadyAddedExpose p (q # qs) =
     (if p_HostPort p = 0
         \<and> (p_ContainerPort q = p_ContainerPort p \<or> p_HostPort q = p_ContainerPort p) then True
      else if p_HostPort p \<noteq> 0
         \<and> (p_ContainerPort q = p_ContainerPort p \<or> p_ContainerPort q = p_HostPort p
            \<or> p_HostPort q = p_HostPort p \<or> p_HostPort q = p_ContainerPort p) then True
      else IsAlreadyAddedExpose p qs)"

definition isInVolumesTopLevelSection :: "string \<Rightarrow> stack \<Rightarrow> bool" where
  "isInVolumesTopLevelSection volumeName s \<longleftrightarrow> gget (sk_Volumes s) volumeName \<noteq> None"

definition IsDeployment :: "service \<Rightarrow> bool" where
  "IsDeployment svc \<longleftrightarrow>
     s_Volumes svc = [] \<and>
     (s_RestartPolicy svc = RestartPolicyAlways
      \<or> s_RestartPolicy svc = RestartPolicyOnFailure \<and> s_BackOffLimit svc = 0)"

definition IsStatefulset :: "service \<Rightarrow> bool" where
  "IsStatefulset svc \<longleftrightarrow>
     s_Volumes svc \<noteq> [] \<and>
     (s_RestartPolicy svc = RestartPolicyAlways
      \<or> s_RestartPolicy svc = RestartPolicyOnFailure \<and> s_BackOffLimit svc = 0)"

definition IsJob :: "service \<Rightarrow> bool" where
  "IsJob svc \<longleftrightarrow>
     s_RestartPolicy svc = RestartPolicyNever
     \<or> s_RestartPolicy svc = RestartPolicyOnFailure \<and> s_BackOffLimit svc \<noteq> 0"

definition toGraph :: "composeServices \<Rightarrow> graph" where
  "toGraph cs = map (\<lambda>(svcName, svc). (svcName, gkeys (s_DependsOn svc))) cs"

definition GetServicesWithBuildSection :: "stack \<Rightarrow> (string, bool) gomap" where
  "GetServicesWithBuildSection s =
     map (\<lambda>(name, svc). (name, True))
       (filter (\<lambda>(name, svc). s_Build svc \<noteq> None \<or> s_VolumeMounts svc \<noteq> []) (sk_Services s))"

definition GetLabelSelector :: "stack \<Rightarrow> string" where
  "GetLabelSelector s = StackNameLabel @ ''='' @ ResourceK8sMetaString (sk_Name s)"

definition GetStackConfigMapName :: "string \<Rightarrow> string" where
  "GetStackConfigMapName stackName = ''okteto-'' @ ResourceK8sMetaString stackName"

section \<open>Merging a compose file with its override\<close>

definition IsDefaultServiceResources :: "serviceResources \<Rightarrow> bool" where
  "IsDefaultServiceResources r \<longleftrightarrow>
     sr_CPU r = 0 \<and> sr_Memory r = 0 \<and> st_Size (sr_Storage r) = 0 \<and> st_Class (sr_Storage r) = []"

definition IsDefaultValue :: "stackResources option \<Rightarrow> bool" where
  "IsDefaultValue r =
     (case r of None \<Rightarrow> True
      | Some r \<Rightarrow> IsDefaultServiceResources (sr_Limits r) \<and> IsDefaultServiceResources (sr_Requests r))"

text \<open>The body of the loop of \<open>mergeServices\<close> for a service both stacks declare.\<close>

definition mergeService :: "service \<Rightarrow> service \<Rightarrow> service" where
  "mergeService r svc =
     r\<lparr>s_Image := (if s_Image svc \<noteq> [] then s_Image svc else s_Image r),
       s_RestartPolicy := (if s_RestartPolicy svc \<noteq> RestartPolicyAlways then s_RestartPolicy svc
                           else s_RestartPolicy r),
       s_Workdir := (if s_Workdir svc \<noteq> [] then s_Workdir svc else s_Workdir r),
       s_Replicas := (if s_Replicas svc \<noteq> 1 then s_Replicas svc else s_Replicas r),
       s_StopGracePeriod := (if s_StopGracePeriod svc \<noteq> 0 then s_StopGracePeriod svc
                             else s_StopGracePeriod r),
       s_BackOffLimit := (if s_BackOffLimit svc \<noteq> 0 then s_BackOffLimit svc else s_BackOffLimit r),
       s_Build := (if s_Build svc \<noteq> None then s_Build svc else s_Build r),
       s_Healtcheck := (if s_Healtcheck svc \<noteq> None then s_Healtcheck svc else s_Healtcheck r),
       s_CapAdd := (if s_CapAdd svc \<noteq> [] then s_CapAdd svc else s_CapAdd r),
       s_CapDrop := (if s_CapDrop svc \<noteq> [] then s_CapDrop svc else s_CapDrop r),
       s_Entrypoint := (if s_Entrypoint svc \<noteq> [] then s_Entrypoint svc else s_Entrypoint r),
       s_Command := (if s_Command svc \<noteq> [] then s_Command svc else s_Command r),
       s_EnvFiles := (if s_EnvFiles svc \<noteq> [] then s_EnvFiles svc else s_EnvFiles r),
       s_DependsOn := (if s_DependsOn svc \<noteq> [] then s_DependsOn svc else s_DependsOn r),
       s_Environment := (if s_Environment svc \<noteq> [] then s_Environment svc else s_Environment r),
       s_Labels := (if s_Labels svc \<noteq> [] then s_Labels svc else s_Labels r),
       s_Annotations := (if s_Annotations svc \<noteq> [] then s_Annotations svc else s_Annotations r),
       s_NodeSelector := (if s_NodeSelector svc \<noteq> [] then s_NodeSelector svc else s_NodeSelector r),
       s_EnableServiceLinks := (if s_EnableServiceLinks svc \<noteq> None then s_EnableServiceLinks svc
                                else s_EnableServiceLinks r),
       s_IdentityToken := (if s_IdentityToken svc \<noteq> None then s_IdentityToken svc
                           else s_IdentityToken r),
       s_Ports := (if s_Ports svc \<noteq> [] then s_Ports svc else s_Ports r),
       s_Volumes := (if s_Volumes svc \<noteq> [] then s_Volumes svc else s_Volumes r),
       s_VolumeMounts := (if s_Volumes svc \<noteq> [] then s_VolumeMounts svc else s_VolumeMounts r),
       s_Resources := (if \<not> IsDefaultValue (s_Resources svc) then s_Resources svc
                       else s_Resources r)\<rparr>"

fun mergeServicesLoop :: "composeServices \<Rightarrow> composeServices \<Rightarrow> composeServices" where
  "mergeServicesLoop cs [] = cs"
| "mergeServicesLoop cs ((svcName, svc) # rest) =
     (case gget cs svcName of
        None \<Rightarrow> mergeServicesLoop (gput svcName svc cs) rest
      | Some r \<Rightarrow> mergeServicesLoop (gput svcName (mergeService r svc) cs) rest)"

definition mergeServices :: "stack \<Rightarrow> stack \<Rightarrow> stack" where
  "mergeServices s other = s\<lparr>sk_Services := mergeServicesLoop (sk_Services s) (sk_Services other)\<rparr>"

definition Merge :: "stack option \<Rightarrow> stack \<Rightarrow> stack" where
  "Merge s other =
     (case s of
        None \<Rightarrow> other
      | Some s \<Rightarrow>
          let s = (if sk_Namespace other \<noteq> [] then s\<lparr>sk_Namespace := sk_Namespace other\<rparr> else s);
              s = (if sk_Endpoints other \<noteq> [] then s\<lparr>sk_Endpoints := sk_Endpoints other\<rparr> else s);
              s = (if sk_Volumes other \<noteq> [] then s\<lparr>sk_Volumes := sk_Volumes other\<rparr> else s);
              s = s\<lparr>sk_Paths := sk_Paths s @ sk_Paths other\<rparr>
          in mergeServices s other)"

section \<open>The world outside\<close>

text \<open>
  What the loader asks of the operating system and of libraries. \<open>w_Env\<close> and \<open>w_Cwd\<close> are the
  state of the process; the others are the file system, git, the manifest decoder
  (\<open>ExpandStackEnvs\<close> followed by the YAML decoder), \<open>url.ParseRequestURI\<close>, \<open>env.ExpandEnv\<close>
  and the parser of env files. Paths are given to the file system absolute.
\<close>

record world =
  w_Env :: smap
  w_Cwd :: string
  w_GetwdFails :: bool
  w_IsDir :: "string \<Rightarrow> bool"
  w_Exists :: "string \<Rightarrow> bool"
  w_ReadFile :: "string \<Rightarrow> string option"
  w_Realpath :: "string \<Rightarrow> string option"
  w_RepositoryURL :: "string \<Rightarrow> string option"
  w_Unmarshal :: "bool \<Rightarrow> string \<Rightarrow> composeErr + stack"
  w_RequestURI :: "string \<Rightarrow> bool"
  w_ExpandEnv :: "string \<Rightarrow> string option"
  w_ParseEnvFile :: "string \<Rightarrow> smap option"

definition resolve :: "world \<Rightarrow> string \<Rightarrow> string" where
  "resolve w p = (if IsAbs p then Clean p else joinPaths [w_Cwd w, p])"

definition FileExists :: "world \<Rightarrow> string \<Rightarrow> bool" where
  "FileExists w p = w_Exists w (resolve w p)"

definition getenv :: "world \<Rightarrow> string \<Rightarrow> string" where
  "getenv w k = gstr (w_Env w) k"

section \<open>Environment files\<close>

text \<open>\<open>env.ExpandEnv\<close>, \<open>os.Open\<close> and \<open>godotenv.ParseWithLookup\<close>, with the error of each.\<close>

definition readEnvFile :: "world \<Rightarrow> string \<Rightarrow> composeErr + smap" where
  "readEnvFile w filename =
     (case w_ExpandEnv w filename of
        None \<Rightarrow> Inl (EnvFileError filename)
      | Some filename \<Rightarrow>
          (case w_ReadFile w (resolve w filename) of
             None \<Rightarrow> Inl (FileError filename)
           | Some contents \<Rightarrow>
               (case w_ParseEnvFile w contents of
                  None \<Rightarrow> Inl (EnvFileError filename)
                | Some envMap \<Rightarrow> Inr envMap)))"

definition fromFile :: "world \<Rightarrow> string \<times> string \<Rightarrow> var" where
  "fromFile w nv = (case nv of (name, value) \<Rightarrow>
     \<lparr>va_Name = name, va_Value = (if value = [] then getenv w name else value)\<rparr>)"

definition setEnvironmentFromFile :: "world \<Rightarrow> service \<Rightarrow> string \<Rightarrow> composeErr + service" where
  "setEnvironmentFromFile w svc filename =
     (case readEnvFile w filename of
        Inl e \<Rightarrow> Inl e
      | Inr envMap \<Rightarrow>
          let envMap = gdels (map va_Name (s_Environment svc)) envMap
          in Inr (svc\<lparr>s_Environment := s_Environment svc @ map (fromFile w) envMap\<rparr>))"

text \<open>The loop of \<open>loadEnvFiles\<close>; it is called on the reversed list of files.\<close>

fun loadEnvFilesLoop :: "world \<Rightarrow> service \<Rightarrow> string list \<Rightarrow> composeErr + service" where
  "loadEnvFilesLoop w svc [] = Inr svc"
| "loadEnvFilesLoop w svc (envFilepath # rest) =
     (case setEnvironmentFromFile w svc envFilepath of
        Inl e \<Rightarrow> if Base envFilepath = ''.env'' then loadEnvFilesLoop w svc rest else Inl e
      | Inr svc' \<Rightarrow> loadEnvFilesLoop w svc' rest)"

definition loadEnvFiles :: "world \<Rightarrow> service \<Rightarrow> composeErr + service" where
  "loadEnvFiles w svc =
     (case loadEnvFilesLoop w svc (rev (s_EnvFiles svc)) of
        Inl e \<Rightarrow> Inl e
      | Inr svc' \<Rightarrow>
          Inr (svc'\<lparr>s_Environment := sort_key va_Name (s_Environment svc'), s_EnvFiles := []\<rparr>))"

section \<open>Defaults of a decoded stack\<close>

definition oneGi :: quantity where
  "oneGi = 1073741824 * 1000"

definition SetBuildDefaults :: "world \<Rightarrow> buildInfo \<Rightarrow> buildInfo" where
  "SetBuildDefaults w i =
     (let i = (if bi_Context i = [] then i\<lparr>bi_Context := ''.''\<rparr> else i)
      in if \<not> w_RequestURI w (bi_Context i) \<and> bi_Dockerfile i = []
         then i\<lparr>bi_Dockerfile := ''Dockerfile''\<rparr> else i)"

fun jobVolumes :: "string \<Rightarrow> quantity \<Rightarrow> volumeMounts list \<Rightarrow> (string, volumeSpec) gomap
    \<Rightarrow> volumeMounts list \<times> (string, volumeSpec) gomap" where
  "jobVolumes volumeName sz [] vols = ([], vols)"
| "jobVolumes volumeName sz (v # vs) vols =
     (let (v, vols) =
            (if vo_LocalPath v = []
             then (v\<lparr>vo_LocalPath := volumeName\<rparr>,
                   gput volumeName \<lparr>vs_Labels = [], vs_Annotations = [], vs_Size = sz,
                                    vs_Class = []\<rparr> vols)
             else (v, vols));
          (vs, vols) = jobVolumes volumeName sz vs vols
      in (v # vs, vols))"

definition jobVolumeName :: "string \<Rightarrow> string" where
  "jobVolumeName svcName = ''pvc-'' @ svcName @ ''-0''"

text \<open>The body of the first loop of \<open>ReadStack\<close>; \<open>None\<close> is the nil dereference of \<open>svc.Resources\<close>.\<close>

definition readService :: "world \<Rightarrow> string \<Rightarrow> service \<Rightarrow> (string, volumeSpec) gomap
    \<Rightarrow> (service \<times> (string, volumeSpec) gomap) option" where
  "readService w svcName svc vols =
     (case s_Resources svc of
        None \<Rightarrow> None
      | Some r \<Rightarrow>
          let svc = svc\<lparr>s_Build := map_option (SetBuildDefaults w) (s_Build svc)\<rparr>;
              sz = st_Size (sr_Storage (sr_Requests r));
              sz = (if sz = 0 then oneGi else sz);
              r = r\<lparr>sr_Requests := (sr_Requests r)\<lparr>sr_Storage :=
                     (sr_Storage (sr_Requests r))\<lparr>st_Size := sz\<rparr>\<rparr>\<rparr>;
              svc = svc\<lparr>s_Resources := Some r\<rparr>
          in if IsJob svc
             then let (vs, vols) = jobVolumes (jobVolumeName svcName) sz (s_Volumes svc) vols
                  in Some (svc\<lparr>s_Volumes := vs\<rparr>, vols)
             else Some (svc, vols))"

fun readServices :: "world \<Rightarrow> composeServices \<Rightarrow> (string, volumeSpec) gomap
    \<Rightarrow> (composeServices \<times> (string, volumeSpec) gomap) option" where
  "readServices w [] vols = Some ([], vols)"
| "readServices w ((svcName, svc) # rest) vols =
     (case readService w svcName svc vols of
        None \<Rightarrow> None
      | Some (svc, vols) \<Rightarrow>
          map_option (\<lambda>(rest, vols). ((svcName, svc) # rest, vols)) (readServices w rest vols))"

definition readVolume :: "volumeSpec \<Rightarrow> volumeSpec" where
  "readVolume v = (if vs_Size v = 0 then v\<lparr>vs_Size := oneGi\<rparr> else v)"

definition ReadStack :: "world \<Rightarrow> string \<Rightarrow> bool \<Rightarrow> composeErr + stack" where
  "ReadStack w bytes isCompose =
     (case w_Unmarshal w isCompose bytes of
        Inl e \<Rightarrow> Inl e
      | Inr s \<Rightarrow>
          (case readServices w (sk_Services s) (sk_Volumes s) of
             None \<Rightarrow> Inl GoPanic
           | Some (cs, vols) \<Rightarrow>
               Inr (s\<lparr>sk_Manifest := bytes, sk_IsCompose := isCompose, sk_Services := cs,
                      sk_Volumes := map (\<lambda>(k, v). (k, readVolume v)) vols\<rparr>)))"

section \<open>Validation\<close>

fun ignoreSyncVolumesLoop :: "world \<Rightarrow> string \<Rightarrow> volumeMounts list \<Rightarrow> volumeMounts list" where
  "ignoreSyncVolumesLoop w wd [] = []"
| "ignoreSyncVolumesLoop w wd (v # vs) =
     (let v = (if IsAbs (vo_LocalPath v)
               then v\<lparr>vo_LocalPath := (case Rel wd (vo_LocalPath v) of None \<Rightarrow> [] | Some r \<Rightarrow> r)\<rparr>
               else v)
      in if FileExists w (vo_LocalPath v) then v # ignoreSyncVolumesLoop w wd vs
         else if \<not> hasPrefix (vo_LocalPath v) ''/'' then v # ignoreSyncVolumesLoop w wd vs
         else ignoreSyncVolumesLoop w wd vs)"

definition ignoreSyncVolumes :: "world \<Rightarrow> service \<Rightarrow> service" where
  "ignoreSyncVolumes w svc =
     (let wd = (if w_GetwdFails w then [] else w_Cwd w)
      in svc\<lparr>s_VolumeMounts := ignoreSyncVolumesLoop w wd (s_VolumeMounts svc)\<rparr>)"

fun validateRules :: "composeServices \<Rightarrow> string \<Rightarrow> endpointRule list \<Rightarrow> composeErr option" where
  "validateRules cs endpointName [] = None"
| "validateRules cs endpointName (r # rs) =
     (case gget cs (er_Service r) of
        Some service \<Rightarrow>
          if \<not> IsPortInService (er_Port r) (s_Ports service)
          then Some (EndpointPortMissing endpointName (er_Service r) (er_Port r))
          else validateRules cs endpointName rs
      | None \<Rightarrow> validateRules cs endpointName rs)"

fun validateEndpoints :: "composeServices \<Rightarrow> endpointSpec \<Rightarrow> composeErr option" where
  "validateEndpoints cs [] = None"
| "validateEndpoints cs ((endpointName, endpoint) # rest) =
     (case validateRules cs endpointName (en_Rules endpoint) of
        Some e \<Rightarrow> Some e
      | None \<Rightarrow> validateEndpoints cs rest)"

definition volumeWarning :: "string \<Rightarrow> volumeMounts \<Rightarrow> string" where
  "volumeWarning name v =
     ''['' @ name @ '']: volume '' @ [CHR 0x27] @ vo_LocalPath v @ '':'' @ vo_RemotePath v @ [CHR 0x27]
     @ '' will be ignored. You can synchronize code to your containers using '' @ [CHR 0x27]
     @ ''okteto up'' @ [CHR 0x27]
     @ ''. More information available here: https://okteto.com/docs/reference/okteto-cli/#up''"

fun validateVolumeMounts :: "world \<Rightarrow> string \<Rightarrow> service \<Rightarrow> volumeMounts list \<Rightarrow> string list
    \<Rightarrow> composeErr + string list" where
  "validateVolumeMounts w name svc [] warnings = Inr warnings"
| "validateVolumeMounts w name svc (v # vs) warnings =
     (if s_Build svc = None \<and> FileExists w (vo_LocalPath v)
      then validateVolumeMounts w name svc vs warnings
      else let warnings = (if Rel (w_Cwd w) (vo_LocalPath v) = None
                           then warnings @ [volumeWarning name v] else warnings)
           in if \<not> hasPrefix (vo_RemotePath v) ''/''
              then Inl (VolumeNotAbsolute (volumeToString v) name)
              else validateVolumeMounts w name svc vs warnings)"

definition validateService :: "world \<Rightarrow> string \<Rightarrow> service \<Rightarrow> string list
    \<Rightarrow> composeErr + (service \<times> string list)" where
  "validateService w name svc warnings =
     (case validateStackName name of
        Some e \<Rightarrow> Inl (InvalidServiceName name e)
      | None \<Rightarrow>
          if s_Image svc = [] \<and> s_Build svc = None then Inl (ImageEmpty name)
          else case validateVolumeMounts w name svc (s_VolumeMounts svc) warnings of
                 Inl e \<Rightarrow> Inl e
               | Inr warnings \<Rightarrow> Inr (ignoreSyncVolumes w svc, warnings))"

fun validateServices :: "world \<Rightarrow> composeServices \<Rightarrow> string list
    \<Rightarrow> composeErr + (composeServices \<times> string list)" where
  "validateServices w [] warnings = Inr ([], warnings)"
| "validateServices w ((name, svc) # rest) warnings =
     (case validateService w name svc warnings of
        Inl e \<Rightarrow> Inl e
      | Inr (svc, warnings) \<Rightarrow>
          (case validateServices w rest warnings of
             Inl e \<Rightarrow> Inl e
           | Inr (rest, warnings) \<Rightarrow> Inr ((name, svc) # rest, warnings)))"

fun validateDependencies :: "composeServices \<Rightarrow> string \<Rightarrow> dependsOn \<Rightarrow> composeErr option" where
  "validateDependencies cs svcName [] = None"
| "validateDependencies cs svcName ((dependentSvc, condition) # rest) =
     (if svcName = dependentSvc then Some (DependsOnItself svcName)
      else case gget cs dependentSvc of
        None \<Rightarrow> Some (DependsOnUndefined svcName dependentSvc)
      | Some d \<Rightarrow>
          if condition = DependsOnServiceCompleted \<and> \<not> IsJob d
          then Some (DependsOnNotJob dependentSvc)
          else validateDependencies cs svcName rest)"

fun validateDependsOnLoop :: "composeServices \<Rightarrow> string list \<Rightarrow> composeErr option" where
  "validateDependsOnLoop cs [] = None"
| "validateDependsOnLoop cs (svcName # svcs) =
     (case gget cs svcName of
        None \<Rightarrow> Some (ServiceNotDefined svcName)
      | Some svc \<Rightarrow>
          (case validateDependencies cs svcName (s_DependsOn svc) of
             Some e \<Rightarrow> Some e
           | None \<Rightarrow> validateDependsOnLoop cs svcs))"

definition ValidateDependsOn :: "composeServices \<Rightarrow> string list \<Rightarrow> composeErr option" where
  "ValidateDependsOn cs svcs =
     (case validateDependsOnLoop cs svcs of
        Some e \<Rightarrow> Some e
      | None \<Rightarrow>
          let dependencyCycle = GetDependentCyclic (toGraph cs)
          in if dependencyCycle \<noteq> [] then Some (DependencyCycle dependencyCycle) else None)"

definition Validate :: "world \<Rightarrow> stack \<Rightarrow> composeErr + stack" where
  "Validate w s =
     (case validateStackName (ResourceK8sMetaString (sk_Name s)) of
        Some e \<Rightarrow> Inl (InvalidComposeName e)
      | None \<Rightarrow>
          if sk_Services s = [] then Inl ServicesEmpty
          else case validateEndpoints (sk_Services s) (sk_Endpoints s) of
            Some e \<Rightarrow> Inl e
          | None \<Rightarrow>
              if w_GetwdFails w then Inl GetwdFailed
              else case validateServices w (sk_Services s)
                          (sw_VolumeMountWarnings (sk_Warnings s)) of
                Inl e \<Rightarrow> Inl e
              | Inr (cs, warnings) \<Rightarrow>
                  let s = s\<lparr>sk_Services := cs,
                            sk_Warnings := (sk_Warnings s)\<lparr>sw_VolumeMountWarnings := warnings\<rparr>\<rparr>
                  in case ValidateDependsOn cs (getNames cs) of
                       Some e \<Rightarrow> Inl e
                     | None \<Rightarrow> Inr s)"

section \<open>Lemmas on services and merging\<close>

lemma service_kinds:
  assumes "s_RestartPolicy svc \<in> {RestartPolicyAlways, RestartPolicyOnFailure, RestartPolicyNever}"
  shows "IsJob svc \<longleftrightarrow> \<not> IsDeployment svc \<and> \<not> IsStatefulset svc"
    and "IsDeployment svc \<Longrightarrow> \<not> IsStatefulset svc"
  using assms by (auto simp: IsJob_def IsDeployment_def IsStatefulset_def go_consts)

lemma IsPortInService_iff: "IsPortInService q ps \<longleftrightarrow> q \<in> p_ContainerPort ` set ps"
  by (induction q ps rule: IsPortInService.induct) auto

lemma IsAlreadyAdded_iff: "IsAlreadyAdded p ps \<longleftrightarrow> p_ContainerPort p \<in> p_ContainerPort ` set ps"
  by (induction p ps rule: IsAlreadyAdded.induct) auto

lemma gget_mergeServicesLoop:
  "gwf other \<Longrightarrow>
     gget (mergeServicesLoop cs other) n =
       (case gget other n of
          None \<Rightarrow> gget cs n
        | Some svc \<Rightarrow> Some (case gget cs n of None \<Rightarrow> svc | Some r \<Rightarrow> mergeService r svc))"
proof (induction cs other rule: mergeServicesLoop.induct)
  case (1 cs)
  then show ?case by simp
next
  case (2 cs svcName svc rest)
  from "2.prems" have "gwf rest" and "gget rest svcName = None"
    by (auto simp: gwf_def gget_None_iff gkeys_def)
  with 2 show ?case by (cases "gget cs svcName") (auto simp: gget_Cons gget_put split: option.split)
qed

lemma gwf_mergeServicesLoop [simp]: "gwf cs \<Longrightarrow> gwf (mergeServicesLoop cs other)"
  by (induction cs other rule: mergeServicesLoop.induct) (auto split: option.split)

lemma mergeService_sel:
  "s_Image (mergeService r svc) = (if s_Image svc \<noteq> [] then s_Image svc else s_Image r)"
  "s_RestartPolicy (mergeService r svc) = (if s_RestartPolicy svc \<noteq> RestartPolicyAlways then s_RestartPolicy svc else s_RestartPolicy r)"
  "s_Workdir (mergeService r svc) = (if s_Workdir svc \<noteq> [] then s_Workdir svc else s_Workdir r)"
  "s_Replicas (mergeService r svc) = (if s_Replicas svc \<noteq> 1 then s_Replicas svc else s_Replicas r)"
  "s_StopGracePeriod (mergeService r svc) = (if s_StopGracePeriod svc \<noteq> 0 then s_StopGracePeriod svc else s_StopGracePeriod r)"
  "s_BackOffLimit (mergeService r svc) = (if s_BackOffLimit svc \<noteq> 0 then s_BackOffLimit svc else s_BackOffLimit r)"
  "s_Build (mergeService r svc) = (if s_Build svc \<noteq> None then s_Build svc else s_Build r)"
  "s_Healtcheck (mergeService r svc) = (if s_Healtcheck svc \<noteq> None then s_Healtcheck svc else s_Healtcheck r)"
  "s_CapAdd (mergeService r svc) = (if s_CapAdd svc \<noteq> [] then s_CapAdd svc else s_CapAdd r)"
  "s_CapDrop (mergeService r svc) = (if s_CapDrop svc \<noteq> [] then s_CapDrop svc else s_CapDrop r)"
  "s_Entrypoint (mergeService r svc) = (if s_Entrypoint svc \<noteq> [] then s_Entrypoint svc else s_Entrypoint r)"
  "s_Command (mergeService r svc) = (if s_Command svc \<noteq> [] then s_Command svc else s_Command r)"
  "s_EnvFiles (mergeService r svc) = (if s_EnvFiles svc \<noteq> [] then s_EnvFiles svc else s_EnvFiles r)"
  "s_DependsOn (mergeService r svc) = (if s_DependsOn svc \<noteq> [] then s_DependsOn svc else s_DependsOn r)"
  "s_Environment (mergeService r svc) = (if s_Environment svc \<noteq> [] then s_Environment svc else s_Environment r)"
  "s_Labels (mergeService r svc) = (if s_Labels svc \<noteq> [] then s_Labels svc else s_Labels r)"
  "s_Annotations (mergeService r svc) = (if s_Annotations svc \<noteq> [] then s_Annotations svc else s_Annotations r)"
  "s_NodeSelector (mergeService r svc) = (if s_NodeSelector svc \<noteq> [] then s_NodeSelector svc else s_NodeSelector r)"
  "s_EnableServiceLinks (mergeService r svc) = (if s_EnableServiceLinks svc \<noteq> None then s_EnableServiceLinks svc else s_EnableServiceLinks r)"
  "s_IdentityToken (mergeService r svc) = (if s_IdentityToken svc \<noteq> None then s_IdentityToken svc else s_IdentityToken r)"
  "s_Ports (mergeService r svc) = (if s_Ports svc \<noteq> [] then s_Ports svc else s_Ports r)"
  "s_Volumes (mergeService r svc) = (if s_Volumes svc \<noteq> [] then s_Volumes svc else s_Volumes r)"
  "s_VolumeMounts (mergeService r svc) = (if s_Volumes svc \<noteq> [] then s_VolumeMounts svc else s_VolumeMounts r)"
  "s_Resources (mergeService r svc) = (if \<not> IsDefaultValue (s_Resources svc) then s_Resources svc else s_Resources r)"
  "s_User (mergeService r svc) = s_User r"
  "s_Public (mergeService r svc) = s_Public r"
  "s_EndpointMode (mergeService r svc) = s_EndpointMode r"
  by (simp_all add: mergeService_def)

text \<open>Merging is associative, and merging a service with itself changes nothing.\<close>

lemma mergeService_assoc: "mergeService (mergeService a b) c = mergeService a (mergeService b c)"
  by (rule service.equality) (simp_all add: mergeService_sel del: not_None_eq)

lemma mergeService_refl: "mergeService a a = a"
  by (rule service.equality) (simp_all add: mergeService_sel)

lemma Merge_simps:
  "sk_Services (Merge (Some s) t) = mergeServicesLoop (sk_Services s) (sk_Services t)"
  "sk_Endpoints (Merge (Some s) t) = (if sk_Endpoints t \<noteq> [] then sk_Endpoints t else sk_Endpoints s)"
  "sk_Volumes (Merge (Some s) t) = (if sk_Volumes t \<noteq> [] then sk_Volumes t else sk_Volumes s)"
  "sk_Namespace (Merge (Some s) t) = (if sk_Namespace t \<noteq> [] then sk_Namespace t else sk_Namespace s)"
  "sk_Paths (Merge (Some s) t) = sk_Paths s @ sk_Paths t"
  "sk_Name (Merge (Some s) t) = sk_Name s"
  by (simp_all add: Merge_def mergeServices_def Let_def)

section \<open>Lemmas on environment files\<close>

definition envLookup :: "environment \<Rightarrow> string \<rightharpoonup> string" where
  "envLookup env = map_of (map (\<lambda>v. (va_Name v, va_Value v)) env)"

lemma envLookup_append: "envLookup (xs @ ys) n = (case envLookup xs n of Some v \<Rightarrow> Some v | None \<Rightarrow> envLookup ys n)"
  by (simp add: envLookup_def map_add_def split: option.split)

lemma envLookup_None_iff: "envLookup env n = None \<longleftrightarrow> n \<notin> set (map va_Name env)"
  by (force simp: envLookup_def map_of_eq_None_iff)

text \<open>The value a name gets from an env file: an empty value is read from the process.\<close>

definition fileValue :: "world \<Rightarrow> smap \<Rightarrow> string \<rightharpoonup> string" where
  "fileValue w m n = map_option (\<lambda>v. if v = [] then getenv w n else v) (gget m n)"

lemma envLookup_fromFile: "envLookup (map (fromFile w) m) n = fileValue w m n"
  by (induction m) (auto simp: envLookup_def fileValue_def fromFile_def gget_Cons split: prod.splits)

lemma setEnvironmentFromFile_lookup:
  assumes "readEnvFile w f = Inr m" and "gwf m"
  obtains svc' where "setEnvironmentFromFile w svc f = Inr svc'"
    and "s_EnvFiles svc' = s_EnvFiles svc"
    and "\<And>n. envLookup (s_Environment svc') n
           = (case envLookup (s_Environment svc) n of Some v \<Rightarrow> Some v | None \<Rightarrow> fileValue w m n)"
proof -
  let ?m = "gdels (map va_Name (s_Environment svc)) m"
  have "fileValue w ?m n = (if n \<in> set (map va_Name (s_Environment svc)) then None else fileValue w m n)" for n
    using assms(2) by (simp add: fileValue_def gget_gdels)
  then have "envLookup (s_Environment svc @ map (fromFile w) ?m) n
      = (case envLookup (s_Environment svc) n of Some v \<Rightarrow> Some v | None \<Rightarrow> fileValue w m n)" for n
    using envLookup_None_iff [of "s_Environment svc" n]
    by (cases "envLookup (s_Environment svc) n") (simp_all add: envLookup_append envLookup_fromFile)
  with assms(1) show thesis
    by (intro that [of "svc\<lparr>s_Environment := s_Environment svc @ map (fromFile w) ?m\<rparr>"])
      (simp_all add: setEnvironmentFromFile_def)
qed

text \<open>Files are tried in the given order and the first that defines a name gives its value.\<close>

fun firstFile :: "world \<Rightarrow> smap list \<Rightarrow> string \<rightharpoonup> string" where
  "firstFile w [] n = None"
| "firstFile w (m # ms) n = (case fileValue w m n of Some v \<Rightarrow> Some v | None \<Rightarrow> firstFile w ms n)"

lemma loadEnvFilesLoop_lookup:
  assumes "list_all2 (\<lambda>f m. readEnvFile w f = Inr m \<and> gwf m) fs ms"
  shows "\<exists>svc'. loadEnvFilesLoop w svc fs = Inr svc' \<and>
           (\<forall>n. envLookup (s_Environment svc') n
              = (case envLookup (s_Environment svc) n of Some v \<Rightarrow> Some v | None \<Rightarrow> firstFile w ms n))"
  using assms
proof (induction fs ms arbitrary: svc rule: list_all2_induct)
  case Nil
  then show ?case by (simp split: option.split)
next
  case (Cons f fs m ms)
  then obtain svc1 where 1: "setEnvironmentFromFile w svc f = Inr svc1"
    and l1: "\<And>n. envLookup (s_Environment svc1) n
           = (case envLookup (s_Environment svc) n of Some v \<Rightarrow> Some v | None \<Rightarrow> fileValue w m n)"
    using setEnvironmentFromFile_lookup by blast
  obtain svc2 where 2: "loadEnvFilesLoop w svc1 fs = Inr svc2"
    and l2: "\<And>n. envLookup (s_Environment svc2) n
           = (case envLookup (s_Environment svc1) n of Some v \<Rightarrow> Some v | None \<Rightarrow> firstFile w ms n)"
    using Cons.IH by blast
  with 1 l1 l2 show ?case by (auto split: option.split)
qed

lemma map_of_sort_key:
  fixes env :: environment
  shows "map_of (map (\<lambda>v. (va_Name v, va_Value v)) (sort_key va_Name env)) n
   = map_of (map (\<lambda>v. (va_Name v, va_Value v)) env) n"
proof -
  have *: "map_of (map (\<lambda>v. (va_Name v, va_Value v)) xs) n
      = (case filter (\<lambda>v. va_Name v = n) xs of [] \<Rightarrow> None | v # _ \<Rightarrow> Some (va_Value v))" for xs :: environment
    by (induction xs) auto
  have "filter (\<lambda>v. va_Name v = n) (sort_key va_Name env) = filter (\<lambda>v. va_Name v = n) env"
    using sort_key_stable [of va_Name n env] by (simp add: eq_commute)
  then show ?thesis by (simp add: *)
qed

lemma envLookup_sort [simp]:
  fixes env :: environment
  shows "envLookup (sort_key va_Name env) n = envLookup env n"
  by (simp only: envLookup_def map_of_sort_key)

lemma loadEnvFiles_lookup:
  assumes "list_all2 (\<lambda>f m. readEnvFile w f = Inr m \<and> gwf m) (s_EnvFiles svc) ms"
  shows "\<exists>svc'. loadEnvFiles w svc = Inr svc' \<and> s_EnvFiles svc' = [] \<and>
           sorted (map va_Name (s_Environment svc')) \<and>
           (\<forall>n. envLookup (s_Environment svc') n
              = (case envLookup (s_Environment svc) n of
                   Some v \<Rightarrow> Some v | None \<Rightarrow> firstFile w (rev ms) n))"
proof -
  have "list_all2 (\<lambda>f m. readEnvFile w f = Inr m \<and> gwf m) (rev (s_EnvFiles svc)) (rev ms)"
    using assms by simp
  from loadEnvFilesLoop_lookup [OF this, of svc] show ?thesis
    by (auto simp: loadEnvFiles_def)
qed

section \<open>Lemmas on defaults\<close>

lemma fst_readServices:
  "readServices w cs vols = Some (cs', vols') \<Longrightarrow> map fst cs' = map fst cs"
  by (induction w cs vols arbitrary: cs' vols' rule: readServices.induct)
    (auto split: option.splits prod.splits)

lemma jobVolumes_Cons:
  "jobVolumes nm sz (v # vs) vols =
     (let vols1 = (if vo_LocalPath v = []
                   then gput nm \<lparr>vs_Labels = [], vs_Annotations = [], vs_Size = sz, vs_Class = []\<rparr> vols
                   else vols)
      in (v\<lparr>vo_LocalPath := if vo_LocalPath v = [] then nm else vo_LocalPath v\<rparr>
            # fst (jobVolumes nm sz vs vols1), snd (jobVolumes nm sz vs vols1)))"
  by (simp add: Let_def split: prod.split)

lemma jobVolumes_named:
  assumes "nm \<noteq> []" and "v \<in> set (fst (jobVolumes nm sz vs vols))"
  shows "vo_LocalPath v \<noteq> []"
  using assms(2)
  by (induction vs arbitrary: vols)
    (use assms(1) in \<open>auto simp: jobVolumes_Cons Let_def simp del: jobVolumes.simps(2) split: if_splits\<close>)

lemma jobVolumes_keys:
  "set (gkeys (snd (jobVolumes nm sz vs vols)))
   = set (gkeys vols) \<union> (if \<exists>v \<in> set vs. vo_LocalPath v = [] then {nm} else {})"
  by (induction vs arbitrary: vols)
    (auto simp: jobVolumes_Cons Let_def set_gkeys_put simp del: jobVolumes.simps(2))


lemma jobVolumeName_not_Nil [simp]: "jobVolumeName n \<noteq> []"
  by (simp add: jobVolumeName_def)

definition readyService :: "service \<Rightarrow> bool" where
  "readyService svc \<longleftrightarrow>
     (case s_Resources svc of None \<Rightarrow> False
      | Some r \<Rightarrow> st_Size (sr_Storage (sr_Requests r)) \<noteq> 0) \<and>
     (IsJob svc \<longrightarrow> (\<forall>v \<in> set (s_Volumes svc). vo_LocalPath v \<noteq> [])) \<and>
     (case s_Build svc of None \<Rightarrow> True | Some b \<Rightarrow> bi_Context b \<noteq> [])"

lemma SetBuildDefaults_context: "bi_Context (SetBuildDefaults w i) \<noteq> []"
  by (simp add: SetBuildDefaults_def Let_def)

lemma IsJob_upd [simp]:
  "IsJob (svc\<lparr>s_Volumes := vs\<rparr>) = IsJob svc" "IsJob (svc\<lparr>s_Build := b\<rparr>) = IsJob svc"
  "IsJob (svc\<lparr>s_Resources := r\<rparr>) = IsJob svc"
  by (simp_all add: IsJob_def)

lemma readService_ready:
  assumes "readService w n svc vols = Some (svc', vols')"
  shows "readyService svc'"
  using assms jobVolumes_named [of "jobVolumeName n"]
  by (auto simp: readService_def readyService_def Let_def oneGi_def SetBuildDefaults_context
      split: option.splits if_splits prod.splits) (metis fst_conv)+

lemma readService_keys:
  assumes "readService w n svc vols = Some (svc', vols')"
  shows "set (gkeys vols') = set (gkeys vols) \<union>
           (if IsJob svc \<and> (\<exists>v \<in> set (s_Volumes svc). vo_LocalPath v = [])
            then {jobVolumeName n} else {})"
proof (cases "s_Resources svc")
  case None
  with assms show ?thesis by (simp add: readService_def)
next
  case (Some r)
  define sz where "sz = (if st_Size (sr_Storage (sr_Requests r)) = 0 then oneGi
                         else st_Size (sr_Storage (sr_Requests r)))"
  have "vols' = (if IsJob svc then snd (jobVolumes (jobVolumeName n) sz (s_Volumes svc) vols) else vols)"
    using assms Some by (auto simp: readService_def Let_def sz_def split: prod.splits if_splits)
  then show ?thesis by (simp add: jobVolumes_keys)
qed

lemma readServices_ready:
  "readServices w cs vols = Some (cs', vols') \<Longrightarrow> (n, svc) \<in> set cs' \<Longrightarrow> readyService svc"
  by (induction w cs vols arbitrary: cs' vols' rule: readServices.induct)
    (auto split: option.splits prod.splits dest: readService_ready)

lemma readServices_Cons:
  assumes "readServices w ((n, svc) # rest) vols = Some (cs', vols')"
  obtains svc1 vols1 rest1 where "readService w n svc vols = Some (svc1, vols1)"
    and "readServices w rest vols1 = Some (rest1, vols')" and "cs' = (n, svc1) # rest1"
  using assms by (auto split: option.splits prod.splits)

lemma readServices_keys:
  "readServices w cs vols = Some (cs', vols') \<Longrightarrow> set (gkeys vols) \<subseteq> set (gkeys vols')"
proof (induction cs arbitrary: vols cs')
  case (Cons c cs)
  obtain m svc0 where c: "c = (m, svc0)" by (cases c)
  with Cons.prems obtain svc1 vols1 rest1 where step: "readService w m svc0 vols = Some (svc1, vols1)"
    and rec: "readServices w cs vols1 = Some (rest1, vols')"
    using readServices_Cons by metis
  with Cons.IH [OF rec] readService_keys [OF step] show ?case by simp
qed simp

lemma readServices_jobVolume:
  "readServices w cs vols = Some (cs', vols') \<Longrightarrow> (n, svc) \<in> set cs \<Longrightarrow> IsJob svc \<Longrightarrow>
     v \<in> set (s_Volumes svc) \<Longrightarrow> vo_LocalPath v = [] \<Longrightarrow> jobVolumeName n \<in> set (gkeys vols')"
proof (induction cs arbitrary: vols cs')
  case (Cons c cs)
  obtain m svc0 where c: "c = (m, svc0)" by (cases c)
  with Cons.prems(1) obtain svc1 vols1 rest1 where
    step: "readService w m svc0 vols = Some (svc1, vols1)"
    and rec: "readServices w cs vols1 = Some (rest1, vols')"
    using readServices_Cons by metis
  show ?case
  proof (cases "(n, svc) \<in> set cs")
    case True
    with Cons.IH [OF rec] Cons.prems(3-5) show ?thesis by simp
  next
    case False
    with c Cons.prems(2) have "m = n" "svc0 = svc" by auto
    with Cons.prems(3-5) readService_keys [OF step] have "jobVolumeName n \<in> set (gkeys vols1)"
      by auto
    with readServices_keys [OF rec] show ?thesis by blast
  qed
qed simp

section \<open>Lemmas on validation\<close>

definition dependencyRel :: "composeServices \<Rightarrow> (string \<times> string) set" where
  "dependencyRel cs = {(u, v). \<exists>svc. gget cs u = Some svc \<and> v \<in> set (gkeys (s_DependsOn svc))}"

lemma gget_toGraph: "gget (toGraph cs) n = map_option (\<lambda>svc. gkeys (s_DependsOn svc)) (gget cs n)"
  by (induction cs) (auto simp: toGraph_def gget_Cons)

lemma edges_toGraph: "edges (toGraph cs) = dependencyRel cs"
  by (auto simp: edges_def dependencyRel_def succs_def gget_toGraph split: option.splits) metis

lemma validateDependencies_None_iff:
  "validateDependencies cs n deps = None \<longleftrightarrow>
     (\<forall>(d, c) \<in> set deps. d \<noteq> n \<and>
        (\<exists>svc. gget cs d = Some svc \<and> (c = DependsOnServiceCompleted \<longrightarrow> IsJob svc)))"
  by (induction cs n deps rule: validateDependencies.induct) (auto split: option.splits)

lemma validateDependsOnLoop_None_iff:
  "validateDependsOnLoop cs ns = None \<longleftrightarrow>
     (\<forall>n \<in> set ns. \<exists>svc. gget cs n = Some svc \<and> validateDependencies cs n (s_DependsOn svc) = None)"
  by (induction cs ns rule: validateDependsOnLoop.induct) (auto split: option.splits)

lemma ValidateDependsOn_None_iff:
  "ValidateDependsOn cs ns = None \<longleftrightarrow>
     validateDependsOnLoop cs ns = None \<and> acyclic (dependencyRel cs)"
  by (simp add: ValidateDependsOn_def Let_def GetDependentCyclic_Nil_iff edges_toGraph
      split: option.splits)

lemma validateServices_names:
  "validateServices w cs ws = Inr (cs', ws') \<Longrightarrow> map fst cs' = map fst cs"
  by (induction w cs ws arbitrary: cs' ws' rule: validateServices.induct)
    (auto split: sum.splits)

lemma validateService_ok:
  "validateService w n svc ws = Inr (svc', ws') \<Longrightarrow>
     validateStackName n = None \<and> (s_Image svc' \<noteq> [] \<or> s_Build svc' \<noteq> None)
     \<and> s_DependsOn svc' = s_DependsOn svc \<and> s_Ports svc' = s_Ports svc"
  by (auto simp: validateService_def ignoreSyncVolumes_def Let_def split: option.splits if_splits sum.splits)

lemma validateServices_Cons:
  assumes "validateServices w ((n, svc) # rest) ws = Inr (cs', ws')"
  obtains svc1 ws1 rest1 where "validateService w n svc ws = Inr (svc1, ws1)"
    and "validateServices w rest ws1 = Inr (rest1, ws')" and "cs' = (n, svc1) # rest1"
  using assms by (auto split: sum.splits)

lemma validateServices_ok:
  "validateServices w cs ws = Inr (cs', ws') \<Longrightarrow> (n, svc) \<in> set cs' \<Longrightarrow>
     validateStackName n = None \<and> (s_Image svc \<noteq> [] \<or> s_Build svc \<noteq> None)"
proof (induction cs arbitrary: ws cs')
  case (Cons c cs)
  obtain m svc0 where c: "c = (m, svc0)" by (cases c)
  with Cons.prems obtain svc1 ws1 cs1 where step: "validateService w m svc0 ws = Inr (svc1, ws1)"
    and rec: "validateServices w cs ws1 = Inr (cs1, ws')" and cs': "cs' = (m, svc1) # cs1"
    using validateServices_Cons by metis
  with Cons validateService_ok [OF step] show ?case by auto
qed simp

lemma validateServices_gget:
  "validateServices w cs ws = Inr (cs', ws') \<Longrightarrow>
     map_option s_Ports (gget cs' n) = map_option s_Ports (gget cs n)"
proof (induction cs arbitrary: ws cs')
  case (Cons c cs)
  obtain m svc0 where c: "c = (m, svc0)" by (cases c)
  with Cons.prems obtain svc1 ws1 cs1 where step: "validateService w m svc0 ws = Inr (svc1, ws1)"
    and rec: "validateServices w cs ws1 = Inr (cs1, ws')" and cs': "cs' = (m, svc1) # cs1"
    using validateServices_Cons by metis
  with c Cons.IH [OF rec] validateService_ok [OF step] show ?case by (simp add: gget_Cons)
qed simp

lemma validateRules_None_iff:
  "validateRules cs e rs = None \<longleftrightarrow>
     (\<forall>r \<in> set rs. \<forall>svc. gget cs (er_Service r) = Some svc \<longrightarrow>
        er_Port r \<in> p_ContainerPort ` set (s_Ports svc))"
  by (induction cs e rs rule: validateRules.induct)
    (auto simp: IsPortInService_iff split: option.splits)

lemma validateEndpoints_None_iff:
  "validateEndpoints cs es = None \<longleftrightarrow>
     (\<forall>(n, e) \<in> set es. validateRules cs n (en_Rules e) = None)"
  by (induction cs es rule: validateEndpoints.induct) (auto split: option.splits)

lemma Validate_ok:
  assumes "Validate w s = Inr s'"
  obtains ws where
    "validateStackName (ResourceK8sMetaString (sk_Name s)) = None" "sk_Services s \<noteq> []"
    "validateEndpoints (sk_Services s) (sk_Endpoints s) = None"
    "validateServices w (sk_Services s) (sw_VolumeMountWarnings (sk_Warnings s)) = Inr (sk_Services s', ws)"
    "ValidateDependsOn (sk_Services s') (getNames (sk_Services s')) = None"
    "sk_Endpoints s' = sk_Endpoints s" "sk_Name s' = sk_Name s"
  using assms by (auto simp: Validate_def Let_def split: option.splits if_splits sum.splits prod.splits)

section \<open>Properties\<close>

text \<open>C4. The check of \<open>depends_on\<close> is exact: it accepts a set of services if and only if each of them is
  defined, depends on no service that is undefined and not on itself, waits for the completion of
  jobs only, and the dependencies of the whole compose are free of cycles.\<close>

theorem ValidateDependsOn_exact:
  "ValidateDependsOn cs svcs = None \<longleftrightarrow>
     (\<forall>n \<in> set svcs. \<exists>svc. gget cs n = Some svc \<and>
        (\<forall>(d, c) \<in> set (s_DependsOn svc). d \<noteq> n \<and>
           (\<exists>dsvc. gget cs d = Some dsvc \<and> (c = DependsOnServiceCompleted \<longrightarrow> IsJob dsvc)))) \<and>
     acyclic (dependencyRel cs)"
  by (simp add: ValidateDependsOn_None_iff validateDependsOnLoop_None_iff validateDependencies_None_iff)

definition exampleServices :: composeServices where
  "exampleServices =
     [(''web'', emptyService\<lparr>s_RestartPolicy := ''Always'', s_Image := ''nginx'',
         s_DependsOn := [(''migrate'', ''service_completed_successfully'')]\<rparr>),
      (''migrate'', emptyService\<lparr>s_RestartPolicy := ''Never'', s_Image := ''flyway''\<rparr>)]"

lemma ValidateDependsOn_example: "ValidateDependsOn exampleServices [''web'', ''migrate''] = None"
  by code_simp

theorem ValidateDependsOn_exact_witness:
  "acyclic (dependencyRel exampleServices) \<and>
   (\<exists>svc. gget exampleServices ''migrate'' = Some svc \<and> IsJob svc)"
proof -
  have "acyclic (dependencyRel exampleServices)"
    using ValidateDependsOn_exact [of exampleServices "[''web'', ''migrate'']"]
    by (simp add: ValidateDependsOn_example)
  moreover have "\<exists>svc. gget exampleServices ''migrate'' = Some svc \<and> IsJob svc"
    by (simp add: exampleServices_def gget_Cons IsJob_def go_consts)
  ultimately show ?thesis by simp
qed

text \<open>C17. A stack that passes \<open>Validate\<close> is deployable: its sanitised name and the names of its services
  are valid, every service has an image or a build section, every endpoint rule of a known service
  targets a port that the service declares, and the dependencies are defined and free of cycles.\<close>

theorem Validate_sound:
  assumes "Validate w s = Inr s'"
  shows "validateStackName (ResourceK8sMetaString (sk_Name s')) = None \<and>
    (\<forall>n svc. gget (sk_Services s') n = Some svc \<longrightarrow>
       validateStackName n = None \<and> (s_Image svc \<noteq> [] \<or> s_Build svc \<noteq> None) \<and>
       (\<forall>d \<in> set (gkeys (s_DependsOn svc)). d \<noteq> n \<and> gget (sk_Services s') d \<noteq> None)) \<and>
    (\<forall>(n, e) \<in> set (sk_Endpoints s'). \<forall>r \<in> set (en_Rules e). \<forall>svc.
       gget (sk_Services s') (er_Service r) = Some svc \<longrightarrow>
       er_Port r \<in> p_ContainerPort ` set (s_Ports svc)) \<and>
    acyclic (dependencyRel (sk_Services s'))"
proof -
  from assms obtain ws where name: "validateStackName (ResourceK8sMetaString (sk_Name s)) = None"
    and eps: "validateEndpoints (sk_Services s) (sk_Endpoints s) = None"
    and svcs: "validateServices w (sk_Services s) (sw_VolumeMountWarnings (sk_Warnings s))
      = Inr (sk_Services s', ws)"
    and deps: "ValidateDependsOn (sk_Services s') (getNames (sk_Services s')) = None"
    and same: "sk_Endpoints s' = sk_Endpoints s" "sk_Name s' = sk_Name s"
    by (rule Validate_ok)
  have "validateStackName n = None \<and> (s_Image svc \<noteq> [] \<or> s_Build svc \<noteq> None) \<and>
       (\<forall>d \<in> set (gkeys (s_DependsOn svc)). d \<noteq> n \<and> gget (sk_Services s') d \<noteq> None)"
    if svc: "gget (sk_Services s') n = Some svc" for n svc
  proof -
    have "n \<in> set (getNames (sk_Services s'))" using svc by (auto simp: getNames_def gkeys_iff)
    with deps svc have "validateDependencies (sk_Services s') n (s_DependsOn svc) = None"
      by (auto simp: ValidateDependsOn_None_iff validateDependsOnLoop_None_iff)
    then show ?thesis using validateServices_ok [OF svcs gget_in_set [OF svc]]
      by (fastforce simp: validateDependencies_None_iff gkeys_def)
  qed
  moreover have "er_Port r \<in> p_ContainerPort ` set (s_Ports svc)"
    if "(n, e) \<in> set (sk_Endpoints s')" "r \<in> set (en_Rules e)"
      "gget (sk_Services s') (er_Service r) = Some svc" for n e r svc
  proof -
    from validateServices_gget [OF svcs, of "er_Service r"] that(3)
    obtain svc0 where "gget (sk_Services s) (er_Service r) = Some svc0" "s_Ports svc0 = s_Ports svc"
      by (cases "gget (sk_Services s) (er_Service r)") auto
    with eps that same show ?thesis
      by (fastforce simp: validateEndpoints_None_iff validateRules_None_iff)
  qed
  ultimately show ?thesis
    using name same deps by (auto simp: ValidateDependsOn_None_iff)
qed

text \<open>A world with an empty disk except for two env files, and a stack that it decodes.\<close>

definition exampleStack :: stack where
  "exampleStack = emptyStack\<lparr>sk_Name := ''Voting App'', sk_Services := exampleServices,
     sk_Endpoints := [(''web'', \<lparr>en_Labels = [], en_Annotations = [],
        en_Rules = [\<lparr>er_Path = ''/'', er_Service = ''db'', er_Port = 5432\<rparr>]\<rparr>)]\<rparr>"

definition exampleWorld :: world where
  "exampleWorld =
     \<lparr>w_Env = [(''TOKEN'', ''secret'')], w_Cwd = ''/app'', w_GetwdFails = False,
      w_IsDir = (\<lambda>p. True), w_Exists = (\<lambda>p. p = ''/app/compose.yml''),
      w_ReadFile = (\<lambda>p. if p = ''/app/a.env'' then Some ''A'' else if p = ''/app/b.env'' then Some ''B''
                         else if p = ''/app/compose.yml'' then Some ''services'' else None),
      w_Realpath = (\<lambda>p. Some p), w_RepositoryURL = (\<lambda>p. None),
      w_Unmarshal = (\<lambda>c b. Inr (exampleStack\<lparr>sk_Services :=
         [(''batch'', emptyService\<lparr>s_RestartPolicy := ''Never'', s_Image := ''busybox'',
            s_Volumes := [\<lparr>vo_LocalPath = [], vo_RemotePath = ''/data''\<rparr>],
            s_Resources := Some \<lparr>sr_Limits = \<lparr>sr_CPU = 0, sr_Memory = 0,
              sr_Storage = \<lparr>st_Size = 0, st_Class = []\<rparr>\<rparr>,
              sr_Requests = \<lparr>sr_CPU = 0, sr_Memory = 0,
              sr_Storage = \<lparr>st_Size = 0, st_Class = []\<rparr>\<rparr>\<rparr>\<rparr>)]\<rparr>)),
      w_RequestURI = (\<lambda>p. False), w_ExpandEnv = (\<lambda>p. Some p),
      w_ParseEnvFile = (\<lambda>b. if b = ''A'' then Some [(''PORT'', ''80''), (''HOST'', ''a'')]
                            else if b = ''B'' then Some [(''PORT'', ''81''), (''TOKEN'', [])]
                            else None)\<rparr>"

theorem Validate_sound_witness:
  "\<exists>s'. Validate exampleWorld exampleStack = Inr s' \<and> acyclic (dependencyRel (sk_Services s'))"
proof -
  have "isl (Validate exampleWorld exampleStack) = False" by code_simp
  then obtain s' where "Validate exampleWorld exampleStack = Inr s'"
    by (cases "Validate exampleWorld exampleStack") auto
  with Validate_sound [OF this] show ?thesis by blast
qed

text \<open>The environment of a service after its env files are read: a variable of the compose file wins
  over every env file, a later file wins over an earlier one, a variable the file leaves empty is
  taken from the process, and the result is sorted by name.\<close>

theorem loadEnvFiles_precedence:
  assumes "list_all2 (\<lambda>f m. readEnvFile w f = Inr m \<and> gwf m) (s_EnvFiles svc) ms"
  shows "\<exists>svc'. loadEnvFiles w svc = Inr svc' \<and> sorted (map va_Name (s_Environment svc')) \<and>
           (\<forall>n. envLookup (s_Environment svc') n
              = (case envLookup (s_Environment svc) n of
                   Some v \<Rightarrow> Some v | None \<Rightarrow> firstFile w (rev ms) n))"
  using loadEnvFiles_lookup [OF assms] by blast

definition exampleEnvService :: service where
  "exampleEnvService = emptyService\<lparr>s_EnvFiles := [''a.env'', ''b.env''],
     s_Environment := [\<lparr>va_Name = ''HOST'', va_Value = ''inline''\<rparr>]\<rparr>"

theorem loadEnvFiles_precedence_witness:
  "\<exists>svc'. loadEnvFiles exampleWorld exampleEnvService = Inr svc' \<and>
     envLookup (s_Environment svc') ''HOST'' = Some ''inline'' \<and>
     envLookup (s_Environment svc') ''PORT'' = Some ''81'' \<and>
     envLookup (s_Environment svc') ''TOKEN'' = Some ''secret''"
proof -
  let ?ms = "[[(''PORT'', ''80''), (''HOST'', ''a'')], [(''PORT'', ''81''), (''TOKEN'', [])]]"
  have r: "readEnvFile exampleWorld ''a.env'' = Inr [(''PORT'', ''80''), (''HOST'', ''a'')]"
    "readEnvFile exampleWorld ''b.env'' = Inr [(''PORT'', ''81''), (''TOKEN'', [])]"
    by code_simp+
  have "list_all2 (\<lambda>f m. readEnvFile exampleWorld f = Inr m \<and> gwf m) (s_EnvFiles exampleEnvService) ?ms"
    by (simp add: r exampleEnvService_def gwf_def)
  from loadEnvFiles_precedence [OF this] obtain svc' where
    "loadEnvFiles exampleWorld exampleEnvService = Inr svc'" and
    l: "\<And>n. envLookup (s_Environment svc') n = (case envLookup (s_Environment exampleEnvService) n of
          Some v \<Rightarrow> Some v | None \<Rightarrow> firstFile exampleWorld (rev ?ms) n)"
    by blast
  moreover have "envLookup (s_Environment exampleEnvService) ''HOST'' = Some ''inline''"
    "envLookup (s_Environment exampleEnvService) ''PORT'' = None"
    "envLookup (s_Environment exampleEnvService) ''TOKEN'' = None"
    "firstFile exampleWorld (rev ?ms) ''PORT'' = Some ''81''"
    "firstFile exampleWorld (rev ?ms) ''TOKEN'' = Some ''secret''" by code_simp+
  ultimately show ?thesis by auto
qed





text \<open>
  Three fields take no part in the overlay: an override file cannot change the user, the public
  flag or the endpoint mode of a service.
\<close>

lemma mergeService_keeps:
  "s_User (mergeService r svc) = s_User r" "s_Public (mergeService r svc) = s_Public r"
  "s_EndpointMode (mergeService r svc) = s_EndpointMode r"
  by (simp_all add: mergeService_sel)

end
