(* ===== verification/ComposeLoad.thy ===== *)
theory ComposeLoad
  imports Compose
begin

text \<open>
  Loading a compose file: \<open>LoadStack\<close> and what it calls, from
  \<^verbatim>\<open>src/pkg/model/stack.go\<close>, \<^verbatim>\<open>src/pkg/model/utils/utils.go\<close>,
  \<^verbatim>\<open>src/pkg/discovery/compose.go\<close> and \<^verbatim>\<open>src/pkg/filesystem/workdir.go\<close>. The process has
  state here: the loader changes the working directory and exports \<open>OKTETO_NAME\<close>. An operation
  takes the world and returns its result or error with the world after it, so what a failed load
  leaves behind is visible too. The lemmas say that the directory is always restored, that no other
  variable is touched, and which name and which file are chosen.
\<close>

section \<open>Paths and names\<close>

definition OktetoNameEnvVar :: string where [go_consts]: "OktetoNameEnvVar = ''OKTETO_NAME''"
definition stackSupportEnabledEnvVar :: string where
  [go_consts]: "stackSupportEnabledEnvVar = ''OKTETO_SUPPORT_STACKS_ENABLED''"
definition deprecatedManifests :: "string list" where
  "deprecatedManifests = [''stack.yml'', ''stack.yaml'']"

type_synonym 'a io = "world \<Rightarrow> (composeErr + 'a) \<times> world"

text \<open>\<open>os.Setenv\<close> refuses a value with a NUL byte; \<open>filepath.Abs\<close> fails with \<open>os.Getwd\<close>.\<close>

definition setenv :: "string \<Rightarrow> string \<Rightarrow> unit io" where
  "setenv k v w =
     (if CHR 0x00 \<in> set v then (Inl SetenvFailed, w) else (Inr (), w\<lparr>w_Env := gput k v (w_Env w)\<rparr>))"

definition Abs :: "world \<Rightarrow> string \<Rightarrow> string option" where
  "Abs w p = (if IsAbs p then Some (Clean p)
              else if w_GetwdFails w then None else Some (joinPaths [w_Cwd w, p]))"

definition LoadBooleanOrDefault :: "world \<Rightarrow> string \<Rightarrow> bool \<Rightarrow> bool" where
  "LoadBooleanOrDefault w k d =
     (let v = getenv w k
      in if v = [] then d else case parseBool v of None \<Rightarrow> False | Some h \<Rightarrow> h)"

definition GetWorkdirFromManifestPath :: "string \<Rightarrow> string" where
  "GetWorkdirFromManifestPath manifestPath =
     (let dir = Dir manifestPath in if Base dir = ''.okteto'' then Dir dir else dir)"

definition GetManifestPathFromWorkdir :: "string \<Rightarrow> string \<Rightarrow> string" where
  "GetManifestPathFromWorkdir manifestPath workdir =
     (case Rel workdir manifestPath of None \<Rightarrow> [] | Some p \<Rightarrow> p)"

definition GetValidNameFromFolder :: "world \<Rightarrow> string \<Rightarrow> composeErr + string" where
  "GetValidNameFromFolder w folder =
     (case Abs w folder of
        None \<Rightarrow> Inl GetwdFailed
      | Some dir \<Rightarrow> let dir = (if folder = ''.okteto'' then Dir dir else dir) in Inr (Base dir))"

definition getValidNameFromGitRepo :: "world \<Rightarrow> string \<Rightarrow> composeErr + string" where
  "getValidNameFromGitRepo w folder =
     (case w_RepositoryURL w (resolve w folder) of
        None \<Rightarrow> Inl (FileError folder)
      | Some repo \<Rightarrow> (case TranslateURLToName repo of None \<Rightarrow> Inl GoPanic | Some name \<Rightarrow> Inr name))"

text \<open>The name of last resort; a panic is no error and is not caught.\<close>

definition inferredName :: "world \<Rightarrow> string \<Rightarrow> composeErr + string" where
  "inferredName w folder =
     (case getValidNameFromGitRepo w folder of
        Inr name \<Rightarrow> Inr name
      | Inl e \<Rightarrow> if e = GoPanic then Inl GoPanic else GetValidNameFromFolder w folder)"

definition export :: "string \<Rightarrow> string io" where
  "export name = andThen (setenv OktetoNameEnvVar name) (\<lambda>_ w. (Inr name, w))"

definition getStackName :: "string \<Rightarrow> string \<Rightarrow> string \<Rightarrow> string io" where
  "getStackName name stackPath actualStackName w =
     (if name \<noteq> [] then export name w
      else if actualStackName = [] then
        if getenv w OktetoNameEnvVar \<noteq> [] then (Inr (getenv w OktetoNameEnvVar), w)
        else case inferredName w (Dir stackPath) of
               Inl e \<Rightarrow> (Inl e, w)
             | Inr name \<Rightarrow> export name w
      else export actualStackName w)"

section \<open>One compose file\<close>

definition loadAbsPath :: "world \<Rightarrow> string \<Rightarrow> string \<Rightarrow> string" where
  "loadAbsPath w folder path =
     (let path = (if IsAbs path then path else joinPaths [folder, path])
      in case w_Realpath w (resolve w path) of None \<Rightarrow> path | Some realpath \<Rightarrow> realpath)"

text \<open>Go's \<open>copy(dst, src)\<close> overwrites the common prefix of the two slices.\<close>

definition goCopy :: "'a list \<Rightarrow> 'a list \<Rightarrow> 'a list" where
  "goCopy dst src = take (length dst) src @ drop (length src) dst"

definition loadBuild :: "world \<Rightarrow> string \<Rightarrow> service \<Rightarrow> buildInfo \<Rightarrow> buildInfo" where
  "loadBuild w stackDir svc b =
     (let b = (if w_RequestURI w (bi_Context b) then b\<lparr>bi_Dockerfile := []\<rparr>
               else let ctx = loadAbsPath w stackDir (bi_Context b)
                    in b\<lparr>bi_Context := ctx, bi_Dockerfile := loadAbsPath w ctx (bi_Dockerfile b)\<rparr>)
      in b\<lparr>bi_VolumesToInclude := goCopy (bi_VolumesToInclude b) (s_Volumes svc)\<rparr>)"

fun loadServices :: "world \<Rightarrow> string \<Rightarrow> composeServices \<Rightarrow> composeErr + composeServices" where
  "loadServices w stackDir [] = Inr []"
| "loadServices w stackDir ((svcName, svc) # rest) =
     (case loadEnvFiles w svc of
        Inl e \<Rightarrow> Inl e
      | Inr svc \<Rightarrow>
          let svc = svc\<lparr>s_Build := map_option (loadBuild w stackDir svc) (s_Build svc)\<rparr>
          in case loadServices w stackDir rest of
               Inl e \<Rightarrow> Inl e
             | Inr rest \<Rightarrow> Inr ((svcName, svc) # rest))"

definition nameEndpoint :: "stack \<Rightarrow> stack" where
  "nameEndpoint s =
     (case gget (sk_Endpoints s) [] of
        None \<Rightarrow> s
      | Some endpoint \<Rightarrow>
          s\<lparr>sk_Endpoints := gdel [] (gput (ResourceK8sMetaString (sk_Name s)) endpoint (sk_Endpoints s))\<rparr>)"

text \<open>\<open>GetStackFromPath\<close> between the two changes of directory.\<close>

definition stackFromBytes :: "string \<Rightarrow> string \<Rightarrow> bool \<Rightarrow> string \<Rightarrow> stack io" where
  "stackFromBytes name stackPath isCompose b w =
     (case ReadStack w b isCompose of
        Inl e \<Rightarrow> (Inl e, w)
      | Inr s \<Rightarrow>
          andThen (getStackName name stackPath (sk_Name s)) (\<lambda>stackName w.
            let s = nameEndpoint (s\<lparr>sk_Paths := [stackPath], sk_Name := stackName\<rparr>)
            in case Abs w (Dir stackPath) of
                 None \<Rightarrow> (Inl GetwdFailed, w)
               | Some stackDir \<Rightarrow>
                   (case loadServices w stackDir (sk_Services s) of
                      Inl e \<Rightarrow> (Inl e, w)
                    | Inr cs \<Rightarrow> (Inr (s\<lparr>sk_Services := cs\<rparr>), w))) w)"

definition GetStackFromPath :: "string \<Rightarrow> string \<Rightarrow> bool \<Rightarrow> stack io" where
  "GetStackFromPath name stackPath isCompose w =
     (case w_ReadFile w (resolve w stackPath) of
        None \<Rightarrow> (Inl (FileError stackPath), w)
      | Some b \<Rightarrow>
          if trimSpace b = [] then (Inl ManifestEmpty, w)
          else if w_GetwdFails w then (Inl GetwdFailed, w)
          else let stackWorkingDir = GetWorkdirFromManifestPath stackPath
               in if \<not> w_IsDir w (resolve w stackWorkingDir)
                  then (Inl (FileError stackWorkingDir), w)
                  else case stackFromBytes name
                              (GetManifestPathFromWorkdir stackPath stackWorkingDir) isCompose b
                              (w\<lparr>w_Cwd := resolve w stackWorkingDir\<rparr>) of
                         (r, w') \<Rightarrow> (r, w'\<lparr>w_Cwd := w_Cwd w\<rparr>))"

section \<open>Several files, overrides, discovery\<close>

definition isFileCompose :: "world \<Rightarrow> string \<Rightarrow> bool" where
  "isFileCompose w path =
     (let base = Base path;
          isComposeFileName = (hasPrefix base ''compose'' \<or> hasPrefix base ''docker-compose''
                               \<or> hasPrefix base ''okteto-compose'');
          isStackSupported = LoadBooleanOrDefault w stackSupportEnabledEnvVar False
      in if \<not> isStackSupported then True else isComposeFileName)"

definition isDeprecatedExtension :: "string \<Rightarrow> bool" where
  "isDeprecatedExtension stackPath = list_ex (\<lambda>m. m = Base stackPath) deprecatedManifests"

definition overridePath :: "string \<Rightarrow> string" where
  "overridePath stackPath =
     (let extension = Ext stackPath; fileName = trimSuffix stackPath extension
      in fileName @ ''.override'' @ extension)"

definition getOverrideFile :: "string \<Rightarrow> stack io" where
  "getOverrideFile stackPath w =
     (if FileExists w (overridePath stackPath)
      then GetStackFromPath [] (overridePath stackPath) (isFileCompose w stackPath) w
      else (Inl (FileError (overridePath stackPath)), w))"

text \<open>An error in the override file is dropped, and so is the file; a panic is not.\<close>

definition getStack :: "string \<Rightarrow> string \<Rightarrow> stack io" where
  "getStack name manifestPath w =
     andThen (GetStackFromPath name manifestPath (isFileCompose w manifestPath)) (\<lambda>stack w.
       case getOverrideFile manifestPath w of
         (Inr overrideStack, w) \<Rightarrow> (Inr (Merge (Some stack) overrideStack), w)
       | (Inl e, w) \<Rightarrow> if e = GoPanic then (Inl GoPanic, w) else (Inr stack, w)) w"

definition possibleComposeManifests :: "string list list" where
  "possibleComposeManifests =
     [[''okteto-stack.yml''], [''okteto-stack.yaml''], [''stack.yml''], [''stack.yaml''],
      [''.okteto'', ''okteto-stack.yml''], [''.okteto'', ''okteto-stack.yaml''],
      [''.okteto'', ''stack.yml''], [''.okteto'', ''stack.yaml''],
      [''okteto-compose.yml''], [''okteto-compose.yaml''],
      [''.okteto'', ''okteto-compose.yml''], [''.okteto'', ''okteto-compose.yaml''],
      [''compose.yml''], [''compose.yaml''], [''docker-compose.yml''], [''docker-compose.yaml''],
      [''.okteto'', ''compose.yml''], [''.okteto'', ''compose.yaml''],
      [''.okteto'', ''docker-compose.yml''], [''.okteto'', ''docker-compose.yaml'']]"

definition IsComposeFilename :: "string \<Rightarrow> bool" where
  "IsComposeFilename path = list_ex (\<lambda>parts. last parts = Base path) possibleComposeManifests"

fun firstExisting :: "world \<Rightarrow> string \<Rightarrow> string list list \<Rightarrow> string option" where
  "firstExisting w wd [] = None"
| "firstExisting w wd (m # ms) =
     (let manifestPath = joinPaths [wd, joinPaths m]
      in if FileExists w manifestPath then Some manifestPath else firstExisting w wd ms)"

definition GetComposePath :: "world \<Rightarrow> string \<Rightarrow> string option" where
  "GetComposePath w wd = firstExisting w wd possibleComposeManifests"

definition inferStack :: "string \<Rightarrow> string \<Rightarrow> stack io" where
  "inferStack wd name w =
     (case GetComposePath w wd of
        None \<Rightarrow> (Inl ComposeFileNotFound, w)
      | Some composePath \<Rightarrow> getStack name composePath w)"

fun loadStacks :: "string \<Rightarrow> string list \<Rightarrow> stack option \<Rightarrow> stack option io" where
  "loadStacks name [] result w = (Inr result, w)"
| "loadStacks name (stackPath # rest) result w =
     (if FileExists w stackPath
      then andThen (getStack name stackPath) (\<lambda>stack. loadStacks name rest (Some (Merge result stack))) w
      else (Inl (FileError stackPath), w))"

definition LoadStack :: "string \<Rightarrow> string list \<Rightarrow> bool \<Rightarrow> stack io" where
  "LoadStack name stackPaths validate w =
     andThen (\<lambda>w. if stackPaths = []
                  then if w_GetwdFails w then (Inl GetwdFailed, w)
                       else andThen (inferStack (w_Cwd w) name)
                              (\<lambda>stack w. (Inr (Some (Merge None stack)), w)) w
                  else loadStacks name stackPaths None w)
       (\<lambda>result w. case result of
          None \<Rightarrow> (Inl GoPanic, w)
        | Some s \<Rightarrow> if validate
                    then (case Validate w s of Inl e \<Rightarrow> (Inl e, w) | Inr s \<Rightarrow> (Inr s, w))
                    else (Inr s, w)) w"

section \<open>What the loader leaves behind\<close>

text \<open>The world after differs from the world before in the variable \<open>OKTETO_NAME\<close> at most.\<close>

definition onlyName :: "world \<Rightarrow> world \<Rightarrow> bool" where
  "onlyName w w' \<longleftrightarrow>
     w' = w\<lparr>w_Env := w_Env w'\<rparr> \<and> (\<forall>k. k \<noteq> OktetoNameEnvVar \<longrightarrow> gget (w_Env w') k = gget (w_Env w) k)"

lemma onlyName_refl [simp, intro]: "onlyName w w"
  by (simp add: onlyName_def)

lemma onlyName_trans: "onlyName w w' \<Longrightarrow> onlyName w' w'' \<Longrightarrow> onlyName w w''"
  by (cases w; cases w'; cases w'') (simp add: onlyName_def)

lemma onlyName_andThen:
  assumes "onlyName w (snd (m w))" and "\<And>a w'. onlyName w' (snd (f a w'))"
  shows "onlyName w (snd (andThen m f w))"
  using assms onlyName_trans by (fastforce simp: andThen_def split: sum.split prod.split)

lemma onlyName_export [simp]: "onlyName w (snd (export name w))"
  by (simp add: export_def andThen_def setenv_def onlyName_def gget_put)

lemma onlyName_getStackName [simp]: "onlyName w (snd (getStackName name p actual w))"
  by (auto simp: getStackName_def split: sum.split)

lemma onlyName_stackFromBytes [simp]: "onlyName w (snd (stackFromBytes name p c b w))"
  by (auto simp: stackFromBytes_def Let_def intro!: onlyName_andThen split: sum.split option.split)

lemma onlyName_cwd: "onlyName (w\<lparr>w_Cwd := d\<rparr>) w' \<Longrightarrow> onlyName w (w'\<lparr>w_Cwd := w_Cwd w\<rparr>)"
  by (cases w; cases w') (auto simp: onlyName_def)

lemma onlyName_GetStackFromPath [simp]: "onlyName w (snd (GetStackFromPath name p c w))"
proof -
  have "onlyName w (w'\<lparr>w_Cwd := w_Cwd w\<rparr>)"
    if "stackFromBytes name q c b (w\<lparr>w_Cwd := d\<rparr>) = (r, w')" for q b d r w'
    using onlyName_stackFromBytes [of "w\<lparr>w_Cwd := d\<rparr>" name q c b] that by (intro onlyName_cwd) simp
  then show ?thesis
    by (auto simp: GetStackFromPath_def Let_def split: option.split prod.split)
qed

lemma onlyName_getOverrideFile [simp]: "onlyName w (snd (getOverrideFile p w))"
  by (simp add: getOverrideFile_def)

lemma onlyName_getStack [simp]: "onlyName w (snd (getStack name p w))"
proof -
  have "onlyName w' (snd (case getOverrideFile p w' of
         (Inr t, w) \<Rightarrow> (Inr (Merge (Some s) t), w)
       | (Inl e, w) \<Rightarrow> if e = GoPanic then (Inl GoPanic, w) else (Inr s, w)))" for s w'
  proof (cases "getOverrideFile p w'")
    case (Pair r w2)
    with onlyName_getOverrideFile [of w' p] have "onlyName w' w2" by simp
    with Pair show ?thesis by (auto split: sum.split)
  qed
  then show ?thesis by (simp add: getStack_def onlyName_andThen)
qed

lemma onlyName_loadStacks [simp]: "onlyName w (snd (loadStacks name ps r w))"
  by (induction name ps r w rule: loadStacks.induct) (auto intro!: onlyName_andThen)

lemma export_value: "export name w = (Inr n, w') \<Longrightarrow> n = name \<and> getenv w' OktetoNameEnvVar = n"
  by (auto simp: export_def andThen_def setenv_def getenv_def gstr_def gget_put split: if_splits)

section \<open>Properties\<close>



text \<open>The name of a compose is the one given by the user, else the one in the file, else the one in the
  environment, else the one inferred from the repository or folder; and once a name is chosen, the
  environment exports that very name.\<close>

theorem getStackName_precedence:
  assumes "getStackName name path actual w = (Inr n, w')"
  shows "n = (if name \<noteq> [] then name else if actual \<noteq> [] then actual
              else if getenv w OktetoNameEnvVar \<noteq> [] then getenv w OktetoNameEnvVar
              else projr (inferredName w (Dir path))) \<and>
         getenv w' OktetoNameEnvVar = n"
  using assms
  by (auto simp: getStackName_def dest!: export_value split: if_splits sum.splits)

theorem getStackName_precedence_witness:
  "\<exists>w'. getStackName [] ''compose.yml'' [] exampleWorld = (Inr ''app'', w') \<and>
        getenv w' OktetoNameEnvVar = ''app''"
proof -
  have "fst (getStackName [] ''compose.yml'' [] exampleWorld) = Inr ''app''" by code_simp
  then have "getStackName [] ''compose.yml'' [] exampleWorld
      = (Inr ''app'', snd (getStackName [] ''compose.yml'' [] exampleWorld))"
    by (metis prod.collapse)
  with getStackName_precedence [OF this] show ?thesis by metis
qed

text \<open>The discovered compose file is the first candidate that exists.\<close>

lemma firstExisting_find:
  "firstExisting w wd ms = find (FileExists w) (map (\<lambda>m. joinPaths [wd, joinPaths m]) ms)"
  by (induction ms) (simp_all add: Let_def)

end
