(* ===== verification/ComposeTranslate.thy ===== *)
theory ComposeTranslate
  imports ComposeLoad
begin

text \<open>
  The translation of compose services into Kubernetes objects,
  \<^verbatim>\<open>src/pkg/cmd/stack/translate.go\<close>: one definition per function, in the order of the file.
  \<open>None\<close> is a nil pointer dereference (a service or volume that is not in the stack, a health
  check with neither a test nor an HTTP target, missing resources). The record \<open>ambient\<close> holds
  what the code reads from its surroundings: the environment, whether the directory is a clone of an
  okteto repository, the image of the CLI and the pod transformation of the divert driver.
  The lemmas say that selectors match, ports are unique, mounts resolve and strategies are valid.
\<close>

section \<open>Ambient settings and constants\<close>

record ambient =
  am_World :: world
  am_IsOktetoRepo :: bool
  am_CliImage :: string
  am_Divert :: "(podSpec \<Rightarrow> podSpec) option"

definition NameField :: string where [go_consts]: "NameField = ''name''"
definition statusField :: string where [go_consts]: "statusField = ''status''"
definition YamlField :: string where [go_consts]: "YamlField = ''yaml''"
definition ComposeField :: string where [go_consts]: "ComposeField = ''compose''"
definition outputField :: string where [go_consts]: "outputField = ''output''"
definition progressingStatus :: string where [go_consts]: "progressingStatus = ''progressing''"
definition deployedStatus :: string where [go_consts]: "deployedStatus = ''deployed''"
definition errorStatus :: string where [go_consts]: "errorStatus = ''error''"
definition destroyingStatus :: string where [go_consts]: "destroyingStatus = ''destroying''"
definition pvcName :: string where [go_consts]: "pvcName = ''pvc''"
definition oktetoComposeVolumeAffinityEnabledEnvVar :: string where
  [go_consts]: "oktetoComposeVolumeAffinityEnabledEnvVar = ''OKTETO_COMPOSE_VOLUME_AFFINITY_ENABLED''"
definition oktetoComposeEndpointsTypeEnvVar :: string where
  [go_consts]: "oktetoComposeEndpointsTypeEnvVar = ''OKTETO_COMPOSE_ENDPOINTS_TYPE''"
definition oktetoDefaultGatewayTypeEnvVar :: string where
  [go_consts]: "oktetoDefaultGatewayTypeEnvVar = ''OKTETO_DEFAULT_GATEWAY_TYPE''"
definition dependsOnAnnotation :: string where
  [go_consts]: "dependsOnAnnotation = ''dev.okteto.com/depends-on''"
definition identityTokenVolumeName :: string where
  [go_consts]: "identityTokenVolumeName = ''okteto-identity-token''"
definition identityTokenFileName :: string where [go_consts]: "identityTokenFileName = ''token''"
definition defaultIdentityTokenExpirationSeconds :: int where
  "defaultIdentityTokenExpirationSeconds = 3600"
definition rollingUpdateStrategy :: string where [go_consts]: "rollingUpdateStrategy = ''rolling''"
definition recreateUpdateStrategy :: string where [go_consts]: "recreateUpdateStrategy = ''recreate''"
definition onDeleteUpdateStrategy :: string where [go_consts]: "onDeleteUpdateStrategy = ''on-delete''"
definition OktetoComposeUpdateStrategyEnvVar :: string where
  [go_consts]: "OktetoComposeUpdateStrategyEnvVar = ''OKTETO_COMPOSE_UPDATE_STRATEGY''"

section \<open>Encodings of the standard library\<close>

definition base64Char :: "nat \<Rightarrow> char" where
  "base64Char n =
     (if n < 26 then char_of (65 + n) else if n < 52 then char_of (71 + n)
      else if n < 62 then char_of (n - 4) else if n = 62 then CHR ''+'' else CHR ''/'')"

fun base64 :: "string \<Rightarrow> string" where
  "base64 [] = []"
| "base64 [a] =
     (let x = of_char a
      in [base64Char (x div 4), base64Char (x mod 4 * 16), CHR ''='', CHR ''=''])"
| "base64 [a, b] =
     (let x = of_char a; y = of_char b
      in [base64Char (x div 4), base64Char (x mod 4 * 16 + y div 16), base64Char (y mod 16 * 4), CHR ''=''])"
| "base64 (a # b # c # s) =
     (let x = of_char a; y = of_char b; z = of_char c
      in base64Char (x div 4) # base64Char (x mod 4 * 16 + y div 16)
         # base64Char (y mod 16 * 4 + z div 64) # base64Char (z mod 64) # base64 s)"

text \<open>\<open>json.Marshal\<close> of \<open>depends_on\<close>: keys sorted, an empty condition omitted.\<close>

definition jsonDependsOn :: "dependsOn \<Rightarrow> string" where
  "jsonDependsOn deps =
     ''{'' @ join '','' (map (\<lambda>(k, c). jsonString k @ '':{'' @
         (if c = [] then [] else jsonString ''condition'' @ '':'' @ jsonString c) @ ''}'')
       (sort_key fst deps)) @ ''}''"

text \<open>\<open>int32(x)\<close> of an \<open>int\<close>, and of \<open>Duration.Seconds()\<close> below 2^22 seconds.\<close>

definition toInt32 :: "int \<Rightarrow> int" where
  "toInt32 x = (x + 2147483648) mod 4294967296 - 2147483648"

definition durationSeconds :: "int \<Rightarrow> int" where
  "durationSeconds d = (if 0 \<le> d then d div 1000000000 else - ((- d) div 1000000000))"

section \<open>Labels, annotations, configuration\<close>

definition translateConfigMap :: "stack \<Rightarrow> configMap" where
  "translateConfigMap s =
     \<lparr>cm_Namespace = [], cm_Name = GetStackConfigMapName (sk_Name s),
      cm_Labels = [(StackLabel, ''true''), (DeployedByLabel, ResourceK8sMetaString (sk_Name s))],
      cm_Annotations = [],
      cm_Data = [(NameField, sk_Name s), (YamlField, base64 (sk_Manifest s)),
                 (ComposeField, formatBool (sk_IsCompose s))]\<rparr>"

definition volumeLabelKey :: "volumeMounts \<Rightarrow> string" where
  "volumeLabelKey v = StackVolumeNameLabel @ ''-'' @ vo_LocalPath v"

fun addVolumeLabels :: "volumeMounts list \<Rightarrow> smap \<Rightarrow> smap" where
  "addVolumeLabels [] labels = labels"
| "addVolumeLabels (v # vs) labels =
     addVolumeLabels vs (if vo_LocalPath v \<noteq> [] then gput (volumeLabelKey v) ''true'' labels else labels)"

definition translateLabels :: "string \<Rightarrow> stack \<Rightarrow> service \<Rightarrow> smap" where
  "translateLabels svcName s svc =
     (let labels = [(StackNameLabel, ResourceK8sMetaString (sk_Name s)),
                    (StackServiceNameLabel, svcName),
                    (DeployedByLabel, ResourceK8sMetaString (sk_Name s))];
          labels = grange_put (s_Labels svc) labels
      in addVolumeLabels (s_Volumes svc) labels)"

definition translateLabelSelector :: "string \<Rightarrow> stack \<Rightarrow> smap" where
  "translateLabelSelector svcName s =
     [(StackNameLabel, ResourceK8sMetaString (sk_Name s)), (StackServiceNameLabel, svcName)]"

definition translateVolumeLabels :: "string \<Rightarrow> stack \<Rightarrow> volumeSpec \<Rightarrow> smap" where
  "translateVolumeLabels volumeName s volume =
     grange_put (vs_Labels volume)
       [(StackNameLabel, ResourceK8sMetaString (sk_Name s)), (StackVolumeNameLabel, volumeName),
        (DeployedByLabel, ResourceK8sMetaString (sk_Name s))]"

definition getAnnotations :: "ambient \<Rightarrow> service \<Rightarrow> smap" where
  "getAnnotations am svc =
     (let annotations = (if am_IsOktetoRepo am then gput OktetoSampleAnnotation ''true'' [] else [])
      in if s_DependsOn svc \<noteq> []
         then gput dependsOnAnnotation (jsonDependsOn (s_DependsOn svc)) annotations
         else annotations)"

definition translateAnnotations :: "ambient \<Rightarrow> service \<Rightarrow> smap" where
  "translateAnnotations am svc = grange_put (s_Annotations svc) (getAnnotations am svc)"

section \<open>Volumes\<close>

definition translateStorageClass :: "string \<Rightarrow> string option" where
  "translateStorageClass className = (if className \<noteq> [] then Some className else None)"

definition translatePersistentVolumeClaim :: "string \<Rightarrow> stack \<Rightarrow> persistentVolumeClaim option" where
  "translatePersistentVolumeClaim volumeName s =
     (case gget (sk_Volumes s) volumeName of
        None \<Rightarrow> None
      | Some volumeSpec \<Rightarrow>
          Some \<lparr>pvc_Meta = newMeta volumeName (sk_Namespace s)
                            (translateVolumeLabels volumeName s volumeSpec) (vs_Annotations volumeSpec),
                pvc_AccessModes = [ReadWriteOnce],
                pvc_Storage = vs_Size volumeSpec,
                pvc_StorageClassName = translateStorageClass (vs_Class volumeSpec)\<rparr>)"

definition getVolumeClaimName :: "volumeMounts \<Rightarrow> string" where
  "getVolumeClaimName v = (if vo_LocalPath v \<noteq> [] then vo_LocalPath v else pvcName)"

definition volumeSubPath :: "nat \<Rightarrow> volumeMounts \<Rightarrow> string" where
  "volumeSubPath i v = (if vo_LocalPath v \<noteq> [] then vo_LocalPath v else ''data-'' @ showNat i)"

definition mount :: "string \<Rightarrow> string \<Rightarrow> string \<Rightarrow> volumeMount" where
  "mount name path subPath =
     \<lparr>vm_Name = name, vm_MountPath = path, vm_SubPath = subPath, vm_ReadOnly = False\<rparr>"

text \<open>The loop of \<open>getInitContainerCommandAndVolumeMounts\<close> with its two flags, as in the code.\<close>

fun permissionsLoop :: "volumeMounts list \<Rightarrow> string \<Rightarrow> bool \<Rightarrow> bool \<Rightarrow> volumeMount list
    \<Rightarrow> string \<times> volumeMount list" where
  "permissionsLoop [] command addedVolumes addedData mounts = (command, mounts)"
| "permissionsLoop (v # vs) command addedVolumes addedData mounts =
     (let volumeName = getVolumeClaimName v
      in if volumeName \<noteq> pvcName then
           let mounts = mounts @ [mount volumeName (''/volumes/'' @ volumeName) []]
           in if \<not> addedVolumes then
                if command = [] then permissionsLoop vs ''chmod 777 /volumes/*'' True addedData mounts
                else permissionsLoop vs (command @ '' && chmod 777 /volumes/*'') addedVolumes addedData mounts
              else permissionsLoop vs command addedVolumes addedData mounts
         else if \<not> addedData then
           let mounts = mounts @ [mount volumeName ''/data'' []]
           in if command = [] then permissionsLoop vs ''chmod 777 /data'' addedVolumes True mounts
              else permissionsLoop vs (command @ '' && chmod 777 /data'') addedVolumes addedData mounts
         else permissionsLoop vs command addedVolumes addedData mounts)"

definition getInitContainerCommandAndVolumeMounts :: "service \<Rightarrow> string list \<times> volumeMount list" where
  "getInitContainerCommandAndVolumeMounts svc =
     (case permissionsLoop (s_Volumes svc) [] False False [] of
        (command, mounts) \<Rightarrow> ([''sh'', ''-c'', command], mounts))"

definition getAddPermissionsInitContainer :: "ambient \<Rightarrow> string \<Rightarrow> service \<Rightarrow> container" where
  "getAddPermissionsInitContainer am svcName svc =
     (case getInitContainerCommandAndVolumeMounts svc of
        (command, mounts) \<Rightarrow>
          emptyContainer\<lparr>c_Name := ''init-'' @ svcName, c_Image := am_CliImage am,
            c_ImagePullPolicy := PullIfNotPresent, c_Command := command, c_VolumeMounts := mounts\<rparr>)"

fun initializeLoop :: "nat \<Rightarrow> volumeMounts list \<Rightarrow> string \<Rightarrow> volumeMount list
    \<Rightarrow> string \<times> volumeMount list" where
  "initializeLoop idx [] command mounts = (command, mounts)"
| "initializeLoop idx (v # vs) command mounts =
     initializeLoop (Suc idx) vs
       (command @ '' && (cp -Rv '' @ vo_RemotePath v @ ''/. /init-volume-'' @ showNat idx @ '' || true)'')
       (mounts @ [mount (getVolumeClaimName v) (''/init-volume-'' @ showNat idx) (volumeSubPath idx v)])"

definition getInitializeVolumeContentContainer :: "string \<Rightarrow> service \<Rightarrow> container option" where
  "getInitializeVolumeContentContainer svcName svc =
     (case initializeLoop 0 (s_Volumes svc) ''echo initializing volume...'' [] of
        (command, mounts) \<Rightarrow>
          if mounts \<noteq> []
          then Some (emptyContainer\<lparr>c_Name := ''init-volume-'' @ svcName, c_Image := s_Image svc,
                       c_ImagePullPolicy := PullIfNotPresent, c_VolumeMounts := mounts,
                       c_Command := [''sh'', ''-c'', command]\<rparr>)
          else None)"

definition getInitContainers :: "ambient \<Rightarrow> string \<Rightarrow> service \<Rightarrow> container list" where
  "getInitContainers am svcName svc =
     (if s_Volumes svc \<noteq> [] then [getAddPermissionsInitContainer am svcName svc] else [])
     @ (case getInitializeVolumeContentContainer svcName svc of None \<Rightarrow> [] | Some c \<Rightarrow> [c])"

text \<open>The outer option is the dereference of \<open>svc.Resources\<close>.\<close>

fun claimTemplatesLoop :: "ambient \<Rightarrow> string \<Rightarrow> stack \<Rightarrow> service \<Rightarrow> volumeMounts list
    \<Rightarrow> persistentVolumeClaim list option" where
  "claimTemplatesLoop am svcName s svc [] = Some []"
| "claimTemplatesLoop am svcName s svc (v # vs) =
     (if vo_LocalPath v = [] then
        (case s_Resources svc of
           None \<Rightarrow> None
         | Some r \<Rightarrow>
             Some [\<lparr>pvc_Meta = newMeta pvcName [] (translateLabels svcName s svc)
                                 (translateAnnotations am svc),
                    pvc_AccessModes = [ReadWriteOnce],
                    pvc_Storage = st_Size (sr_Storage (sr_Requests r)),
                    pvc_StorageClassName = translateStorageClass (st_Class (sr_Storage (sr_Requests r)))\<rparr>])
      else claimTemplatesLoop am svcName s svc vs)"

definition translateVolumeClaimTemplates :: "ambient \<Rightarrow> string \<Rightarrow> stack \<Rightarrow> service
    \<Rightarrow> persistentVolumeClaim list option" where
  "translateVolumeClaimTemplates am svcName s svc = claimTemplatesLoop am svcName s svc (s_Volumes svc)"

definition translateIdentityTokenVolume :: "service \<Rightarrow> volume option" where
  "translateIdentityTokenVolume svc =
     map_option (\<lambda>t. \<lparr>v_Name = identityTokenVolumeName,
         v_Source = TokenSource (it_Audience t)
           (case it_ExpirationSeconds t of None \<Rightarrow> defaultIdentityTokenExpirationSeconds | Some e \<Rightarrow> e)
           identityTokenFileName\<rparr>) (s_IdentityToken svc)"

definition translateIdentityTokenVolumeMount :: "service \<Rightarrow> volumeMount option" where
  "translateIdentityTokenVolumeMount svc =
     map_option (\<lambda>t. \<lparr>vm_Name = identityTokenVolumeName, vm_MountPath = it_MountPath t,
         vm_SubPath = [], vm_ReadOnly = True\<rparr>) (s_IdentityToken svc)"

definition translateVolumes :: "service \<Rightarrow> volume list" where
  "translateVolumes svc =
     map (\<lambda>v. \<lparr>v_Name = getVolumeClaimName v, v_Source = PVCSource (vo_LocalPath v) False\<rparr>) (s_Volumes svc)
     @ (case translateIdentityTokenVolume svc of None \<Rightarrow> [] | Some v \<Rightarrow> [v])"

fun volumeMountsLoop :: "nat \<Rightarrow> volumeMounts list \<Rightarrow> volumeMount list" where
  "volumeMountsLoop i [] = []"
| "volumeMountsLoop i (v # vs) =
     mount (getVolumeClaimName v) (vo_RemotePath v) (volumeSubPath i v) # volumeMountsLoop (Suc i) vs"

definition translateVolumeMounts :: "service \<Rightarrow> volumeMount list" where
  "translateVolumeMounts svc =
     volumeMountsLoop 0 (s_Volumes svc)
     @ (case translateIdentityTokenVolumeMount svc of None \<Rightarrow> [] | Some m \<Rightarrow> [m])"

definition affinityTerm :: "volumeMounts \<Rightarrow> podAffinityTerm" where
  "affinityTerm v =
     \<lparr>pat_TopologyKey = ''kubernetes.io/hostname'', pat_MatchExpressions = [(volumeLabelKey v, ''Exists'')]\<rparr>"

definition translateAffinity :: "ambient \<Rightarrow> service \<Rightarrow> affinity option" where
  "translateAffinity am svc =
     (if \<not> LoadBooleanOrDefault (am_World am) oktetoComposeVolumeAffinityEnabledEnvVar True then None
      else let requirements = map affinityTerm (filter (\<lambda>v. vo_LocalPath v \<noteq> []) (s_Volumes svc))
           in if requirements \<noteq> []
              then Some \<lparr>aff_NodeAffinity = None, aff_PodAffinity = Some requirements,
                         aff_PodAntiAffinity = None\<rparr>
              else None)"

section \<open>The container of a service\<close>

definition translateSecurityContext :: "service \<Rightarrow> securityContext option" where
  "translateSecurityContext svc =
     (if s_CapAdd svc = [] \<and> s_CapDrop svc = [] \<and> s_User svc = None then None
      else Some \<lparr>sc_RunAsUser = (case s_User svc of None \<Rightarrow> None | Some u \<Rightarrow> ss_RunAsUser u),
                 sc_RunAsGroup = (case s_User svc of None \<Rightarrow> None | Some u \<Rightarrow> ss_RunAsGroup u),
                 sc_RunAsNonRoot = None, sc_AllowPrivilegeEscalation = None,
                 sc_ReadOnlyRootFilesystem = None,
                 sc_Capabilities = Some \<lparr>cap_Add = s_CapAdd svc, cap_Drop = s_CapDrop svc\<rparr>\<rparr>)"

definition translateServiceEnvironment :: "service \<Rightarrow> envVar list" where
  "translateServiceEnvironment svc =
     map (\<lambda>e. \<lparr>ev_Name = va_Name e, ev_Value = va_Value e, ev_ValueFrom = None\<rparr>)
       (filter (\<lambda>e. va_Name e \<noteq> []) (s_Environment svc))"

definition translateContainerPorts :: "service \<Rightarrow> int list" where
  "translateContainerPorts svc = map p_ContainerPort (sort_key p_ContainerPort (s_Ports svc))"

definition addResource :: "string \<Rightarrow> quantity \<Rightarrow> resourceList \<Rightarrow> resourceList" where
  "addResource k q l =
     (if 0 < q then Some (gput k q (case l of None \<Rightarrow> [] | Some m \<Rightarrow> m)) else l)"

definition translateResources :: "service \<Rightarrow> resourceRequirements" where
  "translateResources svc =
     (case s_Resources svc of
        None \<Rightarrow> \<lparr>rr_Limits = None, rr_Requests = None\<rparr>
      | Some r \<Rightarrow>
          \<lparr>rr_Limits = addResource ResourceMemory (sr_Memory (sr_Limits r))
                         (addResource ResourceCPU (sr_CPU (sr_Limits r)) None),
           rr_Requests = addResource ResourceMemory (sr_Memory (sr_Requests r))
                           (addResource ResourceCPU (sr_CPU (sr_Requests r)) None)\<rparr>)"

record healthcheckProbes =
  hp_readiness :: "probe option"
  hp_liveness :: "probe option"

definition getSvcHealthProbe :: "service \<Rightarrow> healthcheckProbes option" where
  "getSvcHealthProbe svc =
     (case s_Healtcheck svc of
        None \<Rightarrow> Some \<lparr>hp_readiness = None, hp_liveness = None\<rparr>
      | Some h \<Rightarrow>
          let handler = (if hc_Test h \<noteq> [] then Some (ExecHandler (hc_Test h))
                         else map_option (\<lambda>t. HTTPGetHandler (hh_Path t) (hh_Port t)) (hc_HTTP h))
          in map_option (\<lambda>handler.
               let probe = \<lparr>pr_Handler = handler,
                            pr_TimeoutSeconds = durationSeconds (hc_Timeout h),
                            pr_PeriodSeconds = durationSeconds (hc_Interval h),
                            pr_FailureThreshold = toInt32 (hc_Retries h),
                            pr_InitialDelaySeconds = durationSeconds (hc_StartPeriod h)\<rparr>
               in \<lparr>hp_readiness = (if hc_Readiness h then Some probe else None),
                   hp_liveness = (if hc_Liveness h then Some probe else None)\<rparr>) handler)"

definition serviceContainer :: "string \<Rightarrow> service \<Rightarrow> healthcheckProbes \<Rightarrow> container" where
  "serviceContainer svcName svc probes =
     emptyContainer\<lparr>c_Name := svcName, c_Image := s_Image svc, c_Command := s_Entrypoint svc,
       c_Args := s_Command svc, c_Env := translateServiceEnvironment svc,
       c_Ports := translateContainerPorts svc, c_SecurityContext := translateSecurityContext svc,
       c_Resources := translateResources svc, c_WorkingDir := s_Workdir svc,
       c_ReadinessProbe := hp_readiness probes, c_LivenessProbe := hp_liveness probes\<rparr>"

definition applyDivert :: "ambient \<Rightarrow> podSpec \<Rightarrow> podSpec" where
  "applyDivert am p = (case am_Divert am of None \<Rightarrow> p | Some updatePod \<Rightarrow> updatePod p)"

section \<open>Update strategies\<close>

definition getUpdateStrategyByAnnotation :: "service \<Rightarrow> string" where
  "getUpdateStrategyByAnnotation svc =
     (case gget (s_Annotations svc) OktetoComposeUpdateStrategyAnnotation of None \<Rightarrow> [] | Some v \<Rightarrow> v)"

definition getUpdateStrategyByEnvVar :: "ambient \<Rightarrow> string" where
  "getUpdateStrategyByEnvVar am = getenv (am_World am) OktetoComposeUpdateStrategyEnvVar"

definition getUpdateStrategy :: "ambient \<Rightarrow> service \<Rightarrow> (string \<Rightarrow> bool) \<Rightarrow> string \<Rightarrow> string" where
  "getUpdateStrategy am svc validate getDefault =
     (let a = getUpdateStrategyByAnnotation svc; e = getUpdateStrategyByEnvVar am
      in if a \<noteq> [] \<and> validate a then a
         else if e \<noteq> [] \<and> validate e then e
         else getDefault)"

definition deploymentStrategyValid :: "string \<Rightarrow> bool" where
  "deploymentStrategyValid u \<longleftrightarrow> \<not> (u \<noteq> rollingUpdateStrategy \<and> u \<noteq> recreateUpdateStrategy)"

definition deploymentStrategyDefault :: string where
  "deploymentStrategyDefault = recreateUpdateStrategy"

definition statefulSetStrategyValid :: "string \<Rightarrow> bool" where
  "statefulSetStrategyValid u \<longleftrightarrow> \<not> (u \<noteq> rollingUpdateStrategy \<and> u \<noteq> onDeleteUpdateStrategy)"

definition statefulSetStrategyDefault :: string where
  "statefulSetStrategyDefault = rollingUpdateStrategy"

definition getDeploymentUpdateStrategy :: "ambient \<Rightarrow> service \<Rightarrow> string" where
  "getDeploymentUpdateStrategy am svc =
     (if getUpdateStrategy am svc deploymentStrategyValid deploymentStrategyDefault = rollingUpdateStrategy
      then ''RollingUpdate'' else ''Recreate'')"

definition getStatefulsetUpdateStrategy :: "ambient \<Rightarrow> service \<Rightarrow> string" where
  "getStatefulsetUpdateStrategy am svc =
     (if getUpdateStrategy am svc statefulSetStrategyValid statefulSetStrategyDefault = rollingUpdateStrategy
      then ''RollingUpdate'' else ''OnDelete'')"

section \<open>Workloads and services\<close>

definition podTemplateOf :: "ambient \<Rightarrow> string \<Rightarrow> stack \<Rightarrow> service \<Rightarrow> podSpec \<Rightarrow> podTemplate" where
  "podTemplateOf am svcName s svc podSpec =
     \<lparr>pt_Meta = newMeta [] [] (translateLabels svcName s svc) (translateAnnotations am svc),
      pt_Spec = applyDivert am podSpec\<rparr>"

definition metaOf :: "ambient \<Rightarrow> string \<Rightarrow> stack \<Rightarrow> service \<Rightarrow> objectMeta" where
  "metaOf am svcName s svc =
     newMeta svcName (sk_Namespace s) (translateLabels svcName s svc) (translateAnnotations am svc)"

definition translateDeployment :: "ambient \<Rightarrow> string \<Rightarrow> stack \<Rightarrow> deployment option" where
  "translateDeployment am svcName s =
     (case gget (sk_Services s) svcName of
        None \<Rightarrow> None
      | Some svc \<Rightarrow>
          map_option (\<lambda>probes.
            let c = serviceContainer svcName svc probes;
                podSpec = emptyPodSpec\<lparr>ps_TerminationGracePeriodSeconds := Some (s_StopGracePeriod svc),
                  ps_NodeSelector := s_NodeSelector svc,
                  ps_EnableServiceLinks := s_EnableServiceLinks svc, ps_Containers := [c]\<rparr>;
                podSpec = (case (translateIdentityTokenVolume svc, translateIdentityTokenVolumeMount svc) of
                    (Some v, Some m) \<Rightarrow>
                      podSpec\<lparr>ps_Volumes := ps_Volumes podSpec @ [v],
                        ps_Containers := [c\<lparr>c_VolumeMounts := c_VolumeMounts c @ [m]\<rparr>]\<rparr>
                  | _ \<Rightarrow> podSpec)
            in \<lparr>d_Meta = metaOf am svcName s svc, d_Replicas = Some (s_Replicas svc),
                d_MatchLabels = translateLabelSelector svcName s,
                d_Strategy = getDeploymentUpdateStrategy am svc,
                d_Template = podTemplateOf am svcName s svc podSpec\<rparr>) (getSvcHealthProbe svc))"

text \<open>The pod specification that stateful sets and jobs share, the restart policy apart.\<close>

definition volumePodSpec :: "ambient \<Rightarrow> string \<Rightarrow> service \<Rightarrow> healthcheckProbes \<Rightarrow> podSpec" where
  "volumePodSpec am svcName svc probes =
     emptyPodSpec\<lparr>ps_TerminationGracePeriodSeconds := Some (s_StopGracePeriod svc),
       ps_InitContainers := getInitContainers am svcName svc, ps_Affinity := translateAffinity am svc,
       ps_NodeSelector := s_NodeSelector svc, ps_EnableServiceLinks := s_EnableServiceLinks svc,
       ps_Volumes := translateVolumes svc,
       ps_Containers := [(serviceContainer svcName svc probes)
                           \<lparr>c_VolumeMounts := translateVolumeMounts svc\<rparr>]\<rparr>"

definition translateStatefulSet :: "ambient \<Rightarrow> string \<Rightarrow> stack \<Rightarrow> statefulSet option" where
  "translateStatefulSet am svcName s =
     (case gget (sk_Services s) svcName of
        None \<Rightarrow> None
      | Some svc \<Rightarrow>
          (case (getSvcHealthProbe svc, translateVolumeClaimTemplates am svcName s svc) of
             (Some probes, Some claims) \<Rightarrow>
               Some \<lparr>sfs_Meta = metaOf am svcName s svc, sfs_Replicas = Some (s_Replicas svc),
                     sfs_RevisionHistoryLimit = Some 2,
                     sfs_MatchLabels = translateLabelSelector svcName s,
                     sfs_UpdateStrategy = getStatefulsetUpdateStrategy am svc,
                     sfs_ServiceName = svcName,
                     sfs_Template = podTemplateOf am svcName s svc (volumePodSpec am svcName svc probes),
                     sfs_VolumeClaimTemplates = claims\<rparr>
           | _ \<Rightarrow> None))"

definition translateJob :: "ambient \<Rightarrow> string \<Rightarrow> stack \<Rightarrow> job option" where
  "translateJob am svcName s =
     (case gget (sk_Services s) svcName of
        None \<Rightarrow> None
      | Some svc \<Rightarrow>
          map_option (\<lambda>probes.
            \<lparr>j_Meta = metaOf am svcName s svc, j_Completions = s_Replicas svc, j_Parallelism = 1,
             j_BackoffLimit = s_BackOffLimit svc,
             j_Template = podTemplateOf am svcName s svc
               ((volumePodSpec am svcName svc probes)\<lparr>ps_RestartPolicy := s_RestartPolicy svc\<rparr>)\<rparr>)
            (getSvcHealthProbe svc))"

fun isServicePortAdded :: "int \<Rightarrow> servicePort list \<Rightarrow> bool" where
  "isServicePortAdded newPort [] = False"
| "isServicePortAdded newPort (p # ps) =
     (if sp_Port p = newPort then True else isServicePortAdded newPort ps)"

definition servicePortOf :: "int \<Rightarrow> port \<Rightarrow> servicePort" where
  "servicePortOf n p =
     \<lparr>sp_Name = ''p-'' @ showInt n @ ''-'' @ showInt (p_ContainerPort p) @ ''-'' @ toLower (p_Protocol p),
      sp_Port = n, sp_TargetPort = p_ContainerPort p, sp_Protocol = p_Protocol p\<rparr>"

fun servicePortsLoop :: "port list \<Rightarrow> servicePort list \<Rightarrow> servicePort list" where
  "servicePortsLoop [] result = result"
| "servicePortsLoop (p # ps) result =
     (let result = (if \<not> isServicePortAdded (p_ContainerPort p) result
                    then result @ [servicePortOf (p_ContainerPort p) p] else result);
          result = (if p_HostPort p \<noteq> 0 \<and> p_ContainerPort p \<noteq> p_HostPort p
                       \<and> \<not> isServicePortAdded (p_HostPort p) result
                    then result @ [servicePortOf (p_HostPort p) p] else result)
      in servicePortsLoop ps result)"

definition translateServicePorts :: "service \<Rightarrow> servicePort list" where
  "translateServicePorts svc = servicePortsLoop (s_Ports svc) []"

definition translateService :: "ambient \<Rightarrow> string \<Rightarrow> stack \<Rightarrow> k8sService option" where
  "translateService am svcName s =
     map_option (\<lambda>svc.
       \<lparr>ks_Meta = metaOf am svcName s svc, ks_Selector = translateLabelSelector svcName s,
        ks_Type = ''ClusterIP'',
        ks_ClusterIP = (if s_EndpointMode svc = EndpointModeDNSRR then ''None'' else []),
        ks_ExternalName = [],
        ks_Ports = translateServicePorts svc\<rparr>) (gget (sk_Services s) svcName)"

definition skippablePorts :: "int list" where
  "skippablePorts =
     [3306, 1521, 1830, 5432, 1433, 1434, 7210, 7473, 7474, 8529, 7000, 7001, 9042, 8086, 9200, 9300,
      5984, 27017, 27018, 27019, 28017, 6379, 8087, 8098, 828015, 29015, 28015, 7574, 8983, 2345, 5858,
      9229, 5005, 1234, 4444, 5678]"

definition IsSkippablePort :: "int \<Rightarrow> bool" where
  "IsSkippablePort q \<longleftrightarrow> q \<in> set skippablePorts"

definition getSvcPublicPorts :: "string \<Rightarrow> stack \<Rightarrow> port list option" where
  "getSvcPublicPorts svcName s =
     map_option (\<lambda>svc. filter (\<lambda>p. \<not> IsSkippablePort (p_ContainerPort p) \<and> p_HostPort p \<noteq> 0)
                        (s_Ports svc)) (gget (sk_Services s) svcName)"

section \<open>Lemmas on labels\<close>

lemma gget_addVolumeLabels:
  "(\<And>v. volumeLabelKey v \<noteq> k) \<Longrightarrow> gget (addVolumeLabels vs m) k = gget m k"
  by (induction vs m rule: addVolumeLabels.induct) (auto simp: gget_put)

lemma volumeLabelKey_other [simp]:
  "volumeLabelKey v \<noteq> StackNameLabel" "volumeLabelKey v \<noteq> StackServiceNameLabel"
  "volumeLabelKey v \<noteq> DeployedByLabel"
  by (simp_all add: volumeLabelKey_def go_consts)

definition ownLabels :: "smap \<Rightarrow> bool" where
  "ownLabels m \<longleftrightarrow> gget m StackNameLabel = None \<and> gget m StackServiceNameLabel = None"

lemma selector_matches:
  assumes "ownLabels (s_Labels svc)" and "gget (translateLabelSelector n s) k = Some v"
  shows "gget (translateLabels n s svc) k = Some v"
  using assms
  by (auto simp: translateLabelSelector_def translateLabels_def Let_def ownLabels_def gget_Cons
      gget_addVolumeLabels gget_grange_put_other split: if_splits)

section \<open>Lemmas on service ports\<close>

lemma isServicePortAdded_iff: "isServicePortAdded q ps \<longleftrightarrow> q \<in> sp_Port ` set ps"
  by (induction q ps rule: isServicePortAdded.induct) auto

definition wantedPorts :: "port list \<Rightarrow> int set" where
  "wantedPorts ps = p_ContainerPort ` set ps \<union> {p_HostPort p | p. p \<in> set ps \<and> p_HostPort p \<noteq> 0}"

lemma wantedPorts_Cons:
  "wantedPorts (p # ps) = insert (p_ContainerPort p)
     (wantedPorts ps \<union> (if p_HostPort p \<noteq> 0 then {p_HostPort p} else {}))"
  by (auto simp: wantedPorts_def)

text \<open>One turn of the loop adds the ports of \<open>p\<close> that are missing.\<close>

definition addPorts :: "port \<Rightarrow> servicePort list \<Rightarrow> servicePort list" where
  "addPorts p r =
     (let r = (if p_ContainerPort p \<in> sp_Port ` set r then r else r @ [servicePortOf (p_ContainerPort p) p])
      in if p_HostPort p \<noteq> 0 \<and> p_HostPort p \<notin> sp_Port ` set r then r @ [servicePortOf (p_HostPort p) p] else r)"

lemma servicePortOf_simps [simp]:
  "sp_Port (servicePortOf n p) = n" "sp_TargetPort (servicePortOf n p) = p_ContainerPort p"
  by (simp_all add: servicePortOf_def)

lemma servicePortsLoop_Cons: "servicePortsLoop (p # ps) r = servicePortsLoop ps (addPorts p r)"
  by (auto simp: addPorts_def isServicePortAdded_iff Let_def intro!: arg_cong [of _ _ "servicePortsLoop ps"])

lemma addPorts_ports:
  "sp_Port ` set (addPorts p r) = insert (p_ContainerPort p)
     (sp_Port ` set r \<union> (if p_HostPort p \<noteq> 0 then {p_HostPort p} else {}))"
  by (auto simp: addPorts_def Let_def)

lemma addPorts_distinct: "distinct (map sp_Port r) \<Longrightarrow> distinct (map sp_Port (addPorts p r))"
  by (auto simp: addPorts_def Let_def)

lemma addPorts_from:
  "sp \<in> set (addPorts p r) \<Longrightarrow> sp \<in> set r \<or> sp \<in> {servicePortOf (p_ContainerPort p) p, servicePortOf (p_HostPort p) p}"
  by (auto simp: addPorts_def Let_def split: if_splits)

declare servicePortsLoop.simps(2) [simp del]

lemma servicePortsLoop_ports:
  "sp_Port ` set (servicePortsLoop ps r) = sp_Port ` set r \<union> wantedPorts ps"
  by (induction ps arbitrary: r)
    (auto simp: servicePortsLoop_Cons addPorts_ports wantedPorts_Cons, auto simp: wantedPorts_def)

lemma servicePortsLoop_distinct:
  "distinct (map sp_Port r) \<Longrightarrow> distinct (map sp_Port (servicePortsLoop ps r))"
  by (induction ps arbitrary: r) (simp_all add: servicePortsLoop_Cons addPorts_distinct)

lemma servicePortsLoop_from:
  "sp \<in> set (servicePortsLoop ps r) \<Longrightarrow>
     sp \<in> set r \<or> (\<exists>p \<in> set ps. sp = servicePortOf (sp_Port sp) p
                      \<and> (sp_Port sp = p_ContainerPort p \<or> sp_Port sp = p_HostPort p))"
proof (induction ps arbitrary: r)
  case (Cons p ps)
  from Cons.prems have "sp \<in> set (servicePortsLoop ps (addPorts p r))" by (simp add: servicePortsLoop_Cons)
  from Cons.IH [OF this] show ?case
  proof
    assume "sp \<in> set (addPorts p r)"
    from addPorts_from [OF this] show ?thesis by auto
  qed auto
qed simp

text \<open>Names of distinct ports are distinct: a dash ends the digits of the port.\<close>

lemma showNat_dash_inj:
  assumes "showNat a @ CHR ''-'' # x = showNat b @ CHR ''-'' # y"
  shows "a = b"
proof -
  have tw: "takeWhile isDigit (showNat n @ CHR ''-'' # z) = showNat n" for n z
    using showNat_digits [of n] by (simp add: takeWhile_append list_all_iff isDigit_def)
  from assms have "takeWhile isDigit (showNat a @ CHR ''-'' # x) = takeWhile isDigit (showNat b @ CHR ''-'' # y)"
    by simp
  then show ?thesis by (simp add: tw)
qed

lemma servicePortName_inj:
  assumes "sp_Name (servicePortOf a p) = sp_Name (servicePortOf b q)" and "0 \<le> a" and "0 \<le> b"
  shows "a = b"
proof -
  have "showNat (nat a) @ CHR ''-'' # showInt (p_ContainerPort p) @ ''-'' @ toLower (p_Protocol p)
      = showNat (nat b) @ CHR ''-'' # showInt (p_ContainerPort q) @ ''-'' @ toLower (p_Protocol q)"
    using assms by (simp add: servicePortOf_def showInt_def)
  then have "nat a = nat b" by (rule showNat_dash_inj)
  with assms show ?thesis by simp
qed

lemma servicePortsLoop_names:
  assumes "\<forall>p \<in> set ps. 0 \<le> p_ContainerPort p \<and> 0 \<le> p_HostPort p"
  shows "distinct (map sp_Name (servicePortsLoop ps []))"
proof -
  have "inj_on sp_Name (set (servicePortsLoop ps []))"
  proof (rule inj_onI)
    fix x y
    assume x: "x \<in> set (servicePortsLoop ps [])" and y: "y \<in> set (servicePortsLoop ps [])"
      and eq: "sp_Name x = sp_Name y"
    from servicePortsLoop_from [OF x] servicePortsLoop_from [OF y] obtain p q where
      "p \<in> set ps" "q \<in> set ps" and xy: "x = servicePortOf (sp_Port x) p" "y = servicePortOf (sp_Port y) q"
      and "0 \<le> sp_Port x" "0 \<le> sp_Port y" using assms by auto
    then have "sp_Port x = sp_Port y" using servicePortName_inj eq by metis
    moreover have "inj_on sp_Port (set (servicePortsLoop ps []))"
      using servicePortsLoop_distinct [of "[]" ps] by (simp add: distinct_map)
    ultimately show "x = y" using x y by (auto dest: inj_onD)
  qed
  moreover have "distinct (servicePortsLoop ps [])"
    using servicePortsLoop_distinct [of "[]" ps] by (simp add: distinct_map)
  ultimately show ?thesis by (simp add: distinct_map)
qed

section \<open>Lemmas on volumes\<close>

lemma initializeLoop_mounts:
  "vm_Name ` set (snd (initializeLoop i vs cmd ms)) = vm_Name ` set ms \<union> getVolumeClaimName ` set vs"
  by (induction i vs cmd ms rule: initializeLoop.induct) (auto simp: mount_def)

lemma permissionsLoop_mounts:
  "vm_Name ` set (snd (permissionsLoop vs cmd a b ms)) \<subseteq> vm_Name ` set ms \<union> getVolumeClaimName ` set vs"
proof (induction vs arbitrary: cmd a b ms)
  case (Cons v vs)
  have IH: "vm_Name ` set (snd (permissionsLoop vs c x y m)) \<subseteq> T"
    if "vm_Name ` set m \<union> getVolumeClaimName ` set vs \<subseteq> T" for c x y m T
    using Cons.IH [of c x y m] that by blast
  show ?case
    by (simp only: permissionsLoop.simps Let_def split: if_split)
      (intro conjI impI IH; auto simp: mount_def)
qed simp

lemma volumeMountsLoop_mounts:
  "vm_Name ` set (volumeMountsLoop i vs) = getVolumeClaimName ` set vs"
  by (induction i vs rule: volumeMountsLoop.induct) (auto simp: mount_def)

definition mountsOf :: "podSpec \<Rightarrow> volumeMount set" where
  "mountsOf p = (\<Union>c \<in> set (ps_InitContainers p) \<union> set (ps_Containers p). set (c_VolumeMounts c))"

lemma permissions_mounts:
  "vm_Name ` set (c_VolumeMounts (getAddPermissionsInitContainer am n svc))
   \<subseteq> getVolumeClaimName ` set (s_Volumes svc)"
  using permissionsLoop_mounts [of "s_Volumes svc" "[]" False False "[]"]
  by (simp add: getAddPermissionsInitContainer_def getInitContainerCommandAndVolumeMounts_def
      case_prod_beta)

lemma initialize_mounts:
  assumes "getInitializeVolumeContentContainer n svc = Some c"
  shows "vm_Name ` set (c_VolumeMounts c) = getVolumeClaimName ` set (s_Volumes svc)"
  using assms initializeLoop_mounts [of 0 "s_Volumes svc" "''echo initializing volume...''" "[]"]
  by (auto simp: getInitializeVolumeContentContainer_def split: prod.splits if_splits)

lemma translateVolumes_names:
  "v_Name ` set (translateVolumes svc) = getVolumeClaimName ` set (s_Volumes svc)
     \<union> (if s_IdentityToken svc = None then {} else {identityTokenVolumeName})"
  by (auto simp: translateVolumes_def translateIdentityTokenVolume_def image_image)

lemma translateVolumeMounts_names:
  "vm_Name ` set (translateVolumeMounts svc) = v_Name ` set (translateVolumes svc)"
  unfolding translateVolumes_names
  by (cases "s_IdentityToken svc")
    (simp_all add: translateVolumeMounts_def translateIdentityTokenVolumeMount_def
      volumeMountsLoop_mounts image_Un)

lemma getInitContainers_mounts:
  assumes "c \<in> set (getInitContainers am n svc)"
  shows "vm_Name ` set (c_VolumeMounts c) \<subseteq> v_Name ` set (translateVolumes svc)"
proof -
  have "c = getAddPermissionsInitContainer am n svc \<or> getInitializeVolumeContentContainer n svc = Some c"
    using assms by (auto simp: getInitContainers_def split: if_splits option.splits)
  then have "vm_Name ` set (c_VolumeMounts c) \<subseteq> getVolumeClaimName ` set (s_Volumes svc)"
    using permissions_mounts initialize_mounts by blast
  then show ?thesis unfolding translateVolumes_names by (rule le_supI1)
qed

lemma volumePodSpec_mounts:
  "vm_Name ` mountsOf (volumePodSpec am n svc probes) \<subseteq> v_Name ` set (ps_Volumes (volumePodSpec am n svc probes))"
  using getInitContainers_mounts [of _ am n svc] translateVolumeMounts_names [of svc]
  by (simp add: volumePodSpec_def mountsOf_def emptyPodSpec_def image_UN image_Un UN_least)

section \<open>Update strategies\<close>

text \<open>
  The interface \<open>updateStrategyGetter\<close> of the code. What its callers need of an implementation is
  that the default passes the implementation's own validation.
\<close>

locale strategy_getter =
  fixes validate :: "string \<Rightarrow> bool" and getDefault :: string
  assumes default_valid: "validate getDefault"
begin

lemma strategy_valid: "validate (getUpdateStrategy am svc validate getDefault)"
  by (simp add: getUpdateStrategy_def Let_def default_valid)

lemma strategy_annotation:
  "getUpdateStrategyByAnnotation svc \<noteq> [] \<Longrightarrow> validate (getUpdateStrategyByAnnotation svc) \<Longrightarrow>
     getUpdateStrategy am svc validate getDefault = getUpdateStrategyByAnnotation svc"
  by (simp add: getUpdateStrategy_def Let_def)

lemma strategy_default:
  "\<not> validate (getUpdateStrategyByAnnotation svc) \<Longrightarrow> \<not> validate (getUpdateStrategyByEnvVar am) \<Longrightarrow>
     getUpdateStrategy am svc validate getDefault = getDefault"
  by (simp add: getUpdateStrategy_def Let_def)

end

interpretation dsg: strategy_getter deploymentStrategyValid deploymentStrategyDefault
  by unfold_locales (simp add: deploymentStrategyValid_def deploymentStrategyDefault_def)

interpretation ssg: strategy_getter statefulSetStrategyValid statefulSetStrategyDefault
  by unfold_locales (simp add: statefulSetStrategyValid_def statefulSetStrategyDefault_def)

section \<open>Properties\<close>

text \<open>C12. The selectors of a service find its pods: unless the user's labels redefine the two labels of
  okteto, the selector of the deployment, of the stateful set and of the Kubernetes service are
  all matched by the labels of the pod template.\<close>

theorem selectors_match_pods:
  assumes "gget (sk_Services s) n = Some svc" and "ownLabels (s_Labels svc)"
  shows "(\<forall>d. translateDeployment am n s = Some d \<longrightarrow>
            set (d_MatchLabels d) \<subseteq> set (om_Labels (pt_Meta (d_Template d)))) \<and>
         (\<forall>f. translateStatefulSet am n s = Some f \<longrightarrow>
            set (sfs_MatchLabels f) \<subseteq> set (om_Labels (pt_Meta (sfs_Template f)))) \<and>
         (\<forall>d k. translateDeployment am n s = Some d \<longrightarrow> translateService am n s = Some k \<longrightarrow>
            set (ks_Selector k) \<subseteq> set (om_Labels (pt_Meta (d_Template d))))"
proof -
  have "set (translateLabelSelector n s) \<subseteq> set (translateLabels n s svc)"
  proof clarify
    fix k v assume kv: "(k, v) \<in> set (translateLabelSelector n s)"
    have "gwf (translateLabelSelector n s)" by (simp add: translateLabelSelector_def gwf_def go_consts)
    from selector_matches [OF assms(2) in_set_gget [OF this kv]] show "(k, v) \<in> set (translateLabels n s svc)"
      by (rule gget_in_set)
  qed
  with assms(1) show ?thesis
    by (auto simp: translateDeployment_def translateStatefulSet_def translateService_def podTemplateOf_def
        Let_def split: option.splits)
qed

definition quietAmbient :: ambient where
  "quietAmbient = \<lparr>am_World = exampleWorld, am_IsOktetoRepo = False, am_CliImage = ''okteto/okteto'',
     am_Divert = None\<rparr>"

theorem selectors_match_pods_witness:
  "\<exists>d. translateDeployment quietAmbient ''web'' exampleStack = Some d \<and>
     set (d_MatchLabels d) \<subseteq> set (om_Labels (pt_Meta (d_Template d)))"
proof -
  let ?svc = "snd (hd exampleServices)"
  have "gget (sk_Services exampleStack) ''web'' = Some ?svc" "ownLabels (s_Labels ?svc)"
    by (simp_all add: exampleStack_def exampleServices_def gget_Cons ownLabels_def emptyService_def)
  moreover from this obtain d where "translateDeployment quietAmbient ''web'' exampleStack = Some d"
    by (auto simp: translateDeployment_def getSvcHealthProbe_def exampleServices_def emptyService_def)
  ultimately show ?thesis using selectors_match_pods by blast
qed

text \<open>A user label can take the place of the service label; the deployment then selects no pod of its own.\<close>

lemma user_label_breaks_selector:
  "\<exists>n s svc. gget (sk_Services s) n = Some svc \<and>
     gget (translateLabelSelector n s) StackServiceNameLabel \<noteq> gget (translateLabels n s svc) StackServiceNameLabel"
proof -
  let ?svc = "emptyService\<lparr>s_Labels := [(StackServiceNameLabel, ''other'')]\<rparr>"
  let ?s = "emptyStack\<lparr>sk_Services := [(''web'', ?svc)]\<rparr>"
  have "gget (sk_Services ?s) ''web'' = Some ?svc" by (simp add: gget_Cons)
  moreover have "gget (translateLabelSelector ''web'' ?s) StackServiceNameLabel
      \<noteq> gget (translateLabels ''web'' ?s ?svc) StackServiceNameLabel" by code_simp
  ultimately show ?thesis by blast
qed

text \<open>C13. The Kubernetes service of a compose service exposes every container port and every host port once:
  the port numbers and, for non-negative ports, the port names are distinct, the set of ports is
  exactly the declared one, and each port forwards to the container port it was declared with.\<close>

theorem service_ports_exact:
  "distinct (map sp_Port (translateServicePorts svc)) \<and>
   sp_Port ` set (translateServicePorts svc) = wantedPorts (s_Ports svc) \<and>
   (\<forall>sp \<in> set (translateServicePorts svc). \<exists>p \<in> set (s_Ports svc).
      sp_TargetPort sp = p_ContainerPort p \<and> sp_Port sp \<in> {p_ContainerPort p, p_HostPort p}) \<and>
   ((\<forall>p \<in> set (s_Ports svc). 0 \<le> p_ContainerPort p \<and> 0 \<le> p_HostPort p) \<longrightarrow>
      distinct (map sp_Name (translateServicePorts svc)))"
proof -
  have "\<exists>p \<in> set (s_Ports svc). sp_TargetPort sp = p_ContainerPort p
      \<and> sp_Port sp \<in> {p_ContainerPort p, p_HostPort p}"
    if sp: "sp \<in> set (servicePortsLoop (s_Ports svc) [])" for sp
  proof -
    from servicePortsLoop_from [OF sp] obtain p where "p \<in> set (s_Ports svc)"
      and "sp = servicePortOf (sp_Port sp) p" and "sp_Port sp \<in> {p_ContainerPort p, p_HostPort p}"
      by auto
    then show ?thesis by (metis servicePortOf_simps(2))
  qed
  then show ?thesis
    using servicePortsLoop_distinct [of "[]" "s_Ports svc"] servicePortsLoop_ports [of "s_Ports svc" "[]"]
      servicePortsLoop_names [of "s_Ports svc"]
    by (simp add: translateServicePorts_def)
qed

theorem service_ports_exact_witness:
  "distinct (map sp_Name (translateServicePorts (emptyService\<lparr>s_Ports :=
     [\<lparr>p_Protocol = ''TCP'', p_HostPort = 80, p_ContainerPort = 8080\<rparr>,
      \<lparr>p_Protocol = ''TCP'', p_HostPort = 8080, p_ContainerPort = 8080\<rparr>]\<rparr>)))"
  using service_ports_exact [of "emptyService\<lparr>s_Ports :=
     [\<lparr>p_Protocol = ''TCP'', p_HostPort = 80, p_ContainerPort = 8080\<rparr>,
      \<lparr>p_Protocol = ''TCP'', p_HostPort = 8080, p_ContainerPort = 8080\<rparr>]\<rparr>"]
  by simp

text \<open>Mounts resolve: in the pod of a stateful set or of a job, without divert, every volume mounted by
  the container or by an init container is a volume of the pod.\<close>

theorem mounts_resolve:
  assumes "am_Divert am = None"
  shows "(\<forall>f. translateStatefulSet am n s = Some f \<longrightarrow>
            vm_Name ` mountsOf (pt_Spec (sfs_Template f)) \<subseteq> v_Name ` set (ps_Volumes (pt_Spec (sfs_Template f)))) \<and>
         (\<forall>j. translateJob am n s = Some j \<longrightarrow>
            vm_Name ` mountsOf (pt_Spec (j_Template j)) \<subseteq> v_Name ` set (ps_Volumes (pt_Spec (j_Template j))))"
proof -
  have job: "mountsOf (p\<lparr>ps_RestartPolicy := r\<rparr>) = mountsOf p" for p :: podSpec and r
    by (simp add: mountsOf_def)
  show ?thesis
    using assms volumePodSpec_mounts [of am n]
    by (auto simp: translateStatefulSet_def translateJob_def podTemplateOf_def applyDivert_def job
        split: option.splits)
qed

definition batchStack :: stack where
  "batchStack = emptyStack\<lparr>sk_Services := [(''batch'', emptyService\<lparr>s_Volumes :=
     [\<lparr>vo_LocalPath = ''data'', vo_RemotePath = ''/data''\<rparr>]\<rparr>)]\<rparr>"

theorem mounts_resolve_witness:
  "\<exists>j. translateJob quietAmbient ''batch'' batchStack = Some j \<and>
     vm_Name ` mountsOf (pt_Spec (j_Template j)) \<subseteq> v_Name ` set (ps_Volumes (pt_Spec (j_Template j)))"
proof -
  obtain j where "translateJob quietAmbient ''batch'' batchStack = Some j"
    by (simp add: translateJob_def batchStack_def gget_Cons getSvcHealthProbe_def emptyService_def)
  with mounts_resolve [of quietAmbient "''batch''" batchStack] show ?thesis
    by (simp add: quietAmbient_def)
qed

text \<open>
  The two flags of the permissions container are only set by the first volume of the list, so a
  named volume followed by two anonymous ones mounts \<open>/data\<close> twice, which no pod accepts.
\<close>

lemma permissions_mount_data_twice:
  "map vm_MountPath (snd (getInitContainerCommandAndVolumeMounts (emptyService\<lparr>s_Volumes :=
     [\<lparr>vo_LocalPath = ''db'', vo_RemotePath = ''/db''\<rparr>, \<lparr>vo_LocalPath = [], vo_RemotePath = ''/a''\<rparr>,
      \<lparr>vo_LocalPath = [], vo_RemotePath = ''/b''\<rparr>]\<rparr>)))
   = [''/volumes/db'', ''/data'', ''/data'']"
  by code_simp

text \<open>Likewise a volume that is mounted at two paths becomes two pod volumes of the same name.\<close>

lemma volume_mounted_twice_is_declared_twice:
  "map v_Name (translateVolumes (emptyService\<lparr>s_Volumes :=
     [\<lparr>vo_LocalPath = ''db'', vo_RemotePath = ''/a''\<rparr>, \<lparr>vo_LocalPath = ''db'', vo_RemotePath = ''/b''\<rparr>]\<rparr>))
   = [''db'', ''db'']"
  by code_simp

text \<open>The update strategy of a workload is always one Kubernetes accepts for its kind, and it is the
  service's annotation if that is valid, else the valid value of the environment, else the default of the
  kind.\<close>

theorem update_strategy_valid:
  "getDeploymentUpdateStrategy am svc \<in> {''RollingUpdate'', ''Recreate''} \<and>
   getStatefulsetUpdateStrategy am svc \<in> {''RollingUpdate'', ''OnDelete''} \<and>
   deploymentStrategyValid (getUpdateStrategy am svc deploymentStrategyValid deploymentStrategyDefault) \<and>
   statefulSetStrategyValid (getUpdateStrategy am svc statefulSetStrategyValid statefulSetStrategyDefault) \<and>
   (deploymentStrategyValid (getUpdateStrategyByAnnotation svc) \<longrightarrow>
      getUpdateStrategy am svc deploymentStrategyValid deploymentStrategyDefault
        = getUpdateStrategyByAnnotation svc)"
proof -
  have "getUpdateStrategyByAnnotation svc \<noteq> []" if "deploymentStrategyValid (getUpdateStrategyByAnnotation svc)"
    using that by (auto simp: deploymentStrategyValid_def go_consts)
  then show ?thesis
    using dsg.strategy_valid ssg.strategy_valid dsg.strategy_annotation
    by (simp add: getDeploymentUpdateStrategy_def getStatefulsetUpdateStrategy_def)
qed

theorem update_strategy_valid_witness:
  "getUpdateStrategy quietAmbient
     (emptyService\<lparr>s_Annotations := [(OktetoComposeUpdateStrategyAnnotation, ''rolling'')]\<rparr>)
     deploymentStrategyValid deploymentStrategyDefault = ''rolling''"
proof -
  let ?svc = "emptyService\<lparr>s_Annotations := [(OktetoComposeUpdateStrategyAnnotation, ''rolling'')]\<rparr>"
  have a: "getUpdateStrategyByAnnotation ?svc = ''rolling''"
    by (simp add: getUpdateStrategyByAnnotation_def gget_Cons)
  then have "deploymentStrategyValid (getUpdateStrategyByAnnotation ?svc)"
    by (simp add: deploymentStrategyValid_def go_consts)
  with a update_strategy_valid [of quietAmbient ?svc] show ?thesis by simp
qed

text \<open>Resources: the container asks for CPU and memory exactly as the service declares, where the
  declared quantity is positive, and leaves everything else unset.\<close>

theorem resources_exact:
  assumes "s_Resources svc = Some r"
  shows "(case rr_Limits (translateResources svc) of None \<Rightarrow> Map.empty | Some m \<Rightarrow> gget m)
       = (\<lambda>k. if k = ResourceCPU \<and> 0 < sr_CPU (sr_Limits r) then Some (sr_CPU (sr_Limits r))
              else if k = ResourceMemory \<and> 0 < sr_Memory (sr_Limits r) then Some (sr_Memory (sr_Limits r))
              else None) \<and>
     (case rr_Requests (translateResources svc) of None \<Rightarrow> Map.empty | Some m \<Rightarrow> gget m)
       = (\<lambda>k. if k = ResourceCPU \<and> 0 < sr_CPU (sr_Requests r) then Some (sr_CPU (sr_Requests r))
              else if k = ResourceMemory \<and> 0 < sr_Memory (sr_Requests r) then Some (sr_Memory (sr_Requests r))
              else None)"
  using assms
  by (auto simp: translateResources_def addResource_def gget_put fun_eq_iff go_consts)

definition halfCoreService :: service where
  "halfCoreService = emptyService\<lparr>s_Resources := Some
     \<lparr>sr_Limits = \<lparr>sr_CPU = 0, sr_Memory = 0, sr_Storage = \<lparr>st_Size = 0, st_Class = []\<rparr>\<rparr>,
      sr_Requests = \<lparr>sr_CPU = 500, sr_Memory = 0, sr_Storage = \<lparr>st_Size = 0, st_Class = []\<rparr>\<rparr>\<rparr>\<rparr>"

theorem resources_exact_witness:
  "(case rr_Requests (translateResources halfCoreService) of None \<Rightarrow> Map.empty | Some m \<Rightarrow> gget m) ResourceCPU
   = Some 500"
  using resources_exact [of halfCoreService] by (simp add: halfCoreService_def)

end
