(* ===== verification/ComposeDeploy.thy ===== *)
theory ComposeDeploy
  imports ComposeTranslate
begin

text \<open>
  Deploying a compose to a cluster: \<^verbatim>\<open>src/pkg/cmd/stack/deploy.go\<close> and the functions of
  \<^verbatim>\<open>src/pkg/k8s\<close> it calls to write objects. The cluster is a parameter: a record \<open>client\<close> of
  the calls to the Kubernetes API over an arbitrary state type, where a read may find the cluster
  changed too. A run of the code carries that state and the list of the writes it has issued, so
  the theorems about writes hold for every behaviour of the cluster. Errors are strings, as
  the code inspects their text (\<open>IsNotFound\<close>, the word \<open>skipping\<close>). The endless inner loop of
  \<open>deployServices\<close> has fuel: a number of rounds over the services, \<open>None\<close> when they are used up.
\<close>

section \<open>The cluster\<close>

datatype apiCall =
    CreateDeployment deployment | UpdateDeployment deployment | DeleteDeployment string string
  | CreateStatefulSet statefulSet | UpdateStatefulSet statefulSet | DeleteStatefulSet string string
  | CreateJob job | DeleteJob string string
  | CreateService k8sService | UpdateService k8sService | DeleteService string string
  | CreatePVC persistentVolumeClaim | UpdatePVC persistentVolumeClaim
  | CreateConfigMap string configMap | UpdateConfigMap string configMap

record jobStatus =
  js_Active :: int
  js_Succeeded :: int
  js_Failed :: int
  js_Completions :: int
  js_BackoffLimit :: int

datatype probeErr = LivenessProbeFailed string | ReadinessProbeFailed string | OtherProbeErr string

record podStatus =
  po_Name :: string
  po_Labels :: smap
  po_Phase :: string
  po_Restarts :: "int list"

text \<open>
  The reads give what the code looks at: metadata and ready replicas of a workload, metadata and
  status of a job. \<open>k_HealthcheckFailure\<close> and \<open>k_PortAvailable\<close> are the event lookup of
  \<open>pods.GetHealthcheckFailure\<close> and the port forwarding of \<open>isAnyPortAvailable\<close>.
\<close>

record 'c client =
  k_GetService :: "string \<Rightarrow> string \<Rightarrow> 'c \<Rightarrow> (string + k8sService) \<times> 'c"
  k_GetDeployment :: "string \<Rightarrow> string \<Rightarrow> 'c \<Rightarrow> (string + objectMeta \<times> int) \<times> 'c"
  k_GetStatefulSet :: "string \<Rightarrow> string \<Rightarrow> 'c \<Rightarrow> (string + objectMeta \<times> int) \<times> 'c"
  k_GetJob :: "string \<Rightarrow> string \<Rightarrow> 'c \<Rightarrow> (string + objectMeta \<times> jobStatus) \<times> 'c"
  k_GetPVC :: "string \<Rightarrow> string \<Rightarrow> 'c \<Rightarrow> (string + persistentVolumeClaim) \<times> 'c"
  k_GetConfigMap :: "string \<Rightarrow> string \<Rightarrow> 'c \<Rightarrow> (string + configMap) \<times> 'c"
  k_GetPod :: "string \<Rightarrow> smap \<Rightarrow> 'c \<Rightarrow> (string + podStatus) \<times> 'c"
  k_ListPods :: "string \<Rightarrow> smap \<Rightarrow> 'c \<Rightarrow> (string + podStatus list) \<times> 'c"
  k_HealthcheckFailure :: "string \<Rightarrow> string \<Rightarrow> string \<Rightarrow> healthCheck \<Rightarrow> 'c \<Rightarrow> probeErr option \<times> 'c"
  k_PortAvailable :: "string \<Rightarrow> string \<Rightarrow> port list \<Rightarrow> 'c \<Rightarrow> bool \<times> 'c"
  k_Write :: "apiCall \<Rightarrow> 'c \<Rightarrow> string option \<times> 'c"

record 'c run =
  ru_Cluster :: 'c
  ru_Writes :: "apiCall list"

datatype derr = Panic | Err string

type_synonym ('c, 'a) action = "'c run \<Rightarrow> (derr + 'a) \<times> 'c run"

definition ask :: "('c \<Rightarrow> 'x \<times> 'c) \<Rightarrow> ('c, 'x) action" where
  "ask f r = (case f (ru_Cluster r) of (x, c) \<Rightarrow> (Inr x, r\<lparr>ru_Cluster := c\<rparr>))"

text \<open>A write call: the error it reports, if any.\<close>

definition apiWrite :: "'c client \<Rightarrow> apiCall \<Rightarrow> ('c, string option) action" where
  "apiWrite k call r =
     (case k_Write k call (ru_Cluster r) of
        (e, c) \<Rightarrow> (Inr e, r\<lparr>ru_Cluster := c, ru_Writes := ru_Writes r @ [call]\<rparr>))"

text \<open>\<open>fmt.Errorf("prefix: %w", err)\<close> when there is an error.\<close>

definition wrap :: "string \<Rightarrow> string option \<Rightarrow> ('c, unit) action" where
  "wrap msg e = (case e of None \<Rightarrow> returnE () | Some e \<Rightarrow> failE (Err (msg @ '': '' @ e)))"

section \<open>Writers of pkg/k8s\<close>

definition deploymentsDeploy :: "'c client \<Rightarrow> deployment \<Rightarrow> ('c, string option) action" where
  "deploymentsDeploy k d =
     andThen (apiWrite k (UpdateDeployment d)) (\<lambda>e. case e of
       None \<Rightarrow> returnE None
     | Some e \<Rightarrow> if \<not> IsNotFound e then returnE (Some e) else apiWrite k (CreateDeployment d))"

definition deploymentsDestroy :: "'c client \<Rightarrow> string \<Rightarrow> string \<Rightarrow> ('c, string option) action" where
  "deploymentsDestroy k name ns =
     andThen (apiWrite k (DeleteDeployment ns name)) (\<lambda>e. case e of
       None \<Rightarrow> returnE None
     | Some e \<Rightarrow> if IsNotFound e then returnE None
                 else returnE (Some (''error deleting kubernetes deployment: '' @ e)))"

definition statefulsetsDeploy :: "'c client \<Rightarrow> statefulSet \<Rightarrow> ('c, string option) action" where
  "statefulsetsDeploy k sfs =
     andThen (apiWrite k (UpdateStatefulSet sfs)) (\<lambda>e. case e of
       None \<Rightarrow> returnE None
     | Some e \<Rightarrow> if \<not> IsNotFound e then returnE (Some e) else apiWrite k (CreateStatefulSet sfs))"

definition statefulsetsDestroy :: "'c client \<Rightarrow> string \<Rightarrow> string \<Rightarrow> ('c, string option) action" where
  "statefulsetsDestroy k name ns =
     andThen (apiWrite k (DeleteStatefulSet ns name)) (\<lambda>e. case e of
       None \<Rightarrow> returnE None
     | Some e \<Rightarrow> if IsNotFound e then returnE None
                 else returnE (Some (''error deleting kubernetes job: '' @ e)))"

definition jobsDestroy :: "'c client \<Rightarrow> string \<Rightarrow> string \<Rightarrow> ('c, string option) action" where
  "jobsDestroy k name ns =
     andThen (apiWrite k (DeleteJob ns name)) (\<lambda>e. case e of
       None \<Rightarrow> returnE None
     | Some e \<Rightarrow> if IsNotFound e then returnE None
                 else returnE (Some (''error deleting kubernetes job: '' @ e)))"

definition jobsUpdate :: "'c client \<Rightarrow> job \<Rightarrow> ('c, string option) action" where
  "jobsUpdate k j =
     andThen (jobsDestroy k (om_Name (j_Meta j)) (om_Namespace (j_Meta j))) (\<lambda>e. case e of
       Some e \<Rightarrow> returnE (Some e)
     | None \<Rightarrow> apiWrite k (CreateJob j))"

definition servicesReplace :: "'c client \<Rightarrow> k8sService \<Rightarrow> ('c, unit) action" where
  "servicesReplace k s =
     andThen (apiWrite k (DeleteService (om_Namespace (ks_Meta s)) (om_Name (ks_Meta s)))) (\<lambda>e.
     andThen (wrap ''error deleting kubernetes service'' e) (\<lambda>_.
     andThen (apiWrite k (CreateService s)) (wrap ''error creating kubernetes service'')))"

definition mergedService :: "k8sService \<Rightarrow> k8sService \<Rightarrow> k8sService" where
  "mergedService old s =
     (let isDivertDeploy = (ks_Type old = ''ExternalName''
            \<and> gstr (om_Annotations (ks_Meta old)) OktetoAutoCreateAnnotation = ''true'');
          old = old\<lparr>ks_Meta := (ks_Meta old)\<lparr>om_Annotations := om_Annotations (ks_Meta s),
                                            om_Labels := om_Labels (ks_Meta s)\<rparr>,
                    ks_Ports := ks_Ports s, ks_Selector := ks_Selector s\<rparr>
      in if ks_Type s = ''ClusterIP'' \<and> isDivertDeploy
         then old\<lparr>ks_Type := ks_Type s, ks_ExternalName := ks_ExternalName s\<rparr> else old)"

definition servicesDeploy :: "'c client \<Rightarrow> k8sService \<Rightarrow> ('c, unit) action" where
  "servicesDeploy k s =
     andThen (ask (k_GetService k (om_Namespace (ks_Meta s)) (om_Name (ks_Meta s)))) (\<lambda>got.
       case got of
         Inl e \<Rightarrow>
           if \<not> IsNotFound e then failE (Err (''error getting kubernetes service: '' @ e))
           else andThen (apiWrite k (CreateService s)) (wrap ''error creating kubernetes service'')
       | Inr old \<Rightarrow>
           if om_Name (ks_Meta old) = []
           then andThen (apiWrite k (CreateService s)) (wrap ''error creating kubernetes service'')
           else if (ks_ClusterIP old \<noteq> ''None'' \<and> ks_ClusterIP s = []) \<or> ks_ClusterIP s = ks_ClusterIP old
           then andThen (apiWrite k (UpdateService (mergedService old s)))
                  (wrap ''error updating kubernetes service'')
           else servicesReplace k s)"

definition OktetoInstallerRunningLabel :: string where
  [go_consts]: "OktetoInstallerRunningLabel = ''dev.okteto.com/installer-running''"
definition GitDeployLabel :: string where [go_consts]: "GitDeployLabel = ''dev.okteto.com/git-deploy''"

definition configmapsDeploy :: "'c client \<Rightarrow> configMap \<Rightarrow> string \<Rightarrow> ('c, string option) action" where
  "configmapsDeploy k cf ns =
     andThen (ask (k_GetConfigMap k ns (cm_Name cf))) (\<lambda>got.
       case got of
         Inl e \<Rightarrow> if contains e ''not found'' then apiWrite k (CreateConfigMap ns cf) else returnE (Some e)
       | Inr old \<Rightarrow>
           if gstr (cm_Labels old) OktetoInstallerRunningLabel = ''true''
              \<and> gstr (cm_Labels old) GitDeployLabel \<noteq> ''true''
           then returnE None
           else apiWrite k (UpdateConfigMap ns cf))"

section \<open>Is a service running, healthy, ready\<close>

definition deploymentsIsRunning :: "'c client \<Rightarrow> string \<Rightarrow> string \<Rightarrow> ('c, bool) action" where
  "deploymentsIsRunning k ns n =
     andThen (ask (k_GetDeployment k ns n)) (\<lambda>x. returnE (case x of Inl e \<Rightarrow> False | Inr (m, ready) \<Rightarrow> 0 < ready))"

definition statefulsetsIsRunning :: "'c client \<Rightarrow> string \<Rightarrow> string \<Rightarrow> ('c, bool) action" where
  "statefulsetsIsRunning k ns n =
     andThen (ask (k_GetStatefulSet k ns n)) (\<lambda>x. returnE (case x of Inl e \<Rightarrow> False | Inr (m, ready) \<Rightarrow> 0 < ready))"

definition jobsIsRunning :: "'c client \<Rightarrow> string \<Rightarrow> string \<Rightarrow> ('c, bool) action" where
  "jobsIsRunning k ns n =
     andThen (ask (k_GetJob k ns n)) (\<lambda>x. returnE (case x of Inl e \<Rightarrow> False
       | Inr (m, j) \<Rightarrow> js_Active j \<noteq> 0 \<or> js_Succeeded j \<noteq> 0))"

definition jobsIsSuccedded :: "'c client \<Rightarrow> string \<Rightarrow> string \<Rightarrow> ('c, bool) action" where
  "jobsIsSuccedded k ns n =
     andThen (ask (k_GetJob k ns n)) (\<lambda>x. returnE (case x of Inl e \<Rightarrow> False
       | Inr (m, j) \<Rightarrow> js_Succeeded j = js_Completions j))"

definition jobsIsFailed :: "'c client \<Rightarrow> string \<Rightarrow> string \<Rightarrow> ('c, bool) action" where
  "jobsIsFailed k ns n =
     andThen (ask (k_GetJob k ns n)) (\<lambda>x. returnE (case x of Inl e \<Rightarrow> False
       | Inr (m, j) \<Rightarrow> 0 < js_Failed j \<and> js_BackoffLimit j \<le> js_Failed j))"

definition isSvcRunning :: "'c client \<Rightarrow> service \<Rightarrow> string \<Rightarrow> string \<Rightarrow> ('c, bool) action" where
  "isSvcRunning k svc ns svcName =
     (if IsDeployment svc then deploymentsIsRunning k ns svcName
      else if IsStatefulset svc then statefulsetsIsRunning k ns svcName
      else if IsJob svc then jobsIsRunning k ns svcName
      else returnE False)"

definition podSelector :: "stack \<Rightarrow> string \<Rightarrow> smap" where
  "podSelector s svcName =
     [(StackNameLabel, ResourceK8sMetaString (sk_Name s)), (StackServiceNameLabel, svcName)]"

definition isAnyPortAvailable :: "'c client \<Rightarrow> service \<Rightarrow> stack \<Rightarrow> string \<Rightarrow> ('c, bool) action" where
  "isAnyPortAvailable k svc s svcName =
     andThen (ask (k_GetPod k (sk_Namespace s) (podSelector s svcName))) (\<lambda>x. case x of
       Inl e \<Rightarrow> returnE False
     | Inr p \<Rightarrow> if po_Name p = [] then returnE False
                else ask (k_PortAvailable k (sk_Namespace s) (po_Name p) (s_Ports svc)))"

definition isSvcHealthy :: "'c client \<Rightarrow> stack \<Rightarrow> service \<Rightarrow> string \<Rightarrow> ('c, bool) action" where
  "isSvcHealthy k s svc svcName =
     andThen (isSvcRunning k svc (sk_Namespace s) svcName) (\<lambda>running.
       if \<not> running then returnE False
       else if s_Healtcheck svc \<noteq> None then returnE True
       else isAnyPortAvailable k svc s svcName)"

definition isSvcReady :: "'c client \<Rightarrow> stack \<Rightarrow> string \<Rightarrow> string \<Rightarrow> ('c, bool) action" where
  "isSvcReady k s dep condition =
     (if condition = DependsOnServiceRunning then
        (case gget (sk_Services s) dep of None \<Rightarrow> failE Panic
         | Some svc \<Rightarrow> isSvcRunning k svc (sk_Namespace s) dep)
      else if condition = DependsOnServiceHealthy then
        (case gget (sk_Services s) dep of None \<Rightarrow> failE Panic | Some svc \<Rightarrow> isSvcHealthy k s svc dep)
      else if condition = DependsOnServiceCompleted then jobsIsSuccedded k (sk_Namespace s) dep
      else returnE False)"

fun depsReady :: "'c client \<Rightarrow> stack \<Rightarrow> dependsOn \<Rightarrow> ('c, bool) action" where
  "depsReady k s [] = returnE True"
| "depsReady k s ((dep, condition) # rest) =
     andThen (isSvcReady k s dep condition) (\<lambda>ready. if \<not> ready then returnE False else depsReady k s rest)"

definition canSvcBeDeployed :: "'c client \<Rightarrow> stack \<Rightarrow> service \<Rightarrow> ('c, bool) action" where
  "canSvcBeDeployed k s svc = depsReady k s (s_DependsOn svc)"

section \<open>Writing one service or volume\<close>

definition OldOktetoName :: string where [go_consts]: "OldOktetoName = ''okteto''"

text \<open>
  The guard against name collisions that deployments, stateful sets, jobs and volumes share: the
  error text for an object that belongs to nobody or to another compose.
\<close>

definition collision :: "string \<Rightarrow> string \<Rightarrow> string \<Rightarrow> stack \<Rightarrow> objectMeta \<Rightarrow> string option" where
  "collision kind holder name s old =
     (let owner = gstr (om_Labels old) StackNameLabel
      in if owner = [] then
           Some (''skipping deploy of '' @ kind @ '' '' @ quote name @ '' due to name collision with pre-existing '' @ kind)
         else if owner \<noteq> ResourceK8sMetaString (sk_Name s) \<and> owner \<noteq> OldOktetoName then
           Some (''skipping deploy of '' @ kind @ '' '' @ quote name @ '' due to name collision with '' @ kind
                 @ '' in '' @ holder @ '' '' @ quote owner)
         else None)"

text \<open>The label of the deployer is inherited, except from the old name of the compose.\<close>

definition inheritDeployedBy :: "stack \<Rightarrow> objectMeta \<Rightarrow> objectMeta \<Rightarrow> objectMeta" where
  "inheritDeployedBy s old new =
     (case gget (om_Labels old) DeployedByLabel of
        None \<Rightarrow> new
      | Some v \<Rightarrow>
          new\<lparr>om_Labels := gput DeployedByLabel
                 (if gstr (om_Labels old) StackNameLabel = OldOktetoName
                  then ResourceK8sMetaString (sk_Name s) else v) (om_Labels new)\<rparr>)"

definition deployDeployment :: "'c client \<Rightarrow> ambient \<Rightarrow> string \<Rightarrow> stack \<Rightarrow> ('c, bool) action" where
  "deployDeployment k am svcName s =
     (case translateDeployment am svcName s of
        None \<Rightarrow> failE Panic
      | Some d \<Rightarrow>
          andThen (ask (k_GetDeployment k (sk_Namespace s) svcName)) (\<lambda>got.
            case got of
              Inl e \<Rightarrow>
                if \<not> IsNotFound e
                then failE (Err (''error getting deployment of service '' @ quote svcName @ '': '' @ e))
                else andThen (deploymentsDeploy k d) (\<lambda>e.
                     andThen (wrap (''error creating deployment of service '' @ quote svcName) e)
                       (\<lambda>_. returnE True))
            | Inr (old, ready) \<Rightarrow>
                if om_Name old = []
                then andThen (deploymentsDeploy k d) (\<lambda>e.
                     andThen (wrap (''error creating deployment of service '' @ quote svcName) e)
                       (\<lambda>_. returnE True))
                else (case collision ''deployment'' ''compose'' svcName s old of
                  Some msg \<Rightarrow> failE (Err msg)
                | None \<Rightarrow>
                    let d = d\<lparr>d_Meta := inheritDeployedBy s old (d_Meta d)\<rparr>;
                        upd = wrap (''error updating deployment of service '' @ quote svcName)
                    in andThen (if gstr (om_Labels old) StackNameLabel = OldOktetoName
                                then andThen (deploymentsDestroy k (om_Name old) (om_Namespace old)) upd
                                else returnE ()) (\<lambda>_.
                       andThen (deploymentsDeploy k d) (\<lambda>e. andThen (upd e) (\<lambda>_. returnE False))))))"

definition deployStatefulSet :: "'c client \<Rightarrow> ambient \<Rightarrow> string \<Rightarrow> stack \<Rightarrow> ('c, bool) action" where
  "deployStatefulSet k am svcName s =
     (case translateStatefulSet am svcName s of
        None \<Rightarrow> failE Panic
      | Some sfs \<Rightarrow>
          let create = andThen (statefulsetsDeploy k sfs) (\<lambda>e.
                       andThen (wrap (''error creating statefulset of service '' @ quote svcName) e)
                         (\<lambda>_. returnE True));
              upd = wrap (''error updating statefulset of service '' @ quote svcName)
          in andThen (ask (k_GetStatefulSet k (sk_Namespace s) svcName)) (\<lambda>got.
               case got of
                 Inl e \<Rightarrow>
                   if \<not> IsNotFound e
                   then failE (Err (''error getting statefulset of service '' @ quote svcName @ '': '' @ e))
                   else create
               | Inr (old, ready) \<Rightarrow>
                   if om_Name old = [] then create
                   else (case collision ''statefulset'' ''compose'' svcName s old of
                     Some msg \<Rightarrow> failE (Err msg)
                   | None \<Rightarrow>
                       let sfs = sfs\<lparr>sfs_Meta := inheritDeployedBy s old (sfs_Meta sfs)\<rparr>
                       in andThen (statefulsetsDeploy k sfs) (\<lambda>e. case e of
                            None \<Rightarrow> returnE False
                          | Some e \<Rightarrow>
                              if \<not> contains e ''Forbidden: updates to statefulset spec''
                              then andThen (upd (Some e)) (\<lambda>_. returnE False)
                              else andThen (statefulsetsDestroy k (om_Name (sfs_Meta sfs)) (om_Namespace (sfs_Meta sfs))) (\<lambda>e.
                                   andThen (upd e) (\<lambda>_.
                                   andThen (statefulsetsDeploy k sfs) (\<lambda>e.
                                   andThen (upd e) (\<lambda>_. returnE False))))))))"

definition deployJob :: "'c client \<Rightarrow> ambient \<Rightarrow> string \<Rightarrow> stack \<Rightarrow> ('c, bool) action" where
  "deployJob k am svcName s =
     (case translateJob am svcName s of
        None \<Rightarrow> failE Panic
      | Some j \<Rightarrow>
          let create = andThen (apiWrite k (CreateJob j)) (\<lambda>e.
                       andThen (wrap (''error creating job of service '' @ quote svcName) e)
                         (\<lambda>_. returnE True))
          in andThen (ask (k_GetJob k (sk_Namespace s) svcName)) (\<lambda>got.
               case got of
                 Inl e \<Rightarrow>
                   if \<not> IsNotFound e
                   then failE (Err (''error getting job of service '' @ quote svcName @ '': '' @ e))
                   else create
               | Inr (old, status) \<Rightarrow>
                   if om_Name old = [] then create
                   else (case collision ''job'' ''stack'' svcName s old of
                     Some msg \<Rightarrow> failE (Err msg)
                   | None \<Rightarrow>
                       andThen (jobsUpdate k j) (\<lambda>e.
                       andThen (wrap (''error updating job of service '' @ quote svcName) e)
                         (\<lambda>_. returnE False)))))"

definition deploySvc :: "'c client \<Rightarrow> ambient \<Rightarrow> stack \<Rightarrow> string \<Rightarrow> ('c, unit) action" where
  "deploySvc k am s svcName r =
     (case gget (sk_Services s) svcName of
        None \<Rightarrow> (Inl Panic, r)
      | Some svc \<Rightarrow>
          (case (if IsJob svc then deployJob k am svcName s r
                 else if s_Volumes svc = [] then deployDeployment k am svcName s r
                 else deployStatefulSet k am svcName s r) of
             (Inr isNew, r) \<Rightarrow> (Inr (), r)
           | (Inl (Err msg), r) \<Rightarrow>
               if contains msg ''skipping '' then (Inr (), r) else (Inl (Err msg), r)
           | (Inl Panic, r) \<Rightarrow> (Inl Panic, r)))"

definition deployK8sService :: "'c client \<Rightarrow> ambient \<Rightarrow> string \<Rightarrow> stack \<Rightarrow> ('c, unit) action" where
  "deployK8sService k am svcName s =
     (case translateService am svcName s of
        None \<Rightarrow> failE Panic
      | Some svcK8s \<Rightarrow>
          andThen (ask (k_GetService k (sk_Namespace s) svcName)) (\<lambda>got.
            case got of
              Inl e \<Rightarrow>
                if \<not> IsNotFound e then failE (Err (''error getting service '' @ quote svcName @ '': '' @ e))
                else servicesDeploy k svcK8s
            | Inr old \<Rightarrow>
                let owner = gstr (om_Labels (ks_Meta old)) StackNameLabel
                in if owner = [] then returnE ()
                   else if owner \<noteq> gstr (om_Labels (ks_Meta svcK8s)) StackNameLabel then returnE ()
                   else servicesDeploy k svcK8s))"

definition storageShrinkError :: string where
  "storageShrinkError = ''spec.resources.requests.storage: Forbidden: field can not be less than previous value''"

definition deployVolume :: "'c client \<Rightarrow> string \<Rightarrow> stack \<Rightarrow> ('c, unit) action" where
  "deployVolume k volumeName s =
     (case translatePersistentVolumeClaim volumeName s of
        None \<Rightarrow> failE Panic
      | Some pvc \<Rightarrow>
          let create = andThen (apiWrite k (CreatePVC pvc))
                         (wrap (''error creating volume '' @ quote (om_Name (pvc_Meta pvc))))
          in andThen (ask (k_GetPVC k (sk_Namespace s) (om_Name (pvc_Meta pvc)))) (\<lambda>got.
               case got of
                 Inl e \<Rightarrow>
                   if \<not> IsNotFound e
                   then failE (Err (''error getting volume '' @ quote (om_Name (pvc_Meta pvc)) @ '': '' @ e))
                   else create
               | Inr old \<Rightarrow>
                   if om_Name (pvc_Meta old) = [] then create
                   else if collision ''volume'' ''stack'' volumeName s (pvc_Meta old) \<noteq> None then returnE ()
                   else
                     let meta = (pvc_Meta old)
                           \<lparr>om_Labels := grange_put (om_Labels (pvc_Meta pvc)) (om_Labels (pvc_Meta old)),
                            om_Annotations := grange_put (om_Annotations (pvc_Meta pvc)) (om_Annotations (pvc_Meta old))\<rparr>;
                         new = old\<lparr>pvc_Storage := pvc_Storage pvc, pvc_Meta := meta,
                                   pvc_StorageClassName := (case pvc_StorageClassName pvc of
                                      None \<Rightarrow> pvc_StorageClassName old | Some c \<Rightarrow> Some c)\<rparr>;
                         upd = ''error updating volume '' @ quote (om_Name (pvc_Meta old)) @ '': ''
                     in andThen (apiWrite k (UpdatePVC new)) (\<lambda>e. case e of
                          None \<Rightarrow> returnE ()
                        | Some e \<Rightarrow>
                            if contains e storageShrinkError
                            then failE (Err (upd @ ''Volume size can not be less than previous value''))
                            else failE (Err (upd @ e)))))"

section \<open>The deployment loop\<close>

definition maxRestartsToConsiderFailed :: int where
  "maxRestartsToConsiderFailed = 3"

text \<open>Dependencies with a health check that are waited for to be healthy; \<open>None\<close> for a nil service.\<close>

fun probedDeps :: "stack \<Rightarrow> dependsOn \<Rightarrow> (string \<times> healthCheck) list option" where
  "probedDeps s [] = Some []"
| "probedDeps s ((dep, condition) # rest) =
     (case gget (sk_Services s) dep of
        None \<Rightarrow> None
      | Some d \<Rightarrow>
          map_option (\<lambda>hs. case s_Healtcheck d of
              Some h \<Rightarrow> if condition = DependsOnServiceHealthy then (dep, h) # hs else hs
            | None \<Rightarrow> hs) (probedDeps s rest))"

fun failedProbes :: "'c client \<Rightarrow> stack \<Rightarrow> (string \<times> healthCheck) list \<Rightarrow> ('c, (string \<times> probeErr) list) action" where
  "failedProbes k s [] = returnE []"
| "failedProbes k s ((n, h) # rest) =
     andThen (ask (k_HealthcheckFailure k (sk_Namespace s) n (sk_Name s) h)) (\<lambda>e.
     andThen (failedProbes k s rest) (\<lambda>fs.
       returnE (case e of None \<Rightarrow> fs | Some e \<Rightarrow> (n, e) # fs)))"

definition getServicesWithFailedProbes :: "'c client \<Rightarrow> stack \<Rightarrow> service \<Rightarrow> ('c, (string \<times> probeErr) list) action" where
  "getServicesWithFailedProbes k s svc =
     (case probedDeps s (s_DependsOn svc) of None \<Rightarrow> failE Panic | Some hs \<Rightarrow> failedProbes k s hs)"

definition getPodRestarts :: "podStatus \<Rightarrow> int" where
  "getPodRestarts p = sum_list (po_Restarts p)"

fun restartLimit :: "'c client \<Rightarrow> stack \<Rightarrow> string list \<Rightarrow> (string, int) gomap
    \<Rightarrow> ('c, (string, int) gomap) action" where
  "restartLimit k s [] restartsPerSvc = returnE restartsPerSvc"
| "restartLimit k s (dep # deps) restartsPerSvc =
     andThen (ask (k_GetPod k (sk_Namespace s) (podSelector s dep))) (\<lambda>got.
       case got of
         Inl e \<Rightarrow> restartLimit k s deps restartsPerSvc
       | Inr p \<Rightarrow>
           let total = getPodRestarts p;
               restartsPerSvc = (case gget restartsPerSvc dep of
                   None \<Rightarrow> gput dep total restartsPerSvc | Some n \<Rightarrow> restartsPerSvc);
               now = total - (case gget restartsPerSvc dep of None \<Rightarrow> 0 | Some n \<Rightarrow> n)
           in (case gget (sk_Services s) dep of
                 None \<Rightarrow> failE Panic
               | Some d \<Rightarrow>
                   let maxSvcRestarts = (if s_BackOffLimit d = 0 then maxRestartsToConsiderFailed
                                         else s_BackOffLimit d)
                   in if maxSvcRestarts \<le> toInt32 now
                      then failE (Err (''service '' @ quote dep @ '' has been restarted '' @ showInt now
                             @ '' times within this deploy. Please check the logs and try again''))
                      else restartLimit k s deps restartsPerSvc))"

definition getErrorDueToRestartLimit :: "'c client \<Rightarrow> stack \<Rightarrow> service \<Rightarrow> (string, int) gomap
    \<Rightarrow> ('c, (string, int) gomap) action" where
  "getErrorDueToRestartLimit k s svc restartsPerSvc = restartLimit k s (gkeys (s_DependsOn svc)) restartsPerSvc"

fun dependingJobs :: "stack \<Rightarrow> string list \<Rightarrow> string list option" where
  "dependingJobs s [] = Some []"
| "dependingJobs s (dep # deps) =
     (case gget (sk_Services s) dep of
        None \<Rightarrow> None
      | Some d \<Rightarrow> map_option (\<lambda>js. if IsJob d then dep # js else js) (dependingJobs s deps))"

fun failedJobsOf :: "'c client \<Rightarrow> stack \<Rightarrow> string list \<Rightarrow> ('c, string list) action" where
  "failedJobsOf k s [] = returnE []"
| "failedJobsOf k s (j # js) =
     andThen (jobsIsFailed k (sk_Namespace s) j) (\<lambda>failed.
     andThen (failedJobsOf k s js) (\<lambda>rest. returnE (if failed then j # rest else rest)))"

definition getDependingFailedJobs :: "'c client \<Rightarrow> stack \<Rightarrow> service \<Rightarrow> ('c, string list) action" where
  "getDependingFailedJobs k s svc =
     (case dependingJobs s (gkeys (s_DependsOn svc)) of None \<Rightarrow> failE Panic | Some js \<Rightarrow> failedJobsOf k s js)"

text \<open>The services warned about so far and the restarts counted so far.\<close>

record loopState =
  lo_Deployed :: "string list"
  lo_Warnings :: smap
  lo_Restarts :: "(string, int) gomap"

definition probeMessage :: "string \<Rightarrow> string \<Rightarrow> string \<Rightarrow> string" where
  "probeMessage svcName dep e =
     ''service '' @ quote svcName @ '' cannot be deployed because dependent service '' @ quote dep
     @ '' is failing its healthcheck probes: '' @ e"

fun probeLoop :: "string \<Rightarrow> (string \<times> probeErr) list \<Rightarrow> smap \<Rightarrow> derr + smap" where
  "probeLoop svcName [] warnings = Inr warnings"
| "probeLoop svcName ((dep, e) # rest) warnings =
     (case e of
        LivenessProbeFailed msg \<Rightarrow> Inl (Err (probeMessage svcName dep msg))
      | ReadinessProbeFailed msg \<Rightarrow>
          probeLoop svcName rest (case gget warnings dep of
             None \<Rightarrow> gput dep (probeMessage svcName dep msg) warnings | Some w \<Rightarrow> warnings)
      | OtherProbeErr msg \<Rightarrow> probeLoop svcName rest warnings)"

text \<open>What the loop does with a service whose dependencies are deployed but not ready.\<close>

definition notReady :: "'c client \<Rightarrow> stack \<Rightarrow> string \<Rightarrow> service \<Rightarrow> loopState \<Rightarrow> ('c, loopState) action" where
  "notReady k s svcName svc l =
     andThen (getDependingFailedJobs k s svc) (\<lambda>failedJobs.
       if failedJobs \<noteq> [] then
         failE (Err (if length failedJobs = 1
           then ''service '' @ quote svcName @ '' dependency '' @ quote (hd failedJobs) @ '' failed''
           else ''service '' @ quote svcName @ '' dependencies '' @ quote (join '', '' failedJobs) @ '' failed''))
       else
         andThen (getServicesWithFailedProbes k s svc) (\<lambda>failed.
           case probeLoop svcName failed (lo_Warnings l) of
             Inl e \<Rightarrow> failE e
           | Inr warnings \<Rightarrow>
               andThen (getErrorDueToRestartLimit k s svc (lo_Restarts l)) (\<lambda>restarts.
                 returnE (l\<lparr>lo_Warnings := warnings, lo_Restarts := restarts\<rparr>))))"

text \<open>One turn of the inner loop, for one service.\<close>

definition svcTurn :: "'c client \<Rightarrow> ambient \<Rightarrow> stack \<Rightarrow> string \<Rightarrow> loopState \<Rightarrow> ('c, loopState) action" where
  "svcTurn k am s svcName l =
     (case gget (sk_Services s) svcName of
        None \<Rightarrow> failE Panic
      | Some svc \<Rightarrow>
          if svcName \<in> set (lo_Deployed l)
             \<or> \<not> list_all (\<lambda>dep. dep \<in> set (lo_Deployed l)) (gkeys (s_DependsOn svc))
          then returnE l
          else
            andThen (canSvcBeDeployed k s svc) (\<lambda>can.
              if \<not> can then notReady k s svcName svc l
              else andThen (deploySvc k am s svcName) (\<lambda>_.
                     returnE (l\<lparr>lo_Deployed := lo_Deployed l @ [svcName]\<rparr>))))"

fun svcRound :: "'c client \<Rightarrow> ambient \<Rightarrow> stack \<Rightarrow> string list \<Rightarrow> loopState \<Rightarrow> ('c, loopState) action" where
  "svcRound k am s [] l = returnE l"
| "svcRound k am s (svcName # rest) l = andThen (svcTurn k am s svcName l) (svcRound k am s rest)"

text \<open>\<open>None\<close>: the rounds are used up and the loop is still running.\<close>

fun svcRounds :: "nat \<Rightarrow> 'c client \<Rightarrow> ambient \<Rightarrow> stack \<Rightarrow> string list \<Rightarrow> loopState \<Rightarrow> 'c run
    \<Rightarrow> ((derr + loopState) \<times> 'c run) option" where
  "svcRounds fuel k am s svcs l r =
     (if length (lo_Deployed l) = length svcs then Some (Inr l, r)
      else case fuel of
        0 \<Rightarrow> None
      | Suc fuel \<Rightarrow>
          (case svcRound k am s svcs l r of
             (Inl e, r) \<Rightarrow> Some (Inl e, r)
           | (Inr l, r) \<Rightarrow> svcRounds fuel k am s svcs l r))"

declare svcRounds.simps [simp del]

definition startLoop :: loopState where
  "startLoop = \<lparr>lo_Deployed = [], lo_Warnings = [], lo_Restarts = []\<rparr>"

text \<open>
  \<open>deployServices\<close>: when both tickers are due the select takes either case, so the timeout can
  win the race only before the first round starts.
\<close>

definition deployServices :: "nat \<Rightarrow> bool \<Rightarrow> string \<Rightarrow> 'c client \<Rightarrow> ambient \<Rightarrow> stack \<Rightarrow> string list \<Rightarrow> 'c run
    \<Rightarrow> ((derr + loopState) \<times> 'c run) option" where
  "deployServices fuel timeoutFirst timeout k am s svcs r =
     (if timeoutFirst
      then Some (Inl (Err (''compose '' @ quote (sk_Name s) @ '' didn'' @ [CHR 0x27] @ ''t finish after '' @ timeout)), r)
      else svcRounds fuel k am s svcs startLoop r)"

section \<open>Which services, volumes and endpoints\<close>

fun addDepsOf :: "'c client \<Rightarrow> stack \<Rightarrow> string list \<Rightarrow> string list \<Rightarrow> ('c, string list) action" where
  "addDepsOf k s [] svcs = returnE svcs"
| "addDepsOf k s (dep # deps) svcs =
     (if dep \<in> set svcs then addDepsOf k s deps svcs
      else case gget (sk_Services s) dep of
        None \<Rightarrow> failE Panic
      | Some d \<Rightarrow>
          andThen (isSvcRunning k d (sk_Namespace s) dep) (\<lambda>running.
            addDepsOf k s deps (if \<not> running then svcs @ [dep] else svcs)))"

text \<open>One pass over the services; the list being ranged over is the one before the pass.\<close>

fun addDepsPass :: "'c client \<Rightarrow> stack \<Rightarrow> string list \<Rightarrow> string list \<Rightarrow> ('c, string list) action" where
  "addDepsPass k s [] svcs = returnE svcs"
| "addDepsPass k s (n # ns) svcs =
     (case gget (sk_Services s) n of
        None \<Rightarrow> failE Panic
      | Some svc \<Rightarrow> andThen (addDepsOf k s (gkeys (s_DependsOn svc)) svcs) (addDepsPass k s ns))"

fun ValidateDefinedServicesLoop :: "stack \<Rightarrow> string list \<Rightarrow> composeErr option" where
  "ValidateDefinedServicesLoop s [] = None"
| "ValidateDefinedServicesLoop s (n # ns) =
     (case gget (sk_Services s) n of
        None \<Rightarrow> Some (ServiceNotDefined n)
      | Some svc \<Rightarrow> ValidateDefinedServicesLoop s ns)"

definition ValidateDefinedServices :: "stack \<Rightarrow> string list \<Rightarrow> composeErr option" where
  "ValidateDefinedServices s svcs =
     (case ValidateDefinedServicesLoop s svcs of
        Some e \<Rightarrow> Some e
      | None \<Rightarrow> ValidateDependsOn (sk_Services s) svcs)"

definition getAddedSvcs :: "string list \<Rightarrow> string list \<Rightarrow> string list" where
  "getAddedSvcs initial withDeps = filter (\<lambda>n. n \<in> set initial) withDeps"

definition getVolumesToDeployFromServicesToDeploy :: "stack \<Rightarrow> string list \<Rightarrow> string list" where
  "getVolumesToDeployFromServicesToDeploy s svcs =
     remdups (concat (map (\<lambda>(n, svc). if n \<in> set svcs
        then filter (\<lambda>v. gget (sk_Volumes s) v \<noteq> None) (map vo_LocalPath (s_Volumes svc)) else [])
        (sk_Services s)))"

definition getEndpointsToDeployFromServicesToDeploy :: "endpointSpec \<Rightarrow> string list \<Rightarrow> string list" where
  "getEndpointsToDeployFromServicesToDeploy es svcs =
     remdups (map fst (filter (\<lambda>(n, e). list_ex (\<lambda>r. er_Service r \<in> set svcs) (en_Rules e)) es))"

lemma addDepsOf_grows:
  "addDepsOf k s deps svcs r = (Inr svcs', r') \<Longrightarrow>
     \<exists>ys. svcs' = svcs @ ys \<and> set ys \<inter> set svcs = {} \<and> distinct ys \<and> set ys \<subseteq> set (gkeys (sk_Services s))"
proof (induction deps arbitrary: svcs r)
  case Nil
  then show ?case by (simp add: returnE_def)
next
  case (Cons d deps)
  show ?case
  proof (cases "d \<in> set svcs")
    case True
    with Cons show ?thesis by simp
  next
    case False
    with Cons.prems obtain svc where svc: "gget (sk_Services s) d = Some svc"
      by (cases "gget (sk_Services s) d") (auto simp: failE_def)
    with Cons.prems False obtain b r1 where
      "addDepsOf k s deps (if \<not> b then svcs @ [d] else svcs) r1 = (Inr svcs', r')"
      by (auto simp: andThen_Inr)
    from Cons.IH [OF this] obtain ys where
      "svcs' = (if \<not> b then svcs @ [d] else svcs) @ ys"
      "set ys \<inter> set (if \<not> b then svcs @ [d] else svcs) = {}" "distinct ys"
      "set ys \<subseteq> set (gkeys (sk_Services s))" by blast
    with False svc show ?thesis
      by (intro exI [of _ "if b then ys else d # ys"]) (auto simp: gkeys_iff split: if_splits)
  qed
qed

lemma addDepsPass_grows:
  "addDepsPass k s ns svcs r = (Inr svcs', r') \<Longrightarrow>
     \<exists>ys. svcs' = svcs @ ys \<and> set ys \<inter> set svcs = {} \<and> distinct ys \<and> set ys \<subseteq> set (gkeys (sk_Services s))"
proof (induction ns arbitrary: svcs r)
  case Nil
  then show ?case by (simp add: returnE_def)
next
  case (Cons n ns)
  from Cons.prems obtain svc :: service and svcs1 r1 where "addDepsOf k s (gkeys (s_DependsOn svc)) svcs r = (Inr svcs1, r1)"
    and "addDepsPass k s ns svcs1 r1 = (Inr svcs', r')"
    by (cases "gget (sk_Services s) n") (auto simp: failE_def andThen_Inr)
  from addDepsOf_grows [OF this(1)] Cons.IH [OF this(2)] show ?case by fastforce
qed

text \<open>The recursion ends: every further pass has found a service that was not in the list.\<close>

function addDependentServices :: "'c client \<Rightarrow> stack \<Rightarrow> string list \<Rightarrow> ('c, string list) action" where
  "addDependentServices k s svcs r =
     (case addDepsPass k s svcs svcs r of
        (Inl e, r') \<Rightarrow> (Inl e, r')
      | (Inr svcs', r') \<Rightarrow>
          if length svcs \<noteq> length svcs' then addDependentServices k s svcs' r' else (Inr svcs', r'))"
  by pat_completeness auto

termination addDependentServices
proof (relation "measure (\<lambda>(k, s, svcs, r). card (set (gkeys (sk_Services s)) - set svcs))", goal_cases)
  case 1
  show ?case by simp
next
  case (2 k s svcs r x r' svcs')
  then have "addDepsPass k s svcs svcs r = (Inr svcs', r')" by simp
  from addDepsPass_grows [OF this] obtain ys where ys: "svcs' = svcs @ ys" "set ys \<inter> set svcs = {}"
    "set ys \<subseteq> set (gkeys (sk_Services s))" by blast
  with 2 obtain y where "y \<in> set ys" by (cases ys) auto
  with ys have "set (gkeys (sk_Services s)) - set svcs' \<subset> set (gkeys (sk_Services s)) - set svcs" by auto
  then show ?case by (simp add: psubset_card_mono)
qed

declare addDependentServices.simps [simp del]

definition AddDependentServicesIfNotPresent :: "'c client \<Rightarrow> stack \<Rightarrow> string list \<Rightarrow> ('c, string list) action" where
  "AddDependentServicesIfNotPresent k s svcs = addDependentServices k s svcs"

record deployOptions =
  do_ServicesToDeploy :: "string list"
  do_Timeout :: string
  do_Wait :: bool
  do_InsidePipeline :: bool

text \<open>A validation error reaches the user as text; the constructor is kept as its name.\<close>

definition validateServicesToDeploy :: "'c client \<Rightarrow> stack \<Rightarrow> deployOptions
    \<Rightarrow> 'c run \<Rightarrow> ((composeErr + derr) + deployOptions) \<times> 'c run" where
  "validateServicesToDeploy k s opts r =
     (case ValidateDefinedServices s (do_ServicesToDeploy opts) of
        Some e \<Rightarrow> (Inl (Inl e), r)
      | None \<Rightarrow>
          if \<not> do_InsidePipeline opts then
            (case AddDependentServicesIfNotPresent k s (do_ServicesToDeploy opts) r of
               (Inl e, r) \<Rightarrow> (Inl (Inr e), r)
             | (Inr svcs, r) \<Rightarrow> (Inr (opts\<lparr>do_ServicesToDeploy := svcs\<rparr>), r))
          else (Inr opts, r))"

section \<open>Endpoints, image metadata, waiting\<close>

text \<open>The gateway of the okteto context, as its name and namespace.\<close>

definition ShouldUseHTTPRoute :: "world \<Rightarrow> (string \<times> string) option \<Rightarrow> derr + (bool \<times> string \<times> string)" where
  "ShouldUseHTTPRoute w gateway =
     (let metadata = (case gateway of None \<Rightarrow> ([], []) | Some g \<Rightarrow> g);
          configured = (\<not> (fst metadata = [] \<or> snd metadata = []));
          missing = Inl (Err (''gateway type requested via '' @ oktetoDefaultGatewayTypeEnvVar
                       @ ''=gateway but gateway is not configured in the cluster''));
          ingress = Inr (False, [], []);
          endpointType = getenv w oktetoComposeEndpointsTypeEnvVar;
          defaultGatewayType = getenv w oktetoDefaultGatewayTypeEnvVar
      in if endpointType = ''ingress'' then ingress
         else if endpointType = ''gateway'' then (if \<not> configured then missing else Inr (True, metadata))
         else if defaultGatewayType = ''ingress'' then ingress
         else if defaultGatewayType = ''gateway'' then (if \<not> configured then missing else Inr (True, metadata))
         else if configured then Inr (True, metadata) else ingress)"

text \<open>The registry: the metadata of an image, if it can be read, and whether it is okteto's own.\<close>

record registryInfo =
  re_Metadata :: "string \<Rightarrow> (string \<times> port list) option"
  re_IsOktetoRegistry :: "string \<Rightarrow> bool"

fun addImagePorts :: "port list \<Rightarrow> port list \<Rightarrow> port list" where
  "addImagePorts [] ports = ports"
| "addImagePorts (q # qs) ports =
     addImagePorts qs (if \<not> IsAlreadyAdded q ports
        then ports @ [\<lparr>p_Protocol = p_Protocol q, p_HostPort = 0, p_ContainerPort = p_ContainerPort q\<rparr>]
        else ports)"

definition addImageMetadataToSvc :: "registryInfo \<Rightarrow> service \<Rightarrow> service" where
  "addImageMetadataToSvc reg svc =
     (if s_Image svc \<noteq> [] then
        (case re_Metadata reg (s_Image svc) of
           None \<Rightarrow> svc
         | Some (img, ports) \<Rightarrow>
             svc\<lparr>s_Image := (if re_IsOktetoRegistry reg (s_Image svc) then img else s_Image svc),
                 s_Ports := addImagePorts ports (s_Ports svc)\<rparr>)
      else svc)"

fun addImageMetadataToStack :: "registryInfo \<Rightarrow> stack \<Rightarrow> string list \<Rightarrow> stack option" where
  "addImageMetadataToStack reg s [] = Some s"
| "addImageMetadataToStack reg s (n # ns) =
     (case gget (sk_Services s) n of
        None \<Rightarrow> None
      | Some svc \<Rightarrow>
          addImageMetadataToStack reg
            (s\<lparr>sk_Services := gput n (addImageMetadataToSvc reg svc) (sk_Services s)\<rparr>) ns)"

fun sumReplicas :: "string list \<Rightarrow> composeServices \<Rightarrow> int \<Rightarrow> int" where
  "sumReplicas svcs [] numPods = numPods"
| "sumReplicas svcs ((n, svc) # rest) numPods =
     sumReplicas svcs rest (if svcs \<noteq> [] \<and> n \<notin> set svcs then numPods else toInt32 (numPods + s_Replicas svc))"

text \<open>One look at the pods: the error of a failed pod, or how many are still pending.\<close>

fun countPods :: "podStatus list \<Rightarrow> int \<Rightarrow> derr + int" where
  "countPods [] pending = Inr pending"
| "countPods (p # ps) pending =
     (let pending = (if po_Phase p = ''Running'' \<or> po_Phase p = ''Succeeded''
                     then toInt32 (pending - 1) else pending)
      in if po_Phase p = ''Failed''
         then Inl (Err (''service '' @ quote (gstr (po_Labels p) StackServiceNameLabel)
                @ '' has failed. Please check for errors and try again''))
         else countPods ps pending)"

text \<open>The polls that happen before the deadline of ten minutes.\<close>

fun waitPolls :: "nat \<Rightarrow> 'c client \<Rightarrow> stack \<Rightarrow> int \<Rightarrow> ('c, unit) action" where
  "waitPolls 0 k s numPods =
     failE (Err ''kubernetes is taking too long to create your stack. Please check for errors and try again'')"
| "waitPolls (Suc n) k s numPods =
     andThen (ask (k_ListPods k (sk_Namespace s) [(StackNameLabel, ResourceK8sMetaString (sk_Name s))])) (\<lambda>got.
       case got of
         Inl e \<Rightarrow> failE (Err e)
       | Inr pods \<Rightarrow>
           (case countPods pods numPods of
              Inl e \<Rightarrow> failE e
            | Inr pending \<Rightarrow> if pending = 0 then returnE () else waitPolls n k s numPods))"

definition waitForPodsToBeRunning :: "nat \<Rightarrow> 'c client \<Rightarrow> stack \<Rightarrow> string list \<Rightarrow> ('c, unit) action" where
  "waitForPodsToBeRunning polls k s svcs = waitPolls polls k s (sumReplicas svcs (sk_Services s) 0)"

section \<open>The whole deployment\<close>

text \<open>The Go interface \<open>EndpointDeployer\<close>, and the clean up of \<open>destroyServicesNotInStack\<close>.\<close>

record 'c endpointDeployer =
  ed_DeployServiceEndpoint :: "string \<Rightarrow> string \<Rightarrow> port \<Rightarrow> stack \<Rightarrow> ('c, unit) action"
  ed_DeployComposeEndpoint :: "string \<Rightarrow> endpoint \<Rightarrow> stack \<Rightarrow> ('c, unit) action"
  ed_DestroyServicesNotInStack :: "stack \<Rightarrow> bool \<Rightarrow> ('c, unit) action"

fun deployPublicPorts :: "'c endpointDeployer \<Rightarrow> stack \<Rightarrow> string \<Rightarrow> bool \<Rightarrow> port list \<Rightarrow> ('c, unit) action" where
  "deployPublicPorts ed s svcName several [] = returnE ()"
| "deployPublicPorts ed s svcName several (p # ps) =
     (let ingressName = (if several then svcName @ ''-'' @ showInt (p_ContainerPort p) else svcName)
      in andThen (ed_DeployServiceEndpoint ed ingressName svcName p s)
           (\<lambda>_. deployPublicPorts ed s svcName several ps))"

fun deployK8sServices :: "'c client \<Rightarrow> ambient \<Rightarrow> 'c endpointDeployer \<Rightarrow> stack \<Rightarrow> string list \<Rightarrow> ('c, unit) action" where
  "deployK8sServices k am ed s [] = returnE ()"
| "deployK8sServices k am ed s (n # ns) =
     (case gget (sk_Services s) n of
        None \<Rightarrow> failE Panic
      | Some svc \<Rightarrow>
          if s_Ports svc = [] then deployK8sServices k am ed s ns
          else andThen (deployK8sService k am n s) (\<lambda>_.
                 case getSvcPublicPorts n s of
                   None \<Rightarrow> failE Panic
                 | Some ports \<Rightarrow>
                     andThen (deployPublicPorts ed s n (1 < length ports) ports)
                       (\<lambda>_. deployK8sServices k am ed s ns)))"

fun deployVolumes :: "'c client \<Rightarrow> stack \<Rightarrow> string list \<Rightarrow> ('c, unit) action" where
  "deployVolumes k s [] = returnE ()"
| "deployVolumes k s (v # vs) = andThen (deployVolume k v s) (\<lambda>_. deployVolumes k s vs)"

definition labelledEndpoint :: "stack \<Rightarrow> string \<Rightarrow> endpoint \<Rightarrow> endpoint" where
  "labelledEndpoint s name e =
     (let ls = en_Labels e;
          ls = (case gget ls StackNameLabel of
                  None \<Rightarrow> gput StackNameLabel (ResourceK8sMetaString (sk_Name s)) ls | Some v \<Rightarrow> ls);
          ls = (case gget ls StackEndpointNameLabel of
                  None \<Rightarrow> gput StackEndpointNameLabel name ls | Some v \<Rightarrow> ls)
      in e\<lparr>en_Labels := ls\<rparr>)"

fun deployEndpoints :: "'c endpointDeployer \<Rightarrow> stack \<Rightarrow> string list \<Rightarrow> ('c, unit) action" where
  "deployEndpoints ed s [] = returnE ()"
| "deployEndpoints ed s (n # ns) =
     (case gget (sk_Endpoints s) n of
        None \<Rightarrow> deployEndpoints ed s ns
      | Some e \<Rightarrow>
          andThen (ed_DeployComposeEndpoint ed n (labelledEndpoint s n e) s) (\<lambda>_. deployEndpoints ed s ns))"

record 'c environmentOf =
  eo_Client :: "'c client"
  eo_Ambient :: ambient
  eo_Registry :: registryInfo
  eo_Gateway :: "(string \<times> string) option"
  eo_Endpoints :: "'c endpointDeployer"
  eo_TimeoutFirst :: bool
  eo_Rounds :: nat
  eo_Polls :: nat

text \<open>
  \<open>deploy\<close>: the goroutine's body, which ends with one message on \<open>exit\<close>; the wait for an
  interrupt beside it is not modelled. \<open>None\<close>: the loop of \<open>deployServices\<close> still runs.
\<close>

definition deploy :: "'c environmentOf \<Rightarrow> stack \<Rightarrow> deployOptions \<Rightarrow> 'c run \<Rightarrow> ((derr + unit) \<times> 'c run) option" where
  "deploy eo s opts r =
     (let k = eo_Client eo; am = eo_Ambient eo; ed = eo_Endpoints eo; svcs = do_ServicesToDeploy opts
      in case addImageMetadataToStack (eo_Registry eo) s svcs of
           None \<Rightarrow> Some (Inl Panic, r)
         | Some s \<Rightarrow>
             (case ShouldUseHTTPRoute (am_World am) (eo_Gateway eo) of
                Inl e \<Rightarrow> Some (Inl e, r)
              | Inr (useHTTPRoute, metadata) \<Rightarrow>
                  (case andThen (deployK8sServices k am ed s svcs) (\<lambda>_.
                          deployVolumes k s (getVolumesToDeployFromServicesToDeploy s svcs)) r of
                     (Inl e, r) \<Rightarrow> Some (Inl e, r)
                   | (Inr _, r) \<Rightarrow>
                       (case deployServices (eo_Rounds eo) (eo_TimeoutFirst eo) (do_Timeout opts) k am s svcs r of
                          None \<Rightarrow> None
                        | Some (Inl e, r) \<Rightarrow> Some (Inl e, r)
                        | Some (Inr l, r) \<Rightarrow>
                            Some (andThen (deployEndpoints ed s
                                (getEndpointsToDeployFromServicesToDeploy (sk_Endpoints s) svcs)) (\<lambda>_.
                              andThen (ed_DestroyServicesNotInStack ed s useHTTPRoute) (\<lambda>_.
                                if \<not> do_Wait opts then returnE ()
                                else waitForPodsToBeRunning (eo_Polls eo) k s svcs)) r)))))"

definition statusOf :: "configMap \<Rightarrow> string \<Rightarrow> string \<Rightarrow> configMap" where
  "statusOf cfg status output =
     cfg\<lparr>cm_Data := gput outputField (base64 output) (gput statusField status (cm_Data cfg))\<rparr>"

definition errText :: "derr \<Rightarrow> string" where
  "errText e = (case e of Panic \<Rightarrow> [] | Err msg \<Rightarrow> msg)"

text \<open>
  \<open>deployCompose\<close>, with the image build (\<open>buildStackImages\<close>) as the parameter \<open>build\<close>. A panic of
  the goroutine ends the process: nothing is recorded after it.
\<close>

definition recordStatus :: "'c client \<Rightarrow> stack \<Rightarrow> configMap \<Rightarrow> string \<Rightarrow> derr + unit \<Rightarrow> ('c, unit) action" where
  "recordStatus k s cfg output result =
     (let cfg' = (case result of
          Inl e \<Rightarrow> statusOf cfg errorStatus (output @ [CHR 0x0A] @ ''Compose '' @ quote (sk_Name s)
                     @ '' deployment failed: '' @ errText e)
        | Inr _ \<Rightarrow> statusOf cfg deployedStatus (output @ [CHR 0x0A] @ ''Compose '' @ quote (sk_Name s)
                     @ '' successfully deployed''))
      in andThen (configmapsDeploy k cfg' (sk_Namespace s)) (\<lambda>e. case e of
           Some e \<Rightarrow> failE (Err e)
         | None \<Rightarrow> (case result of Inl e \<Rightarrow> failE e | Inr _ \<Rightarrow> returnE ())))"

definition deployCompose :: "'c environmentOf \<Rightarrow> (stack \<Rightarrow> deployOptions \<Rightarrow> ('c, stack) action)
    \<Rightarrow> stack \<Rightarrow> deployOptions \<Rightarrow> 'c run \<Rightarrow> (((composeErr + derr) + unit) \<times> 'c run) option" where
  "deployCompose eo build s opts r =
     (case validateServicesToDeploy (eo_Client eo) s opts r of
        (Inl e, r) \<Rightarrow> Some (Inl e, r)
      | (Inr opts, r) \<Rightarrow>
          (case (if \<not> do_InsidePipeline opts then build s opts r else (Inr s, r)) of
             (Inl e, r) \<Rightarrow> Some (Inl (Inr e), r)
           | (Inr s, r) \<Rightarrow>
               let cfg = translateConfigMap s;
                   output = ''Deploying compose '' @ quote (sk_Name s) @ ''...''
               in (case configmapsDeploy (eo_Client eo) (statusOf cfg progressingStatus output) (sk_Namespace s) r of
                     (Inl e, r) \<Rightarrow> Some (Inl (Inr e), r)
                   | (Inr (Some e), r) \<Rightarrow> Some (Inl (Inr (Err e)), r)
                   | (Inr None, r) \<Rightarrow>
                       (case deploy eo s opts r of
                          None \<Rightarrow> None
                        | Some (Inl Panic, r) \<Rightarrow> Some (Inl (Inr Panic), r)
                        | Some (result, r) \<Rightarrow>
                            Some (case recordStatus (eo_Client eo) s cfg output result r of
                                (Inl e, r) \<Rightarrow> (Inl (Inr e), r) | (Inr _, r) \<Rightarrow> (Inr (), r))))))"

definition RunDeploy :: "'c environmentOf \<Rightarrow> (stack \<Rightarrow> deployOptions \<Rightarrow> ('c, stack) action)
    \<Rightarrow> stack \<Rightarrow> deployOptions \<Rightarrow> 'c run \<Rightarrow> (((composeErr + derr) + unit) \<times> 'c run) option" where
  "RunDeploy eo build s opts r =
     (let opts = (if do_ServicesToDeploy opts = [] then opts\<lparr>do_ServicesToDeploy := gkeys (sk_Services s)\<rparr> else opts)
      in deployCompose eo build s opts r)"

section \<open>Lemmas on the order of deployment\<close>

definition depsOf :: "stack \<Rightarrow> string \<Rightarrow> string set" where
  "depsOf s n = (case gget (sk_Services s) n of None \<Rightarrow> {} | Some svc \<Rightarrow> set (gkeys (s_DependsOn svc)))"

text \<open>Every service of the list comes after the services it depends on.\<close>

definition dependenciesFirst :: "stack \<Rightarrow> string list \<Rightarrow> bool" where
  "dependenciesFirst s ds \<longleftrightarrow> (\<forall>before n after. ds = before @ n # after \<longrightarrow> depsOf s n \<subseteq> set before)"

lemma dependenciesFirst_Nil [simp]: "dependenciesFirst s []"
  by (simp add: dependenciesFirst_def)

lemma dependenciesFirst_snoc:
  assumes "dependenciesFirst s ds" and "depsOf s n \<subseteq> set ds"
  shows "dependenciesFirst s (ds @ [n])"
  unfolding dependenciesFirst_def
proof (intro allI impI)
  fix before m after assume eq: "ds @ [n] = before @ m # after"
  show "depsOf s m \<subseteq> set before"
  proof (cases after rule: rev_cases)
    case Nil
    with eq assms(2) show ?thesis by simp
  next
    case (snoc after' x)
    with eq have "ds = before @ m # after'" by simp
    with assms(1) show ?thesis unfolding dependenciesFirst_def by blast
  qed
qed

definition goodLoop :: "stack \<Rightarrow> string list \<Rightarrow> loopState \<Rightarrow> bool" where
  "goodLoop s svcs l \<longleftrightarrow>
     distinct (lo_Deployed l) \<and> set (lo_Deployed l) \<subseteq> set svcs \<and> dependenciesFirst s (lo_Deployed l)"

lemma notReady_deployed:
  assumes "notReady k s n svc l r = (Inr l', r')"
  shows "lo_Deployed l' = lo_Deployed l"
proof -
  from assms obtain failed r1 where "(case probeLoop n failed (lo_Warnings l) of Inl e \<Rightarrow> failE e
      | Inr warnings \<Rightarrow> andThen (getErrorDueToRestartLimit k s svc (lo_Restarts l)) (\<lambda>restarts.
          returnE (l\<lparr>lo_Warnings := warnings, lo_Restarts := restarts\<rparr>))) r1 = (Inr l', r')"
    by (auto simp: notReady_def andThen_Inr failE_def simp del: andThen_returnE split: if_splits)
  then show ?thesis
    by (cases "probeLoop n failed (lo_Warnings l)") (auto simp: andThen_Inr failE_def returnE_def)
qed

lemma svcTurn_cases:
  assumes "svcTurn k am s n l r = (Inr l', r')"
  obtains "lo_Deployed l' = lo_Deployed l"
  | "lo_Deployed l' = lo_Deployed l @ [n]" "n \<notin> set (lo_Deployed l)" "depsOf s n \<subseteq> set (lo_Deployed l)"
proof (cases "gget (sk_Services s) n")
  case None
  with assms show ?thesis by (simp add: svcTurn_def failE_def)
next
  case (Some svc)
  show ?thesis
  proof (cases "n \<in> set (lo_Deployed l) \<or> \<not> list_all (\<lambda>dep. dep \<in> set (lo_Deployed l)) (gkeys (s_DependsOn svc))")
    case True
    with Some assms that(1) show ?thesis by (simp add: svcTurn_def returnE_def)
  next
    case False
    with Some assms obtain can r1 where
      "(if \<not> can then notReady k s n svc l
        else andThen (deploySvc k am s n) (\<lambda>_. returnE (l\<lparr>lo_Deployed := lo_Deployed l @ [n]\<rparr>))) r1 = (Inr l', r')"
      by (auto simp: svcTurn_def andThen_Inr)
    then have "lo_Deployed l' = lo_Deployed l \<or> lo_Deployed l' = lo_Deployed l @ [n]"
      by (auto simp: andThen_Inr returnE_def dest: notReady_deployed split: if_splits)
    with False Some that show ?thesis by (auto simp: depsOf_def list_all_iff)
  qed
qed

lemma svcTurn_good:
  "svcTurn k am s n l r = (Inr l', r') \<Longrightarrow> goodLoop s svcs l \<Longrightarrow> n \<in> set svcs \<Longrightarrow> goodLoop s svcs l'"
  by (erule svcTurn_cases) (auto simp: goodLoop_def dependenciesFirst_snoc)

lemma svcRound_good:
  "svcRound k am s ns l r = (Inr l', r') \<Longrightarrow> goodLoop s svcs l \<Longrightarrow> set ns \<subseteq> set svcs \<Longrightarrow> goodLoop s svcs l'"
proof (induction ns arbitrary: l r)
  case (Cons n ns)
  then obtain l1 r1 where 1: "svcTurn k am s n l r = (Inr l1, r1)"
    and 2: "svcRound k am s ns l1 r1 = (Inr l', r')" by (auto simp: andThen_Inr)
  from svcTurn_good [OF 1 Cons.prems(2)] Cons.prems(3) have "goodLoop s svcs l1" by simp
  with Cons.IH [OF 2] Cons.prems(3) show ?case by simp
qed (simp add: returnE_def)

lemma svcRounds_good:
  "svcRounds fuel k am s svcs l r = Some (Inr l', r') \<Longrightarrow> goodLoop s svcs l \<Longrightarrow>
     goodLoop s svcs l' \<and> length (lo_Deployed l') = length svcs"
proof (induction fuel arbitrary: l r)
  case 0
  then show ?case by (auto simp: svcRounds.simps split: if_splits)
next
  case (Suc fuel)
  show ?case
  proof (cases "length (lo_Deployed l) = length svcs")
    case True
    with Suc.prems show ?thesis by (simp add: svcRounds.simps)
  next
    case False
    with Suc.prems(1) obtain l1 r1 where 1: "svcRound k am s svcs l r = (Inr l1, r1)"
      and 2: "svcRounds fuel k am s svcs l1 r1 = Some (Inr l', r')"
      by (auto simp: svcRounds.simps [of "Suc fuel"] split: prod.splits sum.splits)
    from svcRound_good [OF 1 Suc.prems(2)] have "goodLoop s svcs l1" by simp
    with Suc.IH [OF 2] show ?thesis by simp
  qed
qed

lemma goodLoop_start: "goodLoop s svcs startLoop"
  by (simp add: goodLoop_def startLoop_def)

lemma deployServices_good:
  assumes "deployServices fuel tf to k am s svcs r = Some (Inr l, r')"
  shows "goodLoop s svcs l \<and> length (lo_Deployed l) = length svcs"
  using assms
  by (auto simp: deployServices_def split: if_splits dest: svcRounds_good [OF _ goodLoop_start])

lemma goodLoop_all:
  assumes "goodLoop s svcs l" and "length (lo_Deployed l) = length svcs"
  shows "set (lo_Deployed l) = set svcs" and "distinct svcs"
proof -
  have "length svcs \<le> card (set svcs)"
    using assms by (metis card_mono distinct_card goodLoop_def List.finite_set)
  then have c: "card (set svcs) = length svcs" using card_length [of svcs] by simp
  then show "distinct svcs" by (rule card_distinct)
  show "set (lo_Deployed l) = set svcs"
    using assms c by (metis card_subset_eq distinct_card goodLoop_def List.finite_set)
qed

lemma dependenciesFirst_closed:
  assumes "dependenciesFirst s ds" and "n \<in> set ds"
  shows "depsOf s n \<subseteq> set ds"
proof -
  from assms(2) obtain a b where "ds = a @ n # b" by (meson split_list)
  with assms(1) show ?thesis unfolding dependenciesFirst_def by fastforce
qed

section \<open>Lemmas on progress\<close>

text \<open>A cluster that is always ready and accepts every write.\<close>

definition cooperative :: "'c client \<Rightarrow> ambient \<Rightarrow> stack \<Rightarrow> string list \<Rightarrow> bool" where
  "cooperative k am s svcs \<longleftrightarrow>
     (\<forall>n \<in> set svcs. \<exists>svc. gget (sk_Services s) n = Some svc \<and>
        (\<forall>r. \<exists>r'. canSvcBeDeployed k s svc r = (Inr True, r')) \<and>
        (\<forall>r. \<exists>r'. deploySvc k am s n r = (Inr (), r')))"

lemma svcTurn_progress:
  assumes "cooperative k am s svcs" and "n \<in> set svcs"
  obtains l' r' where "svcTurn k am s n l r = (Inr l', r')"
    and "set (lo_Deployed l) \<subseteq> set (lo_Deployed l')"
    and "depsOf s n \<subseteq> set (lo_Deployed l) \<Longrightarrow> n \<in> set (lo_Deployed l')"
proof -
  from assms obtain svc where svc: "gget (sk_Services s) n = Some svc"
    and can: "\<And>r. \<exists>r'. canSvcBeDeployed k s svc r = (Inr True, r')"
    and dep: "\<And>r. \<exists>r'. deploySvc k am s n r = (Inr (), r')"
    unfolding cooperative_def by blast
  show thesis
  proof (cases "n \<in> set (lo_Deployed l) \<or> \<not> list_all (\<lambda>dep. dep \<in> set (lo_Deployed l)) (gkeys (s_DependsOn svc))")
    case True
    with svc show thesis
      by (intro that [of l r]) (auto simp: svcTurn_def returnE_def depsOf_def list_all_iff)
  next
    case False
    obtain r1 where 1: "canSvcBeDeployed k s svc r = (Inr True, r1)" using can by blast
    obtain r2 where 2: "deploySvc k am s n r1 = (Inr (), r2)" using dep by blast
    from False svc 1 2 show thesis
      by (intro that [of "l\<lparr>lo_Deployed := lo_Deployed l @ [n]\<rparr>" r2])
        (auto simp: svcTurn_def andThen_def returnE_def)
  qed
qed

lemma svcRound_progress:
  assumes "cooperative k am s svcs" and "set ns \<subseteq> set svcs"
  shows "\<exists>l' r'. svcRound k am s ns l r = (Inr l', r') \<and> set (lo_Deployed l) \<subseteq> set (lo_Deployed l')
           \<and> (\<forall>n \<in> set ns. depsOf s n \<subseteq> set (lo_Deployed l) \<longrightarrow> n \<in> set (lo_Deployed l'))"
  using assms(2)
proof (induction ns arbitrary: l r)
  case Nil
  then show ?case by (simp add: returnE_def)
next
  case (Cons n ns)
  then have "n \<in> set svcs" by simp
  then obtain l1 r1 where 1: "svcTurn k am s n l r = (Inr l1, r1)"
    and sub: "set (lo_Deployed l) \<subseteq> set (lo_Deployed l1)"
    and n: "depsOf s n \<subseteq> set (lo_Deployed l) \<Longrightarrow> n \<in> set (lo_Deployed l1)"
    using svcTurn_progress [OF assms(1)] by metis
  from Cons.prems have "set ns \<subseteq> set svcs" by simp
  from Cons.IH [OF this, of l1 r1] obtain l2 r2 where 2: "svcRound k am s ns l1 r1 = (Inr l2, r2)"
    and sub2: "set (lo_Deployed l1) \<subseteq> set (lo_Deployed l2)"
    and rest: "\<forall>n \<in> set ns. depsOf s n \<subseteq> set (lo_Deployed l1) \<longrightarrow> n \<in> set (lo_Deployed l2)"
    by blast
  have "svcRound k am s (n # ns) l r = (Inr l2, r2)" using 1 2 by (simp add: andThen_def)
  moreover have "m \<in> set (lo_Deployed l2)"
    if "m \<in> set (n # ns)" "depsOf s m \<subseteq> set (lo_Deployed l)" for m
    using that n rest sub sub2 by (cases "m = n") auto
  ultimately show ?case using sub sub2 by blast
qed

text \<open>While something is left to deploy, some service has all its dependencies deployed.\<close>

lemma dependencyRel_depsOf: "(u, v) \<in> dependencyRel (sk_Services s) \<longleftrightarrow> v \<in> depsOf s u"
  by (auto simp: dependencyRel_def depsOf_def split: option.splits)

lemma some_service_unblocked:
  assumes "acyclic (dependencyRel (sk_Services s))" and "\<forall>n \<in> set svcs. depsOf s n \<subseteq> set svcs"
    and "n0 \<in> set svcs - D"
  shows "\<exists>n \<in> set svcs - D. depsOf s n \<subseteq> D"
proof -
  let ?R = "dependencyRel (sk_Services s) \<inter> (set svcs \<times> set svcs)"
  have "finite ?R" by (rule finite_subset [of _ "set svcs \<times> set svcs"]) auto
  moreover have "acyclic ?R" using assms(1) by (rule acyclic_subset) auto
  ultimately have "wf (?R\<inverse>)" by (rule finite_acyclic_wf_converse)
  then obtain n where n: "n \<in> set svcs - D" and min: "\<And>m. (m, n) \<in> ?R\<inverse> \<Longrightarrow> m \<notin> set svcs - D"
    using assms(3) by (meson wfE_min)
  have "depsOf s n \<subseteq> D"
  proof
    fix d assume d: "d \<in> depsOf s n"
    with n assms(2) have "d \<in> set svcs" by auto
    with d n have "(d, n) \<in> ?R\<inverse>" by (simp add: dependencyRel_depsOf)
    with min \<open>d \<in> set svcs\<close> show "d \<in> D" by blast
  qed
  with n show ?thesis by blast
qed

lemma svcRounds_progress:
  assumes "cooperative k am s svcs" and "acyclic (dependencyRel (sk_Services s))"
    and "\<forall>n \<in> set svcs. depsOf s n \<subseteq> set svcs" and "distinct svcs"
    and "goodLoop s svcs l" and "length svcs \<le> length (lo_Deployed l) + fuel"
  shows "\<exists>l' r'. svcRounds fuel k am s svcs l r = Some (Inr l', r')"
  using assms(5,6)
proof (induction fuel arbitrary: l r)
  case 0
  then have "length (lo_Deployed l) = length svcs"
    by (metis add_0_right assms(4) card_mono distinct_card goodLoop_def le_antisym List.finite_set)
  then show ?case by (simp add: svcRounds.simps)
next
  case (Suc fuel)
  show ?case
  proof (cases "length (lo_Deployed l) = length svcs")
    case True
    then show ?thesis by (simp add: svcRounds.simps)
  next
    case False
    obtain l1 r1 where 1: "svcRound k am s svcs l r = (Inr l1, r1)"
      and sub: "set (lo_Deployed l) \<subseteq> set (lo_Deployed l1)"
      and dep: "\<forall>n \<in> set svcs. depsOf s n \<subseteq> set (lo_Deployed l) \<longrightarrow> n \<in> set (lo_Deployed l1)"
      using svcRound_progress [OF assms(1), of svcs l r] by auto
    from svcRound_good [OF 1 Suc.prems(1)] have good1: "goodLoop s svcs l1" by simp
    have "set (lo_Deployed l) \<noteq> set svcs"
      using False assms(4) Suc.prems(1) by (metis distinct_card goodLoop_def)
    then obtain n0 where "n0 \<in> set svcs - set (lo_Deployed l)"
      using Suc.prems(1) by (auto simp: goodLoop_def)
    from some_service_unblocked [OF assms(2,3) this] dep
    have "set (lo_Deployed l) \<subset> set (lo_Deployed l1)" using sub by blast
    then have "length (lo_Deployed l) < length (lo_Deployed l1)"
      using good1 Suc.prems(1) by (metis distinct_card goodLoop_def List.finite_set psubset_card_mono)
    with Suc.IH [OF good1, of r1] Suc.prems(2) 1 False show ?thesis
      by (simp add: svcRounds.simps [of "Suc fuel"])
  qed
qed


section \<open>Lemmas on the closure under dependencies\<close>

text \<open>A cluster that does not change while it is asked which services run.\<close>

definition steady :: "'c client \<Rightarrow> stack \<Rightarrow> (string \<Rightarrow> bool) \<Rightarrow> bool" where
  "steady k s up \<longleftrightarrow>
     (\<forall>n svc r. gget (sk_Services s) n = Some svc \<longrightarrow> isSvcRunning k svc (sk_Namespace s) n r = (Inr (up n), r))"

text \<open>The dependencies that have to be deployed as well: those not running.\<close>

definition missingDeps :: "stack \<Rightarrow> (string \<Rightarrow> bool) \<Rightarrow> (string \<times> string) set" where
  "missingDeps s up = {(u, v). v \<in> depsOf s u \<and> \<not> up v}"

definition depsDefined :: "stack \<Rightarrow> bool" where
  "depsDefined s \<longleftrightarrow> (\<forall>n svc. gget (sk_Services s) n = Some svc \<longrightarrow>
     (\<forall>d \<in> set (gkeys (s_DependsOn svc)). gget (sk_Services s) d \<noteq> None))"

lemma addDepsOf_steady:
  assumes "steady k s up" and "\<forall>d \<in> set deps. gget (sk_Services s) d \<noteq> None"
  shows "\<exists>svcs'. addDepsOf k s deps svcs r = (Inr svcs', r)
           \<and> set svcs' = set svcs \<union> {d \<in> set deps. \<not> up d}"
  using assms(2)
proof (induction deps arbitrary: svcs)
  case Nil
  then show ?case by (simp add: returnE_def)
next
  case (Cons d deps)
  then obtain svc where svc: "gget (sk_Services s) d = Some svc" by auto
  show ?case
  proof (cases "d \<in> set svcs")
    case True
    with Cons show ?thesis by fastforce
  next
    case False
    obtain svcs' where "addDepsOf k s deps (if \<not> up d then svcs @ [d] else svcs) r = (Inr svcs', r)"
      and "set svcs' = set (if \<not> up d then svcs @ [d] else svcs) \<union> {d \<in> set deps. \<not> up d}"
      using Cons by fastforce
    with False svc assms(1) show ?thesis
      by (intro exI [of _ svcs']) (auto simp: andThen_def steady_def)
  qed
qed

lemma addDepsPass_steady:
  assumes "steady k s up" and "depsDefined s" and "\<forall>n \<in> set ns. gget (sk_Services s) n \<noteq> None"
  shows "\<exists>svcs'. addDepsPass k s ns svcs r = (Inr svcs', r)
           \<and> set svcs' = set svcs \<union> missingDeps s up `` set ns"
  using assms(3)
proof (induction ns arbitrary: svcs)
  case Nil
  then show ?case by (simp add: returnE_def)
next
  case (Cons n ns)
  then obtain svc where svc: "gget (sk_Services s) n = Some svc" by auto
  with assms(2) have "\<forall>d \<in> set (gkeys (s_DependsOn svc)). gget (sk_Services s) d \<noteq> None"
    by (auto simp: depsDefined_def)
  from addDepsOf_steady [OF assms(1) this, of svcs r] obtain svcs1 where
    1: "addDepsOf k s (gkeys (s_DependsOn svc)) svcs r = (Inr svcs1, r)"
    and s1: "set svcs1 = set svcs \<union> {d \<in> set (gkeys (s_DependsOn svc)). \<not> up d}" by blast
  from Cons obtain svcs2 where 2: "addDepsPass k s ns svcs1 r = (Inr svcs2, r)"
    and s2: "set svcs2 = set svcs1 \<union> missingDeps s up `` set ns" by fastforce
  have "missingDeps s up `` {n} = {d \<in> set (gkeys (s_DependsOn svc)). \<not> up d}"
    using svc by (auto simp: missingDeps_def depsOf_def)
  then have "set svcs2 = set svcs \<union> missingDeps s up `` set (n # ns)"
    using s1 s2 by auto
  with 1 2 svc show ?case by (simp add: andThen_def)
qed

lemma addDependentServices_steady:
  assumes "steady k s up" and "depsDefined s" and "\<forall>n \<in> set svcs. gget (sk_Services s) n \<noteq> None"
  shows "\<exists>svcs'. addDependentServices k s svcs r = (Inr svcs', r)
           \<and> set svcs' = (missingDeps s up)\<^sup>* `` set svcs"
  using assms(3)
proof (induction "card (set (gkeys (sk_Services s)) - set svcs)" arbitrary: svcs rule: less_induct)
  case less
  obtain svcs1 where 1: "addDepsPass k s svcs svcs r = (Inr svcs1, r)"
    and s1: "set svcs1 = set svcs \<union> missingDeps s up `` set svcs"
    using addDepsPass_steady [OF assms(1,2) less.prems, of svcs r] by blast
  obtain ys where ys: "svcs1 = svcs @ ys" "set ys \<inter> set svcs = {}" "set ys \<subseteq> set (gkeys (sk_Services s))"
    using addDepsPass_grows [OF 1] by blast
  show ?case
  proof (cases "ys = []")
    case True
    with s1 ys(1) have closed: "missingDeps s up `` set svcs \<subseteq> set svcs" by auto
    then have "(missingDeps s up)\<^sup>* `` set svcs = set svcs"
      by (simp add: Image_closed_trancl)
    with 1 True ys(1) show ?thesis by (simp add: addDependentServices.simps)
  next
    case False
    then obtain y where "y \<in> set ys" by (cases ys) auto
    with ys have "set (gkeys (sk_Services s)) - set svcs1 \<subset> set (gkeys (sk_Services s)) - set svcs" by auto
    then have "card (set (gkeys (sk_Services s)) - set svcs1) < card (set (gkeys (sk_Services s)) - set svcs)"
      by (simp add: psubset_card_mono)
    moreover have "\<forall>n \<in> set svcs1. gget (sk_Services s) n \<noteq> None"
      using less.prems ys by (auto simp: gkeys_iff subset_iff)
    ultimately obtain svcs2 where 2: "addDependentServices k s svcs1 r = (Inr svcs2, r)"
      and s2: "set svcs2 = (missingDeps s up)\<^sup>* `` set svcs1" using less.hyps by blast
    have "(missingDeps s up)\<^sup>* `` set svcs1 = (missingDeps s up)\<^sup>* `` set svcs"
      unfolding s1 by (auto intro: converse_rtrancl_into_rtrancl)
    with 1 2 s2 False ys(1) show ?thesis by (simp add: addDependentServices.simps [of k s svcs])
  qed
qed

section \<open>Lemmas on name collisions\<close>

text \<open>An existing object that belongs to nobody or to another compose.\<close>

definition foreign :: "stack \<Rightarrow> objectMeta \<Rightarrow> bool" where
  "foreign s old \<longleftrightarrow> om_Name old \<noteq> [] \<and>
     gstr (om_Labels old) StackNameLabel \<notin> {ResourceK8sMetaString (sk_Name s), OldOktetoName} - {[]}"

lemma contains_append: "contains (sub @ x) sub" "contains s sub \<Longrightarrow> contains (s @ x) sub"
  by (auto simp: contains_def sublist_def) (metis append.assoc)

lemma collision_foreign:
  "foreign s old \<Longrightarrow> \<exists>msg. collision kind holder n s old = Some (''skipping '' @ msg)"
  by (cases "gstr (om_Labels old) StackNameLabel = []") (auto simp: foreign_def collision_def Let_def)

lemma deployDeployment_foreign:
  assumes "translateDeployment am n s = Some d"
    and "k_GetDeployment k (sk_Namespace s) n (ru_Cluster r) = (Inr (old, ready), c)" and "foreign s old"
  shows "\<exists>msg. deployDeployment k am n s r = (Inl (Err (''skipping '' @ msg)), r\<lparr>ru_Cluster := c\<rparr>)"
proof -
  obtain msg where "collision ''deployment'' ''compose'' n s old = Some (''skipping '' @ msg)"
    using collision_foreign [OF assms(3)] by blast
  with assms show ?thesis
    by (simp add: deployDeployment_def andThen_def ask_def failE_def foreign_def)
qed

lemma deployStatefulSet_foreign:
  assumes "translateStatefulSet am n s = Some d"
    and "k_GetStatefulSet k (sk_Namespace s) n (ru_Cluster r) = (Inr (old, ready), c)" and "foreign s old"
  shows "\<exists>msg. deployStatefulSet k am n s r = (Inl (Err (''skipping '' @ msg)), r\<lparr>ru_Cluster := c\<rparr>)"
proof -
  obtain msg where "collision ''statefulset'' ''compose'' n s old = Some (''skipping '' @ msg)"
    using collision_foreign [OF assms(3)] by blast
  with assms show ?thesis
    by (simp add: deployStatefulSet_def Let_def andThen_def ask_def failE_def foreign_def)
qed

lemma deployJob_foreign:
  assumes "translateJob am n s = Some d"
    and "k_GetJob k (sk_Namespace s) n (ru_Cluster r) = (Inr (old, st), c)" and "foreign s old"
  shows "\<exists>msg. deployJob k am n s r = (Inl (Err (''skipping '' @ msg)), r\<lparr>ru_Cluster := c\<rparr>)"
proof -
  obtain msg where "collision ''job'' ''stack'' n s old = Some (''skipping '' @ msg)"
    using collision_foreign [OF assms(3)] by blast
  with assms show ?thesis
    by (simp add: deployJob_def Let_def andThen_def ask_def failE_def foreign_def)
qed

text \<open>What the cluster answers for the object of a service, and whether the service can be translated.\<close>

definition existing :: "'c client \<Rightarrow> stack \<Rightarrow> string \<Rightarrow> service \<Rightarrow> 'c \<Rightarrow> (string + objectMeta) \<times> 'c" where
  "existing k s n svc c =
     (if IsJob svc then apfst (map_sum id fst) (k_GetJob k (sk_Namespace s) n c)
      else if s_Volumes svc = [] then apfst (map_sum id fst) (k_GetDeployment k (sk_Namespace s) n c)
      else apfst (map_sum id fst) (k_GetStatefulSet k (sk_Namespace s) n c))"

definition translatable :: "ambient \<Rightarrow> stack \<Rightarrow> string \<Rightarrow> service \<Rightarrow> bool" where
  "translatable am s n svc \<longleftrightarrow>
     (if IsJob svc then translateJob am n s \<noteq> None
      else if s_Volumes svc = [] then translateDeployment am n s \<noteq> None
      else translateStatefulSet am n s \<noteq> None)"

lemma existing_Inr:
  "apfst (map_sum id fst) x = (Inr old, c) \<longleftrightarrow> (\<exists>st. x = (Inr (old, st), c))"
  by (cases x; cases "fst x") auto

lemma deploySvc_foreign:
  assumes svc: "gget (sk_Services s) n = Some svc" and tr: "translatable am s n svc"
    and old: "existing k s n svc (ru_Cluster r) = (Inr old, c)" and f: "foreign s old"
  shows "deploySvc k am s n r = (Inr (), r\<lparr>ru_Cluster := c\<rparr>)"
proof -
  let ?run = "if IsJob svc then deployJob k am n s r
              else if s_Volumes svc = [] then deployDeployment k am n s r
              else deployStatefulSet k am n s r"
  have "\<exists>msg. ?run = (Inl (Err (''skipping '' @ msg)), r\<lparr>ru_Cluster := c\<rparr>)"
  proof (cases "IsJob svc")
    case True
    with tr old f show ?thesis
      using deployJob_foreign [of am n s _ k r old] by (auto simp: translatable_def existing_def existing_Inr)
  next
    case False
    with tr old f show ?thesis
      using deployDeployment_foreign [of am n s _ k r old] deployStatefulSet_foreign [of am n s _ k r old]
      by (cases "s_Volumes svc = []") (auto simp: translatable_def existing_def existing_Inr)
  qed
  then obtain msg where "?run = (Inl (Err (''skipping '' @ msg)), r\<lparr>ru_Cluster := c\<rparr>)" ..
  moreover have "contains (''skipping '' @ msg) ''skipping ''" by (rule contains_append)
  ultimately show ?thesis using svc by (simp add: deploySvc_def)
qed

text \<open>Every write a service causes goes to the object of that name in the namespace of the compose.\<close>

fun callTarget :: "apiCall \<Rightarrow> string \<times> string" where
  "callTarget (CreateDeployment d) = (om_Namespace (d_Meta d), om_Name (d_Meta d))"
| "callTarget (UpdateDeployment d) = (om_Namespace (d_Meta d), om_Name (d_Meta d))"
| "callTarget (DeleteDeployment ns n) = (ns, n)"
| "callTarget (CreateStatefulSet f) = (om_Namespace (sfs_Meta f), om_Name (sfs_Meta f))"
| "callTarget (UpdateStatefulSet f) = (om_Namespace (sfs_Meta f), om_Name (sfs_Meta f))"
| "callTarget (DeleteStatefulSet ns n) = (ns, n)"
| "callTarget (CreateJob j) = (om_Namespace (j_Meta j), om_Name (j_Meta j))"
| "callTarget (DeleteJob ns n) = (ns, n)"
| "callTarget (CreateService k) = (om_Namespace (ks_Meta k), om_Name (ks_Meta k))"
| "callTarget (UpdateService k) = (om_Namespace (ks_Meta k), om_Name (ks_Meta k))"
| "callTarget (DeleteService ns n) = (ns, n)"
| "callTarget (CreatePVC p) = (om_Namespace (pvc_Meta p), om_Name (pvc_Meta p))"
| "callTarget (UpdatePVC p) = (om_Namespace (pvc_Meta p), om_Name (pvc_Meta p))"
| "callTarget (CreateConfigMap ns c) = (ns, cm_Name c)"
| "callTarget (UpdateConfigMap ns c) = (ns, cm_Name c)"

text \<open>The run after is the run before with more writes, all of them to the target.\<close>

definition writesOnly :: "string \<times> string \<Rightarrow> 'c run \<Rightarrow> 'c run \<Rightarrow> bool" where
  "writesOnly t r r' \<longleftrightarrow> (\<exists>ws. ru_Writes r' = ru_Writes r @ ws \<and> (\<forall>w \<in> set ws. callTarget w = t))"

named_theorems writes_only \<open>actions that write to one target\<close>

lemma writesOnly_refl: "writesOnly t r r"
  by (simp add: writesOnly_def)

lemma writesOnly_trans: "writesOnly t r r' \<Longrightarrow> writesOnly t r' r'' \<Longrightarrow> writesOnly t r r''"
  by (force simp: writesOnly_def)

lemma writesOnly_return [writes_only]: "writesOnly t r (snd (returnE a r))" "writesOnly t r (snd (failE e r))"
  by (simp_all add: returnE_def failE_def writesOnly_refl)

lemma writesOnly_ask [writes_only]: "writesOnly t r (snd (ask f r))"
  by (simp add: ask_def writesOnly_def split: prod.split)

lemma writesOnly_write [writes_only]: "callTarget w = t \<Longrightarrow> writesOnly t r (snd (apiWrite k w r))"
  by (simp add: apiWrite_def writesOnly_def split: prod.split)

lemma writesOnly_andThen [writes_only]:
  assumes "writesOnly t r (snd (m r))" and "\<And>a r'. writesOnly t r' (snd (f a r'))"
  shows "writesOnly t r (snd (andThen m f r))"
proof (cases "m r")
  case (Pair x r1)
  with assms writesOnly_trans [of t r r1] show ?thesis
    by (cases x) (auto simp: andThen_def)
qed

lemma writesOnly_wrap [writes_only]: "writesOnly t r (snd (wrap msg e r))"
  by (cases e) (simp_all add: wrap_def writes_only)

lemma writesOnly_deploymentsDeploy [writes_only]:
  "(om_Namespace (d_Meta d), om_Name (d_Meta d)) = t \<Longrightarrow> writesOnly t r (snd (deploymentsDeploy k d r))"
  by (auto simp: deploymentsDeploy_def intro!: writes_only split: option.split)

lemma writesOnly_deploymentsDestroy [writes_only]:
  "(ns, n) = t \<Longrightarrow> writesOnly t r (snd (deploymentsDestroy k n ns r))"
  by (auto simp: deploymentsDestroy_def intro!: writes_only split: option.split)

lemma writesOnly_statefulsetsDeploy [writes_only]:
  "(om_Namespace (sfs_Meta f), om_Name (sfs_Meta f)) = t \<Longrightarrow> writesOnly t r (snd (statefulsetsDeploy k f r))"
  by (auto simp: statefulsetsDeploy_def intro!: writes_only split: option.split)

lemma writesOnly_statefulsetsDestroy [writes_only]:
  "(ns, n) = t \<Longrightarrow> writesOnly t r (snd (statefulsetsDestroy k n ns r))"
  by (auto simp: statefulsetsDestroy_def intro!: writes_only split: option.split)

lemma writesOnly_jobsUpdate [writes_only]:
  "(om_Namespace (j_Meta j), om_Name (j_Meta j)) = t \<Longrightarrow> writesOnly t r (snd (jobsUpdate k j r))"
  by (auto simp: jobsUpdate_def jobsDestroy_def intro!: writes_only split: option.split)

lemma inheritDeployedBy_simps [simp]:
  "om_Name (inheritDeployedBy s old new) = om_Name new"
  "om_Namespace (inheritDeployedBy s old new) = om_Namespace new"
  by (simp_all add: inheritDeployedBy_def split: option.split)

lemma translate_targets:
  "translateDeployment am n s = Some d \<Longrightarrow> om_Name (d_Meta d) = n \<and> om_Namespace (d_Meta d) = sk_Namespace s"
  "translateStatefulSet am n s = Some f \<Longrightarrow> om_Name (sfs_Meta f) = n \<and> om_Namespace (sfs_Meta f) = sk_Namespace s"
  "translateJob am n s = Some j \<Longrightarrow> om_Name (j_Meta j) = n \<and> om_Namespace (j_Meta j) = sk_Namespace s"
  by (cases "gget (sk_Services s) n"; force simp: translateDeployment_def translateStatefulSet_def
      translateJob_def metaOf_def Let_def split: option.splits)+

text \<open>The cluster answers a question about an object with that object.\<close>

definition honest :: "'c client \<Rightarrow> bool" where
  "honest k \<longleftrightarrow> (\<forall>ns n c old ready c'. k_GetDeployment k ns n c = (Inr (old, ready), c') \<longrightarrow>
     om_Name old = n \<and> om_Namespace old = ns)"

lemma writesOnly_askThen:
  assumes "\<And>x c r'. f (ru_Cluster r) = (x, c) \<Longrightarrow> writesOnly t r' (snd (g x r'))"
  shows "writesOnly t r (snd (andThen (ask f) g r))"
proof (cases "f (ru_Cluster r)")
  case (Pair x c)
  have "writesOnly t r (r\<lparr>ru_Cluster := c\<rparr>)" by (simp add: writesOnly_def)
  with Pair assms [of x c "r\<lparr>ru_Cluster := c\<rparr>"] writesOnly_trans show ?thesis
    by (fastforce simp: andThen_def ask_def)
qed

lemma writesOnly_deployDeployment:
  assumes "honest k"
  shows "writesOnly (sk_Namespace s, n) r (snd (deployDeployment k am n s r))"
proof (cases "translateDeployment am n s")
  case None
  then show ?thesis by (simp add: deployDeployment_def writes_only)
next
  case (Some d)
  note target = translate_targets(1) [OF Some]
  show ?thesis
    unfolding deployDeployment_def Some option.case
  proof (rule writesOnly_askThen, goal_cases)
    case (1 x c r')
    show ?case
    proof (cases x)
      case (Inl e)
      with target show ?thesis by (auto intro!: writes_only)
    next
      case (Inr y)
      obtain old ready where y: "y = (old, ready)" by (cases y)
      with 1 Inr assms have "om_Name old = n \<and> om_Namespace old = sk_Namespace s"
        unfolding honest_def by blast
      with target Inr y show ?thesis
        by (cases "collision ''deployment'' ''compose'' n s old") (auto simp: Let_def intro!: writes_only)
    qed
  qed
qed

lemma writesOnly_deployStatefulSet: "writesOnly (sk_Namespace s, n) r (snd (deployStatefulSet k am n s r))"
proof (cases "translateStatefulSet am n s")
  case None
  then show ?thesis by (simp add: deployStatefulSet_def writes_only)
next
  case (Some f)
  note target = translate_targets(2) [OF Some]
  show ?thesis
    unfolding deployStatefulSet_def Some option.case Let_def
  proof (rule writesOnly_askThen, goal_cases)
    case (1 x c r')
    with target show ?case
      by (cases x) (auto intro!: writes_only split: option.split)
  qed
qed

lemma writesOnly_deployJob: "writesOnly (sk_Namespace s, n) r (snd (deployJob k am n s r))"
proof (cases "translateJob am n s")
  case None
  then show ?thesis by (simp add: deployJob_def writes_only)
next
  case (Some j)
  note target = translate_targets(3) [OF Some]
  show ?thesis
    unfolding deployJob_def Some option.case Let_def
  proof (rule writesOnly_askThen, goal_cases)
    case (1 x c r')
    with target show ?case
      by (cases x) (auto intro!: writes_only split: option.split)
  qed
qed

lemma writesOnly_deploySvc:
  assumes "honest k"
  shows "writesOnly (sk_Namespace s, n) r (snd (deploySvc k am s n r))"
proof -
  have "writesOnly t r (snd (case x of (Inr isNew, r) \<Rightarrow> (Inr (), r)
           | (Inl (Err msg), r) \<Rightarrow> if contains msg ''skipping '' then (Inr (), r) else (Inl (Err msg), r)
           | (Inl Panic, r) \<Rightarrow> (Inl Panic, r)))"
    if "writesOnly t r (snd x)" for t and x :: "(derr + bool) \<times> 'a run"
    using that by (cases x; cases "fst x"; cases "projl (fst x)") auto
  then show ?thesis
    using writesOnly_deployDeployment [OF assms, of s n r am] writesOnly_deployStatefulSet [of s n r k am]
      writesOnly_deployJob [of s n r k am]
    by (auto simp: deploySvc_def writesOnly_refl split: option.split)
qed
section \<open>Properties\<close>

text \<open>A cluster with no objects that accepts every write, and a compose of a web server and a job.\<close>

definition readyClient :: "unit client" where
  "readyClient =
     \<lparr>k_GetService = (\<lambda>ns n c. (Inl ''not found'', c)),
      k_GetDeployment = (\<lambda>ns n c. (Inl ''not found'', c)),
      k_GetStatefulSet = (\<lambda>ns n c. (Inl ''not found'', c)),
      k_GetJob = (\<lambda>ns n c. (Inr (newMeta n ns [(StackNameLabel, ''voting-app'')] [],
         \<lparr>js_Active = 0, js_Succeeded = 1, js_Failed = 0, js_Completions = 1, js_BackoffLimit = 3\<rparr>), c)),
      k_GetPVC = (\<lambda>ns n c. (Inl ''not found'', c)),
      k_GetConfigMap = (\<lambda>ns n c. (Inl ''not found'', c)),
      k_GetPod = (\<lambda>ns m c. (Inl ''not found'', c)),
      k_ListPods = (\<lambda>ns m c. (Inr [], c)),
      k_HealthcheckFailure = (\<lambda>ns n st h c. (None, c)),
      k_PortAvailable = (\<lambda>ns n ps c. (False, c)),
      k_Write = (\<lambda>w c. (None, c))\<rparr>"




lemma readyClient_cooperative: "cooperative readyClient quietAmbient exampleStack [''migrate'']"
proof -
  have svc: "gget (sk_Services exampleStack) ''migrate''
      = Some (emptyService\<lparr>s_RestartPolicy := ''Never'', s_Image := ''flyway''\<rparr>)"
    by (simp add: exampleStack_def exampleServices_def gget_Cons)
  have can: "canSvcBeDeployed readyClient exampleStack (emptyService\<lparr>s_RestartPolicy := ''Never'', s_Image := ''flyway''\<rparr>) r
      = (Inr True, r)" for r
    by (simp add: canSvcBeDeployed_def emptyService_def returnE_def)
  have job: "IsJob (emptyService\<lparr>s_RestartPolicy := ''Never'', s_Image := ''flyway''\<rparr>)"
    by (simp add: IsJob_def go_consts)
  obtain j where j: "translateJob quietAmbient ''migrate'' exampleStack = Some j"
    using svc by (simp add: translateJob_def getSvcHealthProbe_def emptyService_def)
  have mine: "collision ''job'' ''stack'' ''migrate'' exampleStack
      (newMeta ''migrate'' (sk_Namespace exampleStack) [(StackNameLabel, ''voting-app'')] []) = None"
    by code_simp
  have "\<exists>r'. deploySvc readyClient quietAmbient exampleStack ''migrate'' r = (Inr (), r')" for r
    using svc job j mine
    by (simp add: deploySvc_def deployJob_def Let_def readyClient_def andThen_def ask_def jobsUpdate_def
        jobsDestroy_def apiWrite_def returnE_def wrap_def)
  with svc can show ?thesis by (auto simp: cooperative_def)
qed


text \<open>A dependency outside the services to deploy blocks the loop for good: whatever the cluster does
  and however many rounds are run, the loop never ends with success. (\<open>addDependentServices\<close> leaves
  a dependency out exactly when it is running already.)\<close>

theorem dependency_outside_blocks:
  assumes "n \<in> set svcs" and "d \<in> depsOf s n" and "d \<notin> set svcs"
  shows "deployServices fuel tf to k am s svcs r \<noteq> Some (Inr l, r')"
proof
  assume "deployServices fuel tf to k am s svcs r = Some (Inr l, r')"
  note good = deployServices_good [OF this]
  then have eq: "set (lo_Deployed l) = set svcs" using goodLoop_all by blast
  have "depsOf s n \<subseteq> set (lo_Deployed l)"
    using good assms(1) eq by (intro dependenciesFirst_closed) (auto simp: goodLoop_def)
  with assms eq show False by auto
qed

theorem dependency_outside_blocks_witness:
  "\<forall>fuel r l r'. deployServices fuel False [] readyClient quietAmbient exampleStack [''web''] r \<noteq> Some (Inr l, r')"
proof -
  have "''migrate'' \<in> depsOf exampleStack ''web''" by code_simp
  then show ?thesis by (intro allI dependency_outside_blocks [of "''web''" _ "''migrate''"]) simp_all
qed

text \<open>C3. The services that are deployed together: on a cluster that does not change meanwhile, the requested
  services are completed with exactly those that can be reached over dependencies that are not
  running, and the completion always ends.\<close>

theorem dependencies_completed:
  assumes "steady k s up" and "depsDefined s" and "\<forall>n \<in> set svcs. gget (sk_Services s) n \<noteq> None"
  shows "\<exists>svcs'. AddDependentServicesIfNotPresent k s svcs r = (Inr svcs', r)
           \<and> set svcs' = (missingDeps s up)\<^sup>* `` set svcs"
  using addDependentServices_steady [OF assms] by (simp add: AddDependentServicesIfNotPresent_def)

text \<open>In the example the job has completed, so it is left out, and the loop is blocked as above.\<close>

theorem dependencies_completed_witness:
  "\<exists>svcs'. AddDependentServicesIfNotPresent readyClient exampleStack [''web''] \<lparr>ru_Cluster = (), ru_Writes = []\<rparr>
      = (Inr svcs', \<lparr>ru_Cluster = (), ru_Writes = []\<rparr>) \<and> ''migrate'' \<notin> set svcs'"
proof -
  let ?up = "\<lambda>n. n = ''migrate''"
  have svcs: "gget (sk_Services exampleStack) n = Some svc \<Longrightarrow>
      n = ''web'' \<and> IsDeployment svc \<and> gkeys (s_DependsOn svc) = [''migrate'']
      \<or> n = ''migrate'' \<and> \<not> IsDeployment svc \<and> \<not> IsStatefulset svc \<and> IsJob svc \<and> gkeys (s_DependsOn svc) = []" for n svc
    by (auto simp: exampleStack_def exampleServices_def gget_Cons IsDeployment_def IsStatefulset_def IsJob_def
        emptyService_def gkeys_def go_consts split: if_splits)
  have "steady readyClient exampleStack ?up"
    unfolding steady_def
    by (auto dest!: svcs simp: isSvcRunning_def deploymentsIsRunning_def jobsIsRunning_def readyClient_def
        andThen_def ask_def returnE_def)
  moreover have "gget (sk_Services exampleStack) ''web'' \<noteq> None" "gget (sk_Services exampleStack) ''migrate'' \<noteq> None"
    by (simp_all add: exampleStack_def exampleServices_def gget_Cons)
  moreover from this have "depsDefined exampleStack" unfolding depsDefined_def using svcs by fastforce
  ultimately obtain svcs' where r: "AddDependentServicesIfNotPresent readyClient exampleStack [''web'']
      \<lparr>ru_Cluster = (), ru_Writes = []\<rparr> = (Inr svcs', \<lparr>ru_Cluster = (), ru_Writes = []\<rparr>)"
    and eq: "set svcs' = (missingDeps exampleStack ?up)\<^sup>* `` set [''web'']"
    using dependencies_completed [of readyClient exampleStack ?up "[''web'']"] by auto
  have "(''web'', ''migrate'') \<notin> (missingDeps exampleStack ?up)\<^sup>*"
  proof
    assume "(''web'', ''migrate'') \<in> (missingDeps exampleStack ?up)\<^sup>*"
    then show False by (cases rule: rtrancl.cases) (simp_all add: missingDeps_def)
  qed
  then have "''migrate'' \<notin> set svcs'" by (simp add: eq)
  with r show ?thesis by blast
qed

text \<open>Name collisions are harmless: when the object a service would write exists already and belongs to
  nobody or to another compose, the service is skipped without an error and without any write.\<close>

theorem collision_is_skipped:
  assumes "gget (sk_Services s) n = Some svc" and "translatable am s n svc"
    and "existing k s n svc (ru_Cluster r) = (Inr old, c)" and "foreign s old"
  shows "fst (deploySvc k am s n r) = Inr () \<and> ru_Writes (snd (deploySvc k am s n r)) = ru_Writes r"
  using deploySvc_foreign [OF assms] by simp

definition occupiedClient :: "unit client" where
  "occupiedClient = readyClient\<lparr>k_GetDeployment := (\<lambda>ns n c. (Inr (newMeta n ns [] [], 1), c))\<rparr>"

theorem collision_is_skipped_witness:
  "ru_Writes (snd (deploySvc occupiedClient quietAmbient exampleStack ''web'' \<lparr>ru_Cluster = (), ru_Writes = []\<rparr>)) = []"
proof -
  let ?svc = "snd (hd exampleServices)"
  have svc: "gget (sk_Services exampleStack) ''web'' = Some ?svc"
    by (simp add: exampleStack_def exampleServices_def gget_Cons)
  have kind: "\<not> IsJob ?svc" "s_Volumes ?svc = []"
    by (simp_all add: exampleServices_def emptyService_def IsJob_def go_consts)
  have "translatable quietAmbient exampleStack ''web'' ?svc"
    using svc kind by (simp add: translatable_def translateDeployment_def getSvcHealthProbe_def
        exampleServices_def emptyService_def)
  moreover have "existing occupiedClient exampleStack ''web'' ?svc ()
      = (Inr (newMeta ''web'' (sk_Namespace exampleStack) [] []), ())"
    using kind by (simp add: existing_def occupiedClient_def)
  moreover have "foreign exampleStack (newMeta ''web'' (sk_Namespace exampleStack) [] [])"
    by (simp add: foreign_def gstr_def)
  ultimately show ?thesis
    using collision_is_skipped [OF svc, of quietAmbient occupiedClient "\<lparr>ru_Cluster = (), ru_Writes = []\<rparr>"] by simp
qed

text \<open>A service only writes its own object: every write that deploying a service issues, on any path and
  with any cluster, is to the object of that name in the namespace of the compose.\<close>

theorem service_writes_own_object:
  assumes "honest k"
  shows "\<exists>ws. ru_Writes (snd (deploySvc k am s n r)) = ru_Writes r @ ws
           \<and> (\<forall>w \<in> set ws. callTarget w = (sk_Namespace s, n))"
  using writesOnly_deploySvc [OF assms] by (simp add: writesOnly_def)

theorem service_writes_own_object_witness:
  "list_all (\<lambda>w. callTarget w = ([], ''web''))
     (ru_Writes (snd (deploySvc readyClient quietAmbient exampleStack ''web'' \<lparr>ru_Cluster = (), ru_Writes = []\<rparr>)))"
proof -
  have "honest readyClient" by (simp add: honest_def readyClient_def)
  from service_writes_own_object [OF this, of quietAmbient exampleStack "''web''" "\<lparr>ru_Cluster = (), ru_Writes = []\<rparr>"]
  show ?thesis by (auto simp: list_all_iff exampleStack_def emptyStack_def)
qed

text \<open>The volumes and endpoints of a deployment are exactly those of its services: a top level volume
  that one of them mounts, an endpoint with a rule for one of them; each one once.\<close>

theorem volumes_and_endpoints_exact:
  "distinct (getVolumesToDeployFromServicesToDeploy s svcs) \<and>
   set (getVolumesToDeployFromServicesToDeploy s svcs) =
     {v. gget (sk_Volumes s) v \<noteq> None \<and>
         (\<exists>n svc m. (n, svc) \<in> set (sk_Services s) \<and> n \<in> set svcs \<and> m \<in> set (s_Volumes svc) \<and> vo_LocalPath m = v)} \<and>
   distinct (getEndpointsToDeployFromServicesToDeploy (sk_Endpoints s) svcs) \<and>
   set (getEndpointsToDeployFromServicesToDeploy (sk_Endpoints s) svcs) =
     {n. \<exists>e rule. (n, e) \<in> set (sk_Endpoints s) \<and> rule \<in> set (en_Rules e) \<and> er_Service rule \<in> set svcs}"
proof -
  have "set (getVolumesToDeployFromServicesToDeploy s svcs) =
     {v. gget (sk_Volumes s) v \<noteq> None \<and>
         (\<exists>n svc m. (n, svc) \<in> set (sk_Services s) \<and> n \<in> set svcs \<and> m \<in> set (s_Volumes svc) \<and> vo_LocalPath m = v)}"
    by (auto simp: getVolumesToDeployFromServicesToDeploy_def split: if_splits)
  moreover have "set (getEndpointsToDeployFromServicesToDeploy (sk_Endpoints s) svcs) =
     {n. \<exists>e rule. (n, e) \<in> set (sk_Endpoints s) \<and> rule \<in> set (en_Rules e) \<and> er_Service rule \<in> set svcs}"
    by (force simp: getEndpointsToDeployFromServicesToDeploy_def list_ex_iff)
  ultimately show ?thesis
    by (simp add: getVolumesToDeployFromServicesToDeploy_def getEndpointsToDeployFromServicesToDeploy_def)
qed

text \<open>HTTP routes are used only with a gateway: the choice is true exactly when the cluster has a
  complete gateway and neither variable asks for an ingress (the default only counts when the feature
  flag asks for nothing), the gateway it returns is the cluster's, and a gateway that is asked for
  and missing is an error.\<close>

theorem http_route_choice:
  "(ShouldUseHTTPRoute w g = Inr (True, m) \<longleftrightarrow>
      g = Some m \<and> fst m \<noteq> [] \<and> snd m \<noteq> [] \<and>
      getenv w oktetoComposeEndpointsTypeEnvVar \<noteq> ''ingress'' \<and>
      (getenv w oktetoDefaultGatewayTypeEnvVar = ''ingress'' \<longrightarrow>
         getenv w oktetoComposeEndpointsTypeEnvVar = ''gateway'')) \<and>
   (getenv w oktetoComposeEndpointsTypeEnvVar = ''gateway'' \<and> g = None \<longrightarrow>
      (\<exists>msg. ShouldUseHTTPRoute w g = Inl (Err msg)))"
  by (cases g) (auto simp: ShouldUseHTTPRoute_def Let_def)

theorem http_route_choice_witness:
  "ShouldUseHTTPRoute exampleWorld (Some (''gw'', ''infra'')) = Inr (True, ''gw'', ''infra'') \<and>
   (\<exists>msg. ShouldUseHTTPRoute (exampleWorld\<lparr>w_Env := [(oktetoComposeEndpointsTypeEnvVar, ''gateway'')]\<rparr>) None = Inl (Err msg))"
  using http_route_choice [of exampleWorld "Some (''gw'', ''infra'')" "(''gw'', ''infra'')"]
    http_route_choice [of "exampleWorld\<lparr>w_Env := [(oktetoComposeEndpointsTypeEnvVar, ''gateway'')]\<rparr>" None "([], [])"]
  by (simp add: exampleWorld_def getenv_def gstr_def gget_Cons go_consts)

text \<open>
  Two lemmas about reports. The services that are announced as added are those that were asked for;
  and pods of the same compose beyond the requested services keep the wait from ever succeeding.
\<close>

lemma getAddedSvcs_reports_initial: "set (getAddedSvcs initial withDeps) \<subseteq> set initial"
  by (auto simp: getAddedSvcs_def)

lemma wait_counts_other_services:
  assumes "\<And>c. k_ListPods k (sk_Namespace s) [(StackNameLabel, ResourceK8sMetaString (sk_Name s))] c = (Inr pods, c)"
    and "countPods pods numPods = Inr pending" and "pending \<noteq> 0"
  shows "\<exists>e. fst (waitPolls n k s numPods r) = Inl e"
  using assms by (induction n arbitrary: r) (auto simp: failE_def andThen_def ask_def)

end
