(* ===== verification/DevTypes.thy ===== *)
theory DevTypes
  imports ComposeLoad
begin

text \<open>
  The data of a development container of the okteto manifest, from \<^verbatim>\<open>src/pkg/model/dev.go\<close>,
  \<^verbatim>\<open>src/pkg/model/translation.go\<close> and \<^verbatim>\<open>src/pkg/model/forward/forward.go\<close>: the manifest's
  section, the rule that edits a workload for it, and the process the operations run in (environment,
  file system, the image of \<^verbatim>\<open>src/pkg/config/image.go\<close>).
\<close>

section \<open>Data\<close>

definition Localhost :: string where [go_consts]: "Localhost = ''localhost''"
definition oktetoSSHServerPortVariable :: string where
  [go_consts]: "oktetoSSHServerPortVariable = ''OKTETO_REMOTE_PORT''"
definition oktetoDefaultSSHServerPort :: int where "oktetoDefaultSSHServerPort = 2222"
definition DataSubPath :: string where [go_consts]: "DataSubPath = ''data''"
definition SourceCodeSubPath :: string where [go_consts]: "SourceCodeSubPath = ''src''"
definition OktetoSyncthingMountPath :: string where
  [go_consts]: "OktetoSyncthingMountPath = ''/var/syncthing''"
definition RemoteMountPath :: string where [go_consts]: "RemoteMountPath = ''/var/okteto/remote''"
definition SyncthingSubPath :: string where [go_consts]: "SyncthingSubPath = ''syncthing''"
definition DefaultSyncthingRescanInterval :: int where "DefaultSyncthingRescanInterval = 300"
definition RemoteSubPath :: string where [go_consts]: "RemoteSubPath = ''okteto-remote''"
definition authorizedKeysPath :: string where
  [go_consts]: "authorizedKeysPath = ''/var/okteto/remote/authorized_keys''"
definition OktetoExecuteSSHEnvVar :: string where
  [go_consts]: "OktetoExecuteSSHEnvVar = ''OKTETO_EXECUTE_SSH''"
definition OktetoRescanIntervalEnvVar :: string where
  [go_consts]: "OktetoRescanIntervalEnvVar = ''OKTETO_RESCAN_INTERVAL''"
definition OktetoTimeoutEnvVar :: string where [go_consts]: "OktetoTimeoutEnvVar = ''OKTETO_TIMEOUT''"
definition OktetoHybridModeFieldValue :: string where
  [go_consts]: "OktetoHybridModeFieldValue = ''hybrid''"
definition OktetoSyncModeFieldValue :: string where [go_consts]: "OktetoSyncModeFieldValue = ''sync''"
definition LastBuiltAnnotation :: string where
  [go_consts]: "LastBuiltAnnotation = ''dev.okteto.com/last-built''"
definition defaultVolumeSize :: string where [go_consts]: "defaultVolumeSize = ''5Gi''"
definition devPersistentVolumeSizeEnvVar :: string where
  [go_consts]: "devPersistentVolumeSizeEnvVar = ''OKTETO_DEV_PERSISTENT_VOLUME_SIZE''"

text \<open>A volume and a synchronized folder have the same fields and the code converts one to the other.\<close>

record devVolume =
  dvo_LocalPath :: string
  dvo_RemotePath :: string

type_synonym syncFolder = devVolume

record sync =
  sy_Folders :: "syncFolder list"
  sy_RescanInterval :: int
  sy_Compression :: bool
  sy_Verbose :: bool

record externalVolume =
  xv_Name :: string
  xv_SubPath :: string
  xv_MountPath :: string

record persistentVolumeInfo =
  pv_Annotations :: smap
  pv_Labels :: smap
  pv_AccessMode :: string
  pv_Size :: string
  pv_StorageClass :: string
  pv_VolumeMode :: string
  pv_Enabled :: bool

record initContainer =
  ic_Resources :: resourceRequirements
  ic_Image :: string

record timeout =
  to_Default :: int
  to_Resources :: int

text \<open>A nil map is \<open>None\<close>: writing to it panics.\<close>

record metadata =
  md_Labels :: "smap option"
  md_Annotations :: "smap option"

record devSecurityContext =
  dsc_RunAsUser :: "int option"
  dsc_RunAsGroup :: "int option"
  dsc_FSGroup :: "int option"
  dsc_Capabilities :: "capabilities option"
  dsc_RunAsNonRoot :: "bool option"
  dsc_AllowPrivilegeEscalation :: "bool option"
  dsc_ReadOnlyRootFilesystem :: "bool option"

record secret =
  se_LocalPath :: string
  se_RemotePath :: string
  se_Mode :: int

record reverse =
  re_Remote :: int
  re_Local :: int

record probes =
  pb_Liveness :: bool
  pb_Readiness :: bool
  pb_Startup :: bool

record lifecycleHandler =
  lh_Command :: "string list"
  lh_Enabled :: bool

record devLifecycle =
  dl_PostStart :: "lifecycleHandler option"
  dl_PreStop :: "lifecycleHandler option"

record forward =
  fw_Labels :: smap
  fw_ServiceName :: string
  fw_Local :: int
  fw_Remote :: int
  fw_Service :: bool
  fw_IsGlobal :: bool

text \<open>
  \<open>Services []*Dev\<close> makes the type recursive, but the code never looks inside the services of a
  service: the type of the services is a parameter, and a service is a development container whose
  own services are only counted. Slices and maps the code compares with nil are optional.
\<close>

record 's dev =
  dv_Resources :: resourceRequirements
  dv_Selector :: "smap option"
  dv_PersistentVolumeInfo :: "persistentVolumeInfo option"
  dv_SecurityContext :: "devSecurityContext option"
  dv_Probes :: "probes option"
  dv_NodeSelector :: smap
  dv_Metadata :: "metadata option"
  dv_Affinity :: "affinity option"
  dv_Image :: string
  dv_Lifecycle :: "devLifecycle option"
  dv_Replicas :: "int option"
  dv_InitContainer :: initContainer
  dv_Workdir :: string
  dv_Name :: string
  dv_Container :: string
  dv_ServiceAccount :: string
  dv_PriorityClassName :: string
  dv_parentSyncFolder :: string
  dv_Interface :: string
  dv_Mode :: string
  dv_ImagePullPolicy :: string
  dv_Tolerations :: "string list"
  dv_Command :: "string list option"
  dv_Forward :: "forward list option"
  dv_Reverse :: "reverse list option"
  dv_ExternalVolumes :: "externalVolume list option"
  dv_Secrets :: "secret list option"
  dv_Volumes :: "devVolume list"
  dv_EnvFiles :: "string list"
  dv_Environment :: environment
  dv_Services :: "'s list option"
  dv_Args :: "string list"
  dv_Sync :: sync
  dv_Timeout :: timeout
  dv_RemotePort :: int
  dv_SSHServerPort :: int
  dv_Autocreate :: bool

type_synonym devService = "unit dev"
type_synonym mainDev = "devService dev"

text \<open>\<open>len\<close> and \<open>range\<close> do not tell a nil slice from an empty one.\<close>

definition elems :: "'a list option \<Rightarrow> 'a list" where
  "elems xs = (case xs of None \<Rightarrow> [] | Some ys \<Rightarrow> ys)"

lemma elems_simps [simp]: "elems None = []" "elems (Some xs) = xs"
  by (simp_all add: elems_def)

record ruleMount =
  rm_Name :: string
  rm_MountPath :: string
  rm_SubPath :: string

record translationRule =
  tr_InitContainer :: initContainer
  tr_Resources :: resourceRequirements
  tr_SecurityContext :: "devSecurityContext option"
  tr_Probes :: "probes option"
  tr_Lifecycle :: "devLifecycle option"
  tr_NodeSelector :: smap
  tr_Affinity :: "affinity option"
  tr_ServiceAccount :: string
  tr_PriorityClassName :: string
  tr_WorkDir :: string
  tr_Marker :: string
  tr_OktetoBinImageTag :: string
  tr_Container :: string
  tr_Image :: string
  tr_ImagePullPolicy :: string
  tr_Environment :: environment
  tr_Secrets :: "secret list"
  tr_Command :: "string list"
  tr_Args :: "string list"
  tr_Volumes :: "ruleMount list"
  tr_Healthchecks :: bool
  tr_PersistentVolume :: bool
  tr_MainVolumeName :: string
  tr_VolumeAccessMode :: string
  tr_Namespace :: string
  tr_ManifestName :: string

definition IsMainDevContainer :: "translationRule \<Rightarrow> bool" where
  "IsMainDevContainer r \<longleftrightarrow> tr_OktetoBinImageTag r \<noteq> []"

definition IsSyncthing :: "ruleMount \<Rightarrow> bool" where
  "IsSyncthing v \<longleftrightarrow> rm_SubPath v = SyncthingSubPath \<and> rm_MountPath v = OktetoSyncthingMountPath"

section \<open>The process around a development container\<close>

datatype statResult = StatMissing | StatError | StatFile | StatDir

text \<open>
  \<open>de_World\<close> is the process as the compose loader sees it. The other fields are \<open>os.Stat\<close>,
  \<open>time.ParseDuration\<close>, \<open>resource.ParseQuantity\<close>, a free port of an interface, the package
  variables of \<^verbatim>\<open>src/pkg/config/image.go\<close>, and whether the version of the binary is a semantic
  version (third-party code); \<open>None\<close> is an error.
\<close>

record devWorld =
  de_World :: world
  de_Stat :: "string \<Rightarrow> statResult"
  de_ParseDuration :: "string \<Rightarrow> int option"
  de_ParseQuantity :: "string \<Rightarrow> quantity option"
  de_GetAvailablePort :: "string \<Rightarrow> int option"
  de_ClusterCliRepository :: string
  de_CachedCliImage :: string
  de_VersionString :: string
  de_StrictVersion :: "string \<Rightarrow> bool"

abbreviation denv :: "devWorld \<Rightarrow> string \<Rightarrow> string" where
  "denv dw k \<equiv> getenv (de_World dw) k"

text \<open>
  The first call fills the package variable; a later call returns it. The operations below read the
  image through this function, and filling the variable is their only effect on the world.
\<close>

definition oktetoCliRepository :: string where
  [go_consts]: "oktetoCliRepository = ''ghcr.io/okteto/okteto''"

definition GetCliImage :: "devWorld \<Rightarrow> string" where
  "GetCliImage dw =
     (let cliRepository = (if de_ClusterCliRepository dw \<noteq> [] then de_ClusterCliRepository dw
                           else oktetoCliRepository)
      in if de_CachedCliImage dw \<noteq> [] then de_CachedCliImage dw
         else if denv dw ''OKTETO_CLI_IMAGE'' \<noteq> [] then denv dw ''OKTETO_CLI_IMAGE''
         else if denv dw ''OKTETO_BIN'' \<noteq> [] then denv dw ''OKTETO_BIN''
         else if denv dw ''OKTETO_REMOTE_CLI_IMAGE'' \<noteq> [] then denv dw ''OKTETO_REMOTE_CLI_IMAGE''
         else if de_StrictVersion dw (de_VersionString dw)
              then cliRepository @ '':'' @ de_VersionString dw
         else cliRepository @ '':master'')"

definition cacheCliImage :: "devWorld \<Rightarrow> devWorld" where
  "cacheCliImage dw = dw\<lparr>de_CachedCliImage := GetCliImage dw\<rparr>"

lemma GetCliImage_not_Nil: "GetCliImage dw \<noteq> []"
  by (simp add: GetCliImage_def Let_def)

lemma GetCliImage_cached:
  "GetCliImage (cacheCliImage dw\<lparr>de_World := w\<rparr>) = GetCliImage dw"
  using GetCliImage_not_Nil [of dw] by (subst GetCliImage_def) (simp add: cacheCliImage_def Let_def)

datatype devErr =
    DevGetwd
  | DevExpand string
  | DevTimeout string
  | DevRescanInterval string
  | DevEnvFile composeErr
  | DevNameEmpty
  | DevReplicas
  | DevBadName
  | DevPullPolicy
  | SecretSyntax
  | SecretNotFile string
  | SecretNotAbsolute string
  | SecretDuplicated string
  | DevRootUser
  | ServicesNeedVolume
  | VolumesNeedVolume
  | SubfoldersNeedVolume
  | NoRelativePath string string
  | DevNotFound
  | SyncMandatory
  | RelativeVolume
  | RootVolume
  | RelativeSync
  | RootSync
  | DuplicatedVolume string
  | DuplicatedSync string
  | DuplicatedSyncLocalPath string
  | ServiceSyncNotDefined string
  | ExternalVolumeRelative string
  | ExternalVolumeRoot string
  | SyncMissing string
  | SyncNotDir
  | VolumeSizeInvalid
  | SSHServerPortInvalid
  | WorkdirInServices
  | ExtraField string
  | DevPanic

end
