(* ===== verification/DevModel.thy ===== *)
theory DevModel
  imports DevTypes "HOL-Library.Product_Lexorder"
begin

text \<open>
  The operations on a development container, from \<^verbatim>\<open>src/pkg/model/dev.go\<close> and
  \<^verbatim>\<open>src/pkg/model/volumes.go\<close>: the defaults \<open>SetDefaults\<close> fills in, the checks of
  \<open>Validate\<close>, paths and environment files, the persistent volume with the sub paths of the
  synchronized folders, and \<open>ToTranslationRule\<close>, the edit script that puts a workload in
  development mode. The lemmas say that the defaults are complete and idempotent, what exactly
  \<open>Validate\<close> accepts, where environment variables come from, and when the folders of a development
  container keep to their own directories of the volume.
\<close>

section \<open>The persistent volume\<close>

definition PersistentVolumeEnabled :: "'s dev \<Rightarrow> bool" where
  "PersistentVolumeEnabled dev =
     (case dv_PersistentVolumeInfo dev of None \<Rightarrow> True | Some p \<Rightarrow> pv_Enabled p)"

definition PersistentVolumeAccessMode :: "'s dev \<Rightarrow> string" where
  "PersistentVolumeAccessMode dev =
     (case dv_PersistentVolumeInfo dev of
        None \<Rightarrow> ReadWriteOnce
      | Some p \<Rightarrow> if pv_AccessMode p = [] then ReadWriteOnce else pv_AccessMode p)"

definition PersistentVolumeMode :: "'s dev \<Rightarrow> string" where
  "PersistentVolumeMode dev =
     (case dv_PersistentVolumeInfo dev of
        None \<Rightarrow> ''Filesystem''
      | Some p \<Rightarrow> if pv_VolumeMode p = [] then ''Filesystem'' else pv_VolumeMode p)"

definition PersistentVolumeAnnotations :: "'s dev \<Rightarrow> smap" where
  "PersistentVolumeAnnotations dev =
     (case dv_PersistentVolumeInfo dev of None \<Rightarrow> [] | Some p \<Rightarrow> pv_Annotations p)"

definition PersistentVolumeLabels :: "'s dev \<Rightarrow> smap" where
  "PersistentVolumeLabels dev =
     (case dv_PersistentVolumeInfo dev of None \<Rightarrow> [] | Some p \<Rightarrow> pv_Labels p)"

definition devPersistentVolumeSizeEnvValueOrDefault :: "devWorld \<Rightarrow> string" where
  "devPersistentVolumeSizeEnvValueOrDefault dw =
     (case gget (w_Env (de_World dw)) devPersistentVolumeSizeEnvVar of
        Some v \<Rightarrow> if v \<noteq> [] then v else defaultVolumeSize
      | None \<Rightarrow> defaultVolumeSize)"

definition PersistentVolumeSize :: "devWorld \<Rightarrow> 's dev \<Rightarrow> string" where
  "PersistentVolumeSize dw dev =
     (case dv_PersistentVolumeInfo dev of
        None \<Rightarrow> devPersistentVolumeSizeEnvValueOrDefault dw
      | Some p \<Rightarrow> if pv_Size p = [] then devPersistentVolumeSizeEnvValueOrDefault dw else pv_Size p)"

definition HasDefaultPersistentVolumeSize :: "devWorld \<Rightarrow> 's dev \<Rightarrow> bool" where
  "HasDefaultPersistentVolumeSize dw dev \<longleftrightarrow> PersistentVolumeSize dw dev = defaultVolumeSize"

definition PersistentVolumeStorageClass :: "'s dev \<Rightarrow> string" where
  "PersistentVolumeStorageClass dev =
     (case dv_PersistentVolumeInfo dev of None \<Rightarrow> [] | Some p \<Rightarrow> pv_StorageClass p)"

definition AreDefaultPersistentVolumeValues :: "devWorld \<Rightarrow> 's dev \<Rightarrow> bool" where
  "AreDefaultPersistentVolumeValues dw dev \<longleftrightarrow>
     dv_PersistentVolumeInfo dev \<noteq> None
     \<and> HasDefaultPersistentVolumeSize dw dev \<and> PersistentVolumeStorageClass dev = []
     \<and> PersistentVolumeEnabled dev"

definition GetVolumeName :: "'s dev \<Rightarrow> string" where
  "GetVolumeName dev = dv_Name dev @ ''-okteto''"

definition DevCloneName :: "string \<Rightarrow> string" where
  "DevCloneName name = name @ ''-okteto''"

section \<open>Small observers\<close>

definition IsHybridModeEnabled :: "'s dev \<Rightarrow> bool" where
  "IsHybridModeEnabled dev \<longleftrightarrow> dv_Mode dev = OktetoHybridModeFieldValue"

definition RunAsNonRoot :: "'s dev \<Rightarrow> bool" where
  "RunAsNonRoot dev =
     (case dv_SecurityContext dev of
        None \<Rightarrow> False
      | Some sc \<Rightarrow> (case dsc_RunAsNonRoot sc of None \<Rightarrow> False | Some b \<Rightarrow> b))"

definition isRootUser :: "'s dev \<Rightarrow> bool" where
  "isRootUser dev =
     (case dv_SecurityContext dev of
        None \<Rightarrow> False
      | Some sc \<Rightarrow> (case dsc_RunAsUser sc of None \<Rightarrow> False | Some u \<Rightarrow> u = 0))"

definition areProbesEnabled :: "probes option \<Rightarrow> bool" where
  "areProbesEnabled p =
     (case p of None \<Rightarrow> False | Some p \<Rightarrow> pb_Liveness p \<or> pb_Readiness p \<or> pb_Startup p)"

definition RemoteModeEnabled :: "devWorld \<Rightarrow> 's dev \<Rightarrow> bool" where
  "RemoteModeEnabled dw dev =
     (if dv_RemotePort dev > 0 then True
      else if elems (dv_Reverse dev) \<noteq> [] then True
      else gget (w_Env (de_World dw)) OktetoExecuteSSHEnvVar \<noteq> Some ''false'')"

definition GetKeyName :: "secret \<Rightarrow> string" where
  "GetKeyName s = ''dev-secret-'' @ Base (se_RemotePath s)"

definition GetFileName :: "secret \<Rightarrow> string" where
  "GetFileName s = Base (se_RemotePath s)"

definition HasEmptyResources :: "resourceRequirements \<Rightarrow> bool" where
  "HasEmptyResources r \<longleftrightarrow> elems (rr_Requests r) = [] \<and> elems (rr_Limits r) = []"

definition HasEmptyNodeSelector :: "'s dev \<Rightarrow> bool" where
  "HasEmptyNodeSelector dev \<longleftrightarrow> dv_NodeSelector dev = []"

definition GetTimeout :: "devWorld \<Rightarrow> devErr + int" where
  "GetTimeout dw =
     (let t = denv dw OktetoTimeoutEnvVar
      in if t = [] then Inr (60 * 10 ^ 9)
         else case de_ParseDuration dw t of None \<Rightarrow> Inl (DevTimeout t) | Some parsed \<Rightarrow> Inr parsed)"

definition IsInteractive :: "'s dev \<Rightarrow> bool" where
  "IsInteractive dev =
     (case elems (dv_Command dev) of
        [] \<Rightarrow> True
      | [c] \<Rightarrow> c = ''sh'' \<or> c = ''bash''
      | _ \<Rightarrow> False)"

definition varToString :: "var \<Rightarrow> string" where
  "varToString v = va_Name v @ ''='' @ va_Value v"

definition SerializeEnvironmentVars :: "environment \<Rightarrow> string list" where
  "SerializeEnvironmentVars envs = sort (map varToString envs)"

fun labelsSelectorLoop :: "string \<Rightarrow> smap \<Rightarrow> string" where
  "labelsSelectorLoop labels [] = labels"
| "labelsSelectorLoop labels ((k, v) # rest) =
     labelsSelectorLoop (if labels = [] then k @ ''='' @ v else labels @ '', '' @ k @ ''='' @ v) rest"

definition LabelsSelector :: "'s dev \<Rightarrow> string" where
  "LabelsSelector dev = labelsSelectorLoop [] (elems (dv_Selector dev))"

section \<open>Defaults\<close>

definition emptyResources :: resourceRequirements where
  "emptyResources = \<lparr>rr_Limits = None, rr_Requests = None\<rparr>"

definition NewDev :: "devWorld \<Rightarrow> 's dev" where
  "NewDev dw =
     \<lparr>dv_Resources = emptyResources, dv_Selector = None,
      dv_PersistentVolumeInfo =
        Some \<lparr>pv_Annotations = [], pv_Labels = [], pv_AccessMode = [], pv_Size = [],
              pv_StorageClass = [], pv_VolumeMode = [], pv_Enabled = True\<rparr>,
      dv_SecurityContext = None,
      dv_Probes = Some \<lparr>pb_Liveness = False, pb_Readiness = False, pb_Startup = False\<rparr>,
      dv_NodeSelector = [],
      dv_Metadata = Some \<lparr>md_Labels = Some [], md_Annotations = Some []\<rparr>,
      dv_Affinity = None, dv_Image = [],
      dv_Lifecycle = Some \<lparr>dl_PostStart = None, dl_PreStop = None\<rparr>, dv_Replicas = None,
      dv_InitContainer = \<lparr>ic_Resources = emptyResources, ic_Image = GetCliImage dw\<rparr>,
      dv_Workdir = [], dv_Name = [], dv_Container = [], dv_ServiceAccount = [],
      dv_PriorityClassName = [], dv_parentSyncFolder = [], dv_Interface = [], dv_Mode = [],
      dv_ImagePullPolicy = [], dv_Tolerations = [], dv_Command = None, dv_Forward = Some [],
      dv_Reverse = None, dv_ExternalVolumes = None, dv_Secrets = Some [], dv_Volumes = [],
      dv_EnvFiles = [], dv_Environment = [], dv_Services = Some [], dv_Args = [],
      dv_Sync = \<lparr>sy_Folders = [], sy_RescanInterval = 0, sy_Compression = False,
                 sy_Verbose = False\<rparr>,
      dv_Timeout = \<lparr>to_Default = 0, to_Resources = 0\<rparr>, dv_RemotePort = 0, dv_SSHServerPort = 0,
      dv_Autocreate = False\<rparr>"

definition forwardLess :: "forward \<Rightarrow> forward \<Rightarrow> bool" where
  "forwardLess f c =
     (if \<not> fw_Service f \<and> \<not> fw_Service c then fw_Local f < fw_Local c
      else if \<not> fw_Service f \<and> fw_Service c then True
      else if fw_Service f \<and> \<not> fw_Service c then False
      else fw_Local f < fw_Local c)"

definition forwardKey :: "forward \<Rightarrow> bool \<times> int" where
  "forwardKey f = (fw_Service f, fw_Local f)"

text \<open>\<open>sort.SliceStable\<close> with \<open>Less\<close>: the stable sort by the key \<open>Less\<close> compares.\<close>

definition sortForward :: "forward list \<Rightarrow> forward list" where
  "sortForward fs = sort_key forwardKey fs"

lemma forwardLess_key: "forwardLess f c \<longleftrightarrow> forwardKey f < forwardKey c"
  by (auto simp: forwardLess_def forwardKey_def)

definition setTimeout :: "devWorld \<Rightarrow> 's dev \<Rightarrow> devErr + 's dev" where
  "setTimeout dw dev =
     (let t = dv_Timeout dev;
          t = (if to_Resources t = 0 then t\<lparr>to_Resources := 120 * 10 ^ 9\<rparr> else t)
      in if to_Default t \<noteq> 0 then Inr (dev\<lparr>dv_Timeout := t\<rparr>)
         else case GetTimeout dw of
                Inl e \<Rightarrow> Inl e
              | Inr d \<Rightarrow> Inr (dev\<lparr>dv_Timeout := t\<lparr>to_Default := d\<rparr>\<rparr>))"

definition emptySecurityContext :: devSecurityContext where
  "emptySecurityContext =
     \<lparr>dsc_RunAsUser = None, dsc_RunAsGroup = None, dsc_FSGroup = None, dsc_Capabilities = None,
      dsc_RunAsNonRoot = None, dsc_AllowPrivilegeEscalation = None,
      dsc_ReadOnlyRootFilesystem = None\<rparr>"

definition setRunAsUserDefaults :: "'t dev \<Rightarrow> 's dev \<Rightarrow> 's dev" where
  "setRunAsUserDefaults main dev =
     (if \<not> PersistentVolumeEnabled main then dev
      else if RunAsNonRoot dev then dev
      else
        let sc = (case dv_SecurityContext dev of None \<Rightarrow> emptySecurityContext | Some sc \<Rightarrow> sc);
            sc = (if dsc_RunAsUser sc = None then sc\<lparr>dsc_RunAsUser := Some 0\<rparr> else sc);
            sc = (if dsc_RunAsGroup sc = None then sc\<lparr>dsc_RunAsGroup := dsc_RunAsUser sc\<rparr> else sc);
            sc = (if dsc_FSGroup sc = None then sc\<lparr>dsc_FSGroup := dsc_RunAsUser sc\<rparr> else sc)
        in dev\<lparr>dv_SecurityContext := Some sc\<rparr>)"

definition fillMetadata :: "metadata option \<Rightarrow> metadata" where
  "fillMetadata m =
     (let m = (case m of None \<Rightarrow> \<lparr>md_Labels = None, md_Annotations = None\<rparr> | Some m \<Rightarrow> m)
      in m\<lparr>md_Annotations := Some (elems (md_Annotations m)), md_Labels := Some (elems (md_Labels m))\<rparr>)"

definition fillProbes :: "probes option \<Rightarrow> probes" where
  "fillProbes p =
     (case p of None \<Rightarrow> \<lparr>pb_Liveness = False, pb_Readiness = False, pb_Startup = False\<rparr> | Some p \<Rightarrow> p)"

definition fillLifecycle :: "devLifecycle option \<Rightarrow> devLifecycle" where
  "fillLifecycle l = (case l of None \<Rightarrow> \<lparr>dl_PostStart = None, dl_PreStop = None\<rparr> | Some l \<Rightarrow> l)"

definition orDefault :: "string \<Rightarrow> string \<Rightarrow> string" where
  "orDefault s d = (if s = [] then d else s)"

text \<open>The assignments of \<open>SetDefaults\<close> between \<open>setTimeout\<close> and \<open>setRunAsUserDefaults\<close>.\<close>

definition fieldDefaults :: "devWorld \<Rightarrow> 's dev \<Rightarrow> 's dev" where
  "fieldDefaults dw dev =
     dev\<lparr>dv_ImagePullPolicy := orDefault (dv_ImagePullPolicy dev) PullAlways,
         dv_Metadata := Some (fillMetadata (dv_Metadata dev)),
         dv_Selector := Some (elems (dv_Selector dev)),
         dv_InitContainer := (dv_InitContainer dev)
           \<lparr>ic_Image := orDefault (ic_Image (dv_InitContainer dev)) (GetCliImage dw)\<rparr>,
         dv_Probes := Some (fillProbes (dv_Probes dev)),
         dv_Lifecycle := Some (fillLifecycle (dv_Lifecycle dev)),
         dv_Interface := orDefault (dv_Interface dev) Localhost,
         dv_SSHServerPort := (if dv_SSHServerPort dev = 0 then oktetoDefaultSSHServerPort
                              else dv_SSHServerPort dev)\<rparr>"

definition setRescanInterval :: "devWorld \<Rightarrow> 's dev \<Rightarrow> devErr + 's dev" where
  "setRescanInterval dw dev =
     (let v = denv dw OktetoRescanIntervalEnvVar
      in if v \<noteq> [] then
           case parseInt 64 v of
             None \<Rightarrow> Inl (DevRescanInterval v)
           | Some n \<Rightarrow> Inr (dev\<lparr>dv_Sync := (dv_Sync dev)\<lparr>sy_RescanInterval := n\<rparr>\<rparr>)
         else if sy_RescanInterval (dv_Sync dev) = 0 then
           Inr (dev\<lparr>dv_Sync := (dv_Sync dev)\<lparr>sy_RescanInterval := DefaultSyncthingRescanInterval\<rparr>\<rparr>)
         else Inr dev)"

definition serviceDefaults :: "'t dev \<Rightarrow> devService \<Rightarrow> devService" where
  "serviceDefaults dev s =
     (let s = s\<lparr>dv_ImagePullPolicy := orDefault (dv_ImagePullPolicy s) PullAlways,
                dv_Metadata := Some (fillMetadata (dv_Metadata s)),
                dv_Selector := Some (elems (dv_Selector s))\<rparr>;
          s = setRunAsUserDefaults dev s
      in s\<lparr>dv_Forward := Some [], dv_Reverse := Some [], dv_Secrets := Some [],
           dv_Services := Some [],
           dv_Sync := (dv_Sync s)\<lparr>sy_Compression := False,
                                  sy_RescanInterval := DefaultSyncthingRescanInterval\<rparr>,
           dv_Probes := Some (fillProbes (dv_Probes s)),
           dv_Lifecycle := Some (fillLifecycle (dv_Lifecycle s))\<rparr>)"

definition SetDefaults :: "devWorld \<Rightarrow> mainDev \<Rightarrow> devErr + mainDev" where
  "SetDefaults dw dev =
     (let dev = dev\<lparr>dv_Command := Some (case dv_Command dev of None \<Rightarrow> [''sh''] | Some c \<Rightarrow> c),
                    dv_Forward := map_option sortForward (dv_Forward dev)\<rparr>
      in case setTimeout dw dev of
           Inl e \<Rightarrow> Inl e
         | Inr dev \<Rightarrow>
             let dev = fieldDefaults dw dev; dev = setRunAsUserDefaults dev dev
             in case setRescanInterval dw dev of
                  Inl e \<Rightarrow> Inl e
                | Inr dev \<Rightarrow>
                    Inr (dev\<lparr>dv_Services := map_option (map (serviceDefaults dev)) (dv_Services dev),
                             dv_Mode := orDefault (dv_Mode dev) OktetoSyncModeFieldValue\<rparr>))"

section \<open>Paths, names and environment files\<close>

definition absVolume :: "devWorld \<Rightarrow> string \<Rightarrow> devVolume \<Rightarrow> devVolume" where
  "absVolume dw folder v =
     (if dvo_LocalPath v = [] then v
      else v\<lparr>dvo_LocalPath := loadAbsPath (de_World dw) folder (dvo_LocalPath v)\<rparr>)"

definition absFolder :: "devWorld \<Rightarrow> string \<Rightarrow> syncFolder \<Rightarrow> syncFolder" where
  "absFolder dw folder f = f\<lparr>dvo_LocalPath := loadAbsPath (de_World dw) folder (dvo_LocalPath f)\<rparr>"

definition loadVolumeAbsPaths :: "devWorld \<Rightarrow> string \<Rightarrow> 's dev \<Rightarrow> 's dev" where
  "loadVolumeAbsPaths dw folder dev =
     dev\<lparr>dv_Volumes := map (absVolume dw folder) (dv_Volumes dev),
         dv_Sync := (dv_Sync dev)\<lparr>sy_Folders := map (absFolder dw folder) (sy_Folders (dv_Sync dev))\<rparr>\<rparr>"

definition loadAbsPaths :: "devWorld \<Rightarrow> string \<Rightarrow> mainDev \<Rightarrow> devErr + mainDev" where
  "loadAbsPaths dw devPath dev =
     (case Abs (de_World dw) (Dir devPath) of
        None \<Rightarrow> Inl DevGetwd
      | Some devDir \<Rightarrow>
          let dev = loadVolumeAbsPaths dw devDir dev
          in Inr (dev\<lparr>dv_Services := map_option (map (loadVolumeAbsPaths dw devDir)) (dv_Services dev)\<rparr>))"

definition devExpandEnv :: "devWorld \<Rightarrow> string \<Rightarrow> devErr + string" where
  "devExpandEnv dw v =
     (case w_ExpandEnv (de_World dw) v of None \<Rightarrow> Inl (DevExpand v) | Some r \<Rightarrow> Inr r)"

definition ExpandEnvIfNotEmpty :: "devWorld \<Rightarrow> string \<Rightarrow> devErr + string" where
  "ExpandEnvIfNotEmpty dw v =
     (case devExpandEnv dw v of
        Inl e \<Rightarrow> Inl e
      | Inr result \<Rightarrow> if result = [] then Inr v else Inr result)"

definition loadName :: "devWorld \<Rightarrow> 's dev \<Rightarrow> devErr + 's dev" where
  "loadName dw dev =
     (if dv_Name dev \<noteq> [] then
        case devExpandEnv dw (dv_Name dev) of Inl e \<Rightarrow> Inl e | Inr n \<Rightarrow> Inr (dev\<lparr>dv_Name := n\<rparr>)
      else Inr dev)"

fun expandValues :: "devWorld \<Rightarrow> smap \<Rightarrow> devErr + smap" where
  "expandValues dw [] = Inr []"
| "expandValues dw ((k, v) # rest) =
     (case devExpandEnv dw v of
        Inl e \<Rightarrow> Inl e
      | Inr v' \<Rightarrow> (case expandValues dw rest of Inl e \<Rightarrow> Inl e | Inr rest' \<Rightarrow> Inr ((k, v') # rest')))"

definition loadSelector :: "devWorld \<Rightarrow> 's dev \<Rightarrow> devErr + 's dev" where
  "loadSelector dw dev =
     (case dv_Selector dev of
        None \<Rightarrow> Inr dev
      | Some sel \<Rightarrow>
          (case expandValues dw sel of Inl e \<Rightarrow> Inl e | Inr sel' \<Rightarrow> Inr (dev\<lparr>dv_Selector := Some sel'\<rparr>)))"

definition loadImage :: "devWorld \<Rightarrow> 's dev \<Rightarrow> devErr + 's dev" where
  "loadImage dw dev =
     (if dv_Image dev \<noteq> [] then
        case ExpandEnvIfNotEmpty dw (dv_Image dev) of Inl e \<Rightarrow> Inl e | Inr i \<Rightarrow> Inr (dev\<lparr>dv_Image := i\<rparr>)
      else Inr dev)"

definition expandEnvVars :: "devWorld \<Rightarrow> 's dev \<Rightarrow> devErr + 's dev" where
  "expandEnvVars dw dev =
     (case loadName dw dev of
        Inl e \<Rightarrow> Inl e
      | Inr dev \<Rightarrow> (case loadSelector dw dev of Inl e \<Rightarrow> Inl e | Inr dev \<Rightarrow> loadImage dw dev))"

text \<open>
  One environment file: a variable the container already has is dropped, one without a value takes
  the value it has in the process, and one that is empty even so is not added.
\<close>

definition addEnvMap :: "devWorld \<Rightarrow> environment \<Rightarrow> smap \<Rightarrow> environment" where
  "addEnvMap dw env envMap =
     env @ filter (\<lambda>v. va_Value v \<noteq> [])
             (map (fromFile (de_World dw)) (gdels (map va_Name env) envMap))"

fun expandEnvFilesLoop :: "devWorld \<Rightarrow> environment \<Rightarrow> string list \<Rightarrow> devErr + environment" where
  "expandEnvFilesLoop dw env [] = Inr env"
| "expandEnvFilesLoop dw env (envFile # rest) =
     (case readEnvFile (de_World dw) envFile of
        Inl e \<Rightarrow> Inl (DevEnvFile e)
      | Inr envMap \<Rightarrow> expandEnvFilesLoop dw (addEnvMap dw env envMap) rest)"

definition expandEnvFiles :: "devWorld \<Rightarrow> 's dev \<Rightarrow> devErr + 's dev" where
  "expandEnvFiles dw dev =
     (case expandEnvFilesLoop dw (dv_Environment dev) (dv_EnvFiles dev) of
        Inl e \<Rightarrow> Inl e
      | Inr env \<Rightarrow> Inr (dev\<lparr>dv_Environment := env\<rparr>))"

section \<open>Synchronized folders\<close>

definition folders :: "'s dev \<Rightarrow> syncFolder list" where
  "folders dev = sy_Folders (dv_Sync dev)"

definition addFolders :: "syncFolder list \<Rightarrow> 's dev \<Rightarrow> 's dev" where
  "addFolders fs dev = dev\<lparr>dv_Sync := (dv_Sync dev)\<lparr>sy_Folders := sy_Folders (dv_Sync dev) @ fs\<rparr>\<rparr>"

text \<open>The flag says that the receiver is a service (\<open>main != nil\<close>).\<close>

definition translateDeprecatedWorkdir :: "bool \<Rightarrow> 's dev \<Rightarrow> devErr + 's dev" where
  "translateDeprecatedWorkdir isService dev =
     (if dv_Workdir dev = [] \<or> folders dev \<noteq> [] then Inr dev
      else if isService then Inl WorkdirInServices
      else Inr (addFolders [\<lparr>dvo_LocalPath = ''.'', dvo_RemotePath = dv_Workdir dev\<rparr>] dev))"

definition translateDeprecatedVolumes :: "'s dev \<Rightarrow> 's dev" where
  "translateDeprecatedVolumes dev =
     (addFolders (filter (\<lambda>v. dvo_LocalPath v \<noteq> []) (dv_Volumes dev)) dev)
       \<lparr>dv_Volumes := filter (\<lambda>v. dvo_LocalPath v = []) (dv_Volumes dev)\<rparr>"

fun deprecatedServices :: "devService list \<Rightarrow> devErr + devService list" where
  "deprecatedServices [] = Inr []"
| "deprecatedServices (s # ss) =
     (case translateDeprecatedWorkdir True s of
        Inl e \<Rightarrow> Inl e
      | Inr s \<Rightarrow> (case deprecatedServices ss of
                    Inl e \<Rightarrow> Inl e
                  | Inr ss' \<Rightarrow> Inr (translateDeprecatedVolumes s # ss')))"

definition translateDeprecatedVolumeFields :: "mainDev \<Rightarrow> devErr + mainDev" where
  "translateDeprecatedVolumeFields dev =
     (let dev = (if dv_Workdir dev = [] \<and> folders dev = [] then dev\<lparr>dv_Workdir := ''/okteto''\<rparr> else dev)
      in case translateDeprecatedWorkdir False dev of
           Inl e \<Rightarrow> Inl e
         | Inr dev \<Rightarrow>
             let dev = translateDeprecatedVolumes dev
             in case dv_Services dev of
                  None \<Rightarrow> Inr dev
                | Some ss \<Rightarrow>
                    (case deprecatedServices ss of
                       Inl e \<Rightarrow> Inl e
                     | Inr ss' \<Rightarrow> Inr (dev\<lparr>dv_Services := Some ss'\<rparr>)))"

fun isSubPathLoop :: "syncFolder list \<Rightarrow> string \<Rightarrow> bool \<Rightarrow> devErr + bool" where
  "isSubPathLoop [] path found = (if found then Inr False else Inl DevNotFound)"
| "isSubPathLoop (f # fs) path found =
     (case Rel (dvo_LocalPath f) path of
        None \<Rightarrow> Inl (NoRelativePath (dvo_LocalPath f) path)
      | Some rel \<Rightarrow>
          if hasPrefix rel ''..'' then isSubPathLoop fs path found
          else if rel \<noteq> ''.'' then Inr True
          else isSubPathLoop fs path True)"

definition IsSubPathFolder :: "'s dev \<Rightarrow> string \<Rightarrow> devErr + bool" where
  "IsSubPathFolder dev path = isSubPathLoop (folders dev) path False"

text \<open>
  \<open>pathSplits\<close> maps every index of the first folder's elements to the element, so it is the list of
  them. The second function is the loop over one further folder, from element \<open>j\<close> on.
\<close>

fun matchSplits :: "string list \<Rightarrow> int \<Rightarrow> int \<Rightarrow> string list \<Rightarrow> int" where
  "matchSplits pathSplits maxIndex j [] = maxIndex"
| "matchSplits pathSplits maxIndex j (subPath # rest) =
     (if j > maxIndex then maxIndex
      else if \<not> nat j < length pathSplits \<or> pathSplits ! nat j \<noteq> subPath then j - 1
      else matchSplits pathSplits maxIndex (j + 1) rest)"

fun matchFolders :: "string list \<Rightarrow> int \<Rightarrow> syncFolder list \<Rightarrow> int" where
  "matchFolders pathSplits maxIndex [] = maxIndex"
| "matchFolders pathSplits maxIndex (f # fs) =
     matchFolders pathSplits
       (matchSplits pathSplits maxIndex 0 (split (CHR ''/'') (dvo_LocalPath f))) fs"

fun joinSplits :: "string \<Rightarrow> string list \<Rightarrow> string" where
  "joinSplits acc [] = acc"
| "joinSplits acc (e # es) = joinSplits (joinPaths [acc, e]) es"

definition parentSyncFolder :: "syncFolder list \<Rightarrow> string" where
  "parentSyncFolder fs =
     (case fs of
        [] \<Rightarrow> ''/''
      | f # rest \<Rightarrow>
          let pathSplits = split (CHR ''/'') (dvo_LocalPath f);
              maxIndex = matchFolders pathSplits (int (length pathSplits) - 1) rest
          in joinSplits ''/'' (drop 1 (take (nat (maxIndex + 1)) pathSplits)))"

definition computeParentSyncFolder :: "'s dev \<Rightarrow> 's dev" where
  "computeParentSyncFolder dev = dev\<lparr>dv_parentSyncFolder := parentSyncFolder (folders dev)\<rparr>"

definition PreparePathsAndExpandEnvFiles :: "devWorld \<Rightarrow> string \<Rightarrow> mainDev \<Rightarrow> devErr + mainDev" where
  "PreparePathsAndExpandEnvFiles dw manifestPath dev =
     (case loadAbsPaths dw manifestPath dev of
        Inl e \<Rightarrow> Inl e
      | Inr dev \<Rightarrow>
          (case expandEnvFiles dw dev of
             Inl e \<Rightarrow> Inl e
           | Inr dev \<Rightarrow> Inr (computeParentSyncFolder dev)))"

definition getDataSubPath :: "string \<Rightarrow> string" where
  "getDataSubPath path = joinPaths [DataSubPath, path]"

text \<open>
  The receiver's field is set when it was empty. \<open>Rel\<close> gives the empty string with its error. The
  branch for a relative path inside the test for an absolute one is taken on systems with volume
  names only.
\<close>

definition getSourceSubPath :: "'s dev \<Rightarrow> string \<Rightarrow> string \<times> 's dev" where
  "getSourceSubPath dev path =
     (let dev = (if dv_parentSyncFolder dev = [] then dev\<lparr>dv_parentSyncFolder := ''.''\<rparr> else dev);
          rel = (case Rel (dv_parentSyncFolder dev) path of None \<Rightarrow> [] | Some rel \<Rightarrow> rel)
      in (joinPaths [SourceCodeSubPath, rel], dev))"

section \<open>Validation\<close>

text \<open>\<open>if err := check(); err != nil { return err }\<close>, one after another; the checks have no effects.\<close>

fun firstErr :: "'e option list \<Rightarrow> 'e option" where
  "firstErr [] = None"
| "firstErr (None # es) = firstErr es"
| "firstErr (Some e # es) = Some e"

definition validatePullPolicy :: "string \<Rightarrow> devErr option" where
  "validatePullPolicy p =
     (if p = PullAlways \<or> p = PullIfNotPresent \<or> p = PullNever then None else Some DevPullPolicy)"

definition statPath :: "devWorld \<Rightarrow> string \<Rightarrow> statResult" where
  "statPath dw p = de_Stat dw (resolve (de_World dw) p)"

definition validateSecret :: "devWorld \<Rightarrow> secret \<Rightarrow> devErr option" where
  "validateSecret dw s =
     (if se_LocalPath s = [] \<or> se_RemotePath s = [] then Some SecretSyntax
      else if statPath dw (se_LocalPath s) \<noteq> StatFile then Some (SecretNotFile (se_LocalPath s))
      else if \<not> hasPrefix (se_RemotePath s) ''/'' then Some (SecretNotAbsolute (se_RemotePath s))
      else None)"

fun validateSecrets :: "devWorld \<Rightarrow> string list \<Rightarrow> secret list \<Rightarrow> devErr option" where
  "validateSecrets dw seen [] = None"
| "validateSecrets dw seen (s # ss) =
     (case validateSecret dw s of
        Some e \<Rightarrow> Some e
      | None \<Rightarrow>
          if GetFileName s \<in> set seen then Some (SecretDuplicated (GetFileName s))
          else validateSecrets dw (GetFileName s # seen) ss)"

definition validateSecurityContext :: "'s dev \<Rightarrow> devErr option" where
  "validateSecurityContext dev = (if isRootUser dev \<and> RunAsNonRoot dev then Some DevRootUser else None)"

definition validateSubfolder :: "'s dev \<Rightarrow> syncFolder \<Rightarrow> devErr option" where
  "validateSubfolder dev f =
     (case IsSubPathFolder dev (dvo_LocalPath f) of
        Inl e \<Rightarrow> Some e
      | Inr result \<Rightarrow> if result then Some SubfoldersNeedVolume else None)"

definition validatePersistentVolume :: "'s dev \<Rightarrow> devErr option" where
  "validatePersistentVolume dev =
     (if PersistentVolumeEnabled dev then None
      else if elems (dv_Services dev) \<noteq> [] then Some ServicesNeedVolume
      else if dv_Volumes dev \<noteq> [] then Some VolumesNeedVolume
      else firstErr (map (validateSubfolder dev) (folders dev)))"

definition validateRemotePath :: "devErr \<Rightarrow> devErr \<Rightarrow> string \<Rightarrow> devErr option" where
  "validateRemotePath relative root p =
     (if \<not> hasPrefix p ''/'' then Some relative else if p = ''/'' then Some root else None)"

definition validateRemotePaths :: "'s dev \<Rightarrow> devErr option" where
  "validateRemotePaths dev =
     firstErr (map (\<lambda>v. validateRemotePath RelativeVolume RootVolume (dvo_RemotePath v)) (dv_Volumes dev)
               @ map (\<lambda>f. validateRemotePath RelativeSync RootSync (dvo_RemotePath f)) (folders dev))"

fun validateDuplicatedVolumes :: "string list \<Rightarrow> devVolume list \<Rightarrow> devErr option" where
  "validateDuplicatedVolumes seen [] = None"
| "validateDuplicatedVolumes seen (v # vs) =
     (if dvo_RemotePath v \<in> set seen then Some (DuplicatedVolume (dvo_RemotePath v))
      else validateDuplicatedVolumes (dvo_RemotePath v # seen) vs)"

definition syncKey :: "syncFolder \<Rightarrow> string" where
  "syncKey f = dvo_LocalPath f @ '':'' @ dvo_RemotePath f"

fun duplicatedSyncLoop :: "'s dev \<Rightarrow> string list \<Rightarrow> string list \<Rightarrow> syncFolder list \<Rightarrow> devErr option" where
  "duplicatedSyncLoop dev seen roots [] = None"
| "duplicatedSyncLoop dev seen roots (f # fs) =
     (if syncKey f \<in> set seen then Some (DuplicatedSync (syncKey f))
      else case IsSubPathFolder dev (dvo_LocalPath f) of
             Inl e \<Rightarrow> Some e
           | Inr result \<Rightarrow>
               if result then duplicatedSyncLoop dev (syncKey f # seen) roots fs
               else if dvo_LocalPath f \<in> set roots then Some (DuplicatedSyncLocalPath (dvo_LocalPath f))
               else duplicatedSyncLoop dev (syncKey f # seen) (dvo_LocalPath f # roots) fs)"

definition validateDuplicatedSyncFolders :: "'s dev \<Rightarrow> devErr option" where
  "validateDuplicatedSyncFolders dev = duplicatedSyncLoop dev [] [] (folders dev)"

definition validateServiceSyncFolder :: "'t dev \<Rightarrow> syncFolder \<Rightarrow> devErr option" where
  "validateServiceSyncFolder main f =
     (case IsSubPathFolder main (dvo_LocalPath f) of
        Inr result \<Rightarrow> None
      | Inl e \<Rightarrow> if e = DevNotFound then Some (ServiceSyncNotDefined (dvo_LocalPath f)) else Some e)"

definition validateServiceSyncFolders :: "'t dev \<Rightarrow> 's dev \<Rightarrow> devErr option" where
  "validateServiceSyncFolders main dev = firstErr (map (validateServiceSyncFolder main) (folders dev))"

definition validateVolumes :: "'t dev option \<Rightarrow> 's dev \<Rightarrow> devErr option" where
  "validateVolumes main dev =
     (if folders dev = [] then Some SyncMandatory
      else firstErr
        [validateRemotePaths dev,
         validateDuplicatedVolumes [] (dv_Volumes dev),
         validateDuplicatedSyncFolders dev,
         case main of None \<Rightarrow> None | Some main \<Rightarrow> validateServiceSyncFolders main dev])"

definition validateExternalVolume :: "externalVolume \<Rightarrow> devErr option" where
  "validateExternalVolume v =
     validateRemotePath (ExternalVolumeRelative (xv_Name v)) (ExternalVolumeRoot (xv_Name v))
       (xv_MountPath v)"

definition validateExternalVolumes :: "'s dev \<Rightarrow> devErr option" where
  "validateExternalVolumes dev = firstErr (map validateExternalVolume (elems (dv_ExternalVolumes dev)))"

definition validateSyncFolder :: "devWorld \<Rightarrow> syncFolder \<Rightarrow> devErr option" where
  "validateSyncFolder dw f =
     (case statPath dw (dvo_LocalPath f) of
        StatMissing \<Rightarrow> Some (SyncMissing (dvo_LocalPath f))
      | StatError \<Rightarrow> Some SyncNotDir
      | StatFile \<Rightarrow> Some SyncNotDir
      | StatDir \<Rightarrow> None)"

definition validateSync :: "devWorld \<Rightarrow> 's dev \<Rightarrow> devErr option" where
  "validateSync dw dev = firstErr (map (validateSyncFolder dw) (folders dev))"

definition validateDevName :: "string \<Rightarrow> devErr option" where
  "validateDevName name =
     (if list_ex (\<lambda>c. \<not> validKubeChar c) name then Some DevBadName
      else if hasPrefix name ''-'' \<or> hasSuffix name ''-'' then Some DevBadName
      else None)"

definition validateDevService :: "mainDev \<Rightarrow> devService \<Rightarrow> devErr option" where
  "validateDevService dev s =
     firstErr [validatePullPolicy (dv_ImagePullPolicy s), validateVolumes (Some dev) s]"

definition devValidate :: "devWorld \<Rightarrow> mainDev \<Rightarrow> devErr option" where
  "devValidate dw dev =
     (if dv_Name dev = [] then Some DevNameEmpty
      else if dv_Replicas dev \<noteq> None then Some DevReplicas
      else firstErr
        ([validateDevName (dv_Name dev),
          validatePullPolicy (dv_ImagePullPolicy dev),
          validateSecrets dw [] (elems (dv_Secrets dev)),
          validateSecurityContext dev,
          validatePersistentVolume dev,
          validateVolumes (None :: mainDev option) dev,
          validateExternalVolumes dev,
          validateSync dw dev,
          if de_ParseQuantity dw (PersistentVolumeSize dw dev) = None then Some VolumeSizeInvalid else None,
          if dv_SSHServerPort dev \<le> 0 then Some SSHServerPortInvalid else None]
         @ map (validateDevService dev) (elems (dv_Services dev))))"

definition extraField :: "string \<Rightarrow> bool \<Rightarrow> devErr option" where
  "extraField name present = (if present then Some (ExtraField name) else None)"

definition validateForExtraFields :: "'s dev \<Rightarrow> devErr option" where
  "validateForExtraFields s =
     firstErr
       [extraField ''autocreate'' (dv_Autocreate s),
        extraField ''secrets'' (dv_Secrets s \<noteq> None),
        extraField ''probes'' (dv_Probes s \<noteq> None),
        extraField ''lifecycle'' (dv_Lifecycle s \<noteq> None),
        extraField ''securityContext'' (dv_SecurityContext s \<noteq> None),
        extraField ''serviceAccount'' (dv_ServiceAccount s \<noteq> []),
        extraField ''priorityClassName'' (dv_PriorityClassName s \<noteq> []),
        extraField ''remote'' (dv_RemotePort s \<noteq> 0),
        extraField ''sshServerPort'' (dv_SSHServerPort s \<noteq> 0),
        extraField ''externalVolumes'' (dv_ExternalVolumes s \<noteq> None),
        extraField ''parentSyncFolder'' (dv_parentSyncFolder s \<noteq> []),
        extraField ''forward'' (dv_Forward s \<noteq> None),
        extraField ''reverse'' (dv_Reverse s \<noteq> None),
        extraField ''interface'' (dv_Interface s \<noteq> []),
        extraField ''services'' (dv_Services s \<noteq> None),
        extraField ''persistentVolume'' (dv_PersistentVolumeInfo s \<noteq> None),
        extraField ''initContainer'' (ic_Image (dv_InitContainer s) \<noteq> []),
        extraField ''timeout'' (dv_Timeout s \<noteq> \<lparr>to_Default = 0, to_Resources = 0\<rparr>)]"

section \<open>Remote port, secrets, forced pull\<close>

definition AssignRemotePort :: "devWorld \<Rightarrow> 's dev \<Rightarrow> 's dev" where
  "AssignRemotePort dw dev =
     (if dv_RemotePort dev \<noteq> 0 then dev
      else dev\<lparr>dv_RemotePort := (case de_GetAvailablePort dw (dv_Interface dev) of
                                   None \<Rightarrow> oktetoDefaultSSHServerPort
                                 | Some p \<Rightarrow> p)\<rparr>)"

definition LoadRemote :: "string \<Rightarrow> 's dev \<Rightarrow> 's dev" where
  "LoadRemote pubKeyPath dev =
     (if list_ex (\<lambda>s. se_LocalPath s = pubKeyPath) (elems (dv_Secrets dev)) then dev
      else dev\<lparr>dv_Secrets := Some (elems (dv_Secrets dev)
             @ [\<lparr>se_LocalPath = pubKeyPath, se_RemotePath = authorizedKeysPath, se_Mode = 420\<rparr>])\<rparr>)"

text \<open>A write through a nil pointer or into a nil map panics.\<close>

definition setAnnotation :: "string \<Rightarrow> string \<Rightarrow> 's dev \<Rightarrow> devErr + 's dev" where
  "setAnnotation k v dev =
     (case dv_Metadata dev of
        None \<Rightarrow> Inl DevPanic
      | Some m \<Rightarrow>
          (case md_Annotations m of
             None \<Rightarrow> Inl DevPanic
           | Some a \<Rightarrow> Inr (dev\<lparr>dv_Metadata := Some (m\<lparr>md_Annotations := Some (gput k v a)\<rparr>)\<rparr>)))"

definition forcePull :: "string \<Rightarrow> 's dev \<Rightarrow> devErr + 's dev" where
  "forcePull restartUUID dev =
     setAnnotation OktetoRestartAnnotation restartUUID (dev\<lparr>dv_ImagePullPolicy := PullAlways\<rparr>)"

fun forcePulls :: "string \<Rightarrow> devService list \<Rightarrow> devErr + devService list" where
  "forcePulls u [] = Inr []"
| "forcePulls u (s # ss) =
     (case forcePull u s of
        Inl e \<Rightarrow> Inl e
      | Inr s' \<Rightarrow> (case forcePulls u ss of Inl e \<Rightarrow> Inl e | Inr ss' \<Rightarrow> Inr (s' # ss')))"

definition LoadForcePull :: "string \<Rightarrow> mainDev \<Rightarrow> devErr + mainDev" where
  "LoadForcePull restartUUID dev =
     (case forcePull restartUUID dev of
        Inl e \<Rightarrow> Inl e
      | Inr dev \<Rightarrow>
          (case dv_Services dev of
             None \<Rightarrow> Inr dev
           | Some ss \<Rightarrow>
               (case forcePulls restartUUID ss of
                  Inl e \<Rightarrow> Inl e
                | Inr ss' \<Rightarrow> Inr (dev\<lparr>dv_Services := Some ss'\<rparr>))))"

definition SetLastBuiltAnnotation :: "string \<Rightarrow> 's dev \<Rightarrow> devErr + 's dev" where
  "SetLastBuiltAnnotation now dev =
     (case dv_Metadata dev of
        None \<Rightarrow> Inl DevPanic
      | Some m \<Rightarrow>
          Inr (dev\<lparr>dv_Metadata :=
                 Some (m\<lparr>md_Annotations := Some (gput LastBuiltAnnotation now (elems (md_Annotations m)))\<rparr>)\<rparr>))"

section \<open>The translation rule\<close>

definition mkVar :: "string \<Rightarrow> string \<Rightarrow> var" where
  "mkVar n v = \<lparr>va_Name = n, va_Value = v\<rparr>"

definition mkMount :: "string \<Rightarrow> string \<Rightarrow> string \<Rightarrow> ruleMount" where
  "mkMount n p sub = \<lparr>rm_Name = n, rm_MountPath = p, rm_SubPath = sub\<rparr>"

lemma mkMount_simps [simp]:
  "rm_Name (mkMount n p s) = n" "rm_MountPath (mkMount n p s) = p" "rm_SubPath (mkMount n p s) = s"
  by (simp_all add: mkMount_def)

definition addEnvs :: "environment \<Rightarrow> translationRule \<Rightarrow> translationRule" where
  "addEnvs vs r = r\<lparr>tr_Environment := tr_Environment r @ vs\<rparr>"

definition addMounts :: "ruleMount list \<Rightarrow> translationRule \<Rightarrow> translationRule" where
  "addMounts ms r = r\<lparr>tr_Volumes := tr_Volumes r @ ms\<rparr>"

definition TranslatePodAffinity :: "translationRule \<Rightarrow> translationRule" where
  "TranslatePodAffinity r =
     (let a = (case tr_Affinity r of
                 None \<Rightarrow> \<lparr>aff_NodeAffinity = None, aff_PodAffinity = None, aff_PodAntiAffinity = None\<rparr>
               | Some a \<Rightarrow> a)
      in r\<lparr>tr_Affinity := Some (a\<lparr>aff_PodAffinity := Some (elems (aff_PodAffinity a))\<rparr>)\<rparr>)"

text \<open>The composite literal and the assignments up to the test whether the container is the main one.\<close>

definition baseRule :: "'t dev \<Rightarrow> 's dev \<Rightarrow> string \<Rightarrow> string \<Rightarrow> translationRule" where
  "baseRule main dev namespace manifestName =
     (let pv = PersistentVolumeEnabled main
      in \<lparr>tr_InitContainer = dv_InitContainer dev, tr_Resources = dv_Resources dev,
          tr_SecurityContext = dv_SecurityContext dev, tr_Probes = dv_Probes dev,
          tr_Lifecycle = dv_Lifecycle dev, tr_NodeSelector = dv_NodeSelector dev,
          tr_Affinity = dv_Affinity dev, tr_ServiceAccount = dv_ServiceAccount dev,
          tr_PriorityClassName = dv_PriorityClassName main,
          tr_WorkDir = (if IsHybridModeEnabled dev then ''/okteto'' else dv_Workdir dev),
          tr_Marker = [], tr_OktetoBinImageTag = [], tr_Container = dv_Container dev,
          tr_Image = dv_Image dev, tr_ImagePullPolicy = dv_ImagePullPolicy dev,
          tr_Environment = dv_Environment dev, tr_Secrets = elems (dv_Secrets dev),
          tr_Command = [], tr_Args = [], tr_Volumes = [],
          tr_Healthchecks = areProbesEnabled (dv_Probes dev), tr_PersistentVolume = pv,
          tr_MainVolumeName = (if pv then GetVolumeName main else []),
          tr_VolumeAccessMode = (if pv then PersistentVolumeAccessMode main else []),
          tr_Namespace = (if pv then namespace else []),
          tr_ManifestName = (if pv then manifestName else [])\<rparr>)"

definition secretArgs :: "secret \<Rightarrow> string list" where
  "secretArgs s =
     (let filename = (if contains (GetFileName s) ''.stignore'' then Base (se_LocalPath s) else GetFileName s)
      in [''-s'', filename @ '':'' @ se_RemotePath s])"

definition mainRule :: "devWorld \<Rightarrow> 's dev \<Rightarrow> string \<Rightarrow> string \<Rightarrow> bool \<Rightarrow> translationRule \<Rightarrow> translationRule" where
  "mainRule dw dev namespace username reset r =
     (let vol = GetVolumeName dev;
          r = r\<lparr>tr_Marker := GetCliImage dw, tr_OktetoBinImageTag := ic_Image (dv_InitContainer dev)\<rparr>;
          r = addEnvs
                ([mkVar ''OKTETO_NAMESPACE'' namespace, mkVar ''OKTETO_NAME'' (dv_Name dev)]
                 @ (if username \<noteq> [] then [mkVar ''OKTETO_USERNAME'' username] else [])
                 @ (if dv_SSHServerPort dev \<noteq> oktetoDefaultSSHServerPort
                    then [mkVar oktetoSSHServerPortVariable (showInt (dv_SSHServerPort dev))] else [])) r;
          r = addMounts
                ([mkMount vol OktetoSyncthingMountPath SyncthingSubPath,
                  mkMount vol ''/var/syncthing/data'' ''syncthing-data'']
                 @ (if RemoteModeEnabled dw dev then [mkMount vol RemoteMountPath RemoteSubPath] else [])) r
      in r\<lparr>tr_Command := [''/var/okteto/bin/start.sh''],
           tr_Args := (if RemoteModeEnabled dw dev then [''-r''] else [])
             @ (if reset then [''-e''] else [])
             @ (if sy_Verbose (dv_Sync dev) then [''-v''] else [])
             @ concat (map secretArgs (tr_Secrets r))\<rparr>)"

definition serviceRule :: "'t dev \<Rightarrow> 's dev \<Rightarrow> translationRule \<Rightarrow> translationRule" where
  "serviceRule main dev r =
     (let r = (if PersistentVolumeAccessMode main \<noteq> ReadWriteMany then TranslatePodAffinity r else r)
      in if dv_Args dev \<noteq> [] then r\<lparr>tr_Args := dv_Args dev\<rparr>
         else if elems (dv_Command dev) \<noteq> [] then r\<lparr>tr_Command := elems (dv_Command dev), tr_Args := []\<rparr>
         else r)"

fun sourceMounts :: "'t dev \<Rightarrow> syncFolder list \<Rightarrow> ruleMount list \<times> 't dev" where
  "sourceMounts main [] = ([], main)"
| "sourceMounts main (f # fs) =
     (case getSourceSubPath main (dvo_LocalPath f) of
        (sub, main') \<Rightarrow>
          (case sourceMounts main' fs of
             (ms, main'') \<Rightarrow> (mkMount (GetVolumeName main) (dvo_RemotePath f) sub # ms, main'')))"

definition dataMount :: "'t dev \<Rightarrow> devVolume \<Rightarrow> ruleMount" where
  "dataMount main v = mkMount (GetVolumeName main) (dvo_RemotePath v) (getDataSubPath (dvo_RemotePath v))"

definition enableHistoryVolume :: "'t dev \<Rightarrow> translationRule \<Rightarrow> translationRule" where
  "enableHistoryVolume main r =
     addEnvs
       [mkVar ''HISTSIZE'' ''10000000'', mkVar ''HISTFILESIZE'' ''10000000'',
        mkVar ''HISTCONTROL'' ''ignoreboth:erasedups'',
        mkVar ''HISTFILE'' ''/var/okteto/bashrc/.bash_history'', mkVar ''BASHOPTS'' ''histappend'',
        mkVar ''PROMPT_COMMAND'' ''history -a ; history -c ; history -r'']
       (addMounts [mkMount (GetVolumeName main) ''/var/okteto/bashrc'' ''okteto-bash-history''] r)"

definition externalMount :: "externalVolume \<Rightarrow> ruleMount" where
  "externalMount v = mkMount (xv_Name v) (xv_MountPath v) (xv_SubPath v)"

text \<open>The flag is \<open>main == dev\<close>; the second result is \<open>main\<close>, whose parent folder may have been set.\<close>

definition ToTranslationRule :: "devWorld \<Rightarrow> bool \<Rightarrow> 't dev \<Rightarrow> 's dev \<Rightarrow> string \<Rightarrow> string \<Rightarrow> string \<Rightarrow> bool
    \<Rightarrow> translationRule \<times> 't dev" where
  "ToTranslationRule dw isMain main dev namespace manifestName username reset =
     (let r = baseRule main dev namespace manifestName;
          r = (if isMain then mainRule dw dev namespace username reset r else serviceRule main dev r);
          (r, main) =
            (if PersistentVolumeEnabled main then
               case sourceMounts main (folders dev) of
                 (ms, main') \<Rightarrow>
                   (enableHistoryVolume main (addMounts ms (addMounts (map (dataMount main) (dv_Volumes dev)) r)),
                    main')
             else (r, main))
      in (addMounts (map externalMount (elems (dv_ExternalVolumes dev))) r, main))"

section \<open>Defaults are complete and idempotent\<close>

lemma fillMetadata_idem [simp]: "fillMetadata (Some (fillMetadata m)) = fillMetadata m"
  by (simp add: fillMetadata_def Let_def)

lemma fillProbes_Some [simp]: "fillProbes (Some p) = p"
  by (simp add: fillProbes_def)

lemma fillLifecycle_Some [simp]: "fillLifecycle (Some l) = l"
  by (simp add: fillLifecycle_def)

lemma orDefault_idem [simp]: "d \<noteq> [] \<Longrightarrow> orDefault (orDefault s d) d = orDefault s d"
  by (simp add: orDefault_def)

lemma orDefault_nonempty [simp]: "d \<noteq> [] \<Longrightarrow> orDefault s d \<noteq> []"
  by (simp add: orDefault_def)

lemma sortForward_idem [simp]: "sortForward (sortForward fs) = sortForward fs"
  unfolding sortForward_def by (rule sort_key_id_if_sorted) simp

text \<open>The security context the defaults give a container that may run as root.\<close>

definition runAsDefaults :: "devSecurityContext option \<Rightarrow> devSecurityContext" where
  "runAsDefaults sco =
     (let sc = (case sco of None \<Rightarrow> emptySecurityContext | Some sc \<Rightarrow> sc);
          user = (case dsc_RunAsUser sc of None \<Rightarrow> 0 | Some u \<Rightarrow> u)
      in sc\<lparr>dsc_RunAsUser := Some user,
            dsc_RunAsGroup := Some (case dsc_RunAsGroup sc of None \<Rightarrow> user | Some g \<Rightarrow> g),
            dsc_FSGroup := Some (case dsc_FSGroup sc of None \<Rightarrow> user | Some g \<Rightarrow> g)\<rparr>)"

definition securityDefaults :: "bool \<Rightarrow> devSecurityContext option \<Rightarrow> devSecurityContext option" where
  "securityDefaults pv sco =
     (if pv \<and> \<not> (case sco of None \<Rightarrow> False | Some sc \<Rightarrow> dsc_RunAsNonRoot sc = Some True)
      then Some (runAsDefaults sco) else sco)"

lemma RunAsNonRoot_iff:
  "RunAsNonRoot dev \<longleftrightarrow>
     (case dv_SecurityContext dev of None \<Rightarrow> False | Some sc \<Rightarrow> dsc_RunAsNonRoot sc = Some True)"
  by (auto simp: RunAsNonRoot_def split: option.split)

lemma setRunAsUserDefaults_eq:
  "setRunAsUserDefaults main dev =
     dev\<lparr>dv_SecurityContext := securityDefaults (PersistentVolumeEnabled main) (dv_SecurityContext dev)\<rparr>"
proof (cases "PersistentVolumeEnabled main \<and> \<not> RunAsNonRoot dev")
  case True
  then have "securityDefaults (PersistentVolumeEnabled main) (dv_SecurityContext dev)
      = Some (runAsDefaults (dv_SecurityContext dev))"
    by (simp add: securityDefaults_def RunAsNonRoot_iff)
  moreover have "setRunAsUserDefaults main dev
      = dev\<lparr>dv_SecurityContext := Some (runAsDefaults (dv_SecurityContext dev))\<rparr>"
    using True
    by (simp add: setRunAsUserDefaults_def runAsDefaults_def Let_def emptySecurityContext_def split: option.split)
  ultimately show ?thesis by simp
next
  case False
  then have "securityDefaults (PersistentVolumeEnabled main) (dv_SecurityContext dev) = dv_SecurityContext dev"
    by (auto simp: securityDefaults_def RunAsNonRoot_iff)
  moreover have "setRunAsUserDefaults main dev = dev"
    using False by (auto simp: setRunAsUserDefaults_def)
  ultimately show ?thesis by simp
qed

lemma securityDefaults_idem [simp]: "securityDefaults pv (securityDefaults pv sco) = securityDefaults pv sco"
  by (cases sco) (auto simp: securityDefaults_def runAsDefaults_def Let_def emptySecurityContext_def split: option.split)

definition timeoutDefaults :: "devWorld \<Rightarrow> timeout \<Rightarrow> devErr + timeout" where
  "timeoutDefaults dw t =
     (case (if to_Default t \<noteq> 0 then Inr (to_Default t) else GetTimeout dw) of
        Inl e \<Rightarrow> Inl e
      | Inr d \<Rightarrow> Inr \<lparr>to_Default = d,
                     to_Resources = (if to_Resources t = 0 then 120 * 10 ^ 9 else to_Resources t)\<rparr>)"

lemma setTimeout_eq:
  "setTimeout dw dev = (case timeoutDefaults dw (dv_Timeout dev) of
      Inl e \<Rightarrow> Inl e | Inr t \<Rightarrow> Inr (dev\<lparr>dv_Timeout := t\<rparr>))"
  by (simp add: setTimeout_def timeoutDefaults_def Let_def split: sum.split)

lemma timeoutDefaults_idem:
  "timeoutDefaults dw t = Inr t' \<Longrightarrow> timeoutDefaults dw t' = Inr t'"
  by (auto simp: timeoutDefaults_def split: sum.splits if_splits)

definition rescanDefaults :: "devWorld \<Rightarrow> sync \<Rightarrow> devErr + sync" where
  "rescanDefaults dw s =
     (let v = denv dw OktetoRescanIntervalEnvVar
      in if v \<noteq> [] then
           case parseInt 64 v of
             None \<Rightarrow> Inl (DevRescanInterval v)
           | Some n \<Rightarrow> Inr (s\<lparr>sy_RescanInterval := n\<rparr>)
         else if sy_RescanInterval s = 0 then
           Inr (s\<lparr>sy_RescanInterval := DefaultSyncthingRescanInterval\<rparr>)
         else Inr s)"

lemma setRescanInterval_eq:
  "setRescanInterval dw dev = (case rescanDefaults dw (dv_Sync dev) of
      Inl e \<Rightarrow> Inl e | Inr s \<Rightarrow> Inr (dev\<lparr>dv_Sync := s\<rparr>))"
  by (simp add: setRescanInterval_def rescanDefaults_def Let_def split: option.split)

lemma rescanDefaults_idem:
  "rescanDefaults dw s = Inr s' \<Longrightarrow> rescanDefaults dw s' = Inr s'"
  by (auto simp: rescanDefaults_def Let_def split: option.splits if_splits)

definition serviceReady :: "bool \<Rightarrow> devService \<Rightarrow> bool" where
  "serviceReady pv s \<longleftrightarrow>
     dv_ImagePullPolicy s \<noteq> [] \<and> dv_Metadata s = Some (fillMetadata (dv_Metadata s))
     \<and> dv_Selector s \<noteq> None \<and> dv_SecurityContext s = securityDefaults pv (dv_SecurityContext s)
     \<and> dv_Forward s = Some [] \<and> dv_Reverse s = Some [] \<and> dv_Secrets s = Some []
     \<and> dv_Services s = Some [] \<and> \<not> sy_Compression (dv_Sync s)
     \<and> sy_RescanInterval (dv_Sync s) = DefaultSyncthingRescanInterval
     \<and> dv_Probes s \<noteq> None \<and> dv_Lifecycle s \<noteq> None"

definition devReady :: "mainDev \<Rightarrow> bool" where
  "devReady d \<longleftrightarrow>
     dv_Command d \<noteq> None \<and> sorted (map forwardKey (elems (dv_Forward d)))
     \<and> to_Resources (dv_Timeout d) \<noteq> 0 \<and> dv_ImagePullPolicy d \<noteq> []
     \<and> dv_Metadata d = Some (fillMetadata (dv_Metadata d)) \<and> dv_Selector d \<noteq> None
     \<and> ic_Image (dv_InitContainer d) \<noteq> [] \<and> dv_Probes d \<noteq> None \<and> dv_Lifecycle d \<noteq> None
     \<and> dv_Interface d \<noteq> [] \<and> dv_SSHServerPort d \<noteq> 0 \<and> dv_Mode d \<noteq> []
     \<and> dv_SecurityContext d = securityDefaults (PersistentVolumeEnabled d) (dv_SecurityContext d)
     \<and> list_all (serviceReady (PersistentVolumeEnabled d)) (elems (dv_Services d))"

lemma serviceDefaults_ready: "serviceReady (PersistentVolumeEnabled main) (serviceDefaults main s)"
  by (simp add: serviceReady_def serviceDefaults_def setRunAsUserDefaults_eq Let_def go_consts)

lemma serviceReady_fixpoint:
  assumes "serviceReady (PersistentVolumeEnabled main) s"
  shows "serviceDefaults main s = s"
  using assms
  by (intro dev.equality)
    (auto simp: serviceReady_def serviceDefaults_def setRunAsUserDefaults_eq Let_def orDefault_def)

text \<open>The container \<open>SetDefaults\<close> returns, field by field.\<close>

definition withDefaults :: "devWorld \<Rightarrow> timeout \<Rightarrow> sync \<Rightarrow> mainDev \<Rightarrow> mainDev" where
  "withDefaults dw t sy d =
     (fieldDefaults dw d)
       \<lparr>dv_Command := Some (case dv_Command d of None \<Rightarrow> [''sh''] | Some c \<Rightarrow> c),
        dv_Forward := map_option sortForward (dv_Forward d), dv_Timeout := t,
        dv_SecurityContext := securityDefaults (PersistentVolumeEnabled d) (dv_SecurityContext d),
        dv_Sync := sy,
        dv_Services := map_option (map (serviceDefaults d)) (dv_Services d),
        dv_Mode := orDefault (dv_Mode d) OktetoSyncModeFieldValue\<rparr>"

lemma SetDefaults_eq:
  "SetDefaults dw d =
     (case timeoutDefaults dw (dv_Timeout d) of
        Inl e \<Rightarrow> Inl e
      | Inr t \<Rightarrow> (case rescanDefaults dw (dv_Sync d) of
                    Inl e \<Rightarrow> Inl e
                  | Inr sy \<Rightarrow> Inr (withDefaults dw t sy d)))"
  by (simp add: SetDefaults_def setTimeout_eq setRescanInterval_eq setRunAsUserDefaults_eq
      withDefaults_def fieldDefaults_def serviceDefaults_def [abs_def] Let_def
      PersistentVolumeEnabled_def split: sum.split)

lemma withDefaults_ready:
  assumes "to_Resources t \<noteq> 0"
  shows "devReady (withDefaults dw t sy d)"
proof -
  have "list_all (serviceReady (PersistentVolumeEnabled d)) (map (serviceDefaults d) ss)" for ss
    by (simp add: list_all_iff serviceDefaults_ready)
  with assms show ?thesis
    using GetCliImage_not_Nil [of dw]
    by (cases "dv_Services d"; cases "dv_Forward d")
      (simp_all add: devReady_def withDefaults_def fieldDefaults_def PersistentVolumeEnabled_def
        sortForward_def go_consts oktetoDefaultSSHServerPort_def)
qed

lemma withDefaults_fixpoint:
  assumes "devReady d"
  shows "withDefaults dw (dv_Timeout d) (dv_Sync d) d = d"
proof -
  have svc: "map_option (map (serviceDefaults d)) (dv_Services d) = dv_Services d"
    using assms serviceReady_fixpoint [of d]
    by (cases "dv_Services d") (auto simp: devReady_def list_all_iff intro: map_idI)
  have fwd: "map_option sortForward (dv_Forward d) = dv_Forward d"
    using assms by (cases "dv_Forward d") (auto simp: devReady_def sortForward_def intro: sort_key_id_if_sorted)
  show ?thesis
    using assms svc fwd
    by (intro dev.equality) (auto simp: withDefaults_def fieldDefaults_def devReady_def orDefault_def)
qed


section \<open>What validation accepts\<close>

lemma firstErr_None: "firstErr es = None \<longleftrightarrow> list_all (\<lambda>e. e = None) es"
  by (induction es rule: firstErr.induct) simp_all

lemma firstErr_map: "firstErr (map f xs) = None \<longleftrightarrow> list_all (\<lambda>x. f x = None) xs"
  by (simp add: firstErr_None list_all_iff)

definition absoluteNotRoot :: "string \<Rightarrow> bool" where
  "absoluteNotRoot p \<longleftrightarrow> hasPrefix p ''/'' \<and> p \<noteq> ''/''"

lemma validateRemotePath_None: "validateRemotePath e e' p = None \<longleftrightarrow> absoluteNotRoot p"
  by (simp add: validateRemotePath_def absoluteNotRoot_def)

lemma validateDuplicatedVolumes_None:
  "validateDuplicatedVolumes seen vs = None \<longleftrightarrow>
     distinct (map dvo_RemotePath vs) \<and> set seen \<inter> dvo_RemotePath ` set vs = {}"
  by (induction seen vs rule: validateDuplicatedVolumes.induct) auto

text \<open>The folders that are not inside another one.\<close>

definition rootFolders :: "'s dev \<Rightarrow> syncFolder list \<Rightarrow> syncFolder list" where
  "rootFolders dev fs = filter (\<lambda>f. IsSubPathFolder dev (dvo_LocalPath f) \<noteq> Inr True) fs"

definition comparable :: "'s dev \<Rightarrow> syncFolder \<Rightarrow> bool" where
  "comparable dev f \<longleftrightarrow>
     (case IsSubPathFolder dev (dvo_LocalPath f) of Inl e \<Rightarrow> False | Inr r \<Rightarrow> True)"

lemma duplicatedSyncLoop_None:
  "duplicatedSyncLoop dev seen roots fs = None \<longleftrightarrow>
     distinct (map syncKey fs) \<and> set seen \<inter> syncKey ` set fs = {}
     \<and> list_all (comparable dev) fs
     \<and> distinct (map dvo_LocalPath (rootFolders dev fs))
     \<and> set roots \<inter> dvo_LocalPath ` set (rootFolders dev fs) = {}"
proof (induction fs arbitrary: seen roots)
  case Nil
  then show ?case by (simp add: rootFolders_def)
next
  case (Cons f fs)
  show ?case
  proof (cases "IsSubPathFolder dev (dvo_LocalPath f)")
    case (Inl e)
    then show ?thesis by (simp add: comparable_def)
  next
    case (Inr r)
    show ?thesis
    proof (cases r)
      case True
      with Inr Cons show ?thesis by (auto simp: comparable_def rootFolders_def)
    next
      case False
      with Inr Cons show ?thesis by (auto simp: comparable_def rootFolders_def)
    qed
  qed
qed

lemma validateSecrets_None:
  "validateSecrets dw seen ss = None \<longleftrightarrow>
     list_all (\<lambda>s. validateSecret dw s = None) ss
     \<and> distinct (map GetFileName ss) \<and> set seen \<inter> GetFileName ` set ss = {}"
  by (induction dw seen ss rule: validateSecrets.induct) (auto split: option.split)

definition acceptedFolders :: "'s dev \<Rightarrow> bool" where
  "acceptedFolders d \<longleftrightarrow>
     folders d \<noteq> []
     \<and> list_all (\<lambda>v. absoluteNotRoot (dvo_RemotePath v)) (dv_Volumes d @ folders d)
     \<and> distinct (map dvo_RemotePath (dv_Volumes d))
     \<and> distinct (map syncKey (folders d))
     \<and> list_all (comparable d) (folders d)
     \<and> distinct (map dvo_LocalPath (rootFolders d (folders d)))"

lemma validateVolumes_None:
  fixes main :: "'t dev option"
  shows "validateVolumes main d = None \<longleftrightarrow>
     acceptedFolders d
     \<and> (case main of None \<Rightarrow> True | Some m \<Rightarrow> list_all (comparable m) (folders d))"
proof -
  have svc: "validateServiceSyncFolder m f = None \<longleftrightarrow> comparable m f" for m :: "'t dev" and f
    by (simp add: validateServiceSyncFolder_def comparable_def split: sum.split)
  have svcs: "list_all (\<lambda>e. e = None) (map (validateServiceSyncFolder m) fs) \<longleftrightarrow> list_all (comparable m) fs"
    for m :: "'t dev" and fs
    by (simp add: list_all_iff svc)
  have "validateRemotePaths d = None \<longleftrightarrow>
      list_all (\<lambda>v. absoluteNotRoot (dvo_RemotePath v)) (dv_Volumes d @ folders d)"
    by (simp add: validateRemotePaths_def firstErr_None validateRemotePath_None list_all_iff ball_Un)
  then show ?thesis
    by (cases main)
      (simp_all add: validateVolumes_def acceptedFolders_def firstErr_None svcs conj_ac
        validateDuplicatedVolumes_None validateDuplicatedSyncFolders_def duplicatedSyncLoop_None
        validateServiceSyncFolders_def)
qed

definition knownPullPolicy :: "string \<Rightarrow> bool" where
  "knownPullPolicy p \<longleftrightarrow> p \<in> {''Always'', ''IfNotPresent'', ''Never''}"

lemma validatePullPolicy_None: "validatePullPolicy p = None \<longleftrightarrow> knownPullPolicy p"
  by (simp add: validatePullPolicy_def knownPullPolicy_def go_consts)

definition validSecret :: "devWorld \<Rightarrow> secret \<Rightarrow> bool" where
  "validSecret dw s \<longleftrightarrow>
     se_LocalPath s \<noteq> [] \<and> statPath dw (se_LocalPath s) = StatFile \<and> hasPrefix (se_RemotePath s) ''/''"

lemma validateSecret_None: "validateSecret dw s = None \<longleftrightarrow> validSecret dw s"
  by (auto simp: validateSecret_def validSecret_def hasPrefix_def)

definition wellFormedDev :: "devWorld \<Rightarrow> mainDev \<Rightarrow> bool" where
  "wellFormedDev dw d \<longleftrightarrow>
     dv_Name d \<noteq> [] \<and> list_all validKubeChar (dv_Name d)
     \<and> hd (dv_Name d) \<noteq> CHR ''-'' \<and> last (dv_Name d) \<noteq> CHR ''-''
     \<and> dv_Replicas d = None \<and> knownPullPolicy (dv_ImagePullPolicy d)
     \<and> list_all (validSecret dw) (elems (dv_Secrets d))
     \<and> distinct (map GetFileName (elems (dv_Secrets d)))
     \<and> \<not> (isRootUser d \<and> RunAsNonRoot d)
     \<and> (PersistentVolumeEnabled d
        \<or> elems (dv_Services d) = [] \<and> dv_Volumes d = []
          \<and> list_all (\<lambda>f. IsSubPathFolder d (dvo_LocalPath f) = Inr False) (folders d))
     \<and> acceptedFolders d
     \<and> list_all (\<lambda>v. absoluteNotRoot (xv_MountPath v)) (elems (dv_ExternalVolumes d))
     \<and> list_all (\<lambda>f. statPath dw (dvo_LocalPath f) = StatDir) (folders d)
     \<and> de_ParseQuantity dw (PersistentVolumeSize dw d) \<noteq> None
     \<and> 0 < dv_SSHServerPort d
     \<and> list_all (\<lambda>s. knownPullPolicy (dv_ImagePullPolicy s) \<and> acceptedFolders s
                     \<and> list_all (comparable d) (folders s)) (elems (dv_Services d))"

lemma validateDevName_None:
  "n \<noteq> [] \<Longrightarrow> validateDevName n = None \<longleftrightarrow>
     list_all validKubeChar n \<and> hd n \<noteq> CHR ''-'' \<and> last n \<noteq> CHR ''-''"
  by (auto simp: validateDevName_def hasPrefix1 hasSuffix1 list_all_iff list_ex_iff)

lemma validatePersistentVolume_None:
  "validatePersistentVolume d = None \<longleftrightarrow>
     PersistentVolumeEnabled d
     \<or> elems (dv_Services d) = [] \<and> dv_Volumes d = []
       \<and> list_all (\<lambda>f. IsSubPathFolder d (dvo_LocalPath f) = Inr False) (folders d)"
proof -
  have "validateSubfolder d f = None \<longleftrightarrow> IsSubPathFolder d (dvo_LocalPath f) = Inr False" for f
    by (auto simp: validateSubfolder_def split: sum.split)
  then show ?thesis by (simp add: validatePersistentVolume_def firstErr_map)
qed

lemma validateSync_None:
  "validateSync dw d = None \<longleftrightarrow> list_all (\<lambda>f. statPath dw (dvo_LocalPath f) = StatDir) (folders d)"
proof -
  have "validateSyncFolder dw f = None \<longleftrightarrow> statPath dw (dvo_LocalPath f) = StatDir" for f
    by (simp add: validateSyncFolder_def split: statResult.split)
  then show ?thesis by (simp add: validateSync_def firstErr_map)
qed

lemmas validate_None =
  firstErr_None validateDevName_None validatePullPolicy_None validateSecrets_None
  validateSecret_None validatePersistentVolume_None validateVolumes_None validateSync_None

text \<open>C24. \<open>Validate\<close> accepts a development container exactly when its name is a valid resource name,
  it has folders to synchronize with absolute remote paths and no duplicates, its secrets are regular
  files with distinct base names, it does not run as root against its own security context, a
  container without a persistent volume has no services, volumes or nested folders, every local folder
  is a directory, and every service synchronizes folders of the main container only.\<close>

theorem devValidate_exact: "devValidate dw d = None \<longleftrightarrow> wellFormedDev dw d"
proof -
  have svc: "validateDevService d s = None \<longleftrightarrow>
      knownPullPolicy (dv_ImagePullPolicy s) \<and> acceptedFolders s \<and> list_all (comparable d) (folders s)" for s
    by (simp add: validateDevService_def validate_None)
  have ext: "validateExternalVolumes d = None \<longleftrightarrow>
      list_all (\<lambda>v. absoluteNotRoot (xv_MountPath v)) (elems (dv_ExternalVolumes d))"
    by (simp add: validateExternalVolumes_def firstErr_map validateExternalVolume_def validateRemotePath_None)
  have sec: "validateSecurityContext d = None \<longleftrightarrow> \<not> (isRootUser d \<and> RunAsNonRoot d)"
    by (simp add: validateSecurityContext_def)
  have svcs: "list_all (\<lambda>e. e = None) (map (validateDevService d) ss) \<longleftrightarrow>
      list_all (\<lambda>s. validateDevService d s = None) ss" for ss
    by (simp add: list_all_iff)
  show ?thesis
    by (auto simp: devValidate_def wellFormedDev_def validate_None svcs svc ext sec)
qed

section \<open>Absolute clean paths\<close>

text \<open>The elements of a cleaned absolute path: no dots and no parent references.\<close>

definition plainElem :: "string \<Rightarrow> bool" where
  "plainElem e \<longleftrightarrow> normalElem e \<and> e \<noteq> ''..''"

definition absPath :: "string list \<Rightarrow> string" where
  "absPath es = CHR ''/'' # join ''/'' es"

definition syncPath :: "string \<Rightarrow> bool" where
  "syncPath p \<longleftrightarrow> IsAbs p \<and> Clean p = p \<and> p \<noteq> ''/''"

lemma IsAbs_absPath [simp]: "IsAbs (absPath es)"
  by (simp add: IsAbs_def absPath_def hasPrefix_def)

lemma cleanElems_plain: "list_all plainElem es \<Longrightarrow> cleanElems r out es = rev out @ es"
  by (induction es arbitrary: out) (auto simp: plainElem_def normalElem_def)

lemma plain_cleanElems:
  assumes "list_all plainElem out" and "\<forall>e \<in> set es. CHR ''/'' \<notin> set e"
  shows "list_all plainElem (cleanElems True out es)"
  using assms
proof (induction es arbitrary: out)
  case Nil
  then show ?case by simp
next
  case (Cons e es)
  have "plainElem e \<or> e = [] \<or> e = ''.'' \<or> e = ''..''"
    using Cons.prems by (auto simp: plainElem_def normalElem_def)
  moreover have "\<forall>e \<in> set es. CHR ''/'' \<notin> set e" using Cons.prems by simp
  ultimately show ?case
    using Cons.IH Cons.prems(1) by (cases out) (auto simp: plainElem_def)
qed

lemma plain_pathElems: "IsAbs p \<Longrightarrow> list_all plainElem (pathElems p)"
  unfolding pathElems_def by (auto intro!: plain_cleanElems dest: split_no_sep)

lemma plain_no_slash: "list_all plainElem es \<Longrightarrow> \<forall>e \<in> set es. CHR ''/'' \<notin> set e"
  by (auto simp: list_all_iff plainElem_def normalElem_def)

lemma split_absPath: "es \<noteq> [] \<Longrightarrow> list_all plainElem es \<Longrightarrow> split (CHR ''/'') (absPath es) = [] # es"
  using split_join [of es "CHR ''/''"] plain_no_slash by (simp add: absPath_def)

lemma pathElems_absPath [simp]:
  assumes "list_all plainElem es"
  shows "pathElems (absPath es) = es"
proof (cases "es = []")
  case True
  then show ?thesis by (simp add: pathElems_def absPath_def)
next
  case False
  with assms show ?thesis by (simp add: pathElems_def split_absPath cleanElems_plain)
qed

lemma Clean_absPath [simp]: "list_all plainElem es \<Longrightarrow> Clean (absPath es) = absPath es"
  by (simp add: Clean_def unelems_def) (simp add: absPath_def)

lemma syncPath_absPath:
  assumes "syncPath p"
  obtains es where "p = absPath es" and "es \<noteq> []" and "list_all plainElem es"
proof
  from assms have abs: "IsAbs p" and cl: "Clean p = p" and "p \<noteq> ''/''" by (simp_all add: syncPath_def)
  from cl abs show p: "p = absPath (pathElems p)" by (simp add: Clean_def unelems_def absPath_def)
  show "pathElems p \<noteq> []"
  proof
    assume "pathElems p = []"
    with p have "p = ''/''" by (simp add: absPath_def)
    with \<open>p \<noteq> ''/''\<close> show False by simp
  qed
  show "list_all plainElem (pathElems p)" using abs by (rule plain_pathElems)
qed

lemma absPath_inj [simp]:
  "list_all plainElem es \<Longrightarrow> list_all plainElem es' \<Longrightarrow> absPath es = absPath es' \<longleftrightarrow> es = es'"
  using pathElems_absPath by metis

lemma Rel_absPath:
  assumes "list_all plainElem (es @ ts)"
  shows "Rel (absPath es) (absPath (es @ ts)) = Some (if ts = [] then ''.'' else join ''/'' ts)"
proof -
  have strip: "stripCommon es (es @ ts) = ([], ts)" by (induction es) simp_all
  have "list_all plainElem es" using assms by simp
  with assms strip show ?thesis by (auto simp: Rel_def)
qed

lemma join_snoc: "es \<noteq> [] \<Longrightarrow> join sep (es @ [e]) = join sep es @ sep @ e"
  by (induction sep es rule: join.induct) simp_all

lemma pathElems_join:
  assumes "list_all plainElem (es @ es')" and "es' \<noteq> []"
  shows "pathElems (absPath es @ ''/'' @ join ''/'' es') = es @ es'"
proof -
  have sp: "split (CHR ''/'') (join ''/'' es') = es'"
    using split_join [of es' "CHR ''/''"] plain_no_slash [of es'] assms by simp
  have app: "split c (s @ c # t) = split c s @ split c t" for c :: char and s t
    by (induction s) (auto split: list.splits)
  have "split (CHR ''/'') (absPath es @ ''/'' @ join ''/'' es')
      = split (CHR ''/'') (absPath es) @ es'"
    using app [of "CHR ''/''" "absPath es" "join ''/'' es'"] sp by simp
  moreover have "split (CHR ''/'') (absPath es) = [] # (if es = [] then [[]] else es)"
    using assms split_absPath [of es] by (auto simp: absPath_def)
  moreover have "cleanElems True [] (([] # (if es = [] then [[]] else es)) @ es') = es @ es'"
    using cleanElems_plain [of "es @ es'" True "[]"] cleanElems_plain [of es' True "[]"] assms by simp
  moreover have "IsAbs (absPath es @ ''/'' @ join ''/'' es')"
    by (simp add: IsAbs_def absPath_def hasPrefix_def)
  ultimately show ?thesis by (simp add: pathElems_def)
qed

lemma joinPaths_absPath:
  assumes "list_all plainElem (es @ [e])"
  shows "joinPaths [absPath es, e] = absPath (es @ [e])"
proof -
  have "pathElems (absPath es @ ''/'' @ e) = es @ [e]"
    using pathElems_join [of es "[e]"] assms by simp
  moreover have "IsAbs (absPath es @ ''/'' @ e)"
    by (simp add: IsAbs_def absPath_def hasPrefix_def)
  ultimately have "Clean (absPath es @ ''/'' @ e) = absPath (es @ [e])"
    by (simp add: Clean_def unelems_def absPath_def)
  moreover have "absPath es \<noteq> []" by (simp add: absPath_def)
  ultimately show ?thesis by (simp add: joinPaths_def)
qed

lemma joinSplits_absPath:
  "list_all plainElem (es @ es') \<Longrightarrow> joinSplits (absPath es) es' = absPath (es @ es')"
proof (induction es' arbitrary: es)
  case Nil
  then show ?case by simp
next
  case (Cons e es')
  then have "joinPaths [absPath es, e] = absPath (es @ [e])" by (intro joinPaths_absPath) simp
  moreover have "joinSplits (absPath (es @ [e])) es' = absPath ((es @ [e]) @ es')"
    using Cons.prems by (intro Cons.IH) simp
  ultimately show ?case by simp
qed

text \<open>A path below a relative directory: the sub paths of the volume.\<close>

lemma pathElems_rel:
  assumes "list_all plainElem (d # es)"
  shows "pathElems (join ''/'' (d # es)) = d # es"
proof -
  have "\<not> IsAbs (join ''/'' (d # es))"
    using assms by (cases es; cases d) (auto simp: IsAbs_def hasPrefix_def plainElem_def normalElem_def)
  moreover have "split (CHR ''/'') (join ''/'' (d # es)) = d # es"
    using split_join [of "d # es" "CHR ''/''"] plain_no_slash [OF assms] by simp
  ultimately show ?thesis using cleanElems_plain [OF assms, of False "[]"] by (simp add: pathElems_def)
qed

lemma joinPaths_rel:
  assumes "list_all plainElem (d # es)"
  shows "joinPaths [d, if es = [] then ''.'' else join ''/'' es] = join ''/'' (d # es)"
proof -
  have d: "d \<noteq> []" "\<not> IsAbs d" "CHR ''/'' \<notin> set d"
    using assms by (auto simp: plainElem_def normalElem_def IsAbs_def hasPrefix_def prefix_def)
  have nabs: "\<not> IsAbs (d @ x)" for x
    using d by (cases d) (auto simp: IsAbs_def hasPrefix_def)
  show ?thesis
  proof (cases "es = []")
    case True
    have "split (CHR ''/'') (d @ ''/.'') = [d, ''.'']"
      using split_join [of "[d, ''.'']" "CHR ''/''"] d by simp
    then have "pathElems (d @ ''/.'') = [d]"
      using nabs [of "''/.''"] assms by (simp add: pathElems_def plainElem_def normalElem_def)
    with True d nabs show ?thesis by (simp add: joinPaths_def Clean_def unelems_def)
  next
    case False
    then have e: "join ''/'' (d # es) = d @ ''/'' @ join ''/'' es" by (cases es) simp_all
    have "Clean (join ''/'' (d # es)) = join ''/'' (d # es)"
      using pathElems_rel [OF assms] nabs e by (simp add: Clean_def unelems_def)
    with False d e show ?thesis by (simp add: joinPaths_def)
  qed
qed

lemma joinPaths_rel_abs:
  assumes "list_all plainElem (d # es)" and "es \<noteq> []"
  shows "joinPaths [d, absPath es] = join ''/'' (d # es)"
proof -
  have d: "d \<noteq> []" "CHR ''/'' \<notin> set d"
    using assms by (auto simp: plainElem_def normalElem_def)
  have nabs: "\<not> IsAbs (d @ x)" for x
    using d by (cases d) (auto simp: IsAbs_def hasPrefix_def)
  have "split (CHR ''/'') (d @ ''/'' @ absPath es) = d # [] # es"
    using split_join [of "d # [] # es" "CHR ''/''"] plain_no_slash [OF assms(1)] assms(2)
    by (cases es) (auto simp: absPath_def)
  then have "pathElems (d @ ''/'' @ absPath es) = d # es"
    using cleanElems_plain [OF assms(1), of False "[]"] nabs [of "''/'' @ absPath es"] assms(1)
      cleanElems_plain [of es False "[d]"]
    by (simp add: pathElems_def plainElem_def normalElem_def)
  with nabs [of "''/'' @ absPath es"] d show ?thesis
    by (simp add: joinPaths_def Clean_def unelems_def)
qed

section \<open>The parent of the synchronized folders and the directories of the volume\<close>

text \<open>
  What the loop over one further folder keeps of the elements found so far: the common beginning, or
  all of them when the further folder is the shorter path.
\<close>

fun agree :: "string list \<Rightarrow> string list \<Rightarrow> string list" where
  "agree (a # as) (b # bs) = (if a = b then a # agree as bs else [])"
| "agree [] bs = []"
| "agree as [] = as"

lemma agree_prefix: "prefix (agree as bs) as"
  by (induction as bs rule: agree.induct) simp_all

lemma agree_comparable: "prefix (agree as bs) bs \<or> prefix bs as"
  by (induction as bs rule: agree.induct) auto

lemma matchSplits_agree:
  assumes "0 \<le> j" and "j \<le> m + 1" and "m < int (length A)"
  shows "take (nat (matchSplits A m j B + 1)) A
           = take (nat j) A @ agree (drop (nat j) (take (nat (m + 1)) A)) B
         \<and> matchSplits A m j B \<le> m"
  using assms
proof (induction A m j B rule: matchSplits.induct)
  case (1 A m j)
  have "agree xs [] = xs" for xs by (cases xs) simp_all
  moreover have "nat (m + 1) = nat j + (nat (m + 1) - nat j)" using 1 by simp
  ultimately show ?case
    by (metis append_take_drop_id matchSplits.simps(1) min.absorb1 nat_mono "1.prems"(2) order_refl take_take)
next
  case (2 A m j s B)
  show ?case
  proof (cases "j > m")
    case True
    then have "j = m + 1" using 2 by simp
    then show ?thesis by simp
  next
    case False
    then have lt: "nat j < length A" "nat j < nat (m + 1)" using 2 by auto
    then have d: "drop (nat j) (take (nat (m + 1)) A)
        = A ! nat j # drop (nat (j + 1)) (take (nat (m + 1)) A)"
      using 2 by (subst Cons_nth_drop_Suc [symmetric]) (auto simp: nat_add_distrib)
    have t: "take (nat (j + 1)) A = take (nat j) A @ [A ! nat j]"
      using lt 2 by (simp add: nat_add_distrib take_Suc_conv_app_nth)
    show ?thesis
    proof (cases "A ! nat j = s")
      case True
      then show ?thesis using 2 False lt d t by simp
    next
      case neq: False
      then show ?thesis using 2 False lt d by simp
    qed
  qed
qed

lemma matchFolders_agree:
  assumes "-1 \<le> m" and "m < int (length A)"
  shows "take (nat (matchFolders A m fs + 1)) A
           = foldl agree (take (nat (m + 1)) A) (map (\<lambda>f. split (CHR ''/'') (dvo_LocalPath f)) fs)"
  using assms
proof (induction A m fs rule: matchFolders.induct)
  case (1 A m)
  then show ?case by simp
next
  case (2 A m f fs)
  let ?r = "matchSplits A m 0 (split (CHR ''/'') (dvo_LocalPath f))"
  have r: "take (nat (?r + 1)) A = agree (take (nat (m + 1)) A) (split (CHR ''/'') (dvo_LocalPath f))"
    and le: "?r \<le> m"
    using matchSplits_agree [of 0 m A "split (CHR ''/'') (dvo_LocalPath f)"] 2 by auto
  have ge: "-1 \<le> ?r"
  proof -
    have "-1 \<le> m \<Longrightarrow> 0 \<le> j \<Longrightarrow> -1 \<le> matchSplits A m j B" for j B
      by (induction A m j B rule: matchSplits.induct) auto
    with 2 show ?thesis by simp
  qed
  show ?case using 2 r le ge by simp
qed

lemma foldl_agree_Cons: "foldl agree (a # as) (map ((#) a) bss) = a # foldl agree as bss"
  by (induction bss arbitrary: as) simp_all

lemma foldl_agree:
  assumes "\<forall>bs \<in> set bss. \<not> strict_prefix bs as"
  shows "prefix (foldl agree as bss) as \<and> (\<forall>bs \<in> set bss. prefix (foldl agree as bss) bs)"
proof -
  have main: "prefix (foldl agree cs bss) cs \<and> (\<forall>bs \<in> set bss. prefix (foldl agree cs bss) bs)"
    if "prefix cs as" for cs
    using assms that
  proof (induction bss arbitrary: cs)
    case Nil
    then show ?case by simp
  next
    case (Cons b bss)
    have p: "prefix (agree cs b) as"
      using agree_prefix Cons.prems(2) by (rule prefix_order.trans)
    have ih: "prefix (foldl agree (agree cs b) bss) (agree cs b)"
      "\<forall>bs \<in> set bss. prefix (foldl agree (agree cs b) bss) bs"
      using Cons.IH [OF _ p] Cons.prems by auto
    have "prefix (agree cs b) b"
      using agree_comparable [of cs b]
    proof
      assume "prefix b cs"
      then have "prefix b as" using Cons.prems(2) by (rule prefix_order.trans)
      with Cons.prems(1) have "b = as" by (auto simp: strict_prefix_def)
      with p show ?thesis by simp
    qed
    with ih agree_prefix [of cs b] show ?case by (auto intro: prefix_order.trans)
  qed
  show ?thesis using main [of as] by simp
qed

text \<open>The first folder is not inside a further one.\<close>

definition firstIsOuter :: "syncFolder list \<Rightarrow> bool" where
  "firstIsOuter fs =
     (case fs of
        [] \<Rightarrow> True
      | f # rest \<Rightarrow>
          list_all (\<lambda>g. \<not> strict_prefix (pathElems (dvo_LocalPath g)) (pathElems (dvo_LocalPath f))) rest)"

lemma syncPath_split: "syncPath p \<Longrightarrow> split (CHR ''/'') p = [] # pathElems p"
  by (erule syncPath_absPath) (simp add: split_absPath)

lemma syncPath_eq: "syncPath p \<Longrightarrow> absPath (pathElems p) = p"
  by (erule syncPath_absPath) simp

lemma parentSyncFolder_is_parent:
  assumes sp: "list_all (\<lambda>f. syncPath (dvo_LocalPath f)) fs" and "fs \<noteq> []" and "firstIsOuter fs"
  obtains P where "parentSyncFolder fs = absPath P" and "list_all plainElem P"
    and "\<forall>f \<in> set fs. prefix P (pathElems (dvo_LocalPath f))"
proof -
  obtain f rest where fs: "fs = f # rest" using \<open>fs \<noteq> []\<close> by (cases fs) auto
  let ?E = "\<lambda>f. pathElems (dvo_LocalPath f)"
  define P where "P = foldl agree (?E f) (map ?E rest)"
  have sp': "split (CHR ''/'') (dvo_LocalPath g) = [] # ?E g" if "g \<in> set fs" for g
    using sp that by (auto simp: list_all_iff intro: syncPath_split)
  have splits: "map (\<lambda>f. split (CHR ''/'') (dvo_LocalPath f)) rest = map ((#) []) (map ?E rest)"
    using sp' fs by auto
  have pre: "prefix P (?E f) \<and> (\<forall>bs \<in> set (map ?E rest). prefix P bs)"
    unfolding P_def using \<open>firstIsOuter fs\<close> fs by (intro foldl_agree) (auto simp: firstIsOuter_def list_all_iff)
  have plain: "list_all plainElem P"
  proof -
    have "list_all plainElem (?E f)"
      using sp fs by (auto simp: syncPath_def intro: plain_pathElems)
    with pre show ?thesis by (auto simp: list_all_iff dest: set_mono_prefix)
  qed
  let ?A = "[] # ?E f"
  have f: "split (CHR ''/'') (dvo_LocalPath f) = ?A" using sp' fs by simp
  have "take (nat (matchFolders ?A (int (length ?A) - 1) rest + 1)) ?A = [] # P"
    using matchFolders_agree [of "int (length ?A) - 1" ?A rest] unfolding splits P_def
    by (simp add: foldl_agree_Cons del: map_map)
  then have "parentSyncFolder fs = joinSplits (absPath []) P"
    by (simp add: parentSyncFolder_def fs f Let_def absPath_def)
  also have "\<dots> = absPath P" using joinSplits_absPath [of "[]" P] plain by simp
  finally show ?thesis using that plain pre fs by auto
qed

definition sourceSubPath :: "string list \<Rightarrow> string \<Rightarrow> string" where
  "sourceSubPath P p = join ''/'' (SourceCodeSubPath # drop (length P) (pathElems p))"

lemma plain_constants: "plainElem SourceCodeSubPath" "plainElem DataSubPath"
  by (simp_all add: plainElem_def normalElem_def go_consts)

lemma getSourceSubPath_inside:
  assumes parent: "dv_parentSyncFolder dev = absPath P" and "list_all plainElem P"
    and p: "syncPath p" and pre: "prefix P (pathElems p)"
  shows "getSourceSubPath dev p = (sourceSubPath P p, dev)"
proof -
  from pre obtain ts where ts: "pathElems p = P @ ts" by (auto simp: prefix_def)
  have plain: "list_all plainElem (P @ ts)"
    using p plain_pathElems [of p] by (simp add: syncPath_def ts)
  have "Rel (absPath P) p = Some (if ts = [] then ''.'' else join ''/'' ts)"
    using Rel_absPath [OF plain] syncPath_eq [OF p] by (simp add: ts)
  moreover have "joinPaths [SourceCodeSubPath, if ts = [] then ''.'' else join ''/'' ts]
      = join ''/'' (SourceCodeSubPath # ts)"
    using plain plain_constants by (intro joinPaths_rel) simp
  moreover have "absPath P \<noteq> []" by (simp add: absPath_def)
  ultimately show ?thesis by (simp add: getSourceSubPath_def sourceSubPath_def parent ts)
qed

lemma sourceMounts_inside:
  assumes "dv_parentSyncFolder main = absPath P" and "list_all plainElem P"
    and "\<forall>f \<in> set fs. syncPath (dvo_LocalPath f) \<and> prefix P (pathElems (dvo_LocalPath f))"
  shows "sourceMounts main fs =
    (map (\<lambda>f. mkMount (GetVolumeName main) (dvo_RemotePath f) (sourceSubPath P (dvo_LocalPath f))) fs, main)"
  using assms by (induction fs) (simp_all add: getSourceSubPath_inside)

text \<open>The first directory of a sub path of the volume tells which kind of content it holds.\<close>

definition topDir :: "string \<Rightarrow> string" where
  "topDir s = hd (split (CHR ''/'') s)"

lemma split_rel: "list_all plainElem (d # es) \<Longrightarrow> split (CHR ''/'') (join ''/'' (d # es)) = d # es"
  using split_join [of "d # es" "CHR ''/''"] plain_no_slash [of "d # es"] by simp

lemma sourceSubPath_split:
  assumes "syncPath p" and "prefix P (pathElems p)"
  shows "split (CHR ''/'') (sourceSubPath P p) = SourceCodeSubPath # drop (length P) (pathElems p)"
  unfolding sourceSubPath_def
  using assms plain_constants plain_pathElems [of p]
  by (intro split_rel) (auto simp: syncPath_def list_all_iff dest: in_set_dropD)

lemma sourceSubPath_inj:
  assumes "syncPath p" "prefix P (pathElems p)" "syncPath q" "prefix P (pathElems q)"
    and "sourceSubPath P p = sourceSubPath P q"
  shows "p = q"
proof -
  have "drop (length P) (pathElems p) = drop (length P) (pathElems q)"
    using sourceSubPath_split [of p P] sourceSubPath_split [of q P] assms by simp
  then have "pathElems p = pathElems q" using assms by (auto simp: prefix_def)
  then show ?thesis using syncPath_eq assms by metis
qed

lemma getDataSubPath_split:
  assumes "syncPath p"
  shows "split (CHR ''/'') (getDataSubPath p) = DataSubPath # pathElems p"
proof -
  from assms obtain es where es: "p = absPath es" "es \<noteq> []" "list_all plainElem es"
    by (rule syncPath_absPath)
  have "getDataSubPath p = join ''/'' (DataSubPath # es)"
    unfolding getDataSubPath_def es(1) using es plain_constants by (intro joinPaths_rel_abs) simp_all
  with es plain_constants show ?thesis by (simp only: split_rel list.pred_inject pathElems_absPath simp_thms)
qed

lemma getDataSubPath_inj: "syncPath p \<Longrightarrow> syncPath q \<Longrightarrow> getDataSubPath p = getDataSubPath q \<Longrightarrow> p = q"
  using getDataSubPath_split syncPath_eq by (metis list.inject)

lemma disjoint_by_key:
  assumes "\<And>x. x \<in> A \<Longrightarrow> f x \<notin> K" and "\<And>x. x \<in> B \<Longrightarrow> f x \<in> K"
  shows "A \<inter> B = {}"
  using assms by blast

text \<open>The directories the program itself uses, for synchronization and the remote shell.\<close>

definition reservedDirs :: "bool \<Rightarrow> string list" where
  "reservedDirs remote = [SyncthingSubPath, ''syncthing-data''] @ (if remote then [RemoteSubPath] else [])"

lemma volume_directories_distinct:
  assumes src: "\<forall>f \<in> set fs. syncPath (dvo_LocalPath f) \<and> prefix P (pathElems (dvo_LocalPath f))"
    and data: "\<forall>v \<in> set vs. syncPath (dvo_RemotePath v)"
    and dist: "distinct (map dvo_LocalPath fs)" "distinct (map dvo_RemotePath vs)"
  shows "distinct (reservedDirs remote @ map (\<lambda>v. getDataSubPath (dvo_RemotePath v)) vs
           @ map (\<lambda>f. sourceSubPath P (dvo_LocalPath f)) fs @ [''okteto-bash-history''])"
    (is "distinct (_ @ map ?data vs @ map ?src fs @ _)")
proof -
  let ?own = "reservedDirs remote @ [''okteto-bash-history'']"
  have d1: "distinct (map ?data vs)"
    using dist(2) data getDataSubPath_inj unfolding distinct_map inj_on_def by metis
  have d2: "distinct (map ?src fs)"
    using dist(1) src sourceSubPath_inj unfolding distinct_map inj_on_def by metis
  have t1: "topDir s = ''data''" if "s \<in> set (map ?data vs)" for s
    using that data getDataSubPath_split by (auto simp: topDir_def go_consts)
  have t2: "topDir s = ''src''" if "s \<in> set (map ?src fs)" for s
    using that src sourceSubPath_split by (auto simp: topDir_def go_consts)
  have t3: "topDir s \<notin> {''data'', ''src''}" if "s \<in> set ?own" for s
    using that by (auto simp: topDir_def reservedDirs_def go_consts split: if_splits)
  have "distinct ?own"
    by (simp add: reservedDirs_def go_consts)
  moreover have "set ?own \<inter> set (map ?data vs) = {}"
    by (rule disjoint_by_key [where f = topDir and K = "{''data''}"]) (use t1 t3 in auto)
  moreover have "set ?own \<inter> set (map ?src fs) = {}"
    by (rule disjoint_by_key [where f = topDir and K = "{''src''}"]) (use t2 t3 in auto)
  moreover have "set (map ?data vs) \<inter> set (map ?src fs) = {}"
    by (rule disjoint_by_key [where f = topDir and K = "{''src''}"]) (use t1 t2 in auto)
  ultimately show ?thesis
    using d1 d2 by (simp only: distinct_append set_append Int_Un_distrib Int_Un_distrib2) blast
qed

lemma rule_mounts:
  fixes m :: mainDev
  assumes "PersistentVolumeEnabled m" and "elems (dv_ExternalVolumes m) = []"
    and "dv_parentSyncFolder m = absPath P" and "list_all plainElem P"
    and "\<forall>f \<in> set (folders m). syncPath (dvo_LocalPath f) \<and> prefix P (pathElems (dvo_LocalPath f))"
  shows "map rm_SubPath (tr_Volumes (fst (ToTranslationRule dw True m m ns mn user reset))) =
      reservedDirs (RemoteModeEnabled dw m)
      @ map (\<lambda>v. getDataSubPath (dvo_RemotePath v)) (dv_Volumes m)
      @ map (\<lambda>f. sourceSubPath P (dvo_LocalPath f)) (folders m) @ [''okteto-bash-history'']
    \<and> list_all (\<lambda>v. rm_Name v = GetVolumeName m)
        (tr_Volumes (fst (ToTranslationRule dw True m m ns mn user reset)))"
  using assms
  by (simp add: ToTranslationRule_def baseRule_def mainRule_def Let_def addMounts_def addEnvs_def
      enableHistoryVolume_def sourceMounts_inside reservedDirs_def dataMount_def comp_def list_all_iff ball_Un)

text \<open>A main container with a persistent volume, absolute paths, no two equal local folders, no
  two equal volume paths and an outer first folder: every mount of its rule uses a directory of the
  volume of its own, and all of them are on the container's volume.\<close>

theorem rule_directories_distinct:
  fixes d :: mainDev
  assumes pv: "PersistentVolumeEnabled d"
    and local: "list_all (\<lambda>f. syncPath (dvo_LocalPath f)) (folders d)" "folders d \<noteq> []"
    and outer: "firstIsOuter (folders d)"
    and remote: "list_all (\<lambda>v. syncPath (dvo_RemotePath v)) (dv_Volumes d)"
    and dist: "distinct (map dvo_LocalPath (folders d))" "distinct (map dvo_RemotePath (dv_Volumes d))"
    and ext: "elems (dv_ExternalVolumes d) = []"
    and m: "m = computeParentSyncFolder d"
  shows "distinct (map rm_SubPath (tr_Volumes (fst (ToTranslationRule dw True m m ns mn user reset))))
    \<and> list_all (\<lambda>v. rm_Name v = GetVolumeName d)
        (tr_Volumes (fst (ToTranslationRule dw True m m ns mn user reset)))"
proof -
  obtain P where P: "parentSyncFolder (folders d) = absPath P" "list_all plainElem P"
    "\<forall>f \<in> set (folders d). prefix P (pathElems (dvo_LocalPath f))"
    using parentSyncFolder_is_parent [OF local outer] .
  have fields: "folders m = folders d" "dv_Volumes m = dv_Volumes d" "PersistentVolumeEnabled m"
    "GetVolumeName m = GetVolumeName d" "elems (dv_ExternalVolumes m) = []" "dv_parentSyncFolder m = absPath P"
    using pv ext P(1)
    by (simp_all add: m computeParentSyncFolder_def folders_def PersistentVolumeEnabled_def GetVolumeName_def)
  have src: "\<forall>f \<in> set (folders d). syncPath (dvo_LocalPath f) \<and> prefix P (pathElems (dvo_LocalPath f))"
    using local(1) P(3) by (simp add: list_all_iff)
  show ?thesis
    using rule_mounts [OF fields(3,5,6) P(2), of dw ns mn user reset] src remote dist
      volume_directories_distinct [OF src _ dist, of "RemoteModeEnabled dw m"]
    by (simp add: fields list_all_iff)
qed

definition exampleDevWorld :: devWorld where
  "exampleDevWorld =
     \<lparr>de_World = exampleWorld, de_Stat = (\<lambda>p. StatDir), de_ParseDuration = (\<lambda>s. None),
      de_ParseQuantity = (\<lambda>s. Some 5000), de_GetAvailablePort = (\<lambda>i. Some 40000),
      de_ClusterCliRepository = [], de_CachedCliImage = [], de_VersionString = ''3.0.0'',
      de_StrictVersion = (\<lambda>v. True)\<rparr>"

definition exampleDev :: mainDev where
  "exampleDev = (NewDev exampleDevWorld)
     \<lparr>dv_Name := ''api'', dv_Volumes := [\<lparr>dvo_LocalPath = [], dvo_RemotePath = ''/go/pkg''\<rparr>],
      dv_Forward := Some [\<lparr>fw_Labels = [], fw_ServiceName = ''db'', fw_Local = 5432, fw_Remote = 5432,
         fw_Service = True, fw_IsGlobal = False\<rparr>,
        \<lparr>fw_Labels = [], fw_ServiceName = [], fw_Local = 8080, fw_Remote = 80, fw_Service = False,
         fw_IsGlobal = False\<rparr>],
      dv_Sync := \<lparr>sy_Folders = [\<lparr>dvo_LocalPath = ''/home/app/api'', dvo_RemotePath = ''/usr/src/api''\<rparr>,
                               \<lparr>dvo_LocalPath = ''/home/app/lib'', dvo_RemotePath = ''/usr/src/lib''\<rparr>],
                 sy_RescanInterval = 0, sy_Compression = True, sy_Verbose = False\<rparr>\<rparr>"

theorem rule_directories_distinct_witness:
  "distinct (map rm_SubPath (tr_Volumes (fst (ToTranslationRule exampleDevWorld True
      (computeParentSyncFolder exampleDev) (computeParentSyncFolder exampleDev) ''ns'' ''m'' ''cindy'' False))))"
proof -
  have f: "folders exampleDev = [\<lparr>dvo_LocalPath = ''/home/app/api'', dvo_RemotePath = ''/usr/src/api''\<rparr>,
                               \<lparr>dvo_LocalPath = ''/home/app/lib'', dvo_RemotePath = ''/usr/src/lib''\<rparr>]"
    by (simp add: folders_def exampleDev_def)
  have v: "dv_Volumes exampleDev = [\<lparr>dvo_LocalPath = [], dvo_RemotePath = ''/go/pkg''\<rparr>]"
    and x: "elems (dv_ExternalVolumes exampleDev) = []" and pv: "PersistentVolumeEnabled exampleDev"
    by (simp_all add: exampleDev_def NewDev_def PersistentVolumeEnabled_def)
  have p: "syncPath ''/home/app/api''" "syncPath ''/home/app/lib''" "syncPath ''/go/pkg''"
    by code_simp+
  have "firstIsOuter (folders exampleDev)"
    unfolding f by code_simp
  then show ?thesis
    using rule_directories_distinct [of exampleDev "computeParentSyncFolder exampleDev" exampleDevWorld "''ns''" "''m''" "''cindy''" False]
      p pv x by (simp add: f v)
qed

text \<open>
  The loop over the further folders does not shorten the parent when a further folder is the shorter
  path: the parent of \<^verbatim>\<open>/a/b/c\<close> and \<^verbatim>\<open>/a/b\<close>, in this order, is the first, and the files of the second
  go to the root of the volume, on top of everything else in it.
\<close>

lemma inner_folder_first:
  "parentSyncFolder [\<lparr>dvo_LocalPath = ''/a/b/c'', dvo_RemotePath = r\<rparr>, \<lparr>dvo_LocalPath = ''/a/b'', dvo_RemotePath = r'\<rparr>]
     = ''/a/b/c''
   \<and> fst (getSourceSubPath (d\<lparr>dv_parentSyncFolder := ''/a/b/c''\<rparr>) ''/a/b'') = ''.''"
proof -
  have "parentSyncFolder [\<lparr>dvo_LocalPath = ''/a/b/c'', dvo_RemotePath = r\<rparr>, \<lparr>dvo_LocalPath = ''/a/b'', dvo_RemotePath = r'\<rparr>]
     = ''/a/b/c''"
    by (simp add: parentSyncFolder_def joinPaths_def Clean_def unelems_def pathElems_def IsAbs_def hasPrefix_def)
  moreover have "Rel ''/a/b/c'' ''/a/b'' = Some ''..''" by code_simp
  moreover have "joinPaths [SourceCodeSubPath, ''..''] = ''.''" by code_simp
  ultimately show ?thesis by (simp add: getSourceSubPath_def)
qed

section \<open>Environment files of a development container\<close>

text \<open>The value a file gives a variable; one that stays empty is not given at all.\<close>

definition devFileValue :: "world \<Rightarrow> smap \<Rightarrow> string \<rightharpoonup> string" where
  "devFileValue w m n = (if fileValue w m n = Some [] then None else fileValue w m n)"

fun devFirstFile :: "world \<Rightarrow> smap list \<Rightarrow> string \<rightharpoonup> string" where
  "devFirstFile w [] n = None"
| "devFirstFile w (m # ms) n = (case devFileValue w m n of Some v \<Rightarrow> Some v | None \<Rightarrow> devFirstFile w ms n)"

lemma envLookup_filter:
  "gwf m \<Longrightarrow> envLookup (filter (\<lambda>v. va_Value v \<noteq> []) (map (fromFile w) m)) n = devFileValue w m n"
proof (induction m)
  case Nil
  then show ?case by (simp add: envLookup_def devFileValue_def fileValue_def)
next
  case (Cons kv m)
  obtain k v where kv: "kv = (k, v)" by (cases kv)
  have "gget m k = None" and "gwf m" using Cons.prems by (auto simp: kv gwf_def gget_def map_of_eq_None_iff)
  with Cons.IH kv show ?case
    by (auto simp: envLookup_def devFileValue_def fileValue_def fromFile_def gget_Cons)
qed

lemma addEnvMap_lookup:
  assumes "gwf m"
  shows "envLookup (addEnvMap dw env m) n
    = (case envLookup env n of Some v \<Rightarrow> Some v | None \<Rightarrow> devFileValue (de_World dw) m n)"
proof -
  let ?m = "gdels (map va_Name env) m"
  have "devFileValue (de_World dw) ?m n
      = (if n \<in> set (map va_Name env) then None else devFileValue (de_World dw) m n)"
    using assms by (simp add: devFileValue_def fileValue_def gget_gdels)
  moreover have "gwf ?m" using assms by simp
  ultimately show ?thesis
    using envLookup_None_iff [of env n]
    by (cases "envLookup env n") (simp_all add: addEnvMap_def envLookup_append envLookup_filter)
qed

lemma expandEnvFilesLoop_lookup:
  assumes "list_all2 (\<lambda>f m. readEnvFile (de_World dw) f = Inr m \<and> gwf m) fs ms"
  shows "\<exists>env'. expandEnvFilesLoop dw env fs = Inr env' \<and>
           (\<forall>n. envLookup env' n
              = (case envLookup env n of Some v \<Rightarrow> Some v | None \<Rightarrow> devFirstFile (de_World dw) ms n))"
  using assms
proof (induction fs ms arbitrary: env rule: list_all2_induct)
  case Nil
  then show ?case by (simp split: option.split)
next
  case (Cons f fs m ms)
  obtain env' where e: "expandEnvFilesLoop dw (addEnvMap dw env m) fs = Inr env'"
    and l: "\<And>n. envLookup env' n = (case envLookup (addEnvMap dw env m) n of
              Some v \<Rightarrow> Some v | None \<Rightarrow> devFirstFile (de_World dw) ms n)"
    using Cons.IH by blast
  have "expandEnvFilesLoop dw env (f # fs) = Inr env'" using Cons.hyps e by simp
  moreover have "envLookup env' n = (case envLookup env n of Some v \<Rightarrow> Some v
      | None \<Rightarrow> devFirstFile (de_World dw) (m # ms) n)" for n
    using l [of n] addEnvMap_lookup [of m dw env n] Cons.hyps by (cases "envLookup env n") simp_all
  ultimately show ?case by blast
qed

text \<open>The environment of a development container after its env files are read: a variable of the
  manifest wins over every file, an earlier file wins over a later one, a variable a file leaves
  empty is taken from the process, and one that is empty there too is left to the files that follow.\<close>

theorem expandEnvFiles_precedence:
  fixes d :: mainDev
  assumes "list_all2 (\<lambda>f m. readEnvFile (de_World dw) f = Inr m \<and> gwf m) (dv_EnvFiles d) ms"
  shows "\<exists>d'. expandEnvFiles dw d = Inr d' \<and>
           (\<forall>n. envLookup (dv_Environment d') n
              = (case envLookup (dv_Environment d) n of
                   Some v \<Rightarrow> Some v | None \<Rightarrow> devFirstFile (de_World dw) ms n))"
  using expandEnvFilesLoop_lookup [OF assms, of "dv_Environment d"]
  by (auto simp: expandEnvFiles_def)

theorem expandEnvFiles_precedence_witness:
  "\<exists>d'. expandEnvFiles exampleDevWorld (exampleDev\<lparr>dv_EnvFiles := [''a.env'', ''b.env'']\<rparr>) = Inr d' \<and>
     envLookup (dv_Environment d') ''PORT'' = Some ''80'' \<and>
     envLookup (dv_Environment d') ''TOKEN'' = Some ''secret''"
proof -
  let ?d = "exampleDev\<lparr>dv_EnvFiles := [''a.env'', ''b.env'']\<rparr>"
  let ?ms = "[[(''PORT'', ''80''), (''HOST'', ''a'')], [(''PORT'', ''81''), (''TOKEN'', [])]]"
  have r: "readEnvFile (de_World exampleDevWorld) ''a.env'' = Inr [(''PORT'', ''80''), (''HOST'', ''a'')]"
    "readEnvFile (de_World exampleDevWorld) ''b.env'' = Inr [(''PORT'', ''81''), (''TOKEN'', [])]"
    by code_simp+
  have "list_all2 (\<lambda>f m. readEnvFile (de_World exampleDevWorld) f = Inr m \<and> gwf m) (dv_EnvFiles ?d) ?ms"
    by (simp add: r gwf_def)
  from expandEnvFiles_precedence [OF this] obtain d' where
    "expandEnvFiles exampleDevWorld ?d = Inr d'" and
    l: "\<And>n. envLookup (dv_Environment d') n = (case envLookup (dv_Environment ?d) n of
          Some v \<Rightarrow> Some v | None \<Rightarrow> devFirstFile (de_World exampleDevWorld) ?ms n)"
    by blast
  moreover have "envLookup (dv_Environment ?d) n = None" for n
    by (simp add: exampleDev_def NewDev_def envLookup_def)
  moreover have "devFirstFile (de_World exampleDevWorld) ?ms ''PORT'' = Some ''80''"
    "devFirstFile (de_World exampleDevWorld) ?ms ''TOKEN'' = Some ''secret''" by code_simp+
  ultimately show ?thesis by auto
qed


end
