(* ===== verification/DevTranslate.thy ===== *)
theory DevTranslate
  imports DevModel ComposeTranslate
begin

text \<open>
  Putting a workload in development mode and back, from \<^verbatim>\<open>src/pkg/k8s/apps\<close>
  (\<^verbatim>\<open>translate.go\<close>, \<^verbatim>\<open>utils.go\<close>, \<^verbatim>\<open>validation.go\<close>, \<^verbatim>\<open>deployments.go\<close>,
  \<^verbatim>\<open>statefulsets.go\<close>, \<^verbatim>\<open>crud.go\<close>). The interface \<open>App\<close> is a datatype with its two
  implementations, and its contract the locale \<open>workload\<close>, interpreted on deployments, on stateful
  sets and on the interface. A translation scales the application down, remembers its replicas in an
  annotation and edits a clone of it by the rules of the development container; \<open>DevModeOff\<close> undoes
  it. An error is a value, and so is a panic.
\<close>

section \<open>Applications\<close>

datatype appErr =
    AppPanic
  | MalformedManifest
  | ApplicationNotFound string
  | ClientError string
  | ContainerNotFound string string string
  | MountAlreadyDefined string string

datatype app =
    DeploymentApp deployment string
  | StatefulSetApp statefulSet string

definition NewDeploymentApp :: "deployment \<Rightarrow> app" where
  "NewDeploymentApp d = DeploymentApp d ''Deployment''"

definition NewStatefulSetApp :: "statefulSet \<Rightarrow> app" where
  "NewStatefulSetApp sfs = StatefulSetApp sfs ''StatefulSet''"

definition Kind :: "app \<Rightarrow> string" where
  "Kind a = (case a of DeploymentApp d k \<Rightarrow> k | StatefulSetApp s k \<Rightarrow> k)"

definition ObjectMeta :: "app \<Rightarrow> objectMeta" where
  "ObjectMeta a = (case a of DeploymentApp d k \<Rightarrow> d_Meta d | StatefulSetApp s k \<Rightarrow> sfs_Meta s)"

definition TemplateObjectMeta :: "app \<Rightarrow> objectMeta" where
  "TemplateObjectMeta a =
     (case a of DeploymentApp d k \<Rightarrow> pt_Meta (d_Template d) | StatefulSetApp s k \<Rightarrow> pt_Meta (sfs_Template s))"

definition PodSpec :: "app \<Rightarrow> podSpec" where
  "PodSpec a =
     (case a of DeploymentApp d k \<Rightarrow> pt_Spec (d_Template d) | StatefulSetApp s k \<Rightarrow> pt_Spec (sfs_Template s))"

text \<open>\<open>*i.d.Spec.Replicas\<close>; \<open>None\<close> is the panic on a nil pointer.\<close>

definition Replicas :: "app \<Rightarrow> int option" where
  "Replicas a = (case a of DeploymentApp d k \<Rightarrow> d_Replicas d | StatefulSetApp s k \<Rightarrow> sfs_Replicas s)"

definition SetReplicas :: "int \<Rightarrow> app \<Rightarrow> app" where
  "SetReplicas n a =
     (case a of DeploymentApp d k \<Rightarrow> DeploymentApp (d\<lparr>d_Replicas := Some n\<rparr>) k
      | StatefulSetApp s k \<Rightarrow> StatefulSetApp (s\<lparr>sfs_Replicas := Some n\<rparr>) k)"

text \<open>
  \<open>ObjectMeta()\<close> returns a struct whose maps are those of the object, so a write to one of them
  changes the object; \<open>PodSpec()\<close> returns a pointer. The writes are these three functions.
\<close>

definition onMeta :: "(objectMeta \<Rightarrow> objectMeta) \<Rightarrow> app \<Rightarrow> app" where
  "onMeta f a =
     (case a of DeploymentApp d k \<Rightarrow> DeploymentApp (d\<lparr>d_Meta := f (d_Meta d)\<rparr>) k
      | StatefulSetApp s k \<Rightarrow> StatefulSetApp (s\<lparr>sfs_Meta := f (sfs_Meta s)\<rparr>) k)"

definition onTemplateMeta :: "(objectMeta \<Rightarrow> objectMeta) \<Rightarrow> app \<Rightarrow> app" where
  "onTemplateMeta f a =
     (case a of
        DeploymentApp d k \<Rightarrow>
          DeploymentApp (d\<lparr>d_Template := (d_Template d)\<lparr>pt_Meta := f (pt_Meta (d_Template d))\<rparr>\<rparr>) k
      | StatefulSetApp s k \<Rightarrow>
          StatefulSetApp (s\<lparr>sfs_Template := (sfs_Template s)\<lparr>pt_Meta := f (pt_Meta (sfs_Template s))\<rparr>\<rparr>) k)"

definition onPodSpec :: "(podSpec \<Rightarrow> podSpec) \<Rightarrow> app \<Rightarrow> app" where
  "onPodSpec f a =
     (case a of
        DeploymentApp d k \<Rightarrow>
          DeploymentApp (d\<lparr>d_Template := (d_Template d)\<lparr>pt_Spec := f (pt_Spec (d_Template d))\<rparr>\<rparr>) k
      | StatefulSetApp s k \<Rightarrow>
          StatefulSetApp (s\<lparr>sfs_Template := (sfs_Template s)\<lparr>pt_Spec := f (pt_Spec (sfs_Template s))\<rparr>\<rparr>) k)"

definition putLabel :: "string \<Rightarrow> string \<Rightarrow> objectMeta \<Rightarrow> objectMeta" where
  "putLabel k v m = m\<lparr>om_Labels := gput k v (om_Labels m)\<rparr>"

definition delLabel :: "string \<Rightarrow> objectMeta \<Rightarrow> objectMeta" where
  "delLabel k m = m\<lparr>om_Labels := gdel k (om_Labels m)\<rparr>"

definition putAnnotation :: "string \<Rightarrow> string \<Rightarrow> objectMeta \<Rightarrow> objectMeta" where
  "putAnnotation k v m = m\<lparr>om_Annotations := gput k v (om_Annotations m)\<rparr>"

definition delAnnotation :: "string \<Rightarrow> objectMeta \<Rightarrow> objectMeta" where
  "delAnnotation k m = m\<lparr>om_Annotations := gdel k (om_Annotations m)\<rparr>"

definition putAnnotations :: "smap \<Rightarrow> objectMeta \<Rightarrow> objectMeta" where
  "putAnnotations as m = m\<lparr>om_Annotations := grange_put as (om_Annotations m)\<rparr>"

definition putLabels :: "smap \<Rightarrow> objectMeta \<Rightarrow> objectMeta" where
  "putLabels ls m = m\<lparr>om_Labels := grange_put ls (om_Labels m)\<rparr>"

definition delAnnotations :: "string list \<Rightarrow> objectMeta \<Rightarrow> objectMeta" where
  "delAnnotations ks m = m\<lparr>om_Annotations := gdels ks (om_Annotations m)\<rparr>"

text \<open>
  What the code takes from outside: \<open>json.Unmarshal\<close> of a saved state, of a saved deployment and of
  a saved stateful set, the first eight hexadecimal digits of a SHA-256 sum, and the log level.
\<close>

record appWorld =
  aw_UnmarshalState :: "string \<Rightarrow> int option"
  aw_UnmarshalDeployment :: "string \<Rightarrow> deployment option"
  aw_UnmarshalStatefulSet :: "string \<Rightarrow> statefulSet option"
  aw_ShortHash :: "string \<Rightarrow> string"
  aw_DebugLevel :: bool

text \<open>A conversion to \<open>int32\<close> keeps the low 32 bits.\<close>

definition int32 :: "int \<Rightarrow> int" where
  "int32 i = (i + 2 ^ 31) mod 2 ^ 32 - 2 ^ 31"

definition getPreviousAppReplicas :: "appWorld \<Rightarrow> app \<Rightarrow> int option" where
  "getPreviousAppReplicas aw a =
     (let ann = om_Annotations (ObjectMeta a);
          previousState = gstr ann StateBeforeSleepingAnnontation
      in if previousState \<noteq> [] then
           (case aw_UnmarshalState aw previousState of None \<Rightarrow> Some 1 | Some r \<Rightarrow> Some (int32 r))
         else case gget ann AppReplicasAnnotation of
                Some rString \<Rightarrow> (case parseInt 32 rString of None \<Rightarrow> Some 1 | Some r \<Rightarrow> Some r)
              | None \<Rightarrow> Replicas a)"

definition RestoreOriginal :: "appWorld \<Rightarrow> app \<Rightarrow> appErr + app" where
  "RestoreOriginal aw a =
     (case a of
        DeploymentApp d k \<Rightarrow>
          let manifest = gstr (om_Annotations (d_Meta d)) DeploymentAnnotation
          in if manifest = [] then Inr a
             else (case aw_UnmarshalDeployment aw manifest of
                     None \<Rightarrow> Inl MalformedManifest
                   | Some dOrig \<Rightarrow> Inr (DeploymentApp dOrig k))
      | StatefulSetApp s k \<Rightarrow>
          let manifest = gstr (om_Annotations (sfs_Meta s)) StatefulsetAnnotation
          in if manifest = [] then Inr a
             else (case aw_UnmarshalStatefulSet aw manifest of
                     None \<Rightarrow> Inl MalformedManifest
                   | Some sOrig \<Rightarrow> Inr (StatefulSetApp sOrig k)))"

definition deploymentDevClone :: "deployment \<Rightarrow> deployment" where
  "deploymentDevClone d =
     (let m = d_Meta d;
          labels = (if gstr (om_Annotations m) OktetoAutoCreateAnnotation = OktetoUpCmd
                    then gput DevLabel ''true'' [] else gput DevCloneLabel (om_UID m) []);
          labels = grange_put (om_Labels m) labels;
          annotations = gdel OktetoAutoCreateAnnotation (grange_put (om_Annotations m) [])
      in d\<lparr>d_Meta := newMeta (DevCloneName (om_Name m)) (om_Namespace m) labels annotations,
           d_Strategy := ''Recreate''\<rparr>)"

definition statefulSetDevClone :: "statefulSet \<Rightarrow> statefulSet" where
  "statefulSetDevClone s =
     (let m = sfs_Meta s
      in s\<lparr>sfs_Meta := newMeta (DevCloneName (om_Name m)) (om_Namespace m)
             (grange_put (om_Labels m) (gput DevCloneLabel (om_UID m) []))
             (grange_put (om_Annotations m) [])\<rparr>)"

definition DevClone :: "app \<Rightarrow> app" where
  "DevClone a =
     (case a of
        DeploymentApp d k \<Rightarrow> NewDeploymentApp (deploymentDevClone d)
      | StatefulSetApp s k \<Rightarrow> NewStatefulSetApp (statefulSetDevClone s))"

definition IsDevModeOn :: "app \<Rightarrow> bool" where
  "IsDevModeOn a \<longleftrightarrow>
     gstr (om_Labels (ObjectMeta a)) DevLabel = ''true''
     \<or> gstr (om_Labels (ObjectMeta a)) DevCloneLabel \<noteq> []"

text \<open>The position of the container \<open>GetDevContainer\<close> points to.\<close>

fun containerIndex :: "string \<Rightarrow> container list \<Rightarrow> nat option" where
  "containerIndex name [] = None"
| "containerIndex name (c # cs) =
     (if c_Name c = name then Some 0 else map_option Suc (containerIndex name cs))"

definition GetDevContainer :: "podSpec \<Rightarrow> string \<Rightarrow> appErr + nat option" where
  "GetDevContainer spec containerName =
     (if containerName = [] then
        if ps_Containers spec = [] then Inl AppPanic else Inr (Some 0)
      else Inr (containerIndex containerName (ps_Containers spec)))"

section \<open>Editing a container\<close>

definition TranslateProbes :: "probes option \<Rightarrow> container \<Rightarrow> container" where
  "TranslateProbes p c =
     (case p of
        None \<Rightarrow> c
      | Some p \<Rightarrow>
          c\<lparr>c_LivenessProbe := (if pb_Liveness p then c_LivenessProbe c else None),
            c_ReadinessProbe := (if pb_Readiness p then c_ReadinessProbe c else None),
            c_StartupProbe := (if pb_Startup p then c_StartupProbe c else None)\<rparr>)"

definition emptyLifecycle :: lifecycle where
  "emptyLifecycle = \<lparr>lc_PostStart = None, lc_PreStop = None\<rparr>"

definition lifecycleOf :: "container \<Rightarrow> lifecycle" where
  "lifecycleOf c = (case c_Lifecycle c of None \<Rightarrow> emptyLifecycle | Some l \<Rightarrow> l)"

definition setPostStart :: "devLifecycle \<Rightarrow> container \<Rightarrow> container" where
  "setPostStart l c =
     (case dl_PostStart l of
        None \<Rightarrow> c
      | Some h \<Rightarrow>
          let lc = lifecycleOf c
          in if \<not> lh_Enabled h then c\<lparr>c_Lifecycle := Some (lc\<lparr>lc_PostStart := None\<rparr>)\<rparr>
             else if lh_Command h = [] then c\<lparr>c_Lifecycle := Some lc\<rparr>
             else c\<lparr>c_Lifecycle := Some (lc\<lparr>lc_PostStart := Some (ExecHandler (lh_Command h))\<rparr>)\<rparr>)"

definition setPreStop :: "devLifecycle \<Rightarrow> container \<Rightarrow> container" where
  "setPreStop l c =
     (case dl_PreStop l of
        None \<Rightarrow> c
      | Some h \<Rightarrow>
          let lc = lifecycleOf c
          in if \<not> lh_Enabled h then c\<lparr>c_Lifecycle := Some (lc\<lparr>lc_PreStop := None\<rparr>)\<rparr>
             else if lh_Command h = [] then c\<lparr>c_Lifecycle := Some lc\<rparr>
             else c\<lparr>c_Lifecycle := Some (lc\<lparr>lc_PreStop := Some (ExecHandler (lh_Command h))\<rparr>)\<rparr>)"

definition TranslateLifecycle :: "devLifecycle option \<Rightarrow> container \<Rightarrow> container" where
  "TranslateLifecycle l c =
     (case l of
        None \<Rightarrow> c
      | Some l \<Rightarrow>
          let c = setPreStop l (setPostStart l c)
          in if c_Lifecycle c = Some emptyLifecycle then c\<lparr>c_Lifecycle := None\<rparr> else c)"

definition copyResource :: "(string, quantity) gomap \<Rightarrow> string \<Rightarrow> (string, quantity) gomap \<Rightarrow> (string, quantity) gomap" where
  "copyResource rule name res =
     (case gget rule name of Some v \<Rightarrow> gput name v res | None \<Rightarrow> gdel name res)"

definition translateResourceList :: "resourceList \<Rightarrow> resourceList \<Rightarrow> resourceList" where
  "translateResourceList rule res =
     (let r = elems rule;
          res = copyResource r ResourceEphemeralStorage
                  (copyResource r ResourceCPU (copyResource r ResourceMemory (elems res)))
      in Some (grange_put (filter (\<lambda>(k, v). contains k ''/'') r) res))"

definition TranslateResources :: "resourceRequirements \<Rightarrow> container \<Rightarrow> container" where
  "TranslateResources rule c =
     c\<lparr>c_Resources := (c_Resources c)
        \<lparr>rr_Requests := translateResourceList (rr_Requests rule) (rr_Requests (c_Resources c)),
         rr_Limits := translateResourceList (rr_Limits rule) (rr_Limits (c_Resources c))\<rparr>\<rparr>"

fun unusedEnv :: "environment \<Rightarrow> smap \<Rightarrow> smap" where
  "unusedEnv [] m = m"
| "unusedEnv (v # vs) m = unusedEnv vs (gput (va_Name v) (va_Value v) m)"

definition plainEnv :: "string \<Rightarrow> string \<Rightarrow> envVar" where
  "plainEnv n v = \<lparr>ev_Name = n, ev_Value = v, ev_ValueFrom = None\<rparr>"

text \<open>The loop over the container's variables, with the map of the values not used yet.\<close>

fun replaceEnv :: "smap \<Rightarrow> envVar list \<Rightarrow> envVar list \<times> smap" where
  "replaceEnv unused [] = ([], unused)"
| "replaceEnv unused (e # es) =
     (case gget unused (ev_Name e) of
        Some value \<Rightarrow>
          (case replaceEnv (gdel (ev_Name e) unused) es of
             (es', unused') \<Rightarrow> (plainEnv (ev_Name e) value # es', unused'))
      | None \<Rightarrow> (case replaceEnv unused es of (es', unused') \<Rightarrow> (e # es', unused')))"

fun appendEnv :: "smap \<Rightarrow> environment \<Rightarrow> envVar list" where
  "appendEnv unused [] = []"
| "appendEnv unused (v # vs) =
     (case gget unused (va_Name v) of
        Some value \<Rightarrow> plainEnv (va_Name v) value # appendEnv unused vs
      | None \<Rightarrow> appendEnv unused vs)"

definition translateEnv :: "environment \<Rightarrow> envVar list \<Rightarrow> envVar list" where
  "translateEnv env es =
     (case replaceEnv (unusedEnv env []) es of (es', unused) \<Rightarrow> es' @ appendEnv unused env)"

definition TranslateEnvVars :: "translationRule \<Rightarrow> container \<Rightarrow> container" where
  "TranslateEnvVars rule c = c\<lparr>c_Env := translateEnv (tr_Environment rule) (c_Env c)\<rparr>"

definition oktetoSyncSecretVolume :: string where
  [go_consts]: "oktetoSyncSecretVolume = ''okteto-sync-secret''"
definition oktetoDevSecretVolume :: string where
  [go_consts]: "oktetoDevSecretVolume = ''okteto-dev-secret''"
definition OktetoBinName :: string where [go_consts]: "OktetoBinName = ''okteto-bin''"
definition OktetoInitVolumeContainerName :: string where
  [go_consts]: "OktetoInitVolumeContainerName = ''okteto-init-volume''"
definition oktetoVersionAnnotation :: string where
  [go_consts]: "oktetoVersionAnnotation = ''dev.okteto.com/version''"

definition podMount :: "ruleMount \<Rightarrow> volumeMount" where
  "podMount v = \<lparr>vm_Name = rm_Name v, vm_MountPath = rm_MountPath v, vm_SubPath = rm_SubPath v,
                 vm_ReadOnly = False\<rparr>"

definition TranslateVolumeMounts :: "translationRule \<Rightarrow> container \<Rightarrow> container" where
  "TranslateVolumeMounts rule c =
     c\<lparr>c_VolumeMounts := c_VolumeMounts c @ map podMount (tr_Volumes rule)
        @ (if tr_Marker rule = [] then []
           else \<lparr>vm_Name = oktetoSyncSecretVolume, vm_MountPath = ''/var/syncthing/secret/'',
                 vm_SubPath = [], vm_ReadOnly = True\<rparr>
             # (if tr_Secrets rule \<noteq> []
                then [\<lparr>vm_Name = oktetoDevSecretVolume, vm_MountPath = ''/var/okteto/secret/'',
                       vm_SubPath = [], vm_ReadOnly = False\<rparr>]
                else []))\<rparr>"

definition TranslateOktetoBinVolumeMounts :: "container \<Rightarrow> container" where
  "TranslateOktetoBinVolumeMounts c =
     (if list_ex (\<lambda>vm. vm_Name vm = OktetoBinName) (c_VolumeMounts c) then c
      else c\<lparr>c_VolumeMounts := c_VolumeMounts c
             @ [\<lparr>vm_Name = OktetoBinName, vm_MountPath = ''/var/okteto/bin'', vm_SubPath = [],
                 vm_ReadOnly = False\<rparr>]\<rparr>)"

definition emptyPodSecurity :: securityContext where
  "emptyPodSecurity =
     \<lparr>sc_RunAsUser = None, sc_RunAsGroup = None, sc_RunAsNonRoot = None,
      sc_AllowPrivilegeEscalation = None, sc_ReadOnlyRootFilesystem = None, sc_Capabilities = None\<rparr>"

definition orElse :: "'a option \<Rightarrow> 'a option \<Rightarrow> 'a option" where
  "orElse x y = (case x of None \<Rightarrow> y | Some v \<Rightarrow> Some v)"

definition TranslateContainerSecurityContext :: "devSecurityContext option \<Rightarrow> container \<Rightarrow> container" where
  "TranslateContainerSecurityContext s c =
     (case s of
        None \<Rightarrow> c
      | Some s \<Rightarrow>
          let sc = (case c_SecurityContext c of None \<Rightarrow> emptyPodSecurity | Some sc \<Rightarrow> sc);
              sc = sc\<lparr>sc_RunAsUser := orElse (dsc_RunAsUser s) (sc_RunAsUser sc),
                      sc_RunAsGroup := orElse (dsc_RunAsGroup s) (sc_RunAsGroup sc),
                      sc_RunAsNonRoot := orElse (dsc_RunAsNonRoot s) (sc_RunAsNonRoot sc),
                      sc_AllowPrivilegeEscalation :=
                        orElse (dsc_AllowPrivilegeEscalation s) (sc_AllowPrivilegeEscalation sc),
                      sc_ReadOnlyRootFilesystem :=
                        orElse (dsc_ReadOnlyRootFilesystem s) (sc_ReadOnlyRootFilesystem sc)\<rparr>;
              sc = (case dsc_Capabilities s of
                      None \<Rightarrow> sc
                    | Some caps \<Rightarrow>
                        let old = (case sc_Capabilities sc of
                                     None \<Rightarrow> \<lparr>cap_Add = [], cap_Drop = []\<rparr> | Some o' \<Rightarrow> o')
                        in sc\<lparr>sc_ReadOnlyRootFilesystem := None,
                              sc_Capabilities := Some \<lparr>cap_Add = cap_Add old @ cap_Add caps,
                                                       cap_Drop = cap_Drop old @ cap_Drop caps\<rparr>\<rparr>)
          in c\<lparr>c_SecurityContext := Some sc\<rparr>)"

definition TranslateDevContainer :: "translationRule \<Rightarrow> container \<Rightarrow> container" where
  "TranslateDevContainer rule c =
     (let c = c\<lparr>c_Image := tr_Image rule, c_ImagePullPolicy := tr_ImagePullPolicy rule\<rparr>;
          c = (if tr_WorkDir rule \<noteq> [] then c\<lparr>c_WorkingDir := tr_WorkDir rule\<rparr> else c);
          c = (if tr_Command rule \<noteq> [] then c\<lparr>c_Command := tr_Command rule, c_Args := tr_Args rule\<rparr> else c);
          c = TranslateProbes (tr_Probes rule) c;
          c = TranslateLifecycle (tr_Lifecycle rule) c;
          c = TranslateResources (tr_Resources rule) c;
          c = TranslateEnvVars rule c;
          c = TranslateVolumeMounts rule c
      in TranslateContainerSecurityContext (tr_SecurityContext rule) c)"

section \<open>Editing a pod\<close>

definition hasVolume :: "string \<Rightarrow> podSpec \<Rightarrow> bool" where
  "hasVolume name spec = list_ex (\<lambda>v. v_Name v = name) (ps_Volumes spec)"

definition addVolume :: "volume \<Rightarrow> podSpec \<Rightarrow> podSpec" where
  "addVolume v spec = spec\<lparr>ps_Volumes := ps_Volumes spec @ [v]\<rparr>"

definition ruleVolume :: "translationRule \<Rightarrow> ruleMount \<Rightarrow> volume" where
  "ruleVolume rule rV =
     \<lparr>v_Name = rm_Name rV,
      v_Source = (if \<not> tr_PersistentVolume rule \<and> IsSyncthing rV then EmptyDirSource
                  else PVCSource (rm_Name rV) False)\<rparr>"

fun addRuleVolumes :: "translationRule \<Rightarrow> ruleMount list \<Rightarrow> podSpec \<Rightarrow> podSpec" where
  "addRuleVolumes rule [] spec = spec"
| "addRuleVolumes rule (rV # rest) spec =
     addRuleVolumes rule rest
       (if hasVolume (rm_Name rV) spec then spec else addVolume (ruleVolume rule rV) spec)"

definition TranslateOktetoVolumes :: "translationRule \<Rightarrow> podSpec \<Rightarrow> podSpec" where
  "TranslateOktetoVolumes rule spec = addRuleVolumes rule (tr_Volumes rule) spec"

definition TranslateOktetoBinVolume :: "podSpec \<Rightarrow> podSpec" where
  "TranslateOktetoBinVolume spec =
     (if hasVolume OktetoBinName spec then spec
      else addVolume \<lparr>v_Name = OktetoBinName, v_Source = EmptyDirSource\<rparr> spec)"

definition TranslatePodSecurityContext :: "devSecurityContext option \<Rightarrow> podSpec \<Rightarrow> podSpec" where
  "TranslatePodSecurityContext s spec =
     (case s of
        None \<Rightarrow> spec
      | Some s \<Rightarrow>
          let old = (case ps_FSGroup spec of None \<Rightarrow> None | Some g \<Rightarrow> g)
          in spec\<lparr>ps_FSGroup := Some (orElse (dsc_FSGroup s) old)\<rparr>)"

definition TranslatePodServiceAccount :: "string \<Rightarrow> podSpec \<Rightarrow> podSpec" where
  "TranslatePodServiceAccount sa spec =
     (if sa \<noteq> [] then spec\<lparr>ps_ServiceAccountName := sa\<rparr> else spec)"

definition TranslatePodPriorityClassName :: "string \<Rightarrow> podSpec \<Rightarrow> podSpec" where
  "TranslatePodPriorityClassName pc spec =
     (if pc \<noteq> [] then spec\<lparr>ps_PriorityClassName := pc\<rparr> else spec)"

definition TranslateOktetoNodeSelector :: "smap \<Rightarrow> podSpec \<Rightarrow> podSpec" where
  "TranslateOktetoNodeSelector sel spec = spec\<lparr>ps_NodeSelector := sel\<rparr>"

definition TranslateDevTolerations :: "string list \<Rightarrow> podSpec \<Rightarrow> podSpec" where
  "TranslateDevTolerations ts spec = spec\<lparr>ps_Tolerations := ps_Tolerations spec @ ts\<rparr>"

definition getVolumeLabelKey :: "appWorld \<Rightarrow> string \<Rightarrow> string \<Rightarrow> string" where
  "getVolumeLabelKey aw manifestName devName =
     ''dev.okteto.com/volume-'' @ aw_ShortHash aw (manifestName @ ''-'' @ devName)"

definition emptyAffinity :: affinity where
  "emptyAffinity = \<lparr>aff_NodeAffinity = None, aff_PodAffinity = None, aff_PodAntiAffinity = None\<rparr>"

definition volumeTerm :: "string \<Rightarrow> podAffinityTerm" where
  "volumeTerm label = \<lparr>pat_TopologyKey = ''kubernetes.io/hostname'', pat_MatchExpressions = [(label, ''Exists'')]\<rparr>"

definition TranslateOktetoAffinity :: "appWorld \<Rightarrow> translationRule \<Rightarrow> string \<Rightarrow> podSpec \<Rightarrow> podSpec" where
  "TranslateOktetoAffinity aw rule devName spec =
     (if tr_Affinity rule = Some emptyAffinity then spec
      else
        let spec = (case tr_Affinity rule of None \<Rightarrow> spec | Some a \<Rightarrow> spec\<lparr>ps_Affinity := Some a\<rparr>)
        in if \<not> tr_PersistentVolume rule then spec
           else if tr_VolumeAccessMode rule = ReadWriteMany then spec
           else if \<not> list_ex (\<lambda>v. rm_Name v = tr_MainVolumeName rule) (tr_Volumes rule) then spec
           else
             let a = (case ps_Affinity spec of None \<Rightarrow> emptyAffinity | Some a \<Rightarrow> a);
                 label = getVolumeLabelKey aw (tr_ManifestName rule) devName
             in spec\<lparr>ps_Affinity :=
                  Some (a\<lparr>aff_PodAffinity := Some (elems (aff_PodAffinity a) @ [volumeTerm label])\<rparr>)\<rparr>)"

definition TranslatePodSpec :: "appWorld \<Rightarrow> translationRule \<Rightarrow> string \<Rightarrow> podSpec \<Rightarrow> podSpec" where
  "TranslatePodSpec aw rule devName spec =
     (let spec = TranslateOktetoVolumes rule spec;
          spec = TranslatePodSecurityContext (tr_SecurityContext rule) spec;
          spec = TranslatePodServiceAccount (tr_ServiceAccount rule) spec;
          spec = TranslatePodPriorityClassName (tr_PriorityClassName rule) spec;
          spec = TranslateOktetoNodeSelector (tr_NodeSelector rule) spec
      in TranslateOktetoAffinity aw rule devName spec)"

section \<open>Init containers and secrets\<close>

definition initResourceList :: "resourceList \<Rightarrow> resourceList \<Rightarrow> resourceList" where
  "initResourceList rule res = (if elems rule \<noteq> [] then Some (grange_put (elems rule) []) else res)"

definition translateInitResources :: "resourceRequirements \<Rightarrow> container \<Rightarrow> container" where
  "translateInitResources r c =
     c\<lparr>c_Resources := (c_Resources c)
        \<lparr>rr_Requests := initResourceList (rr_Requests r) (rr_Requests (c_Resources c)),
         rr_Limits := initResourceList (rr_Limits r) (rr_Limits (c_Resources c))\<rparr>\<rparr>"

definition addInitContainer :: "container \<Rightarrow> podSpec \<Rightarrow> podSpec" where
  "addInitContainer c spec = spec\<lparr>ps_InitContainers := ps_InitContainers spec @ [c]\<rparr>"

definition TranslateOktetoInitBinContainer :: "translationRule \<Rightarrow> podSpec \<Rightarrow> podSpec" where
  "TranslateOktetoInitBinContainer rule spec =
     (let c = emptyContainer
            \<lparr>c_Name := OktetoBinName, c_Image := ic_Image (tr_InitContainer rule),
             c_ImagePullPolicy := PullIfNotPresent,
             c_Command := [''sh'', ''-c'', ''cp /usr/bin-image/bin/* /okteto/bin''],
             c_VolumeMounts := [\<lparr>vm_Name = OktetoBinName, vm_MountPath = ''/okteto/bin'',
                                vm_SubPath = [], vm_ReadOnly = False\<rparr>]\<rparr>;
          c = translateInitResources (ic_Resources (tr_InitContainer rule)) c;
          c = TranslateContainerSecurityContext (tr_SecurityContext rule) c
      in addInitContainer c spec)"

definition initVolumePath :: "nat \<Rightarrow> string" where
  "initVolumePath i = ''/init-volume/'' @ showNat i"

text \<open>
  The loop over the rule's mounts: the mounts of the init container and the shell command so far,
  with the number of the next directory.
\<close>

definition initialised :: "ruleMount \<Rightarrow> bool" where
  "initialised v \<longleftrightarrow>
     hasPrefix (rm_SubPath v) SourceCodeSubPath \<or> hasPrefix (rm_SubPath v) DataSubPath"

fun initVolumesLoop :: "nat \<Rightarrow> ruleMount list \<Rightarrow> string \<Rightarrow> volumeMount list \<times> string" where
  "initVolumesLoop i [] command = ([], command)"
| "initVolumesLoop i (v # vs) command =
     (if \<not> initialised v then initVolumesLoop i vs command
      else
        let mountPath = joinPaths [rm_MountPath v, ''.''];
            dir = initVolumePath i;
            command = command @ '' && ( [ '' @ [CHR 0x22] @ ''$(ls -A '' @ dir @ '')'' @ [CHR 0x22]
              @ '' ] || cp -R '' @ mountPath @ ''/. '' @ dir @ '' || true)''
        in case initVolumesLoop (Suc i) vs command of
             (ms, command) \<Rightarrow>
               (\<lparr>vm_Name = rm_Name v, vm_MountPath = dir, vm_SubPath = rm_SubPath v, vm_ReadOnly = False\<rparr> # ms,
                command))"

definition TranslateOktetoInitFromImageContainer :: "appWorld \<Rightarrow> translationRule \<Rightarrow> podSpec \<Rightarrow> podSpec" where
  "TranslateOktetoInitFromImageContainer aw rule spec =
     (if \<not> tr_PersistentVolume rule then spec
      else
        case initVolumesLoop 1 (tr_Volumes rule) ''echo initializing...'' of
          (mounts, command) \<Rightarrow>
            let c = emptyContainer
                  \<lparr>c_Name := OktetoInitVolumeContainerName, c_Image := tr_Image rule,
                   c_ImagePullPolicy := PullIfNotPresent, c_VolumeMounts := mounts,
                   c_Command := [''sh'', if aw_DebugLevel aw then ''-cx'' else ''-c'',
                                 command @ '' && echo initialization completed.'']\<rparr>;
                c = translateInitResources (ic_Resources (tr_InitContainer rule)) c;
                c = TranslateContainerSecurityContext (tr_SecurityContext rule) c
            in addInitContainer c spec)"

definition secretName :: "string \<Rightarrow> string" where
  "secretName name = ''okteto-'' @ name"

definition secretKey :: "string \<Rightarrow> keyToPath" where
  "secretKey f = \<lparr>kp_Key = f, kp_Path = f, kp_Mode = 292\<rparr>"

definition isOktetoSyncSecretVolumePresent :: "podSpec \<Rightarrow> bool" where
  "isOktetoSyncSecretVolumePresent spec = hasVolume oktetoSyncSecretVolume spec"

definition TranslateOktetoSyncthingVolumes :: "string \<Rightarrow> podSpec \<Rightarrow> podSpec" where
  "TranslateOktetoSyncthingVolumes name spec =
     (if isOktetoSyncSecretVolumePresent spec then spec
      else addVolume \<lparr>v_Name = oktetoSyncSecretVolume,
             v_Source = SecretSource (secretName name)
               [secretKey ''config.xml'', secretKey ''cert.pem'', secretKey ''key.pem'']\<rparr> spec)"

fun secretItems :: "nat \<Rightarrow> secret list \<Rightarrow> keyToPath list" where
  "secretItems idx [] = []"
| "secretItems idx (s # ss) =
     (if contains (GetKeyName s) ''.stignore''
      then \<lparr>kp_Key = GetKeyName s @ ''-'' @ showNat (Suc idx),
            kp_Path = GetFileName s @ ''-'' @ showNat (Suc idx), kp_Mode = se_Mode s\<rparr>
           # secretItems (Suc idx) ss
      else \<lparr>kp_Key = GetKeyName s, kp_Path = GetFileName s, kp_Mode = se_Mode s\<rparr> # secretItems idx ss)"

definition TranslateOktetoDevSecret :: "string \<Rightarrow> secret list \<Rightarrow> podSpec \<Rightarrow> podSpec" where
  "TranslateOktetoDevSecret name secrets spec =
     (if secrets = [] then spec
      else if hasVolume oktetoDevSecretVolume spec then spec
      else addVolume \<lparr>v_Name = oktetoDevSecretVolume,
             v_Source = SecretSource (secretName name) (secretItems 0 secrets)\<rparr> spec)"

definition copyResources :: "resourceList \<Rightarrow> resourceList" where
  "copyResources res = (if elems res \<noteq> [] then Some (grange_put (elems res) []) else None)"

definition getInheritedResourcesFromContainer :: "container \<Rightarrow> resourceRequirements" where
  "getInheritedResourcesFromContainer c =
     \<lparr>rr_Limits = copyResources (rr_Limits (c_Resources c)),
      rr_Requests = copyResources (rr_Requests (c_Resources c))\<rparr>"

section \<open>Translations\<close>

text \<open>
  The development container of a translation is the main one (\<open>tl_IsMain\<close>: the two pointers are
  equal) or one of its services; either is seen without the content of its own services.
\<close>

definition asService :: "'s dev \<Rightarrow> devService" where
  "asService d =
     \<lparr>dv_Resources = dv_Resources d, dv_Selector = dv_Selector d,
      dv_PersistentVolumeInfo = dv_PersistentVolumeInfo d, dv_SecurityContext = dv_SecurityContext d,
      dv_Probes = dv_Probes d, dv_NodeSelector = dv_NodeSelector d, dv_Metadata = dv_Metadata d,
      dv_Affinity = dv_Affinity d, dv_Image = dv_Image d, dv_Lifecycle = dv_Lifecycle d,
      dv_Replicas = dv_Replicas d, dv_InitContainer = dv_InitContainer d, dv_Workdir = dv_Workdir d,
      dv_Name = dv_Name d, dv_Container = dv_Container d, dv_ServiceAccount = dv_ServiceAccount d,
      dv_PriorityClassName = dv_PriorityClassName d, dv_parentSyncFolder = dv_parentSyncFolder d,
      dv_Interface = dv_Interface d, dv_Mode = dv_Mode d, dv_ImagePullPolicy = dv_ImagePullPolicy d,
      dv_Tolerations = dv_Tolerations d, dv_Command = dv_Command d, dv_Forward = dv_Forward d,
      dv_Reverse = dv_Reverse d, dv_ExternalVolumes = dv_ExternalVolumes d, dv_Secrets = dv_Secrets d,
      dv_Volumes = dv_Volumes d, dv_EnvFiles = dv_EnvFiles d, dv_Environment = dv_Environment d,
      dv_Services = map_option (map (\<lambda>s. ())) (dv_Services d), dv_Args = dv_Args d,
      dv_Sync = dv_Sync d, dv_Timeout = dv_Timeout d, dv_RemotePort = dv_RemotePort d,
      dv_SSHServerPort = dv_SSHServerPort d, dv_Autocreate = dv_Autocreate d\<rparr>"

record translation =
  tl_IsMain :: bool
  tl_MainDev :: mainDev
  tl_Dev :: devService
  tl_App :: app
  tl_DevApp :: "app option"
  tl_Rules :: "translationRule list"

definition getDevName :: "translation \<Rightarrow> string" where
  "getDevName tr =
     (case gget (elems (dv_Selector (tl_Dev tr))) ''app.kubernetes.io/component'' of
        Some v \<Rightarrow> v
      | None \<Rightarrow> dv_Name (tl_Dev tr))"

text \<open>The keys \<open>DevModeOff\<close> removes from the object and from the pod template.\<close>

definition cleanMeta :: "smap \<Rightarrow> objectMeta \<Rightarrow> objectMeta" where
  "cleanMeta devAnnotations m =
     delAnnotations
       ([OktetoStignoreAnnotation, OktetoSyncAnnotation, OktetoDevModeAnnotation] @ gkeys devAnnotations
        @ [oktetoVersionAnnotation, OktetoRevisionAnnotation]) m"

definition cleanTemplate :: "smap \<Rightarrow> objectMeta \<Rightarrow> objectMeta" where
  "cleanTemplate devAnnotations m =
     delLabel DetachedDevLabel (delLabel InteractiveDevLabel
       (delAnnotations
          ([OktetoStignoreAnnotation, OktetoSyncAnnotation] @ gkeys devAnnotations
           @ [TranslationAnnotation, OktetoRestartAnnotation]) m))"

definition DevModeOff :: "appWorld \<Rightarrow> devService \<Rightarrow> app \<Rightarrow> appErr + app" where
  "DevModeOff aw dev a =
     (case RestoreOriginal aw a of
        Inl e \<Rightarrow> Inl e
      | Inr a \<Rightarrow>
          let a = onMeta (delLabel DevLabel) a
          in case getPreviousAppReplicas aw a of
               None \<Rightarrow> Inl AppPanic
             | Some n \<Rightarrow>
                 let a = onMeta (delAnnotation AppReplicasAnnotation) (SetReplicas n a)
                 in case dv_Metadata dev of
                      None \<Rightarrow> Inl AppPanic
                    | Some md \<Rightarrow>
                        Inr (onTemplateMeta (cleanTemplate (elems (md_Annotations md)))
                              (onMeta (cleanMeta (elems (md_Annotations md))) a)))"

text \<open>The changes to the application itself, once its previous replicas are known.\<close>

definition scaleDown :: "string \<Rightarrow> smap \<Rightarrow> int \<Rightarrow> app \<Rightarrow> app" where
  "scaleDown mode annotations replicas a =
     (let a = onMeta (putAnnotation AppReplicasAnnotation (showInt replicas)) a;
          a = onMeta (putLabel DevLabel ''true'') a;
          a = onMeta (putAnnotation OktetoDevModeAnnotation mode) a;
          a = SetReplicas 0 a
      in onTemplateMeta (putAnnotations annotations) (onMeta (putAnnotations annotations) a))"

definition translateClone :: "appWorld \<Rightarrow> translation \<Rightarrow> metadata \<Rightarrow> app \<Rightarrow> app" where
  "translateClone aw tr md c =
     (let dev = tl_Dev tr;
          anns = elems (md_Annotations md); labels = elems (md_Labels md);
          c = onMeta (putAnnotation OktetoDevModeAnnotation (dv_Mode dev)) c;
          c = onTemplateMeta (putAnnotations anns) (onMeta (putAnnotations anns) c);
          c = onTemplateMeta (putLabels labels) (onMeta (putLabels labels) c);
          c = onPodSpec (TranslateDevTolerations (dv_Tolerations dev)) c;
          c = (if tl_IsMain tr then
                 onPodSpec (TranslateOktetoSyncthingVolumes (dv_Name dev))
                   (onTemplateMeta (putLabel InteractiveDevLabel (getDevName tr)) (SetReplicas 1 c))
               else
                 onTemplateMeta (putLabel DetachedDevLabel (getDevName tr))
                   (case dv_Replicas dev of None \<Rightarrow> c | Some n \<Rightarrow> SetReplicas (int32 n) c));
          c = (case tl_Rules tr of
                 [] \<Rightarrow> c
               | rule # _ \<Rightarrow>
                   if PersistentVolumeEnabled (tl_MainDev tr) \<and> tr_ManifestName rule \<noteq> []
                   then onTemplateMeta
                          (putLabel (getVolumeLabelKey aw (tr_ManifestName rule) (dv_Name (tl_MainDev tr))) ''true'') c
                   else c)
      in onPodSpec (\<lambda>spec. spec\<lparr>ps_TerminationGracePeriodSeconds := Some 0\<rparr>) c)"

definition translateRule :: "appWorld \<Rightarrow> string \<Rightarrow> string \<Rightarrow> translationRule \<Rightarrow> podSpec \<Rightarrow> appErr + podSpec" where
  "translateRule aw mainName devName rule spec =
     (case GetDevContainer spec (tr_Container rule) of
        Inl e \<Rightarrow> Inl e
      | Inr None \<Rightarrow> Inl AppPanic
      | Inr (Some i) \<Rightarrow>
          let onContainer = (\<lambda>f spec. spec\<lparr>ps_Containers := (ps_Containers spec)[i := f (ps_Containers spec ! i)]\<rparr>);
              spec = onContainer (TranslateDevContainer rule) spec;
              spec = TranslatePodSpec aw rule mainName spec;
              spec = TranslateOktetoDevSecret devName (tr_Secrets rule) spec
          in Inr (if IsMainDevContainer rule then
                    TranslateOktetoInitFromImageContainer aw rule
                      (TranslateOktetoBinVolume
                        (TranslateOktetoInitBinContainer rule
                          (onContainer TranslateOktetoBinVolumeMounts spec)))
                  else spec))"

fun translateRules :: "appWorld \<Rightarrow> string \<Rightarrow> string \<Rightarrow> translationRule list \<Rightarrow> podSpec \<Rightarrow> appErr + podSpec" where
  "translateRules aw mainName devName [] spec = Inr spec"
| "translateRules aw mainName devName (rule # rules) spec =
     (case translateRule aw mainName devName rule spec of
        Inl e \<Rightarrow> Inl e
      | Inr spec \<Rightarrow> translateRules aw mainName devName rules spec)"

definition translate :: "appWorld \<Rightarrow> translation \<Rightarrow> appErr + translation" where
  "translate aw tr =
     (let off = DevModeOff aw (tl_Dev tr) (tl_App tr);
          a = (case off of Inl e \<Rightarrow> tl_App tr | Inr a \<Rightarrow> a)
      in if off = Inl AppPanic then Inl AppPanic
         else case getPreviousAppReplicas aw a of
                None \<Rightarrow> Inl AppPanic
              | Some replicas \<Rightarrow>
                  (case dv_Metadata (tl_Dev tr) of
                     None \<Rightarrow> Inl AppPanic
                   | Some md \<Rightarrow>
                       let a = onMeta (delAnnotation StateBeforeSleepingAnnontation) a;
                           c = translateClone aw tr md (DevClone a)
                       in case translateRules aw (dv_Name (tl_MainDev tr)) (dv_Name (tl_Dev tr))
                                 (tl_Rules tr) (PodSpec c) of
                            Inl e \<Rightarrow> Inl e
                          | Inr spec \<Rightarrow>
                              Inr (tr\<lparr>tl_App := scaleDown (dv_Mode (tl_Dev tr)) (elems (md_Annotations md)) replicas a,
                                      tl_DevApp := Some (onPodSpec (\<lambda>_. spec) c)\<rparr>)))"

section \<open>Finding the applications of a development container\<close>

text \<open>\<open>GetByDev\<close> of the packages for deployments and stateful sets: calls of the cluster.\<close>

datatype 'a lookup = Found 'a | LookupNotFound | LookupFailed string

record appClient =
  ac_DeploymentByDev :: "devService \<Rightarrow> deployment lookup"
  ac_StatefulSetByDev :: "devService \<Rightarrow> statefulSet lookup"

definition getApp :: "appClient \<Rightarrow> devService \<Rightarrow> appErr + app" where
  "getApp c dev =
     (case ac_DeploymentByDev c dev of
        Found d \<Rightarrow> Inr (DeploymentApp d [])
      | LookupFailed e \<Rightarrow> Inl (ClientError e)
      | LookupNotFound \<Rightarrow>
          (case ac_StatefulSetByDev c dev of
             Found s \<Rightarrow> Inr (StatefulSetApp s [])
           | LookupNotFound \<Rightarrow> Inl (ApplicationNotFound (dv_Name dev))
           | LookupFailed e \<Rightarrow> Inl (ClientError e)))"

definition addRule :: "translationRule \<Rightarrow> translation \<Rightarrow> translation" where
  "addRule rule tr = tr\<lparr>tl_Rules := tl_Rules tr @ [rule]\<rparr>"

fun loadServiceTranslations :: "devWorld \<Rightarrow> appClient \<Rightarrow> string \<Rightarrow> string \<Rightarrow> string \<Rightarrow> bool \<Rightarrow> devService list
    \<Rightarrow> mainDev \<Rightarrow> (string, translation) gomap \<Rightarrow> appErr + mainDev \<times> (string, translation) gomap" where
  "loadServiceTranslations dw c ns mn user reset [] main result = Inr (main, result)"
| "loadServiceTranslations dw c ns mn user reset (s # ss) main result =
     (case getApp c s of
        Inl e \<Rightarrow> Inl e
      | Inr a \<Rightarrow>
          (case ToTranslationRule dw False main s ns mn user reset of
             (rule, main) \<Rightarrow>
               let name = om_Name (ObjectMeta a);
                   tr = (case gget result name of
                           Some tr \<Rightarrow> addRule rule tr
                         | None \<Rightarrow> \<lparr>tl_IsMain = False, tl_MainDev = main, tl_Dev = s, tl_App = a,
                                   tl_DevApp = None, tl_Rules = [rule]\<rparr>)
               in loadServiceTranslations dw c ns mn user reset ss main (gput name tr result)))"

definition completeRule :: "devWorld \<Rightarrow> app \<Rightarrow> translation \<Rightarrow> translationRule \<Rightarrow> appErr + translationRule" where
  "completeRule dw mainApp tr rule =
     (case GetDevContainer (PodSpec (tl_App tr)) (tr_Container rule) of
        Inl e \<Rightarrow> Inl e
      | Inr None \<Rightarrow>
          Inl (ContainerNotFound (Kind (tl_App tr)) (om_Name (ObjectMeta (tl_App tr))) (tr_Container rule))
      | Inr (Some i) \<Rightarrow>
          let devContainer = ps_Containers (PodSpec (tl_App tr)) ! i;
              rule = rule\<lparr>tr_Container := c_Name devContainer,
                          tr_Image := orDefault (tr_Image rule) (c_Image devContainer)\<rparr>;
              rule = (if LoadBooleanOrDefault (de_World dw) ''OKTETO_INHERIT_KUBERNETES_RESOURCES'' False
                         \<and> HasEmptyResources (dv_Resources (tl_Dev tr))
                      then rule\<lparr>tr_Resources := getInheritedResourcesFromContainer devContainer\<rparr> else rule)
          in Inr (if LoadBooleanOrDefault (de_World dw) ''OKTETO_INHERIT_KUBERNETES_NODESELECTOR'' False
                     \<and> HasEmptyNodeSelector (tl_Dev tr)
                  then rule\<lparr>tr_NodeSelector := ps_NodeSelector (PodSpec mainApp)\<rparr> else rule))"

fun completeRules :: "devWorld \<Rightarrow> app \<Rightarrow> translation \<Rightarrow> translationRule list \<Rightarrow> appErr + translationRule list" where
  "completeRules dw mainApp tr [] = Inr []"
| "completeRules dw mainApp tr (r # rs) =
     (case completeRule dw mainApp tr r of
        Inl e \<Rightarrow> Inl e
      | Inr r' \<Rightarrow> (case completeRules dw mainApp tr rs of Inl e \<Rightarrow> Inl e | Inr rs' \<Rightarrow> Inr (r' # rs')))"

fun completeTranslations :: "devWorld \<Rightarrow> app \<Rightarrow> mainDev \<Rightarrow> (string, translation) gomap
    \<Rightarrow> appErr + (string, translation) gomap" where
  "completeTranslations dw mainApp main [] = Inr []"
| "completeTranslations dw mainApp main ((n, tr) # rest) =
     (case completeRules dw mainApp tr (tl_Rules tr) of
        Inl e \<Rightarrow> Inl e
      | Inr rs \<Rightarrow>
          (case completeTranslations dw mainApp main rest of
             Inl e \<Rightarrow> Inl e
           | Inr rest' \<Rightarrow>
               Inr ((n, tr\<lparr>tl_Rules := rs, tl_MainDev := main,
                           tl_Dev := (if tl_IsMain tr then asService main else tl_Dev tr)\<rparr>) # rest')))"

definition GetTranslations :: "devWorld \<Rightarrow> appClient \<Rightarrow> string \<Rightarrow> string \<Rightarrow> string \<Rightarrow> mainDev \<Rightarrow> app \<Rightarrow> bool
    \<Rightarrow> appErr + (string, translation) gomap" where
  "GetTranslations dw c ns mn user dev a reset =
     (case ToTranslationRule dw True dev dev ns mn user reset of
        (rule, dev) \<Rightarrow>
          let mainTr = \<lparr>tl_IsMain = True, tl_MainDev = dev, tl_Dev = asService dev, tl_App = a,
                        tl_DevApp = None, tl_Rules = [rule]\<rparr>
          in case loadServiceTranslations dw c ns mn user reset (elems (dv_Services dev)) dev
                    [(om_Name (ObjectMeta a), mainTr)] of
               Inl e \<Rightarrow> Inl e
             | Inr (dev, result) \<Rightarrow> completeTranslations dw a dev result)"

fun TranslateDevMode :: "appWorld \<Rightarrow> (string, translation) gomap \<Rightarrow> appErr + (string, translation) gomap" where
  "TranslateDevMode aw [] = Inr []"
| "TranslateDevMode aw ((n, tr) # rest) =
     (case translate aw tr of
        Inl e \<Rightarrow> Inl e
      | Inr tr' \<Rightarrow> (case TranslateDevMode aw rest of Inl e \<Rightarrow> Inl e | Inr rest' \<Rightarrow> Inr ((n, tr') # rest')))"

definition listedInDevMode :: "appClient \<Rightarrow> devService \<Rightarrow> bool" where
  "listedInDevMode c dev =
     (let appDev = (if dv_Autocreate dev then dev\<lparr>dv_Name := DevCloneName (dv_Name dev)\<rparr> else dev)
      in case getApp c appDev of Inl e \<Rightarrow> False | Inr a \<Rightarrow> IsDevModeOn a)"

definition ListDevModeOn :: "appClient \<Rightarrow> (string, devService) gomap \<Rightarrow> string list" where
  "ListDevModeOn c devs = map fst (filter (\<lambda>(n, dev). listedInDevMode c dev) devs)"

fun validateMounts :: "'s dev \<Rightarrow> volumeMount list \<Rightarrow> appErr option" where
  "validateMounts dev [] = None"
| "validateMounts dev (vm # vms) =
     (if GetVolumeName dev = vm_Name vm then validateMounts dev vms
      else if list_ex (\<lambda>f. vm_MountPath vm = dvo_RemotePath f) (folders dev)
           then Some (MountAlreadyDefined (vm_MountPath vm) (dv_Name dev))
      else validateMounts dev vms)"

definition ValidateMountPaths :: "podSpec \<Rightarrow> 's dev \<Rightarrow> appErr option" where
  "ValidateMountPaths spec dev =
     (case dv_PersistentVolumeInfo dev of
        None \<Rightarrow> None
      | Some p \<Rightarrow>
          if \<not> pv_Enabled p then None
          else case GetDevContainer spec (dv_Container dev) of
                 Inl e \<Rightarrow> Some e
               | Inr None \<Rightarrow> Some AppPanic
               | Inr (Some i) \<Rightarrow> validateMounts dev (c_VolumeMounts (ps_Containers spec ! i)))"

end
