(* ===== verification/DevMode.thy ===== *)
theory DevMode
  imports DevTranslate
begin

text \<open>
  What development mode guarantees. The contract of an application is the locale \<open>workload\<close>,
  interpreted on deployments, on stateful sets and on the interface \<open>App\<close>. The lemmas lead to: a
  round trip restores the application; in development mode it is scaled down and its clone is found
  by its labels; every mount of the clone's pod names a declared volume; variables and resources of
  the container are exactly those the manifest asks for; pods that share a volume of one node are
  kept together. The last section holds the places where the code departs from its intent.
\<close>

section \<open>The contract of an application\<close>

locale workload =
  fixes meta :: "'w \<Rightarrow> objectMeta"
    and tmeta :: "'w \<Rightarrow> objectMeta"
    and spec :: "'w \<Rightarrow> podSpec"
    and replicas :: "'w \<Rightarrow> int option"
    and onM :: "(objectMeta \<Rightarrow> objectMeta) \<Rightarrow> 'w \<Rightarrow> 'w"
    and onT :: "(objectMeta \<Rightarrow> objectMeta) \<Rightarrow> 'w \<Rightarrow> 'w"
    and onS :: "(podSpec \<Rightarrow> podSpec) \<Rightarrow> 'w \<Rightarrow> 'w"
    and setR :: "int \<Rightarrow> 'w \<Rightarrow> 'w"
  assumes meta_on: "meta (onM f w) = f (meta w)" "meta (onT f w) = meta w"
      "meta (onS h w) = meta w" "meta (setR n w) = meta w"
    and tmeta_on: "tmeta (onM f w) = tmeta w" "tmeta (onT f w) = f (tmeta w)"
      "tmeta (onS h w) = tmeta w" "tmeta (setR n w) = tmeta w"
    and spec_on: "spec (onM f w) = spec w" "spec (onT f w) = spec w"
      "spec (onS h w) = h (spec w)" "spec (setR n w) = spec w"
    and replicas_on: "replicas (onM f w) = replicas w" "replicas (onT f w) = replicas w"
      "replicas (onS h w) = replicas w" "replicas (setR n w) = Some n"
begin

lemmas reads = meta_on tmeta_on spec_on replicas_on

text \<open>Switching a workload on and off again leaves the composition of the edits, and the replicas
  it is switched off with.\<close>

lemma off_on_reads:
  "meta (onT g' (onM f' (setR n (onM h' (onT g (onM f (setR k w))))))) = f' (h' (f (meta w)))"
  "tmeta (onT g' (onM f' (setR n (onM h' (onT g (onM f (setR k w))))))) = g' (g (tmeta w))"
  "spec (onT g' (onM f' (setR n (onM h' (onT g (onM f (setR k w))))))) = spec w"
  "replicas (onT g' (onM f' (setR n (onM h' (onT g (onM f (setR k w))))))) = Some n"
  by (simp_all add: reads)

end

interpretation dwl: workload d_Meta "\<lambda>d. pt_Meta (d_Template d)" "\<lambda>d. pt_Spec (d_Template d)" d_Replicas
    "\<lambda>f d. d\<lparr>d_Meta := f (d_Meta d)\<rparr>"
    "\<lambda>f d. d\<lparr>d_Template := (d_Template d)\<lparr>pt_Meta := f (pt_Meta (d_Template d))\<rparr>\<rparr>"
    "\<lambda>f d. d\<lparr>d_Template := (d_Template d)\<lparr>pt_Spec := f (pt_Spec (d_Template d))\<rparr>\<rparr>"
    "\<lambda>n d. d\<lparr>d_Replicas := Some n\<rparr>"
  by unfold_locales simp_all

interpretation swl: workload sfs_Meta "\<lambda>s. pt_Meta (sfs_Template s)" "\<lambda>s. pt_Spec (sfs_Template s)" sfs_Replicas
    "\<lambda>f s. s\<lparr>sfs_Meta := f (sfs_Meta s)\<rparr>"
    "\<lambda>f s. s\<lparr>sfs_Template := (sfs_Template s)\<lparr>pt_Meta := f (pt_Meta (sfs_Template s))\<rparr>\<rparr>"
    "\<lambda>f s. s\<lparr>sfs_Template := (sfs_Template s)\<lparr>pt_Spec := f (pt_Spec (sfs_Template s))\<rparr>\<rparr>"
    "\<lambda>n s. s\<lparr>sfs_Replicas := Some n\<rparr>"
  by unfold_locales simp_all

lemmas app_defs = ObjectMeta_def TemplateObjectMeta_def PodSpec_def Replicas_def onMeta_def
  onTemplateMeta_def onPodSpec_def SetReplicas_def

interpretation awl: workload ObjectMeta TemplateObjectMeta PodSpec Replicas onMeta onTemplateMeta
    onPodSpec SetReplicas
  by unfold_locales
    (simp_all add: app_defs dwl.reads swl.reads split: app.split)

lemmas app_reads [simp] = awl.reads

lemma meta_edits [simp]:
  "om_Labels (putLabel k v m) = gput k v (om_Labels m)" "om_Annotations (putLabel k v m) = om_Annotations m"
  "om_Labels (delLabel k m) = gdel k (om_Labels m)" "om_Annotations (delLabel k m) = om_Annotations m"
  "om_Annotations (putAnnotation k v m) = gput k v (om_Annotations m)" "om_Labels (putAnnotation k v m) = om_Labels m"
  "om_Annotations (delAnnotation k m) = gdel k (om_Annotations m)" "om_Labels (delAnnotation k m) = om_Labels m"
  "om_Annotations (putAnnotations as m) = grange_put as (om_Annotations m)" "om_Labels (putAnnotations as m) = om_Labels m"
  "om_Annotations (delAnnotations ks m) = gdels ks (om_Annotations m)" "om_Labels (delAnnotations ks m) = om_Labels m"
  "om_Labels (putLabels ls m) = grange_put ls (om_Labels m)" "om_Annotations (putLabels ls m) = om_Annotations m"
  by (simp_all add: putLabel_def delLabel_def putAnnotation_def delAnnotation_def putAnnotations_def
      delAnnotations_def putLabels_def)

section \<open>On and off again\<close>

text \<open>No manifest saved by an old version of the program.\<close>

definition noLegacy :: "smap \<Rightarrow> bool" where
  "noLegacy ann \<longleftrightarrow> gget ann DeploymentAnnotation = None \<and> gget ann StatefulsetAnnotation = None"

lemma RestoreOriginal_none: "noLegacy (om_Annotations (ObjectMeta a)) \<Longrightarrow> RestoreOriginal aw a = Inr a"
  by (cases a) (simp_all add: RestoreOriginal_def noLegacy_def ObjectMeta_def gstr_def)

text \<open>The edits of both directions, each as one composition.\<close>

definition appOff :: "smap \<Rightarrow> int \<Rightarrow> app \<Rightarrow> app" where
  "appOff A n a =
     onTemplateMeta (cleanTemplate A)
       (onMeta (\<lambda>m. cleanMeta A (delAnnotation AppReplicasAnnotation m))
         (SetReplicas n (onMeta (delLabel DevLabel) a)))"

definition appOn :: "string \<Rightarrow> smap \<Rightarrow> int \<Rightarrow> app \<Rightarrow> app" where
  "appOn mode A n a =
     onTemplateMeta (putAnnotations A)
       (onMeta (\<lambda>m. putAnnotations A (putAnnotation OktetoDevModeAnnotation mode
                  (putLabel DevLabel ''true'' (putAnnotation AppReplicasAnnotation (showInt n) m))))
         (SetReplicas 0 a))"

lemma onMeta_onMeta: "onMeta f (onMeta g a) = onMeta (\<lambda>m. f (g m)) a"
  by (cases a) (simp_all add: onMeta_def)

lemma onMeta_SetReplicas: "SetReplicas n (onMeta f a) = onMeta f (SetReplicas n a)"
  by (cases a) (simp_all add: onMeta_def SetReplicas_def)

lemma scaleDown_eq: "scaleDown mode A n a = appOn mode A n a"
  by (simp add: scaleDown_def appOn_def Let_def onMeta_onMeta onMeta_SetReplicas)

lemma getPreviousAppReplicas_cong:
  assumes "om_Annotations (ObjectMeta a) = om_Annotations (ObjectMeta b)" and "Replicas a = Replicas b"
  shows "getPreviousAppReplicas aw a = getPreviousAppReplicas aw b"
  unfolding getPreviousAppReplicas_def assms ..

lemma DevModeOff_eq:
  assumes "noLegacy (om_Annotations (ObjectMeta a))" and "getPreviousAppReplicas aw a = Some n"
    and "dv_Metadata dev = Some md"
  shows "DevModeOff aw dev a = Inr (appOff (elems (md_Annotations md)) n a)"
proof -
  have "getPreviousAppReplicas aw (onMeta (delLabel DevLabel) a) = Some n"
    using assms(2) getPreviousAppReplicas_cong [of "onMeta (delLabel DevLabel) a" a aw] by simp
  with assms show ?thesis
    by (simp add: DevModeOff_def RestoreOriginal_none appOff_def onMeta_onMeta)
qed

lemma appOff_reads [simp]:
  "Replicas (appOff A n a) = Some n" "PodSpec (appOff A n a) = PodSpec a"
  by (simp_all add: appOff_def)

lemma appOff_meta:
  "ObjectMeta (appOff A n a) = cleanMeta A (delAnnotation AppReplicasAnnotation (delLabel DevLabel (ObjectMeta a)))"
  "TemplateObjectMeta (appOff A n a) = cleanTemplate A (TemplateObjectMeta a)"
  by (simp_all add: appOff_def)

lemma appOn_reads [simp]:
  "Replicas (appOn mode A n a) = Some 0" "PodSpec (appOn mode A n a) = PodSpec a"
  "TemplateObjectMeta (appOn mode A n a) = putAnnotations A (TemplateObjectMeta a)"
  "ObjectMeta (appOn mode A n a) = putAnnotations A (putAnnotation OktetoDevModeAnnotation mode
     (putLabel DevLabel ''true'' (putAnnotation AppReplicasAnnotation (showInt n) (ObjectMeta a))))"
  by (simp_all add: appOn_def)

text \<open>The keys that are gone after a round trip, on the object and on its pod template.\<close>

definition offAnnotations :: "smap \<Rightarrow> string set" where
  "offAnnotations A = {AppReplicasAnnotation, OktetoStignoreAnnotation, OktetoSyncAnnotation,
     OktetoDevModeAnnotation, oktetoVersionAnnotation, OktetoRevisionAnnotation} \<union> set (gkeys A)"

definition offTemplateAnnotations :: "smap \<Rightarrow> string set" where
  "offTemplateAnnotations A = {OktetoStignoreAnnotation, OktetoSyncAnnotation, TranslationAnnotation,
     OktetoRestartAnnotation} \<union> set (gkeys A)"

definition wfApp :: "app \<Rightarrow> bool" where
  "wfApp a \<longleftrightarrow> gwf (om_Labels (ObjectMeta a)) \<and> gwf (om_Annotations (ObjectMeta a))
     \<and> gwf (om_Labels (TemplateObjectMeta a)) \<and> gwf (om_Annotations (TemplateObjectMeta a))"

lemma gget_delAnnotations_set:
  "gwf (om_Annotations m) \<Longrightarrow>
     gget (om_Annotations (delAnnotations ks m)) k = (if k \<in> set ks then None else gget (om_Annotations m) k)"
  by (simp add: gget_gdels)

lemma appOff_annotations:
  assumes "wfApp a"
  shows "gget (om_Annotations (ObjectMeta (appOff A n a))) k
           = (if k \<in> offAnnotations A then None else gget (om_Annotations (ObjectMeta a)) k)"
    and "gget (om_Labels (ObjectMeta (appOff A n a))) k
           = (if k = DevLabel then None else gget (om_Labels (ObjectMeta a)) k)"
    and "gget (om_Annotations (TemplateObjectMeta (appOff A n a))) k
           = (if k \<in> offTemplateAnnotations A then None else gget (om_Annotations (TemplateObjectMeta a)) k)"
    and "gget (om_Labels (TemplateObjectMeta (appOff A n a))) k
           = (if k \<in> {InteractiveDevLabel, DetachedDevLabel} then None
              else gget (om_Labels (TemplateObjectMeta a)) k)"
  using assms
  by (auto simp: appOff_meta wfApp_def cleanMeta_def cleanTemplate_def gget_gdels gget_del offAnnotations_def
      offTemplateAnnotations_def)

lemma wfApp_appOff [simp]: "wfApp a \<Longrightarrow> wfApp (appOff A n a)"
  by (simp add: appOff_meta wfApp_def cleanMeta_def cleanTemplate_def)

lemma wfApp_appOn [simp]: "wfApp a \<Longrightarrow> wfApp (appOn mode A n a)"
  by (simp add: wfApp_def)

lemma getPreviousAppReplicas_appOff:
  assumes "wfApp a" and "getPreviousAppReplicas aw a = Some n"
  shows "getPreviousAppReplicas aw (appOff A n a) = Some n"
proof -
  have r: "gget (om_Annotations (ObjectMeta (appOff A n a))) AppReplicasAnnotation = None"
    using appOff_annotations(1) [OF assms(1), of A n] by (simp add: offAnnotations_def)
  let ?s = "gstr (om_Annotations (ObjectMeta (appOff A n a))) StateBeforeSleepingAnnontation"
  show ?thesis
  proof (cases "?s = []")
    case True
    then show ?thesis using r by (simp add: getPreviousAppReplicas_def Let_def)
  next
    case False
    then have "?s = gstr (om_Annotations (ObjectMeta a)) StateBeforeSleepingAnnontation"
      using appOff_annotations(1) [OF assms(1), of A n]
      by (auto simp: gstr_def split: if_splits)
    with False assms(2) show ?thesis
      unfolding getPreviousAppReplicas_def Let_def by simp
  qed
qed

definition noSleep :: "app \<Rightarrow> app" where
  "noSleep a = onMeta (delAnnotation StateBeforeSleepingAnnontation) a"

lemma noSleep_reads [simp]:
  "Replicas (noSleep a) = Replicas a" "PodSpec (noSleep a) = PodSpec a"
  "TemplateObjectMeta (noSleep a) = TemplateObjectMeta a"
  "ObjectMeta (noSleep a) = delAnnotation StateBeforeSleepingAnnontation (ObjectMeta a)"
  by (simp_all add: noSleep_def)

text \<open>What a successful translation did, step by step.\<close>

lemma translate_steps:
  assumes "translate aw tr = Inr tr'" and "dv_Metadata (tl_Dev tr) = Some md"
    and "noLegacy (om_Annotations (ObjectMeta (tl_App tr)))" and "wfApp (tl_App tr)"
    and "getPreviousAppReplicas aw (tl_App tr) = Some n"
  obtains a spec where "a = noSleep (appOff (elems (md_Annotations md)) n (tl_App tr))"
    and "translateRules aw (dv_Name (tl_MainDev tr)) (dv_Name (tl_Dev tr)) (tl_Rules tr)
           (PodSpec (translateClone aw tr md (DevClone a))) = Inr spec"
    and "tl_App tr' = appOn (dv_Mode (tl_Dev tr)) (elems (md_Annotations md)) n a"
    and "tl_DevApp tr' = Some (onPodSpec (\<lambda>_. spec) (translateClone aw tr md (DevClone a)))"
proof -
  let ?off = "appOff (elems (md_Annotations md)) n (tl_App tr)"
  have off: "DevModeOff aw (tl_Dev tr) (tl_App tr) = Inr ?off"
    using assms(2,3,5) by (intro DevModeOff_eq)
  have prev: "getPreviousAppReplicas aw ?off = Some n"
    using assms(4,5) by (rule getPreviousAppReplicas_appOff)
  show ?thesis
    using assms(1,2) that [OF refl]
    by (auto simp: translate_def off prev Let_def scaleDown_eq noSleep_def split: sum.splits)
qed

lemma appOn_annotations:
  assumes "gwf A"
  shows "gget (om_Annotations (ObjectMeta (appOn mode A n a))) k
      = (case gget A k of Some v \<Rightarrow> Some v
         | None \<Rightarrow> if k = OktetoDevModeAnnotation then Some mode
                   else if k = AppReplicasAnnotation then Some (showInt n)
                   else gget (om_Annotations (ObjectMeta a)) k)"
  using assms by (simp add: gget_grange_put gget_put split: option.split)


section \<open>Mounts of the development pod\<close>

text \<open>Every mount of every container names a volume of the pod or one of the given names (the claim
  templates of a stateful set), and no two volumes have the same name.\<close>

definition resolvedIn :: "string set \<Rightarrow> podSpec \<Rightarrow> volumeMount list \<Rightarrow> bool" where
  "resolvedIn X spec ms \<longleftrightarrow> (\<forall>m \<in> set ms. vm_Name m \<in> X \<or> hasVolume (vm_Name m) spec)"

definition podResolved :: "string set \<Rightarrow> podSpec \<Rightarrow> bool" where
  "podResolved X spec \<longleftrightarrow>
     (\<forall>c \<in> set (ps_Containers spec) \<union> set (ps_InitContainers spec). resolvedIn X spec (c_VolumeMounts c))
     \<and> distinct (map v_Name (ps_Volumes spec))"

definition extends :: "podSpec \<Rightarrow> podSpec \<Rightarrow> bool" where
  "extends spec spec' \<longleftrightarrow> (\<forall>n. hasVolume n spec \<longrightarrow> hasVolume n spec')"

lemma extends_refl [simp]: "extends spec spec"
  by (simp add: extends_def)

lemma extends_trans: "extends a b \<Longrightarrow> extends b c \<Longrightarrow> extends a c"
  by (simp add: extends_def)

lemma resolvedIn_extends: "resolvedIn X spec ms \<Longrightarrow> extends spec spec' \<Longrightarrow> resolvedIn X spec' ms"
  by (auto simp: resolvedIn_def extends_def)

lemma resolvedIn_append [simp]:
  "resolvedIn X spec (ms @ ns) \<longleftrightarrow> resolvedIn X spec ms \<and> resolvedIn X spec ns"
  by (auto simp: resolvedIn_def)

lemma hasVolume_add [simp]: "hasVolume n (addVolume v spec) \<longleftrightarrow> hasVolume n spec \<or> v_Name v = n"
  by (auto simp: hasVolume_def addVolume_def)

lemma addVolume_distinct:
  "distinct (map v_Name (ps_Volumes spec)) \<Longrightarrow> \<not> hasVolume (v_Name v) spec \<Longrightarrow>
     distinct (map v_Name (ps_Volumes (addVolume v spec)))"
  by (auto simp: hasVolume_def addVolume_def list_ex_iff)

text \<open>An edit that only adds volumes with new names.\<close>

definition growsVolumes :: "(podSpec \<Rightarrow> podSpec) \<Rightarrow> bool" where
  "growsVolumes f \<longleftrightarrow>
     (\<forall>spec. extends spec (f spec) \<and> ps_Containers (f spec) = ps_Containers spec
        \<and> ps_InitContainers (f spec) = ps_InitContainers spec
        \<and> (distinct (map v_Name (ps_Volumes spec)) \<longrightarrow> distinct (map v_Name (ps_Volumes (f spec)))))"

lemma growsVolumes_addIfMissing:
  "v_Name v = n \<Longrightarrow> growsVolumes (\<lambda>spec. if hasVolume n spec then spec else addVolume v spec)"
  unfolding growsVolumes_def
  by (auto simp: extends_def addVolume_distinct) (simp_all add: addVolume_def)

lemma growsVolumes_comp: "growsVolumes f \<Longrightarrow> growsVolumes g \<Longrightarrow> growsVolumes (\<lambda>s. g (f s))"
  unfolding growsVolumes_def by (auto intro: extends_trans)

lemma growsVolumes_id [simp]: "growsVolumes (\<lambda>s. s)"
  by (simp add: growsVolumes_def)

lemma growsVolumes_same:
  assumes "\<And>spec. ps_Volumes (f spec) = ps_Volumes spec" "\<And>spec. ps_Containers (f spec) = ps_Containers spec"
    "\<And>spec. ps_InitContainers (f spec) = ps_InitContainers spec"
  shows "growsVolumes f"
  using assms by (simp add: growsVolumes_def extends_def hasVolume_def)

lemma podResolved_grows: "growsVolumes f \<Longrightarrow> podResolved X spec \<Longrightarrow> podResolved X (f spec)"
  by (auto simp: growsVolumes_def podResolved_def intro: resolvedIn_extends)

lemma growsVolumes_rule: "growsVolumes (addRuleVolumes rule vs)"
proof (induction vs)
  case Nil
  then show ?case by simp
next
  case (Cons v vs)
  have "growsVolumes (\<lambda>spec. if hasVolume (rm_Name v) spec then spec else addVolume (ruleVolume rule v) spec)"
    by (rule growsVolumes_addIfMissing) (simp add: ruleVolume_def)
  from growsVolumes_comp [OF this Cons.IH] show ?case by simp
qed

lemma addRuleVolumes_has: "v \<in> set vs \<Longrightarrow> hasVolume (rm_Name v) (addRuleVolumes rule vs spec)"
proof (induction vs arbitrary: spec)
  case Nil
  then show ?case by simp
next
  case (Cons w vs)
  show ?case
  proof (cases "v \<in> set vs")
    case True
    with Cons.IH show ?thesis by simp
  next
    case False
    with Cons.prems have "v = w" by simp
    then show ?thesis
      using growsVolumes_rule [of rule vs]
      by (simp add: growsVolumes_def extends_def ruleVolume_def)
  qed
qed

lemma affinity_same:
  "ps_Volumes (TranslateOktetoAffinity aw rule d spec) = ps_Volumes spec"
  "ps_Containers (TranslateOktetoAffinity aw rule d spec) = ps_Containers spec"
  "ps_InitContainers (TranslateOktetoAffinity aw rule d spec) = ps_InitContainers spec"
  by (simp_all add: TranslateOktetoAffinity_def Let_def split: option.split)

lemma podSecurity_same:
  "ps_Volumes (TranslatePodSecurityContext s spec) = ps_Volumes spec"
  "ps_Containers (TranslatePodSecurityContext s spec) = ps_Containers spec"
  "ps_InitContainers (TranslatePodSecurityContext s spec) = ps_InitContainers spec"
  by (simp_all add: TranslatePodSecurityContext_def Let_def split: option.split)

lemmas pod_edits = TranslatePodServiceAccount_def TranslatePodPriorityClassName_def
  TranslateOktetoNodeSelector_def affinity_same podSecurity_same

lemma growsVolumes_podSpec: "growsVolumes (TranslatePodSpec aw rule devName)"
proof -
  have "TranslatePodSpec aw rule devName = (\<lambda>spec.
      (\<lambda>spec. TranslateOktetoAffinity aw rule devName (TranslateOktetoNodeSelector (tr_NodeSelector rule)
         (TranslatePodPriorityClassName (tr_PriorityClassName rule)
           (TranslatePodServiceAccount (tr_ServiceAccount rule)
             (TranslatePodSecurityContext (tr_SecurityContext rule) spec)))))
      (addRuleVolumes rule (tr_Volumes rule) spec))"
    by (simp add: fun_eq_iff TranslatePodSpec_def Let_def TranslateOktetoVolumes_def)
  moreover have "growsVolumes (\<lambda>spec. TranslateOktetoAffinity aw rule devName (TranslateOktetoNodeSelector (tr_NodeSelector rule)
         (TranslatePodPriorityClassName (tr_PriorityClassName rule)
           (TranslatePodServiceAccount (tr_ServiceAccount rule)
             (TranslatePodSecurityContext (tr_SecurityContext rule) spec)))))"
    by (rule growsVolumes_same) (simp_all add: pod_edits)
  ultimately show ?thesis using growsVolumes_comp [OF growsVolumes_rule [of rule "tr_Volumes rule"]] by simp
qed

lemma TranslatePodSpec_has:
  "v \<in> set (tr_Volumes rule) \<Longrightarrow> hasVolume (rm_Name v) (TranslatePodSpec aw rule devName spec)"
  using addRuleVolumes_has [of v "tr_Volumes rule" rule spec]
  by (simp add: TranslatePodSpec_def Let_def TranslateOktetoVolumes_def hasVolume_def pod_edits)

lemma growsVolumes_secret: "growsVolumes (TranslateOktetoDevSecret name ss)"
  using growsVolumes_addIfMissing [of "\<lparr>v_Name = oktetoDevSecretVolume, v_Source = SecretSource (secretName name) (secretItems 0 ss)\<rparr>" oktetoDevSecretVolume]
  by (cases "ss = []") (simp_all add: TranslateOktetoDevSecret_def [abs_def])

lemma growsVolumes_bin: "growsVolumes TranslateOktetoBinVolume"
  using growsVolumes_addIfMissing [of "\<lparr>v_Name = OktetoBinName, v_Source = EmptyDirSource\<rparr>" OktetoBinName]
  by (simp add: TranslateOktetoBinVolume_def [abs_def])

lemma growsVolumes_syncthing: "growsVolumes (TranslateOktetoSyncthingVolumes name)"
  unfolding TranslateOktetoSyncthingVolumes_def [abs_def] isOktetoSyncSecretVolumePresent_def
  by (rule growsVolumes_addIfMissing) simp
lemma mounts_kept [simp]:
  "c_VolumeMounts (TranslateProbes p c) = c_VolumeMounts c"
  "c_VolumeMounts (setPostStart l c) = c_VolumeMounts c"
  "c_VolumeMounts (setPreStop l c) = c_VolumeMounts c"
  "c_VolumeMounts (TranslateResources r c) = c_VolumeMounts c"
  "c_VolumeMounts (translateInitResources r c) = c_VolumeMounts c"
  "c_VolumeMounts (TranslateEnvVars rule c) = c_VolumeMounts c"
  "c_VolumeMounts (TranslateContainerSecurityContext s c) = c_VolumeMounts c"
  by (simp_all add: TranslateProbes_def setPostStart_def setPreStop_def TranslateResources_def
      translateInitResources_def TranslateEnvVars_def TranslateContainerSecurityContext_def Let_def
      split: option.split)

lemma mounts_lifecycle [simp]: "c_VolumeMounts (TranslateLifecycle l c) = c_VolumeMounts c"
  by (simp add: TranslateLifecycle_def Let_def split: option.split)

lemma mounts_TranslateDevContainer:
  "c_VolumeMounts (TranslateDevContainer rule c) = c_VolumeMounts (TranslateVolumeMounts rule c)"
  by (simp add: TranslateDevContainer_def Let_def TranslateVolumeMounts_def)

text \<open>The mounts a rule adds, and the volumes that must be there for them.\<close>

definition ruleResolved :: "translationRule \<Rightarrow> podSpec \<Rightarrow> bool" where
  "ruleResolved rule spec \<longleftrightarrow>
     (\<forall>v \<in> set (tr_Volumes rule). hasVolume (rm_Name v) spec)
     \<and> (tr_Marker rule \<noteq> [] \<longrightarrow> hasVolume oktetoSyncSecretVolume spec)
     \<and> (tr_Secrets rule \<noteq> [] \<longrightarrow> hasVolume oktetoDevSecretVolume spec)"

lemma resolved_devContainer:
  assumes "ruleResolved rule spec" and "resolvedIn X spec (c_VolumeMounts c)"
  shows "resolvedIn X spec (c_VolumeMounts (TranslateDevContainer rule c))"
  using assms
  by (auto simp: mounts_TranslateDevContainer TranslateVolumeMounts_def resolvedIn_def ruleResolved_def podMount_def)

lemma resolved_binMounts:
  assumes "resolvedIn X spec (c_VolumeMounts c)" and "hasVolume OktetoBinName spec"
  shows "resolvedIn X spec (c_VolumeMounts (TranslateOktetoBinVolumeMounts c))"
  using assms by (auto simp: TranslateOktetoBinVolumeMounts_def resolvedIn_def)

lemma initVolumesLoop_mounts:
  "m \<in> set (fst (initVolumesLoop i vs command)) \<Longrightarrow> \<exists>v \<in> set vs. vm_Name m = rm_Name v"
proof (induction i vs command rule: initVolumesLoop.induct)
  case (1 i command)
  then show ?case by simp
next
  case (2 i v vs command)
  then show ?case by (auto simp: Let_def split: if_splits prod.splits)
qed

lemma initFromImage_adds:
  "TranslateOktetoInitFromImageContainer aw rule spec = spec
   \<or> (\<exists>c. TranslateOktetoInitFromImageContainer aw rule spec = addInitContainer c spec
          \<and> (\<forall>m \<in> set (c_VolumeMounts c). \<exists>v \<in> set (tr_Volumes rule). vm_Name m = rm_Name v))"
proof -
  obtain ms command where l: "initVolumesLoop 1 (tr_Volumes rule) ''echo initializing...'' = (ms, command)"
    by (cases "initVolumesLoop 1 (tr_Volumes rule) ''echo initializing...''")
  have ms: "\<forall>m \<in> set ms. \<exists>v \<in> set (tr_Volumes rule). vm_Name m = rm_Name v"
    using initVolumesLoop_mounts [of _ 1 "tr_Volumes rule" "''echo initializing...''"] l by fastforce
  show ?thesis
  proof (cases "tr_PersistentVolume rule")
    case True
    show ?thesis
      unfolding TranslateOktetoInitFromImageContainer_def l prod.case Let_def using ms True by auto
  next
    case False
    then show ?thesis by (simp add: TranslateOktetoInitFromImageContainer_def)
  qed
qed

lemma resolved_addInit:
  assumes "podResolved X spec" and "\<forall>m \<in> set (c_VolumeMounts c). hasVolume (vm_Name m) spec"
  shows "podResolved X (addInitContainer c spec)"
  using assms unfolding podResolved_def addInitContainer_def resolvedIn_def hasVolume_def by auto

lemma resolved_initFromImage:
  assumes "podResolved X spec" and "\<forall>v \<in> set (tr_Volumes rule). hasVolume (rm_Name v) spec"
  shows "podResolved X (TranslateOktetoInitFromImageContainer aw rule spec)"
  using initFromImage_adds [of aw rule spec]
proof (elim disjE exE conjE)
  fix c
  assume c: "TranslateOktetoInitFromImageContainer aw rule spec = addInitContainer c spec"
    and "\<forall>m \<in> set (c_VolumeMounts c). \<exists>v \<in> set (tr_Volumes rule). vm_Name m = rm_Name v"
  with assms(2) have "\<forall>m \<in> set (c_VolumeMounts c). hasVolume (vm_Name m) spec" by metis
  with assms(1) show ?thesis unfolding c by (rule resolved_addInit)
qed (use assms in simp)

lemma podResolved_by_parts:
  assumes "podResolved X spec" and "extends spec spec'" and "distinct (map v_Name (ps_Volumes spec'))"
    and "\<forall>c \<in> set (ps_Containers spec') \<union> set (ps_InitContainers spec').
           c \<in> set (ps_Containers spec) \<union> set (ps_InitContainers spec) \<or> resolvedIn X spec' (c_VolumeMounts c)"
  shows "podResolved X spec'"
  using assms unfolding podResolved_def by (metis resolvedIn_extends)

text \<open>The container pointed to is changed before the volumes it needs are added.\<close>

definition withContainer :: "nat \<Rightarrow> container \<Rightarrow> podSpec \<Rightarrow> podSpec" where
  "withContainer i c spec = spec\<lparr>ps_Containers := (ps_Containers spec)[i := c]\<rparr>"

lemma withContainer_simps [simp]:
  "ps_Volumes (withContainer i c spec) = ps_Volumes spec"
  "ps_InitContainers (withContainer i c spec) = ps_InitContainers spec"
  "hasVolume n (withContainer i c spec) = hasVolume n spec"
  "extends (withContainer i c spec) s = extends spec s"
  "ps_Containers (withContainer i c spec) = (ps_Containers spec)[i := c]"
  by (simp_all add: withContainer_def hasVolume_def extends_def)

lemma resolved_change:
  assumes "podResolved X spec" and "growsVolumes G" and "resolvedIn X (G (withContainer i c spec)) (c_VolumeMounts c)"
  shows "podResolved X (G (withContainer i c spec))"
proof (rule podResolved_by_parts [OF assms(1)])
  let ?s = "withContainer i c spec"
  show "extends spec (G ?s)" "distinct (map v_Name (ps_Volumes (G ?s)))"
    using assms(1,2) by (auto simp: growsVolumes_def podResolved_def dest: spec [of _ ?s])
  show "\<forall>d \<in> set (ps_Containers (G ?s)) \<union> set (ps_InitContainers (G ?s)).
          d \<in> set (ps_Containers spec) \<union> set (ps_InitContainers spec) \<or> resolvedIn X (G ?s) (c_VolumeMounts d)"
    using assms(2,3) set_update_subset_insert [of "ps_Containers spec" i c]
    by (auto simp: growsVolumes_def)
qed

lemma containerIndex_bound: "containerIndex n cs = Some i \<Longrightarrow> i < length cs"
  by (induction cs arbitrary: i) (auto split: if_splits)

lemma GetDevContainer_bound: "GetDevContainer spec n = Inr (Some i) \<Longrightarrow> i < length (ps_Containers spec)"
  by (auto simp: GetDevContainer_def containerIndex_bound split: if_splits)

lemma TranslateOktetoInitBinContainer_adds:
  "\<exists>c. TranslateOktetoInitBinContainer rule spec = addInitContainer c spec
     \<and> (\<forall>m \<in> set (c_VolumeMounts c). vm_Name m = OktetoBinName)"
  by (auto simp: TranslateOktetoInitBinContainer_def Let_def)

lemma resolved_mainContainer:
  assumes spec: "podResolved X spec" and c: "resolvedIn X spec (c_VolumeMounts c)"
    and vols: "\<forall>v \<in> set (tr_Volumes rule). hasVolume (rm_Name v) spec"
  shows "podResolved X (TranslateOktetoInitFromImageContainer aw rule
     (TranslateOktetoBinVolume (TranslateOktetoInitBinContainer rule
       (withContainer i (TranslateOktetoBinVolumeMounts c) spec))))"
proof -
  let ?w = "withContainer i (TranslateOktetoBinVolumeMounts c) spec"
  obtain b where b: "TranslateOktetoInitBinContainer rule ?w = addInitContainer b ?w"
    "\<forall>m \<in> set (c_VolumeMounts b). vm_Name m = OktetoBinName"
    using TranslateOktetoInitBinContainer_adds by blast
  let ?s = "TranslateOktetoBinVolume (addInitContainer b ?w)"
  have g: "extends (addInitContainer b ?w) ?s" "ps_Containers ?s = ps_Containers ?w"
    "ps_InitContainers ?s = ps_InitContainers spec @ [b]"
    "distinct (map v_Name (ps_Volumes (addInitContainer b ?w))) \<longrightarrow> distinct (map v_Name (ps_Volumes ?s))"
    using growsVolumes_bin by (auto simp: growsVolumes_def addInitContainer_def)
  have ext: "extends spec ?s" using g(1) by (auto simp: extends_def addInitContainer_def hasVolume_def)
  have bin: "hasVolume OktetoBinName ?s" by (simp add: TranslateOktetoBinVolume_def)
  have "resolvedIn X ?s (c_VolumeMounts (TranslateOktetoBinVolumeMounts c))"
    using resolvedIn_extends [OF c ext] bin by (rule resolved_binMounts)
  moreover have "resolvedIn X ?s (c_VolumeMounts b)" using b(2) bin by (simp add: resolvedIn_def)
  moreover have "distinct (map v_Name (ps_Volumes ?s))"
    using g(4) spec by (simp add: podResolved_def addInitContainer_def)
  ultimately have "podResolved X ?s"
    using set_update_subset_insert [of "ps_Containers spec" i "TranslateOktetoBinVolumeMounts c"]
    by (intro podResolved_by_parts [OF spec ext]) (auto simp: g(2,3))
  moreover have "\<forall>v \<in> set (tr_Volumes rule). hasVolume (rm_Name v) ?s"
    using vols ext by (simp add: extends_def)
  ultimately show ?thesis unfolding b(1) by (rule resolved_initFromImage)
qed

lemma translateRule_eq:
  "translateRule aw mainName devName rule spec =
     (case GetDevContainer spec (tr_Container rule) of
        Inl e \<Rightarrow> Inl e
      | Inr None \<Rightarrow> Inl AppPanic
      | Inr (Some i) \<Rightarrow>
          let s = TranslateOktetoDevSecret devName (tr_Secrets rule) (TranslatePodSpec aw rule mainName
                    (withContainer i (TranslateDevContainer rule (ps_Containers spec ! i)) spec))
          in Inr (if IsMainDevContainer rule then
                    TranslateOktetoInitFromImageContainer aw rule (TranslateOktetoBinVolume
                      (TranslateOktetoInitBinContainer rule
                        (withContainer i (TranslateOktetoBinVolumeMounts (ps_Containers s ! i)) s)))
                  else s))"
  by (simp add: translateRule_def withContainer_def Let_def split: sum.split option.split)

lemma translateRule_resolved:
  assumes "translateRule aw mainName devName rule spec = Inr spec'" and res: "podResolved X spec"
    and mark: "tr_Marker rule \<noteq> [] \<longrightarrow> hasVolume oktetoSyncSecretVolume spec"
  shows "podResolved X spec'"
proof -
  obtain i where i: "GetDevContainer spec (tr_Container rule) = Inr (Some i)"
    using assms(1) by (auto simp: translateRule_eq split: sum.splits option.splits)
  then have len: "i < length (ps_Containers spec)" by (rule GetDevContainer_bound)
  let ?c = "ps_Containers spec ! i"
  let ?G = "\<lambda>s. TranslateOktetoDevSecret devName (tr_Secrets rule) (TranslatePodSpec aw rule mainName s)"
  let ?w = "withContainer i (TranslateDevContainer rule ?c) spec"
  have G: "growsVolumes ?G" by (rule growsVolumes_comp [OF growsVolumes_podSpec growsVolumes_secret])
  have Gw: "extends ?w (?G ?w)" "ps_Containers (?G ?w) = ps_Containers ?w"
    using G unfolding growsVolumes_def by blast+
  have sec: "extends (TranslatePodSpec aw rule mainName ?w) (?G ?w)"
    using growsVolumes_secret unfolding growsVolumes_def by blast
  have vols: "\<forall>v \<in> set (tr_Volumes rule). hasVolume (rm_Name v) (?G ?w)"
    using TranslatePodSpec_has sec unfolding extends_def by blast
  have "ruleResolved rule (?G ?w)"
    using vols mark Gw(1) by (auto simp: ruleResolved_def extends_def TranslateOktetoDevSecret_def)
  moreover have "resolvedIn X (?G ?w) (c_VolumeMounts ?c)"
  proof (rule resolvedIn_extends [of X spec])
    show "resolvedIn X spec (c_VolumeMounts ?c)" using res len by (auto simp: podResolved_def)
    show "extends spec (?G ?w)" using Gw(1) by simp
  qed
  ultimately have dc: "resolvedIn X (?G ?w) (c_VolumeMounts (TranslateDevContainer rule ?c))"
    by (rule resolved_devContainer)
  have r1: "podResolved X (?G ?w)" using res G dc by (rule resolved_change)
  have "ps_Containers (?G ?w) ! i = TranslateDevContainer rule ?c" using Gw(2) len by simp
  then show ?thesis
    using assms(1) r1 resolved_mainContainer [OF r1 dc vols, of aw i]
    by (cases "IsMainDevContainer rule") (simp_all add: translateRule_eq i Let_def)
qed

lemma extends_addInit [simp]: "extends spec (addInitContainer c spec)"
  by (simp add: extends_def addInitContainer_def hasVolume_def)

lemma extends_init [simp]:
  "extends spec (TranslateOktetoInitBinContainer rule spec)"
  "extends spec (TranslateOktetoInitFromImageContainer aw rule spec)"
  using TranslateOktetoInitBinContainer_adds [of rule spec] initFromImage_adds [of aw rule spec]
  by (metis extends_addInit extends_refl)+

lemma extends_grows: "growsVolumes f \<Longrightarrow> extends spec (f spec)"
  by (simp add: growsVolumes_def)

lemma translateRule_extends:
  assumes "translateRule aw mainName devName rule spec = Inr spec'"
  shows "extends spec spec'"
proof -
  obtain i where i: "GetDevContainer spec (tr_Container rule) = Inr (Some i)"
    using assms by (auto simp: translateRule_eq split: sum.splits option.splits)
  let ?w = "withContainer i (TranslateDevContainer rule (ps_Containers spec ! i)) spec"
  define s where "s = TranslateOktetoDevSecret devName (tr_Secrets rule) (TranslatePodSpec aw rule mainName ?w)"
  have "extends ?w s"
    unfolding s_def using extends_grows [OF growsVolumes_podSpec] extends_grows [OF growsVolumes_secret]
    by (rule extends_trans)
  then have s: "extends spec s" by simp
  let ?v = "withContainer i (TranslateOktetoBinVolumeMounts (ps_Containers s ! i)) s"
  have "extends ?v (TranslateOktetoInitFromImageContainer aw rule
      (TranslateOktetoBinVolume (TranslateOktetoInitBinContainer rule ?v)))"
    using extends_init extends_grows [OF growsVolumes_bin] by (meson extends_trans)
  with s assms i show ?thesis
    by (cases "IsMainDevContainer rule") (auto simp: translateRule_eq Let_def s_def intro: extends_trans)
qed

lemma translateRules_resolved:
  assumes "translateRules aw mainName devName rules spec = Inr spec'" and "podResolved X spec"
    and "\<forall>r \<in> set rules. tr_Marker r \<noteq> [] \<longrightarrow> hasVolume oktetoSyncSecretVolume spec"
  shows "podResolved X spec'"
  using assms
proof (induction rules arbitrary: spec)
  case Nil
  then show ?case by simp
next
  case (Cons r rules)
  then obtain s where s: "translateRule aw mainName devName r spec = Inr s"
    and rest: "translateRules aw mainName devName rules s = Inr spec'"
    by (auto split: sum.splits)
  have "podResolved X s" using translateRule_resolved [OF s Cons.prems(2)] Cons.prems(3) by simp
  moreover have "extends spec s" using s by (rule translateRule_extends)
  ultimately show ?case using Cons.IH [OF rest] Cons.prems(3) by (auto simp: extends_def)
qed

lemma PodSpec_DevClone [simp]: "PodSpec (DevClone a) = PodSpec a"
  by (cases a) (simp_all add: DevClone_def PodSpec_def NewDeploymentApp_def NewStatefulSetApp_def
      deploymentDevClone_def statefulSetDevClone_def Let_def)

definition cloneSpec :: "translation \<Rightarrow> podSpec \<Rightarrow> podSpec" where
  "cloneSpec tr spec =
     (let spec = TranslateDevTolerations (dv_Tolerations (tl_Dev tr)) spec;
          spec = (if tl_IsMain tr then TranslateOktetoSyncthingVolumes (dv_Name (tl_Dev tr)) spec else spec)
      in spec\<lparr>ps_TerminationGracePeriodSeconds := Some 0\<rparr>)"

lemma PodSpec_translateClone: "PodSpec (translateClone aw tr md c) = cloneSpec tr (PodSpec c)"
  by (simp add: translateClone_def cloneSpec_def Let_def split: list.split option.split)

lemma growsVolumes_cloneSpec: "growsVolumes (cloneSpec tr)"
proof -
  have 1: "growsVolumes (TranslateDevTolerations ts)" for ts
    by (rule growsVolumes_same) (simp_all add: TranslateDevTolerations_def)
  have 2: "growsVolumes (\<lambda>spec. spec\<lparr>ps_TerminationGracePeriodSeconds := Some 0\<rparr>)"
    by (rule growsVolumes_same) simp_all
  show ?thesis
    using growsVolumes_comp [OF 1 2] growsVolumes_comp [OF growsVolumes_comp [OF 1 growsVolumes_syncthing] 2]
    by (cases "tl_IsMain tr") (simp_all add: cloneSpec_def [abs_def] Let_def)
qed

text \<open>C22. In the pod of a development clone every mount of every container and init container names
  a volume of the pod (or a claim template), and no volume name is declared twice, when this holds of
  the application and only the main container's rules carry the marker of the synchronization.\<close>

theorem clone_mounts_resolve:
  assumes t: "translate aw tr = Inr tr'" and md: "dv_Metadata (tl_Dev tr) = Some md"
    and app: "wfApp (tl_App tr)" "noLegacy (om_Annotations (ObjectMeta (tl_App tr)))"
      "getPreviousAppReplicas aw (tl_App tr) = Some n"
    and res: "podResolved X (PodSpec (tl_App tr))"
    and mark: "tl_IsMain tr \<or> list_all (\<lambda>r. tr_Marker r = []) (tl_Rules tr)"
  shows "\<exists>c. tl_DevApp tr' = Some c \<and> podResolved X (PodSpec c)"
proof -
  obtain a spec where a: "a = noSleep (appOff (elems (md_Annotations md)) n (tl_App tr))"
    and rules: "translateRules aw (dv_Name (tl_MainDev tr)) (dv_Name (tl_Dev tr)) (tl_Rules tr)
       (PodSpec (translateClone aw tr md (DevClone a))) = Inr spec"
    and c: "tl_DevApp tr' = Some (onPodSpec (\<lambda>_. spec) (translateClone aw tr md (DevClone a)))"
    using translate_steps [OF t md app(2,1,3)] by blast
  have s0: "PodSpec (translateClone aw tr md (DevClone a)) = cloneSpec tr (PodSpec (tl_App tr))"
    by (simp add: PodSpec_translateClone a)
  have "podResolved X (cloneSpec tr (PodSpec (tl_App tr)))"
    using growsVolumes_cloneSpec res by (rule podResolved_grows)
  moreover have "\<forall>r \<in> set (tl_Rules tr). tr_Marker r \<noteq> [] \<longrightarrow>
      hasVolume oktetoSyncSecretVolume (cloneSpec tr (PodSpec (tl_App tr)))"
    using mark
    by (auto simp: list_all_iff cloneSpec_def Let_def hasVolume_def TranslateOktetoSyncthingVolumes_def
        isOktetoSyncSecretVolumePresent_def addVolume_def)
  ultimately have "podResolved X spec"
    using translateRules_resolved [OF rules] s0 by simp
  then show ?thesis using c by simp
qed

section \<open>Variables of the development container\<close>

text \<open>
  A variable that occurs twice in a pod counts with its last occurrence; so does one that occurs
  twice in the manifest.
\<close>

definition podEnv :: "envVar list \<Rightarrow> string \<rightharpoonup> string \<times> string option" where
  "podEnv es n = map_of (rev (map (\<lambda>e. (ev_Name e, (ev_Value e, ev_ValueFrom e))) es)) n"

definition lastValue :: "environment \<Rightarrow> string \<rightharpoonup> string" where
  "lastValue env n = map_of (rev (map (\<lambda>v. (va_Name v, va_Value v)) env)) n"

lemma unusedEnv_gget: "gget (unusedEnv env m) n = (case lastValue env n of Some v \<Rightarrow> Some v | None \<Rightarrow> gget m n)"
  by (induction env m rule: unusedEnv.induct)
    (auto simp: lastValue_def gget_put map_add_def split: option.split)

lemma gwf_unusedEnv: "gwf m \<Longrightarrow> gwf (unusedEnv env m)"
  by (induction env m rule: unusedEnv.induct) simp_all

lemma podEnv_Cons: "podEnv (e # es) n = (case podEnv es n of Some v \<Rightarrow> Some v
    | None \<Rightarrow> if n = ev_Name e then Some (ev_Value e, ev_ValueFrom e) else None)"
  by (simp add: podEnv_def map_add_def split: option.split)

lemma podEnv_append: "podEnv (xs @ ys) n = (case podEnv ys n of Some v \<Rightarrow> Some v | None \<Rightarrow> podEnv xs n)"
  by (simp add: podEnv_def map_add_def split: option.split)

lemma podEnv_None: "n \<notin> ev_Name ` set es \<Longrightarrow> podEnv es n = None"
  by (force simp: podEnv_def map_of_eq_None_iff)

lemma replaceEnv_spec:
  assumes "gwf u" and "distinct (map ev_Name es)"
  shows "map ev_Name (fst (replaceEnv u es)) = map ev_Name es
    \<and> gwf (snd (replaceEnv u es))
    \<and> (\<forall>n. gget (snd (replaceEnv u es)) n = (if n \<in> ev_Name ` set es then None else gget u n))
    \<and> (\<forall>n. podEnv (fst (replaceEnv u es)) n =
         (if n \<in> ev_Name ` set es then
            case gget u n of Some v \<Rightarrow> Some (v, None) | None \<Rightarrow> podEnv es n
          else None))"
  using assms
proof (induction u es rule: replaceEnv.induct)
  case (1 u)
  then show ?case by (simp add: podEnv_def)
next
  case (2 u e es)
  have no: "ev_Name e \<notin> ev_Name ` set es" using 2(4) by (metis distinct.simps(2) list.simps(9) set_map)
  have d: "distinct (map ev_Name es)" using 2(4) by simp
  show ?case
  proof (cases "gget u (ev_Name e)")
    case None
    obtain es' u' where r: "replaceEnv u es = (es', u')" by (cases "replaceEnv u es")
    show ?thesis using 2(1) [OF None 2(3) d] None no r
      by (auto simp: podEnv_Cons podEnv_None split: option.split)
  next
    case (Some v)
    obtain es' u' where r: "replaceEnv (gdel (ev_Name e) u) es = (es', u')"
      by (cases "replaceEnv (gdel (ev_Name e) u) es")
    have "gwf (gdel (ev_Name e) u)" using 2(3) by simp
    then show ?thesis using 2(2) [OF Some _ d] Some no r 2(3)
      by (auto simp: podEnv_Cons plainEnv_def gget_del podEnv_None split: option.split)
  qed
qed

lemma appendEnv_spec:
  "podEnv (appendEnv u env) n =
     (if n \<in> va_Name ` set env then map_option (\<lambda>v. (v, None)) (gget u n) else None)"
proof (induction u env rule: appendEnv.induct)
  case (1 u)
  then show ?case by (simp add: podEnv_def)
next
  case (2 u v vs)
  show ?case
  proof (cases "gget u (va_Name v)")
    case None
    with 2 show ?thesis by auto
  next
    case (Some x)
    with 2 show ?thesis by (auto simp: podEnv_Cons plainEnv_def split: option.split)
  qed
qed

lemma lastValue_None: "lastValue env n = None \<longleftrightarrow> n \<notin> va_Name ` set env"
  by (force simp: lastValue_def map_of_eq_None_iff)

text \<open>The environment of the development container: a variable of the manifest replaces the
  container's in place or is added, the last value winning; every other variable of the container is
  kept, with its source; and the container's variables keep their order.\<close>

theorem env_overrides:
  assumes "distinct (map ev_Name es)"
  shows "(\<forall>n. podEnv (translateEnv env es) n
           = (case lastValue env n of Some v \<Rightarrow> Some (v, None) | None \<Rightarrow> podEnv es n))
    \<and> take (length es) (map ev_Name (translateEnv env es)) = map ev_Name es"
proof -
  let ?u = "unusedEnv env []"
  obtain es' u' where r: "replaceEnv ?u es = (es', u')" by (cases "replaceEnv ?u es")
  have u: "gget ?u n = lastValue env n" for n by (simp add: unusedEnv_gget split: option.split)
  have sp: "map ev_Name es' = map ev_Name es"
    "gget u' n = (if n \<in> ev_Name ` set es then None else lastValue env n)"
    "podEnv es' n = (if n \<in> ev_Name ` set es then
       case lastValue env n of Some v \<Rightarrow> Some (v, None) | None \<Rightarrow> podEnv es n else None)" for n
    using replaceEnv_spec [OF gwf_unusedEnv [OF gwf_Nil, of env] assms] r by (simp_all add: u)
  have "podEnv (es' @ appendEnv u' env) n
      = (case lastValue env n of Some v \<Rightarrow> Some (v, None) | None \<Rightarrow> podEnv es n)" for n
    using lastValue_None [of env n] podEnv_None [of n es]
    by (cases "lastValue env n") (auto simp: podEnv_append appendEnv_spec sp(2,3))
  moreover have "length es' = length es" using sp(1) by (metis length_map)
  ultimately show ?thesis by (simp add: translateEnv_def r sp(1))
qed

theorem env_overrides_witness:
  "podEnv (translateEnv [mkVar ''PORT'' ''80'', mkVar ''PORT'' ''81'', mkVar ''NEW'' ''x'']
     [\<lparr>ev_Name = ''HOST'', ev_Value = [], ev_ValueFrom = Some ''secret''\<rparr>, plainEnv ''PORT'' ''1'']) ''PORT''
   = Some (''81'', None)"
proof -
  let ?es = "[\<lparr>ev_Name = ''HOST'', ev_Value = [], ev_ValueFrom = Some ''secret''\<rparr>, plainEnv ''PORT'' ''1'']"
  have "distinct (map ev_Name ?es)" by (simp add: plainEnv_def)
  from env_overrides [OF this, of "[mkVar ''PORT'' ''80'', mkVar ''PORT'' ''81'', mkVar ''NEW'' ''x'']"]
  show ?thesis by (simp add: lastValue_def mkVar_def)
qed

section \<open>Resources of the development container\<close>

definition ownResource :: "string \<Rightarrow> bool" where
  "ownResource k \<longleftrightarrow> k \<in> {ResourceMemory, ResourceCPU, ResourceEphemeralStorage}"

lemma gwf_copyResource: "gwf m \<Longrightarrow> gwf (copyResource r k m)"
  by (simp add: copyResource_def split: option.split)

lemma gget_copyResource: "gwf m \<Longrightarrow> gget (copyResource r k m) k' = (if k' = k then gget r k else gget m k')"
  by (simp add: copyResource_def gget_put gget_del split: option.split)

lemma gget_filter: "gwf m \<Longrightarrow> gget (filter (\<lambda>(k, v). P k) m) k = (if P k then gget m k else None)"
proof (induction m)
  case Nil
  then show ?case by simp
next
  case (Cons kv m)
  obtain k' v where kv: "kv = (k', v)" by (cases kv)
  have "gwf m" "gget m k' = None" using Cons.prems by (auto simp: kv gwf_def gget_def map_of_eq_None_iff)
  with Cons.IH kv show ?case by (auto simp: gget_Cons)
qed

lemma gwf_filter: "gwf m \<Longrightarrow> gwf (filter P m)"
  by (simp add: gwf_def distinct_map_filter)

text \<open>The requests and limits of the development container: memory, cpu and ephemeral storage
  are exactly those of the manifest, unset when the manifest does not set them; a device resource of
  the manifest is added; everything else of the container is kept.\<close>

theorem dev_resources_exact:
  assumes "gwf (elems rule)" and "gwf (elems res)"
  shows "gget (elems (translateResourceList rule res)) k =
    (if ownResource k then gget (elems rule) k
     else if contains k ''/'' \<and> gget (elems rule) k \<noteq> None then gget (elems rule) k
     else gget (elems res) k)"
proof -
  let ?own = "copyResource (elems rule) ResourceEphemeralStorage
     (copyResource (elems rule) ResourceCPU (copyResource (elems rule) ResourceMemory (elems res)))"
  have own: "gget ?own k = (if ownResource k then gget (elems rule) k else gget (elems res) k)"
    using assms by (auto simp: gget_copyResource gwf_copyResource ownResource_def)
  have dev: "gget (filter (\<lambda>(k, v). contains k ''/'') (elems rule)) k
      = (if contains k ''/'' then gget (elems rule) k else None)"
    using assms(1) by (rule gget_filter)
  have "gwf (filter (\<lambda>(k, v). contains k ''/'') (elems rule))" using assms(1) by (rule gwf_filter)
  then show ?thesis
    by (simp add: translateResourceList_def Let_def gget_grange_put own dev split: option.split)
qed

theorem dev_resources_exact_witness:
  "gget (elems (translateResourceList (Some [(''memory'', 512), (''nvidia.com/gpu'', 1)])
      (Some [(''cpu'', 2), (''hugepages-2Mi'', 4)]))) ''cpu'' = None"
  using dev_resources_exact [of "Some [(''memory'', 512), (''nvidia.com/gpu'', 1)]"
      "Some [(''cpu'', 2), (''hugepages-2Mi'', 4)]" "''cpu''"]
  by (simp add: gwf_def ownResource_def gget_def go_consts)

section \<open>The state development mode leaves\<close>

lemma meta_names [simp]:
  "om_Name (putLabel k v m) = om_Name m" "om_Name (delLabel k m) = om_Name m"
  "om_Name (putAnnotation k v m) = om_Name m" "om_Name (delAnnotation k m) = om_Name m"
  "om_Name (putAnnotations as m) = om_Name m" "om_Name (delAnnotations ks m) = om_Name m"
  "om_Name (putLabels ls m) = om_Name m"
  "om_Name (cleanMeta A m) = om_Name m"
  by (simp_all add: putLabel_def delLabel_def putAnnotation_def delAnnotation_def putAnnotations_def
      delAnnotations_def putLabels_def cleanMeta_def)

lemma DevClone_name [simp]: "om_Name (ObjectMeta (DevClone a)) = DevCloneName (om_Name (ObjectMeta a))"
  by (cases a) (simp_all add: DevClone_def ObjectMeta_def NewDeploymentApp_def NewStatefulSetApp_def
      deploymentDevClone_def statefulSetDevClone_def Let_def)

definition volumeLabel :: "appWorld \<Rightarrow> translation \<Rightarrow> string option" where
  "volumeLabel aw tr =
     (case tl_Rules tr of
        [] \<Rightarrow> None
      | r # _ \<Rightarrow>
          if PersistentVolumeEnabled (tl_MainDev tr) \<and> tr_ManifestName r \<noteq> []
          then Some (getVolumeLabelKey aw (tr_ManifestName r) (dv_Name (tl_MainDev tr))) else None)"

lemma translateClone_reads:
  "om_Name (ObjectMeta (translateClone aw tr md c)) = om_Name (ObjectMeta c)"
  "Replicas (translateClone aw tr md c) =
     (if tl_IsMain tr then Some 1
      else case dv_Replicas (tl_Dev tr) of None \<Rightarrow> Replicas c | Some k \<Rightarrow> Some (int32 k))"
  "TemplateObjectMeta (translateClone aw tr md c) =
     (let m = putLabel (if tl_IsMain tr then InteractiveDevLabel else DetachedDevLabel) (getDevName tr)
                (putLabels (elems (md_Labels md)) (putAnnotations (elems (md_Annotations md)) (TemplateObjectMeta c)))
      in case volumeLabel aw tr of None \<Rightarrow> m | Some l \<Rightarrow> putLabel l ''true'' m)"
  by (simp_all add: translateClone_def volumeLabel_def Let_def split: list.split option.split)

text \<open>C23. In development mode the application is scaled to zero, marked, and remembers its replicas;
  the clone has the application's name with the suffix, and the clone of the main container runs one
  replica whose pods carry the label the program finds them by.\<close>

theorem dev_mode_state:
  assumes t: "translate aw tr = Inr tr'" and md: "dv_Metadata (tl_Dev tr) = Some md"
    and A: "gwf (elems (md_Annotations md))" "gget (elems (md_Annotations md)) AppReplicasAnnotation = None"
    and app: "wfApp (tl_App tr)" "noLegacy (om_Annotations (ObjectMeta (tl_App tr)))"
    and n: "getPreviousAppReplicas aw (tl_App tr) = Some n"
    and main: "tl_IsMain tr"
  shows "Replicas (tl_App tr') = Some 0 \<and> IsDevModeOn (tl_App tr')
    \<and> gget (om_Annotations (ObjectMeta (tl_App tr'))) AppReplicasAnnotation = Some (showInt n)
    \<and> (\<exists>c. tl_DevApp tr' = Some c \<and> Replicas c = Some 1
         \<and> om_Name (ObjectMeta c) = DevCloneName (om_Name (ObjectMeta (tl_App tr)))
         \<and> gget (om_Labels (TemplateObjectMeta c)) InteractiveDevLabel = Some (getDevName tr))"
proof -
  let ?A = "elems (md_Annotations md)"
  obtain a spec where a: "a = noSleep (appOff ?A n (tl_App tr))"
    and on: "tl_App tr' = appOn (dv_Mode (tl_Dev tr)) ?A n a"
    and c: "tl_DevApp tr' = Some (onPodSpec (\<lambda>_. spec) (translateClone aw tr md (DevClone a)))"
    using translate_steps [OF t md app(2,1) n] by blast
  let ?c = "onPodSpec (\<lambda>_. spec) (translateClone aw tr md (DevClone a))"
  have "IsDevModeOn (tl_App tr')" by (simp add: IsDevModeOn_def on gstr_def gget_put)
  moreover have "gget (om_Annotations (ObjectMeta (tl_App tr'))) AppReplicasAnnotation = Some (showInt n)"
    using A(2) unfolding on appOn_annotations [OF A(1)] by (simp add: go_consts)
  moreover have "om_Name (ObjectMeta ?c) = DevCloneName (om_Name (ObjectMeta (tl_App tr)))"
    by (simp add: translateClone_reads a appOff_meta)
  moreover have "gget (om_Labels (TemplateObjectMeta ?c)) InteractiveDevLabel = Some (getDevName tr)"
    using main
    by (auto simp: translateClone_reads Let_def gget_put volumeLabel_def getVolumeLabelKey_def go_consts
        split: option.split list.split)
  ultimately show ?thesis using c main by (simp add: on translateClone_reads)
qed

lemma affinity_kept [simp]:
  "ps_Affinity (TranslateOktetoDevSecret n ss s) = ps_Affinity s"
  "ps_Affinity (TranslateOktetoBinVolume s) = ps_Affinity s"
  "ps_Affinity (addInitContainer c s) = ps_Affinity s"
  "ps_Affinity (withContainer i c s) = ps_Affinity s"
  by (simp_all add: TranslateOktetoDevSecret_def TranslateOktetoBinVolume_def addVolume_def
      addInitContainer_def withContainer_def)

lemma affinity_init [simp]:
  "ps_Affinity (TranslateOktetoInitBinContainer r s) = ps_Affinity s"
  "ps_Affinity (TranslateOktetoInitFromImageContainer aw r s) = ps_Affinity s"
  using TranslateOktetoInitBinContainer_adds [of r s] initFromImage_adds [of aw r s]
  by (metis affinity_kept(3))+

text \<open>The affinity a rule leaves, when it mounts a volume that only one node can mount.\<close>

definition nodeBound :: "translationRule \<Rightarrow> bool" where
  "nodeBound r \<longleftrightarrow> tr_PersistentVolume r \<and> tr_VolumeAccessMode r \<noteq> ReadWriteMany
     \<and> list_ex (\<lambda>v. rm_Name v = tr_MainVolumeName r) (tr_Volumes r) \<and> tr_Affinity r \<noteq> Some emptyAffinity"

lemma nodeBound_term:
  assumes "nodeBound r"
  shows "\<exists>a ts. ps_Affinity (TranslateOktetoAffinity aw r d spec) = Some a
    \<and> aff_PodAffinity a = Some (ts @ [volumeTerm (getVolumeLabelKey aw (tr_ManifestName r) d)])"
  using assms unfolding nodeBound_def TranslateOktetoAffinity_def Let_def by (auto split: option.split)

lemma translateRule_affinity:
  assumes "translateRule aw mainName devName r spec = Inr spec'" and "nodeBound r"
  shows "\<exists>a ts. ps_Affinity spec' = Some a
    \<and> aff_PodAffinity a = Some (ts @ [volumeTerm (getVolumeLabelKey aw (tr_ManifestName r) mainName)])"
proof -
  obtain i where i: "GetDevContainer spec (tr_Container r) = Inr (Some i)"
    using assms(1) by (auto simp: translateRule_eq split: sum.splits option.splits)
  let ?w = "withContainer i (TranslateDevContainer r (ps_Containers spec ! i)) spec"
  have "ps_Affinity spec' = ps_Affinity (TranslatePodSpec aw r mainName ?w)"
    using assms(1) i by (cases "IsMainDevContainer r") (auto simp: translateRule_eq Let_def)
  then show ?thesis
    using nodeBound_term [OF assms(2), of aw mainName] by (simp add: TranslatePodSpec_def Let_def)
qed

text \<open>The pods of the clones that mount the main container's volume, when that volume can be
  mounted on one node only, carry the label of the volume and must be scheduled on a node where a pod
  with this label runs.\<close>

theorem shared_volume_same_node:
  assumes t: "translate aw tr = Inr tr'" and md: "dv_Metadata (tl_Dev tr) = Some md"
    and app: "wfApp (tl_App tr)" "noLegacy (om_Annotations (ObjectMeta (tl_App tr)))"
      "getPreviousAppReplicas aw (tl_App tr) = Some n"
    and pv: "PersistentVolumeEnabled (tl_MainDev tr)"
    and r: "tl_Rules tr = [r]" "nodeBound r" "tr_ManifestName r \<noteq> []"
    and l: "l = getVolumeLabelKey aw (tr_ManifestName r) (dv_Name (tl_MainDev tr))"
  shows "\<exists>c a ts. tl_DevApp tr' = Some c
    \<and> gget (om_Labels (TemplateObjectMeta c)) l = Some ''true''
    \<and> ps_Affinity (PodSpec c) = Some a \<and> aff_PodAffinity a = Some (ts @ [volumeTerm l])"
proof -
  obtain a spec where
    rules: "translateRules aw (dv_Name (tl_MainDev tr)) (dv_Name (tl_Dev tr)) (tl_Rules tr)
       (PodSpec (translateClone aw tr md (DevClone a))) = Inr spec"
    and c: "tl_DevApp tr' = Some (onPodSpec (\<lambda>_. spec) (translateClone aw tr md (DevClone a)))"
    using translate_steps [OF t md app(2,1,3)] by blast
  let ?c = "onPodSpec (\<lambda>_. spec) (translateClone aw tr md (DevClone a))"
  have "translateRule aw (dv_Name (tl_MainDev tr)) (dv_Name (tl_Dev tr)) r
      (PodSpec (translateClone aw tr md (DevClone a))) = Inr spec"
    using rules r(1) by (auto split: sum.splits)
  from translateRule_affinity [OF this r(2)]
  have "\<exists>b ts. ps_Affinity (PodSpec ?c) = Some b \<and> aff_PodAffinity b = Some (ts @ [volumeTerm l])"
    by (simp add: l)
  moreover have "volumeLabel aw tr = Some l" using pv r l by (simp add: volumeLabel_def)
  then have "gget (om_Labels (TemplateObjectMeta ?c)) l = Some ''true''"
    by (simp add: translateClone_reads Let_def gget_put)
  ultimately show ?thesis using c by blast
qed

section \<open>An example\<close>

definition exampleAppWorld :: appWorld where
  "exampleAppWorld =
     \<lparr>aw_UnmarshalState = (\<lambda>s. None), aw_UnmarshalDeployment = (\<lambda>s. None),
      aw_UnmarshalStatefulSet = (\<lambda>s. None), aw_ShortHash = (\<lambda>s. take 8 s), aw_DebugLevel = False\<rparr>"

definition exampleApp :: app where
  "exampleApp = DeploymentApp
     \<lparr>d_Meta = \<lparr>om_Name = ''api'', om_Namespace = ''ns'', om_UID = ''uid'',
        om_Labels = [(''app'', ''api'')], om_Annotations = [(''team'', ''core'')]\<rparr>,
      d_Replicas = Some 3, d_MatchLabels = [(''app'', ''api'')], d_Strategy = ''RollingUpdate'',
      d_Template = \<lparr>pt_Meta = newMeta [] [] [(''app'', ''api'')] [],
        pt_Spec = emptyPodSpec\<lparr>ps_Containers := [emptyContainer\<lparr>c_Name := ''api'', c_Image := ''okteto/api'',
          c_VolumeMounts := [\<lparr>vm_Name = ''cfg'', vm_MountPath = ''/cfg'', vm_SubPath = [], vm_ReadOnly = True\<rparr>]\<rparr>],
          ps_Volumes := [\<lparr>v_Name = ''cfg'', v_Source = OtherSource ''configMap''\<rparr>]\<rparr>\<rparr>\<rparr> []"

definition exampleRule :: translationRule where
  "exampleRule = fst (ToTranslationRule exampleDevWorld True (computeParentSyncFolder exampleDev)
     (computeParentSyncFolder exampleDev) ''ns'' ''shop'' ''cindy'' False)"

definition exampleTranslation :: translation where
  "exampleTranslation =
     \<lparr>tl_IsMain = True, tl_MainDev = computeParentSyncFolder exampleDev,
      tl_Dev = asService (computeParentSyncFolder exampleDev), tl_App = exampleApp, tl_DevApp = None,
      tl_Rules = [exampleRule]\<rparr>"

lemma example_translates:
  "\<exists>tr'. translate exampleAppWorld exampleTranslation = Inr tr'"
proof -
  have "isl (translate exampleAppWorld exampleTranslation) = False" by code_simp
  then show ?thesis by (cases "translate exampleAppWorld exampleTranslation") auto
qed

lemma example_facts:
  "dv_Metadata (tl_Dev exampleTranslation) = Some \<lparr>md_Labels = Some [], md_Annotations = Some []\<rparr>"
  "tl_App exampleTranslation = exampleApp" "tl_IsMain exampleTranslation"
  "tl_Rules exampleTranslation = [exampleRule]"
  "getPreviousAppReplicas exampleAppWorld exampleApp = Some 3"
  "PersistentVolumeEnabled (tl_MainDev exampleTranslation)"
  "nodeBound exampleRule" "tr_ManifestName exampleRule = ''shop''"
  by code_simp+

lemma example_app: "wfApp exampleApp" "noLegacy (om_Annotations (ObjectMeta exampleApp))"
  by (simp_all add: wfApp_def noLegacy_def exampleApp_def ObjectMeta_def TemplateObjectMeta_def gwf_def
      gget_def go_consts)

lemma example_resolved: "podResolved {} (PodSpec exampleApp)"
  by (simp add: podResolved_def resolvedIn_def hasVolume_def exampleApp_def PodSpec_def emptyPodSpec_def)


theorem dev_mode_state_witness:
  "\<exists>tr'. translate exampleAppWorld exampleTranslation = Inr tr' \<and> Replicas (tl_App tr') = Some 0
     \<and> gget (om_Annotations (ObjectMeta (tl_App tr'))) AppReplicasAnnotation = Some ''3''"
proof -
  obtain tr' where t: "translate exampleAppWorld exampleTranslation = Inr tr'"
    using example_translates by blast
  have "showInt 3 = ''3''" by code_simp
  with dev_mode_state [OF t example_facts(1), of 3] t show ?thesis
    by (simp add: example_facts example_app)
qed

theorem clone_mounts_resolve_witness:
  "\<exists>tr' c. translate exampleAppWorld exampleTranslation = Inr tr' \<and> tl_DevApp tr' = Some c
     \<and> podResolved {} (PodSpec c)"
proof -
  obtain tr' where t: "translate exampleAppWorld exampleTranslation = Inr tr'"
    using example_translates by blast
  with clone_mounts_resolve [OF t example_facts(1), of 3 "{}"] show ?thesis
    by (simp add: example_facts example_app example_resolved)
qed

theorem shared_volume_same_node_witness:
  "\<exists>tr' c. translate exampleAppWorld exampleTranslation = Inr tr' \<and> tl_DevApp tr' = Some c
     \<and> gget (om_Labels (TemplateObjectMeta c))
         (getVolumeLabelKey exampleAppWorld ''shop'' (dv_Name (tl_MainDev exampleTranslation))) = Some ''true''"
proof -
  obtain tr' where t: "translate exampleAppWorld exampleTranslation = Inr tr'"
    using example_translates by blast
  have "noLegacy (om_Annotations (ObjectMeta (tl_App exampleTranslation)))" "wfApp (tl_App exampleTranslation)"
    by (simp_all add: example_facts example_app)
  with shared_volume_same_node [OF t example_facts(1) _ _ _ example_facts(6,4,7) _ refl, of 3] t show ?thesis
    by (auto simp: example_facts)
qed

section \<open>Where the code departs from its intent\<close>

text \<open>
  The arguments of a service's container are not applied: the rule carries them without a command, and
  a container is given arguments together with a command only. A command given with them is lost too.
\<close>

lemma service_args_are_dropped:
  fixes s :: devService
  assumes "dv_Args s \<noteq> []"
  shows "c_Args (TranslateDevContainer (fst (ToTranslationRule dw False main s ns mn user reset)) c) = c_Args c
    \<and> c_Command (TranslateDevContainer (fst (ToTranslationRule dw False main s ns mn user reset)) c) = c_Command c"
proof -
  let ?r = "fst (ToTranslationRule dw False main s ns mn user reset)"
  have cmd: "tr_Command ?r = []"
    using assms
    by (simp add: ToTranslationRule_def serviceRule_def baseRule_def TranslatePodAffinity_def addMounts_def
        addEnvs_def enableHistoryVolume_def Let_def split: prod.split)
  have probes: "c_Args (TranslateProbes p c) = c_Args c" "c_Command (TranslateProbes p c) = c_Command c" for p c
    by (simp_all add: TranslateProbes_def split: option.split)
  have post: "c_Args (setPostStart l c) = c_Args c" "c_Command (setPostStart l c) = c_Command c" for l c
    by (simp_all add: setPostStart_def Let_def split: option.split)
  have pre: "c_Args (setPreStop l c) = c_Args c" "c_Command (setPreStop l c) = c_Command c" for l c
    by (simp_all add: setPreStop_def Let_def split: option.split)
  have life: "c_Args (TranslateLifecycle l c) = c_Args c" "c_Command (TranslateLifecycle l c) = c_Command c" for l c
    by (simp_all add: TranslateLifecycle_def Let_def post pre split: option.split)
  have sec: "c_Args (TranslateContainerSecurityContext sc c) = c_Args c"
    "c_Command (TranslateContainerSecurityContext sc c) = c_Command c" for sc c
    by (simp_all add: TranslateContainerSecurityContext_def Let_def split: option.split)
  show ?thesis
    by (simp add: TranslateDevContainer_def cmd Let_def sec TranslateVolumeMounts_def TranslateEnvVars_def
        TranslateResources_def life probes)
qed

text \<open>Adding capabilities clears the read-only root file system the same section asks for.\<close>

lemma capabilities_clear_readonly:
  assumes "dsc_Capabilities s = Some caps" and "dsc_ReadOnlyRootFilesystem s = Some True"
  shows "\<exists>sc. c_SecurityContext (TranslateContainerSecurityContext (Some s) c) = Some sc
    \<and> sc_ReadOnlyRootFilesystem sc = None"
  using assms by (simp add: TranslateContainerSecurityContext_def Let_def)

text \<open>An application read from the cluster does not know its kind.\<close>

lemma getApp_without_kind: "getApp c dev = Inr a \<Longrightarrow> Kind a = []"
  by (auto simp: getApp_def Kind_def split: lookup.splits)

text \<open>The node selector a service inherits is the one of the main container's application.\<close>

lemma inherited_node_selector_of_main:
  assumes "completeRule dw mainApp tr rule = Inr rule'"
    and "LoadBooleanOrDefault (de_World dw) ''OKTETO_INHERIT_KUBERNETES_NODESELECTOR'' False"
    and "HasEmptyNodeSelector (tl_Dev tr)"
  shows "tr_NodeSelector rule' = ps_NodeSelector (PodSpec mainApp)"
  using assms by (auto simp: completeRule_def Let_def split: sum.splits option.splits)

end
