(* ===== verification/DivertTypes.thy ===== *)
theory DivertTypes
  imports K8sTypes Names
begin

text \<open>
  What the divert drivers share: the objects they read and write, the cluster, the resources of
  kind \<open>Divert\<close> and their manager (\<^verbatim>\<open>src/pkg/divert/manager.go\<close>,
  \<^verbatim>\<open>src/pkg/divert/k8s\<close>), labels (\<^verbatim>\<open>src/pkg/k8s/labels/labels.go\<close>) and the
  divert section of the manifest (\<^verbatim>\<open>src/pkg/model/manifest.go\<close>).

  These drivers write into maps of objects they have read, which fails on a nil map, so labels and
  annotations are optional here. Parts of a specification the drivers only carry along are
  uninterpreted strings (the fields called Rest); a nil slice and an empty one are both \<open>[]\<close>.
  The cluster is a parameter, a record of the calls over an arbitrary state; a run carries that
  state and the writes issued so far.
\<close>

section \<open>Objects\<close>

record kubeMeta =
  km_Name :: string
  km_Namespace :: string
  km_UID :: string
  km_ResourceVersion :: string
  km_Labels :: "smap option"
  km_Annotations :: "smap option"

record ingressPath =
  ip_Service :: "string option"
  ip_Rest :: string

record ingressRule =
  ir_Host :: string
  ir_HTTP :: "ingressPath list option"

record ingressTLS =
  it_Hosts :: "string list"
  it_SecretName :: string

record ingressSpec =
  is_Rules :: "ingressRule list"
  is_TLS :: "ingressTLS list"
  is_Rest :: string

record ingress =
  in_Meta :: kubeMeta
  in_Spec :: ingressSpec

record netService =
  ns_Meta :: kubeMeta
  ns_Type :: string
  ns_ExternalName :: string
  ns_Rest :: string

record headerOperations =
  ho_Add :: "smap option"
  ho_Rest :: string

record headers =
  hd_Request :: "headerOperations option"
  hd_Rest :: string

record routeDestination =
  rd_Host :: "string option"
  rd_Rest :: string

record httpRoute =
  hr_Headers :: "headers option"
  hr_Route :: "routeDestination list"
  hr_Rest :: string

record virtualService =
  vs_Meta :: kubeMeta
  vs_Hosts :: "string list"
  vs_Tls :: "string list"
  vs_Http :: "httpRoute list"
  vs_Rest :: string

text \<open>\<open>k8s.Divert\<close> and its \<open>DivertSpec\<close>.\<close>

record DivertSpec =
  ds_SharedNamespace :: string
  ds_Service :: string
  ds_DivertKey :: string

record Divert =
  dt_Kind :: string
  dt_APIVersion :: string
  dt_Meta :: kubeMeta
  dt_Spec :: DivertSpec

record dnsConfig =
  dc_Searches :: "string list"
  dc_Rest :: string

record divertPodSpec = podSpec +
  ps_DNSConfig :: "dnsConfig option"

section \<open>The divert section of the manifest\<close>

record DivertVirtualService =
  dvs_Name :: string
  dvs_Namespace :: string
  dvs_Routes :: "string list"

record DivertHost =
  dh_VirtualService :: string
  dh_Namespace :: string

record DivertDeploy =
  dd_Driver :: string
  dd_Namespace :: string
  dd_DeprecatedService :: string
  dd_DeprecatedDeployment :: string
  dd_VirtualServices :: "DivertVirtualService list"
  dd_Hosts :: "DivertHost list"
  dd_DeprecatedPort :: int

text \<open>The fields of both drivers' structs that are not clients or caches.\<close>

record driver =
  dr_Name :: string
  dr_Namespace :: string
  dr_Divert :: DivertDeploy

section \<open>Constants\<close>

definition LastUpdatedAnnotation :: string where
  [go_consts]: "LastUpdatedAnnotation = ''dev.okteto.com/last-updated''"
definition OktetoDivertNginxDriver :: string where [go_consts]: "OktetoDivertNginxDriver = ''nginx''"
definition OktetoDivertBaggageHeader :: string where [go_consts]: "OktetoDivertBaggageHeader = ''baggage''"
definition OktetoDivertHeaderName :: string where [go_consts]: "OktetoDivertHeaderName = ''okteto-divert''"
definition OktetoSharedEnvironmentEnvVar :: string where
  [go_consts]: "OktetoSharedEnvironmentEnvVar = ''OKTETO_SHARED_ENVIRONMENT''"
definition OktetoDivertedEnvironmentEnvVar :: string where
  [go_consts]: "OktetoDivertedEnvironmentEnvVar = ''OKTETO_DIVERTED_ENVIRONMENT''"
definition OktetoDivertedNamespaceAnnotation :: string where
  [go_consts]: "OktetoDivertedNamespaceAnnotation = ''divert.okteto.com/namespace''"
definition OktetoDivertHeaderAnnotation :: string where
  [go_consts]: "OktetoDivertHeaderAnnotation = ''divert.okteto.com/header''"

section \<open>The cluster\<close>

text \<open>
  The errors of the Kubernetes API the drivers tell apart, by the reason of the status, and the
  errors of the drivers: \<open>Wrapped\<close> is \<open>fmt.Errorf\<close> with a verb for an error, \<open>NilPanic\<close> a nil
  dereference or a write into a nil map.
\<close>

datatype apiErr = NotFound | AlreadyExists | Conflict | OtherErr string

datatype divErr = NilPanic | Cancelled | Api apiErr | Wrapped string divErr | ErrDivertNotSupported

datatype divertCall =
    CreateIngress string ingress
  | UpdateIngress string ingress
  | CreateNetService string netService
  | CreateDivert string Divert
  | UpdateDivert string Divert
  | DeleteDivert string string
  | CreateVS string virtualService
  | UpdateVS string virtualService

text \<open>
  \<open>dk_Done\<close> asks whether the context has been cancelled, \<open>dk_Now\<close> for the time in the format of
  the annotations. \<open>dk_GetVS\<close> returns an object and an error the way Go does: the generated
  clients return an empty object, not a nil pointer, beside an error.
\<close>

record 'c divertClient =
  dk_Done :: "'c \<Rightarrow> bool \<times> 'c"
  dk_Now :: "'c \<Rightarrow> string \<times> 'c"
  dk_ListIngresses :: "string \<Rightarrow> 'c \<Rightarrow> (apiErr + ingress list) \<times> 'c"
  dk_ListServices :: "string \<Rightarrow> 'c \<Rightarrow> (apiErr + netService list) \<times> 'c"
  dk_GetIngress :: "string \<Rightarrow> string \<Rightarrow> 'c \<Rightarrow> (apiErr + ingress) \<times> 'c"
  dk_ListDiverts :: "string \<Rightarrow> 'c \<Rightarrow> (apiErr + Divert list) \<times> 'c"
  dk_GetDivert :: "string \<Rightarrow> string \<Rightarrow> 'c \<Rightarrow> (apiErr + Divert) \<times> 'c"
  dk_GetVS :: "string \<Rightarrow> string \<Rightarrow> 'c \<Rightarrow> (virtualService option \<times> apiErr option) \<times> 'c"
  dk_Write :: "divertCall \<Rightarrow> 'c \<Rightarrow> apiErr option \<times> 'c"

record 'c divertRun =
  dn_Cluster :: 'c
  dn_Writes :: "divertCall list"

text \<open>The state has further fields in a driver with a cache, so the actions are on extensions.\<close>

type_synonym ('c, 'z, 'a) divAction =
  "('c, 'z) divertRun_scheme \<Rightarrow> (divErr + 'a) \<times> ('c, 'z) divertRun_scheme"

definition query :: "('c \<Rightarrow> 'x \<times> 'c) \<Rightarrow> ('c, 'z, 'x) divAction" where
  "query f r = (case f (dn_Cluster r) of (x, c) \<Rightarrow> (Inr x, r\<lparr>dn_Cluster := c\<rparr>))"

definition issue :: "'c divertClient \<Rightarrow> divertCall \<Rightarrow> ('c, 'z, apiErr option) divAction" where
  "issue k w r =
     (case dk_Write k w (dn_Cluster r) of
        (e, c) \<Rightarrow> (Inr e, r\<lparr>dn_Cluster := c, dn_Writes := dn_Writes r @ [w]\<rparr>))"

text \<open>\<open>x, err := ...; if err != nil { return err }\<close>.\<close>

definition orFail :: "apiErr + 'a \<Rightarrow> ('c, 'z, 'a) divAction" where
  "orFail x = (case x of Inl e \<Rightarrow> failE (Api e) | Inr a \<Rightarrow> returnE a)"

definition checked :: "apiErr option \<Rightarrow> ('c, 'z, unit) divAction" where
  "checked e = (case e of Some e \<Rightarrow> failE (Api e) | None \<Rightarrow> returnE ())"

text \<open>\<open>if err := f(); err != nil { return fmt.Errorf(msg, err) }\<close>.\<close>

definition wrapping :: "string \<Rightarrow> ('c, 'z, 'a) divAction \<Rightarrow> ('c, 'z, 'a) divAction" where
  "wrapping msg f r = (case f r of (Inl NilPanic, r') \<Rightarrow> (Inl NilPanic, r')
     | (Inl e, r') \<Rightarrow> (Inl (Wrapped msg e), r') | (Inr a, r') \<Rightarrow> (Inr a, r'))"

text \<open>\<open>select { case <-ctx.Done(): return ctx.Err() default: ... }\<close>.\<close>

definition unlessDone :: "'c divertClient \<Rightarrow> ('c, 'z, 'a) divAction \<Rightarrow> ('c, 'z, 'a) divAction" where
  "unlessDone k f = andThen (query (dk_Done k)) (\<lambda>done. if done then failE Cancelled else f)"

section \<open>Labels, annotations, variables\<close>

definition SetInMetadata :: "string \<Rightarrow> string \<Rightarrow> kubeMeta \<Rightarrow> kubeMeta" where
  "SetInMetadata key v om =
     om\<lparr>km_Labels := Some (gput key v (case km_Labels om of None \<Rightarrow> [] | Some m \<Rightarrow> m))\<rparr>"

text \<open>\<open>m[key]\<close>, where a nil map reads as an empty one.\<close>

definition mstr :: "smap option \<Rightarrow> string \<Rightarrow> string" where
  "mstr m key = (case m of None \<Rightarrow> [] | Some m \<Rightarrow> gstr m key)"

text \<open>\<open>if m == nil { m = map[string]string{} }\<close>.\<close>

definition nonNil :: "smap option \<Rightarrow> smap" where
  "nonNil m = (case m of None \<Rightarrow> [] | Some m \<Rightarrow> m)"

fun updateEnvVar :: "envVar list \<Rightarrow> string \<Rightarrow> string \<Rightarrow> envVar list" where
  "updateEnvVar [] name v = [\<lparr>ev_Name = name, ev_Value = v, ev_ValueFrom = None\<rparr>]"
| "updateEnvVar (e # es) name v =
     (if ev_Name e = name then e\<lparr>ev_Value := v\<rparr> # es else e # updateEnvVar es name v)"

text \<open>The loop body both drivers run on every container and init container.\<close>

definition divertContainer :: "driver \<Rightarrow> container \<Rightarrow> container" where
  "divertContainer d c =
     c\<lparr>c_Env := updateEnvVar (updateEnvVar (c_Env c) OktetoSharedEnvironmentEnvVar (dd_Namespace (dr_Divert d)))
                  OktetoDivertedEnvironmentEnvVar (dr_Namespace d)\<rparr>"

definition divertContainers :: "driver \<Rightarrow> divertPodSpec \<Rightarrow> divertPodSpec" where
  "divertContainers d pod =
     pod\<lparr>ps_InitContainers := map (divertContainer d) (ps_InitContainers pod),
         ps_Containers := map (divertContainer d) (ps_Containers pod)\<rparr>"

section \<open>The manager of divert resources\<close>

definition stampDivert :: "string \<Rightarrow> Divert \<Rightarrow> Divert" where
  "stampDivert now d =
     d\<lparr>dt_Meta := (dt_Meta d)\<lparr>km_Annotations :=
         Some (gput LastUpdatedAnnotation now (nonNil (km_Annotations (dt_Meta d))))\<rparr>\<rparr>"

definition managerCreate :: "'c divertClient \<Rightarrow> Divert \<Rightarrow> ('c, 'z, unit) divAction" where
  "managerCreate k d =
     andThen (query (dk_Now k)) (\<lambda>now.
     andThen (issue k (CreateDivert (km_Namespace (dt_Meta d)) (stampDivert now d))) checked)"

definition managerUpdate :: "'c divertClient \<Rightarrow> Divert \<Rightarrow> ('c, 'z, unit) divAction" where
  "managerUpdate k d =
     andThen (query (dk_Now k)) (\<lambda>now.
     andThen (issue k (UpdateDivert (km_Namespace (dt_Meta d)) (stampDivert now d))) checked)"

definition CreateOrUpdate :: "'c divertClient \<Rightarrow> Divert \<Rightarrow> ('c, 'z, unit) divAction" where
  "CreateOrUpdate k d =
     andThen (query (dk_GetDivert k (km_Namespace (dt_Meta d)) (km_Name (dt_Meta d)))) (\<lambda>got.
       case got of
         Inl e \<Rightarrow> if e = NotFound then managerCreate k d else failE (Api e)
       | Inr old \<Rightarrow> managerUpdate k (old\<lparr>dt_Spec := dt_Spec d\<rparr>))"

definition managerList :: "'c divertClient \<Rightarrow> string \<Rightarrow> ('c, 'z, Divert list) divAction" where
  "managerList k namespace = andThen (query (dk_ListDiverts k namespace)) orFail"

definition managerDelete :: "'c divertClient \<Rightarrow> string \<Rightarrow> string \<Rightarrow> ('c, 'z, unit) divAction" where
  "managerDelete k name namespace =
     andThen (issue k (DeleteDivert namespace name)) (\<lambda>e. case e of
       None \<Rightarrow> returnE ()
     | Some e \<Rightarrow> if e \<noteq> NotFound then failE (Api e) else returnE ())"

section \<open>Writes a run issues\<close>

text \<open>Every write the action issues satisfies \<open>P\<close>, whatever the cluster does.\<close>

definition writesBy :: "(divertCall \<Rightarrow> bool) \<Rightarrow> ('c, 'z) divertRun_scheme \<Rightarrow> ('c, 'z) divertRun_scheme \<Rightarrow> bool" where
  "writesBy P r r' \<longleftrightarrow> (\<exists>ws. dn_Writes r' = dn_Writes r @ ws \<and> list_all P ws)"

definition issues :: "(divertCall \<Rightarrow> bool) \<Rightarrow> ('c, 'z, 'a) divAction \<Rightarrow> bool" where
  "issues P act \<longleftrightarrow> (\<forall>r. writesBy P r (snd (act r)))"

named_theorems issues_intros \<open>which writes an action issues\<close>

lemma writesBy_refl [simp]: "dn_Writes r' = dn_Writes r \<Longrightarrow> writesBy P r r'"
  unfolding writesBy_def by (intro exI [of _ "[]"]) simp

lemma writesBy_trans: "writesBy P r r' \<Longrightarrow> writesBy P r' r'' \<Longrightarrow> writesBy P r r''"
  unfolding writesBy_def by (elim exE, rule_tac x = "ws @ wsa" in exI) simp

lemma writesBy_andThen:
  assumes "writesBy P r (snd (m r))" and "\<And>a r'. m r = (Inr a, r') \<Longrightarrow> writesBy P r' (snd (f a r'))"
  shows "writesBy P r (snd (andThen m f r))"
proof (cases "m r")
  case (Pair x r')
  with assms writesBy_trans show ?thesis by (cases x) (auto simp: andThen_def)
qed

lemma issues_writesBy: "issues P act \<Longrightarrow> writesBy P r (snd (act r))"
  unfolding issues_def by blast

lemma issuesI_same: "(\<And>r. dn_Writes (snd (act r)) = dn_Writes r) \<Longrightarrow> issues P act"
  unfolding issues_def by simp

lemma issues_return [issues_intros]: "issues P (returnE a)"
  by (rule issuesI_same) (simp add: returnE_def)

lemma issues_fail [issues_intros]: "issues P (failE e)"
  by (rule issuesI_same) (simp add: failE_def)

lemma issues_query [issues_intros]: "issues P (query f)"
  by (rule issuesI_same) (simp add: query_def split: prod.split)

lemma issues_issue [issues_intros]: "P w \<Longrightarrow> issues P (issue k w)"
  unfolding issues_def writesBy_def by (auto simp: issue_def split: prod.split)

lemma issues_andThen [issues_intros]:
  "issues P m \<Longrightarrow> (\<And>a. issues P (f a)) \<Longrightarrow> issues P (andThen m f)"
  unfolding issues_def by (blast intro: writesBy_andThen)

lemma issues_if [issues_intros]: "issues P f \<Longrightarrow> issues P g \<Longrightarrow> issues P (if b then f else g)"
  by simp

lemma issues_orFail [issues_intros]: "issues P (orFail x)"
  unfolding orFail_def by (cases x) (simp_all add: issues_return issues_fail)

lemma issues_checked [issues_intros]: "issues P (checked x)"
  unfolding checked_def by (cases x) (simp_all add: issues_return issues_fail)

lemma snd_wrapping [simp]: "snd (wrapping msg f r) = snd (f r)"
  by (auto simp: wrapping_def split: prod.split sum.split divErr.split)

lemma issues_wrapping [issues_intros]: "issues P f \<Longrightarrow> issues P (wrapping msg f)"
  unfolding issues_def by simp

lemma issues_weaken: "issues P f \<Longrightarrow> (\<And>w. P w \<Longrightarrow> Q w) \<Longrightarrow> issues Q f"
  unfolding issues_def writesBy_def by (meson list.pred_mono_strong)

lemma issues_unlessDone [issues_intros]: "issues P f \<Longrightarrow> issues P (unlessDone k f)"
  unfolding unlessDone_def by (intro issues_andThen issues_query) (auto intro!: issues_intros)

section \<open>Variables of a container\<close>

text \<open>Setting a variable leaves exactly one more name, if any, and every other variable.\<close>

lemma updateEnvVar_names:
  "map ev_Name (updateEnvVar es name v)
     = map ev_Name es @ (if name \<in> set (map ev_Name es) then [] else [name])"
  by (induction es name v rule: updateEnvVar.induct) auto

lemma updateEnvVar_other:
  "filter (\<lambda>e. ev_Name e \<noteq> name) (updateEnvVar es name v) = filter (\<lambda>e. ev_Name e \<noteq> name) es"
  by (induction es name v rule: updateEnvVar.induct) auto

lemma updateEnvVar_first:
  "\<exists>e. find (\<lambda>e. ev_Name e = name) (updateEnvVar es name v) = Some e \<and> ev_Value e = v"
  by (induction es name v rule: updateEnvVar.induct) auto

lemma find_updateEnvVar_other:
  "n \<noteq> name \<Longrightarrow> find (\<lambda>e. ev_Name e = n) (updateEnvVar es name v) = find (\<lambda>e. ev_Name e = n) es"
  by (induction es name v rule: updateEnvVar.induct) auto

lemma updateEnvVar_idem [simp]: "updateEnvVar (updateEnvVar es name v) name v = updateEnvVar es name v"
  by (induction es name v rule: updateEnvVar.induct) auto

lemma updateEnvVar_commute:
  "n \<noteq> name \<Longrightarrow> n \<in> set (map ev_Name es) \<Longrightarrow>
     updateEnvVar (updateEnvVar es name v) n w = updateEnvVar (updateEnvVar es n w) name v"
  by (induction es name v rule: updateEnvVar.induct) auto

section \<open>Examples\<close>

text \<open>An empty cluster, and a driver of the example.\<close>

definition emptyClient :: "unit divertClient" where
  "emptyClient =
     \<lparr>dk_Done = (\<lambda>c. (False, c)), dk_Now = (\<lambda>c. ([], c)), dk_ListIngresses = (\<lambda>ns c. (Inr [], c)),
      dk_ListServices = (\<lambda>ns c. (Inr [], c)), dk_GetIngress = (\<lambda>ns n c. (Inl NotFound, c)),
      dk_ListDiverts = (\<lambda>ns c. (Inr [], c)), dk_GetDivert = (\<lambda>ns n c. (Inl NotFound, c)),
      dk_GetVS = (\<lambda>ns n c. ((None, Some NotFound), c)), dk_Write = (\<lambda>w c. (None, c))\<rparr>"

definition exampleDriver :: driver where
  "exampleDriver =
     \<lparr>dr_Name = ''app'', dr_Namespace = ''dev'',
      dr_Divert = \<lparr>dd_Driver = ''nginx'', dd_Namespace = ''shared'', dd_DeprecatedService = [],
        dd_DeprecatedDeployment = [], dd_VirtualServices = [], dd_Hosts = [], dd_DeprecatedPort = 0\<rparr>\<rparr>"

end
