(* ===== verification/DivertNginx.thy ===== *)
theory DivertNginx
  imports DivertTypes
begin

text \<open>
  The divert driver for nginx (\<^verbatim>\<open>src/pkg/divert/nginx\<close>): it lists the ingresses and services of
  the shared namespace and of the developer's, writes a \<open>Divert\<close> resource for every service of the
  developer, and gives the developer's namespace a copy of every shared ingress, with the header
  that routes to it, and of the services behind it.

  The cache of the driver is part of the state, and its maps are filled in the order the cluster
  lists the objects, which is arbitrary. \<open>translateIngress\<close> and \<open>nginxTranslateService\<close> share maps and
  slices with the cached shared object and write into them; the driver reads no shared object
  again after it has been translated (an ingress is visited once per run, a service once it is in
  the cache of the developer's services), so the model copies them.
\<close>

section \<open>State\<close>

record cache =
  ca_divertIngresses :: "(string, ingress) gomap"
  ca_divertServices :: "(string, netService) gomap"
  ca_developerIngresses :: "(string, ingress) gomap"
  ca_developerServices :: "(string, netService) gomap"
  ca_divertResources :: "(string, Divert) gomap"

definition emptyCache :: cache where
  "emptyCache =
     \<lparr>ca_divertIngresses = [], ca_divertServices = [], ca_developerIngresses = [],
      ca_developerServices = [], ca_divertResources = []\<rparr>"

record 'c nginxRun = "'c divertRun" +
  nx_Cache :: cache

type_synonym ('c, 'a) nginxAction = "'c nginxRun \<Rightarrow> (divErr + 'a) \<times> 'c nginxRun"

definition getCache :: "('c, cache) nginxAction" where
  "getCache r = (Inr (nx_Cache r), r)"

definition onCache :: "(cache \<Rightarrow> cache) \<Rightarrow> ('c, unit) nginxAction" where
  "onCache f r = (Inr (), r\<lparr>nx_Cache := f (nx_Cache r)\<rparr>)"

text \<open>\<open>for i := range items { m[items[i].Name] = &items[i] }\<close> on an empty map.\<close>

definition byName :: "('a \<Rightarrow> kubeMeta) \<Rightarrow> 'a list \<Rightarrow> (string, 'a) gomap" where
  "byName meta xs = fold (\<lambda>x. gput (km_Name (meta x)) x) xs []"

text \<open>\<open>list, err := ...; if err != nil { return err }; for i := range list { d.cache... }\<close>.\<close>

definition cacheList :: "('c, 'a list) nginxAction \<Rightarrow> ('a list \<Rightarrow> cache \<Rightarrow> cache) \<Rightarrow> ('c, unit) nginxAction" where
  "cacheList act fill = andThen act (\<lambda>l. onCache (fill l))"

definition listing :: "('c \<Rightarrow> (apiErr + 'a list) \<times> 'c) \<Rightarrow> ('c, 'a list) nginxAction" where
  "listing f = andThen (query f) orFail"

definition initCache :: "'c divertClient \<Rightarrow> driver \<Rightarrow> ('c, unit) nginxAction" where
  "initCache k d =
     (let shared = dd_Namespace (dr_Divert d); ns = dr_Namespace d
      in andThen (onCache (\<lambda>_. emptyCache)) (\<lambda>_.
         andThen (cacheList (listing (dk_ListIngresses k shared)) (\<lambda>l c. c\<lparr>ca_divertIngresses := byName in_Meta l\<rparr>)) (\<lambda>_.
         andThen (cacheList (listing (dk_ListServices k shared)) (\<lambda>l c. c\<lparr>ca_divertServices := byName ns_Meta l\<rparr>)) (\<lambda>_.
         andThen (cacheList (listing (dk_ListIngresses k ns)) (\<lambda>l c. c\<lparr>ca_developerIngresses := byName in_Meta l\<rparr>)) (\<lambda>_.
         andThen (cacheList (listing (dk_ListServices k ns)) (\<lambda>l c. c\<lparr>ca_developerServices := byName ns_Meta l\<rparr>)) (\<lambda>_.
         cacheList (managerList k ns) (\<lambda>l c. c\<lparr>ca_divertResources := byName dt_Meta l\<rparr>)))))))"

section \<open>Services\<close>

definition nginxTranslateService :: "string \<Rightarrow> string \<Rightarrow> netService \<Rightarrow> netService" where
  "nginxTranslateService name namespace s =
     (let meta = SetInMetadata DeployedByLabel (ResourceK8sMetaString name)
            \<lparr>km_Name = km_Name (ns_Meta s), km_Namespace = namespace, km_UID = [],
             km_ResourceVersion = [], km_Labels = km_Labels (ns_Meta s),
             km_Annotations = km_Annotations (ns_Meta s)\<rparr>;
          annotations = gput OktetoDivertedNamespaceAnnotation (km_Namespace (ns_Meta s))
            (gput OktetoAutoCreateAnnotation ''true'' (nonNil (km_Annotations meta)))
      in \<lparr>ns_Meta = meta\<lparr>km_Annotations := Some annotations\<rparr>,
          ns_Type = ''ExternalName'',
          ns_ExternalName = km_Name (ns_Meta s) @ ''.'' @ km_Namespace (ns_Meta s) @ ''.svc.cluster.local'',
          ns_Rest = []\<rparr>)"

definition divertService :: "'c divertClient \<Rightarrow> driver \<Rightarrow> string \<Rightarrow> ('c, unit) nginxAction" where
  "divertService k d name =
     andThen getCache (\<lambda>c.
       case gget (ca_divertServices c) name of
         None \<Rightarrow> returnE ()
       | Some from \<Rightarrow>
           (case gget (ca_developerServices c) name of
              Some _ \<Rightarrow> returnE ()
            | None \<Rightarrow>
                let newS = nginxTranslateService (dr_Name d) (dr_Namespace d) from
                in andThen (issue k (CreateNetService (dr_Namespace d) newS)) (\<lambda>e.
                   andThen (if e = Some AlreadyExists then returnE () else checked e) (\<lambda>_.
                   onCache (\<lambda>c. c\<lparr>ca_developerServices := gput name newS (ca_developerServices c)\<rparr>)))))"

section \<open>Ingresses\<close>

definition divertRule :: "string \<Rightarrow> string \<Rightarrow> ingressRule \<Rightarrow> ingressRule" where
  "divertRule shared namespace rule = rule\<lparr>ir_Host := replaceAll (ir_Host rule) shared namespace\<rparr>"

definition divertTLS :: "string \<Rightarrow> string \<Rightarrow> ingressTLS \<Rightarrow> ingressTLS" where
  "divertTLS shared namespace t = t\<lparr>it_Hosts := map (\<lambda>h. replaceAll h shared namespace) (it_Hosts t)\<rparr>"

definition translateIngress :: "string \<Rightarrow> string \<Rightarrow> ingress \<Rightarrow> ingress" where
  "translateIngress name namespace from =
     (let shared = km_Namespace (in_Meta from);
          annotations =
            gput OktetoDivertHeaderAnnotation namespace
              (gput OktetoDivertedNamespaceAnnotation shared
                (gput OktetoAutoCreateAnnotation ''true'' (nonNil (km_Annotations (in_Meta from)))));
          meta = SetInMetadata DeployedByLabel (ResourceK8sMetaString name)
            \<lparr>km_Name = km_Name (in_Meta from), km_Namespace = namespace, km_UID = [],
             km_ResourceVersion = [], km_Labels = km_Labels (in_Meta from),
             km_Annotations = Some annotations\<rparr>
      in \<lparr>in_Meta = meta,
          in_Spec = (in_Spec from)
            \<lparr>is_Rules := map (divertRule shared namespace) (is_Rules (in_Spec from)),
             is_TLS := map (divertTLS shared namespace) (is_TLS (in_Spec from))\<rparr>\<rparr>)"

text \<open>\<open>reflect.DeepEqual\<close> on two maps that are not nil.\<close>

definition sameMap :: "smap \<Rightarrow> smap \<Rightarrow> bool" where
  "sameMap m n \<longleftrightarrow> list_all (\<lambda>k. gget m k = gget n k) (gkeys m @ gkeys n)"

definition sameMaps :: "smap option \<Rightarrow> smap option \<Rightarrow> bool" where
  "sameMaps m n = (case (m, n) of (None, None) \<Rightarrow> True | (Some m, Some n) \<Rightarrow> sameMap m n | _ \<Rightarrow> False)"

definition isEqualIngress :: "ingress \<Rightarrow> ingress \<Rightarrow> bool" where
  "isEqualIngress in1 in2 \<longleftrightarrow>
     in_Spec in1 = in_Spec in2 \<and> sameMaps (km_Labels (in_Meta in1)) (km_Labels (in_Meta in2))
     \<and> sameMap (nonNil (km_Annotations (in_Meta in1))) (nonNil (km_Annotations (in_Meta in2)))"

definition cacheIngress :: "string \<Rightarrow> ingress \<Rightarrow> ('c, unit) nginxAction" where
  "cacheIngress name i = onCache (\<lambda>c. c\<lparr>ca_developerIngresses := gput name i (ca_developerIngresses c)\<rparr>)"

text \<open>The first half of \<open>divertIngress\<close>, when the developer has no ingress of that name.\<close>

definition createIngress :: "'c divertClient \<Rightarrow> driver \<Rightarrow> string \<Rightarrow> ingress option \<Rightarrow> ('c, ingress) nginxAction" where
  "createIngress k d name from =
     (case from of None \<Rightarrow> failE NilPanic | Some from \<Rightarrow>
        let i = translateIngress (dr_Name d) (dr_Namespace d) from
        in andThen (issue k (CreateIngress (dr_Namespace d) i)) (\<lambda>e. case e of
             None \<Rightarrow> returnE i
           | Some e \<Rightarrow>
               if e \<noteq> AlreadyExists then failE (Api e)
               else andThen (andThen (query (dk_GetIngress k (dr_Namespace d) (km_Name (in_Meta i)))) orFail) (\<lambda>i.
                    andThen (cacheIngress name i) (\<lambda>_. returnE i))))"

definition withHeader :: "ingress \<Rightarrow> ingress option" where
  "withHeader i = (case km_Annotations (in_Meta i) of None \<Rightarrow> None
     | Some m \<Rightarrow> Some (i\<lparr>in_Meta := (in_Meta i)\<lparr>km_Annotations :=
         Some (gput OktetoDivertHeaderAnnotation (km_Namespace (in_Meta i)) m)\<rparr>\<rparr>))"

text \<open>And when there is one: what it should be, and the update.\<close>

definition wantedIngress :: "driver \<Rightarrow> ingress option \<Rightarrow> ingress \<Rightarrow> ingress option" where
  "wantedIngress d from i =
     (if mstr (km_Annotations (in_Meta i)) OktetoAutoCreateAnnotation = ''true''
      then (case from of None \<Rightarrow> None
            | Some from \<Rightarrow> withHeader (translateIngress (dr_Name d) (dr_Namespace d) from))
      else withHeader i)"

definition updateIngress :: "'c divertClient \<Rightarrow> driver \<Rightarrow> string \<Rightarrow> ingress option \<Rightarrow> ingress \<Rightarrow> ('c, ingress) nginxAction" where
  "updateIngress k d name from i =
     (case wantedIngress d from i of
        None \<Rightarrow> failE NilPanic
      | Some updatedIn \<Rightarrow>
          if isEqualIngress i updatedIn then returnE i
          else andThen (issue k (UpdateIngress (dr_Namespace d) updatedIn)) (\<lambda>e.
               andThen (case e of
                   None \<Rightarrow> returnE updatedIn
                 | Some e \<Rightarrow>
                     if e \<noteq> Conflict then failE (Api e)
                     else andThen (query (dk_GetIngress k (dr_Namespace d) (km_Name (in_Meta i)))) orFail) (\<lambda>u.
               andThen (cacheIngress name u) (\<lambda>_. returnE u))))"

fun divertPaths :: "'c divertClient \<Rightarrow> driver \<Rightarrow> ingress \<Rightarrow> ingressPath list \<Rightarrow> ('c, unit) nginxAction" where
  "divertPaths k d i [] = returnE ()"
| "divertPaths k d i (p # ps) =
     (case ip_Service p of
        None \<Rightarrow> failE NilPanic
      | Some svc \<Rightarrow>
          andThen (wrapping (''error diverting ingress '' @ [CHR 0x27] @ km_Namespace (in_Meta i) @ ''/''
                     @ km_Name (in_Meta i) @ [CHR 0x27] @ '' service '' @ [CHR 0x27] @ svc @ [CHR 0x27])
                   (divertService k d svc)) (\<lambda>_.
          divertPaths k d i ps))"

fun divertRules :: "'c divertClient \<Rightarrow> driver \<Rightarrow> ingress \<Rightarrow> ingressRule list \<Rightarrow> ('c, unit) nginxAction" where
  "divertRules k d i [] = returnE ()"
| "divertRules k d i (rule # rules) =
     (case ir_HTTP rule of
        None \<Rightarrow> failE NilPanic
      | Some paths \<Rightarrow> andThen (divertPaths k d i paths) (\<lambda>_. divertRules k d i rules))"

definition divertIngress :: "'c divertClient \<Rightarrow> driver \<Rightarrow> string \<Rightarrow> ('c, unit) nginxAction" where
  "divertIngress k d name =
     andThen getCache (\<lambda>c.
       let from = gget (ca_divertIngresses c) name
       in andThen (case gget (ca_developerIngresses c) name of
                     None \<Rightarrow> createIngress k d name from
                   | Some i \<Rightarrow> updateIngress k d name from i) (\<lambda>i.
          divertRules k d i (is_Rules (in_Spec i))))"

section \<open>The driver\<close>

definition divertCRDMaxLength :: nat where
  "divertCRDMaxLength = 253"

definition divertName :: "driver \<Rightarrow> string \<Rightarrow> string" where
  "divertName d svc =
     (let name = ResourceK8sMetaString (dr_Name d) @ ''-'' @ svc
      in if divertCRDMaxLength < length name then trimSuffix (take divertCRDMaxLength name) ''-'' else name)"

definition divertResource :: "driver \<Rightarrow> netService \<Rightarrow> Divert" where
  "divertResource d svc =
     \<lparr>dt_Kind = ''Divert'', dt_APIVersion = ''okteto.com/v1'',
      dt_Meta = \<lparr>km_Name = divertName d (km_Name (ns_Meta svc)), km_Namespace = dr_Namespace d,
                 km_UID = [], km_ResourceVersion = [],
                 km_Labels = Some [(DeployedByLabel, ResourceK8sMetaString (dr_Name d))],
                 km_Annotations = None\<rparr>,
      dt_Spec = \<lparr>ds_SharedNamespace = dd_Namespace (dr_Divert d), ds_Service = km_Name (ns_Meta svc),
                 ds_DivertKey = dr_Namespace d\<rparr>\<rparr>"

fun divertResourcesLoop :: "'c divertClient \<Rightarrow> driver \<Rightarrow> netService list \<Rightarrow> ('c, unit) nginxAction" where
  "divertResourcesLoop k d [] = returnE ()"
| "divertResourcesLoop k d (svc # svcs) =
     andThen (unlessDone k
       (if mstr (km_Annotations (ns_Meta svc)) OktetoDivertedNamespaceAnnotation \<noteq> [] then returnE ()
        else let res = divertResource d svc
             in wrapping (''error diverting service '' @ km_Namespace (dt_Meta res) @ ''/'' @ km_Name (dt_Meta res))
                  (CreateOrUpdate k res)))
       (\<lambda>_. divertResourcesLoop k d svcs)"

definition deployDivertResources :: "'c divertClient \<Rightarrow> driver \<Rightarrow> ('c, unit) nginxAction" where
  "deployDivertResources k d =
     andThen getCache (\<lambda>c. divertResourcesLoop k d (map snd (ca_developerServices c)))"

fun deleteDiverts :: "'c divertClient \<Rightarrow> driver \<Rightarrow> string list \<Rightarrow> ('c, unit) nginxAction" where
  "deleteDiverts k d [] = returnE ()"
| "deleteDiverts k d (name # names) =
     andThen (managerDelete k name (dr_Namespace d)) (\<lambda>_. deleteDiverts k d names)"

definition orphanDiverts :: "cache \<Rightarrow> string list" where
  "orphanDiverts c =
     map (\<lambda>v. km_Name (dt_Meta v))
       (filter (\<lambda>v. gget (ca_developerServices c) (ds_Service (dt_Spec v)) = None)
         (map snd (ca_divertResources c)))"

definition deleteOrphanDiverts :: "'c divertClient \<Rightarrow> driver \<Rightarrow> ('c, unit) nginxAction" where
  "deleteOrphanDiverts k d = andThen getCache (\<lambda>c. deleteDiverts k d (orphanDiverts c))"

fun divertIngresses :: "'c divertClient \<Rightarrow> driver \<Rightarrow> string list \<Rightarrow> ('c, unit) nginxAction" where
  "divertIngresses k d [] = returnE ()"
| "divertIngresses k d (name # names) =
     andThen (unlessDone k (divertIngress k d name)) (\<lambda>_. divertIngresses k d names)"

definition nginxDeploy :: "'c divertClient \<Rightarrow> driver \<Rightarrow> ('c, unit) nginxAction" where
  "nginxDeploy k d =
     andThen (initCache k d) (\<lambda>_.
     andThen (deployDivertResources k d) (\<lambda>_.
     andThen (wrapping ''error deleting orphan diverts resources'' (deleteOrphanDiverts k d)) (\<lambda>_.
     andThen getCache (\<lambda>c. divertIngresses k d (gkeys (ca_divertIngresses c))))))"

definition nginxDestroy :: "driver \<Rightarrow> ('c, unit) nginxAction" where
  "nginxDestroy d = returnE ()"

definition nginxUpdatePod :: "driver \<Rightarrow> divertPodSpec \<Rightarrow> divertPodSpec" where
  "nginxUpdatePod d pod =
     (let dns = (case ps_DNSConfig pod of None \<Rightarrow> \<lparr>dc_Searches = [], dc_Rest = []\<rparr> | Some c \<Rightarrow> c);
          search = dd_Namespace (dr_Divert d) @ ''.svc.cluster.local''
      in divertContainers d (pod\<lparr>ps_DNSConfig := Some (dns\<lparr>dc_Searches := search # dc_Searches dns\<rparr>)\<rparr>))"

definition nginxUpdateVirtualService :: "driver \<Rightarrow> virtualService \<Rightarrow> virtualService" where
  "nginxUpdateVirtualService d vs = vs"

section \<open>Where the driver writes\<close>

text \<open>
  The contract on writes: they go to the developer's namespace; a new ingress carries the header, a
  new service is an alias, a \<open>Divert\<close> resource routes from the shared namespace to the developer's.
\<close>

fun nginxScope :: "driver \<Rightarrow> divertCall \<Rightarrow> bool" where
  "nginxScope d (CreateIngress ns i) \<longleftrightarrow>
     ns = dr_Namespace d \<and> km_Namespace (in_Meta i) = ns
     \<and> mstr (km_Annotations (in_Meta i)) OktetoDivertHeaderAnnotation = ns"
| "nginxScope d (UpdateIngress ns i) \<longleftrightarrow>
     ns = dr_Namespace d
     \<and> mstr (km_Annotations (in_Meta i)) OktetoDivertHeaderAnnotation = km_Namespace (in_Meta i)"
| "nginxScope d (CreateNetService ns s) \<longleftrightarrow>
     ns = dr_Namespace d \<and> km_Namespace (ns_Meta s) = ns \<and> ns_Type s = ''ExternalName''"
| "nginxScope d (CreateDivert ns v) \<longleftrightarrow>
     ns = dr_Namespace d \<and> ds_SharedNamespace (dt_Spec v) = dd_Namespace (dr_Divert d)
     \<and> ds_DivertKey (dt_Spec v) = ns"
| "nginxScope d (UpdateDivert ns v) \<longleftrightarrow>
     ns = dr_Namespace d \<and> ds_SharedNamespace (dt_Spec v) = dd_Namespace (dr_Divert d)
     \<and> ds_DivertKey (dt_Spec v) = ns"
| "nginxScope d (DeleteDivert ns name) \<longleftrightarrow> ns = dr_Namespace d"
| "nginxScope d (CreateVS ns v) \<longleftrightarrow> False"
| "nginxScope d (UpdateVS ns v) \<longleftrightarrow> False"

text \<open>Hypothesis on the API: getting a resource of a namespace gives one of that namespace.\<close>

definition getsOwn :: "'c divertClient \<Rightarrow> bool" where
  "getsOwn k \<longleftrightarrow> (\<forall>ns n c v c'. dk_GetDivert k ns n c = (Inr v, c') \<longrightarrow> km_Namespace (dt_Meta v) = ns)"

lemma getsOwnD: "getsOwn k \<Longrightarrow> dk_GetDivert k ns n c = (Inr v, c') \<Longrightarrow> km_Namespace (dt_Meta v) = ns"
  unfolding getsOwn_def by blast

lemma translateIngress_simps [simp]:
  "km_Name (in_Meta (translateIngress n ns i)) = km_Name (in_Meta i)"
  "km_Namespace (in_Meta (translateIngress n ns i)) = ns"
  "gget (nonNil (km_Annotations (in_Meta (translateIngress n ns i)))) OktetoDivertHeaderAnnotation = Some ns"
  "mstr (km_Annotations (in_Meta (translateIngress n ns i))) OktetoDivertHeaderAnnotation = ns"
  "mstr (km_Annotations (in_Meta (translateIngress n ns i))) OktetoAutoCreateAnnotation = ''true''"
  by (simp_all add: translateIngress_def SetInMetadata_def Let_def nonNil_def mstr_def gstr_def gget_put
      go_consts)

lemma nginxTranslateService_simps [simp]:
  "km_Name (ns_Meta (nginxTranslateService n ns s)) = km_Name (ns_Meta s)"
  "km_Namespace (ns_Meta (nginxTranslateService n ns s)) = ns"
  "ns_Type (nginxTranslateService n ns s) = ''ExternalName''"
  by (simp_all add: nginxTranslateService_def SetInMetadata_def Let_def)

lemma withHeader_Some:
  "withHeader i = Some u \<Longrightarrow>
     km_Name (in_Meta u) = km_Name (in_Meta i) \<and> km_Namespace (in_Meta u) = km_Namespace (in_Meta i)
     \<and> in_Spec u = in_Spec i \<and> km_Labels (in_Meta u) = km_Labels (in_Meta i)
     \<and> mstr (km_Annotations (in_Meta u)) OktetoDivertHeaderAnnotation = km_Namespace (in_Meta u)"
  by (auto simp: withHeader_def mstr_def gstr_def gget_put split: option.splits)

lemma wantedIngress_header:
  "wantedIngress d from i = Some u \<Longrightarrow>
     mstr (km_Annotations (in_Meta u)) OktetoDivertHeaderAnnotation = km_Namespace (in_Meta u)"
  by (auto simp: wantedIngress_def dest: withHeader_Some split: if_splits option.splits)

lemma issues_getCache [issues_intros]: "issues P getCache"
  by (rule issuesI_same) (simp add: getCache_def)

lemma issues_onCache [issues_intros]: "issues P (onCache f)"
  by (rule issuesI_same) (simp add: onCache_def)

lemma issues_cacheIngress [issues_intros]: "issues P (cacheIngress n i)"
  unfolding cacheIngress_def by (rule issues_onCache)

lemma issues_initCache [issues_intros]: "issues P (initCache k d)"
  unfolding initCache_def Let_def managerList_def cacheList_def listing_def by (intro issues_intros)

lemma issues_divertService [issues_intros]:
  assumes "\<And>s. P (CreateNetService (dr_Namespace d) (nginxTranslateService (dr_Name d) (dr_Namespace d) s))"
  shows "issues P (divertService k d name)"
  unfolding divertService_def Let_def
  by (intro issues_andThen issues_getCache)
    (auto split: option.split intro!: issues_intros assms)

lemma issues_divertPaths:
  assumes "\<And>s. P (CreateNetService (dr_Namespace d) (nginxTranslateService (dr_Name d) (dr_Namespace d) s))"
  shows "issues P (divertPaths k d i ps)"
  by (induction ps) (auto split: option.split intro!: issues_intros assms)

lemma issues_createIngress:
  assumes "\<And>i. P (CreateIngress (dr_Namespace d) (translateIngress (dr_Name d) (dr_Namespace d) i))"
  shows "issues P (createIngress k d name from)"
  unfolding createIngress_def Let_def
  by (auto split: option.split intro!: issues_intros assms)

lemma issues_updateIngress:
  assumes "\<And>u. wantedIngress d from i = Some u \<Longrightarrow> P (UpdateIngress (dr_Namespace d) u)"
  shows "issues P (updateIngress k d name from i)"
  unfolding updateIngress_def
  by (auto split: option.split intro!: issues_intros assms)

lemma issues_CreateOrUpdate:
  assumes "getsOwn k" and "\<And>now. P (CreateDivert (km_Namespace (dt_Meta v)) (stampDivert now v))"
    and "\<And>now old. km_Namespace (dt_Meta old) = km_Namespace (dt_Meta v) \<Longrightarrow>
           P (UpdateDivert (km_Namespace (dt_Meta v)) (stampDivert now (old\<lparr>dt_Spec := dt_Spec v\<rparr>)))"
  shows "issues P (CreateOrUpdate k v)"
proof -
  have upd: "issues P (managerUpdate k (old\<lparr>dt_Spec := dt_Spec v\<rparr>))"
    if "km_Namespace (dt_Meta old) = km_Namespace (dt_Meta v)" for old
    unfolding managerUpdate_def using assms(3) [OF that] that by (auto intro!: issues_intros)
  have cre: "issues P (managerCreate k v)"
    unfolding managerCreate_def using assms(2) by (auto intro!: issues_intros)
  have got: "issues P (case got of Inl e \<Rightarrow> if e = NotFound then managerCreate k v else failE (Api e)
                | Inr old \<Rightarrow> managerUpdate k (old\<lparr>dt_Spec := dt_Spec v\<rparr>))"
    if "dk_GetDivert k (km_Namespace (dt_Meta v)) (km_Name (dt_Meta v)) c = (got, c')" for got c c'
    using that by (auto intro!: cre issues_fail upd getsOwnD [OF assms(1)] split: sum.split)
  show ?thesis
    unfolding issues_def CreateOrUpdate_def
  proof (intro allI writesBy_andThen)
    fix r x r'
    assume "query (dk_GetDivert k (km_Namespace (dt_Meta v)) (km_Name (dt_Meta v))) r = (Inr x, r')"
    then have "dk_GetDivert k (km_Namespace (dt_Meta v)) (km_Name (dt_Meta v)) (dn_Cluster r) = (x, dn_Cluster r')"
      by (auto simp: query_def split: prod.splits)
    then show "writesBy P r' (snd ((case x of Inl e \<Rightarrow> if e = NotFound then managerCreate k v else failE (Api e)
                | Inr old \<Rightarrow> managerUpdate k (old\<lparr>dt_Spec := dt_Spec v\<rparr>)) r'))"
      by (rule issues_writesBy [OF got])
  qed (rule issues_writesBy [OF issues_query])
qed

lemma issues_divertResourcesLoop:
  assumes "getsOwn k"
  shows "issues (nginxScope d) (divertResourcesLoop k d svcs)"
proof (induction svcs)
  case Nil
  then show ?case by (simp add: issues_return)
next
  case (Cons svc svcs)
  have "issues (nginxScope d) (CreateOrUpdate k (divertResource d svc))"
    by (rule issues_CreateOrUpdate [OF assms]) (simp_all add: divertResource_def stampDivert_def)
  with Cons.IH show ?case
    by (auto simp: Let_def intro!: issues_intros)
qed

lemma issues_deleteDiverts:
  "issues (nginxScope d) (deleteDiverts k d names)"
  by (induction k d names rule: deleteDiverts.induct)
    (auto simp: managerDelete_def split: option.split intro!: issues_intros)

lemma issues_divertRules:
  assumes "\<And>s. P (CreateNetService (dr_Namespace d) (nginxTranslateService (dr_Name d) (dr_Namespace d) s))"
  shows "issues P (divertRules k d i rules)"
  by (induction rules) (auto split: option.split intro!: issues_intros issues_divertPaths assms)

lemma issues_divertIngress: "issues (nginxScope d) (divertIngress k d name)"
  unfolding divertIngress_def Let_def
  by (intro issues_andThen issues_getCache)
    (auto split: option.split intro!: issues_createIngress issues_updateIngress issues_divertRules
      simp: wantedIngress_header)

lemma issues_divertIngresses: "issues (nginxScope d) (divertIngresses k d names)"
  by (induction names) (auto intro!: issues_intros issues_divertIngress)

lemma nginxDeploy_scope:
  assumes "getsOwn k"
  shows "issues (nginxScope d) (nginxDeploy k d)"
  unfolding nginxDeploy_def deployDivertResources_def deleteOrphanDiverts_def
  by (intro issues_intros issues_divertResourcesLoop issues_deleteDiverts issues_divertIngresses assms)



section \<open>Bounds and errors\<close>

text \<open>The name of a divert resource fits the limit of the cluster, however long the names are.\<close>

lemma divertName_bounded: "length (divertName d svc) \<le> 253"
proof -
  have "length (trimSuffix (take n s) x) \<le> n" for n and s x :: string
    by (auto simp: trimSuffix_def min_def)
  then show ?thesis
    by (auto simp: divertName_def Let_def divertCRDMaxLength_def simp del: take_append)
qed

text \<open>
  An ingress of the developer without annotations ends the program: the header is written into a nil
  map. So does a rule of an ingress without an HTTP section, which the API allows.
\<close>

lemma nil_annotations_panic:
  assumes "gget (ca_developerIngresses (nx_Cache r)) n = Some i" and "km_Annotations (in_Meta i) = None"
  shows "divertIngress k d n r = (Inl NilPanic, r)"
  using assms
  by (simp add: divertIngress_def Let_def andThen_def getCache_def updateIngress_def wantedIngress_def
      withHeader_def mstr_def failE_def)

lemma rule_without_http_panics:
  "ir_HTTP rule = None \<Longrightarrow> divertRules k d i (rule # rules) r = (Inl NilPanic, r)"
  by (simp add: failE_def)

text \<open>
  A conflict on the update is taken for a success: the driver reads the ingress again, which need not
  carry the header, and writes nothing more.
\<close>

lemma conflict_loses_header:
  assumes "wantedIngress d (Some fr) i = Some u" and "\<not> isEqualIngress i u"
    and "dk_Write k (UpdateIngress (dr_Namespace d) u) (dn_Cluster r) = (Some Conflict, c)"
    and "dk_GetIngress k (dr_Namespace d) (km_Name (in_Meta i)) c = (Inr j, c')"
  shows "fst (updateIngress k d n (Some fr) i r) = Inr j
    \<and> dn_Writes (snd (updateIngress k d n (Some fr) i r)) = dn_Writes r @ [UpdateIngress (dr_Namespace d) u]"
  using assms
  by (simp add: updateIngress_def andThen_def issue_def query_def orFail_def returnE_def cacheIngress_def
      onCache_def)

text \<open>A variable that takes its value from elsewhere keeps that source beside the new value.\<close>

lemma updateEnvVar_keeps_source:
  "ev_Name e = name \<Longrightarrow> updateEnvVar (e # es) name v = e\<lparr>ev_Value := v\<rparr> # es
     \<and> ev_ValueFrom (e\<lparr>ev_Value := v\<rparr>) = ev_ValueFrom e"
  by simp

end
