(* ===== verification/DivertStore.thy ===== *)
theory DivertStore
  imports DivertNginx
begin

text \<open>
  What a deployment of the nginx driver achieves. The Kubernetes API is still a parameter; its
  documented behaviour towards a single writer is the hypothesis \<open>storeLaws\<close>, over an abstract store
  of ingresses and services. The specification is \<open>divertedAt\<close>: what it means that an ingress is
  diverted. A run without error establishes it for every shared ingress, and a second run finds
  nothing to write. \<open>memClient\<close> is a cluster in memory that satisfies the hypotheses.
\<close>

section \<open>What a deployment leaves in the cluster\<close>

record netStore =
  st_Ingresses :: "string \<times> string \<Rightarrow> ingress option"
  st_Services :: "string \<times> string \<Rightarrow> netService option"

text \<open>What the server stores of an object it is given: its name and the parts the driver compares.\<close>

definition sameIngress :: "ingress \<Rightarrow> ingress \<Rightarrow> bool" where
  "sameIngress i j \<longleftrightarrow>
     km_Name (in_Meta i) = km_Name (in_Meta j) \<and> km_Namespace (in_Meta i) = km_Namespace (in_Meta j)
     \<and> isEqualIngress i j"

definition wfStore :: "netStore \<Rightarrow> bool" where
  "wfStore st \<longleftrightarrow>
     (\<forall>ns n i. st_Ingresses st (ns, n) = Some i \<longrightarrow> km_Name (in_Meta i) = n \<and> km_Namespace (in_Meta i) = ns)
     \<and> (\<forall>ns n s. st_Services st (ns, n) = Some s \<longrightarrow> km_Name (ns_Meta s) = n)"

text \<open>The effect of a call the server has accepted.\<close>

fun accepted :: "divertCall \<Rightarrow> netStore \<Rightarrow> netStore \<Rightarrow> bool" where
  "accepted (CreateIngress ns i) st st' \<longleftrightarrow>
     (\<exists>j. sameIngress i j \<and> st' = st\<lparr>st_Ingresses := (st_Ingresses st)((ns, km_Name (in_Meta i)) \<mapsto> j)\<rparr>)"
| "accepted (UpdateIngress ns i) st st' \<longleftrightarrow>
     (\<exists>j. sameIngress i j \<and> st' = st\<lparr>st_Ingresses := (st_Ingresses st)((ns, km_Name (in_Meta i)) \<mapsto> j)\<rparr>)"
| "accepted (CreateNetService ns s) st st' \<longleftrightarrow>
     (\<exists>t. km_Name (ns_Meta t) = km_Name (ns_Meta s)
        \<and> st' = st\<lparr>st_Services := (st_Services st)((ns, km_Name (ns_Meta s)) \<mapsto> t)\<rparr>)"
| "accepted _ st st' \<longleftrightarrow> st' = st"

definition quietQuery :: "('c \<Rightarrow> netStore) \<Rightarrow> ('c \<Rightarrow> 'x \<times> 'c) \<Rightarrow> bool" where
  "quietQuery view f \<longleftrightarrow> (\<forall>c. view (snd (f c)) = view c)"

text \<open>
  Hypotheses on the API: a well-formed store that only the driver writes. Reads do not change it,
  listing a namespace gives its objects, an accepted call has its effect, a refused call has none,
  and since nobody else writes no call is refused because of another writer.
\<close>

definition storeLaws :: "'c divertClient \<Rightarrow> ('c \<Rightarrow> netStore) \<Rightarrow> bool" where
  "storeLaws k view \<longleftrightarrow>
     quietQuery view (dk_Done k) \<and> quietQuery view (dk_Now k)
     \<and> (\<forall>ns. quietQuery view (dk_ListIngresses k ns) \<and> quietQuery view (dk_ListServices k ns)
            \<and> quietQuery view (dk_ListDiverts k ns))
     \<and> (\<forall>ns n. quietQuery view (dk_GetIngress k ns n) \<and> quietQuery view (dk_GetDivert k ns n))
     \<and> (\<forall>c. wfStore (view c))
     \<and> (\<forall>ns c l. fst (dk_ListIngresses k ns c) = Inr l \<longrightarrow>
          (\<forall>i. i \<in> set l \<longleftrightarrow> st_Ingresses (view c) (ns, km_Name (in_Meta i)) = Some i))
     \<and> (\<forall>ns c l. fst (dk_ListServices k ns c) = Inr l \<longrightarrow>
          (\<forall>s. s \<in> set l \<longleftrightarrow> st_Services (view c) (ns, km_Name (ns_Meta s)) = Some s))
     \<and> (\<forall>w c. case fst (dk_Write k w c) of
           None \<Rightarrow> accepted w (view c) (view (snd (dk_Write k w c)))
         | Some e \<Rightarrow> e \<noteq> Conflict \<and> e \<noteq> AlreadyExists \<and> view (snd (dk_Write k w c)) = view c)"

text \<open>
  The specification: a shared ingress is diverted when the developer has one of its name that
  carries the header, is the translation of the shared one if the driver created it, and has every
  service behind it that the shared namespace has.
\<close>

definition servedBy :: "driver \<Rightarrow> netStore \<Rightarrow> ingress \<Rightarrow> bool" where
  "servedBy d st j \<longleftrightarrow>
     (\<forall>rule \<in> set (is_Rules (in_Spec j)). \<exists>paths. ir_HTTP rule = Some paths
        \<and> (\<forall>p \<in> set paths. \<exists>s. ip_Service p = Some s
             \<and> (st_Services st (dd_Namespace (dr_Divert d), s) \<noteq> None \<longrightarrow>
                 st_Services st (dr_Namespace d, s) \<noteq> None)))"

definition divertedTo :: "driver \<Rightarrow> ingress \<Rightarrow> ingress \<Rightarrow> bool" where
  "divertedTo d i j \<longleftrightarrow>
     gget (nonNil (km_Annotations (in_Meta j))) OktetoDivertHeaderAnnotation = Some (dr_Namespace d)
     \<and> (mstr (km_Annotations (in_Meta j)) OktetoAutoCreateAnnotation = ''true'' \<longrightarrow>
          isEqualIngress j (translateIngress (dr_Name d) (dr_Namespace d) i))"

definition divertedAt :: "driver \<Rightarrow> netStore \<Rightarrow> string \<Rightarrow> bool" where
  "divertedAt d st n \<longleftrightarrow>
     (\<forall>i. st_Ingresses st (dd_Namespace (dr_Divert d), n) = Some i \<longrightarrow>
        (\<exists>j. st_Ingresses st (dr_Namespace d, n) = Some j \<and> divertedTo d i j \<and> servedBy d st j))"

subsection \<open>Comparing ingresses\<close>

lemma sameMap_iff: "sameMap m n \<longleftrightarrow> gget m = gget n"
proof
  assume s: "sameMap m n"
  show "gget m = gget n"
  proof
    fix k
    show "gget m k = gget n k"
    proof (cases "k \<in> set (gkeys m @ gkeys n)")
      case True
      with s show ?thesis by (auto simp: sameMap_def list_all_iff)
    next
      case False
      then have "gget m k = None" "gget n k = None" by (simp_all add: gget_None_iff)
      then show ?thesis by simp
    qed
  qed
qed (simp add: sameMap_def list_all_iff)

lemma sameMaps_iff: "sameMaps m n \<longleftrightarrow> map_option gget m = map_option gget n"
  by (auto simp: sameMaps_def sameMap_iff split: option.splits)

lemma isEqualIngress_iff:
  "isEqualIngress i j \<longleftrightarrow> in_Spec i = in_Spec j
     \<and> map_option gget (km_Labels (in_Meta i)) = map_option gget (km_Labels (in_Meta j))
     \<and> gget (nonNil (km_Annotations (in_Meta i))) = gget (nonNil (km_Annotations (in_Meta j)))"
  by (simp add: isEqualIngress_def sameMap_iff sameMaps_iff)

lemma mstr_nonNil: "mstr m k = (case gget (nonNil m) k of None \<Rightarrow> [] | Some v \<Rightarrow> v)"
  by (simp add: mstr_def nonNil_def gstr_def split: option.split)

lemma isEqual_mstr:
  "isEqualIngress i j \<Longrightarrow> mstr (km_Annotations (in_Meta i)) key = mstr (km_Annotations (in_Meta j)) key"
  by (simp add: mstr_nonNil isEqualIngress_iff)


lemma withHeader_gget:
  "withHeader i = Some u \<Longrightarrow>
     gget (nonNil (km_Annotations (in_Meta u)))
       = (gget (nonNil (km_Annotations (in_Meta i))))(OktetoDivertHeaderAnnotation \<mapsto> km_Namespace (in_Meta i))"
  by (auto simp: withHeader_def nonNil_def gget_put fun_eq_iff split: option.splits)

text \<open>What the driver wants of an ingress is diverted, and a diverted ingress is what it wants.\<close>

lemma wantedIngress_diverted:
  assumes w: "wantedIngress d (Some from) i = Some u" and ns: "km_Namespace (in_Meta i) = dr_Namespace d"
    and n: "km_Name (in_Meta i) = km_Name (in_Meta from)"
  shows "divertedTo d from u \<and> km_Name (in_Meta u) = km_Name (in_Meta from)
    \<and> km_Namespace (in_Meta u) = dr_Namespace d"
proof (cases "mstr (km_Annotations (in_Meta i)) OktetoAutoCreateAnnotation = ''true''")
  case True
  let ?t = "translateIngress (dr_Name d) (dr_Namespace d) from"
  from w True have u: "withHeader ?t = Some u" by (simp add: wantedIngress_def)
  have "gget (nonNil (km_Annotations (in_Meta u))) = gget (nonNil (km_Annotations (in_Meta ?t)))"
    using withHeader_gget [OF u] by auto
  with withHeader_Some [OF u] show ?thesis
    by (simp add: divertedTo_def isEqualIngress_iff)
next
  case False
  with w have u: "withHeader i = Some u" by (simp add: wantedIngress_def)
  have "mstr (km_Annotations (in_Meta u)) OktetoAutoCreateAnnotation
      = mstr (km_Annotations (in_Meta i)) OktetoAutoCreateAnnotation"
    using withHeader_gget [OF u] by (simp add: mstr_nonNil go_consts)
  with False have "mstr (km_Annotations (in_Meta u)) OktetoAutoCreateAnnotation \<noteq> ''true''" by simp
  with withHeader_Some [OF u] withHeader_gget [OF u] ns n show ?thesis
    by (simp add: divertedTo_def)
qed

lemma wantedIngress_of_diverted:
  assumes "divertedTo d from j" and ns: "km_Namespace (in_Meta j) = dr_Namespace d"
  shows "\<exists>u. wantedIngress d (Some from) j = Some u \<and> isEqualIngress j u"
proof -
  from assms(1) have h: "gget (nonNil (km_Annotations (in_Meta j))) OktetoDivertHeaderAnnotation = Some (dr_Namespace d)"
    by (simp add: divertedTo_def)
  show ?thesis
  proof (cases "mstr (km_Annotations (in_Meta j)) OktetoAutoCreateAnnotation = ''true''")
    case True
    let ?t = "translateIngress (dr_Name d) (dr_Namespace d) from"
    obtain u where u: "withHeader ?t = Some u"
      by (simp add: withHeader_def translateIngress_def SetInMetadata_def Let_def)
    have "gget (nonNil (km_Annotations (in_Meta u))) = gget (nonNil (km_Annotations (in_Meta ?t)))"
      using withHeader_gget [OF u] by auto
    with withHeader_Some [OF u] assms(1) True have "isEqualIngress j u"
      by (simp add: divertedTo_def isEqualIngress_iff)
    with u True show ?thesis by (simp add: wantedIngress_def)
  next
    case False
    from h obtain m where m: "km_Annotations (in_Meta j) = Some m"
      by (cases "km_Annotations (in_Meta j)") (simp_all add: nonNil_def)
    then obtain u where u: "withHeader j = Some u" by (simp add: withHeader_def)
    have "gget (nonNil (km_Annotations (in_Meta u))) = gget (nonNil (km_Annotations (in_Meta j)))"
      using withHeader_gget [OF u] h ns by auto
    with withHeader_Some [OF u] have "isEqualIngress j u" by (simp add: isEqualIngress_iff)
    with u False show ?thesis by (simp add: wantedIngress_def)
  qed
qed

lemma divertedTo_equal:
  assumes d: "divertedTo d from i" and e: "isEqualIngress i j"
  shows "divertedTo d from j"
proof -
  from e have s: "in_Spec i = in_Spec j"
    and l: "map_option gget (km_Labels (in_Meta i)) = map_option gget (km_Labels (in_Meta j))"
    and a: "gget (nonNil (km_Annotations (in_Meta i))) = gget (nonNil (km_Annotations (in_Meta j)))"
    unfolding isEqualIngress_iff by blast+
  show ?thesis
    using d unfolding divertedTo_def isEqualIngress_iff s l a isEqual_mstr [OF e] .
qed

lemma divertedTo_translate: "divertedTo d from (translateIngress (dr_Name d) (dr_Namespace d) from)"
  by (simp add: divertedTo_def isEqualIngress_iff)

subsection \<open>Actions that change neither the store nor the cache\<close>

definition keeps :: "('c \<Rightarrow> netStore) \<Rightarrow> ('c, 'a) nginxAction \<Rightarrow> bool" where
  "keeps view act \<longleftrightarrow>
     (\<forall>r. view (dn_Cluster (snd (act r))) = view (dn_Cluster r) \<and> nx_Cache (snd (act r)) = nx_Cache r)"

named_theorems keeps_intros \<open>actions that change neither the store nor the cache\<close>

lemma keepsD:
  "keeps view act \<Longrightarrow> act r = (x, r') \<Longrightarrow> view (dn_Cluster r') = view (dn_Cluster r) \<and> nx_Cache r' = nx_Cache r"
  unfolding keeps_def by (metis snd_conv)

lemma keeps_simple [keeps_intros]:
  "keeps view (returnE a)" "keeps view (failE e)" "keeps view getCache"
  by (simp_all add: keeps_def returnE_def failE_def getCache_def)

lemma keeps_query [keeps_intros]: "quietQuery view f \<Longrightarrow> keeps view (query f)"
  unfolding keeps_def quietQuery_def by (auto simp: query_def split: prod.split) (metis snd_conv)

lemma keeps_andThen [keeps_intros]:
  assumes "keeps view m" and "\<And>a. keeps view (f a)"
  shows "keeps view (andThen m f)"
  unfolding keeps_def
proof
  fix r
  obtain x r1 where m: "m r = (x, r1)" by (cases "m r")
  show "view (dn_Cluster (snd (andThen m f r))) = view (dn_Cluster r)
      \<and> nx_Cache (snd (andThen m f r)) = nx_Cache r"
    using keepsD [OF assms(1) m] assms(2) m by (cases x) (simp_all add: andThen_def keeps_def)
qed

lemma keeps_orFail [keeps_intros]: "keeps view (orFail x)"
  unfolding orFail_def by (cases x) (simp_all add: keeps_intros)

lemma keeps_checked [keeps_intros]: "keeps view (checked x)"
  unfolding checked_def by (cases x) (simp_all add: keeps_intros)

lemma keeps_wrapping [keeps_intros]: "keeps view f \<Longrightarrow> keeps view (wrapping msg f)"
  unfolding keeps_def by simp

lemma storeLaws_quiet:
  assumes "storeLaws k view"
  shows "quietQuery view (dk_Done k)" "quietQuery view (dk_Now k)"
    "quietQuery view (dk_ListIngresses k ns)" "quietQuery view (dk_ListServices k ns)"
    "quietQuery view (dk_ListDiverts k ns)" "quietQuery view (dk_GetIngress k ns n)"
    "quietQuery view (dk_GetDivert k ns n)"
  using assms unfolding storeLaws_def by blast+

lemma storeLaws_wf: "storeLaws k view \<Longrightarrow> wfStore (view c)"
  unfolding storeLaws_def by blast

lemma storeLaws_write:
  assumes "storeLaws k view" and "dk_Write k w c = (e, c')"
  shows "case e of None \<Rightarrow> accepted w (view c) (view c')
         | Some e \<Rightarrow> e \<noteq> Conflict \<and> e \<noteq> AlreadyExists \<and> view c' = view c"
proof -
  from assms(1) have "case fst (dk_Write k w c) of
           None \<Rightarrow> accepted w (view c) (view (snd (dk_Write k w c)))
         | Some e \<Rightarrow> e \<noteq> Conflict \<and> e \<noteq> AlreadyExists \<and> view (snd (dk_Write k w c)) = view c"
    unfolding storeLaws_def by blast
  with assms(2) show ?thesis by (cases e) simp_all
qed

lemma keeps_issue:
  assumes "storeLaws k view" and "\<And>st st'. accepted w st st' \<Longrightarrow> st' = st"
  shows "keeps view (issue k w)"
  unfolding keeps_def
proof
  fix r :: "'a nginxRun"
  obtain e c where w: "dk_Write k w (dn_Cluster r) = (e, c)" by (cases "dk_Write k w (dn_Cluster r)")
  have "view c = view (dn_Cluster r)"
    using storeLaws_write [OF assms(1) w] assms(2) by (auto split: option.splits)
  with w show "view (dn_Cluster (snd (issue k w r))) = view (dn_Cluster r)
      \<and> nx_Cache (snd (issue k w r)) = nx_Cache r"
    by (simp add: issue_def)
qed

lemma keeps_divert_writes [keeps_intros]:
  assumes "storeLaws k view"
  shows "keeps view (issue k (CreateDivert ns v))" "keeps view (issue k (UpdateDivert ns v))"
    "keeps view (issue k (DeleteDivert ns n))"
  by (rule keeps_issue [OF assms]; simp)+

lemma keeps_manager [keeps_intros]:
  assumes "storeLaws k view"
  shows "keeps view (managerCreate k v)" "keeps view (managerUpdate k v)"
  unfolding managerCreate_def managerUpdate_def
  by (intro keeps_intros storeLaws_quiet [OF assms] assms)+

lemma keeps_CreateOrUpdate [keeps_intros]: "storeLaws k view \<Longrightarrow> keeps view (CreateOrUpdate k v)"
  unfolding CreateOrUpdate_def
  by (intro keeps_andThen keeps_query storeLaws_quiet) (auto intro!: keeps_intros split: sum.split)

lemma keeps_unlessDone [keeps_intros]:
  "storeLaws k view \<Longrightarrow> keeps view f \<Longrightarrow> keeps view (unlessDone k f)"
  unfolding unlessDone_def
  by (intro keeps_andThen keeps_query storeLaws_quiet) (auto intro!: keeps_intros)

lemma keeps_deployDivertResources:
  assumes "storeLaws k view"
  shows "keeps view (deployDivertResources k d)"
proof -
  have "keeps view (divertResourcesLoop k d svcs)" for svcs
    by (induction svcs) (auto simp: Let_def intro!: keeps_intros assms)
  then show ?thesis
    unfolding deployDivertResources_def by (intro keeps_intros)
qed

lemma keeps_deleteOrphanDiverts:
  assumes "storeLaws k view"
  shows "keeps view (deleteOrphanDiverts k d)"
proof -
  have "keeps view (managerDelete k n ns)" for n ns
    unfolding managerDelete_def
    by (intro keeps_andThen) (auto intro!: keeps_intros assms split: option.split)
  then have "keeps view (deleteDiverts k d names)" for names
    by (induction names) (auto intro!: keeps_intros)
  then show ?thesis
    unfolding deleteOrphanDiverts_def by (intro keeps_intros)
qed

subsection \<open>The cache is a picture of the store\<close>

lemma gget_byName_fold:
  "gget (fold (\<lambda>x. gput (nm x) x) xs m) n
     = (case find (\<lambda>x. nm x = n) (rev xs) of Some x \<Rightarrow> Some x | None \<Rightarrow> gget m n)"
  by (induction xs rule: rev_induct) (auto simp: gget_put)

lemma gget_byName:
  assumes "\<And>x. x \<in> set l \<longleftrightarrow> f (km_Name (meta x)) = Some x"
    and "\<And>n x. f n = Some x \<Longrightarrow> km_Name (meta x) = n"
  shows "gget (byName meta l) n = f n"
proof (cases "find (\<lambda>x. km_Name (meta x) = n) (rev l)")
  case None
  then have "\<forall>x \<in> set l. km_Name (meta x) \<noteq> n" by (auto simp: find_None_iff)
  then have "f n \<noteq> Some x" for x using assms by metis
  then have "f n = None" by (metis option.exhaust)
  with None show ?thesis by (simp add: byName_def gget_byName_fold)
next
  case (Some x)
  then have "x \<in> set l" "km_Name (meta x) = n" by (auto simp: find_Some_iff) (metis length_rev nth_mem set_rev)
  with assms(1) have "f n = Some x" by blast
  with Some show ?thesis by (simp add: byName_def gget_byName_fold)
qed

lemma gwf_byName [simp]: "gwf (byName meta l)"
proof -
  have "gwf m \<Longrightarrow> gwf (fold (\<lambda>x. gput (km_Name (meta x)) x) l m)" for m
    by (induction l arbitrary: m) simp_all
  then show ?thesis by (simp add: byName_def)
qed

definition cached :: "driver \<Rightarrow> netStore \<Rightarrow> cache \<Rightarrow> bool" where
  "cached d st c \<longleftrightarrow>
     gget (ca_divertIngresses c) = (\<lambda>n. st_Ingresses st (dd_Namespace (dr_Divert d), n))
     \<and> gget (ca_divertServices c) = (\<lambda>n. st_Services st (dd_Namespace (dr_Divert d), n))
     \<and> gget (ca_developerIngresses c) = (\<lambda>n. st_Ingresses st (dr_Namespace d, n))
     \<and> gget (ca_developerServices c) = (\<lambda>n. st_Services st (dr_Namespace d, n))
     \<and> gwf (ca_divertIngresses c)"

text \<open>A successful listing: its result and the state after it.\<close>

lemma cacheList_Inr:
  assumes "cacheList (listing f) fill r = (Inr u, r')" and "quietQuery view f"
  obtains l where "fst (f (dn_Cluster r)) = Inr l" "view (dn_Cluster r') = view (dn_Cluster r)"
    "nx_Cache r' = fill l (nx_Cache r)"
proof -
  obtain x c where f: "f (dn_Cluster r) = (x, c)" by (cases "f (dn_Cluster r)")
  with assms(2) have "view c = view (dn_Cluster r)"
    unfolding quietQuery_def by (metis snd_conv)
  with f assms(1) show thesis
    by (cases x) (auto simp: cacheList_def listing_def onCache_def andThen_def query_def orFail_def
        returnE_def failE_def intro: that)
qed

lemma listed_ingresses:
  assumes laws: "storeLaws k view" and "fst (dk_ListIngresses k ns c) = Inr l"
  shows "gget (byName in_Meta l) = (\<lambda>n. st_Ingresses (view c) (ns, n))"
proof
  fix n
  have m: "i \<in> set l \<longleftrightarrow> st_Ingresses (view c) (ns, km_Name (in_Meta i)) = Some i" for i
    using assms unfolding storeLaws_def by blast
  show "gget (byName in_Meta l) n = st_Ingresses (view c) (ns, n)"
    by (rule gget_byName) (use m storeLaws_wf [OF laws, of c] in \<open>auto simp: wfStore_def\<close>)
qed

lemma listed_services:
  assumes laws: "storeLaws k view" and "fst (dk_ListServices k ns c) = Inr l"
  shows "gget (byName ns_Meta l) = (\<lambda>n. st_Services (view c) (ns, n))"
proof
  fix n
  have m: "i \<in> set l \<longleftrightarrow> st_Services (view c) (ns, km_Name (ns_Meta i)) = Some i" for i
    using assms unfolding storeLaws_def by blast
  show "gget (byName ns_Meta l) n = st_Services (view c) (ns, n)"
    by (rule gget_byName) (use m storeLaws_wf [OF laws, of c] in \<open>auto simp: wfStore_def\<close>)
qed

lemma initCache_cached:
  assumes laws: "storeLaws k view" and run: "initCache k d r = (Inr u, r')"
  shows "view (dn_Cluster r') = view (dn_Cluster r) \<and> cached d (view (dn_Cluster r)) (nx_Cache r')"
proof -
  let ?V = "\<lambda>r. view (dn_Cluster r)" and ?sh = "dd_Namespace (dr_Divert d)" and ?ns = "dr_Namespace d"
  note q = storeLaws_quiet [OF laws]
  from run obtain r1 r2 r3 r4 where
    1: "cacheList (listing (dk_ListIngresses k ?sh)) (\<lambda>l c. c\<lparr>ca_divertIngresses := byName in_Meta l\<rparr>)
          (r\<lparr>nx_Cache := emptyCache\<rparr>) = (Inr (), r1)"
    and 2: "cacheList (listing (dk_ListServices k ?sh)) (\<lambda>l c. c\<lparr>ca_divertServices := byName ns_Meta l\<rparr>) r1 = (Inr (), r2)"
    and 3: "cacheList (listing (dk_ListIngresses k ?ns)) (\<lambda>l c. c\<lparr>ca_developerIngresses := byName in_Meta l\<rparr>) r2 = (Inr (), r3)"
    and 4: "cacheList (listing (dk_ListServices k ?ns)) (\<lambda>l c. c\<lparr>ca_developerServices := byName ns_Meta l\<rparr>) r3 = (Inr (), r4)"
    and 5: "cacheList (listing (dk_ListDiverts k ?ns)) (\<lambda>l c. c\<lparr>ca_divertResources := byName dt_Meta l\<rparr>) r4 = (Inr u, r')"
    by (auto simp: initCache_def Let_def andThen_Inr onCache_def managerList_def listing_def)
  obtain l1 where l1: "fst (dk_ListIngresses k ?sh (dn_Cluster r)) = Inr l1" "?V r1 = ?V r"
    "nx_Cache r1 = emptyCache\<lparr>ca_divertIngresses := byName in_Meta l1\<rparr>"
    using cacheList_Inr [OF 1 q(3)] by force
  obtain l2 where l2: "fst (dk_ListServices k ?sh (dn_Cluster r1)) = Inr l2" "?V r2 = ?V r1"
    "nx_Cache r2 = (nx_Cache r1)\<lparr>ca_divertServices := byName ns_Meta l2\<rparr>"
    using cacheList_Inr [OF 2 q(4)] .
  obtain l3 where l3: "fst (dk_ListIngresses k ?ns (dn_Cluster r2)) = Inr l3" "?V r3 = ?V r2"
    "nx_Cache r3 = (nx_Cache r2)\<lparr>ca_developerIngresses := byName in_Meta l3\<rparr>"
    using cacheList_Inr [OF 3 q(3)] .
  obtain l4 where l4: "fst (dk_ListServices k ?ns (dn_Cluster r3)) = Inr l4" "?V r4 = ?V r3"
    "nx_Cache r4 = (nx_Cache r3)\<lparr>ca_developerServices := byName ns_Meta l4\<rparr>"
    using cacheList_Inr [OF 4 q(4)] .
  obtain l5 where l5: "?V r' = ?V r4" "nx_Cache r' = (nx_Cache r4)\<lparr>ca_divertResources := byName dt_Meta l5\<rparr>"
    using cacheList_Inr [OF 5 q(5)] .
  show ?thesis
    using listed_ingresses [OF laws l1(1)] listed_services [OF laws l2(1)]
      listed_ingresses [OF laws l3(1)] listed_services [OF laws l4(1)] l1 l2 l3 l4 l5
    by (simp add: cached_def)
qed

subsection \<open>One ingress\<close>

text \<open>What the cache is worth while the run writes: it never claims more than the store has.\<close>

definition current :: "driver \<Rightarrow> netStore \<Rightarrow> cache \<Rightarrow> bool" where
  "current d st c \<longleftrightarrow>
     gget (ca_divertIngresses c) = (\<lambda>n. st_Ingresses st (dd_Namespace (dr_Divert d), n))
     \<and> gget (ca_divertServices c) = (\<lambda>n. st_Services st (dd_Namespace (dr_Divert d), n))
     \<and> (\<forall>n i. gget (ca_developerIngresses c) n = Some i \<longrightarrow>
          km_Name (in_Meta i) = n \<and> km_Namespace (in_Meta i) = dr_Namespace d
          \<and> (\<exists>j. st_Ingresses st (dr_Namespace d, n) = Some j \<and> isEqualIngress i j))
     \<and> (\<forall>n. gget (ca_developerServices c) n \<noteq> None \<longrightarrow> st_Services st (dr_Namespace d, n) \<noteq> None)"

text \<open>The run has written ingresses of the developer with names in \<open>S\<close> only, and no service is lost.\<close>

definition grew :: "driver \<Rightarrow> string set \<Rightarrow> netStore \<Rightarrow> netStore \<Rightarrow> bool" where
  "grew d S st st' \<longleftrightarrow>
     (\<forall>ns n. ns \<noteq> dr_Namespace d \<or> n \<notin> S \<longrightarrow> st_Ingresses st' (ns, n) = st_Ingresses st (ns, n))
     \<and> (\<forall>key. st_Services st key \<noteq> None \<longrightarrow> st_Services st' key \<noteq> None)
     \<and> (\<forall>ns n. ns \<noteq> dr_Namespace d \<longrightarrow> st_Services st' (ns, n) = st_Services st (ns, n))"

lemma grew_refl [simp]: "grew d S st st"
  by (simp add: grew_def)

lemma grew_trans: "grew d S st st' \<Longrightarrow> grew d T st' st'' \<Longrightarrow> grew d (S \<union> T) st st''"
  unfolding grew_def by simp

lemma grew_trans_same: "grew d S st st' \<Longrightarrow> grew d S st' st'' \<Longrightarrow> grew d S st st''"
  using grew_trans [of d S st st' S st''] by simp

lemma grew_mono: "grew d S st st' \<Longrightarrow> S \<subseteq> T \<Longrightarrow> grew d T st st'"
  unfolding grew_def by (meson subsetD)

lemma isEqualIngress_refl [simp]: "isEqualIngress i i"
  by (simp add: isEqualIngress_iff)

lemma currentD:
  assumes "current d st c"
  shows "gget (ca_divertIngresses c) n = st_Ingresses st (dd_Namespace (dr_Divert d), n)"
    "gget (ca_divertServices c) n = st_Services st (dd_Namespace (dr_Divert d), n)"
    "gget (ca_developerIngresses c) n = Some i \<Longrightarrow>
       km_Name (in_Meta i) = n \<and> km_Namespace (in_Meta i) = dr_Namespace d
       \<and> (\<exists>j. st_Ingresses st (dr_Namespace d, n) = Some j \<and> isEqualIngress i j)"
    "gget (ca_developerServices c) n \<noteq> None \<Longrightarrow> st_Services st (dr_Namespace d, n) \<noteq> None"
  using assms unfolding current_def by simp_all

lemma wfStoreD:
  assumes "wfStore st"
  shows "st_Ingresses st (ns, n) = Some i \<Longrightarrow> km_Name (in_Meta i) = n \<and> km_Namespace (in_Meta i) = ns"
    "st_Services st (ns, n) = Some s \<Longrightarrow> km_Name (ns_Meta s) = n"
  using assms unfolding wfStore_def by blast+

lemma cached_current: "wfStore st \<Longrightarrow> cached d st c \<Longrightarrow> current d st c"
  unfolding cached_def current_def wfStore_def by auto

lemma issue_Inr:
  assumes "storeLaws k view" and "issue k w r = (Inr e, r')"
  shows "nx_Cache r' = nx_Cache r" "e \<noteq> Some Conflict" "e \<noteq> Some AlreadyExists"
    "e = None \<Longrightarrow> accepted w (view (dn_Cluster r)) (view (dn_Cluster r'))"
    "e \<noteq> None \<Longrightarrow> view (dn_Cluster r') = view (dn_Cluster r)"
proof -
  obtain e' c where w: "dk_Write k w (dn_Cluster r) = (e', c)" by (cases "dk_Write k w (dn_Cluster r)")
  with assms(2) have e: "e' = e" "r' = r\<lparr>dn_Cluster := c, dn_Writes := dn_Writes r @ [w]\<rparr>"
    by (auto simp: issue_def)
  show "nx_Cache r' = nx_Cache r" "e \<noteq> Some Conflict" "e \<noteq> Some AlreadyExists"
    "e = None \<Longrightarrow> accepted w (view (dn_Cluster r)) (view (dn_Cluster r'))"
    "e \<noteq> None \<Longrightarrow> view (dn_Cluster r') = view (dn_Cluster r)"
    using storeLaws_write [OF assms(1) w] e by (auto split: option.splits)
qed

lemma checked_Inr: "checked e r = (Inr u, r') \<longleftrightarrow> e = None \<and> r' = r"
  by (auto simp: checked_def returnE_def failE_def split: option.split)

lemma wrapping_Inr: "wrapping msg f r = (Inr a, r') \<longleftrightarrow> f r = (Inr a, r')"
  by (auto simp: wrapping_def split: prod.split sum.split divErr.split)

definition served :: "driver \<Rightarrow> netStore \<Rightarrow> string \<Rightarrow> bool" where
  "served d st s \<longleftrightarrow>
     (st_Services st (dd_Namespace (dr_Divert d), s) \<noteq> None \<longrightarrow> st_Services st (dr_Namespace d, s) \<noteq> None)"

lemma served_grew:
  "served d st s \<Longrightarrow> grew d S st st' \<Longrightarrow> dd_Namespace (dr_Divert d) \<noteq> dr_Namespace d \<Longrightarrow> served d st' s"
  unfolding served_def grew_def by metis

lemma divertService_run:
  assumes laws: "storeLaws k view" and apart: "dd_Namespace (dr_Divert d) \<noteq> dr_Namespace d"
    and cur: "current d (view (dn_Cluster r)) (nx_Cache r)"
    and run: "divertService k d s r = (Inr u, r')"
  shows "current d (view (dn_Cluster r')) (nx_Cache r') \<and> grew d {} (view (dn_Cluster r)) (view (dn_Cluster r'))
    \<and> served d (view (dn_Cluster r')) s"
proof (cases "gget (ca_divertServices (nx_Cache r)) s")
  case None
  with run have "r' = r"
    by (simp add: divertService_def andThen_def getCache_def returnE_def)
  with None cur show ?thesis by (simp add: served_def current_def)
next
  case (Some fr)
  note fr = Some
  show ?thesis
  proof (cases "gget (ca_developerServices (nx_Cache r)) s")
    case Some
    with fr run have "r' = r"
      by (simp add: divertService_def andThen_def getCache_def returnE_def)
    with Some cur currentD(4) [OF cur, of s] show ?thesis by (simp add: served_def)
  next
    case None
    let ?t = "nginxTranslateService (dr_Name d) (dr_Namespace d) fr"
    from None fr run obtain e r1 where 1: "issue k (CreateNetService (dr_Namespace d) ?t) r = (Inr e, r1)"
      and e: "e = Some AlreadyExists \<or> e = None"
      and r': "r' = r1\<lparr>nx_Cache := (nx_Cache r1)\<lparr>ca_developerServices := gput s ?t (ca_developerServices (nx_Cache r1))\<rparr>\<rparr>"
      by (auto simp: divertService_def Let_def andThen_Inr getCache_def returnE_def onCache_def checked_Inr
          split: if_splits)
    note i = issue_Inr [OF laws 1]
    from e i(3) have "e = None" by blast
    from i(4) [OF this] obtain t where
      v: "view (dn_Cluster r1) = (view (dn_Cluster r))
        \<lparr>st_Services := (st_Services (view (dn_Cluster r)))((dr_Namespace d, km_Name (ns_Meta fr)) \<mapsto> t)\<rparr>"
      by auto
    have name: "km_Name (ns_Meta fr) = s"
      using fr currentD(2) [OF cur] wfStoreD(2) [OF storeLaws_wf [OF laws]] by metis
    show ?thesis
      using v name r' i(1) cur apart
      by (auto simp: current_def grew_def served_def gget_put)
  qed
qed

text \<open>The outcome all steps of the loop share.\<close>

definition advances :: "('c \<Rightarrow> netStore) \<Rightarrow> driver \<Rightarrow> string set \<Rightarrow> 'c nginxRun \<Rightarrow> 'c nginxRun \<Rightarrow> bool" where
  "advances view d S r r' \<longleftrightarrow>
     current d (view (dn_Cluster r')) (nx_Cache r') \<and> grew d S (view (dn_Cluster r)) (view (dn_Cluster r'))"

lemma advances_trans: "advances view d S r r' \<Longrightarrow> advances view d S r' r'' \<Longrightarrow> advances view d S r r''"
  unfolding advances_def using grew_trans_same by blast

lemma advances_mono: "advances view d S r r' \<Longrightarrow> S \<subseteq> T \<Longrightarrow> advances view d T r r'"
  unfolding advances_def using grew_mono by blast

definition pathServed :: "driver \<Rightarrow> netStore \<Rightarrow> ingressPath \<Rightarrow> bool" where
  "pathServed d st p \<longleftrightarrow> (\<exists>s. ip_Service p = Some s \<and> served d st s)"

definition ruleServed :: "driver \<Rightarrow> netStore \<Rightarrow> ingressRule \<Rightarrow> bool" where
  "ruleServed d st rule \<longleftrightarrow> (\<exists>paths. ir_HTTP rule = Some paths \<and> (\<forall>p \<in> set paths. pathServed d st p))"

lemma servedBy_iff: "servedBy d st j \<longleftrightarrow> (\<forall>rule \<in> set (is_Rules (in_Spec j)). ruleServed d st rule)"
  by (simp add: servedBy_def ruleServed_def pathServed_def served_def)

lemma served_advances:
  assumes "dd_Namespace (dr_Divert d) \<noteq> dr_Namespace d" and "advances view d S r r'"
  shows "served d (view (dn_Cluster r)) s \<Longrightarrow> served d (view (dn_Cluster r')) s"
    and "pathServed d (view (dn_Cluster r)) p \<Longrightarrow> pathServed d (view (dn_Cluster r')) p"
    and "ruleServed d (view (dn_Cluster r)) rule \<Longrightarrow> ruleServed d (view (dn_Cluster r')) rule"
  using assms served_grew unfolding pathServed_def ruleServed_def advances_def by meson+

lemma divertPaths_run:
  assumes laws: "storeLaws k view" and apart: "dd_Namespace (dr_Divert d) \<noteq> dr_Namespace d"
  shows "current d (view (dn_Cluster r)) (nx_Cache r) \<Longrightarrow> divertPaths k d i ps r = (Inr u, r') \<Longrightarrow>
    advances view d {} r r' \<and> (\<forall>p \<in> set ps. pathServed d (view (dn_Cluster r')) p)"
proof (induction ps arbitrary: r)
  case Nil
  then show ?case by (simp add: advances_def returnE_def)
next
  case (Cons p ps)
  from Cons.prems(2) obtain s r1 where s: "ip_Service p = Some s" and 1: "divertService k d s r = (Inr (), r1)"
    and 2: "divertPaths k d i ps r1 = (Inr u, r')"
    by (auto simp: andThen_Inr wrapping_Inr failE_def split: option.splits)
  have a1: "advances view d {} r r1" and sv: "served d (view (dn_Cluster r1)) s"
    using divertService_run [OF laws apart Cons.prems(1) 1] by (simp_all add: advances_def)
  then have a2: "advances view d {} r1 r'" and ps: "\<forall>p \<in> set ps. pathServed d (view (dn_Cluster r')) p"
    using Cons.IH [OF _ 2] by (simp_all add: advances_def)
  from s sv served_advances(1) [OF apart a2] have "pathServed d (view (dn_Cluster r')) p"
    by (simp add: pathServed_def)
  with ps advances_trans [OF a1 a2] show ?case by simp
qed

lemma divertRules_run:
  assumes laws: "storeLaws k view" and apart: "dd_Namespace (dr_Divert d) \<noteq> dr_Namespace d"
  shows "current d (view (dn_Cluster r)) (nx_Cache r) \<Longrightarrow> divertRules k d i rules r = (Inr u, r') \<Longrightarrow>
    advances view d {} r r' \<and> (\<forall>rule \<in> set rules. ruleServed d (view (dn_Cluster r')) rule)"
proof (induction rules arbitrary: r)
  case Nil
  then show ?case by (simp add: advances_def returnE_def)
next
  case (Cons rule rules)
  from Cons.prems(2) obtain ps r1 where s: "ir_HTTP rule = Some ps" and 1: "divertPaths k d i ps r = (Inr (), r1)"
    and 2: "divertRules k d i rules r1 = (Inr u, r')"
    by (auto simp: andThen_Inr failE_def split: option.splits)
  have a1: "advances view d {} r r1" and sv: "\<forall>p \<in> set ps. pathServed d (view (dn_Cluster r1)) p"
    using divertPaths_run [OF laws apart Cons.prems(1) 1] by blast+
  then have a2: "advances view d {} r1 r'"
    and rest: "\<forall>rule \<in> set rules. ruleServed d (view (dn_Cluster r')) rule"
    using Cons.IH [OF _ 2] by (simp_all add: advances_def)
  from s sv served_advances(2) [OF apart a2] have "ruleServed d (view (dn_Cluster r')) rule"
    by (auto simp: ruleServed_def)
  with rest advances_trans [OF a1 a2] show ?case by simp
qed

text \<open>The two ways to the developer's ingress.\<close>

definition placed :: "('c \<Rightarrow> netStore) \<Rightarrow> driver \<Rightarrow> string \<Rightarrow> ingress \<Rightarrow> ingress \<Rightarrow> 'c nginxRun \<Rightarrow> bool" where
  "placed view d n shared i r \<longleftrightarrow>
     (\<exists>j. st_Ingresses (view (dn_Cluster r)) (dr_Namespace d, n) = Some j \<and> isEqualIngress i j
        \<and> divertedTo d shared j)"

text \<open>An accepted write of a diverted ingress places it, with or without caching it.\<close>

lemma write_places:
  assumes apart: "dd_Namespace (dr_Divert d) \<noteq> dr_Namespace d"
    and cur: "current d st (nx_Cache r)"
    and acc: "sameIngress i j"
      "view (dn_Cluster r') = st\<lparr>st_Ingresses := (st_Ingresses st)((dr_Namespace d, n) \<mapsto> j)\<rparr>"
    and i: "divertedTo d shared i" "km_Name (in_Meta i) = n" "km_Namespace (in_Meta i) = dr_Namespace d"
    and c: "nx_Cache r' = nx_Cache r \<and> gget (ca_developerIngresses (nx_Cache r)) n = None
      \<or> nx_Cache r' = (nx_Cache r)\<lparr>ca_developerIngresses := gput n i (ca_developerIngresses (nx_Cache r))\<rparr>"
  shows "current d (view (dn_Cluster r')) (nx_Cache r') \<and> grew d {n} st (view (dn_Cluster r'))
    \<and> placed view d n shared i r'"
proof -
  from acc(1) have e: "isEqualIngress i j" by (simp add: sameIngress_def)
  have dev: "km_Name (in_Meta x) = m \<and> km_Namespace (in_Meta x) = dr_Namespace d
      \<and> (\<exists>y. st_Ingresses (view (dn_Cluster r')) (dr_Namespace d, m) = Some y \<and> isEqualIngress x y)"
    if "gget (ca_developerIngresses (nx_Cache r')) m = Some x" for m x
    using that c e i currentD(3) [OF cur, of m x] acc(2) by (auto simp: gget_put split: if_splits)
  have "current d (view (dn_Cluster r')) (nx_Cache r')"
    using c cur apart acc(2) dev unfolding current_def by auto
  moreover have "grew d {n} st (view (dn_Cluster r'))"
    using acc(2) by (auto simp: grew_def)
  moreover have "placed view d n shared i r'"
    using acc(2) e divertedTo_equal [OF i(1) e] by (simp add: placed_def)
  ultimately show ?thesis by blast
qed

lemma createIngress_run:
  fixes k :: "'c divertClient"
  assumes laws: "storeLaws k view" and apart: "dd_Namespace (dr_Divert d) \<noteq> dr_Namespace d"
    and cur: "current d (view (dn_Cluster r)) (nx_Cache r)"
    and sh: "km_Name (in_Meta shared) = n" and none: "gget (ca_developerIngresses (nx_Cache r)) n = None"
    and run: "createIngress k d n (Some shared) r = (Inr i, r')"
  shows "advances view d {n} r r' \<and> placed view d n shared i r'"
proof -
  let ?t = "translateIngress (dr_Name d) (dr_Namespace d) shared"
  define after :: "apiErr option \<Rightarrow> ('c, ingress) nginxAction" where "after e = (case e of
      None \<Rightarrow> returnE ?t
    | Some e \<Rightarrow>
        if e \<noteq> AlreadyExists then failE (Api e)
        else andThen (andThen (query (dk_GetIngress k (dr_Namespace d) (km_Name (in_Meta ?t)))) orFail) (\<lambda>i.
             andThen (cacheIngress n i) (\<lambda>_. returnE i)))" for e
  from run obtain e r1 where 1: "issue k (CreateIngress (dr_Namespace d) ?t) r = (Inr e, r1)"
    and 2: "after e r1 = (Inr i, r')"
    by (auto simp: createIngress_def Let_def andThen_Inr after_def)
  note w = issue_Inr [OF laws 1]
  have e: "e = None" "i = ?t" "r' = r1"
    using 2 w(3) by (cases e; simp add: after_def returnE_def failE_def split: if_splits)+
  from w(4) [OF e(1)] sh obtain j where j: "sameIngress ?t j"
    "view (dn_Cluster r1) = (view (dn_Cluster r))
       \<lparr>st_Ingresses := (st_Ingresses (view (dn_Cluster r)))((dr_Namespace d, n) \<mapsto> j)\<rparr>"
    by auto
  show ?thesis
    unfolding advances_def
    using write_places [where view = view, OF apart cur j divertedTo_translate] sh none w(1) e by simp
qed


lemma updateIngress_run:
  fixes k :: "'c divertClient"
  assumes laws: "storeLaws k view" and apart: "dd_Namespace (dr_Divert d) \<noteq> dr_Namespace d"
    and cur: "current d (view (dn_Cluster r)) (nx_Cache r)"
    and sh: "km_Name (in_Meta shared) = n" and some: "gget (ca_developerIngresses (nx_Cache r)) n = Some x"
    and run: "updateIngress k d n (Some shared) x r = (Inr i, r')"
  shows "advances view d {n} r r' \<and> placed view d n shared i r'"
proof -
  from run obtain u where u: "wantedIngress d (Some shared) x = Some u"
    by (cases "wantedIngress d (Some shared) x") (simp_all add: updateIngress_def failE_def)
  note x = currentD(3) [OF cur some]
  have du: "divertedTo d shared u" "km_Name (in_Meta u) = n" "km_Namespace (in_Meta u) = dr_Namespace d"
    using wantedIngress_diverted [OF u] x sh by simp_all
  show ?thesis
  proof (cases "isEqualIngress x u")
    case True
    with run u have r': "i = x" "r' = r" by (simp_all add: updateIngress_def returnE_def)
    from True have "isEqualIngress u x" by (simp add: isEqualIngress_iff)
    with du x obtain j where "st_Ingresses (view (dn_Cluster r)) (dr_Namespace d, n) = Some j"
      "isEqualIngress x j" "divertedTo d shared j"
      using divertedTo_equal by blast
    with r' cur show ?thesis by (simp add: advances_def placed_def)
  next
    case False
    define after :: "apiErr option \<Rightarrow> ('c, ingress) nginxAction" where "after e = (case e of
        None \<Rightarrow> returnE u
      | Some e \<Rightarrow>
          if e \<noteq> Conflict then failE (Api e)
          else andThen (query (dk_GetIngress k (dr_Namespace d) (km_Name (in_Meta x)))) orFail)" for e
    from False run u obtain e r1 r2 where 1: "issue k (UpdateIngress (dr_Namespace d) u) r = (Inr e, r1)"
      and 2: "after e r1 = (Inr i, r2)" and 3: "cacheIngress n i r2 = (Inr (), r')"
      by (auto simp: updateIngress_def andThen_Inr after_def returnE_def)
    note w = issue_Inr [OF laws 1]
    have e: "e = None" "i = u" "r2 = r1"
      using 2 w(2) by (cases e; simp add: after_def returnE_def failE_def split: if_splits)+
    from 3 e have c: "dn_Cluster r' = dn_Cluster r1"
      "nx_Cache r' = (nx_Cache r1)\<lparr>ca_developerIngresses := gput n u (ca_developerIngresses (nx_Cache r1))\<rparr>"
      by (auto simp: cacheIngress_def onCache_def)
    from w(4) [OF e(1)] du obtain j where j: "sameIngress u j"
      "view (dn_Cluster r') = (view (dn_Cluster r))
         \<lparr>st_Ingresses := (st_Ingresses (view (dn_Cluster r)))((dr_Namespace d, n) \<mapsto> j)\<rparr>"
      by (auto simp: c)
    show ?thesis
      unfolding advances_def e(2)
      using write_places [where view = view, OF apart cur j du] c(2) w(1) by simp
  qed
qed

text \<open>One turn of the loop, and the loop.\<close>

lemma divertIngress_run:
  assumes laws: "storeLaws k view" and apart: "dd_Namespace (dr_Divert d) \<noteq> dr_Namespace d"
    and cur: "current d (view (dn_Cluster r)) (nx_Cache r)"
    and sh: "st_Ingresses (view (dn_Cluster r)) (dd_Namespace (dr_Divert d), n) = Some shared"
    and run: "divertIngress k d n r = (Inr u, r')"
  shows "advances view d {n} r r' \<and> divertedAt d (view (dn_Cluster r')) n"
proof -
  have name: "km_Name (in_Meta shared) = n"
    using wfStoreD(1) [OF storeLaws_wf [OF laws] sh] by blast
  have g: "gget (ca_divertIngresses (nx_Cache r)) n = Some shared"
    using currentD(1) [OF cur, of n] sh by simp
  obtain i r1 where
    1: "(case gget (ca_developerIngresses (nx_Cache r)) n of
           None \<Rightarrow> createIngress k d n (Some shared)
         | Some x \<Rightarrow> updateIngress k d n (Some shared) x) r = (Inr i, r1)"
    and 2: "divertRules k d i (is_Rules (in_Spec i)) r1 = (Inr u, r')"
    using run by (auto simp: divertIngress_def Let_def andThen_Inr getCache_def g
        cong: option.case_cong)
  have a1: "advances view d {n} r r1" and p: "placed view d n shared i r1"
    using 1 createIngress_run [OF laws apart cur name] updateIngress_run [OF laws apart cur name]
    by (auto split: option.splits)
  from a1 have cur1: "current d (view (dn_Cluster r1)) (nx_Cache r1)" by (simp add: advances_def)
  note a2 = divertRules_run [OF laws apart cur1 2]
  from p obtain j where j: "st_Ingresses (view (dn_Cluster r1)) (dr_Namespace d, n) = Some j"
    "in_Spec i = in_Spec j" "divertedTo d shared j"
    by (auto simp: placed_def isEqualIngress_iff)
  have "st_Ingresses (view (dn_Cluster r')) (dr_Namespace d, n) = Some j"
    using a2 j(1) by (simp add: advances_def grew_def)
  moreover have "servedBy d (view (dn_Cluster r')) j"
    using a2 j(2) by (simp add: servedBy_iff)
  moreover have "st_Ingresses (view (dn_Cluster r')) (dd_Namespace (dr_Divert d), n) = Some shared"
    using a1 a2 sh apart by (simp add: advances_def grew_def)
  ultimately have "divertedAt d (view (dn_Cluster r')) n"
    using j(3) by (simp add: divertedAt_def)
  with advances_trans [OF a1] advances_mono [of view d "{}"] a2 show ?thesis by blast
qed

lemma divertedAt_advances:
  assumes apart: "dd_Namespace (dr_Divert d) \<noteq> dr_Namespace d" and a: "advances view d S r r'" and n: "n \<notin> S"
    and d: "divertedAt d (view (dn_Cluster r)) n"
  shows "divertedAt d (view (dn_Cluster r')) n"
proof -
  from a n apart have i: "st_Ingresses (view (dn_Cluster r')) (dd_Namespace (dr_Divert d), n)
      = st_Ingresses (view (dn_Cluster r)) (dd_Namespace (dr_Divert d), n)"
    "st_Ingresses (view (dn_Cluster r')) (dr_Namespace d, n) = st_Ingresses (view (dn_Cluster r)) (dr_Namespace d, n)"
    by (simp_all add: advances_def grew_def)
  show ?thesis
    using d served_advances(3) [OF apart a] unfolding divertedAt_def i servedBy_iff by blast
qed

lemma unlessDone_Inr:
  fixes r :: "'c nginxRun"
  assumes "storeLaws k view" and "unlessDone k f r = (Inr a, r')"
  obtains r1 where "f r1 = (Inr a, r')" "view (dn_Cluster r1) = view (dn_Cluster r)" "nx_Cache r1 = nx_Cache r"
proof -
  from assms(2) obtain b r1 where 1: "query (dk_Done k) r = (Inr b, r1)"
    and 2: "(if b then failE Cancelled else f) r1 = (Inr a, r')"
    by (auto simp: unlessDone_def andThen_Inr)
  from 2 have "f r1 = (Inr a, r')" by (auto simp: failE_def split: if_splits)
  moreover have "view (dn_Cluster r1) = view (dn_Cluster r) \<and> nx_Cache r1 = nx_Cache r"
    by (rule keepsD [OF keeps_query 1]) (rule storeLaws_quiet [OF assms(1)])
  ultimately show thesis using that by blast
qed

lemma divertIngresses_run:
  assumes laws: "storeLaws k view" and apart: "dd_Namespace (dr_Divert d) \<noteq> dr_Namespace d"
  shows "current d (view (dn_Cluster r)) (nx_Cache r) \<Longrightarrow> distinct names \<Longrightarrow>
    (\<forall>n \<in> set names. st_Ingresses (view (dn_Cluster r)) (dd_Namespace (dr_Divert d), n) \<noteq> None) \<Longrightarrow>
    divertIngresses k d names r = (Inr u, r') \<Longrightarrow>
    advances view d (set names) r r' \<and> (\<forall>n \<in> set names. divertedAt d (view (dn_Cluster r')) n)"
proof (induction names arbitrary: r)
  case Nil
  then show ?case by (simp add: advances_def returnE_def)
next
  case (Cons n names)
  from Cons.prems(4) obtain r2 where 1: "unlessDone k (divertIngress k d n) r = (Inr (), r2)"
    and 2: "divertIngresses k d names r2 = (Inr u, r')"
    by (auto simp: andThen_Inr)
  obtain r1 where r1: "divertIngress k d n r1 = (Inr (), r2)" "view (dn_Cluster r1) = view (dn_Cluster r)"
    "nx_Cache r1 = nx_Cache r"
    using unlessDone_Inr [OF laws 1] .
  from Cons.prems(3) r1 obtain s where
    s: "st_Ingresses (view (dn_Cluster r1)) (dd_Namespace (dr_Divert d), n) = Some s" by auto
  have c1: "current d (view (dn_Cluster r1)) (nx_Cache r1)" using Cons.prems(1) r1 by simp
  note a = divertIngress_run [OF laws apart c1 s r1(1)]
  from a have ar: "advances view d {n} r r2" using r1 by (simp add: advances_def)
  have sh: "\<forall>m \<in> set names. st_Ingresses (view (dn_Cluster r2)) (dd_Namespace (dr_Divert d), m) \<noteq> None"
    using ar Cons.prems(3) apart by (simp add: advances_def grew_def)
  have "current d (view (dn_Cluster r2)) (nx_Cache r2)" using ar by (simp add: advances_def)
  from Cons.IH [OF this _ sh 2] Cons.prems(2)
  have b: "advances view d (set names) r2 r'" "\<forall>m \<in> set names. divertedAt d (view (dn_Cluster r')) m"
    by simp_all
  have "divertedAt d (view (dn_Cluster r')) n"
    using divertedAt_advances [OF apart b(1) _ conjunct2 [OF a]] Cons.prems(2) by simp
  moreover have "advances view d (set (n # names)) r r'"
    using advances_trans [OF advances_mono [OF ar] advances_mono [OF b(1)], of "set (n # names)"] by auto
  ultimately show ?case using b(2) by simp
qed

text \<open>After a run without error every shared ingress is diverted.\<close>

lemma nginxDeploy_diverts:
  assumes laws: "storeLaws k view" and apart: "dd_Namespace (dr_Divert d) \<noteq> dr_Namespace d"
    and run: "nginxDeploy k d r = (Inr u, r')"
  shows "divertedAt d (view (dn_Cluster r')) n"
proof -
  from run obtain r1 r2 r3 where 1: "initCache k d r = (Inr (), r1)"
    and 2: "deployDivertResources k d r1 = (Inr (), r2)" and 3: "deleteOrphanDiverts k d r2 = (Inr (), r3)"
    and 4: "divertIngresses k d (gkeys (ca_divertIngresses (nx_Cache r3))) r3 = (Inr u, r')"
    by (auto simp: nginxDeploy_def andThen_Inr wrapping_Inr getCache_def)
  have c: "cached d (view (dn_Cluster r3)) (nx_Cache r3)"
    using initCache_cached [OF laws 1] keepsD [OF keeps_deployDivertResources [OF laws] 2]
      keepsD [OF keeps_deleteOrphanDiverts [OF laws] 3] by simp
  let ?ns = "gkeys (ca_divertIngresses (nx_Cache r3))"
  have in_iff: "m \<in> set ?ns \<longleftrightarrow> st_Ingresses (view (dn_Cluster r3)) (dd_Namespace (dr_Divert d), m) \<noteq> None" for m
    using c gget_None_iff [of "ca_divertIngresses (nx_Cache r3)" m] by (auto simp: cached_def)
  have l: "advances view d (set ?ns) r3 r'" "\<forall>n \<in> set ?ns. divertedAt d (view (dn_Cluster r')) n"
    using divertIngresses_run [OF laws apart cached_current [OF storeLaws_wf [OF laws] c] distinct_gkeys _ 4]
      c in_iff by (simp_all add: cached_def)
  show ?thesis
  proof (cases "n \<in> set ?ns")
    case False
    then have "st_Ingresses (view (dn_Cluster r')) (dd_Namespace (dr_Divert d), n) = None"
      using in_iff l(1) apart by (simp add: advances_def grew_def)
    then show ?thesis by (simp add: divertedAt_def)
  qed (use l(2) in blast)
qed

subsection \<open>A second deployment\<close>

text \<open>Where everything is diverted already, the loop has nothing to write.\<close>

lemma divertPaths_settled:
  assumes "cached d st (nx_Cache r)"
  shows "\<forall>p \<in> set ps. pathServed d st p \<Longrightarrow> divertPaths k d i ps r = (Inr (), r)"
proof (induction ps)
  case Nil
  then show ?case by (simp add: returnE_def)
next
  case (Cons p ps)
  then obtain s where s: "ip_Service p = Some s" "served d st s" by (auto simp: pathServed_def)
  have g: "gget (ca_divertServices (nx_Cache r)) s = st_Services st (dd_Namespace (dr_Divert d), s)"
    "gget (ca_developerServices (nx_Cache r)) s = st_Services st (dr_Namespace d, s)"
    using assms by (simp_all add: cached_def)
  have "divertService k d s r = (Inr (), r)"
    using g s(2)
    by (auto simp: divertService_def andThen_def getCache_def returnE_def served_def split: option.split)
  with s Cons show ?case by (simp add: andThen_def wrapping_def)
qed

lemma divertRules_settled:
  assumes "cached d st (nx_Cache r)"
  shows "\<forall>x \<in> set rules. ruleServed d st x \<Longrightarrow> divertRules k d i rules r = (Inr (), r)"
proof (induction rules)
  case Nil
  then show ?case by (simp add: returnE_def)
next
  case (Cons x rules)
  then obtain ps where ps: "ir_HTTP x = Some ps" "\<forall>p \<in> set ps. pathServed d st p"
    by (auto simp: ruleServed_def)
  with divertPaths_settled [OF assms ps(2)] Cons show ?case by (simp add: andThen_def)
qed

lemma divertIngress_settled:
  assumes wf: "wfStore st" and c: "cached d st (nx_Cache r)" and d: "divertedAt d st n"
    and sh: "st_Ingresses st (dd_Namespace (dr_Divert d), n) = Some shared"
  shows "divertIngress k d n r = (Inr (), r)"
proof -
  from d sh obtain j where j: "st_Ingresses st (dr_Namespace d, n) = Some j" "divertedTo d shared j" "servedBy d st j"
    by (auto simp: divertedAt_def)
  have g: "gget (ca_divertIngresses (nx_Cache r)) n = Some shared"
    "gget (ca_developerIngresses (nx_Cache r)) n = Some j"
    using c sh j(1) by (simp_all add: cached_def)
  have "km_Namespace (in_Meta j) = dr_Namespace d" using wfStoreD(1) [OF wf j(1)] by simp
  from wantedIngress_of_diverted [OF j(2) this] obtain u where
    "wantedIngress d (Some shared) j = Some u" "isEqualIngress j u" by blast
  then have "updateIngress k d n (Some shared) j = returnE j" by (simp add: updateIngress_def)
  with g divertRules_settled [OF c, of "is_Rules (in_Spec j)" k j] j(3) show ?thesis
    by (simp add: divertIngress_def Let_def andThen_def getCache_def returnE_def servedBy_iff)
qed

lemma divertIngresses_settled:
  assumes laws: "storeLaws k view"
  shows "cached d (view (dn_Cluster r)) (nx_Cache r) \<Longrightarrow>
    (\<forall>n \<in> set names. divertedAt d (view (dn_Cluster r)) n
       \<and> st_Ingresses (view (dn_Cluster r)) (dd_Namespace (dr_Divert d), n) \<noteq> None) \<Longrightarrow>
    dn_Writes (snd (divertIngresses k d names r)) = dn_Writes r"
proof (induction names arbitrary: r)
  case Nil
  then show ?case by (simp add: returnE_def)
next
  case (Cons n names)
  obtain b c where q: "dk_Done k (dn_Cluster r) = (b, c)" by (cases "dk_Done k (dn_Cluster r)")
  let ?r = "r\<lparr>dn_Cluster := c\<rparr>"
  have v: "view c = view (dn_Cluster r)"
    using storeLaws_quiet(1) [OF laws] q unfolding quietQuery_def by (metis snd_conv)
  from Cons.prems obtain shared where
    "divertedAt d (view c) n" "st_Ingresses (view c) (dd_Namespace (dr_Divert d), n) = Some shared"
    using v by auto
  then have "divertIngress k d n ?r = (Inr (), ?r)"
    using divertIngress_settled [OF storeLaws_wf [OF laws], of d c ?r] Cons.prems(1) v by simp
  moreover have "dn_Writes (snd (divertIngresses k d names ?r)) = dn_Writes ?r"
    by (rule Cons.IH) (use Cons.prems v in simp_all)
  ultimately show ?case
    using q by (simp add: unlessDone_def andThen_def query_def failE_def)
qed

fun isDivertWrite :: "divertCall \<Rightarrow> bool" where
  "isDivertWrite (CreateDivert ns v) = True"
| "isDivertWrite (UpdateDivert ns v) = True"
| "isDivertWrite (DeleteDivert ns n) = True"
| "isDivertWrite _ = False"


lemma issues_isDivertWrite:
  "issues isDivertWrite (deployDivertResources k d)"
  "issues isDivertWrite (deleteOrphanDiverts k d)"
proof -
  have "issues isDivertWrite (CreateOrUpdate k v)" for v
    unfolding CreateOrUpdate_def managerCreate_def managerUpdate_def
    by (auto split: sum.split intro!: issues_intros)
  then have "issues isDivertWrite (divertResourcesLoop k d svcs)" for svcs
    by (induction svcs) (auto simp: Let_def intro!: issues_intros)
  then show "issues isDivertWrite (deployDivertResources k d)"
    unfolding deployDivertResources_def by (intro issues_intros)
  have "issues isDivertWrite (deleteDiverts k d names)" for names
    by (induction names) (auto simp: managerDelete_def split: option.split intro!: issues_intros)
  then show "issues isDivertWrite (deleteOrphanDiverts k d)"
    unfolding deleteOrphanDiverts_def by (intro issues_intros)
qed

lemma nginxDeploy_settled:
  assumes laws: "storeLaws k view" and d: "\<And>n. divertedAt d (view (dn_Cluster r)) n"
  shows "writesBy isDivertWrite r (snd (nginxDeploy k d r))"
  unfolding nginxDeploy_def
proof (intro writesBy_andThen)
  note P = issues_writesBy [where P = isDivertWrite]
  show "writesBy isDivertWrite r (snd (initCache k d r))" by (rule P [OF issues_initCache])
  show "writesBy isDivertWrite r1 (snd (deployDivertResources k d r1))" for r1
    by (rule P [OF issues_isDivertWrite(1)])
  show "writesBy isDivertWrite r2 (snd (wrapping msg (deleteOrphanDiverts k d) r2))" for msg r2
    by (rule P [OF issues_wrapping [OF issues_isDivertWrite(2)]])
  show "writesBy isDivertWrite r3 (snd (getCache r3))" for r3 by (rule P [OF issues_getCache])
  fix u1 r1 u2 r2 u3 r3 c r4
  assume 1: "initCache k d r = (Inr u1, r1)" and 2: "deployDivertResources k d r1 = (Inr u2, r2)"
    and 3: "wrapping ''error deleting orphan diverts resources'' (deleteOrphanDiverts k d) r2 = (Inr u3, r3)"
    and 4: "getCache r3 = (Inr c, r4)"
  from 4 have [simp]: "c = nx_Cache r3" "r4 = r3" by (auto simp: getCache_def)
  have v: "view (dn_Cluster r3) = view (dn_Cluster r)" and c: "cached d (view (dn_Cluster r3)) (nx_Cache r3)"
    using initCache_cached [OF laws 1] keepsD [OF keeps_deployDivertResources [OF laws] 2]
      keepsD [OF keeps_deleteOrphanDiverts [OF laws] 3 [unfolded wrapping_Inr]] by simp_all
  have "n \<in> set (gkeys (ca_divertIngresses (nx_Cache r3))) \<Longrightarrow>
      st_Ingresses (view (dn_Cluster r3)) (dd_Namespace (dr_Divert d), n) \<noteq> None" for n
    using c gget_None_iff [of "ca_divertIngresses (nx_Cache r3)" n] by (auto simp: cached_def)
  then have "dn_Writes (snd (divertIngresses k d (gkeys (ca_divertIngresses (nx_Cache r3))) r3)) = dn_Writes r3"
    using divertIngresses_settled [OF laws c] d v by simp
  then show "writesBy isDivertWrite r4 (snd (divertIngresses k d (gkeys (ca_divertIngresses c)) r4))"
    by (simp add: writesBy_def)
qed

text \<open>C26. On a store that only the driver writes, with the shared and the developer's namespace apart:
  after a deployment without error every shared ingress is diverted, that is, the developer has an
  ingress of its name with the divert header, equal to the translation of the shared one if the
  driver created it, and every service behind it that the shared namespace has; and deploying again
  writes no ingress and no service.\<close>

theorem nginx_deploy_converges:
  assumes laws: "storeLaws k view" and apart: "dd_Namespace (dr_Divert d) \<noteq> dr_Namespace d"
    and run: "fst (nginxDeploy k d r) = Inr ()" and r': "r' = snd (nginxDeploy k d r)"
  shows "(\<forall>n. divertedAt d (view (dn_Cluster r')) n)
    \<and> writesBy isDivertWrite r' (snd (nginxDeploy k d r'))"
proof -
  from run r' have "nginxDeploy k d r = (Inr (), r')" by (cases "nginxDeploy k d r") simp
  from nginxDeploy_diverts [OF laws apart this] have "divertedAt d (view (dn_Cluster r')) n" for n .
  with nginxDeploy_settled [OF laws this] show ?thesis by blast
qed


section \<open>A concrete store\<close>

text \<open>A cluster in memory that satisfies the hypotheses: the newest object of a key is at the front.\<close>

record memCluster =
  mc_Ingresses :: "ingress list"
  mc_Services :: "netService list"

definition memView :: "memCluster \<Rightarrow> netStore" where
  "memView c =
     \<lparr>st_Ingresses = (\<lambda>(ns, n). find (\<lambda>i. km_Namespace (in_Meta i) = ns \<and> km_Name (in_Meta i) = n) (mc_Ingresses c)),
      st_Services = (\<lambda>(ns, n). find (\<lambda>s. km_Namespace (ns_Meta s) = ns \<and> km_Name (ns_Meta s) = n) (mc_Services c))\<rparr>"

fun memWrite :: "divertCall \<Rightarrow> memCluster \<Rightarrow> apiErr option \<times> memCluster" where
  "memWrite (CreateIngress ns i) c =
     (if km_Namespace (in_Meta i) = ns then (None, c\<lparr>mc_Ingresses := i # mc_Ingresses c\<rparr>)
      else (Some (OtherErr ''bad namespace''), c))"
| "memWrite (UpdateIngress ns i) c =
     (if km_Namespace (in_Meta i) = ns then (None, c\<lparr>mc_Ingresses := i # mc_Ingresses c\<rparr>)
      else (Some (OtherErr ''bad namespace''), c))"
| "memWrite (CreateNetService ns s) c =
     (if km_Namespace (ns_Meta s) = ns then (None, c\<lparr>mc_Services := s # mc_Services c\<rparr>)
      else (Some (OtherErr ''bad namespace''), c))"
| "memWrite _ c = (None, c)"

definition memClient :: "memCluster divertClient" where
  "memClient =
     \<lparr>dk_Done = (\<lambda>c. (False, c)), dk_Now = (\<lambda>c. (''2024-01-01T00:00:00'', c)),
      dk_ListIngresses = (\<lambda>ns c. (Inr (filter (\<lambda>i. st_Ingresses (memView c) (ns, km_Name (in_Meta i)) = Some i) (mc_Ingresses c)), c)),
      dk_ListServices = (\<lambda>ns c. (Inr (filter (\<lambda>s. st_Services (memView c) (ns, km_Name (ns_Meta s)) = Some s) (mc_Services c)), c)),
      dk_GetIngress = (\<lambda>ns n c. (case st_Ingresses (memView c) (ns, n) of None \<Rightarrow> Inl NotFound | Some i \<Rightarrow> Inr i, c)),
      dk_ListDiverts = (\<lambda>ns c. (Inr [], c)), dk_GetDivert = (\<lambda>ns n c. (Inl NotFound, c)),
      dk_GetVS = (\<lambda>ns n c. ((None, Some NotFound), c)), dk_Write = memWrite\<rparr>"

lemma mem_accepted: "fst (memWrite w c) = None \<Longrightarrow> accepted w (memView c) (memView (snd (memWrite w c)))"
  by (cases w) (auto simp: memView_def sameIngress_def fun_eq_iff split: if_splits)

lemma mem_refused: "fst (memWrite w c) = Some e \<Longrightarrow>
    e \<noteq> Conflict \<and> e \<noteq> AlreadyExists \<and> memView (snd (memWrite w c)) = memView c"
  by (cases w) (auto split: if_splits)

lemma mem_storeLaws: "storeLaws memClient memView"
proof -
  have "wfStore (memView c)" for c
    by (auto simp: wfStore_def memView_def find_Some_iff)
  moreover have "st_Ingresses (memView c) (ns, km_Name (in_Meta i)) = Some i \<Longrightarrow> i \<in> set (mc_Ingresses c)" for c ns i
    by (auto simp: memView_def find_Some_iff)
  moreover have "st_Services (memView c) (ns, km_Name (ns_Meta s)) = Some s \<Longrightarrow> s \<in> set (mc_Services c)" for c ns s
    by (auto simp: memView_def find_Some_iff)
  ultimately show ?thesis
    using mem_accepted mem_refused
    by (auto simp: storeLaws_def quietQuery_def memClient_def split: option.split)
qed

definition exampleMeta :: "string \<Rightarrow> kubeMeta" where
  "exampleMeta n =
     \<lparr>km_Name = n, km_Namespace = ''shared'', km_UID = ''1'', km_ResourceVersion = ''1'',
      km_Labels = None, km_Annotations = None\<rparr>"

definition exampleCluster :: memCluster where
  "exampleCluster =
     \<lparr>mc_Ingresses = [\<lparr>in_Meta = exampleMeta ''web'',
        in_Spec = \<lparr>is_Rules = [\<lparr>ir_Host = ''web-shared.example'', ir_HTTP = Some [\<lparr>ip_Service = Some ''api'', ip_Rest = []\<rparr>]\<rparr>],
                   is_TLS = [], is_Rest = []\<rparr>\<rparr>],
      mc_Services = [\<lparr>ns_Meta = exampleMeta ''api'', ns_Type = ''ClusterIP'', ns_ExternalName = [], ns_Rest = []\<rparr>]\<rparr>"

definition exampleRun :: "memCluster nginxRun" where
  "exampleRun = \<lparr>dn_Cluster = exampleCluster, dn_Writes = [], nx_Cache = emptyCache\<rparr>"

lemma example_runs: "fst (nginxDeploy memClient exampleDriver exampleRun) = Inr ()"
  by code_simp

lemma example_writes: "length (dn_Writes (snd (nginxDeploy memClient exampleDriver exampleRun))) = 2"
  by code_simp

theorem nginx_deploy_converges_witness:
  "(\<forall>n. divertedAt exampleDriver
        (memView (dn_Cluster (snd (nginxDeploy memClient exampleDriver exampleRun)))) n)
    \<and> writesBy isDivertWrite (snd (nginxDeploy memClient exampleDriver exampleRun))
        (snd (nginxDeploy memClient exampleDriver (snd (nginxDeploy memClient exampleDriver exampleRun))))
    \<and> length (dn_Writes (snd (nginxDeploy memClient exampleDriver exampleRun))) = 2"
  using nginx_deploy_converges [OF mem_storeLaws _ example_runs refl] example_writes
  by (simp add: exampleDriver_def)

end
