(* ===== verification/Sha256.thy ===== *)
theory Sha256
  imports Prelude "HOL-Library.Word"
begin

text \<open>
  The function \<open>sha256.Sum256\<close> of Go's standard library (FIPS 180-4) and \<open>hex.EncodeToString\<close>,
  which the code uses to name the annotations of diverted virtual services. Words have 32 bits,
  additions wrap.
\<close>

unbundle bit_operations_syntax

type_synonym w32 = "32 word"

text \<open>The first 32 bits of the fractional parts of the cube roots of the first 64 primes, in decimal.\<close>

definition sha256_k :: "w32 list" where
  "sha256_k =
    [1116352408, 1899447441, 3049323471, 3921009573, 961987163, 1508970993,
     2453635748, 2870763221, 3624381080, 310598401, 607225278, 1426881987,
     1925078388, 2162078206, 2614888103, 3248222580, 3835390401, 4022224774,
     264347078, 604807628, 770255983, 1249150122, 1555081692, 1996064986,
     2554220882, 2821834349, 2952996808, 3210313671, 3336571891, 3584528711,
     113926993, 338241895, 666307205, 773529912, 1294757372, 1396182291,
     1695183700, 1986661051, 2177026350, 2456956037, 2730485921, 2820302411,
     3259730800, 3345764771, 3516065817, 3600352804, 4094571909, 275423344,
     430227734, 506948616, 659060556, 883997877, 958139571, 1322822218,
     1537002063, 1747873779, 1955562222, 2024104815, 2227730452, 2361852424,
     2428436474, 2756734187, 3204031479, 3329325298]"

text \<open>And of the square roots of the first eight.\<close>

definition sha256_init :: "w32 list" where
  "sha256_init =
    [1779033703, 3144134277, 1013904242, 2773480762,
     1359893119, 2600822924, 528734635, 1541459225]"

text \<open>Padding: the bit 1, zeros, and the length in bits as eight bytes, up to a multiple of 64 bytes.\<close>

primrec bigEndian :: "nat \<Rightarrow> int \<Rightarrow> int list" where
  "bigEndian 0 n = []"
| "bigEndian (Suc k) n = bigEndian k (n div 256) @ [n mod 256]"

definition sha256_pad :: "int list \<Rightarrow> int list" where
  "sha256_pad bs =
     (let n = length bs
      in bs @ [128] @ replicate ((119 - n mod 64) mod 64) 0 @ bigEndian 8 (8 * int n))"

fun chunks :: "nat \<Rightarrow> nat \<Rightarrow> 'a list \<Rightarrow> 'a list list" where
  "chunks n 0 xs = []"
| "chunks n (Suc k) xs = take n xs # chunks n k (drop n xs)"

definition wordOfBytes :: "int list \<Rightarrow> w32" where
  "wordOfBytes bs = word_of_int (fold (\<lambda>b acc. 256 * acc + b) bs 0)"

definition bytesOfWord :: "w32 \<Rightarrow> int list" where
  "bytesOfWord w = bigEndian 4 (uint w)"

definition rotr :: "nat \<Rightarrow> w32 \<Rightarrow> w32" where
  "rotr n w = drop_bit n w OR push_bit (32 - n) w"

text \<open>The message schedule: the list is kept in reverse, the newest word first.\<close>

fun sha256_schedule :: "nat \<Rightarrow> w32 list \<Rightarrow> w32 list" where
  "sha256_schedule 0 ws = ws"
| "sha256_schedule (Suc k) ws =
     (let a = ws ! 14; s0 = rotr 7 a XOR rotr 18 a XOR drop_bit 3 a;
          b = ws ! 1; s1 = rotr 17 b XOR rotr 19 b XOR drop_bit 10 b
      in sha256_schedule k ((ws ! 15 + s0 + ws ! 6 + s1) # ws))"

fun sha256_round :: "w32 \<times> w32 \<Rightarrow> w32 list \<Rightarrow> w32 list" where
  "sha256_round (k, w) [a, b, c, d, e, f, g, h] =
     (let s1 = rotr 6 e XOR rotr 11 e XOR rotr 25 e;
          ch = (e AND f) XOR (NOT e AND g);
          t1 = h + s1 + ch + k + w;
          s0 = rotr 2 a XOR rotr 13 a XOR rotr 22 a;
          maj = (a AND b) XOR (a AND c) XOR (b AND c)
      in [t1 + (s0 + maj), a, b, c, d + t1, e, f, g])"
| "sha256_round kw hs = hs"

definition sha256_block :: "int list \<Rightarrow> w32 list \<Rightarrow> w32 list" where
  "sha256_block block hs =
     (let ws = rev (sha256_schedule 48 (rev (map wordOfBytes (chunks 4 16 block))))
      in map2 (+) hs (fold sha256_round (zip sha256_k ws) hs))"

definition Sum256 :: "string \<Rightarrow> int list" where
  "Sum256 s =
     (let bs = sha256_pad (map of_char s)
      in concat (map bytesOfWord (fold sha256_block (chunks 64 (length bs div 64) bs) sha256_init)))"

definition hexDigit :: "int \<Rightarrow> char" where
  "hexDigit d = char_of (if d < 10 then 48 + d else 87 + d)"

definition EncodeToString :: "int list \<Rightarrow> string" where
  "EncodeToString bs = concat (map (\<lambda>b. [hexDigit (b div 16), hexDigit (b mod 16)]) bs)"

text \<open>A digest has 32 bytes, so every prefix the code takes of it exists.\<close>

lemma length_chunks [simp]: "length (chunks n k xs) = k"
  by (induction n k xs rule: chunks.induct) simp_all

lemma length_sha256_round [simp]: "length (sha256_round kw hs) = length hs"
  by (induction kw hs rule: sha256_round.induct) (simp_all add: Let_def)

lemma length_fold_round [simp]: "length (fold sha256_round kws hs) = length hs"
  by (induction kws arbitrary: hs) simp_all

lemma length_fold_block: "length hs = 8 \<Longrightarrow> length (fold sha256_block bs hs) = 8"
  by (induction bs arbitrary: hs) (simp_all add: sha256_block_def Let_def)

lemma length_Sum256: "length (Sum256 s) = 32"
proof -
  have four: "length (bytesOfWord w) = 4" for w
    by (simp add: bytesOfWord_def eval_nat_numeral)
  have "length (concat (map bytesOfWord ws)) = 4 * length ws" for ws
    by (induction ws) (simp_all add: four)
  then show ?thesis
    by (simp add: Sum256_def Let_def length_fold_block sha256_init_def)
qed

lemma length_EncodeToString: "length (EncodeToString bs) = 2 * length bs"
  by (induction bs) (simp_all add: EncodeToString_def)

end
