(* ===== verification/DivertIstio.thy ===== *)
theory DivertIstio
  imports DivertTypes Sha256
begin

text \<open>
  The divert driver for Istio (\<^verbatim>\<open>src/pkg/divert/istio\<close>, with the calls of
  \<^verbatim>\<open>src/pkg/k8s/virtualservices/crud.go\<close>): it annotates the virtual services to divert, copies
  those of the hosts to divert into the developer's namespace, and removes the annotations again.
  Updates that meet a conflict are retried, with the bound of the source as fuel.
\<close>

section \<open>Virtual services\<close>

definition getDivertAnnotationName :: "driver \<Rightarrow> string" where
  "getDivertAnnotationName d =
     ''divert.okteto.com/'' @ EncodeToString (take 20 (Sum256 (dr_Namespace d @ ''-'' @ dr_Name d)))"

definition getDeprecatedDivertAnnotationName :: "driver \<Rightarrow> string" where
  "getDeprecatedDivertAnnotationName d = ''divert.okteto.com/'' @ dr_Namespace d @ ''-'' @ dr_Name d"

text \<open>\<open>json.Marshal\<close> of a \<open>DivertTransformation\<close>: the routes are left out when there are none.\<close>

definition DivertTransformation :: "string \<Rightarrow> string list \<Rightarrow> string" where
  "DivertTransformation namespace routes =
     ''{'' @ jsonString ''namespace'' @ '':'' @ jsonString namespace
     @ (if routes = [] then []
        else '','' @ jsonString ''routes'' @ '':['' @ join '','' (map jsonString routes) @ '']'')
     @ ''}''"

definition onAnnotations :: "(smap \<Rightarrow> smap) \<Rightarrow> virtualService \<Rightarrow> virtualService" where
  "onAnnotations f vs =
     vs\<lparr>vs_Meta := (vs_Meta vs)\<lparr>km_Annotations := Some (f (nonNil (km_Annotations (vs_Meta vs))))\<rparr>\<rparr>"

definition translateDivertVirtualService :: "driver \<Rightarrow> virtualService \<Rightarrow> string list \<Rightarrow> virtualService" where
  "translateDivertVirtualService d vs routes =
     onAnnotations (gput (getDivertAnnotationName d) (DivertTransformation (dr_Namespace d) routes)) vs"

definition restoreDivertVirtualService :: "driver \<Rightarrow> virtualService \<Rightarrow> virtualService" where
  "restoreDivertVirtualService d vs =
     onAnnotations (\<lambda>m. gdel (getDeprecatedDivertAnnotationName d) (gdel (getDivertAnnotationName d) m)) vs"

definition injectRouteHeader :: "driver \<Rightarrow> httpRoute \<Rightarrow> httpRoute" where
  "injectRouteHeader d route =
     (let h = (case hr_Headers route of None \<Rightarrow> \<lparr>hd_Request = None, hd_Rest = []\<rparr> | Some h \<Rightarrow> h);
          q = (case hd_Request h of None \<Rightarrow> \<lparr>ho_Add = None, ho_Rest = []\<rparr> | Some q \<Rightarrow> q);
          add = gput OktetoDivertBaggageHeader (OktetoDivertHeaderName @ ''='' @ dr_Namespace d) (nonNil (ho_Add q))
      in route\<lparr>hr_Headers := Some (h\<lparr>hd_Request := Some (q\<lparr>ho_Add := Some add\<rparr>)\<rparr>)\<rparr>)"

definition injectDivertHeader :: "driver \<Rightarrow> virtualService \<Rightarrow> virtualService" where
  "injectDivertHeader d vs = vs\<lparr>vs_Http := map (injectRouteHeader d) (vs_Http vs)\<rparr>"

text \<open>Destinations without a dot are names of services next to the original; a nil one is a panic.\<close>

fun qualifyDestinations :: "string \<Rightarrow> routeDestination list \<Rightarrow> routeDestination list option" where
  "qualifyDestinations ns [] = Some []"
| "qualifyDestinations ns (dest # dests) =
     (case rd_Host dest of
        None \<Rightarrow> None
      | Some h \<Rightarrow>
          let dest = (if \<not> contains h ''.'' then dest\<lparr>rd_Host := Some (h @ ''.'' @ ns @ ''.svc.cluster.local'')\<rparr> else dest)
          in map_option ((#) dest) (qualifyDestinations ns dests))"

fun qualifyRoutes :: "string \<Rightarrow> httpRoute list \<Rightarrow> httpRoute list option" where
  "qualifyRoutes ns [] = Some []"
| "qualifyRoutes ns (route # routes) =
     (case qualifyDestinations ns (hr_Route route) of
        None \<Rightarrow> None
      | Some dests \<Rightarrow> map_option ((#) (route\<lparr>hr_Route := dests\<rparr>)) (qualifyRoutes ns routes))"

text \<open>\<open>okteto.GetSubdomain\<close>, from the registry of the context.\<close>

definition GetSubdomain :: "string \<Rightarrow> string" where
  "GetSubdomain registry = replaceFirst registry ''registry.'' []"

definition translateDivertHost :: "string \<Rightarrow> driver \<Rightarrow> virtualService \<Rightarrow> virtualService option" where
  "translateDivertHost registry d vs =
     (let ns = dr_Namespace d;
          name = km_Name (vs_Meta vs);
          meta = SetInMetadata OktetoAutoCreateAnnotation ''true''
                   (SetInMetadata DeployedByLabel (dr_Name d) (vs_Meta vs));
          result = vs\<lparr>vs_Meta := meta\<lparr>km_Namespace := ns, km_ResourceVersion := [], km_UID := []\<rparr>,
                      vs_Tls := [],
                      vs_Hosts := [name @ ''-'' @ ns @ ''.'' @ GetSubdomain registry,
                                   name @ ''.'' @ ns @ ''.svc.cluster.local'']\<rparr>;
          result = injectDivertHeader d result
      in map_option (\<lambda>routes. result\<lparr>vs_Http := routes\<rparr>)
           (qualifyRoutes (km_Namespace (vs_Meta vs)) (vs_Http result)))"

section \<open>The driver\<close>

definition UPDATE_CONFLICT_RETRIES :: nat where
  "UPDATE_CONFLICT_RETRIES = 20"

definition updateVS :: "'c divertClient \<Rightarrow> virtualService \<Rightarrow> ('c, 'z, apiErr option) divAction" where
  "updateVS k vs = issue k (UpdateVS (km_Namespace (vs_Meta vs)) vs)"

definition createVS :: "'c divertClient \<Rightarrow> virtualService \<Rightarrow> ('c, 'z, apiErr option) divAction" where
  "createVS k vs = issue k (CreateVS (km_Namespace (vs_Meta vs)) vs)"

text \<open>\<open>vs, err := virtualservices.Get(...); if err != nil { return err }\<close>, then a dereference.\<close>

definition getVS :: "'c divertClient \<Rightarrow> string \<Rightarrow> string \<Rightarrow> ('c, 'z, virtualService) divAction" where
  "getVS k name ns =
     andThen (query (dk_GetVS k ns name)) (\<lambda>(vs, e). case e of
       Some e \<Rightarrow> failE (Api e)
     | None \<Rightarrow> (case vs of None \<Rightarrow> failE NilPanic | Some vs \<Rightarrow> returnE vs))"

text \<open>
  The loop of retries. The variable \<open>err\<close> of its body shadows the one declared before it, so the
  \<open>return err\<close> after the last retry returns nil: the case without fuel is a success.
\<close>

primrec retryUpdate :: "'c divertClient \<Rightarrow> (virtualService \<Rightarrow> virtualService) \<Rightarrow> string \<Rightarrow> string \<Rightarrow> nat
    \<Rightarrow> ('c, 'z, unit) divAction" where
  "retryUpdate k f name ns 0 = returnE ()"
| "retryUpdate k f name ns (Suc retries) =
     andThen (getVS k name ns) (\<lambda>vs.
     andThen (updateVS k (f vs)) (\<lambda>e. case e of
       None \<Rightarrow> returnE ()
     | Some e \<Rightarrow> if e \<noteq> Conflict then failE (Api e) else retryUpdate k f name ns retries))"

definition retryTranslateDivertVirtualService ::
    "'c divertClient \<Rightarrow> driver \<Rightarrow> DivertVirtualService \<Rightarrow> ('c, 'z, unit) divAction" where
  "retryTranslateDivertVirtualService k d v =
     retryUpdate k (\<lambda>vs. translateDivertVirtualService d vs (dvs_Routes v)) (dvs_Name v) (dvs_Namespace v)
       UPDATE_CONFLICT_RETRIES"

primrec retryHost :: "'c divertClient \<Rightarrow> string \<Rightarrow> driver \<Rightarrow> DivertHost \<Rightarrow> nat \<Rightarrow> ('c, 'z, unit) divAction" where
  "retryHost k registry d h 0 = returnE ()"
| "retryHost k registry d h (Suc retries) =
     andThen (getVS k (dh_VirtualService h) (dh_Namespace h)) (\<lambda>vs.
     case translateDivertHost registry d vs of
       None \<Rightarrow> failE NilPanic
     | Some translatedVS \<Rightarrow>
         andThen (query (dk_GetVS k (dr_Namespace d) (dh_VirtualService h))) (\<lambda>(devVS, e).
         if e = Some NotFound then
           andThen (createVS k translatedVS) (\<lambda>e.
             if e = Some AlreadyExists then returnE () else checked e)
         else case devVS of
           None \<Rightarrow> failE NilPanic
         | Some devVS \<Rightarrow>
             if mstr (km_Labels (vs_Meta devVS)) OktetoAutoCreateAnnotation \<noteq> ''true'' then returnE ()
             else
               andThen (updateVS k (translatedVS\<lparr>vs_Meta := (vs_Meta translatedVS)
                          \<lparr>km_ResourceVersion := km_ResourceVersion (vs_Meta devVS)\<rparr>\<rparr>)) (\<lambda>e. case e of
                 None \<Rightarrow> returnE ()
               | Some e \<Rightarrow> if e \<noteq> Conflict then failE (Api e) else retryHost k registry d h retries)))"

definition retryTranslateDivertHost ::
    "'c divertClient \<Rightarrow> string \<Rightarrow> driver \<Rightarrow> DivertHost \<Rightarrow> ('c, 'z, unit) divAction" where
  "retryTranslateDivertHost k registry d h = retryHost k registry d h UPDATE_CONFLICT_RETRIES"

fun divertVirtualServices :: "'c divertClient \<Rightarrow> driver \<Rightarrow> DivertVirtualService list \<Rightarrow> ('c, 'z, unit) divAction" where
  "divertVirtualServices k d [] = returnE ()"
| "divertVirtualServices k d (v # vss) =
     andThen (retryTranslateDivertVirtualService k d v) (\<lambda>_. divertVirtualServices k d vss)"

fun divertHosts :: "'c divertClient \<Rightarrow> string \<Rightarrow> driver \<Rightarrow> DivertHost list \<Rightarrow> ('c, 'z, unit) divAction" where
  "divertHosts k registry d [] = returnE ()"
| "divertHosts k registry d (h # hs) =
     andThen (unlessDone k (retryTranslateDivertHost k registry d h)) (\<lambda>_. divertHosts k registry d hs)"

definition istioDeploy :: "'c divertClient \<Rightarrow> string \<Rightarrow> driver \<Rightarrow> ('c, 'z, unit) divAction" where
  "istioDeploy k registry d =
     andThen (divertVirtualServices k d (dd_VirtualServices (dr_Divert d))) (\<lambda>_.
     divertHosts k registry d (dd_Hosts (dr_Divert d)))"

text \<open>The loop of \<open>Destroy\<close>: the error it tests after the retries is the outer one, always nil.\<close>

fun restoreVirtualServices :: "'c divertClient \<Rightarrow> driver \<Rightarrow> DivertVirtualService list \<Rightarrow> ('c, 'z, unit) divAction" where
  "restoreVirtualServices k d [] = returnE ()"
| "restoreVirtualServices k d (v # vss) =
     andThen (retryUpdate k (restoreDivertVirtualService d) (dvs_Name v) (dvs_Namespace v) UPDATE_CONFLICT_RETRIES)
       (\<lambda>_. restoreVirtualServices k d vss)"

definition istioDestroy :: "'c divertClient \<Rightarrow> driver \<Rightarrow> ('c, 'z, unit) divAction" where
  "istioDestroy k d = restoreVirtualServices k d (dd_VirtualServices (dr_Divert d))"

definition istioUpdatePod :: "driver \<Rightarrow> divertPodSpec \<Rightarrow> divertPodSpec" where
  "istioUpdatePod d pod = divertContainers d pod"

definition istioUpdateVirtualService :: "driver \<Rightarrow> virtualService \<Rightarrow> virtualService" where
  "istioUpdateVirtualService d vs = injectDivertHeader d vs"

section \<open>Where the driver writes\<close>

text \<open>
  The contract on writes: annotations of the virtual services named by the manifest, and marked
  copies in the developer's namespace.
\<close>

fun istioScope :: "driver \<Rightarrow> divertCall \<Rightarrow> bool" where
  "istioScope d (UpdateVS ns v) \<longleftrightarrow>
     km_Namespace (vs_Meta v) = ns
     \<and> (ns = dr_Namespace d \<and> mstr (km_Labels (vs_Meta v)) OktetoAutoCreateAnnotation = ''true''
        \<or> list_ex (\<lambda>x. dvs_Namespace x = ns \<and> dvs_Name x = km_Name (vs_Meta v))
             (dd_VirtualServices (dr_Divert d)))"
| "istioScope d (CreateVS ns v) \<longleftrightarrow>
     km_Namespace (vs_Meta v) = ns \<and> ns = dr_Namespace d
     \<and> mstr (km_Labels (vs_Meta v)) OktetoAutoCreateAnnotation = ''true''"
| "istioScope d _ \<longleftrightarrow> False"

text \<open>Hypothesis on the API: a virtual service is found under its own name and namespace.\<close>

definition getsNamed :: "'c divertClient \<Rightarrow> bool" where
  "getsNamed k \<longleftrightarrow> (\<forall>ns n c v c'. dk_GetVS k ns n c = ((Some v, None), c') \<longrightarrow>
     km_Namespace (vs_Meta v) = ns \<and> km_Name (vs_Meta v) = n)"

lemma onAnnotations_simps [simp]:
  "km_Name (vs_Meta (onAnnotations f vs)) = km_Name (vs_Meta vs)"
  "km_Namespace (vs_Meta (onAnnotations f vs)) = km_Namespace (vs_Meta vs)"
  "km_Labels (vs_Meta (onAnnotations f vs)) = km_Labels (vs_Meta vs)"
  "km_Annotations (vs_Meta (onAnnotations f vs)) = Some (f (nonNil (km_Annotations (vs_Meta vs))))"
  "vs_Http (onAnnotations f vs) = vs_Http vs" "vs_Hosts (onAnnotations f vs) = vs_Hosts vs"
  by (simp_all add: onAnnotations_def)

lemma issues_getVS [issues_intros]: "issues P (getVS k name ns)"
  unfolding getVS_def by (auto split: prod.split option.split intro!: issues_intros)

lemma getsNamedD:
  "getsNamed k \<Longrightarrow> dk_GetVS k ns n c = ((Some v, None), c') \<Longrightarrow> km_Namespace (vs_Meta v) = ns \<and> km_Name (vs_Meta v) = n"
  unfolding getsNamed_def by blast

lemma getVS_named:
  "getsNamed k \<Longrightarrow> getVS k name ns r = (Inr vs, r') \<Longrightarrow>
     km_Namespace (vs_Meta vs) = ns \<and> km_Name (vs_Meta vs) = name"
  by (auto simp: getVS_def andThen_def query_def returnE_def failE_def
      dest: getsNamedD split: prod.splits option.splits)

lemma issues_getVS_then:
  fixes f :: "virtualService \<Rightarrow> ('c, 'z, 'a) divAction"
  assumes "getsNamed k"
    and "\<And>vs. km_Namespace (vs_Meta vs) = ns \<Longrightarrow> km_Name (vs_Meta vs) = name \<Longrightarrow> issues P (f vs)"
  shows "issues P (andThen (getVS k name ns) f)"
  unfolding issues_def
proof (intro allI writesBy_andThen)
  fix r :: "('c, 'z) divertRun_scheme"
  show "writesBy P r (snd (getVS k name ns r))" by (rule issues_writesBy [OF issues_getVS])
  fix vs r'
  assume "getVS k name ns r = (Inr vs, r')"
  from getVS_named [OF assms(1) this] assms(2) show "writesBy P r' (snd (f vs r'))"
    by (intro issues_writesBy) simp
qed

lemma issues_retryUpdate:
  assumes named: "getsNamed k"
    and f: "\<And>vs. km_Namespace (vs_Meta (f vs)) = km_Namespace (vs_Meta vs)"
      "\<And>vs. km_Name (vs_Meta (f vs)) = km_Name (vs_Meta vs)"
    and listed: "list_ex (\<lambda>x. dvs_Namespace x = ns \<and> dvs_Name x = name) (dd_VirtualServices (dr_Divert d))"
  shows "issues (istioScope d) (retryUpdate k f name ns retries)"
proof (induction retries)
  case 0
  then show ?case by (simp add: issues_return)
next
  case (Suc retries)
  have "issues (istioScope d) (updateVS k (f vs))"
    if "km_Namespace (vs_Meta vs) = ns" "km_Name (vs_Meta vs) = name" for vs
    unfolding updateVS_def using that listed by (intro issues_issue) (simp add: f)
  with Suc show ?case
    by (auto split: option.split intro!: issues_getVS_then [OF named] issues_intros)
qed

lemma translateDivertHost_meta:
  assumes "translateDivertHost registry d vs = Some t"
  shows "km_Namespace (vs_Meta t) = dr_Namespace d \<and> km_Name (vs_Meta t) = km_Name (vs_Meta vs)
    \<and> mstr (km_Labels (vs_Meta t)) OktetoAutoCreateAnnotation = ''true''"
  using assms
  by (auto simp: translateDivertHost_def Let_def SetInMetadata_def injectDivertHeader_def mstr_def gstr_def gget_put)

lemma issues_host_writes:
  assumes "translateDivertHost registry d vs = Some t"
  shows "issues (istioScope d) (createVS k t)"
    "issues (istioScope d) (updateVS k (t\<lparr>vs_Meta := (vs_Meta t)\<lparr>km_ResourceVersion := v\<rparr>\<rparr>))"
  unfolding createVS_def updateVS_def using translateDivertHost_meta [OF assms]
  by (intro issues_issue; simp)+

lemma issues_retryHost: "issues (istioScope d) (retryHost k registry d h retries)"
proof (induction retries)
  case 0
  then show ?case by (simp add: issues_return)
next
  case (Suc retries)
  show ?case
    by (auto split: option.split prod.split intro!: issues_intros Suc issues_host_writes)
qed

text \<open>A cluster that has every virtual service it is asked for and answers every write with \<open>e\<close>.\<close>

definition exampleVS :: "string \<Rightarrow> string \<Rightarrow> virtualService" where
  "exampleVS ns n =
     \<lparr>vs_Meta = \<lparr>km_Name = n, km_Namespace = ns, km_UID = ''1'', km_ResourceVersion = ''1'', km_Labels = None,
                 km_Annotations = Some [(''team'', ''a'')]\<rparr>,
      vs_Hosts = [''web.example''], vs_Tls = [],
      vs_Http = [\<lparr>hr_Headers = None, hr_Route = [\<lparr>rd_Host = Some ''api'', rd_Rest = []\<rparr>], hr_Rest = []\<rparr>], vs_Rest = []\<rparr>"

definition vsClient :: "apiErr option \<Rightarrow> unit divertClient" where
  "vsClient e = emptyClient\<lparr>dk_GetVS := (\<lambda>ns n c. ((Some (exampleVS ns n), None), c)), dk_Write := (\<lambda>w c. (e, c))\<rparr>"

definition istioDriver :: driver where
  "istioDriver = exampleDriver\<lparr>dr_Divert := (dr_Divert exampleDriver)
     \<lparr>dd_Driver := ''istio'', dd_VirtualServices := [\<lparr>dvs_Name = ''web'', dvs_Namespace = ''shared'', dvs_Routes = []\<rparr>]\<rparr>\<rparr>"

lemma vsClient_gets: "dk_GetVS (vsClient e) ns n c = ((Some (exampleVS ns n), None), c)"
  by (simp add: vsClient_def)

lemma vsClient_named: "getsNamed (vsClient e)"
  by (auto simp: getsNamed_def vsClient_gets exampleVS_def)

lemma istio_scope:
  assumes "getsNamed k"
  shows "issues (istioScope d) (istioDeploy k registry d) \<and> issues (istioScope d) (istioDestroy k d)"
proof
  let ?all = "dd_VirtualServices (dr_Divert d)"
  have one: "issues (istioScope d) (retryUpdate k f (dvs_Name v) (dvs_Namespace v) n)"
    if "v \<in> set ?all" and "f = (\<lambda>vs. translateDivertVirtualService d vs routes) \<or> f = restoreDivertVirtualService d"
    for f v n routes
    by (rule issues_retryUpdate [OF assms])
      (use that in \<open>auto simp: translateDivertVirtualService_def restoreDivertVirtualService_def list_ex_iff\<close>)
  have "set vss \<subseteq> set ?all \<Longrightarrow> issues (istioScope d) (divertVirtualServices k d vss)" for vss
    by (induction vss) (auto simp: retryTranslateDivertVirtualService_def intro!: issues_intros one)
  moreover have "issues (istioScope d) (divertHosts k registry d hs)" for hs
    by (induction hs) (auto simp: retryTranslateDivertHost_def intro!: issues_intros issues_retryHost)
  ultimately show "issues (istioScope d) (istioDeploy k registry d)"
    unfolding istioDeploy_def by (auto intro!: issues_intros)
  have "set vss \<subseteq> set ?all \<Longrightarrow> issues (istioScope d) (restoreVirtualServices k d vss)" for vss
    by (induction vss) (auto intro!: issues_intros one)
  then show "issues (istioScope d) (istioDestroy k d)"
    unfolding istioDestroy_def by auto
qed

lemmas istioDeploy_scope = istio_scope [THEN conjunct1]
lemmas istioDestroy_scope = istio_scope [THEN conjunct2]

text \<open>With a cluster that finds a virtual service under its own name, deploying and destroying with
  the Istio driver write the virtual services the manifest names and, in the developer's namespace,
  copies marked as created by the driver; nothing else.\<close>

theorem istio_writes_named_services:
  assumes "getsNamed k"
  shows "issues (istioScope d) (istioDeploy k registry d) \<and> issues (istioScope d) (istioDestroy k d)"
  by (rule istio_scope [OF assms])

theorem istio_writes_named_services_witness:
  "issues (istioScope istioDriver) (istioDeploy (vsClient None) ''registry.example'' istioDriver)
    \<and> issues (istioScope istioDriver) (istioDestroy (vsClient None) istioDriver)"
  by (rule istio_writes_named_services [OF vsClient_named])

section \<open>Restoring\<close>



section \<open>Conflicts\<close>

lemma retryUpdate_conflicts:
  assumes get: "\<And>ns n c. \<exists>v c'. dk_GetVS k ns n c = ((Some v, None), c')"
    and conflict: "\<And>w c. fst (dk_Write k w c) = Some Conflict"
  shows "fst (retryUpdate k f name ns n r) = Inr ()
    \<and> length (dn_Writes (snd (retryUpdate k f name ns n r))) = length (dn_Writes r) + n"
proof (induction n arbitrary: r)
  case 0
  then show ?case by (simp add: returnE_def)
next
  case (Suc n)
  obtain v c where v: "dk_GetVS k ns name (dn_Cluster r) = ((Some v, None), c)" using get by blast
  obtain c' where c': "dk_Write k (UpdateVS (km_Namespace (vs_Meta (f v))) (f v)) c = (Some Conflict, c')"
    using conflict by (metis prod.collapse)
  show ?case
    using v c' Suc
    by (simp add: getVS_def updateVS_def andThen_def query_def issue_def returnE_def)
qed

text \<open>On a cluster that answers every update with a conflict, deploying reports success although no
  virtual service has been diverted: after twenty attempts for each of them the loop returns the
  error variable declared before it, which its own variable of the same name has hidden.\<close>

theorem istio_conflicts_reported_as_success:
  assumes get: "\<And>ns n c. \<exists>v c'. dk_GetVS k ns n c = ((Some v, None), c')"
    and conflict: "\<And>w c. fst (dk_Write k w c) = Some Conflict"
    and hosts: "dd_Hosts (dr_Divert d) = []"
  shows "fst (istioDeploy k registry d r) = Inr ()
    \<and> length (dn_Writes (snd (istioDeploy k registry d r)))
        = length (dn_Writes r) + 20 * length (dd_VirtualServices (dr_Divert d))"
proof -
  have "fst (divertVirtualServices k d vss r) = Inr ()
      \<and> length (dn_Writes (snd (divertVirtualServices k d vss r))) = length (dn_Writes r) + 20 * length vss" for vss
  proof (induction vss arbitrary: r)
    case Nil
    then show ?case by (simp add: returnE_def)
  next
    case (Cons v vss)
    obtain r1 where 1: "retryTranslateDivertVirtualService k d v r = (Inr (), r1)"
      "length (dn_Writes r1) = length (dn_Writes r) + 20"
      using retryUpdate_conflicts [OF get conflict, where n = 20 and r = r]
      by (metis prod.collapse retryTranslateDivertVirtualService_def UPDATE_CONFLICT_RETRIES_def)
    with Cons [of r1] show ?case by (simp add: andThen_def)
  qed
  from this [of "dd_VirtualServices (dr_Divert d)"] hosts show ?thesis
    by (cases "divertVirtualServices k d (dd_VirtualServices (dr_Divert d)) r")
      (simp add: istioDeploy_def andThen_def returnE_def)
qed

theorem istio_conflicts_reported_as_success_witness:
  "fst (istioDeploy (vsClient (Some Conflict)) [] istioDriver \<lparr>dn_Cluster = (), dn_Writes = []\<rparr>) = Inr ()
    \<and> length (dn_Writes (snd (istioDeploy (vsClient (Some Conflict)) [] istioDriver \<lparr>dn_Cluster = (), dn_Writes = []\<rparr>))) = 20"
  using istio_conflicts_reported_as_success [of "vsClient (Some Conflict)" istioDriver "[]"
      "\<lparr>dn_Cluster = (), dn_Writes = []\<rparr>"]
  by (simp add: vsClient_def istioDriver_def exampleDriver_def)

text \<open>
  An error other than not-found on reading the developer's copy of a host's virtual service is taken
  for a virtual service of somebody else, as the clients return an empty object with the error: the
  host is skipped and the deployment succeeds.
\<close>

lemma host_read_error_is_success:
  assumes "dk_GetVS k (dh_Namespace h) (dh_VirtualService h) (dn_Cluster r) = ((Some vs, None), c)"
    and "translateDivertHost registry d vs = Some t"
    and "dk_GetVS k (dr_Namespace d) (dh_VirtualService h) c = ((Some blank, Some (OtherErr msg)), c')"
    and "km_Labels (vs_Meta blank) = None"
  shows "retryTranslateDivertHost k registry d h r = (Inr (), r\<lparr>dn_Cluster := c'\<rparr>)"
  using assms
  by (simp add: retryTranslateDivertHost_def UPDATE_CONFLICT_RETRIES_def eval_nat_numeral getVS_def
      andThen_def query_def returnE_def mstr_def)

section \<open>The copy of a host\<close>

text \<open>
  Every route of the copy adds the divert header, every destination is a full name, and the copy
  answers to the developer's host names.
\<close>

lemma qualifyDestinations_full:
  "qualifyDestinations ns dests = Some dests' \<Longrightarrow>
     \<forall>x \<in> set dests'. \<exists>h. rd_Host x = Some h \<and> contains h ''.''"
proof (induction dests arbitrary: dests')
  case (Cons dest dests)
  then obtain h rest where h: "rd_Host dest = Some h" and rest: "qualifyDestinations ns dests = Some rest"
    and d: "dests' = (if \<not> contains h ''.'' then dest\<lparr>rd_Host := Some (h @ ''.'' @ ns @ ''.svc.cluster.local'')\<rparr> else dest) # rest"
    by (auto simp: Let_def split: option.splits)
  have "contains (h @ ''.'' @ ns @ ''.svc.cluster.local'') ''.''"
    unfolding contains_def sublist_def by blast
  with d h Cons.IH [OF rest] show ?case by auto
qed simp

lemma qualifyRoutes_headers:
  "qualifyRoutes ns routes = Some routes' \<Longrightarrow> map hr_Headers routes' = map hr_Headers routes
     \<and> (\<forall>x \<in> set routes'. \<forall>y \<in> set (hr_Route x). \<exists>h. rd_Host y = Some h \<and> contains h ''.'')"
proof (induction routes arbitrary: routes')
  case (Cons route routes)
  then obtain dests rest where dests: "qualifyDestinations ns (hr_Route route) = Some dests"
    and rest: "qualifyRoutes ns routes = Some rest" and r: "routes' = route\<lparr>hr_Route := dests\<rparr> # rest"
    by (auto split: option.splits)
  from r Cons.IH [OF rest] qualifyDestinations_full [OF dests] show ?case by simp
qed simp

definition routeHeader :: "httpRoute \<Rightarrow> string" where
  "routeHeader route =
     (case hr_Headers route of None \<Rightarrow> [] | Some h \<Rightarrow>
      case hd_Request h of None \<Rightarrow> [] | Some q \<Rightarrow> mstr (ho_Add q) OktetoDivertBaggageHeader)"

lemma injectRouteHeader_header: "routeHeader (injectRouteHeader d route) = ''okteto-divert='' @ dr_Namespace d"
  by (simp add: routeHeader_def injectRouteHeader_def Let_def mstr_def gstr_def gget_put OktetoDivertHeaderName_def)

lemma translateDivertHost_exact:
  assumes "translateDivertHost registry d vs = Some t"
  shows "vs_Hosts t = [km_Name (vs_Meta vs) @ ''-'' @ dr_Namespace d @ ''.'' @ GetSubdomain registry,
                       km_Name (vs_Meta vs) @ ''.'' @ dr_Namespace d @ ''.svc.cluster.local'']
    \<and> (\<forall>x \<in> set (vs_Http t). routeHeader x = ''okteto-divert='' @ dr_Namespace d
         \<and> (\<forall>y \<in> set (hr_Route x). \<exists>h. rd_Host y = Some h \<and> contains h ''.''))"
proof -
  from assms obtain routes where q: "qualifyRoutes (km_Namespace (vs_Meta vs)) (map (injectRouteHeader d) (vs_Http vs)) = Some routes"
    and t: "vs_Http t = routes" "vs_Hosts t = [km_Name (vs_Meta vs) @ ''-'' @ dr_Namespace d @ ''.'' @ GetSubdomain registry,
                       km_Name (vs_Meta vs) @ ''.'' @ dr_Namespace d @ ''.svc.cluster.local'']"
    by (auto simp: translateDivertHost_def Let_def injectDivertHeader_def)
  note routes = qualifyRoutes_headers [OF q]
  have "map routeHeader routes = map (\<lambda>_. ''okteto-divert='' @ dr_Namespace d) (vs_Http vs)"
  proof -
    have "map routeHeader routes = map (\<lambda>h. case h of None \<Rightarrow> [] | Some h \<Rightarrow>
        case hd_Request h of None \<Rightarrow> [] | Some q \<Rightarrow> mstr (ho_Add q) OktetoDivertBaggageHeader) (map hr_Headers routes)"
      by (simp add: routeHeader_def)
    also have "\<dots> = map routeHeader (map (injectRouteHeader d) (vs_Http vs))"
      using routes by (simp add: routeHeader_def)
    finally show ?thesis by (simp add: injectRouteHeader_header comp_def)
  qed
  from arg_cong [where f = set, OF this] have "\<forall>x \<in> set routes. routeHeader x = ''okteto-divert='' @ dr_Namespace d"
    by auto
  with t routes show ?thesis by simp
qed


end
