(* ===== verification/Divert.thy ===== *)
theory Divert
  imports DivertStore DivertIstio
begin

text \<open>
  The drivers behind one interface (\<^verbatim>\<open>src/pkg/divert/driver.go\<close>): which driver the manifest gets,
  the driver that does nothing (\<^verbatim>\<open>src/pkg/divert/noop\<close>), the client for clusters without divert
  resources (\<^verbatim>\<open>src/pkg/divert/k8s/noop.go\<close>), and what every driver promises to the code that calls
  it, as the locale \<open>divert_driver\<close> with an interpretation for each driver.
\<close>

section \<open>The choice of a driver\<close>

datatype Driver = NginxDriver driver | IstioDriver driver | NoopDriver

text \<open>
  The context says whether the cluster has Okteto and divert resources; making the two clients may
  fail.
\<close>

record divertContext =
  dx_IsOkteto :: bool
  dx_DivertCRDSEnabled :: bool
  dx_DivertClient :: "apiErr option"
  dx_IstioClient :: "apiErr option"

definition New :: "divertContext \<Rightarrow> DivertDeploy \<Rightarrow> string \<Rightarrow> string \<Rightarrow> divErr + Driver" where
  "New x divert name namespace =
     (let d = \<lparr>dr_Name = name, dr_Namespace = namespace, dr_Divert = divert\<rparr>
      in if \<not> dx_IsOkteto x then Inl ErrDivertNotSupported
         else if dd_Driver divert = OktetoDivertNginxDriver then
           (case (if dx_DivertCRDSEnabled x then dx_DivertClient x else None) of
              Some e \<Rightarrow> Inl (Wrapped ''error creating divert client'' (Api e))
            | None \<Rightarrow> Inr (NginxDriver d))
         else (case dx_IstioClient x of
              Some e \<Rightarrow> Inl (Wrapped ''error creating istio client'' (Api e))
            | None \<Rightarrow> Inr (IstioDriver d)))"

text \<open>The divert client that does not touch the cluster.\<close>

definition NoopDivertClient :: "'c divertClient \<Rightarrow> 'c divertClient" where
  "NoopDivertClient k =
     k\<lparr>dk_ListDiverts := (\<lambda>ns c. (Inr [], c)), dk_GetDivert := (\<lambda>ns n c. (Inl NotFound, c)),
       dk_Write := (\<lambda>w c. case w of
           CreateDivert ns v \<Rightarrow> (None, c)
         | UpdateDivert ns v \<Rightarrow> (Some NotFound, c)
         | DeleteDivert ns n \<Rightarrow> (None, c)
         | _ \<Rightarrow> dk_Write k w c)\<rparr>"

definition noopDeploy :: "('c, 'z, unit) divAction" where
  "noopDeploy = returnE ()"

definition noopDestroy :: "('c, 'z, unit) divAction" where
  "noopDestroy = returnE ()"

definition noopUpdatePod :: "divertPodSpec \<Rightarrow> divertPodSpec" where
  "noopUpdatePod pod = pod"

definition noopUpdateVirtualService :: "virtualService \<Rightarrow> virtualService" where
  "noopUpdateVirtualService vs = vs"

fun UpdatePod :: "Driver \<Rightarrow> divertPodSpec \<Rightarrow> divertPodSpec" where
  "UpdatePod (NginxDriver d) pod = nginxUpdatePod d pod"
| "UpdatePod (IstioDriver d) pod = istioUpdatePod d pod"
| "UpdatePod NoopDriver pod = noopUpdatePod pod"

fun UpdateVirtualService :: "Driver \<Rightarrow> virtualService \<Rightarrow> virtualService" where
  "UpdateVirtualService (NginxDriver d) vs = nginxUpdateVirtualService d vs"
| "UpdateVirtualService (IstioDriver d) vs = istioUpdateVirtualService d vs"
| "UpdateVirtualService NoopDriver vs = noopUpdateVirtualService vs"

section \<open>What every driver promises\<close>

text \<open>A pod without what a driver may edit: the variables of its containers and its name resolution.\<close>

definition podFrame :: "divertPodSpec \<Rightarrow> divertPodSpec" where
  "podFrame p =
     p\<lparr>ps_InitContainers := map (\<lambda>c. c\<lparr>c_Env := []\<rparr>) (ps_InitContainers p),
       ps_Containers := map (\<lambda>c. c\<lparr>c_Env := []\<rparr>) (ps_Containers p), ps_DNSConfig := None\<rparr>"

definition allContainers :: "divertPodSpec \<Rightarrow> container list" where
  "allContainers p = ps_InitContainers p @ ps_Containers p"

text \<open>The variables that are not the driver's.\<close>

definition ownEnv :: "container \<Rightarrow> envVar list" where
  "ownEnv c = filter (\<lambda>e. ev_Name e \<noteq> OktetoSharedEnvironmentEnvVar \<and> ev_Name e \<noteq> OktetoDivertedEnvironmentEnvVar) (c_Env c)"

definition mountsDeclared :: "divertPodSpec \<Rightarrow> bool" where
  "mountsDeclared p \<longleftrightarrow>
     list_all (\<lambda>c. list_all (\<lambda>m. list_ex (\<lambda>v. v_Name v = vm_Name m) (ps_Volumes p)) (c_VolumeMounts c)) (allContainers p)"

locale divert_driver =
  fixes deploy :: "('c, 'z, unit) divAction"
    and destroy :: "('c, 'z, unit) divAction"
    and updatePod :: "divertPodSpec \<Rightarrow> divertPodSpec"
    and updateVirtualService :: "virtualService \<Rightarrow> virtualService"
    and scope :: "divertCall \<Rightarrow> bool"
  assumes deploy_scope: "issues scope deploy"
    and destroy_scope: "issues scope destroy"
    and pod_frame: "podFrame (updatePod p) = podFrame p"
    and pod_env: "map ownEnv (allContainers (updatePod p)) = map ownEnv (allContainers p)"
    and vs_frame: "(updateVirtualService vs)\<lparr>vs_Http := vs_Http vs\<rparr> = vs"
    and vs_routes: "map hr_Route (vs_Http (updateVirtualService vs)) = map hr_Route (vs_Http vs)"
begin

lemma session_scope: "issues scope (andThen deploy (\<lambda>_. destroy))"
  by (intro issues_andThen deploy_scope destroy_scope)

lemma pod_parts:
  "ps_Volumes (updatePod p) = ps_Volumes p"
  "map (\<lambda>c. c\<lparr>c_Env := []\<rparr>) (ps_Containers (updatePod p)) = map (\<lambda>c. c\<lparr>c_Env := []\<rparr>) (ps_Containers p)"
  "map (\<lambda>c. c\<lparr>c_Env := []\<rparr>) (ps_InitContainers (updatePod p)) = map (\<lambda>c. c\<lparr>c_Env := []\<rparr>) (ps_InitContainers p)"
proof -
  note f = pod_frame [of p]
  show "ps_Volumes (updatePod p) = ps_Volumes p"
    using arg_cong [OF f, of ps_Volumes] by (simp add: podFrame_def)
  show "map (\<lambda>c. c\<lparr>c_Env := []\<rparr>) (ps_Containers (updatePod p)) = map (\<lambda>c. c\<lparr>c_Env := []\<rparr>) (ps_Containers p)"
    using arg_cong [OF f, of ps_Containers] by (simp add: podFrame_def)
  show "map (\<lambda>c. c\<lparr>c_Env := []\<rparr>) (ps_InitContainers (updatePod p)) = map (\<lambda>c. c\<lparr>c_Env := []\<rparr>) (ps_InitContainers p)"
    using arg_cong [OF f, of ps_InitContainers] by (simp add: podFrame_def)
qed

text \<open>What a container has beside its variables is kept, so a pod whose mounts are declared stays one.\<close>

lemma container_parts:
  assumes "\<And>c. g (c\<lparr>c_Env := []\<rparr>) = g c"
  shows "map g (allContainers (updatePod p)) = map g (allContainers p)"
proof -
  have e: "map g cs = map g (map (\<lambda>c. c\<lparr>c_Env := []\<rparr>) cs)" for cs by (simp add: assms)
  show ?thesis
    unfolding allContainers_def map_append e [of "ps_InitContainers _"] e [of "ps_Containers _"] pod_parts ..
qed

lemma declared_mounts: "mountsDeclared (updatePod p) = mountsDeclared p"
proof -
  let ?ok = "\<lambda>m. list_ex (\<lambda>v. v_Name v = vm_Name m) (ps_Volumes p)"
  have l: "list_all (\<lambda>c. list_all ?ok (c_VolumeMounts c)) cs \<longleftrightarrow> list_all (list_all ?ok) (map c_VolumeMounts cs)" for cs
    by (induction cs) simp_all
  have "map c_VolumeMounts (allContainers (updatePod p)) = map c_VolumeMounts (allContainers p)"
    by (rule container_parts) simp
  then show ?thesis unfolding mountsDeclared_def pod_parts(1) l by simp
qed

end

lemma ownEnv_divertContainer [simp]: "ownEnv (divertContainer d c) = ownEnv c"
proof -
  let ?P = "\<lambda>e. ev_Name e \<noteq> OktetoSharedEnvironmentEnvVar \<and> ev_Name e \<noteq> OktetoDivertedEnvironmentEnvVar"
  have "filter ?P (updateEnvVar es n v) = filter ?P es"
    if "n = OktetoSharedEnvironmentEnvVar \<or> n = OktetoDivertedEnvironmentEnvVar" for es n v
    using that by (induction es n v rule: updateEnvVar.induct) auto
  then show ?thesis by (simp add: ownEnv_def divertContainer_def)
qed

lemma podFrame_divertContainers: "podFrame (divertContainers d p) = podFrame p"
  by (simp add: podFrame_def divertContainers_def divertContainer_def comp_def)

lemma ownEnv_divertContainers:
  "map ownEnv (allContainers (divertContainers d p)) = map ownEnv (allContainers p)"
  by (simp add: allContainers_def divertContainers_def comp_def)

lemma nginxUpdatePod_alt:
  "\<exists>dns. nginxUpdatePod d p = divertContainers d (p\<lparr>ps_DNSConfig := Some dns\<rparr>)"
  unfolding nginxUpdatePod_def Let_def by blast

lemma injectDivertHeader_frame:
  "(injectDivertHeader d vs)\<lparr>vs_Http := vs_Http vs\<rparr> = vs"
  "map hr_Route (vs_Http (injectDivertHeader d vs)) = map hr_Route (vs_Http vs)"
  by (simp_all add: injectDivertHeader_def injectRouteHeader_def Let_def comp_def)

text \<open>The scope of a driver is conditional on what it relies on in the API.\<close>

lemma issues_under: "(Q \<Longrightarrow> issues P act) \<Longrightarrow> issues (\<lambda>_. True) act \<Longrightarrow> issues (\<lambda>w. Q \<longrightarrow> P w) act"
  by (cases Q) simp_all

lemma issues_any_nginx: "issues (\<lambda>_. True) (nginxDeploy k d)"
proof -
  let ?T = "\<lambda>_::divertCall. True"
  have "issues ?T (CreateOrUpdate k v)" for v
    unfolding CreateOrUpdate_def managerCreate_def managerUpdate_def
    by (auto split: sum.split intro!: issues_intros)
  then have "issues ?T (divertResourcesLoop k d svcs)" for svcs
    by (induction svcs) (auto simp: Let_def intro!: issues_intros)
  then show ?thesis
    unfolding nginxDeploy_def deployDivertResources_def deleteOrphanDiverts_def
    by (intro issues_intros issues_weaken [OF issues_deleteDiverts]
        issues_weaken [OF issues_divertIngresses] TrueI)
qed

lemma issues_any_istio: "issues (\<lambda>_. True) (istioDeploy k registry d)" "issues (\<lambda>_. True) (istioDestroy k d)"
proof -
  let ?T = "\<lambda>_::divertCall. True"
  have r: "issues ?T (retryUpdate k f name ns n)" for f name ns n
    by (induction n) (auto simp: updateVS_def split: option.split intro!: issues_intros)
  have "issues ?T (divertVirtualServices k d vss)" for vss
    by (induction vss) (auto simp: retryTranslateDivertVirtualService_def intro!: issues_intros r)
  moreover have "issues ?T (divertHosts k registry d hs)" for hs
    by (induction hs) (auto simp: retryTranslateDivertHost_def intro!: issues_intros issues_weaken [OF issues_retryHost])
  ultimately show "issues ?T (istioDeploy k registry d)"
    unfolding istioDeploy_def by (auto intro!: issues_intros)
  have "issues ?T (restoreVirtualServices k d vss)" for vss
    by (induction vss) (auto intro!: issues_intros r)
  then show "issues ?T (istioDestroy k d)" unfolding istioDestroy_def .
qed

interpretation nx: divert_driver "nginxDeploy k d" "nginxDestroy d" "nginxUpdatePod d"
    "nginxUpdateVirtualService d" "\<lambda>w. getsOwn k \<longrightarrow> nginxScope d w"
  for k :: "'c divertClient" and d
proof unfold_locales
  show "issues (\<lambda>w. getsOwn k \<longrightarrow> nginxScope d w) (nginxDeploy k d)"
    by (rule issues_under [OF nginxDeploy_scope issues_any_nginx])
  show "issues (\<lambda>w. getsOwn k \<longrightarrow> nginxScope d w) (nginxDestroy d :: ('c, unit) nginxAction)"
    by (simp add: nginxDestroy_def issues_return)
  fix p
  obtain dns where n: "nginxUpdatePod d p = divertContainers d (p\<lparr>ps_DNSConfig := Some dns\<rparr>)"
    using nginxUpdatePod_alt by blast
  show "podFrame (nginxUpdatePod d p) = podFrame p"
    unfolding n podFrame_divertContainers by (simp add: podFrame_def)
  show "map ownEnv (allContainers (nginxUpdatePod d p)) = map ownEnv (allContainers p)"
    unfolding n ownEnv_divertContainers by (simp add: allContainers_def)
qed (simp_all add: nginxUpdateVirtualService_def)

interpretation ist: divert_driver "istioDeploy k registry d" "istioDestroy k d" "istioUpdatePod d"
    "istioUpdateVirtualService d" "\<lambda>w. getsNamed k \<longrightarrow> istioScope d w"
  for k :: "'c divertClient" and registry d
  by unfold_locales
    (auto simp: istioUpdatePod_def istioUpdateVirtualService_def podFrame_divertContainers
      ownEnv_divertContainers injectDivertHeader_frame
      intro!: issues_under istioDeploy_scope istioDestroy_scope issues_any_istio)

interpretation nop: divert_driver noopDeploy noopDestroy noopUpdatePod noopUpdateVirtualService "\<lambda>_. False"
  by unfold_locales
    (simp_all add: noopDeploy_def noopDestroy_def noopUpdatePod_def noopUpdateVirtualService_def issues_return)

section \<open>Pods under a driver\<close>

definition envValue :: "string \<Rightarrow> container \<Rightarrow> string option" where
  "envValue n c = map_option ev_Value (find (\<lambda>e. ev_Name e = n) (c_Env c))"

text \<open>What a container of a diverted pod is told.\<close>

definition toldNamespaces :: "driver \<Rightarrow> container \<Rightarrow> bool" where
  "toldNamespaces d c \<longleftrightarrow>
     envValue OktetoSharedEnvironmentEnvVar c = Some (dd_Namespace (dr_Divert d))
     \<and> envValue OktetoDivertedEnvironmentEnvVar c = Some (dr_Namespace d)"

lemma toldNamespaces_divertContainer: "toldNamespaces d (divertContainer d c)"
proof -
  have ne: "OktetoSharedEnvironmentEnvVar \<noteq> OktetoDivertedEnvironmentEnvVar" by (simp add: go_consts)
  obtain e1 where e1: "find (\<lambda>e. ev_Name e = OktetoSharedEnvironmentEnvVar)
      (updateEnvVar (c_Env c) OktetoSharedEnvironmentEnvVar (dd_Namespace (dr_Divert d))) = Some e1"
    "ev_Value e1 = dd_Namespace (dr_Divert d)"
    using updateEnvVar_first by blast
  obtain e2 where e2: "find (\<lambda>e. ev_Name e = OktetoDivertedEnvironmentEnvVar)
      (updateEnvVar (updateEnvVar (c_Env c) OktetoSharedEnvironmentEnvVar (dd_Namespace (dr_Divert d)))
        OktetoDivertedEnvironmentEnvVar (dr_Namespace d)) = Some e2" "ev_Value e2 = dr_Namespace d"
    using updateEnvVar_first by blast
  show ?thesis
    using e1 e2 ne by (simp add: toldNamespaces_def envValue_def divertContainer_def find_updateEnvVar_other)
qed

lemma told_divertContainers: "list_all (toldNamespaces d) (allContainers (divertContainers d p))"
  by (auto simp: allContainers_def divertContainers_def list_all_iff toldNamespaces_divertContainer)

fun driverOf :: "Driver \<Rightarrow> driver option" where
  "driverOf (NginxDriver d) = Some d"
| "driverOf (IstioDriver d) = Some d"
| "driverOf NoopDriver = None"

lemma New_driver:
  "New x divert name namespace = Inr v \<Longrightarrow>
     driverOf v = Some \<lparr>dr_Name = name, dr_Namespace = namespace, dr_Divert = divert\<rparr>"
  by (auto simp: New_def Let_def split: if_splits option.splits)

lemma UpdatePod_told: "driverOf v = Some d \<Longrightarrow> list_all (toldNamespaces d) (allContainers (UpdatePod v p))"
proof (cases v)
  case (NginxDriver d')
  assume "driverOf v = Some d"
  moreover obtain dns where "nginxUpdatePod d' p = divertContainers d' (p\<lparr>ps_DNSConfig := Some dns\<rparr>)"
    using nginxUpdatePod_alt by blast
  ultimately show ?thesis using NginxDriver told_divertContainers by simp
qed (auto simp: istioUpdatePod_def told_divertContainers)

text \<open>Whatever driver a manifest gets, the pods it updates keep everything but the variables of
  their containers and their name resolution, every variable that is not the driver's, and the
  property that all mounts are declared; and every container is told the shared and the developer's
  namespace.\<close>

theorem divert_updates_pods:
  assumes "New x divert name namespace = Inr v"
  shows "podFrame (UpdatePod v p) = podFrame p
    \<and> map ownEnv (allContainers (UpdatePod v p)) = map ownEnv (allContainers p)
    \<and> mountsDeclared (UpdatePod v p) = mountsDeclared p
    \<and> list_all (toldNamespaces \<lparr>dr_Name = name, dr_Namespace = namespace, dr_Divert = divert\<rparr>)
        (allContainers (UpdatePod v p))"
proof -
  have "podFrame (UpdatePod v p) = podFrame p
      \<and> map ownEnv (allContainers (UpdatePod v p)) = map ownEnv (allContainers p)
      \<and> mountsDeclared (UpdatePod v p) = mountsDeclared p"
    by (cases v) (simp_all add: nx.pod_frame nx.pod_env nx.declared_mounts ist.pod_frame ist.pod_env
        ist.declared_mounts nop.pod_frame nop.pod_env nop.declared_mounts)
  with UpdatePod_told [OF New_driver [OF assms]] show ?thesis by blast
qed

definition examplePod :: divertPodSpec where
  "examplePod = podSpec.extend (emptyPodSpec\<lparr>ps_Containers := [emptyContainer]\<rparr>) \<lparr>ps_DNSConfig = None\<rparr>"

theorem divert_updates_pods_witness:
  "New \<lparr>dx_IsOkteto = True, dx_DivertCRDSEnabled = False, dx_DivertClient = None, dx_IstioClient = None\<rparr>
       (dr_Divert exampleDriver) ''app'' ''dev'' = Inr (NginxDriver exampleDriver)
    \<and> podFrame (UpdatePod (NginxDriver exampleDriver) examplePod) = podFrame examplePod
    \<and> list_all (toldNamespaces exampleDriver) (allContainers (UpdatePod (NginxDriver exampleDriver) examplePod))"
proof -
  have n: "New \<lparr>dx_IsOkteto = True, dx_DivertCRDSEnabled = False, dx_DivertClient = None, dx_IstioClient = None\<rparr>
       (dr_Divert exampleDriver) ''app'' ''dev'' = Inr (NginxDriver exampleDriver)"
    by (simp add: New_def exampleDriver_def go_consts)
  from divert_updates_pods [OF n, of examplePod] n show ?thesis by (simp add: exampleDriver_def)
qed

section \<open>Clusters without divert resources\<close>

text \<open>The client that does nothing meets what the nginx driver relies on.\<close>

lemma NoopDivertClient_getsOwn: "getsOwn (NoopDivertClient k)"
  by (simp add: getsOwn_def NoopDivertClient_def)

end
