(* ===== verification/ComposeParse.thy ===== *)
theory ComposeParse
  imports ComposeTranslate "HOL-Library.Word"
begin

text \<open>
  From the decoded YAML of a compose file or an okteto stack to a \<open>Stack\<close>:
  \<^verbatim>\<open>src/pkg/model/stack_serializer.go\<close>. The YAML decoder is a parameter: a raw record holds what
  it put into the struct of that name, and where the code tries to decode a node into one type and
  then into another, the results of the attempts are arguments. A field of type \<open>WarningType\<close> only
  matters for being there; the sixty of a service are one function of their YAML names. The parser
  of URLs, of quantities and of shell words are parameters too.

  Ports are 32-bit integers in the source; the loop that expands a range computes with them and
  does so on words here.
\<close>

section \<open>Decoded data\<close>

record portRaw =
  prw_Protocol :: string
  prw_ContainerPort :: int
  prw_HostPort :: int
  prw_ContainerFrom :: int
  prw_ContainerTo :: int
  prw_HostFrom :: int
  prw_HostTo :: int

definition emptyPortRaw :: portRaw where
  "emptyPortRaw =
     \<lparr>prw_Protocol = [], prw_ContainerPort = 0, prw_HostPort = 0, prw_ContainerFrom = 0,
      prw_ContainerTo = 0, prw_HostFrom = 0, prw_HostTo = 0\<rparr>"

record restartPolicyRaw =
  rp_Delay :: bool
  rp_Window :: bool
  rp_Condition :: string
  rp_MaxAttempts :: int

record deployComposeResources =
  dcr_Devices :: bool
  dcr_Cpus :: quantity
  dcr_Memory :: quantity

record deployInfoRaw =
  di_Replicas :: "int option"
  di_Labels :: smap
  di_RestartPolicy :: "restartPolicyRaw option"
  di_EndpointMode :: string
  di_Mode :: bool
  di_Placement :: bool
  di_Constraints :: bool
  di_Preferences :: bool
  di_RollbackConfig :: bool
  di_UpdateConfig :: bool
  di_Extensions :: "string list"
  di_Limits :: deployComposeResources
  di_Reservations :: deployComposeResources

record secretTopLevel =
  sec_File :: string
  sec_Environment :: string
  sec_Warnings :: "string \<Rightarrow> bool"
  sec_Extensions :: "string list"

record composeBuildInfo =
  cb_Context :: string
  cb_Dockerfile :: string
  cb_CacheFrom :: "string list"
  cb_Target :: string
  cb_Args :: "var list"
  cb_Image :: string
  cb_VolumesToInclude :: "volumeMounts list"
  cb_ExportCache :: "string list"
  cb_Secrets :: "string list"

text \<open>A node kept for later: the results of decoding it into a string and into a duration.\<close>

record rawMessage =
  rm_String :: "string + string"
  rm_Duration :: "string + int"

record serviceRaw =
  raw_Warnings :: "string \<Rightarrow> bool"
  raw_Extensions :: "string list"
  raw_Healthcheck :: "healthCheck option"
  raw_IdentityToken :: "serviceIdentityToken option"
  raw_Labels :: smap
  raw_Annotations :: smap
  raw_NodeSelector :: smap
  raw_EnableServiceLinks :: "bool option"
  raw_Scale :: "int option"
  raw_StopGracePeriodSneakCase :: "rawMessage option"
  raw_StopGracePeriod :: "rawMessage option"
  raw_User :: "stackSecurityContext option"
  raw_DependsOn :: dependsOn
  raw_Replicas :: "int option"
  raw_Resources :: "stackResources option"
  raw_Build :: "composeBuildInfo option"
  raw_Deploy :: "deployInfoRaw option"
  raw_MemReservation :: quantity
  raw_CpuCount :: quantity
  raw_Cpus :: quantity
  raw_MemLimit :: quantity
  raw_Restart :: string
  raw_Image :: string
  raw_Workdir :: string
  raw_WorkingDirSneakCase :: string
  raw_Command :: "string list"
  raw_Volumes :: "volumeMounts list"
  raw_CapAddSneakCase :: "string list"
  raw_EnvFiles :: "string list"
  raw_EnvFilesSneakCase :: "string list"
  raw_Args :: "string list"
  raw_Entrypoint :: "string list"
  raw_Environment :: environment
  raw_Expose :: "portRaw list"
  raw_Ports :: "portRaw list"
  raw_CapDrop :: "string list"
  raw_CapDropSneakCase :: "string list"
  raw_CapAdd :: "string list"
  raw_Public :: bool

record volumeTopLevel =
  vt_Labels :: smap
  vt_Annotations :: smap
  vt_DriverOpts :: smap
  vt_Driver :: bool
  vt_External :: bool
  vt_Size :: quantity
  vt_Name :: string
  vt_Class :: string

record stackRaw =
  rk_Name :: string
  rk_Services :: "(string, serviceRaw option) gomap"
  rk_Endpoints :: endpointSpec
  rk_Volumes :: "(string, volumeTopLevel option) gomap"
  rk_Extensions :: "string list"
  rk_Networks :: bool
  rk_Configs :: bool
  rk_Secrets :: "(string, secretTopLevel option) gomap"

text \<open>
  The process and the third-party parsers. \<open>pw_ParseRequestURI\<close> gives the host and the path of a
  URL, \<open>pw_ShellSplit\<close> the words of a command line.
\<close>

record parseWorld =
  pw_World :: world
  pw_ParseRequestURI :: "string \<Rightarrow> (string \<times> string) option"
  pw_ParseQuantity :: "string \<Rightarrow> string + quantity"
  pw_ShellSplit :: "string \<Rightarrow> string + string list"

text \<open>\<open>if err != nil { return err }\<close>.\<close>

definition bindE :: "'e + 'a \<Rightarrow> ('a \<Rightarrow> 'e + 'b) \<Rightarrow> 'e + 'b" where
  "bindE x f = (case x of Inl e \<Rightarrow> Inl e | Inr a \<Rightarrow> f a)"

lemma bindE_Inr_iff: "bindE x f = Inr b \<longleftrightarrow> (\<exists>a. x = Inr a \<and> f a = Inr b)"
  by (cases x) (simp_all add: bindE_def)

lemma bindE_simps [simp]: "bindE (Inl e) f = Inl e" "bindE (Inr a) f = f a"
  by (simp_all add: bindE_def)

section \<open>Names\<close>

definition isUpper :: "char \<Rightarrow> bool" where
  "isUpper c \<longleftrightarrow> lowerChar c \<noteq> c"

definition hasUppercase :: "string \<Rightarrow> bool" where
  "hasUppercase name \<longleftrightarrow> list_ex isUpper name"

definition hasEmptySpace :: "string \<Rightarrow> bool" where
  "hasEmptySpace name \<longleftrightarrow> contains name '' ''"

definition hasUnderscore :: "string \<Rightarrow> bool" where
  "hasUnderscore name \<longleftrightarrow> contains name ''_''"

definition shouldBeSanitized :: "string \<Rightarrow> bool" where
  "shouldBeSanitized name \<longleftrightarrow> hasEmptySpace name \<or> hasUnderscore name \<or> hasUppercase name"

definition sanitizeName :: "string \<Rightarrow> string" where
  "sanitizeName name = toLower (replaceAll (replaceAll (trimSpace name) '' '' ''-'') ''_'' ''-'')"

section \<open>Ports\<close>

definition ProtocolTCP :: string where [go_consts]: "ProtocolTCP = ''TCP''"
definition ProtocolUDP :: string where [go_consts]: "ProtocolUDP = ''UDP''"
definition ProtocolSCTP :: string where [go_consts]: "ProtocolSCTP = ''SCTP''"

definition getProtocol :: "string \<Rightarrow> string + string" where
  "getProtocol protocolName =
     (let protocolName = toLower protocolName
      in if protocolName = ''tcp'' then Inr ProtocolTCP
         else if protocolName = ''udp'' then Inr ProtocolUDP
         else if protocolName = ''sctp'' then Inr ProtocolSCTP
         else Inl (protocolName @ '' is not supported as a protocol''))"

definition sq :: "string \<Rightarrow> string" where
  "sq s = [CHR 0x27] @ s @ [CHR 0x27]"

definition dq :: "string \<Rightarrow> string" where
  "dq s = [CHR 0x22] @ s @ [CHR 0x22]"

definition notAPort :: "string \<Rightarrow> string \<Rightarrow> composeErr" where
  "notAPort original why = UnmarshalError (''cannot convert '' @ sq original @ '' to a port'' @ why)"

definition getPortFromString :: "string \<Rightarrow> string \<Rightarrow> composeErr + int" where
  "getPortFromString portString original =
     (case parseInt 32 portString of
        None \<Rightarrow> Inl (notAPort original ('': '' @ portString @ '' is not a number''))
      | Some p \<Rightarrow> Inr p)"

definition getPortAndProtocol :: "string \<Rightarrow> string \<Rightarrow> composeErr + string \<times> string" where
  "getPortAndProtocol portString original =
     (if \<not> contains portString ''/'' then Inr (portString, ProtocolTCP)
      else case split (CHR ''/'') portString of
        [port, protocolName] \<Rightarrow>
          (case getProtocol protocolName of
             Inl e \<Rightarrow> Inl (notAPort original ('': '' @ e))
           | Inr protocol \<Rightarrow> Inr (port, protocol))
      | _ \<Rightarrow> Inl (notAPort original []))"

text \<open>\<open>(0, 0, "", nil)\<close> when there is no dash.\<close>

definition getRangePorts :: "string \<Rightarrow> composeErr + int \<times> int \<times> string" where
  "getRangePorts portString =
     (if \<not> contains portString ''-'' then Inr (0, 0, [])
      else case split (CHR ''-'') portString of
        [fromString, toString] \<Rightarrow>
          bindE (getPortAndProtocol toString portString) (\<lambda>(toString, protocol).
          bindE (getPortFromString fromString portString) (\<lambda>fromPort.
          bindE (getPortFromString toString portString) (\<lambda>toPort.
          Inr (fromPort, toPort, protocol))))
      | _ \<Rightarrow> Inl (notAPort portString ''.''))"

definition getPortWithoutMapping :: "string \<Rightarrow> composeErr + portRaw" where
  "getPortWithoutMapping portString =
     bindE (getRangePorts portString) (\<lambda>(cfrom, cto, protocol).
       let p = emptyPortRaw\<lparr>prw_ContainerFrom := cfrom, prw_ContainerTo := cto, prw_Protocol := protocol\<rparr>
       in if cfrom \<noteq> 0 then Inr p
          else bindE (getPortAndProtocol portString portString) (\<lambda>(digits, protocol).
               bindE (getPortFromString digits portString) (\<lambda>port.
               Inr (p\<lparr>prw_ContainerPort := port, prw_Protocol := protocol\<rparr>))))"

text \<open>Subtraction of 32-bit integers.\<close>

definition sub32 :: "int \<Rightarrow> int \<Rightarrow> int" where
  "sub32 a b = sint (word_of_int a - word_of_int b :: 32 word)"

definition getPortWithMapping :: "string \<Rightarrow> composeErr + portRaw" where
  "getPortWithMapping portString =
     (let parts = split (CHR '':'') portString
      in if 3 < length parts then Inl (UnmarshalError (''wrong port-forward syntax '' @ sq portString @ '', must be of the form '' @ sq ''localPort:remotePort''
             @ '' or '' @ sq ''localPort:serviceName:remotePort''))
         else
           let containerPortString = last parts; hostPortString = join '':'' (butlast parts)
           in bindE (getRangePorts containerPortString) (\<lambda>(cfrom, cto, protocol).
              bindE (getRangePorts hostPortString) (\<lambda>(hfrom, hto, _).
              if sub32 cfrom cto \<noteq> sub32 hfrom hto
              then Inl (notAPort portString '': Ranges must be of the same length'')
              else
                let p = emptyPortRaw\<lparr>prw_ContainerFrom := cfrom, prw_ContainerTo := cto, prw_Protocol := protocol,
                                     prw_HostFrom := hfrom, prw_HostTo := hto\<rparr>
                in if cfrom \<noteq> 0 then Inr p
                   else if contains hostPortString '':''
                   then Inl (notAPort portString '': Host IP is not allowed'')
                   else bindE (getPortFromString hostPortString portString) (\<lambda>hostPort.
                        bindE (getPortAndProtocol containerPortString portString) (\<lambda>(digits, protocol).
                        bindE (getPortFromString digits portString) (\<lambda>port.
                        Inr (p\<lparr>prw_HostPort := hostPort, prw_ContainerPort := port, prw_Protocol := protocol\<rparr>)))))))"

definition unmarshalPortRaw :: "string + string \<Rightarrow> composeErr + portRaw" where
  "unmarshalPortRaw node =
     (case node of
        Inl e \<Rightarrow> Inl (UnmarshalError ''Port field is only supported in short syntax'')
      | Inr s \<Rightarrow> if \<not> contains s '':'' then getPortWithoutMapping s else getPortWithMapping s)"

text \<open>
  The loop of \<open>expandRangePorts\<close>: \<open>cur\<close> is the start plus the counter, \<open>stop\<close> the finish plus one,
  both as 32-bit integers, and the counter goes down when the start is above the finish.
\<close>

lemma unat_pred_less: "w \<noteq> 0 \<Longrightarrow> unat (w - 1) < unat (w :: 32 word)"
  by (metis diff_less unat_gt_0 unat_minus_one zero_less_one)

function portsUp :: "32 word \<Rightarrow> 32 word \<Rightarrow> 32 word list" where
  "portsUp cur stop = (if cur = stop then [] else cur # portsUp (cur + 1) stop)"
  by pat_completeness auto
termination
proof (relation "measure (\<lambda>(cur, stop). unat (stop - cur))")
  fix cur stop :: "32 word"
  assume "cur \<noteq> stop"
  then have "stop - cur \<noteq> 0" by simp
  from unat_pred_less [OF this] show "((cur + 1, stop), cur, stop) \<in> measure (\<lambda>(cur, stop). unat (stop - cur))"
    by (simp add: diff_diff_eq)
qed simp

function portsDown :: "32 word \<Rightarrow> 32 word \<Rightarrow> 32 word list" where
  "portsDown cur stop = (if cur = stop then [] else cur # portsDown (cur - 1) stop)"
  by pat_completeness auto
termination
proof (relation "measure (\<lambda>(cur, stop). unat (cur - stop))")
  fix cur stop :: "32 word"
  assume "cur \<noteq> stop"
  then have "cur - stop \<noteq> 0" by simp
  from unat_pred_less [OF this] show "((cur - 1, stop), cur, stop) \<in> measure (\<lambda>(cur, stop). unat (cur - stop))"
    by (simp add: algebra_simps)
qed simp

declare portsUp.simps [simp del] portsDown.simps [simp del]

definition expandRange :: "portRaw \<Rightarrow> portRaw list" where
  "expandRange p =
     (let start = word_of_int (prw_ContainerFrom p) :: 32 word;
          stop = word_of_int (prw_ContainerTo p) + 1
      in map (\<lambda>c. emptyPortRaw\<lparr>prw_ContainerPort := sint c\<rparr>)
           (if prw_ContainerTo p < prw_ContainerFrom p then portsDown start stop else portsUp start stop))"

definition expandRangePorts :: "portRaw list \<Rightarrow> portRaw list" where
  "expandRangePorts ports =
     concat (map (\<lambda>p. if prw_ContainerPort p \<noteq> 0 then [p] else expandRange p) ports)"

fun exceptionsOf :: "port list \<Rightarrow> portRaw \<Rightarrow> composeErr option" where
  "exceptionsOf [] newPort = None"
| "exceptionsOf (p # ps) newPort =
     (if prw_ContainerPort newPort = p_HostPort p
      then Some (UnmarshalError (''container port '' @ sq (showInt (prw_ContainerPort newPort))
             @ '' is already declared as host port in port ''
             @ sq (showInt (p_HostPort p) @ '':'' @ showInt (p_ContainerPort p))))
      else if prw_HostPort newPort = p_ContainerPort p
      then Some (UnmarshalError (''host port '' @ sq (showInt (prw_HostPort newPort))
             @ '' is already declared as container port in port ''
             @ sq ((if p_HostPort p = 0 then [] else showInt (p_HostPort p) @ '':'') @ showInt (p_ContainerPort p))))
      else exceptionsOf ps newPort)"

definition validatePort :: "portRaw \<Rightarrow> port list \<Rightarrow> composeErr option" where
  "validatePort newPort ports = exceptionsOf ports newPort"

definition portOf :: "portRaw \<Rightarrow> port" where
  "portOf p = \<lparr>p_Protocol = prw_Protocol p, p_HostPort = prw_HostPort p, p_ContainerPort = prw_ContainerPort p\<rparr>"

definition getAccessiblePorts :: "portRaw list \<Rightarrow> portRaw list" where
  "getAccessiblePorts ports =
     filter (\<lambda>p. prw_HostPort p \<noteq> 0 \<and> \<not> IsSkippablePort (prw_ContainerPort p)) ports"

definition translateOktetoStacksPortsIntoComposeSyntax :: "portRaw list \<Rightarrow> portRaw list" where
  "translateOktetoStacksPortsIntoComposeSyntax ports =
     map (\<lambda>p. if prw_HostPort p = 0 then p\<lparr>prw_HostPort := prw_ContainerPort p\<rparr> else p) ports"

fun addSvcPorts :: "portRaw list \<Rightarrow> port list \<Rightarrow> composeErr + port list" where
  "addSvcPorts [] ports = Inr ports"
| "addSvcPorts (p # ps) ports =
     (case validatePort p ports of
        None \<Rightarrow> addSvcPorts ps (ports @ [portOf p])
      | Some e \<Rightarrow> Inl e)"

fun addSvcExpose :: "portRaw list \<Rightarrow> port list \<Rightarrow> port list" where
  "addSvcExpose [] ports = ports"
| "addSvcExpose (p # ps) ports =
     addSvcExpose ps
       (if (if prw_ContainerPort p = 0 then IsAlreadyAdded (portOf p) ports else IsAlreadyAddedExpose (portOf p) ports)
        then ports else ports @ [portOf p])"

definition getSvcPorts :: "bool \<Rightarrow> portRaw list \<Rightarrow> portRaw list \<Rightarrow> composeErr + bool \<times> port list" where
  "getSvcPorts public rawPorts rawExpose =
     (let rawPorts = expandRangePorts rawPorts;
          rawPorts = (if public then translateOktetoStacksPortsIntoComposeSyntax rawPorts else rawPorts);
          public = (public \<or> length (getAccessiblePorts rawPorts) = 1);
          public = (if rawExpose \<noteq> [] \<and> rawPorts = [] then False else public)
      in bindE (addSvcPorts rawPorts []) (\<lambda>ports. Inr (public, addSvcExpose (expandRangePorts rawExpose) ports)))"

section \<open>Health checks\<close>

record healthCheckunmarshaller =
  hu_HTTP :: "httpHealthcheck option"
  hu_Readiness :: "bool option"
  hu_Test :: "string list"
  hu_Interval :: int
  hu_Timeout :: int
  hu_StartPeriod :: int
  hu_Retries :: int
  hu_Disable :: bool
  hu_Liveness :: bool

definition unmarshalHealthCheck :: "string + healthCheckunmarshaller \<Rightarrow> composeErr + healthCheck" where
  "unmarshalHealthCheck node =
     (case node of
        Inl e \<Rightarrow> Inl (UnmarshalError (''error reading healthchecks: '' @ e))
      | Inr r \<Rightarrow>
          let readiness = (case hu_Readiness r of None \<Rightarrow> True | Some b \<Rightarrow> b)
          in if \<not> hu_Liveness r \<and> \<not> readiness
             then Inl (UnmarshalError (''error reading healthchecks: '' @ sq ''x-okteto-liveness'' @ '' or ''
                         @ sq ''x-okteto-readiness'' @ '' must be true''))
             else Inr \<lparr>hc_HTTP = hu_HTTP r, hc_Test = hu_Test r, hc_Interval = hu_Interval r,
                       hc_Timeout = hu_Timeout r, hc_Retries = hu_Retries r, hc_StartPeriod = hu_StartPeriod r,
                       hc_Disable = hu_Disable r, hc_Liveness = hu_Liveness r, hc_Readiness = readiness\<rparr>)"

definition unmarshalHTTPHealtcheck :: "string + httpHealthcheck \<Rightarrow> composeErr + httpHealthcheck" where
  "unmarshalHTTPHealtcheck node =
     (case node of
        Inl e \<Rightarrow> Inl (UnmarshalError e)
      | Inr h \<Rightarrow> if \<not> hasPrefix (hh_Path h) ''/''
                 then Inl (UnmarshalError (''HTTP path must start with '' @ sq ''/'')) else Inr h)"

text \<open>A test is tried as a list first, then as a string.\<close>

definition unmarshalHealtcheckTest ::
    "parseWorld \<Rightarrow> string + string list \<Rightarrow> string + string \<Rightarrow> composeErr + string list" where
  "unmarshalHealtcheckTest pw asList asString =
     (let shell = (\<lambda>s. case pw_ShellSplit pw s of Inl e \<Rightarrow> Inl (UnmarshalError e) | Inr ws \<Rightarrow> Inr ws)
      in case asList of
           Inr [] \<Rightarrow> Inl (UnmarshalError ''healtcheck.test can not be an empty list'')
         | Inr (x # xs) \<Rightarrow>
             if x = ''NONE'' then Inr [x]
             else if x = ''CMD'' then Inr xs
             else if x = ''CMD-SHELL'' then
               (case xs of [c] \<Rightarrow> shell c
                | _ \<Rightarrow> Inl (UnmarshalError (sq ''CMD-SHELL'' @ '' healtcheck.test must have exactly 2 elements'')))
             else Inl (UnmarshalError (''when '' @ sq ''healtcheck.test'' @ '' is a list the first item must be either ''
                         @ sq ''NONE'' @ '', '' @ sq ''CMD'' @ '' or '' @ sq ''CMD-SHELL''))
         | Inl _ \<Rightarrow> (case asString of Inl e \<Rightarrow> Inl (UnmarshalError e) | Inr s \<Rightarrow> shell s))"

text \<open>The check may switch the health check off, so it returns it.\<close>

definition validateHealthcheck :: "healthCheck option \<Rightarrow> composeErr + healthCheck option" where
  "validateHealthcheck h =
     (case h of
        None \<Rightarrow> Inr None
      | Some h \<Rightarrow>
          let h = (if hc_Test h \<noteq> [] \<and> hd (hc_Test h) = ''NONE'' then h\<lparr>hc_Test := [], hc_Disable := True\<rparr> else h)
          in if hc_HTTP h = None \<and> hc_Test h = [] \<and> \<not> hc_Disable h
             then Inl (UnmarshalError ''Healthcheck.test must be set'')
             else if hc_HTTP h \<noteq> None \<and> hc_Test h \<noteq> [] \<and> \<not> hc_Disable h
             then Inl (UnmarshalError ''healthcheck.test can not be set along with healthcheck.http'')
             else Inr (Some h))"

text \<open>The loop over the words after \<open>curl\<close>: the first that is a URL, if need be with a scheme.\<close>

fun curlURL :: "parseWorld \<Rightarrow> string list \<Rightarrow> (string \<times> string) option" where
  "curlURL pw [] = None"
| "curlURL pw (x # xs) =
     (if x = ''-f'' \<or> x = ''--fail'' then curlURL pw xs
      else case pw_ParseRequestURI pw x of
        Some (host, path) \<Rightarrow>
          if host \<noteq> [] then Some (host, path)
          else (case pw_ParseRequestURI pw (''https://'' @ x) of Some u \<Rightarrow> Some u | None \<Rightarrow> curlURL pw xs)
      | None \<Rightarrow>
          (case pw_ParseRequestURI pw (''https://'' @ x) of Some u \<Rightarrow> Some u | None \<Rightarrow> curlURL pw xs))"

text \<open>\<open>URL.Port\<close>: the digits after the last colon of the host.\<close>

definition urlPort :: "string \<Rightarrow> string" where
  "urlPort host =
     (case lastIndex host (CHR '':'') of
        None \<Rightarrow> []
      | Some i \<Rightarrow> let port = drop (Suc i) host in if list_all isDigit port then port else [])"

definition translateHealtcheckCurlToHTTP :: "parseWorld \<Rightarrow> healthCheck \<Rightarrow> healthCheck" where
  "translateHealtcheckCurlToHTTP pw h =
     (let ws = split (CHR '' '') (join '' '' (hc_Test h))
      in if length ws < 2 \<or> hd ws \<noteq> ''curl'' then h
         else case curlURL pw (tl ws) of
           None \<Rightarrow> h
         | Some (host, path) \<Rightarrow>
             if urlPort host = [] then h
             else (case parseInt 32 (urlPort host) of
                     None \<Rightarrow> h
                   | Some port \<Rightarrow>
                       h\<lparr>hc_HTTP := Some \<lparr>hh_Path = (if path = [] then ''/'' else path), hh_Port = port\<rparr>,
                         hc_Test := []\<rparr>))"

section \<open>Values with several syntaxes\<close>

definition unmarshalSecurityContext ::
    "string + string \<Rightarrow> string + stackSecurityContext \<Rightarrow> composeErr + stackSecurityContext" where
  "unmarshalSecurityContext asString asRecord =
     (case asString of
        Inl _ \<Rightarrow> (case asRecord of Inl e \<Rightarrow> Inl (UnmarshalError e) | Inr sc \<Rightarrow> Inr sc)
      | Inr s \<Rightarrow>
          if contains s '':'' then
            (case split (CHR '':'') s of
               [u, g] \<Rightarrow>
                 (case parseInt 64 u of
                    None \<Rightarrow> Inl (UnmarshalError (''cannot obtain UID from '' @ sq u))
                  | Some u \<Rightarrow>
                      (case parseInt 64 g of
                         None \<Rightarrow> Inl (UnmarshalError (''cannot obtain GID from '' @ sq g))
                       | Some g \<Rightarrow> Inr \<lparr>ss_RunAsUser = Some u, ss_RunAsGroup = Some g\<rparr>))
             | _ \<Rightarrow> Inl (UnmarshalError (''securityContext '' @ sq s @ '' is malformed. Only ''
                          @ sq ''dddd:dddd'' @ '' is supported'')))
          else (case parseInt 64 s of
                  None \<Rightarrow> Inl (UnmarshalError (''cannot obtain UID from '' @ sq s))
                | Some u \<Rightarrow> Inr \<lparr>ss_RunAsUser = Some u, ss_RunAsGroup = None\<rparr>))"

fun checkConditions :: "dependsOn \<Rightarrow> dependsOn \<Rightarrow> composeErr + dependsOn" where
  "checkConditions [] result = Inr result"
| "checkConditions ((k, c) # rest) result =
     (if c \<noteq> DependsOnServiceRunning \<and> c \<noteq> DependsOnServiceHealthy \<and> c \<noteq> DependsOnServiceCompleted
      then Inl (UnmarshalError (sq c @ '' is unsupported. Condition must be one of '' @ sq DependsOnServiceRunning
                  @ '', '' @ sq DependsOnServiceHealthy @ '' or '' @ sq DependsOnServiceCompleted))
      else checkConditions rest (gput k c result))"

definition unmarshalDependsOn :: "string + dependsOn \<Rightarrow> string + string list \<Rightarrow> composeErr + dependsOn" where
  "unmarshalDependsOn asMap asList =
     (case asMap of
        Inr d \<Rightarrow> checkConditions d []
      | Inl _ \<Rightarrow>
          (case asList of
             Inr l \<Rightarrow> Inr (fold (\<lambda>svc. gput svc DependsOnServiceRunning) l [])
           | Inl e \<Rightarrow> Inl (UnmarshalError e)))"

definition unmarshalCommandStack :: "parseWorld \<Rightarrow> string + string list \<Rightarrow> string + string \<Rightarrow> composeErr + string list" where
  "unmarshalCommandStack pw multi single =
     (case multi of
        Inr l \<Rightarrow> Inr l
      | Inl _ \<Rightarrow>
          (case single of
             Inl e \<Rightarrow> Inl (UnmarshalError e)
           | Inr s \<Rightarrow>
               if contains s '' && '' then Inr [''sh'', ''-c'', s]
               else (case pw_ShellSplit pw s of Inl e \<Rightarrow> Inl (UnmarshalError e) | Inr ws \<Rightarrow> Inr ws)))"

definition unmarshalArgsStack :: "parseWorld \<Rightarrow> string + string list \<Rightarrow> string + string \<Rightarrow> composeErr + string list" where
  "unmarshalArgsStack pw multi single =
     (case multi of
        Inr l \<Rightarrow> Inr l
      | Inl _ \<Rightarrow>
          (case single of
             Inl e \<Rightarrow> Inl (UnmarshalError e)
           | Inr s \<Rightarrow> (case pw_ShellSplit pw s of Inl e \<Rightarrow> Inl (UnmarshalError e) | Inr ws \<Rightarrow> Inr ws)))"

definition unmarshalIdentityTokenExpiration :: "string + int \<Rightarrow> string + string \<Rightarrow> composeErr + int" where
  "unmarshalIdentityTokenExpiration asInt asString =
     (case asInt of
        Inr i \<Rightarrow> Inr i
      | Inl _ \<Rightarrow>
          (case asString of
             Inl e \<Rightarrow> Inl (UnmarshalError e)
           | Inr s \<Rightarrow>
               (case parseInt 64 (trimSpace s) of
                  Some i \<Rightarrow> Inr i
                | None \<Rightarrow> Inl (UnmarshalError (''invalid '' @ sq ''expiration_seconds'' @ '' value '' @ sq s
                                 @ '': must be an integer'')))))"

definition unmarshalEndpointSpec :: "string + endpoint \<Rightarrow> string + endpointSpec \<Rightarrow> composeErr + endpointSpec" where
  "unmarshalEndpointSpec direct expanded =
     (case direct of
        Inr e \<Rightarrow> Inr [([], e)]
      | Inl _ \<Rightarrow> (case expanded of Inr es \<Rightarrow> Inr es | Inl e \<Rightarrow> Inl (UnmarshalError e)))"

definition noResources :: serviceResources where
  "noResources = \<lparr>sr_CPU = 0, sr_Memory = 0, sr_Storage = \<lparr>st_Size = 0, st_Class = []\<rparr>\<rparr>"

definition unmarshalStackResources ::
    "string + stackResources \<Rightarrow> string + serviceResources \<Rightarrow> composeErr + stackResources" where
  "unmarshalStackResources asStack asService =
     (case asStack of
        Inr r \<Rightarrow> Inr r
      | Inl _ \<Rightarrow>
          (case asService of
             Inl e \<Rightarrow> Inl (UnmarshalError e)
           | Inr r \<Rightarrow> Inr \<lparr>sr_Limits = noResources\<lparr>sr_CPU := sr_CPU r, sr_Memory := sr_Memory r\<rparr>,
                           sr_Requests = noResources\<lparr>sr_Storage := sr_Storage r\<rparr>\<rparr>))"

text \<open>A duration in seconds, from a number of seconds or from a duration in nanoseconds.\<close>

definition unmarshalDuration :: "rawMessage option \<Rightarrow> composeErr + int" where
  "unmarshalDuration raw =
     (case raw of
        None \<Rightarrow> Inr 0
      | Some raw \<Rightarrow>
          (case rm_String raw of
             Inl e \<Rightarrow> Inl (UnmarshalError e)
           | Inr s \<Rightarrow>
               (case parseInt 64 s of
                  Some seconds \<Rightarrow> Inr seconds
                | None \<Rightarrow>
                    (case rm_Duration raw of
                       Inl e \<Rightarrow> Inl (UnmarshalError e)
                     | Inr ns \<Rightarrow> Inr (if ns < 0 then - (- ns div 1000000000) else ns div 1000000000)))))"

definition unmarshalComposeBuildInfo :: "composeBuildInfo \<Rightarrow> string + string \<Rightarrow> string + composeBuildInfo \<Rightarrow> composeErr + composeBuildInfo" where
  "unmarshalComposeBuildInfo c asString asRecord =
     (case asString of
        Inr s \<Rightarrow> Inr (c\<lparr>cb_Context := s\<rparr>)
      | Inl _ \<Rightarrow> (case asRecord of Inl e \<Rightarrow> Inl (UnmarshalError e) | Inr r \<Rightarrow> Inr r))"

section \<open>Fields that are not supported\<close>

definition svcField :: "string \<Rightarrow> string \<Rightarrow> string" where
  "svcField svcName f = ''services['' @ svcName @ ''].'' @ f"

definition serviceWarningFields :: "string list" where
  "serviceWarningFields =
    [''blkio_config'', ''cpu_percent'', ''cpu_shares'', ''cpu_period'', ''cpu_quota'', ''cpu_rt_runtime'',
     ''cpu_rt_period'', ''cpuset'', ''cgroup_parent'', ''configs'', ''credential_spec'', ''device_cgroup_rules'',
     ''devices'', ''dns'', ''dns_opt'', ''dns_search'', ''domainname'', ''extends'',
     ''external_links'', ''extra_hosts'', ''group_add'', ''hostname'', ''init'', ''ipc'',
     ''isolation'', ''links'', ''logging'', ''network_mode'', ''networks'', ''mac_address'',
     ''mem_swappiness'', ''memswap_limit'', ''oom_kill_disable'', ''oom_score_adj'', ''pid'', ''pid_limit'',
     ''platform'', ''privileged'', ''profiles'', ''pull_policy'', ''read_only'', ''runtime'',
     ''secrets'', ''security_opt'', ''shm_size'', ''stdin_open'', ''stop_signal'', ''storage_opts'',
     ''sysctls'', ''tmpfs'', ''tty'', ''ulimits'', ''userns_mode'', ''volumes_from'']"

definition deployWarnings :: "deployInfoRaw \<Rightarrow> (bool \<times> string) list" where
  "deployWarnings d =
     [(dcr_Devices (di_Limits d), ''resources.limits.devices''),
      (dcr_Devices (di_Reservations d), ''resources.reservations.devices'')]
     @ (case di_RestartPolicy d of None \<Rightarrow> [] | Some r \<Rightarrow> [(rp_Delay r, ''delay''), (rp_Window r, ''window'')])
     @ [(di_Mode d, ''mode''), (di_Placement d, ''placement''), (di_Constraints d, ''constraints''),
        (di_Preferences d, ''preferences''), (di_RollbackConfig d, ''rollback_config''),
        (di_UpdateConfig d, ''update_config'')]"

definition getDeployNotSupportedFields :: "string \<Rightarrow> deployInfoRaw \<Rightarrow> string list" where
  "getDeployNotSupportedFields svcName d =
     map (\<lambda>(_, f). svcField svcName (''deploy.'' @ f)) (filter fst (deployWarnings d))"

definition getServiceNotSupportedFields :: "string \<Rightarrow> serviceRaw \<Rightarrow> string list" where
  "getServiceNotSupportedFields svcName svc =
     (case raw_Deploy svc of None \<Rightarrow> [] | Some d \<Rightarrow> getDeployNotSupportedFields svcName d)
     @ map (svcField svcName) (filter (raw_Warnings svc) serviceWarningFields)"

definition getVolumesNotSupportedFields :: "string \<Rightarrow> volumeTopLevel \<Rightarrow> string list" where
  "getVolumesNotSupportedFields volumeName v =
     map (\<lambda>f. ''volumes['' @ volumeName @ ''].'' @ f)
       ((if vt_Driver v then [''driver''] else [])
        @ map (\<lambda>k. ''driver_opts.'' @ k) (filter (\<lambda>k. k \<noteq> ''size'' \<and> k \<noteq> ''class'') (gkeys (vt_DriverOpts v)))
        @ (if vt_External v then [''external''] else []))"

definition secretWarningFields :: "string list" where
  "secretWarningFields = [''name'', ''external'', ''labels'', ''driver'', ''driver_opts'', ''template_driver'']"

definition getTopLevelNotSupportedFields :: "stackRaw \<Rightarrow> string list" where
  "getTopLevelNotSupportedFields s =
     (if rk_Networks s then [''networks''] else []) @ (if rk_Configs s then [''configs''] else [])
     @ concat (map (\<lambda>(name, def). case def of None \<Rightarrow> []
           | Some d \<Rightarrow> map (\<lambda>f. ''secrets['' @ name @ ''].'' @ f) (filter (sec_Warnings d) secretWarningFields))
         (rk_Secrets s))"

text \<open>\<open>validateExtensions\<close> has refused a service that is nil before this is called.\<close>

definition getNotSupportedFields :: "stackRaw \<Rightarrow> string list" where
  "getNotSupportedFields s =
     getTopLevelNotSupportedFields s
     @ concat (map (\<lambda>(name, svc). case svc of None \<Rightarrow> [] | Some svc \<Rightarrow> getServiceNotSupportedFields name svc) (rk_Services s))
     @ concat (map (\<lambda>(name, v). case v of None \<Rightarrow> [] | Some v \<Rightarrow> getVolumesNotSupportedFields name v) (rk_Volumes s))"

text \<open>The fields of the services, up to the first service that is nil.\<close>

fun serviceExtensions :: "(string, serviceRaw option) gomap \<Rightarrow> composeErr + string list" where
  "serviceExtensions [] = Inr []"
| "serviceExtensions ((svcName, svc) # rest) =
     (case svc of
        None \<Rightarrow> Inl (UnmarshalError (''your Okteto Manifest is not valid, please check the following errors: ''
                       @ ''service cannot be empty''))
      | Some svc \<Rightarrow>
          bindE (serviceExtensions rest) (\<lambda>fs. Inr (map (svcField svcName) (raw_Extensions svc)
            @ (case raw_Deploy svc of None \<Rightarrow> [] | Some d \<Rightarrow> map (\<lambda>e. svcField svcName (''deploy.'' @ e)) (di_Extensions d))
            @ fs)))"

definition invalidFields :: "stackRaw \<Rightarrow> composeErr + string list" where
  "invalidFields s =
     bindE (serviceExtensions (rk_Services s)) (\<lambda>svcs. Inr (
       filter (\<lambda>e. \<not> hasPrefix e ''x-'') (rk_Extensions s) @ svcs
       @ concat (map (\<lambda>(name, def). case def of None \<Rightarrow> []
           | Some d \<Rightarrow> map (\<lambda>e. ''secrets['' @ name @ ''].'' @ e) (filter (\<lambda>e. \<not> hasPrefix e ''x-'') (sec_Extensions d)))
         (rk_Secrets s))))"

definition moreInformation :: string where
  "moreInformation = [CHR 0x0A] @ ''    More information is available here: https://okteto.com/docs/reference/docker-compose/''"

definition validateExtensions :: "stackRaw \<Rightarrow> composeErr option" where
  "validateExtensions s =
     (case invalidFields s of
        Inl e \<Rightarrow> Some e
      | Inr [] \<Rightarrow> None
      | Inr [f] \<Rightarrow> Some (UnmarshalError (''invalid compose manifest: Field '' @ sq f @ '' is not supported.'' @ moreInformation))
      | Inr fs \<Rightarrow> Some (UnmarshalError (''invalid compose manifest: The following fields are not supported.''
                    @ [CHR 0x0A] @ ''    - '' @ join ([CHR 0x0A] @ ''    - '') fs @ moreInformation)))"

section \<open>Services\<close>

text \<open>Docker Compose calls \<open>environment\<close> what a \<open>build.Secret\<close> calls \<open>Env\<close>.\<close>

fun buildSecrets :: "(string, secretTopLevel option) gomap \<Rightarrow> string list \<Rightarrow> (string, buildSecret) gomap
    \<Rightarrow> composeErr + (string, buildSecret) gomap" where
  "buildSecrets tops [] secrets = Inr secrets"
| "buildSecrets tops (name # names) secrets =
     (let undefinedSecret = Inl (UnmarshalError (''secret '' @ dq name @ '' has no '' @ sq ''file'' @ '' or ''
                              @ sq ''environment'' @ '' defined''))
      in case gget tops name of
        None \<Rightarrow> Inl (UnmarshalError (''secret '' @ dq name @ '' is not defined in the top-level secrets section''))
      | Some None \<Rightarrow> undefinedSecret
      | Some (Some def) \<Rightarrow>
          if sec_File def = [] \<and> sec_Environment def = [] then undefinedSecret
          else if sec_File def \<noteq> [] \<and> sec_Environment def \<noteq> []
          then Inl (UnmarshalError (''secret '' @ dq name @ '' cannot define both '' @ sq ''file'' @ '' and ''
                      @ sq ''environment''))
          else buildSecrets tops names
                 (gput name \<lparr>bse_File = sec_File def, bse_Env = sec_Environment def\<rparr> secrets))"

definition toBuildInfo :: "(string, secretTopLevel option) gomap \<Rightarrow> composeBuildInfo option \<Rightarrow> composeErr + buildInfo option" where
  "toBuildInfo tops c =
     (case c of
        None \<Rightarrow> Inr None
      | Some c \<Rightarrow>
          bindE (buildSecrets tops (cb_Secrets c) []) (\<lambda>secrets. Inr (Some
            \<lparr>bi_Secrets = secrets, bi_Context = cb_Context c, bi_Dockerfile = cb_Dockerfile c,
             bi_Target = cb_Target c, bi_Image = cb_Image c, bi_CacheFrom = cb_CacheFrom c, bi_Args = cb_Args c,
             bi_VolumesToInclude = cb_VolumesToInclude c, bi_ExportCache = cb_ExportCache c, bi_DependsOn = []\<rparr>)))"

definition toServiceResources :: "deployComposeResources \<Rightarrow> serviceResources" where
  "toServiceResources r =
     noResources\<lparr>sr_CPU := (if dcr_Cpus r \<noteq> 0 then dcr_Cpus r else 0),
                sr_Memory := (if dcr_Memory r \<noteq> 0 then dcr_Memory r else 0)\<rparr>"

definition unmarshalDeployResources ::
    "deployInfoRaw option \<Rightarrow> stackResources option \<Rightarrow> quantity \<Rightarrow> quantity \<Rightarrow> quantity \<Rightarrow> quantity \<Rightarrow> stackResources" where
  "unmarshalDeployResources deploy resources cpuCount cpus memLimit memReservation =
     (let r = (case resources of None \<Rightarrow> \<lparr>sr_Limits = noResources, sr_Requests = noResources\<rparr> | Some r \<Rightarrow> r);
          r = (case deploy of None \<Rightarrow> r
               | Some d \<Rightarrow> r\<lparr>sr_Limits := toServiceResources (di_Limits d),
                             sr_Requests := toServiceResources (di_Reservations d)\<rparr>);
          limits = sr_Limits r; requests = sr_Requests r;
          limits = (if sr_CPU limits = 0 \<and> cpuCount \<noteq> 0 then limits\<lparr>sr_CPU := cpuCount\<rparr> else limits);
          requests = (if sr_CPU requests = 0 \<and> cpus \<noteq> 0 then requests\<lparr>sr_CPU := cpus\<rparr> else requests);
          limits = (if sr_Memory limits = 0 \<and> memLimit \<noteq> 0 then limits\<lparr>sr_Memory := memLimit\<rparr> else limits);
          requests = (if sr_Memory requests = 0 \<and> memReservation \<noteq> 0
                      then requests\<lparr>sr_Memory := memReservation\<rparr> else requests)
      in \<lparr>sr_Limits = limits, sr_Requests = requests\<rparr>)"

definition DefaultReplicasNumber :: int where
  "DefaultReplicasNumber = 1"

definition unmarshalDeployReplicas :: "deployInfoRaw option \<Rightarrow> int option \<Rightarrow> int option \<Rightarrow> int" where
  "unmarshalDeployReplicas deploy scale replicas =
     (case replicas of
        Some n \<Rightarrow> n
      | None \<Rightarrow>
          (case (case deploy of None \<Rightarrow> None | Some d \<Rightarrow> di_Replicas d) of
             Some n \<Rightarrow> n
           | None \<Rightarrow> (case scale of Some n \<Rightarrow> n | None \<Rightarrow> DefaultReplicasNumber)))"

definition unmarshalLabels :: "smap \<Rightarrow> deployInfoRaw option \<Rightarrow> smap" where
  "unmarshalLabels labels deploy =
     grange_put labels (case deploy of None \<Rightarrow> [] | Some d \<Rightarrow> grange_put (di_Labels d) [])"

definition getRestartPolicy :: "string \<Rightarrow> deployInfoRaw option \<Rightarrow> string \<Rightarrow> composeErr + string" where
  "getRestartPolicy svcName deploy restartPolicy =
     (let condition = (case deploy of None \<Rightarrow> [] | Some d \<Rightarrow>
             (case di_RestartPolicy d of None \<Rightarrow> [] | Some r \<Rightarrow> rp_Condition r));
          restart = (if condition = [] then restartPolicy else condition)
      in if restart \<in> {''none'', ''never'', ''no''} then Inr RestartPolicyNever
         else if restart \<in> {''always'', [], ''unless-stopped'', ''any''} then Inr RestartPolicyAlways
         else if restart = ''on-failure'' then Inr RestartPolicyOnFailure
         else Inl (UnmarshalError (''cannot create container for service '' @ svcName
                     @ '': invalid restart policy '' @ sq restart)))"

definition minIdentityTokenExpirationSeconds :: int where
  "minIdentityTokenExpirationSeconds = 600"

definition validateIdentityToken :: "serviceIdentityToken \<Rightarrow> string option" where
  "validateIdentityToken token =
     (if it_Audience token = [] then Some (sq ''audience'' @ '' is required'')
      else if it_MountPath token = [] then Some (sq ''mount_path'' @ '' is required'')
      else if \<not> IsAbs (it_MountPath token)
      then Some (sq ''mount_path'' @ '' must be an absolute path, got '' @ sq (it_MountPath token))
      else case it_ExpirationSeconds token of
        None \<Rightarrow> None
      | Some e \<Rightarrow>
          if e < minIdentityTokenExpirationSeconds
          then Some (sq ''expiration_seconds'' @ '' must be at least ''
                 @ showInt minIdentityTokenExpirationSeconds @ '' seconds'')
          else None)"

definition isNamedVolumeDeclared :: "world \<Rightarrow> volumeMounts \<Rightarrow> bool" where
  "isNamedVolumeDeclared w v =
     (if vo_LocalPath v = [] \<or> w_GetwdFails w then False
      else
        let relative = (IsAbs (vo_LocalPath v) \<longrightarrow> Rel (w_Cwd w) (vo_LocalPath v) \<noteq> None)
        in (hasPrefix (vo_LocalPath v) ''/'' \<and> relative) \<or> (hasPrefix (vo_LocalPath v) ''./'' \<and> relative)
           \<or> (FileExists w (vo_LocalPath v) \<and> relative))"

definition splitVolumesByType :: "(string, volumeSpec) gomap \<Rightarrow> volumeMounts list \<Rightarrow> volumeMounts list \<times> volumeMounts list" where
  "splitVolumesByType tops volumes =
     (let isTop = (\<lambda>v. vo_LocalPath v = [] \<or> gget tops (sanitizeName (vo_LocalPath v)) \<noteq> None)
      in (map (\<lambda>v. v\<lparr>vo_LocalPath := sanitizeName (vo_LocalPath v)\<rparr>) (filter isTop volumes),
          filter (\<lambda>v. \<not> isTop v) volumes))"

text \<open>The loop over the mounted volumes; \<open>filepath.Abs\<close> has the working directory at hand here.\<close>

fun absoluteMounts :: "world \<Rightarrow> string \<Rightarrow> volumeMounts list \<Rightarrow> composeErr + volumeMounts list" where
  "absoluteMounts w svcName [] = Inr []"
| "absoluteMounts w svcName (v # vs) =
     (if \<not> isNamedVolumeDeclared w v
      then Inl (UnmarshalError (''named volume '' @ sq (volumeToString v) @ '' is used in service '' @ sq svcName
                  @ '' but no declaration was found in the volumes section''))
      else bindE (absoluteMounts w svcName vs) (\<lambda>rest. Inr (v\<lparr>vo_LocalPath := resolve w (vo_LocalPath v)\<rparr> # rest)))"

definition rawEnvironment :: "world \<Rightarrow> environment \<Rightarrow> environment" where
  "rawEnvironment w es =
     filter (\<lambda>e. va_Value e \<noteq> [])
       (map (\<lambda>e. if va_Value e = [] then e\<lparr>va_Value := getenv w (va_Name e)\<rparr> else e) es)"

definition rawHealthcheck :: "parseWorld \<Rightarrow> healthCheck option \<Rightarrow> composeErr + healthCheck option" where
  "rawHealthcheck pw h =
     bindE (validateHealthcheck h) (\<lambda>h. Inr (case h of
       None \<Rightarrow> None
     | Some h \<Rightarrow> if hc_Disable h then None else Some (translateHealtcheckCurlToHTTP pw h)))"

text \<open>Entrypoint, command, labels and annotations, by the kind of file.\<close>

definition composeParts :: "bool \<Rightarrow> string \<Rightarrow> serviceRaw \<Rightarrow> service \<Rightarrow> composeErr + service" where
  "composeParts isCompose svcName raw svc =
     (if isCompose then
        if raw_Args raw \<noteq> [] then Inl (UnmarshalError (''unsupported field for services.'' @ svcName @ '': '' @ sq ''args''))
        else Inr (svc\<lparr>s_Entrypoint := raw_Entrypoint raw, s_Command := raw_Command raw,
                      s_Annotations := grange_put (unmarshalLabels (raw_Labels raw) (raw_Deploy raw)) [],
                      s_Labels := grange_put (raw_Annotations raw) []\<rparr>)
      else
        if raw_Entrypoint raw \<noteq> []
        then Inl (UnmarshalError (''unsupported field for services.'' @ svcName @ '': '' @ sq ''entrypoint''))
        else Inr (svc\<lparr>s_Entrypoint := (case raw_Command raw of
                        [c] \<Rightarrow> if contains c '' '' then [''sh'', ''-c'', c] else [c] | cs \<Rightarrow> cs),
                      s_Command := raw_Args raw,
                      s_Labels := grange_put (unmarshalLabels (raw_Labels raw) (raw_Deploy raw)) [],
                      s_Annotations := raw_Annotations raw\<rparr>))"

definition rawEndpointMode :: "string \<Rightarrow> deployInfoRaw option \<Rightarrow> composeErr + string" where
  "rawEndpointMode svcName deploy =
     (let mode = (case deploy of None \<Rightarrow> [] | Some d \<Rightarrow> di_EndpointMode d)
      in if mode = [] then Inr EndpointModeVIP
         else if mode = EndpointModeVIP then Inr EndpointModeVIP
         else if mode = EndpointModeDNSRR then Inr EndpointModeDNSRR
         else Inl (UnmarshalError (''unsupported endpoint_mode '' @ sq mode @ '' for service '' @ sq svcName
                     @ '': must be '' @ sq ''vip'' @ '' or '' @ sq ''dnsrr'')))"

definition rawGracePeriod :: "serviceRaw \<Rightarrow> composeErr + int" where
  "rawGracePeriod raw =
     bindE (unmarshalDuration (raw_StopGracePeriod raw)) (\<lambda>period.
       if raw_StopGracePeriodSneakCase raw \<noteq> None then unmarshalDuration (raw_StopGracePeriodSneakCase raw)
       else Inr period)"

definition rawDependsOn :: "dependsOn \<Rightarrow> dependsOn" where
  "rawDependsOn ds = fold (\<lambda>(name, condition). gput (sanitizeName name) condition) ds []"

definition rawIdentityToken :: "string \<Rightarrow> serviceIdentityToken option \<Rightarrow> composeErr + serviceIdentityToken option" where
  "rawIdentityToken svcName token =
     (case token of
        None \<Rightarrow> Inr None
      | Some tok \<Rightarrow>
          (case validateIdentityToken tok of
             None \<Rightarrow> Inr (Some tok)
           | Some e \<Rightarrow> Inl (UnmarshalError (''invalid '' @ sq ''x-okteto-identity-token'' @ '' for service ''
                         @ sq svcName @ '': '' @ e))))"

text \<open>\<open>if len(snake) > 0 { x = snake }\<close>.\<close>

definition preferred :: "'a list \<Rightarrow> 'a list \<Rightarrow> 'a list" where
  "preferred snake camel = (if snake \<noteq> [] then snake else camel)"

definition toService :: "parseWorld \<Rightarrow> bool \<Rightarrow> (string, volumeSpec) gomap \<Rightarrow> (string, secretTopLevel option) gomap
    \<Rightarrow> string \<Rightarrow> serviceRaw \<Rightarrow> composeErr + service" where
  "toService pw isCompose vols secrets svcName raw =
     bindE (toBuildInfo secrets (raw_Build raw)) (\<lambda>bld.
     bindE (rawHealthcheck pw (raw_Healthcheck raw)) (\<lambda>health.
     bindE (rawIdentityToken svcName (raw_IdentityToken raw)) (\<lambda>token.
     bindE (composeParts isCompose svcName raw
       (emptyService\<lparr>s_Resources := Some (unmarshalDeployResources (raw_Deploy raw) (raw_Resources raw) (raw_CpuCount raw)
                        (raw_Cpus raw) (raw_MemLimit raw) (raw_MemReservation raw)),
                     s_Replicas := unmarshalDeployReplicas (raw_Deploy raw) (raw_Scale raw) (raw_Replicas raw),
                     s_Image := raw_Image raw, s_Build := bld,
                     s_CapAdd := preferred (raw_CapAddSneakCase raw) (raw_CapAdd raw),
                     s_CapDrop := preferred (raw_CapDropSneakCase raw) (raw_CapDrop raw),
                     s_Healtcheck := health, s_NodeSelector := raw_NodeSelector raw,
                     s_EnableServiceLinks := raw_EnableServiceLinks raw, s_IdentityToken := token\<rparr>)) (\<lambda>svc.
     bindE (getSvcPorts (raw_Public raw) (raw_Ports raw) (raw_Expose raw)) (\<lambda>(public, ports).
     bindE (rawGracePeriod raw) (\<lambda>period.
     bindE (absoluteMounts (pw_World pw) svcName (snd (splitVolumesByType vols (raw_Volumes raw)))) (\<lambda>mounts.
     bindE (getRestartPolicy svcName (raw_Deploy raw) (raw_Restart raw)) (\<lambda>restart.
     bindE (rawEndpointMode svcName (raw_Deploy raw)) (\<lambda>mode.
     Inr (svc\<lparr>s_EnvFiles := preferred (raw_EnvFilesSneakCase raw) (raw_EnvFiles raw),
             s_Environment := rawEnvironment (pw_World pw) (raw_Environment raw),
             s_DependsOn := rawDependsOn (raw_DependsOn raw),
             s_Public := public, s_Ports := ports, s_StopGracePeriod := period,
             s_Volumes := fst (splitVolumesByType vols (raw_Volumes raw)), s_VolumeMounts := mounts,
             s_Workdir := preferred (raw_WorkingDirSneakCase raw) (raw_Workdir raw),
             s_User := raw_User raw, s_RestartPolicy := restart,
             s_BackOffLimit := (case raw_Deploy raw of None \<Rightarrow> 0 | Some d \<Rightarrow>
                (case di_RestartPolicy d of None \<Rightarrow> 0 | Some r \<Rightarrow> rp_MaxAttempts r)),
             s_EndpointMode := mode\<rparr>))))))))))"

section \<open>Stacks\<close>

fun volumeOptions :: "parseWorld \<Rightarrow> smap \<Rightarrow> volumeSpec \<Rightarrow> composeErr + volumeSpec" where
  "volumeOptions pw [] v = Inr v"
| "volumeOptions pw ((key, val) # rest) v =
     bindE (if key = ''size'' then
              (case pw_ParseQuantity pw val of Inl e \<Rightarrow> Inl (UnmarshalError e) | Inr q \<Rightarrow> Inr (v\<lparr>vs_Size := q\<rparr>))
            else Inr v) (\<lambda>v.
     volumeOptions pw rest (if key = ''class'' then v\<lparr>vs_Class := val\<rparr> else v))"

definition unmarshalVolume :: "parseWorld \<Rightarrow> bool \<Rightarrow> volumeTopLevel option \<Rightarrow> composeErr + volumeSpec" where
  "unmarshalVolume pw isCompose vol =
     (let result = \<lparr>vs_Labels = [], vs_Annotations = [], vs_Size = 0, vs_Class = []\<rparr>
      in case vol of
        None \<Rightarrow> Inr result
      | Some v \<Rightarrow>
          let result = (if isCompose
                then result\<lparr>vs_Labels := grange_put (vt_Annotations v) [], vs_Annotations := grange_put (vt_Labels v) []\<rparr>
                else result\<lparr>vs_Annotations := grange_put (vt_Labels v) (grange_put (vt_Annotations v) [])\<rparr>);
              result = (if 0 < vt_Size v then result\<lparr>vs_Size := vt_Size v\<rparr> else result)
          in bindE (volumeOptions pw (vt_DriverOpts v) result) (\<lambda>result.
             Inr (if vs_Class result = [] then result\<lparr>vs_Class := vt_Class v\<rparr> else result)))"

fun unmarshalVolumes :: "parseWorld \<Rightarrow> bool \<Rightarrow> (string, volumeTopLevel option) gomap \<Rightarrow> (string, volumeSpec) gomap
    \<Rightarrow> composeErr + (string, volumeSpec) gomap" where
  "unmarshalVolumes pw isCompose [] vols = Inr vols"
| "unmarshalVolumes pw isCompose ((name, v) # rest) vols =
     bindE (unmarshalVolume pw isCompose v) (\<lambda>v. unmarshalVolumes pw isCompose rest (gput (sanitizeName name) v vols))"

definition serviceKey :: "string \<Rightarrow> string" where
  "serviceKey svcName = (if shouldBeSanitized svcName then sanitizeName svcName else svcName)"

fun unmarshalServices :: "parseWorld \<Rightarrow> bool \<Rightarrow> (string, volumeSpec) gomap \<Rightarrow> (string, secretTopLevel option) gomap
    \<Rightarrow> (string, serviceRaw option) gomap \<Rightarrow> composeServices \<Rightarrow> composeErr + composeServices" where
  "unmarshalServices pw isCompose vols secrets [] svcs = Inr svcs"
| "unmarshalServices pw isCompose vols secrets ((svcName, raw) # rest) svcs =
     (case raw of
        None \<Rightarrow> Inl GoPanic
      | Some raw \<Rightarrow>
          bindE (toService pw isCompose vols secrets (serviceKey svcName) raw) (\<lambda>svc.
          unmarshalServices pw isCompose vols secrets rest (gput (serviceKey svcName) svc svcs)))"

definition sanitizedServices :: "(string, serviceRaw option) gomap \<Rightarrow> smap" where
  "sanitizedServices svcs =
     fold (\<lambda>n. gput n (sanitizeName n)) (filter shouldBeSanitized (gkeys svcs)) []"

text \<open>\<open>Stack.UnmarshalYAML\<close> on a stack whose \<open>IsCompose\<close> the reader has set.\<close>

definition unmarshalStack :: "parseWorld \<Rightarrow> bool \<Rightarrow> string + stackRaw \<Rightarrow> composeErr + stack" where
  "unmarshalStack pw isCompose node =
     (case node of
        Inl e \<Rightarrow> Inl (UnmarshalError e)
      | Inr raw \<Rightarrow>
          (case validateExtensions raw of
             Some e \<Rightarrow> Inl e
           | None \<Rightarrow>
               bindE (unmarshalVolumes pw isCompose (rk_Volumes raw) []) (\<lambda>vols.
               bindE (unmarshalServices pw isCompose vols (rk_Secrets raw) (rk_Services raw) []) (\<lambda>svcs.
               Inr (emptyStack\<lparr>sk_Name := rk_Name raw, sk_Endpoints := rk_Endpoints raw, sk_Volumes := vols,
                       sk_Services := svcs, sk_IsCompose := isCompose,
                       sk_Warnings := \<lparr>sw_NotSupportedFields = getNotSupportedFields raw,
                                      sw_SanitizedServices = sanitizedServices (rk_Services raw),
                                      sw_VolumeMountWarnings = []\<rparr>\<rparr>)))))"

end
