(* ===== verification/ComposeParseProps.thy ===== *)
theory ComposeParseProps
  imports ComposeParse
begin

text \<open>
  What reading a compose file promises: the services it yields are well formed, sanitizing their names
  keeps the references between them, ranges of ports are expanded exactly and the syntax of a port is
  read as it is written.
\<close>

section \<open>A service and a world for the witnesses\<close>

text \<open>The raw service of an empty node.\<close>

definition emptyServiceRaw :: serviceRaw where
  "emptyServiceRaw = \<lparr>raw_Warnings = (\<lambda>_. False), raw_Extensions = [], raw_Healthcheck = None, raw_IdentityToken = None,
     raw_Labels = [], raw_Annotations = [], raw_NodeSelector = [], raw_EnableServiceLinks = None, raw_Scale = None,
     raw_StopGracePeriodSneakCase = None, raw_StopGracePeriod = None, raw_User = None, raw_DependsOn = [],
     raw_Replicas = None, raw_Resources = None, raw_Build = None, raw_Deploy = None, raw_MemReservation = 0,
     raw_CpuCount = 0, raw_Cpus = 0, raw_MemLimit = 0, raw_Restart = [], raw_Image = [], raw_Workdir = [],
     raw_WorkingDirSneakCase = [], raw_Command = [], raw_Volumes = [], raw_CapAddSneakCase = [], raw_EnvFiles = [],
     raw_EnvFilesSneakCase = [], raw_Args = [], raw_Entrypoint = [], raw_Environment = [], raw_Expose = [],
     raw_Ports = [], raw_CapDrop = [], raw_CapDropSneakCase = [], raw_CapAdd = [], raw_Public = False\<rparr>"

definition exampleParseWorld :: parseWorld where
  "exampleParseWorld = \<lparr>pw_World = exampleWorld, pw_ParseRequestURI = (\<lambda>_. None),
     pw_ParseQuantity = (\<lambda>_. Inr 1), pw_ShellSplit = (\<lambda>s. Inr [s])\<rparr>"

definition exampleServiceRaw :: serviceRaw where
  "exampleServiceRaw = emptyServiceRaw\<lparr>raw_Image := ''api'', raw_Restart := ''on-failure'',
     raw_DependsOn := [(''My_Db'', ''service_started'')],
     raw_Ports := [emptyPortRaw\<lparr>prw_HostPort := 8080, prw_ContainerPort := 80, prw_Protocol := ProtocolTCP\<rparr>],
     raw_Environment := [\<lparr>va_Name = ''A'', va_Value = ''b''\<rparr>]\<rparr>"

definition exampleStackRaw :: stackRaw where
  "exampleStackRaw = \<lparr>rk_Name = ''shop'',
     rk_Services = [(''api'', Some exampleServiceRaw), (''My_Db'', Some (emptyServiceRaw\<lparr>raw_Image := ''pg''\<rparr>))],
     rk_Endpoints = [], rk_Volumes = [], rk_Extensions = [], rk_Networks = False, rk_Configs = False, rk_Secrets = []\<rparr>"

section \<open>Well-formed services\<close>

text \<open>
  What the rest of the program relies on in a service: a known restart policy and endpoint mode, one
  kind of workload, a health check with exactly one kind of test, and volumes the stack declares.
\<close>

definition healthOk :: "healthCheck option \<Rightarrow> bool" where
  "healthOk h \<longleftrightarrow> (case h of None \<Rightarrow> True
     | Some h \<Rightarrow> \<not> hc_Disable h \<and> (hc_HTTP h = None) \<noteq> (hc_Test h = []))"

definition tokenOk :: "serviceIdentityToken option \<Rightarrow> bool" where
  "tokenOk t \<longleftrightarrow> (case t of None \<Rightarrow> True
     | Some t \<Rightarrow> it_Audience t \<noteq> [] \<and> IsAbs (it_MountPath t)
         \<and> (case it_ExpirationSeconds t of None \<Rightarrow> True | Some e \<Rightarrow> 600 \<le> e))"

text \<open>No port repeats a port declared before it on the other side.\<close>

definition portsApart :: "port list \<Rightarrow> bool" where
  "portsApart = sorted_wrt (\<lambda>p q. p_ContainerPort q \<noteq> p_HostPort p \<and> p_HostPort q \<noteq> p_ContainerPort p)"

definition wellFormedService :: "(string, volumeSpec) gomap \<Rightarrow> service \<Rightarrow> bool" where
  "wellFormedService vols svc \<longleftrightarrow>
     s_RestartPolicy svc \<in> {RestartPolicyAlways, RestartPolicyOnFailure, RestartPolicyNever}
     \<and> length (filter (\<lambda>isKind. isKind svc) [IsDeployment, IsStatefulset, IsJob]) = 1
     \<and> s_EndpointMode svc \<in> {EndpointModeVIP, EndpointModeDNSRR}
     \<and> healthOk (s_Healtcheck svc) \<and> tokenOk (s_IdentityToken svc)
     \<and> s_Resources svc \<noteq> None
     \<and> list_all (\<lambda>v. vo_LocalPath v = [] \<or> gget vols (vo_LocalPath v) \<noteq> None) (s_Volumes svc)
     \<and> list_all (\<lambda>e. va_Value e \<noteq> []) (s_Environment svc)"

lemma validateHealthcheck_ok:
  assumes "validateHealthcheck h = Inr (Some h')" and "\<not> hc_Disable h'"
  shows "(hc_HTTP h' = None) \<noteq> (hc_Test h' = [])"
  using assms by (auto simp: validateHealthcheck_def Let_def split: option.splits if_splits)

lemma translateHealtcheck_ok:
  assumes "(hc_HTTP h = None) \<noteq> (hc_Test h = [])"
  shows "(hc_HTTP (translateHealtcheckCurlToHTTP pw h) = None) \<noteq> (hc_Test (translateHealtcheckCurlToHTTP pw h) = [])"
    "hc_Disable (translateHealtcheckCurlToHTTP pw h) = hc_Disable h"
  using assms
  by (auto simp: translateHealtcheckCurlToHTTP_def Let_def split: option.splits if_splits prod.splits)

lemma rawHealthcheck_ok:
  assumes "rawHealthcheck pw h = Inr h'"
  shows "healthOk h'"
proof -
  from assms obtain x where x: "validateHealthcheck h = Inr x"
    and h': "h' = (case x of None \<Rightarrow> None | Some h \<Rightarrow> if hc_Disable h then None
                   else Some (translateHealtcheckCurlToHTTP pw h))"
    by (auto simp: rawHealthcheck_def bindE_Inr_iff)
  show ?thesis
  proof (cases x)
    case None
    with h' show ?thesis by (simp add: healthOk_def)
  next
    case (Some y)
    show ?thesis
      using h' Some translateHealtcheck_ok [of y pw] validateHealthcheck_ok [of h y] x
      by (simp add: healthOk_def)
  qed
qed

lemma validateIdentityToken_ok: "validateIdentityToken t = None \<Longrightarrow> tokenOk (Some t)"
  by (auto simp: validateIdentityToken_def tokenOk_def minIdentityTokenExpirationSeconds_def
      split: if_splits option.splits)

lemma rawIdentityToken_ok: "rawIdentityToken n t = Inr t' \<Longrightarrow> tokenOk t'"
  by (auto simp: rawIdentityToken_def intro: validateIdentityToken_ok split: option.splits)
    (simp add: tokenOk_def)

lemma getRestartPolicy_ok:
  "getRestartPolicy n d r = Inr p \<Longrightarrow> p \<in> {RestartPolicyAlways, RestartPolicyOnFailure, RestartPolicyNever}"
  by (auto simp: getRestartPolicy_def Let_def split: if_splits)

lemma rawEndpointMode_ok: "rawEndpointMode n d = Inr m \<Longrightarrow> m \<in> {EndpointModeVIP, EndpointModeDNSRR}"
  by (auto simp: rawEndpointMode_def Let_def split: if_splits)

lemma sanitizeName_Nil [simp]: "sanitizeName [] = []"
  by (simp add: sanitizeName_def trimSpace_def replaceAll_def replaceEach.simps toLower_def)

lemma splitVolumes_declared:
  "list_all (\<lambda>v. vo_LocalPath v = [] \<or> gget vols (vo_LocalPath v) \<noteq> None) (fst (splitVolumesByType vols vs))"
  by (auto simp: splitVolumesByType_def Let_def list_all_iff)

lemma composeParts_keeps:
  assumes "composeParts c n raw svc = Inr svc'"
  shows "s_Healtcheck svc' = s_Healtcheck svc" "s_IdentityToken svc' = s_IdentityToken svc"
    "s_Resources svc' = s_Resources svc"
  using assms by (auto simp: composeParts_def split: if_splits)

lemma one_kind:
  assumes "s_RestartPolicy svc \<in> {RestartPolicyAlways, RestartPolicyOnFailure, RestartPolicyNever}"
  shows "length (filter (\<lambda>isKind. isKind svc) [IsDeployment, IsStatefulset, IsJob]) = 1"
  using assms by (auto simp: IsDeployment_def IsStatefulset_def IsJob_def go_consts)

text \<open>What a service that was accepted is made of.\<close>

lemma toService_parts:
  assumes "toService pw c vols secrets n raw = Inr svc"
  shows "rawHealthcheck pw (raw_Healthcheck raw) = Inr (s_Healtcheck svc)"
    and "rawIdentityToken n (raw_IdentityToken raw) = Inr (s_IdentityToken svc)"
    and "s_Resources svc \<noteq> None"
    and "getRestartPolicy n (raw_Deploy raw) (raw_Restart raw) = Inr (s_RestartPolicy svc)"
    and "rawEndpointMode n (raw_Deploy raw) = Inr (s_EndpointMode svc)"
    and "s_Volumes svc = fst (splitVolumesByType vols (raw_Volumes raw))"
    and "s_Environment svc = rawEnvironment (pw_World pw) (raw_Environment raw)"
    and "s_DependsOn svc = rawDependsOn (raw_DependsOn raw)"
    and "getSvcPorts (raw_Public raw) (raw_Ports raw) (raw_Expose raw) = Inr (s_Public svc, s_Ports svc)"
proof -
  from assms obtain bld health token svc0 public ports period mounts restart mode where
    h: "rawHealthcheck pw (raw_Healthcheck raw) = Inr health"
    and t: "rawIdentityToken n (raw_IdentityToken raw) = Inr token"
    and p: "composeParts c n raw
       (emptyService\<lparr>s_Resources := Some (unmarshalDeployResources (raw_Deploy raw) (raw_Resources raw) (raw_CpuCount raw)
                        (raw_Cpus raw) (raw_MemLimit raw) (raw_MemReservation raw)),
                     s_Replicas := unmarshalDeployReplicas (raw_Deploy raw) (raw_Scale raw) (raw_Replicas raw),
                     s_Image := raw_Image raw, s_Build := bld,
                     s_CapAdd := preferred (raw_CapAddSneakCase raw) (raw_CapAdd raw),
                     s_CapDrop := preferred (raw_CapDropSneakCase raw) (raw_CapDrop raw),
                     s_Healtcheck := health, s_NodeSelector := raw_NodeSelector raw,
                     s_EnableServiceLinks := raw_EnableServiceLinks raw, s_IdentityToken := token\<rparr>) = Inr svc0"
    and q: "getSvcPorts (raw_Public raw) (raw_Ports raw) (raw_Expose raw) = Inr (public, ports)"
    and r: "getRestartPolicy n (raw_Deploy raw) (raw_Restart raw) = Inr restart"
    and m: "rawEndpointMode n (raw_Deploy raw) = Inr mode"
    and svc: "svc = svc0\<lparr>s_EnvFiles := preferred (raw_EnvFilesSneakCase raw) (raw_EnvFiles raw),
             s_Environment := rawEnvironment (pw_World pw) (raw_Environment raw),
             s_DependsOn := rawDependsOn (raw_DependsOn raw),
             s_Public := public, s_Ports := ports, s_StopGracePeriod := period,
             s_Volumes := fst (splitVolumesByType vols (raw_Volumes raw)), s_VolumeMounts := mounts,
             s_Workdir := preferred (raw_WorkingDirSneakCase raw) (raw_Workdir raw),
             s_User := raw_User raw, s_RestartPolicy := restart,
             s_BackOffLimit := (case raw_Deploy raw of None \<Rightarrow> 0 | Some d \<Rightarrow>
                (case di_RestartPolicy d of None \<Rightarrow> 0 | Some r \<Rightarrow> rp_MaxAttempts r)),
             s_EndpointMode := mode\<rparr>"
    unfolding toService_def bindE_Inr_iff by (elim exE conjE) (auto split: prod.splits simp: bindE_Inr_iff)
  note k = composeParts_keeps [OF p]
  show "rawHealthcheck pw (raw_Healthcheck raw) = Inr (s_Healtcheck svc)"
    "rawIdentityToken n (raw_IdentityToken raw) = Inr (s_IdentityToken svc)" "s_Resources svc \<noteq> None"
    "getRestartPolicy n (raw_Deploy raw) (raw_Restart raw) = Inr (s_RestartPolicy svc)"
    "rawEndpointMode n (raw_Deploy raw) = Inr (s_EndpointMode svc)"
    "s_Volumes svc = fst (splitVolumesByType vols (raw_Volumes raw))"
    "s_Environment svc = rawEnvironment (pw_World pw) (raw_Environment raw)"
    "s_DependsOn svc = rawDependsOn (raw_DependsOn raw)"
    "getSvcPorts (raw_Public raw) (raw_Ports raw) (raw_Expose raw) = Inr (s_Public svc, s_Ports svc)"
    using h t q r m svc k by simp_all
qed

text \<open>C14. A service that is accepted is well formed: its restart policy and endpoint mode are known and
  it is exactly one of a deployment, a stateful set and a job, its health check is enabled and has
  exactly one kind of test, its identity token is valid, every volume it names is declared by the
  stack, and every variable has a value.\<close>

theorem toService_well_formed:
  assumes "toService pw isCompose vols secrets svcName raw = Inr svc"
  shows "wellFormedService vols svc"
proof -
  note p = toService_parts [OF assms]
  have "list_all (\<lambda>e. va_Value e \<noteq> []) (s_Environment svc)"
    by (simp add: p(7) rawEnvironment_def list_all_iff)
  moreover have "list_all (\<lambda>v. vo_LocalPath v = [] \<or> gget vols (vo_LocalPath v) \<noteq> None) (s_Volumes svc)"
    unfolding p(6) by (rule splitVolumes_declared)
  ultimately show ?thesis
    using getRestartPolicy_ok [OF p(4)] one_kind rawEndpointMode_ok [OF p(5)] rawHealthcheck_ok [OF p(1)]
      rawIdentityToken_ok [OF p(2)] p(3)
    unfolding wellFormedService_def by blast
qed

theorem toService_well_formed_witness:
  "\<exists>svc. toService exampleParseWorld True [] [] ''api'' exampleServiceRaw = Inr svc
     \<and> wellFormedService [] svc \<and> s_RestartPolicy svc = RestartPolicyOnFailure"
proof -
  have "(case toService exampleParseWorld True [] [] ''api'' exampleServiceRaw of Inr svc \<Rightarrow>
      s_RestartPolicy svc = RestartPolicyOnFailure | Inl _ \<Rightarrow> False)" by code_simp
  then obtain svc where s: "toService exampleParseWorld True [] [] ''api'' exampleServiceRaw = Inr svc"
      "s_RestartPolicy svc = RestartPolicyOnFailure"
    by (auto split: sum.splits)
  from toService_well_formed [OF s(1)] s show ?thesis by blast
qed


section \<open>Names and dependencies\<close>

text \<open>A name in which white space other than the space does not occur.\<close>

definition plainName :: "string \<Rightarrow> bool" where
  "plainName n \<longleftrightarrow> list_all (\<lambda>c. isSpace c \<longrightarrow> c = CHR '' '') n"

lemma gkeys_simps [simp]: "gkeys [] = []" "gkeys ((k, v) # m) = k # gkeys m"
  by (simp_all add: gkeys_def)

lemma contains_char [simp]: "contains s [c] \<longleftrightarrow> c \<in> set s"
  by (auto simp: contains_def sublist_def in_set_conv_decomp)

lemma sanitizeName_plain:
  assumes "plainName n" and "\<not> shouldBeSanitized n"
  shows "sanitizeName n = n"
proof -
  from assms have sp: "CHR '' '' \<notin> set n" and us: "CHR ''_'' \<notin> set n" and up: "\<forall>c \<in> set n. lowerChar c = c"
    by (auto simp: shouldBeSanitized_def hasEmptySpace_def hasUnderscore_def hasUppercase_def isUpper_def list_ex_iff)
  have "\<forall>c \<in> set n. \<not> isSpace c"
    using assms(1) sp by (auto simp: plainName_def list_all_iff)
  then have "dropWhile isSpace n = n" "dropWhile isSpace (rev n) = rev n"
    by (auto simp: dropWhile_eq_self_iff hd_rev)
  then have "trimSpace n = n"
    by (simp add: trimSpace_def)
  moreover have "toLower n = n"
    using up by (simp add: toLower_def map_idI)
  ultimately show ?thesis
    using sp us by (simp add: sanitizeName_def replaceAll_absent)
qed

lemma serviceKey_sanitize: "plainName n \<Longrightarrow> serviceKey n = sanitizeName n"
  by (simp add: serviceKey_def sanitizeName_plain)

lemma rawDependsOn_keys: "set (gkeys (rawDependsOn ds)) \<subseteq> sanitizeName ` set (gkeys ds)"
proof -
  have "set (gkeys (fold (\<lambda>(name, condition). gput (sanitizeName name) condition) ds m))
      \<subseteq> sanitizeName ` set (gkeys ds) \<union> set (gkeys m)" for m
  proof (induction ds arbitrary: m)
    case (Cons nc ds)
    obtain n c where "nc = (n, c)" by (cases nc)
    with Cons [of "gput (sanitizeName n) c m"] show ?case by (auto simp: set_gkeys_put)
  qed simp
  from this [of "[]"] show ?thesis by (simp add: rawDependsOn_def)
qed

text \<open>Where the services of a stack come from, and that none is lost but to a name like its own.\<close>

lemma unmarshalServices_spec:
  assumes "unmarshalServices pw c vols secrets raws svcs = Inr svcs'"
  shows "set (gkeys svcs') = serviceKey ` set (gkeys raws) \<union> set (gkeys svcs)
    \<and> (\<forall>k svc. gget svcs' k = Some svc \<longrightarrow> gget svcs k = Some svc
         \<or> (\<exists>n raw. (n, Some raw) \<in> set raws \<and> k = serviceKey n \<and> toService pw c vols secrets k raw = Inr svc))"
  using assms
proof (induction raws arbitrary: svcs)
  case Nil
  then show ?case by simp
next
  case (Cons nr raws)
  obtain n r where nr: "nr = (n, r)" by (cases nr)
  with Cons.prems obtain raw svc where r: "r = Some raw"
    and s: "toService pw c vols secrets (serviceKey n) raw = Inr svc"
    and rest: "unmarshalServices pw c vols secrets raws (gput (serviceKey n) svc svcs) = Inr svcs'"
    by (auto simp: bindE_Inr_iff split: option.splits)
  note ih = Cons.IH [OF rest]
  show ?case
  proof
    show "set (gkeys svcs') = serviceKey ` set (gkeys (nr # raws)) \<union> set (gkeys svcs)"
      using ih by (auto simp: nr set_gkeys_put)
    show "\<forall>k svc. gget svcs' k = Some svc \<longrightarrow> gget svcs k = Some svc
         \<or> (\<exists>n raw. (n, Some raw) \<in> set (nr # raws) \<and> k = serviceKey n \<and> toService pw c vols secrets k raw = Inr svc)"
    proof (intro allI impI)
      fix k x
      assume "gget svcs' k = Some x"
      with conjunct2 [OF ih] have "gget (gput (serviceKey n) svc svcs) k = Some x
          \<or> (\<exists>n raw. (n, Some raw) \<in> set raws \<and> k = serviceKey n \<and> toService pw c vols secrets k raw = Inr x)"
        by blast
      then show "gget svcs k = Some x
          \<or> (\<exists>n raw. (n, Some raw) \<in> set (nr # raws) \<and> k = serviceKey n \<and> toService pw c vols secrets k raw = Inr x)"
        using s by (auto simp: nr r gget_put split: if_splits)
    qed
  qed
qed

lemma unmarshalStack_parts:
  assumes "unmarshalStack pw c (Inr raw) = Inr s"
  obtains vols where "unmarshalServices pw c vols (rk_Secrets raw) (rk_Services raw) [] = Inr (sk_Services s)"
    "sk_Volumes s = vols" "validateExtensions raw = None"
  using assms by (auto simp: unmarshalStack_def bindE_Inr_iff split: option.splits)

text \<open>Sanitizing names keeps the references between services: when every dependency of the file
  names a service of the file, and names have no white space but spaces, then in the stack every
  dependency of a service is the name of a service.\<close>

theorem dependencies_survive_sanitizing:
  assumes run: "unmarshalStack pw isCompose (Inr raw) = Inr s"
    and refs: "\<And>n r m. (n, Some r) \<in> set (rk_Services raw) \<Longrightarrow> m \<in> set (gkeys (raw_DependsOn r)) \<Longrightarrow>
      m \<in> set (gkeys (rk_Services raw)) \<and> plainName m"
    and svc: "gget (sk_Services s) k = Some svc"
  shows "set (gkeys (s_DependsOn svc)) \<subseteq> set (gkeys (sk_Services s))"
proof
  fix m
  assume m: "m \<in> set (gkeys (s_DependsOn svc))"
  obtain vols where v: "unmarshalServices pw isCompose vols (rk_Secrets raw) (rk_Services raw) [] = Inr (sk_Services s)"
    using unmarshalStack_parts [OF run] by blast
  note spec = unmarshalServices_spec [OF v]
  from spec svc obtain n r where r: "(n, Some r) \<in> set (rk_Services raw)"
    and t: "toService pw isCompose vols (rk_Secrets raw) k r = Inr svc"
    by (metis gget_Nil option.distinct(1))
  from m toService_parts(8) [OF t] rawDependsOn_keys obtain d where
    d: "d \<in> set (gkeys (raw_DependsOn r))" "m = sanitizeName d" by fastforce
  from refs [OF r d(1)] have "d \<in> set (gkeys (rk_Services raw))" "m = serviceKey d"
    using d(2) serviceKey_sanitize by auto
  with spec show "m \<in> set (gkeys (sk_Services s))" by auto
qed

theorem dependencies_survive_sanitizing_witness:
  "\<exists>s svc. unmarshalStack exampleParseWorld True (Inr exampleStackRaw) = Inr s
     \<and> gget (sk_Services s) ''api'' = Some svc \<and> gkeys (s_DependsOn svc) = [''my-db'']
     \<and> set (gkeys (s_DependsOn svc)) \<subseteq> set (gkeys (sk_Services s))"
proof -
  have "(case unmarshalStack exampleParseWorld True (Inr exampleStackRaw) of Inr s \<Rightarrow>
      (case gget (sk_Services s) ''api'' of Some svc \<Rightarrow> gkeys (s_DependsOn svc) = [''my-db''] | None \<Rightarrow> False)
    | Inl _ \<Rightarrow> False)" by code_simp
  then obtain s svc where s: "unmarshalStack exampleParseWorld True (Inr exampleStackRaw) = Inr s"
      "gget (sk_Services s) ''api'' = Some svc" "gkeys (s_DependsOn svc) = [''my-db'']"
    by (auto split: sum.splits option.splits)
  have refs: "m \<in> set (gkeys (rk_Services exampleStackRaw)) \<and> plainName m"
    if "(n, Some r) \<in> set (rk_Services exampleStackRaw)" "m \<in> set (gkeys (raw_DependsOn r))" for n r m
    using that by (auto simp: exampleStackRaw_def exampleServiceRaw_def emptyServiceRaw_def plainName_def isSpace_def)
  have "set (gkeys (s_DependsOn svc)) \<subseteq> set (gkeys (sk_Services s))"
    by (rule dependencies_survive_sanitizing [OF s(1) _ s(2)]) (rule refs)
  with s show ?thesis by blast
qed

text \<open>Names that differ in spaces, underscores or case are one name: of two such services one is lost.\<close>

lemma colliding_names:
  "serviceKey ''my_api'' = ''my-api'' \<and> serviceKey ''my-api'' = ''my-api'' \<and> serviceKey ''My-Api'' = ''my-api''"
  by code_simp

lemma stack_smaller_than_file:
  assumes "unmarshalStack pw c (Inr raw) = Inr s"
  shows "set (gkeys (sk_Services s)) = serviceKey ` set (gkeys (rk_Services raw))"
proof -
  obtain vols where v: "unmarshalServices pw c vols (rk_Secrets raw) (rk_Services raw) [] = Inr (sk_Services s)"
    using unmarshalStack_parts [OF assms] by blast
  from unmarshalServices_spec [OF v] show ?thesis by simp
qed

section \<open>Ranges of ports\<close>

lemma portsUp_upto:
  assumes "0 \<le> a" and "b < 2 ^ 32" and "a \<le> b"
  shows "portsUp (word_of_int a) (word_of_int b) = map word_of_int [a..b - 1]"
  using assms
proof (induction "nat (b - a)" arbitrary: a)
  case 0
  then show ?case by (simp add: portsUp.simps)
next
  case (Suc n)
  then have "a < b" by simp
  have ne: "(word_of_int a :: 32 word) \<noteq> word_of_int b"
  proof
    assume "(word_of_int a :: 32 word) = word_of_int b"
    then have "uint (word_of_int a :: 32 word) = uint (word_of_int b :: 32 word)" by simp
    then have "a mod 2 ^ 32 = b mod 2 ^ 32" by (simp add: uint_word_of_int)
    with Suc.prems \<open>a < b\<close> show False by (simp add: mod_pos_pos_trivial)
  qed
  have "(word_of_int a + 1 :: 32 word) = word_of_int (a + 1)" by simp
  then have "portsUp (word_of_int a) (word_of_int b) = word_of_int a # map word_of_int [a + 1..b - 1]"
    using ne Suc.hyps(1) [of "a + 1"] Suc.hyps(2) Suc.prems \<open>a < b\<close> by (simp add: portsUp.simps)
  with \<open>a < b\<close> show ?case by (simp add: upto_rec1)
qed

lemma sint_small: "0 \<le> x \<Longrightarrow> x < 2 ^ 31 \<Longrightarrow> sint (word_of_int x :: 32 word) = x"
proof -
  assume x: "0 \<le> x" "x < 2 ^ 31"
  have "sint (word_of_int x :: 32 word) = signed_take_bit 31 x" by (simp add: signed_of_int)
  also have "\<dots> = x" using x by (simp add: signed_take_bit_int_eq_self)
  finally show ?thesis .
qed

text \<open>C16. A range of ports that goes up is expanded into exactly its ports, in order; the loop ends also
  at the largest 32-bit integer, where the port after the last one wraps around.\<close>

theorem range_ports_exact:
  assumes "0 < prw_ContainerFrom p" and "prw_ContainerFrom p \<le> prw_ContainerTo p"
    and "prw_ContainerTo p < 2 ^ 31" and "prw_ContainerPort p = 0"
  shows "map prw_ContainerPort (expandRangePorts [p]) = [prw_ContainerFrom p..prw_ContainerTo p]"
proof -
  let ?a = "prw_ContainerFrom p" and ?b = "prw_ContainerTo p"
  have up: "portsUp (word_of_int ?a) (word_of_int ?b + 1) = map word_of_int [?a..?b]"
    using portsUp_upto [of ?a "?b + 1"] assms by (simp only: of_int_add of_int_1) simp
  have "expandRangePorts [p] = expandRange p"
    using assms(4) by (simp add: expandRangePorts_def)
  also have "\<dots> = map (\<lambda>c. emptyPortRaw\<lparr>prw_ContainerPort := sint c\<rparr>) (map word_of_int [?a..?b] :: 32 word list)"
    using assms(2) unfolding up [symmetric] expandRange_def Let_def by (simp only: not_less [symmetric] if_False)
  finally have "map prw_ContainerPort (expandRangePorts [p]) = map (\<lambda>x. sint (word_of_int x :: 32 word)) [?a..?b]"
    by (simp add: comp_def)
  also have "\<dots> = [?a..?b]"
    by (rule map_idI) (use assms in \<open>simp add: sint_small\<close>)
  finally show ?thesis .
qed

theorem range_ports_exact_witness:
  "map prw_ContainerPort (expandRangePorts [emptyPortRaw\<lparr>prw_ContainerFrom := 3000, prw_ContainerTo := 3002\<rparr>])
     = [3000, 3001, 3002]"
proof -
  have "map prw_ContainerPort (expandRangePorts [emptyPortRaw\<lparr>prw_ContainerFrom := 3000, prw_ContainerTo := 3002\<rparr>])
     = [3000..3002]"
    using range_ports_exact [of "emptyPortRaw\<lparr>prw_ContainerFrom := 3000, prw_ContainerTo := 3002\<rparr>"]
    by (simp add: emptyPortRaw_def)
  then show ?thesis by (simp add: upto_rec1)
qed

text \<open>A range loses its protocol and its host ports.\<close>

lemma range_loses_protocol:
  "q \<in> set (expandRange p) \<Longrightarrow> prw_Protocol q = [] \<and> prw_HostPort q = 0"
  by (auto simp: expandRange_def Let_def emptyPortRaw_def)

text \<open>A range that goes down by one is expanded into nothing.\<close>

lemma descending_range_is_lost:
  "prw_ContainerFrom p = prw_ContainerTo p + 1 \<Longrightarrow> expandRange p = []"
  by (simp add: expandRange_def Let_def portsDown.simps)

section \<open>The syntax of ports\<close>

lemma showNat_chars: "c \<in> set (showNat n) \<Longrightarrow> isDigit c"
  using showNat_digits [of n] by (auto simp: list_all_iff)

lemma showInt_chars: "0 \<le> i \<Longrightarrow> c \<in> set (showInt i) \<Longrightarrow> isDigit c"
  by (simp add: showInt_def showNat_chars)

lemma showInt_no_sep [simp]:
  assumes "0 \<le> i"
  shows "CHR '':'' \<notin> set (showInt i)" "CHR ''-'' \<notin> set (showInt i)" "CHR ''/'' \<notin> set (showInt i)"
  using showInt_chars [OF assms, of "CHR '':''"] showInt_chars [OF assms, of "CHR ''-''"]
    showInt_chars [OF assms, of "CHR ''/''"] by (auto simp: isDigit_def)

lemma split_none: "c \<notin> set s \<Longrightarrow> split c s = [s]"
  using split_join [of "[s]" c] by simp

lemma split_two: "c \<notin> set a \<Longrightarrow> c \<notin> set b \<Longrightarrow> split c (a @ c # b) = [a, b]"
  using split_join [of "[a, b]" c] by simp

lemma getPortFromString_show [simp]:
  "0 \<le> i \<Longrightarrow> i < 2 ^ 31 \<Longrightarrow> getPortFromString (showInt i) o' = Inr i"
  by (simp add: getPortFromString_def parseInt_showInt)

text \<open>The protocols and how a file writes them.\<close>

definition protocolSyntax :: "string \<Rightarrow> string \<Rightarrow> bool" where
  "protocolSyntax name protocol \<longleftrightarrow>
     (name, protocol) \<in> {(''tcp'', ProtocolTCP), (''udp'', ProtocolUDP), (''sctp'', ProtocolSCTP)}"

lemma protocolSyntax_get: "protocolSyntax name protocol \<Longrightarrow> getProtocol name = Inr protocol"
  by (auto simp: protocolSyntax_def getProtocol_def toLower_def lowerChar_def Let_def)

lemma protocolSyntax_chars:
  "protocolSyntax name protocol \<Longrightarrow> CHR '':'' \<notin> set name \<and> CHR ''-'' \<notin> set name \<and> CHR ''/'' \<notin> set name"
  by (auto simp: protocolSyntax_def)

lemma getPortAndProtocol_show:
  "0 \<le> i \<Longrightarrow> protocolSyntax name protocol \<Longrightarrow>
     getPortAndProtocol (showInt i @ CHR ''/'' # name) o' = Inr (showInt i, protocol)"
  using protocolSyntax_chars [of name protocol]
  by (simp add: getPortAndProtocol_def split_two protocolSyntax_get)

lemma getRangePorts_single: "CHR ''-'' \<notin> set s \<Longrightarrow> getRangePorts s = Inr (0, 0, [])"
  by (simp add: getRangePorts_def)

text \<open>C15. Every port a file can write is read back as written: a host port with a container port and a
  protocol, a container port with a protocol, and a range of container ports with a protocol.\<close>

theorem port_syntax_round_trip:
  assumes "0 \<le> h" "h < 2 ^ 31" and "0 \<le> c" "c < 2 ^ 31" and "0 < f" "f < 2 ^ 31" and "0 \<le> t" "t < 2 ^ 31"
    and p: "protocolSyntax name protocol"
  shows "unmarshalPortRaw (Inr (showInt h @ '':'' @ showInt c @ ''/'' @ name))
      = Inr (emptyPortRaw\<lparr>prw_HostPort := h, prw_ContainerPort := c, prw_Protocol := protocol\<rparr>)
    \<and> unmarshalPortRaw (Inr (showInt c @ ''/'' @ name))
      = Inr (emptyPortRaw\<lparr>prw_ContainerPort := c, prw_Protocol := protocol\<rparr>)
    \<and> unmarshalPortRaw (Inr (showInt f @ ''-'' @ showInt t @ ''/'' @ name))
      = Inr (emptyPortRaw\<lparr>prw_ContainerFrom := f, prw_ContainerTo := t, prw_Protocol := protocol\<rparr>)"
proof (intro conjI)
  note chars = protocolSyntax_chars [OF p]
  note g = getPortAndProtocol_show [OF _ p]
  have s: "split (CHR '':'') (showInt h @ CHR '':'' # showInt c @ CHR ''/'' # name)
      = [showInt h, showInt c @ CHR ''/'' # name]"
    using assms chars by (intro split_two) auto
  show "unmarshalPortRaw (Inr (showInt h @ '':'' @ showInt c @ ''/'' @ name))
      = Inr (emptyPortRaw\<lparr>prw_HostPort := h, prw_ContainerPort := c, prw_Protocol := protocol\<rparr>)"
    using assms chars
    by (simp add: unmarshalPortRaw_def getPortWithMapping_def s Let_def getRangePorts_single g emptyPortRaw_def)
  show "unmarshalPortRaw (Inr (showInt c @ ''/'' @ name))
      = Inr (emptyPortRaw\<lparr>prw_ContainerPort := c, prw_Protocol := protocol\<rparr>)"
    using assms chars
    by (simp add: unmarshalPortRaw_def getPortWithoutMapping_def Let_def getRangePorts_single g emptyPortRaw_def)
  have s: "split (CHR ''-'') (showInt f @ CHR ''-'' # showInt t @ CHR ''/'' # name)
      = [showInt f, showInt t @ CHR ''/'' # name]"
    using assms chars by (intro split_two) auto
  show "unmarshalPortRaw (Inr (showInt f @ ''-'' @ showInt t @ ''/'' @ name))
      = Inr (emptyPortRaw\<lparr>prw_ContainerFrom := f, prw_ContainerTo := t, prw_Protocol := protocol\<rparr>)"
    using assms chars
    by (simp add: unmarshalPortRaw_def getPortWithoutMapping_def getRangePorts_def s Let_def g emptyPortRaw_def)
qed

theorem port_syntax_round_trip_witness:
  "unmarshalPortRaw (Inr ''8080:80/udp'')
     = Inr (emptyPortRaw\<lparr>prw_HostPort := 8080, prw_ContainerPort := 80, prw_Protocol := ProtocolUDP\<rparr>)"
proof -
  have "protocolSyntax ''udp'' ProtocolUDP" by (simp add: protocolSyntax_def)
  from port_syntax_round_trip [OF _ _ _ _ _ _ _ _ this, of 8080 80 1 1]
  have "unmarshalPortRaw (Inr (showInt 8080 @ '':'' @ showInt 80 @ ''/'' @ ''udp''))
     = Inr (emptyPortRaw\<lparr>prw_HostPort := 8080, prw_ContainerPort := 80, prw_Protocol := ProtocolUDP\<rparr>)" by simp
  moreover have "showInt 8080 = ''8080''" "showInt 80 = ''80''"
    by (simp_all add: showInt_def showNat.simps digitChar_def) code_simp+
  ultimately show ?thesis by simp
qed

section \<open>The ports of a service\<close>

lemma validatePort_None:
  "validatePort p ports = None \<longleftrightarrow>
     (\<forall>q \<in> set ports. prw_ContainerPort p \<noteq> p_HostPort q \<and> prw_HostPort p \<noteq> p_ContainerPort q)"
  unfolding validatePort_def by (induction ports) auto

lemma addSvcPorts_apart:
  "addSvcPorts ps ports = Inr ports' \<Longrightarrow> portsApart ports \<Longrightarrow>
     portsApart ports' \<and> ports' = ports @ map portOf ps"
proof (induction ps arbitrary: ports)
  case (Cons p ps)
  then have v: "validatePort p ports = None" and r: "addSvcPorts ps (ports @ [portOf p]) = Inr ports'"
    by (auto split: option.splits)
  have "portsApart (ports @ [portOf p])"
    using Cons.prems(2) v unfolding validatePort_None portsApart_def
    by (auto simp: sorted_wrt_append portOf_def)
  from Cons.IH [OF r this] have a: "portsApart ports'" and e: "ports' = (ports @ [portOf p]) @ map portOf ps"
    by blast+
  show ?case by (intro conjI, rule a) (simp add: e)
qed simp

end
