(* ===== verification/SSHConfig.thy ===== *)
theory SSHConfig
  imports GoPath
begin

text \<open>
  The entries okteto keeps in the user's SSH configuration: \<^verbatim>\<open>src/pkg/ssh/config.go\<close> (the parser and the
  printer of the file) and \<^verbatim>\<open>src/pkg/ssh/ssh.go\<close> (adding, finding and removing the entry of a development
  container). The file is the text it holds, \<open>None\<close> when it does not exist; an operation of the file
  system that fails is an error of the parameter \<open>io\<close>.
\<close>

section \<open>The file\<close>

record param =
  pa_Comments :: "string list"
  pa_Keyword :: string
  pa_Args :: "string list"

record host =
  ho_Comments :: "string list"
  ho_Hostnames :: "string list"
  ho_Params :: "param list"

record sshConfig =
  cf_Globals :: "param list"
  cf_Hosts :: "host list"

definition hostKeyword :: string where
  [go_consts]: "hostKeyword = ''Host''"

definition portKeyword :: string where
  [go_consts]: "portKeyword = ''Port''"

definition strictHostKeyCheckingKeyword :: string where
  [go_consts]: "strictHostKeyCheckingKeyword = ''StrictHostKeyChecking''"

definition newline :: string where
  "newline = [CHR 0x0A]"

subsection \<open>Printing\<close>

definition commentLine :: "string \<Rightarrow> string" where
  "commentLine c = (if hasPrefix c ''#'' then c else ''# '' @ c)"

definition printComments :: "string list \<Rightarrow> string" where
  "printComments cs = concat (map (\<lambda>c. commentLine c @ newline) cs)"

definition paramString :: "param \<Rightarrow> string" where
  "paramString p =
     (if pa_Comments p = [] then [] else newline @ printComments (pa_Comments p))
     @ pa_Keyword p @ '' '' @ join '' '' (pa_Args p) @ newline"

definition hostString :: "host \<Rightarrow> string" where
  "hostString h =
     printComments (ho_Comments h)
     @ hostKeyword @ '' '' @ join '' '' (ho_Hostnames h) @ newline
     @ concat (map (\<lambda>p. ''  '' @ paramString p) (ho_Params h))"

definition writeTo :: "sshConfig \<Rightarrow> string" where
  "writeTo cfg =
     concat (map paramString (cf_Globals cfg)) @ (if cf_Globals cfg = [] then [] else newline)
     @ concat (map hostString (cf_Hosts cfg))"

subsection \<open>Parsing\<close>

text \<open>
  \<open>bufio.Scanner\<close>: lines without their end, up to the first that does not fit into a buffer of 64 KiB;
  and the words of a line.
\<close>

definition MaxScanTokenSize :: nat where
  "MaxScanTokenSize = 65536"

definition dropCR :: "string \<Rightarrow> string" where
  "dropCR l = (if l \<noteq> [] \<and> last l = CHR 0x0D then butlast l else l)"

definition scanLines :: "string \<Rightarrow> string list" where
  "scanLines s =
     (let ls = split (CHR 0x0A) s;
          ls = (if last ls = [] then butlast ls else ls)
      in map dropCR (takeWhile (\<lambda>l. length l < MaxScanTokenSize) ls))"

definition scanWords :: "string \<Rightarrow> string list" where
  "scanWords s = filter (\<lambda>w. w \<noteq> []) (split (CHR '' '') (map (\<lambda>c. if isSpace c then CHR '' '' else c) s))"

text \<open>
  The variables of the loop: the parameters before the first host, the hosts that are complete, the
  host being read (\<open>global\<close> is its absence) and the comments of the parameter being read.
\<close>

record scanState =
  sn_Globals :: "param list"
  sn_Hosts :: "host list"
  sn_Host :: "host option"
  sn_Comments :: "string list"

definition parseLine :: "string \<Rightarrow> scanState \<Rightarrow> scanState" where
  "parseLine text s =
     (let line = trimSpace text
      in case scanWords line of
        [] \<Rightarrow> s
      | keyword # args \<Rightarrow>
          if hd line = CHR ''#'' then s\<lparr>sn_Comments := sn_Comments s @ [line]\<rparr>
          else if keyword = hostKeyword
          then s\<lparr>sn_Hosts := sn_Hosts s @ (case sn_Host s of None \<Rightarrow> [] | Some h \<Rightarrow> [h]),
                 sn_Host := Some \<lparr>ho_Comments = sn_Comments s, ho_Hostnames = args, ho_Params = []\<rparr>,
                 sn_Comments := []\<rparr>
          else
            let p = \<lparr>pa_Comments = sn_Comments s, pa_Keyword = keyword, pa_Args = args\<rparr>
            in case sn_Host s of
                 None \<Rightarrow> s\<lparr>sn_Globals := sn_Globals s @ [p], sn_Comments := []\<rparr>
               | Some h \<Rightarrow> s\<lparr>sn_Host := Some (h\<lparr>ho_Params := ho_Params h @ [p]\<rparr>), sn_Comments := []\<rparr>)"

definition finishParse :: "scanState \<Rightarrow> sshConfig" where
  "finishParse s =
     (case sn_Host s of
        None \<Rightarrow> \<lparr>cf_Globals = sn_Globals s @ [\<lparr>pa_Comments = sn_Comments s, pa_Keyword = [], pa_Args = []\<rparr>],
                 cf_Hosts = sn_Hosts s\<rparr>
      | Some h \<Rightarrow> \<lparr>cf_Globals = sn_Globals s, cf_Hosts = sn_Hosts s @ [h]\<rparr>)"

definition startScan :: scanState where
  "startScan = \<lparr>sn_Globals = [], sn_Hosts = [], sn_Host = None, sn_Comments = []\<rparr>"

definition parse :: "string \<Rightarrow> sshConfig" where
  "parse text = finishParse (fold parseLine (scanLines text) startScan)"

section \<open>Entries\<close>

definition getParam :: "string \<Rightarrow> host \<Rightarrow> param option" where
  "getParam keyword h = find (\<lambda>p. pa_Keyword p = keyword) (ho_Params h)"

definition paramValue :: "param \<Rightarrow> string" where
  "paramValue p = (case pa_Args p of [] \<Rightarrow> [] | a # _ \<Rightarrow> a)"

text \<open>An entry of okteto for a name: the name with a port and a setting for the checking of keys.\<close>

definition isEntry :: "string \<Rightarrow> host \<Rightarrow> bool" where
  "isEntry name h \<longleftrightarrow>
     name \<in> set (ho_Hostnames h) \<and> getParam portKeyword h \<noteq> None \<and> getParam strictHostKeyCheckingKeyword h \<noteq> None"

fun findHostFrom :: "nat \<Rightarrow> host list \<Rightarrow> string \<Rightarrow> nat option" where
  "findHostFrom i [] name = None"
| "findHostFrom i (h # hs) name = (if isEntry name h then Some i else findHostFrom (Suc i) hs name)"

definition findHost :: "sshConfig \<Rightarrow> string \<Rightarrow> nat option" where
  "findHost cfg name = findHostFrom 0 (cf_Hosts cfg) name"

definition removeHost :: "string \<Rightarrow> sshConfig \<Rightarrow> sshConfig \<times> bool" where
  "removeHost name cfg =
     (case findHost cfg name of
        Some ix \<Rightarrow> (cfg\<lparr>cf_Hosts := take ix (cf_Hosts cfg) @ drop (Suc ix) (cf_Hosts cfg)\<rparr>, True)
      | None \<Rightarrow> (cfg, False))"

definition newParam :: "string \<Rightarrow> string list \<Rightarrow> param" where
  "newParam keyword args = \<lparr>pa_Comments = [], pa_Keyword = keyword, pa_Args = args\<rparr>"

definition buildHostname :: "string \<Rightarrow> string" where
  "buildHostname name = name @ ''.okteto''"

definition oktetoHost :: "string \<Rightarrow> string \<Rightarrow> string \<Rightarrow> int \<Rightarrow> host" where
  "oktetoHost privateKey name iface port =
     \<lparr>ho_Comments = [''entry generated by okteto''], ho_Hostnames = [name],
      ho_Params =
        [newParam ''ForwardAgent'' [''yes''],
         newParam ''PubkeyAcceptedKeyTypes'' [''+ecdsa-sha2-nistp256''],
         newParam ''HostKeyAlgorithms'' [''+ecdsa-sha2-nistp256''],
         newParam ''HostName'' [iface],
         newParam portKeyword [showInt port],
         newParam strictHostKeyCheckingKeyword [''no''],
         newParam ''UserKnownHostsFile'' [''/dev/null''],
         newParam ''IdentityFile'' [[CHR 0x22] @ privateKey @ [CHR 0x22]],
         newParam ''IdentitiesOnly'' [''yes'']]\<rparr>"

subsection \<open>The file on disk\<close>

datatype sshOp = OpOpen | OpRead | OpStat | OpCreateTemp | OpWrite | OpClose | OpChmod | OpReopen | OpRename

datatype sshErr =
    CannotOpen string | CannotDecode string | CannotUpdate sshOp string
  | EntryNotFound | PortNotFound | InvalidPort string

type_synonym sshIO = "sshOp \<Rightarrow> string option"

definition getConfig :: "sshIO \<Rightarrow> string option \<Rightarrow> sshErr + sshConfig" where
  "getConfig io file =
     (case file of
        None \<Rightarrow> Inr \<lparr>cf_Globals = [], cf_Hosts = []\<rparr>
      | Some text \<Rightarrow>
          (case io OpOpen of
             Some e \<Rightarrow> Inl (CannotOpen e)
           | None \<Rightarrow> (case io OpRead of Some e \<Rightarrow> Inl (CannotDecode e) | None \<Rightarrow> Inr (parse text))))"

text \<open>The operations on the temporary file that replaces the configuration, in their order.\<close>

definition writeToFilepath :: "sshIO \<Rightarrow> sshConfig \<Rightarrow> sshErr + string" where
  "writeToFilepath io cfg =
     (case find (\<lambda>op. io op \<noteq> None) [OpStat, OpCreateTemp, OpWrite, OpClose, OpChmod, OpReopen, OpRename] of
        Some op \<Rightarrow> Inl (CannotUpdate op (the (io op)))
      | None \<Rightarrow> Inr (writeTo cfg))"

definition add :: "sshIO \<Rightarrow> string \<Rightarrow> string option \<Rightarrow> string \<Rightarrow> string \<Rightarrow> int \<Rightarrow> sshErr + string" where
  "add io privateKey file name iface port =
     (case getConfig io file of
        Inl e \<Rightarrow> Inl e
      | Inr cfg \<Rightarrow>
          let cfg = fst (removeHost name cfg)
          in writeToFilepath io (cfg\<lparr>cf_Hosts := cf_Hosts cfg @ [oktetoHost privateKey name iface port]\<rparr>))"

definition AddEntry :: "sshIO \<Rightarrow> string \<Rightarrow> string option \<Rightarrow> string \<Rightarrow> string \<Rightarrow> int \<Rightarrow> sshErr + string" where
  "AddEntry io privateKey file name iface port = add io privateKey file (buildHostname name) iface port"

text \<open>The text of the file afterwards; a file without the entry is not written.\<close>

definition remove :: "sshIO \<Rightarrow> string option \<Rightarrow> string \<Rightarrow> sshErr + string option" where
  "remove io file name =
     (case getConfig io file of
        Inl e \<Rightarrow> Inl e
      | Inr cfg \<Rightarrow>
          (case removeHost name cfg of
             (cfg, True) \<Rightarrow> (case writeToFilepath io cfg of Inl e \<Rightarrow> Inl e | Inr text \<Rightarrow> Inr (Some text))
           | (_, False) \<Rightarrow> Inr file))"

definition RemoveEntry :: "sshIO \<Rightarrow> string option \<Rightarrow> string \<Rightarrow> sshErr + string option" where
  "RemoveEntry io file name = remove io file (buildHostname name)"

definition GetPort :: "sshIO \<Rightarrow> string option \<Rightarrow> string \<Rightarrow> sshErr + int" where
  "GetPort io file name =
     (case getConfig io file of
        Inl e \<Rightarrow> Inl e
      | Inr cfg \<Rightarrow>
          (case findHost cfg (buildHostname name) of
             None \<Rightarrow> Inl EntryNotFound
           | Some i \<Rightarrow>
               (case getParam portKeyword (cf_Hosts cfg ! i) of
                  None \<Rightarrow> Inl PortNotFound
                | Some p \<Rightarrow>
                    (case parseInt 64 (paramValue p) of
                       None \<Rightarrow> Inl (InvalidPort (paramValue p))
                     | Some port \<Rightarrow> Inr port))))"

section \<open>Words and lines\<close>

definition plainWord :: "string \<Rightarrow> bool" where
  "plainWord w \<longleftrightarrow> w \<noteq> [] \<and> list_all (\<lambda>c. \<not> isSpace c) w"

abbreviation spaced :: "string \<Rightarrow> string" where
  "spaced s \<equiv> map (\<lambda>c. if isSpace c then CHR '' '' else c) s"

lemma isSpace_blank [simp]: "isSpace CHR '' ''"
  by (simp add: isSpace_def)

lemma spaced_plainWord [simp]: "plainWord w \<Longrightarrow> spaced w = w"
  by (auto simp: plainWord_def list_all_iff intro: map_idI)

lemma split_snoc: "split c (s @ [c]) = split c s @ [[]]"
  by (induction s) (auto split: list.splits)

lemma scanWords_Cons_space [simp]: "isSpace c \<Longrightarrow> scanWords (c # s) = scanWords s"
  by (simp add: scanWords_def)

lemma scanWords_snoc_space: "isSpace c \<Longrightarrow> scanWords (s @ [c]) = scanWords s"
  by (simp add: scanWords_def split_snoc)

lemma scanWords_dropWhile: "scanWords (dropWhile isSpace s) = scanWords s"
  by (induction s) simp_all

lemma scanWords_rev_dropWhile: "scanWords (rev (dropWhile isSpace s)) = scanWords (rev s)"
  by (induction s) (simp_all add: scanWords_snoc_space)

lemma scanWords_trimSpace [simp]: "scanWords (trimSpace s) = scanWords s"
  by (simp add: trimSpace_def scanWords_rev_dropWhile scanWords_dropWhile)

lemma spaced_join: "spaced (join '' '' ws) = join '' '' (map spaced ws)"
  by (induction "'' ''" ws rule: join.induct) simp_all

lemma scanWords_join:
  assumes "list_all plainWord ws"
  shows "scanWords (join '' '' ws) = ws"
proof (cases "ws = []")
  case True
  then show ?thesis by (simp add: scanWords_def)
next
  case False
  have "spaced w = w" if "w \<in> set ws" for w
    using that assms by (intro spaced_plainWord) (simp add: list_all_iff)
  then have m: "map spaced ws = ws" by (rule map_idI)
  have "split (CHR '' '') (join '' '' ws) = ws"
    using False assms by (intro split_join) (auto simp: list_all_iff plainWord_def isSpace_def)
  moreover have "filter (\<lambda>w. w \<noteq> []) ws = ws"
    using assms by (intro filter_True) (simp add: list_all_iff plainWord_def)
  ultimately show ?thesis unfolding scanWords_def spaced_join m by simp
qed

lemma scanWords_line:
  assumes "plainWord k" and "list_all plainWord ws"
  shows "scanWords (k @ '' '' @ join '' '' ws) = k # ws"
proof (cases ws)
  case Nil
  then show ?thesis
    using assms scanWords_join [of "[k]"] scanWords_snoc_space [of "CHR '' ''" k] by simp
next
  case (Cons w ws')
  with assms scanWords_join [of "k # ws"] show ?thesis by simp
qed

lemma scanWords_first:
  assumes "\<not> isSpace c"
  shows "\<exists>k ws. scanWords (c # s) = (c # k) # ws"
proof -
  have "c \<noteq> CHR '' ''" using assms by auto
  then show ?thesis
    using assms by (auto simp: scanWords_def split: list.splits)
qed

lemma trimSpace_cases: "trimSpace s = [] \<or> (\<exists>c t. trimSpace s = c # t \<and> \<not> isSpace c)"
proof -
  let ?t = "dropWhile isSpace s"
  show ?thesis
  proof (cases ?t)
    case Nil
    show ?thesis unfolding trimSpace_def Nil by simp
  next
    case (Cons c t)
    then have c: "\<not> isSpace c"
      by (metis dropWhile_eq_Cons_conv)
    then have "dropWhile isSpace (rev t @ [c]) = dropWhile isSpace (rev t) @ [c]"
      by (simp add: dropWhile_append3)
    with c show ?thesis unfolding trimSpace_def Cons by simp
  qed
qed

lemma hd_trimSpace:
  assumes "scanWords s = k # ws"
  shows "hd (trimSpace s) = hd k"
  using trimSpace_cases [of s]
proof
  assume "trimSpace s = []"
  then have "scanWords s = []" using scanWords_trimSpace [of s] by (simp add: scanWords_def)
  with assms show ?thesis by simp
next
  assume "\<exists>c t. trimSpace s = c # t \<and> \<not> isSpace c"
  then obtain c t where c: "trimSpace s = c # t" "\<not> isSpace c" by blast
  with scanWords_first [of c t] scanWords_trimSpace [of s] assms show ?thesis by auto
qed

definition unlines :: "string list \<Rightarrow> string" where
  "unlines ls = concat (map (\<lambda>l. l @ newline) ls)"

lemma unlines_simps [simp]:
  "unlines [] = []" "unlines (l # ls) = l @ newline @ unlines ls" "unlines (ls @ ls') = unlines ls @ unlines ls'"
  by (simp_all add: unlines_def)

lemma split_line: "c \<notin> set l \<Longrightarrow> split c (l @ c # s) = l # split c s"
  by (induction l) auto

lemma split_unlines: "\<forall>l \<in> set ls. CHR 0x0A \<notin> set l \<Longrightarrow> split (CHR 0x0A) (unlines ls) = ls @ [[]]"
  by (induction ls) (simp_all add: newline_def split_line)

definition plainLine :: "string \<Rightarrow> bool" where
  "plainLine l \<longleftrightarrow> CHR 0x0A \<notin> set l \<and> length l < MaxScanTokenSize \<and> (l = [] \<or> last l \<noteq> CHR 0x0D)"

lemma scanLines_unlines: "list_all plainLine ls \<Longrightarrow> scanLines (unlines ls) = ls"
proof -
  assume p: "list_all plainLine ls"
  then have "split (CHR 0x0A) (unlines ls) = ls @ [[]]"
    by (intro split_unlines) (simp add: list_all_iff plainLine_def)
  moreover have "takeWhile (\<lambda>l. length l < MaxScanTokenSize) ls = ls"
    using p by (simp add: takeWhile_eq_all_conv list_all_iff plainLine_def)
  moreover have "map dropCR ls = ls"
    using p by (intro map_idI) (auto simp: list_all_iff plainLine_def dropCR_def)
  ultimately show ?thesis by (simp add: scanLines_def del: takeWhile_eq_all_conv)
qed


section \<open>The lines of a configuration\<close>

fun paramLines :: "param \<Rightarrow> string list" where
  "paramLines p = (if pa_Comments p = [] then [] else [] # map commentLine (pa_Comments p))
     @ [pa_Keyword p @ '' '' @ join '' '' (pa_Args p)]"

fun indentFirst :: "string list \<Rightarrow> string list" where
  "indentFirst [] = []"
| "indentFirst (l # ls) = (''  '' @ l) # ls"

definition hostLines :: "host \<Rightarrow> string list" where
  "hostLines h = map commentLine (ho_Comments h) @ [hostKeyword @ '' '' @ join '' '' (ho_Hostnames h)]
     @ concat (map (\<lambda>p. indentFirst (paramLines p)) (ho_Params h))"

definition configLines :: "sshConfig \<Rightarrow> string list" where
  "configLines cfg = concat (map paramLines (cf_Globals cfg)) @ (if cf_Globals cfg = [] then [] else [[]])
     @ concat (map hostLines (cf_Hosts cfg))"

lemma unlines_comments: "unlines (map commentLine cs) = printComments cs"
  by (induction cs) (simp_all add: printComments_def)

lemma unlines_paramLines: "unlines (paramLines p) = paramString p"
  by (simp add: paramString_def unlines_comments)

lemma unlines_indentFirst: "ls \<noteq> [] \<Longrightarrow> unlines (indentFirst ls) = ''  '' @ unlines ls"
  by (cases ls) simp_all

lemma unlines_concat: "unlines (concat lss) = concat (map unlines lss)"
  by (induction lss) simp_all

lemma unlines_hostLines: "unlines (hostLines h) = hostString h"
proof -
  have "paramLines p \<noteq> []" for p by simp
  then show ?thesis
    by (simp add: hostLines_def hostString_def unlines_comments unlines_concat comp_def
        unlines_indentFirst unlines_paramLines del: paramLines.simps)
qed

lemma writeTo_unlines: "writeTo cfg = unlines (configLines cfg)"
  by (simp add: writeTo_def configLines_def unlines_concat comp_def unlines_hostLines unlines_paramLines
      del: paramLines.simps)

section \<open>Reading what was printed\<close>

definition plainComment :: "string \<Rightarrow> bool" where
  "plainComment c \<longleftrightarrow> hasPrefix c ''#'' \<and> trimSpace c = c \<and> CHR 0x0A \<notin> set c"

definition plainParam :: "param \<Rightarrow> bool" where
  "plainParam p \<longleftrightarrow> list_all plainComment (pa_Comments p) \<and> plainWord (pa_Keyword p)
     \<and> hd (pa_Keyword p) \<noteq> CHR ''#'' \<and> pa_Keyword p \<noteq> hostKeyword \<and> list_all plainWord (pa_Args p)"

definition plainHost :: "host \<Rightarrow> bool" where
  "plainHost h \<longleftrightarrow> list_all plainComment (ho_Comments h) \<and> list_all plainWord (ho_Hostnames h)
     \<and> list_all plainParam (ho_Params h)"

lemma parse_comment:
  assumes "plainComment c"
  shows "parseLine (commentLine c) s = s\<lparr>sn_Comments := sn_Comments s @ [c]\<rparr>"
proof -
  obtain t where c: "c = CHR ''#'' # t" "trimSpace c = c"
    using assms by (cases c) (auto simp: plainComment_def hasPrefix_def)
  moreover obtain k ws where "scanWords c = (CHR ''#'' # k) # ws"
    using scanWords_first [of "CHR ''#''" t] c(1) by (auto simp: isSpace_def)
  ultimately show ?thesis
    using assms by (simp add: parseLine_def commentLine_def plainComment_def)
qed

lemma parse_comments:
  "list_all plainComment cs \<Longrightarrow>
     fold parseLine (map commentLine cs) s = s\<lparr>sn_Comments := sn_Comments s @ cs\<rparr>"
  by (induction cs arbitrary: s) (simp_all add: parse_comment)

lemma parse_blank [simp]: "parseLine [] s = s" "parseLine '' '' s = s" "parseLine ''  '' s = s"
  by (simp_all add: parseLine_def Let_def) (simp_all add: scanWords_def)

lemma parse_keyword:
  assumes "plainWord k" "list_all plainWord ws" "hd k \<noteq> CHR ''#''" "scanWords l = k # ws"
  shows "parseLine l s =
     (if k = hostKeyword
      then s\<lparr>sn_Hosts := sn_Hosts s @ (case sn_Host s of None \<Rightarrow> [] | Some h \<Rightarrow> [h]),
             sn_Host := Some \<lparr>ho_Comments = sn_Comments s, ho_Hostnames = ws, ho_Params = []\<rparr>, sn_Comments := []\<rparr>
      else let p = \<lparr>pa_Comments = sn_Comments s, pa_Keyword = k, pa_Args = ws\<rparr>
            in case sn_Host s of
                 None \<Rightarrow> s\<lparr>sn_Globals := sn_Globals s @ [p], sn_Comments := []\<rparr>
               | Some h \<Rightarrow> s\<lparr>sn_Host := Some (h\<lparr>ho_Params := ho_Params h @ [p]\<rparr>), sn_Comments := []\<rparr>)"
  using assms hd_trimSpace [OF assms(4)] by (simp add: parseLine_def Let_def)

definition pushParam :: "param \<Rightarrow> scanState \<Rightarrow> scanState" where
  "pushParam p s = (case sn_Host s of
       None \<Rightarrow> s\<lparr>sn_Globals := sn_Globals s @ [p]\<rparr>
     | Some h \<Rightarrow> s\<lparr>sn_Host := Some (h\<lparr>ho_Params := ho_Params h @ [p]\<rparr>)\<rparr>)"

lemma parse_param:
  assumes p: "plainParam p" and c: "sn_Comments s = []"
  shows "fold parseLine (paramLines p) s = pushParam p s"
    and "fold parseLine (indentFirst (paramLines p)) s = pushParam p s"
proof -
  note w = p [unfolded plainParam_def]
  have l: "scanWords (pa_Keyword p @ '' '' @ join '' '' (pa_Args p)) = pa_Keyword p # pa_Args p"
    using w by (intro scanWords_line) auto
  have k: "parseLine (b @ pa_Keyword p @ '' '' @ join '' '' (pa_Args p)) (s\<lparr>sn_Comments := pa_Comments p\<rparr>)
      = pushParam p s" if "b \<in> {[], ''  ''}" for b
  proof -
    have "scanWords (b @ pa_Keyword p @ '' '' @ join '' '' (pa_Args p)) = pa_Keyword p # pa_Args p"
      using that l by auto
    from parse_keyword [OF _ _ _ this] w show ?thesis
      by (simp add: pushParam_def Let_def c split: option.split)
  qed
  have s: "s\<lparr>sn_Comments := []\<rparr> = s"
    using c by simp
  have cs: "fold parseLine (map commentLine (pa_Comments p)) s = s\<lparr>sn_Comments := pa_Comments p\<rparr>"
    using w c by (simp add: parse_comments)
  show "fold parseLine (paramLines p) s = pushParam p s"
    using k [of "[]"] cs s by (cases "pa_Comments p = []") simp_all
  show "fold parseLine (indentFirst (paramLines p)) s = pushParam p s"
    using k [of "[]"] k [of "''  ''"] cs s by (cases "pa_Comments p = []") simp_all
qed

lemma pushParam_comments [simp]: "sn_Comments (pushParam p s) = sn_Comments s"
  by (simp add: pushParam_def split: option.split)

lemma parse_globals:
  "list_all plainParam ps \<Longrightarrow> sn_Comments s = [] \<Longrightarrow> sn_Host s = None \<Longrightarrow>
     fold parseLine (concat (map paramLines ps)) s = s\<lparr>sn_Globals := sn_Globals s @ ps\<rparr>"
  by (induction ps arbitrary: s) (simp_all add: parse_param pushParam_def del: paramLines.simps)

lemma parse_params:
  "list_all plainParam ps \<Longrightarrow> sn_Comments s = [] \<Longrightarrow> sn_Host s = Some h \<Longrightarrow>
     fold parseLine (concat (map (\<lambda>p. indentFirst (paramLines p)) ps)) s
     = s\<lparr>sn_Host := Some (h\<lparr>ho_Params := ho_Params h @ ps\<rparr>)\<rparr>"
  by (induction ps arbitrary: s h) (simp_all add: parse_param pushParam_def del: paramLines.simps)

definition putComments :: "string list \<Rightarrow> host \<Rightarrow> host" where
  "putComments cs h = h\<lparr>ho_Comments := cs @ ho_Comments h\<rparr>"

lemma putComments_Nil [simp]: "putComments [] h = h"
  by (simp add: putComments_def)

lemma parse_host:
  assumes h: "plainHost h"
  shows "fold parseLine (hostLines h) s =
     s\<lparr>sn_Hosts := sn_Hosts s @ (case sn_Host s of None \<Rightarrow> [] | Some h \<Rightarrow> [h]),
       sn_Host := Some (putComments (sn_Comments s) h), sn_Comments := []\<rparr>"
proof -
  note w = h [unfolded plainHost_def]
  have k: "plainWord hostKeyword" "hd hostKeyword \<noteq> CHR ''#''"
    by (simp_all add: hostKeyword_def plainWord_def isSpace_def)
  have l: "scanWords (hostKeyword @ '' '' @ join '' '' (ho_Hostnames h)) = hostKeyword # ho_Hostnames h"
    using w k by (intro scanWords_line) auto
  have "parseLine (hostKeyword @ '' '' @ join '' '' (ho_Hostnames h)) s' =
      s'\<lparr>sn_Hosts := sn_Hosts s' @ (case sn_Host s' of None \<Rightarrow> [] | Some h \<Rightarrow> [h]),
         sn_Host := Some \<lparr>ho_Comments = sn_Comments s', ho_Hostnames = ho_Hostnames h, ho_Params = []\<rparr>,
         sn_Comments := []\<rparr>" for s'
    using w parse_keyword [OF k(1) _ k(2) l, of s'] by simp
  note line = this [simplified]
  show ?thesis
    using w by (simp add: hostLines_def parse_comments line parse_params putComments_def
        del: paramLines.simps)
qed

lemma parse_hosts:
  "list_all plainHost hs \<Longrightarrow> sn_Comments s = [] \<Longrightarrow>
     fold parseLine (concat (map hostLines hs)) s =
       (if hs = [] then s
        else s\<lparr>sn_Hosts := sn_Hosts s @ (case sn_Host s of None \<Rightarrow> [] | Some h \<Rightarrow> [h]) @ butlast hs,
               sn_Host := Some (last hs)\<rparr>)"
  by (induction hs arbitrary: s) (simp_all add: parse_host)

subsection \<open>Printed lines are lines\<close>

definition fitsBuffer :: "sshConfig \<Rightarrow> bool" where
  "fitsBuffer cfg \<longleftrightarrow> list_all (\<lambda>l. length l < MaxScanTokenSize) (configLines cfg)"

definition cleanLine :: "string \<Rightarrow> bool" where
  "cleanLine l \<longleftrightarrow> CHR 0x0A \<notin> set l \<and> (l = [] \<or> last l \<noteq> CHR 0x0D)"

lemma plainLine_iff: "plainLine l \<longleftrightarrow> cleanLine l \<and> length l < MaxScanTokenSize"
  by (auto simp: plainLine_def cleanLine_def)

lemma trimmed_last: "trimSpace c = c \<Longrightarrow> c \<noteq> [] \<Longrightarrow> \<not> isSpace (last c)"
proof -
  assume t: "trimSpace c = c" and n: "c \<noteq> []"
  let ?r = "dropWhile isSpace (rev (dropWhile isSpace c))"
  have r: "rev ?r = c" using t by (simp add: trimSpace_def)
  have "?r \<noteq> []" using r n by (metis rev.simps(1))
  then have "\<not> isSpace (hd ?r)" by (rule hd_dropWhile)
  moreover have "last c = hd ?r" using r by (metis last_rev)
  ultimately show ?thesis by simp
qed

lemma clean_comment: "plainComment c \<Longrightarrow> cleanLine (commentLine c)"
  using trimmed_last [of c] by (cases "c = []")
    (auto simp: plainComment_def cleanLine_def commentLine_def isSpace_def)

lemma clean_words: "list_all plainWord ws \<Longrightarrow> cleanLine (join '' '' ws)"
proof -
  assume w: "list_all plainWord ws"
  have "set (join '' '' ws) \<subseteq> insert (CHR '' '') (\<Union> (set ` set ws))"
    by (induction "'' ''" ws rule: join.induct) auto
  moreover have "\<forall>v \<in> set ws. \<forall>c \<in> set v. \<not> isSpace c"
    using w by (simp add: list_all_iff plainWord_def)
  ultimately have "\<forall>c \<in> set (join '' '' ws). c = CHR '' '' \<or> \<not> isSpace c" by blast
  moreover have "isSpace (CHR 0x0A)" "isSpace (CHR 0x0D)" by (simp_all add: isSpace_def)
  ultimately have "CHR 0x0A \<notin> set (join '' '' ws)" "CHR 0x0D \<notin> set (join '' '' ws)" by force+
  then show ?thesis unfolding cleanLine_def by (metis last_in_set)
qed

lemma clean_keyword_line:
  "plainWord k \<Longrightarrow> list_all plainWord ws \<Longrightarrow> cleanLine (k @ '' '' @ join '' '' ws)"
  using clean_words [of "[k]"] clean_words [of ws] by (auto simp: cleanLine_def)

lemma clean_indent: "list_all cleanLine ls \<Longrightarrow> list_all cleanLine (indentFirst ls)"
  by (cases ls) (auto simp: cleanLine_def)

lemma clean_paramLines: "plainParam p \<Longrightarrow> list_all cleanLine (paramLines p)"
  using clean_keyword_line [of "pa_Keyword p" "pa_Args p"] clean_comment
  by (auto simp: plainParam_def list_all_iff cleanLine_def [of "[]"] simp del: append.simps)

lemma clean_hostLines: "plainHost h \<Longrightarrow> list_all cleanLine (hostLines h)"
proof -
  assume h: "plainHost h"
  have "cleanLine (hostKeyword @ '' '' @ join '' '' (ho_Hostnames h))"
    using h by (intro clean_keyword_line) (simp_all add: plainHost_def hostKeyword_def plainWord_def isSpace_def)
  moreover have "list_all cleanLine (indentFirst (paramLines p))" if "p \<in> set (ho_Params h)" for p
    using h that by (intro clean_indent clean_paramLines) (simp add: plainHost_def list_all_iff)
  moreover have "list_all cleanLine (map commentLine (ho_Comments h))"
    using h clean_comment by (simp add: plainHost_def list_all_iff)
  ultimately show ?thesis
    by (auto simp: hostLines_def list_all_iff simp del: append.simps paramLines.simps)
qed

definition plainConfig :: "sshConfig \<Rightarrow> bool" where
  "plainConfig cfg \<longleftrightarrow> list_all plainParam (cf_Globals cfg) \<and> list_all plainHost (cf_Hosts cfg)"

lemma clean_configLines: "plainConfig cfg \<Longrightarrow> list_all cleanLine (configLines cfg)"
  using clean_paramLines clean_hostLines
  by (auto simp: plainConfig_def configLines_def list_all_iff cleanLine_def [of "[]"] simp del: paramLines.simps)

lemma config_round_trip':
  assumes "plainConfig cfg" and "cf_Hosts cfg \<noteq> []" and "fitsBuffer cfg"
  shows "parse (writeTo cfg) = cfg"
proof -
  have l: "list_all plainLine (configLines cfg)"
    using assms(1,3) clean_configLines by (simp add: fitsBuffer_def plainLine_iff list_all_iff)
  have "fold parseLine (configLines cfg) startScan =
      \<lparr>sn_Globals = cf_Globals cfg, sn_Hosts = butlast (cf_Hosts cfg), sn_Host = Some (last (cf_Hosts cfg)),
       sn_Comments = []\<rparr>"
    using assms(1,2) by (simp add: plainConfig_def configLines_def startScan_def parse_globals parse_hosts)
  then show ?thesis
    using assms(2) l by (simp add: parse_def writeTo_unlines scanLines_unlines finishParse_def)
qed

section \<open>What the parser accepts\<close>

lemma trimSpace_idem: "trimSpace (trimSpace s) = trimSpace s"
proof -
  define t where "t = dropWhile isSpace s"
  define u where "u = rev (dropWhile isSpace (rev t))"
  obtain zs where "rev t = zs @ dropWhile isSpace (rev t)"
    using suffix_dropWhile [of isSpace "rev t"] by (auto simp: suffix_def)
  then have t: "t = u @ rev zs"
    by (metis u_def rev_append rev_rev_ident)
  have "dropWhile isSpace u = u"
  proof (cases u)
    case (Cons c u')
    with t have "hd t = c" "t \<noteq> []" by simp_all
    then have "\<not> isSpace c" unfolding t_def by (metis hd_dropWhile)
    with Cons show ?thesis by simp
  qed simp
  then show ?thesis
    by (simp add: trimSpace_def t_def [symmetric] u_def [symmetric]) (simp add: u_def)
qed

lemma split_subset: "w \<in> set (split c s) \<Longrightarrow> set w \<subseteq> set s"
  by (induction s arbitrary: w) (fastforce split: if_splits list.splits)+

lemma scanWords_plain: "list_all plainWord (scanWords s)"
proof -
  have "plainWord w" if w: "w \<in> set (split (CHR '' '') (spaced s))" "w \<noteq> []" for w
    using w(2) split_no_sep [OF w(1)] split_subset [OF w(1)] by (auto simp: plainWord_def list_all_iff)
  then show ?thesis by (simp add: scanWords_def list_all_iff)
qed

definition plainScan :: "scanState \<Rightarrow> bool" where
  "plainScan s \<longleftrightarrow> list_all plainParam (sn_Globals s) \<and> list_all plainHost (sn_Hosts s)
     \<and> (case sn_Host s of None \<Rightarrow> sn_Hosts s = [] | Some h \<Rightarrow> plainHost h) \<and> list_all plainComment (sn_Comments s)"

lemma trimSpace_subset: "set (trimSpace s) \<subseteq> set s"
  unfolding trimSpace_def by (metis set_dropWhileD set_rev subsetI)

lemma plainScan_parseLine:
  assumes s: "plainScan s" and nl: "CHR 0x0A \<notin> set l"
  shows "plainScan (parseLine l s)"
proof (cases "scanWords l")
  case Nil
  with s show ?thesis by (simp add: parseLine_def)
next
  case (Cons k ws)
  have w: "plainWord k" "list_all plainWord ws" using scanWords_plain [of l] Cons by simp_all
  have hd: "hd (trimSpace l) = hd k" using Cons by (rule hd_trimSpace)
  show ?thesis
  proof (cases "hd k = CHR ''#''")
    case True
    have "trimSpace l \<noteq> []"
    proof
      assume "trimSpace l = []"
      then have "scanWords l = []" using scanWords_trimSpace [of l] by (simp add: scanWords_def)
      with Cons show False by simp
    qed
    with True hd obtain t where t: "trimSpace l = CHR ''#'' # t" by (cases "trimSpace l") auto
    then have "plainComment (trimSpace l)"
      using nl trimSpace_subset [of l] trimSpace_idem [of l] by (auto simp: plainComment_def hasPrefix_def)
    with s Cons hd True show ?thesis
      by (cases "sn_Host s") (auto simp: parseLine_def plainScan_def)
  next
    case False
    then have p: "k \<noteq> hostKeyword \<Longrightarrow> plainParam \<lparr>pa_Comments = sn_Comments s, pa_Keyword = k, pa_Args = ws\<rparr>"
      and h: "plainHost \<lparr>ho_Comments = sn_Comments s, ho_Hostnames = ws, ho_Params = []\<rparr>"
      using w s by (simp_all add: plainParam_def plainHost_def plainScan_def)
    show ?thesis
      using s p h parse_keyword [OF w False Cons, of s]
      by (cases "sn_Host s") (auto simp: plainScan_def plainHost_def Let_def)
  qed
qed

lemma scanLines_no_newline: "l \<in> set (scanLines s) \<Longrightarrow> CHR 0x0A \<notin> set l"
proof -
  assume "l \<in> set (scanLines s)"
  then obtain l' where l': "l' \<in> set (split (CHR 0x0A) s)" "l = dropCR l'"
    by (auto simp: scanLines_def Let_def dest!: set_takeWhileD in_set_butlastD split: if_splits)
  from split_no_sep [OF l'(1)] l'(2) show ?thesis
    by (auto simp: dropCR_def dest: in_set_butlastD split: if_splits)
qed

lemma plainScan_parse: "plainScan (fold parseLine (scanLines text) startScan)"
proof -
  have "(\<forall>l \<in> set ls. CHR 0x0A \<notin> set l) \<Longrightarrow> plainScan s \<Longrightarrow> plainScan (fold parseLine ls s)" for ls s
    by (induction ls arbitrary: s) (simp_all add: plainScan_parseLine)
  then show ?thesis
    using scanLines_no_newline by (simp add: plainScan_def startScan_def)
qed

text \<open>What is read has only words in it, but for the parameter that ends a file without a host.\<close>

lemma parse_plain:
  obtains (someHost) "plainConfig (parse text) \<and> cf_Hosts (parse text) \<noteq> []"
  | (noHost) gs cs where "parse text = \<lparr>cf_Globals = gs @ [\<lparr>pa_Comments = cs, pa_Keyword = [], pa_Args = []\<rparr>], cf_Hosts = []\<rparr>"
      "list_all plainParam gs" "list_all plainComment cs"
proof (cases "sn_Host (fold parseLine (scanLines text) startScan)")
  case None
  with plainScan_parse [of "text"] show ?thesis
    by (intro noHost) (auto simp: parse_def finishParse_def plainScan_def)
next
  case (Some h)
  with plainScan_parse [of "text"] show ?thesis
    by (intro someHost) (auto simp: parse_def finishParse_def plainScan_def plainConfig_def)
qed

section \<open>Entries\<close>

lemma findHostFrom_shift: "findHostFrom i hs name = map_option ((+) i) (findHostFrom 0 hs name)"
proof (induction hs arbitrary: i)
  case (Cons h hs)
  from Cons [of "Suc i"] Cons [of "Suc 0"] show ?case
    by (cases "findHostFrom 0 hs name") simp_all
qed simp

lemma removed_single:
  "length (filter (isEntry name) hs) \<le> 1 \<Longrightarrow>
     (case findHostFrom 0 hs name of None \<Rightarrow> hs | Some ix \<Rightarrow> take ix hs @ drop (Suc ix) hs)
     = filter (\<lambda>h. \<not> isEntry name h) hs"
proof (induction hs)
  case (Cons h hs)
  show ?case
  proof (cases "isEntry name h")
    case True
    then have "filter (isEntry name) hs = []" using Cons.prems by simp
    with True show ?thesis by (simp add: filter_empty_conv filter_id_conv)
  next
    case False
    with Cons show ?thesis
      by (cases "findHostFrom 0 hs name") (simp_all add: findHostFrom_shift [of "Suc 0"])
  qed
qed simp

lemma removeHost_single:
  "length (filter (isEntry name) (cf_Hosts cfg)) \<le> 1 \<Longrightarrow>
     fst (removeHost name cfg) = cfg\<lparr>cf_Hosts := filter (\<lambda>h. \<not> isEntry name h) (cf_Hosts cfg)\<rparr>"
  using removed_single [of name "cf_Hosts cfg"]
  by (cases "findHost cfg name") (simp_all add: removeHost_def findHost_def)

lemma findHostFrom_snoc:
  "\<forall>h \<in> set hs. \<not> isEntry name h \<Longrightarrow> isEntry name h' \<Longrightarrow> findHostFrom 0 (hs @ [h']) name = Some (length hs)"
  by (induction hs) (simp_all add: findHostFrom_shift [of "Suc 0"])

definition rereadHost :: "host \<Rightarrow> host" where
  "rereadHost h = h\<lparr>ho_Comments := map commentLine (ho_Comments h)\<rparr>"

lemma commentLine_idem [simp]: "commentLine (commentLine c) = commentLine c"
  by (auto simp: commentLine_def hasPrefix_def)

lemma writeTo_reread:
  "writeTo (cfg\<lparr>cf_Hosts := hs @ [rereadHost h]\<rparr>) = writeTo (cfg\<lparr>cf_Hosts := hs @ [h]\<rparr>)"
  by (simp add: writeTo_def hostString_def rereadHost_def printComments_def comp_def)

definition fitsScanner :: "string \<Rightarrow> bool" where
  "fitsScanner s \<longleftrightarrow> list_all (\<lambda>l. length l < MaxScanTokenSize) (split (CHR 0x0A) s)"

lemma fitsBuffer_text:
  assumes "list_all cleanLine (configLines cfg)" and "fitsScanner (writeTo cfg)"
  shows "list_all plainLine (configLines cfg)"
proof -
  have "split (CHR 0x0A) (writeTo cfg) = configLines cfg @ [[]]"
    unfolding writeTo_unlines using assms(1) by (intro split_unlines) (simp add: list_all_iff cleanLine_def)
  with assms show ?thesis by (simp add: fitsScanner_def plainLine_iff list_all_iff)
qed

lemma parse_written:
  assumes "plainConfig cfg" and "cf_Hosts cfg \<noteq> []" and "fitsScanner (writeTo cfg)"
  shows "parse (writeTo cfg) = cfg"
  using assms fitsBuffer_text [OF clean_configLines [OF assms(1)] assms(3)]
  by (intro config_round_trip') (simp_all add: fitsBuffer_def plainLine_iff list_all_iff)


text \<open>A file without a host ends in a parameter without a keyword; its comments go to the host added.\<close>

definition endParam :: "string list \<Rightarrow> param" where
  "endParam cs = \<lparr>pa_Comments = cs, pa_Keyword = [], pa_Args = []\<rparr>"

lemma parse_endParam:
  "list_all plainComment cs \<Longrightarrow> sn_Comments s = [] \<Longrightarrow>
     fold parseLine (paramLines (endParam cs)) s = s\<lparr>sn_Comments := cs\<rparr>"
  by (cases "cs = []") (simp_all add: endParam_def parse_comments)

lemma parse_written_noHost:
  assumes g: "list_all plainParam gs" and c: "list_all plainComment cs" and h: "plainHost h"
    and cfg: "cfg = \<lparr>cf_Globals = gs @ [endParam cs], cf_Hosts = [h]\<rparr>" and f: "fitsScanner (writeTo cfg)"
  shows "parse (writeTo cfg) = \<lparr>cf_Globals = gs, cf_Hosts = [putComments cs h]\<rparr>"
proof -
  have lines: "configLines cfg = concat (map paramLines gs) @ paramLines (endParam cs) @ [[]] @ hostLines h"
    by (simp add: cfg configLines_def del: paramLines.simps)
  have "list_all cleanLine (paramLines (endParam cs))"
    using c clean_comment by (auto simp: endParam_def list_all_iff cleanLine_def [of "[]"] cleanLine_def [of "'' ''"])
  then have "list_all cleanLine (configLines cfg)"
    using g h clean_paramLines clean_hostLines [OF h]
    by (auto simp: lines list_all_iff cleanLine_def [of "[]"] simp del: paramLines.simps)
  from fitsBuffer_text [OF this f] have "scanLines (writeTo cfg) = configLines cfg"
    unfolding writeTo_unlines by (rule scanLines_unlines)
  moreover have "fold parseLine (configLines cfg) startScan =
      \<lparr>sn_Globals = gs, sn_Hosts = [], sn_Host = Some (putComments cs h), sn_Comments = []\<rparr>"
    using g c h by (simp add: lines startScan_def parse_globals parse_endParam parse_host del: paramLines.simps)
  ultimately show ?thesis by (simp add: parse_def finishParse_def)
qed

definition quoted :: "string \<Rightarrow> string" where
  "quoted s = [CHR 0x22] @ s @ [CHR 0x22]"

lemma plain_showInt: "plainWord (showInt i)"
proof -
  have "\<not> isSpace c" if "isDigit c" for c
    using that by (auto simp: isDigit_def isSpace_def)
  moreover have "showInt i \<noteq> []" by (simp add: showInt_def)
  ultimately show ?thesis
    using showNat_digits [of "nat i"] showNat_digits [of "nat (- i)"]
    by (auto simp: plainWord_def showInt_def list_all_iff isSpace_def)
qed

lemma plain_oktetoHost:
  assumes "plainWord name" "plainWord iface" "plainWord (quoted key)"
  shows "plainHost (rereadHost (oktetoHost key name iface port))"
  using assms plain_showInt [of port]
  by (simp add: plainHost_def rereadHost_def oktetoHost_def newParam_def plainParam_def quoted_def go_consts
      plainComment_def commentLine_def hasPrefix_def)
   (simp add: plainWord_def isSpace_def trimSpace_def)

lemma entry_oktetoHost: "isEntry name (oktetoHost key name iface port)"
  by (simp add: isEntry_def oktetoHost_def getParam_def newParam_def go_consts)

lemma isEntry_comments [simp]: "isEntry name (h\<lparr>ho_Comments := cs\<rparr>) = isEntry name h"
  by (simp add: isEntry_def getParam_def)

lemma port_oktetoHost: "getParam portKeyword ((oktetoHost key name iface port)\<lparr>ho_Comments := cs\<rparr>)
    = Some (newParam portKeyword [showInt port])"
  by (simp add: oktetoHost_def getParam_def newParam_def go_consts)

definition configOf :: "string option \<Rightarrow> sshConfig" where
  "configOf file = (case file of None \<Rightarrow> \<lparr>cf_Globals = [], cf_Hosts = []\<rparr> | Some t \<Rightarrow> parse t)"

lemma add_parts:
  assumes "add io key file name iface port = Inr t"
  shows "t = writeTo ((fst (removeHost name (configOf file)))\<lparr>cf_Hosts :=
     cf_Hosts (fst (removeHost name (configOf file))) @ [oktetoHost key name iface port]\<rparr>)"
  using assms by (auto simp: add_def getConfig_def configOf_def writeToFilepath_def Let_def split: option.splits)

text \<open>What is read after an entry was added: the other hosts in their order, then the entry.\<close>

lemma added_config:
  assumes a: "add io key file name iface port = Inr t"
    and w: "plainWord name" "plainWord iface" "plainWord (quoted key)" and f: "fitsScanner t"
    and one: "length (filter (isEntry name) (cf_Hosts (configOf file))) \<le> 1"
  obtains (found) cs where "cf_Hosts (parse t) = filter (\<lambda>h. \<not> isEntry name h) (cf_Hosts (configOf file))
      @ [(oktetoHost key name iface port)\<lparr>ho_Comments := cs\<rparr>]"
proof -
  let ?old = "configOf file" and ?h = "oktetoHost key name iface port"
  let ?hs = "filter (\<lambda>h. \<not> isEntry name h) (cf_Hosts ?old)"
  have t: "t = writeTo (?old\<lparr>cf_Hosts := ?hs @ [rereadHost ?h]\<rparr>)"
    using add_parts [OF a] removeHost_single [OF one] writeTo_reread [where cfg = ?old and hs = ?hs and h = ?h] by simp
  note ph = plain_oktetoHost [OF w, of port]
  have plain: thesis if "plainConfig ?old"
  proof -
    have "plainConfig (?old\<lparr>cf_Hosts := ?hs @ [rereadHost ?h]\<rparr>)"
      using that ph by (simp add: plainConfig_def list_all_iff)
    from parse_written [OF this] f t
    have "cf_Hosts (parse t) = ?hs @ [?h\<lparr>ho_Comments := map commentLine (ho_Comments ?h)\<rparr>]"
      by (simp add: rereadHost_def)
    then show ?thesis by (rule found)
  qed
  show ?thesis
  proof (cases "file")
    case None
    then show ?thesis by (intro plain) (simp add: configOf_def plainConfig_def)
  next
    case (Some old)
    from parse_plain [of old] show ?thesis
    proof cases
      case someHost
      then show ?thesis using Some by (intro plain) (simp add: configOf_def)
    next
      case (noHost gs cs)
      then have "?old\<lparr>cf_Hosts := ?hs @ [rereadHost ?h]\<rparr> = \<lparr>cf_Globals = gs @ [endParam cs], cf_Hosts = [rereadHost ?h]\<rparr>"
        and hs: "?hs = []"
        using Some by (simp_all add: configOf_def endParam_def)
      with parse_written_noHost [OF noHost(2,3) ph refl] f t
      have "cf_Hosts (parse t) = ?hs @ [?h\<lparr>ho_Comments := cs @ map commentLine (ho_Comments ?h)\<rparr>]"
        by (simp add: rereadHost_def putComments_def)
      then show ?thesis by (rule found)
    qed
  qed
qed


text \<open>C33. Reading a printed configuration gives it back, when it has a host, its words have no white space,
  its comments are trimmed and its lines fit the buffer of the scanner.\<close>

theorem config_round_trip:
  assumes "plainConfig cfg" and "cf_Hosts cfg \<noteq> []" and "fitsScanner (writeTo cfg)"
  shows "parse (writeTo cfg) = cfg"
  using assms by (rule parse_written)

definition exampleConfig :: sshConfig where
  "exampleConfig = \<lparr>cf_Globals = [\<lparr>pa_Comments = [''# all''], pa_Keyword = ''Compression'', pa_Args = [''yes'']\<rparr>],
     cf_Hosts = [\<lparr>ho_Comments = [''#mine''], ho_Hostnames = [''db'', ''db2''],
                  ho_Params = [newParam ''User'' [''me'']]\<rparr>]\<rparr>"

theorem config_round_trip_witness:
  "parse (writeTo exampleConfig) = exampleConfig \<and> writeTo exampleConfig =
     unlines [[], ''# all'', ''Compression yes'', [], ''#mine'', ''Host db db2'', ''  User me'']"
proof -
  have "plainConfig exampleConfig" by code_simp
  moreover have t: "writeTo exampleConfig =
     unlines [[], ''# all'', ''Compression yes'', [], ''#mine'', ''Host db db2'', ''  User me'']" by code_simp
  moreover have "fitsScanner (writeTo exampleConfig)"
    unfolding t by (simp add: fitsScanner_def unlines_def newline_def MaxScanTokenSize_def)
  moreover have "cf_Hosts exampleConfig \<noteq> []" by (simp add: exampleConfig_def)
  ultimately show ?thesis using config_round_trip [of exampleConfig] by simp
qed

lemma parse_unlines: "list_all plainLine ls \<Longrightarrow> parse (unlines ls) = finishParse (fold parseLine ls startScan)"
  by (simp add: parse_def scanLines_unlines)

lemma fitsScanner_unlines:
  "\<forall>l \<in> set ls. CHR 0x0A \<notin> set l \<and> length l < MaxScanTokenSize \<Longrightarrow> fitsScanner (unlines ls)"
  by (simp add: fitsScanner_def split_unlines list_all_iff MaxScanTokenSize_def)

definition exampleAdded :: sshConfig where
  "exampleAdded = exampleConfig\<lparr>cf_Hosts := cf_Hosts exampleConfig
     @ [oktetoHost ''/k'' ''api.okteto'' ''localhost'' 22]\<rparr>"


text \<open>Comments after the last host are lost when the file is written again.\<close>

lemma trailing_comments_lost:
  "parse (unlines [''Host db'', ''# keep me'']) = parse (unlines [''Host db''])"
proof -
  have "list_all plainLine [''Host db'', ''# keep me'']" by (simp add: plainLine_def MaxScanTokenSize_def)
  moreover have "list_all plainLine [''Host db'']" by (simp add: plainLine_def MaxScanTokenSize_def)
  moreover have "finishParse (fold parseLine [''Host db'', ''# keep me''] startScan)
      = finishParse (fold parseLine [''Host db''] startScan)" by code_simp
  ultimately show ?thesis by (simp only: parse_unlines)
qed

text \<open>A block of another kind is read as parameters of the host before it and removed with that host.\<close>

lemma match_block_removed:
  "remove (\<lambda>_. None) (Some (unlines [''Host api.okteto'', ''  Port 22'', ''  StrictHostKeyChecking no'',
      ''Match host db'', ''  User me''])) ''api.okteto'' = Inr (Some [])"
proof -
  let ?ls = "[''Host api.okteto'', ''  Port 22'', ''  StrictHostKeyChecking no'', ''Match host db'', ''  User me'']"
  have "list_all plainLine ?ls" by (simp add: plainLine_def MaxScanTokenSize_def)
  then have p: "parse (unlines ?ls) = finishParse (fold parseLine ?ls startScan)" by (rule parse_unlines)
  have "removeHost ''api.okteto'' (finishParse (fold parseLine ?ls startScan))
      = (\<lparr>cf_Globals = [], cf_Hosts = []\<rparr>, True)" by code_simp
  then show ?thesis
    by (simp add: remove_def getConfig_def p writeToFilepath_def writeTo_def del: unlines_simps fold_simps)
qed

end
