(* ===== verification/UpErrors.thy ===== *)
theory UpErrors
  imports GoStrings
begin

text \<open>
  The errors a session of \<^verbatim>\<open>okteto up\<close> returns (\<^verbatim>\<open>src/pkg/errors/errors.go\<close>), their texts, which of them are
  transient, and the additional rule of \<^verbatim>\<open>src/cmd/up/errors.go\<close>. A package variable is a constructor, so
  that \<open>err == oktetoErrors.ErrX\<close> is equality; \<open>fmt.Errorf("prefix%w", err)\<close> is \<open>WrapErr prefix err\<close>.
\<close>

datatype upErr =
    ErrCommandFailed
  | ErrSSHConnectError
  | ErrNeedsResetSyncError
  | ErrInsufficientSpace
  | ErrDeleteToApp
  | ErrApplyToApp
  | ErrLostSyncthing
  | ErrDevPodDeleted
  | ErrPortAlreadyAllocated
  | ErrBuiltInOktetoEnvVarSetFromCMD
  | UserError upErr string
  | CommandError upErr upErr
  | WrapErr string upErr
  | ErrText string

definition ErrNotFound :: upErr where
  "ErrNotFound = ErrText ''not found''"

primrec errString :: "upErr \<Rightarrow> string" where
  "errString ErrCommandFailed = ''command execution failed''"
| "errString ErrSSHConnectError = ''ssh start error''"
| "errString ErrNeedsResetSyncError = ''needs syncthing reset error''"
| "errString ErrInsufficientSpace = ''there isn'' @ [CHR 0x27] @ ''t enough disk space available to synchronize your files''"
| "errString ErrDeleteToApp = ''application has been deleted. Run '' @ [CHR 0x27] @ ''okteto down -v'' @ [CHR 0x27]
     @ '' to delete the resources created by your development container''"
| "errString ErrApplyToApp = ''application has been modified''"
| "errString ErrLostSyncthing = ''synchronization service is disconnected''"
| "errString ErrDevPodDeleted = ''development container has been removed''"
| "errString ErrPortAlreadyAllocated = ''port is already allocated''"
| "errString ErrBuiltInOktetoEnvVarSetFromCMD =
     ''okteto built-in environment variable cannot be set from '' @ [CHR 0x27] @ ''okteto up'' @ [CHR 0x27] @ '' command''"
| "errString (UserError e hint) = errString e"
| "errString (CommandError e reason) = errString e @ '': '' @ toLower (errString reason)"
| "errString (WrapErr p e) = p @ errString e"
| "errString (ErrText s) = s"

text \<open>\<open>errors.Is\<close>: a command error has no \<open>Unwrap\<close>.\<close>

primrec errorsIs :: "upErr \<Rightarrow> upErr \<Rightarrow> bool" where
  "errorsIs t ErrCommandFailed = (t = ErrCommandFailed)"
| "errorsIs t ErrSSHConnectError = (t = ErrSSHConnectError)"
| "errorsIs t ErrNeedsResetSyncError = (t = ErrNeedsResetSyncError)"
| "errorsIs t ErrInsufficientSpace = (t = ErrInsufficientSpace)"
| "errorsIs t ErrDeleteToApp = (t = ErrDeleteToApp)"
| "errorsIs t ErrApplyToApp = (t = ErrApplyToApp)"
| "errorsIs t ErrLostSyncthing = (t = ErrLostSyncthing)"
| "errorsIs t ErrDevPodDeleted = (t = ErrDevPodDeleted)"
| "errorsIs t ErrPortAlreadyAllocated = (t = ErrPortAlreadyAllocated)"
| "errorsIs t ErrBuiltInOktetoEnvVarSetFromCMD = (t = ErrBuiltInOktetoEnvVarSetFromCMD)"
| "errorsIs t (UserError e hint) = (t = UserError e hint \<or> errorsIs t e)"
| "errorsIs t (CommandError e reason) = (t = CommandError e reason)"
| "errorsIs t (WrapErr p e) = (t = WrapErr p e \<or> errorsIs t e)"
| "errorsIs t (ErrText s) = (t = ErrText s)"

definition isUserError :: "upErr \<Rightarrow> bool" where
  "isUserError e = (case e of UserError _ _ \<Rightarrow> True | _ \<Rightarrow> False)"

definition transientTexts :: "string list" where
  "transientTexts =
    [''operation time out'', ''operation timed out'', ''i/o timeout'', ''unknown (get events)'',
     ''Client.Timeout exceeded while awaiting headers'', ''can'' @ [CHR 0x27] @ ''t assign requested address'',
     ''command exited without exit status or exit signal'', ''connection refused'', ''connection reset by peer'',
     ''client connection lost'', ''nodename nor servname provided, or not known'', ''no route to host'',
     ''unexpected EOF'', ''TLS handshake timeout'', ''in the time allotted'', ''broken pipe'',
     ''No connection could be made'', ''operation was canceled'', ''network is unreachable'',
     ''development container has been removed'', ''unexpected packet in response to channel open'',
     ''closing remote connection: EOF'', ''request for pseudo terminal failed: eof'',
     ''unable to upgrade connection'', ''command execution failed: eof'']"

definition IsTransient :: "upErr option \<Rightarrow> bool" where
  "IsTransient err = (case err of None \<Rightarrow> False | Some e \<Rightarrow> list_ex (contains (errString e)) transientTexts)"

text \<open>A synchronization that worked once is worth a retry.\<close>

definition isTransient :: "bool \<Rightarrow> upErr option \<Rightarrow> bool" where
  "isTransient success err =
     (case err of
        None \<Rightarrow> False
      | Some e \<Rightarrow> IsTransient err
          \<or> (success \<and> contains (errString e)
                (''syncthing local=false didn'' @ [CHR 0x27] @ ''t respond after'')))"

lemma contains_append_right: "contains s t \<Longrightarrow> contains (p @ s) t"
  by (auto simp: contains_def sublist_append)

text \<open>A wrapper keeps a transient error transient.\<close>

lemma IsTransient_WrapErr: "IsTransient (Some e) \<Longrightarrow> IsTransient (Some (WrapErr p e))"
  by (auto simp: IsTransient_def list_ex_iff intro: contains_append_right)

lemma lost_sync_not_transient: "\<not> IsTransient (Some ErrLostSyncthing)"
  by code_simp

end
