(* ===== verification/DevObjects.thy ===== *)
theory DevObjects
  imports DevTranslate UpErrors
begin

text \<open>
  The objects of a development container in the cluster, beside its workload: the deployment that is
  created for it when there is none, its volume claim, its secret and its service, how its pod is found,
  and how an application is looked up. Sources: \<^verbatim>\<open>src/pkg/k8s/pods\<close>, \<^verbatim>\<open>replicasets\<close>, \<^verbatim>\<open>deployments\<close>,
  \<^verbatim>\<open>statefulsets\<close>, \<^verbatim>\<open>volumes\<close>, \<^verbatim>\<open>secrets\<close>, \<^verbatim>\<open>services\<close>, \<^verbatim>\<open>events\<close>, \<^verbatim>\<open>apps/crud.go\<close> and
  \<^verbatim>\<open>src/cmd/utils/dev.go\<close>. What a list or a get returns is an argument. Polling is a recursion over what
  the polls return; the end of the list means that the code still waits, \<open>Blocks\<close>.
\<close>

section \<open>How a step of a session stops\<close>

datatype upStop = Fails upErr | Blocks | UpPanics

definition appErrorText :: "appErr \<Rightarrow> string" where
  "appErrorText e =
     (case e of
        AppPanic \<Rightarrow> []
      | MalformedManifest \<Rightarrow> ''malformed manifest''
      | ApplicationNotFound name \<Rightarrow>
          ''the application '' @ quote name @ '' referred by your okteto manifest doesn'' @ [CHR 0x27] @ ''t exist''
      | ClientError t \<Rightarrow> t
      | ContainerNotFound k n c \<Rightarrow> k @ '' '' @ quote n @ '': container '' @ quote c @ '' not found''
      | MountAlreadyDefined p n \<Rightarrow> p @ n)"

definition appStop :: "appErr \<Rightarrow> upStop" where
  "appStop e = (if e = AppPanic then UpPanics else Fails (ErrText (appErrorText e)))"

section \<open>Pods\<close>

record pod =
  po_Name :: string
  po_UID :: string
  po_Labels :: smap
  po_Owners :: "string list"
  po_Phase :: string
  po_Reason :: string
  po_Deleted :: bool
  po_Conditions :: "(string \<times> string) list"
  po_Claims :: "string list"

definition leftBehind :: "pod \<Rightarrow> bool" where
  "leftBehind p \<longleftrightarrow> po_Deleted p \<or> po_Phase p = ''Failed'' \<and> po_Reason p \<in> {''Shutdown'', ''Evicted''}"

definition GetPodByReplicaSet :: "string \<Rightarrow> upErr + pod list \<Rightarrow> upErr + pod" where
  "GetPodByReplicaSet uid pods =
     (case pods of
        Inl e \<Rightarrow> Inl e
      | Inr ps \<Rightarrow>
          (case find (\<lambda>p. \<not> leftBehind p \<and> uid \<in> set (po_Owners p)) ps of
             None \<Rightarrow> Inl ErrNotFound
           | Some p \<Rightarrow> Inr p))"

definition GetPodByStatefulSet :: "string \<Rightarrow> string \<Rightarrow> upErr + pod list \<Rightarrow> upErr + pod" where
  "GetPodByStatefulSet uid updateRevision pods =
     (case pods of
        Inl e \<Rightarrow> Inl e
      | Inr ps \<Rightarrow>
          (case find (\<lambda>p. \<not> leftBehind p \<and> updateRevision = gstr (po_Labels p) ''controller-revision-hash''
                           \<and> uid \<in> set (po_Owners p)) ps of
             None \<Rightarrow> Inl ErrNotFound
           | Some p \<Rightarrow> Inr p))"

record replicaSet =
  rs_UID :: string
  rs_Owners :: "string list"
  rs_Annotations :: smap

definition DeploymentRevisionAnnotation :: string where
  [go_consts]: "DeploymentRevisionAnnotation = ''deployment.kubernetes.io/revision''"

definition GetReplicaSetByDeployment :: "deployment \<Rightarrow> upErr + replicaSet list \<Rightarrow> upErr + replicaSet" where
  "GetReplicaSetByDeployment d rss =
     (case rss of
        Inl e \<Rightarrow> Inl (WrapErr ''failed to get replicasets: '' e)
      | Inr rs \<Rightarrow>
          (case find (\<lambda>r. om_UID (d_Meta d) \<in> set (rs_Owners r)
                 \<and> gget (rs_Annotations r) DeploymentRevisionAnnotation
                   = Some (gstr (om_Annotations (d_Meta d)) DeploymentRevisionAnnotation)) rs of
             None \<Rightarrow> Inl ErrNotFound
           | Some r \<Rightarrow> Inr r))"

text \<open>What the cluster lists when the pod is looked for, and the revision a stateful set is updated to.\<close>

record podLists =
  pl_ReplicaSets :: "upErr + replicaSet list"
  pl_Pods :: "upErr + pod list"
  pl_UpdateRevision :: string

definition GetRunningPod :: "podLists \<Rightarrow> app \<Rightarrow> upErr + pod" where
  "GetRunningPod w a =
     (case a of
        DeploymentApp d _ \<Rightarrow>
          (case GetReplicaSetByDeployment d (pl_ReplicaSets w) of
             Inl e \<Rightarrow> Inl e
           | Inr r \<Rightarrow> GetPodByReplicaSet (rs_UID r) (pl_Pods w))
      | StatefulSetApp s _ \<Rightarrow>
          GetPodByStatefulSet (om_UID (sfs_Meta s)) (pl_UpdateRevision w) (pl_Pods w))"

definition parseUserID :: "string \<Rightarrow> int" where
  "parseUserID output =
     (let line = hd (split (CHR 0x0A) output)
      in if line = [] \<or> \<not> hasPrefix line ''USER:'' then - 1
         else case split (CHR '':'') line of
                [_, n] \<Rightarrow> (case parseInt 64 n of None \<Rightarrow> - 1 | Some i \<Rightarrow> i)
              | _ \<Rightarrow> - 1)"

text \<open>The log is not there when it cannot be read.\<close>

definition GetPodUserID :: "string option \<Rightarrow> int" where
  "GetPodUserID podLogs = (case podLogs of None \<Rightarrow> - 1 | Some output \<Rightarrow> parseUserID output)"

definition podIsRunning :: "pod \<Rightarrow> bool" where
  "podIsRunning p \<longleftrightarrow> po_Phase p = ''Running'' \<and> \<not> po_Deleted p \<and> (''Ready'', ''True'') \<in> set (po_Conditions p)"

text \<open>One look at the pods after a restart: a pod that failed, or whether all run and which do not.\<close>

fun podsTurn :: "pod list \<Rightarrow> bool \<Rightarrow> string list \<Rightarrow> string + bool \<times> string list" where
  "podsTurn [] allRunning notready = Inr (allRunning, notready)"
| "podsTurn (p # ps) allRunning notready =
     (if po_Phase p = ''Pending'' then podsTurn ps False (List.insert (po_Name p) notready)
      else if po_Phase p = ''Failed'' then Inl (po_Name p)
      else if po_Phase p = ''Running'' then
        if podIsRunning p then podsTurn ps allRunning (remove1 (po_Name p) notready)
        else podsTurn ps False (List.insert (po_Name p) notready)
      else podsTurn ps allRunning notready)"

fun podsWaitUntilRunning :: "(upErr + pod list) list \<Rightarrow> string list \<Rightarrow> upErr option" where
  "podsWaitUntilRunning [] notready =
     Some (ErrText (''pod(s) '' @ join '','' notready @ '' didn'' @ [CHR 0x27] @ ''t restart after 60 seconds''))"
| "podsWaitUntilRunning (poll # polls) notready =
     (case poll of
        Inl e \<Rightarrow> Some (ErrText ''failed to retrieve development container information'')
      | Inr ps \<Rightarrow>
          (case podsTurn ps True notready of
             Inl name \<Rightarrow> Some (ErrText (''pod '' @ name @ '' failed to start''))
           | Inr (True, _) \<Rightarrow> None
           | Inr (False, notready) \<Rightarrow> podsWaitUntilRunning polls notready))"

text \<open>
  Deleting the pods of a service, and all of them when it has no name. A pod that is gone ends the
  restart with success. \<open>del\<close> is the answer to a deletion.
\<close>

fun restartLoop :: "(string \<Rightarrow> upErr option) \<Rightarrow> string \<Rightarrow> pod list \<Rightarrow> bool \<Rightarrow> upErr option + bool" where
  "restartLoop del serviceName [] found = Inr found"
| "restartLoop del serviceName (p # ps) found =
     (if serviceName \<noteq> [] \<and> \<not> hasPrefix (po_Name p) (serviceName @ ''-'') then restartLoop del serviceName ps found
      else case del (po_Name p) of
             None \<Rightarrow> restartLoop del serviceName ps True
           | Some e \<Rightarrow>
               Inl (if contains (errString e) ''not found'' then None
                    else Some (WrapErr ''error deleting kubernetes service: '' e)))"

definition podsRestart :: "(string \<Rightarrow> upErr option) \<Rightarrow> string \<Rightarrow> upErr + pod list \<Rightarrow> (upErr + pod list) list \<Rightarrow> upErr option" where
  "podsRestart del serviceName pods polls =
     (case pods of
        Inl e \<Rightarrow> Some (ErrText ''failed to retrieve development container information'')
      | Inr ps \<Rightarrow>
          (case restartLoop del serviceName ps False of
             Inl r \<Rightarrow> r
           | Inr False \<Rightarrow> Some (ErrText ''no pods running in development mode'')
           | Inr True \<Rightarrow> podsWaitUntilRunning (take 60 polls) []))"

section \<open>Events of a pod that is not healthy\<close>

record k8sEvent =
  ke_Reason :: string
  ke_Message :: string

definition readinessProbeFailed :: "k8sEvent \<Rightarrow> bool" where
  "readinessProbeFailed e \<longleftrightarrow> ke_Reason e = ''Unhealthy'' \<and> hasPrefix (ke_Message e) ''Readiness probe failed:''"

definition livenessProbeFailed :: "k8sEvent \<Rightarrow> bool" where
  "livenessProbeFailed e \<longleftrightarrow> ke_Reason e = ''Unhealthy'' \<and> hasPrefix (ke_Message e) ''Liveness probe failed:''"

definition isKillingEvent :: "k8sEvent \<Rightarrow> bool" where
  "isKillingEvent e \<longleftrightarrow> ke_Reason e = ''Killing''"

text \<open>From the last event to the first.\<close>

fun unhealthyEvents :: "bool \<Rightarrow> k8sEvent list \<Rightarrow> upErr option" where
  "unhealthyEvents killedPod [] = None"
| "unhealthyEvents killedPod (e # es) =
     (if killedPod \<and> livenessProbeFailed e then Some (ErrText ''liveness probe failed'')
      else if readinessProbeFailed e then Some (ErrText ''readiness probe failed'')
      else unhealthyEvents (killedPod \<or> isKillingEvent e) es)"

definition GetUnhealthyEventFailure :: "upErr + k8sEvent list \<Rightarrow> upErr option" where
  "GetUnhealthyEventFailure events = (case events of Inl e \<Rightarrow> None | Inr es \<Rightarrow> unhealthyEvents False (rev es))"

section \<open>Conditions of a workload\<close>

record condition =
  co_Type :: string
  co_Reason :: string
  co_Status :: string
  co_Message :: string

definition ErrQuota :: upErr where
  "ErrQuota = ErrText ''quota exceeded, please free some resources and try again''"

definition isResourcesRelatedError :: "string \<Rightarrow> bool" where
  "isResourcesRelatedError e \<longleftrightarrow> contains e ''maximum cpu usage'' \<or> contains e ''maximum memory usage''"

text \<open>\<open>FindStringSubmatch\<close> of \<open>prefix(\d*\w*)\<close>: the word behind the first occurrence of the prefix.\<close>

definition isWordChar :: "char \<Rightarrow> bool" where
  "isWordChar c \<longleftrightarrow> isDigit c \<or> (CHR ''a'' \<le> c \<and> c \<le> CHR ''z'') \<or> (CHR ''A'' \<le> c \<and> c \<le> CHR ''Z'') \<or> c = CHR ''_''"

fun wordAfter :: "string \<Rightarrow> string \<Rightarrow> string option" where
  "wordAfter p [] = (if p = [] then Some [] else None)"
| "wordAfter p (c # s) =
     (if hasPrefix (c # s) p then Some (takeWhile isWordChar (drop (length p) (c # s))) else wordAfter p s)"

definition limitOf :: "(quantity \<Rightarrow> string) \<Rightarrow> string \<Rightarrow> 's dev \<Rightarrow> string" where
  "limitOf showQuantity name dev =
     (case gget (elems (rr_Limits (dv_Resources dev))) name of None \<Rightarrow> [] | Some q \<Rightarrow> showQuantity q)"

text \<open>The sentence about one resource; \<open>None\<close> for the limit per pod when the message does not tell it.\<close>

definition overLimit :: "(quantity \<Rightarrow> string) \<Rightarrow> string \<Rightarrow> string \<Rightarrow> 's dev \<Rightarrow> string option \<Rightarrow> string" where
  "overLimit showQuantity res shown dev perPod =
     ''The value of resources.limits.'' @ res @ '' in your okteto manifest ''
     @ (case perPod of
          None \<Rightarrow> ''exceeds the maximum '' @ shown @ '' limit per pod.''
        | Some m \<Rightarrow> ''('' @ limitOf showQuantity res dev @ '') exceeds the maximum '' @ shown @ '' limit per pod ('' @ m @ '').'')"

definition deploymentResourceLimitError :: "(quantity \<Rightarrow> string) \<Rightarrow> string \<Rightarrow> 's dev \<Rightarrow> upErr" where
  "deploymentResourceLimitError showQuantity msg dev =
     ErrText (trimSpace
       ((if contains msg ''maximum cpu usage''
         then overLimit showQuantity ''cpu'' ''CPU'' dev (wordAfter ''cpu usage per Pod is '' msg) @ '' '' else [])
        @ (if contains msg ''maximum memory usage''
           then overLimit showQuantity ''memory'' ''memory'' dev (wordAfter ''memory usage per Pod is '' msg) else [])))"

text \<open>The package for stateful sets indexes the match without looking whether there is one.\<close>

definition statefulSetResourceLimitError :: "(quantity \<Rightarrow> string) \<Rightarrow> string \<Rightarrow> 's dev \<Rightarrow> upStop" where
  "statefulSetResourceLimitError showQuantity msg dev =
     (if contains msg ''maximum cpu usage'' \<and> wordAfter ''cpu usage per Pod is '' msg = None
         \<or> contains msg ''maximum memory usage'' \<and> wordAfter ''memory usage per Pod is '' msg = None
      then UpPanics
      else Fails (deploymentResourceLimitError showQuantity msg dev))"

definition failedCreate :: "app \<Rightarrow> condition \<Rightarrow> bool" where
  "failedCreate a c \<longleftrightarrow>
     co_Reason c = ''FailedCreate'' \<and> co_Status c = ''True''
     \<and> (case a of DeploymentApp _ _ \<Rightarrow> co_Type c = ''ReplicaFailure'' | StatefulSetApp _ _ \<Rightarrow> True)"

definition CheckConditionErrors :: "(quantity \<Rightarrow> string) \<Rightarrow> app \<Rightarrow> condition list \<Rightarrow> 's dev \<Rightarrow> upStop option" where
  "CheckConditionErrors showQuantity a conditions dev =
     (case find (failedCreate a) conditions of
        None \<Rightarrow> None
      | Some c \<Rightarrow>
          let msg = co_Message c
          in Some (if contains msg ''exceeded quota'' then
                     if contains msg ''requested: pods=''
                     then Fails (ErrText ''quota exceeded, you have reached the maximum number of pods per namespace'')
                     else if contains msg ''requested: requests.storage=''
                     then Fails (ErrText ''quota exceeded, you have reached the maximum storage per namespace'')
                     else Fails ErrQuota
                   else if isResourcesRelatedError msg then
                     (case a of
                        DeploymentApp _ _ \<Rightarrow> Fails (deploymentResourceLimitError showQuantity msg dev)
                      | StatefulSetApp _ _ \<Rightarrow> statefulSetResourceLimitError showQuantity msg dev)
                   else Fails (ErrText msg)))"

section \<open>Looking an application up\<close>

text \<open>By name, or by labels among the workloads that are not clones.\<close>

definition originals :: "('w \<Rightarrow> objectMeta) \<Rightarrow> 'w list \<Rightarrow> 'w list" where
  "originals meta ws = filter (\<lambda>w. gstr (om_Labels (meta w)) DevCloneLabel = []) ws"

definition deploymentByDev :: "(string \<Rightarrow> deployment lookup) \<Rightarrow> (string \<Rightarrow> string + deployment list) \<Rightarrow> 's dev
    \<Rightarrow> deployment lookup" where
  "deploymentByDev get list dev =
     (if elems (dv_Selector dev) = [] then get (dv_Name dev)
      else case list (LabelsSelector dev) of
             Inl e \<Rightarrow> if IsNotFound e then LookupNotFound else LookupFailed e
           | Inr ds \<Rightarrow>
               (case originals d_Meta ds of
                  [] \<Rightarrow> LookupNotFound
                | [d] \<Rightarrow> Found d
                | valid \<Rightarrow> LookupFailed (''found '' @ quote (showNat (length valid)) @ '' deployments for labels ''
                              @ quote (LabelsSelector dev) @ '' instead of 1'')))"

text \<open>The package for stateful sets takes the first of the valid ones also when there is none: \<open>None\<close> is a panic.\<close>

definition statefulSetByDev :: "(string \<Rightarrow> statefulSet lookup) \<Rightarrow> (string \<Rightarrow> string + statefulSet list) \<Rightarrow> 's dev
    \<Rightarrow> statefulSet lookup option" where
  "statefulSetByDev get list dev =
     (if elems (dv_Selector dev) = [] then Some (get (dv_Name dev))
      else case list (LabelsSelector dev) of
             Inl e \<Rightarrow> Some (if IsNotFound e then LookupNotFound else LookupFailed e)
           | Inr [] \<Rightarrow> Some LookupNotFound
           | Inr ss \<Rightarrow>
               (case originals sfs_Meta ss of
                  [] \<Rightarrow> None
                | [s] \<Rightarrow> Some (Found s)
                | valid \<Rightarrow> Some (LookupFailed (''found '' @ quote (showNat (length valid)) @ '' statefulsets for labels ''
                              @ quote (LabelsSelector dev) @ '' instead of 1''))))"

definition DefaultImage :: string where
  [go_consts]: "DefaultImage = ''okteto/dev:latest''"

definition Sandbox :: "'s dev \<Rightarrow> string \<Rightarrow> deployment" where
  "Sandbox dev ns =
     \<lparr>d_Meta = newMeta (dv_Name dev) ns [(DevLabel, ''true'')] [(OktetoAutoCreateAnnotation, OktetoUpCmd)],
      d_Replicas = Some 1, d_MatchLabels = [(''app'', dv_Name dev)], d_Strategy = ''Recreate'',
      d_Template =
        \<lparr>pt_Meta = newMeta [] [] [(''app'', dv_Name dev)] [],
         pt_Spec = emptyPodSpec
           \<lparr>ps_ServiceAccountName := dv_ServiceAccount dev, ps_PriorityClassName := dv_PriorityClassName dev,
            ps_TerminationGracePeriodSeconds := Some 0,
            ps_Containers :=
              [emptyContainer\<lparr>c_Name := ''dev'', c_Image := orDefault (dv_Image dev) DefaultImage,
                              c_ImagePullPolicy := PullAlways\<rparr>]\<rparr>\<rparr>\<rparr>"

text \<open>\<open>c n\<close> is the cluster at the \<open>n\<close>-th read.\<close>

definition isNotFoundApp :: "appErr \<Rightarrow> bool" where
  "isNotFoundApp e \<longleftrightarrow> IsNotFound (appErrorText e)"

definition doesAutocreateAppExist :: "(nat \<Rightarrow> appClient) \<Rightarrow> devService \<Rightarrow> bool" where
  "doesAutocreateAppExist c dev =
     (let autocreateDev = dev\<lparr>dv_Name := DevCloneName (dv_Name dev)\<rparr>
      in case getApp (c 1) autocreateDev of
           Inr _ \<Rightarrow> True
         | Inl e \<Rightarrow> \<not> isNotFoundApp e \<and> (case getApp (c 2) autocreateDev of Inl _ \<Rightarrow> False | Inr _ \<Rightarrow> True))"

definition deactivatedError :: upErr where
  "deactivatedError = ErrText ''development container has been deactivated''"

definition GetApp :: "(nat \<Rightarrow> appClient) \<Rightarrow> mainDev \<Rightarrow> string \<Rightarrow> bool \<Rightarrow> upStop + app \<times> bool" where
  "GetApp c dev ns isRetry =
     (case getApp (c 0) (asService dev) of
        Inr a \<Rightarrow> Inr (a, False)
      | Inl e \<Rightarrow>
          if \<not> isNotFoundApp e then Inl (appStop e)
          else if dv_Autocreate dev then
            if isRetry \<and> \<not> doesAutocreateAppExist c (asService dev) then Inl (Fails deactivatedError)
            else Inr (NewDeploymentApp (Sandbox dev ns), True)
          else if elems (dv_Selector dev) \<noteq> [] then
            Inl (Fails (UserError (ErrText (''didn'' @ [CHR 0x27] @ ''t find an application in namespace '' @ ns
                   @ '' that matches the labels in your Okteto manifest''))
                 ''Update the labels or point your context to a different namespace and try again''))
          else Inl (Fails (UserError (ErrText (''application '' @ quote (dv_Name dev) @ '' not found in namespace '' @ quote ns))
                 (join ([CHR 0x0A] @ ''    '')
                    [''Verify that your application is running and your okteto context is pointing to the right namespace'',
                     ''Or set the '' @ quote ''autocreate'' @ '' field in your okteto manifest if you want to create a standalone development container'',
                     ''More information is available here: https://okteto.com/docs/reference/okteto-cli/#up'']))))"

section \<open>Waiting for the pod\<close>

text \<open>
  One round of \<open>GetRunningPodInLoop\<close>: the result of the refresh with the conditions it brought, the
  lists, whether the time is over, and whether the context is cancelled during the pause.
\<close>

record podTry =
  py_Refresh :: "upErr + app"
  py_Conditions :: "condition list"
  py_Lists :: podLists
  py_Late :: bool
  py_Cancelled :: "upErr option"

definition ErrKubernetesLongTimeToCreateDevContainer :: upErr where
  "ErrKubernetesLongTimeToCreateDevContainer =
     ErrText ''kubernetes is taking too long to start your development container. Please check for errors and try again''"

fun getRunningPodInLoop :: "(quantity \<Rightarrow> string) \<Rightarrow> 's dev \<Rightarrow> nat \<Rightarrow> podTry list \<Rightarrow> upStop + pod" where
  "getRunningPodInLoop sq dev retries [] = Inl Blocks"
| "getRunningPodInLoop sq dev retries (y # ys) =
     (case py_Refresh y of
        Inl e \<Rightarrow> Inl (Fails e)
      | Inr a \<Rightarrow>
          (case CheckConditionErrors sq a (py_Conditions y) dev of
             Some stop \<Rightarrow> Inl stop
           | None \<Rightarrow>
               (case GetRunningPod (py_Lists y) a of
                  Inr p \<Rightarrow> Inr p
                | Inl e \<Rightarrow>
                    if \<not> IsNotFound (errString e) then Inl (Fails e)
                    else if py_Late y \<and> 10 < retries then Inl (Fails ErrKubernetesLongTimeToCreateDevContainer)
                    else case py_Cancelled y of
                           Some e \<Rightarrow> Inl (Fails e)
                         | None \<Rightarrow> getRunningPodInLoop sq dev (Suc retries) ys)))"

definition GetRunningPodInLoop :: "(quantity \<Rightarrow> string) \<Rightarrow> 's dev \<Rightarrow> podTry list \<Rightarrow> upStop + pod" where
  "GetRunningPodInLoop sq dev ys = getRunningPodInLoop sq dev 0 ys"

section \<open>The volume claim\<close>

record devClaim =
  kc_Name :: string
  kc_Labels :: smap
  kc_Annotations :: smap
  kc_AccessModes :: "string list"
  kc_Storage :: "quantity option"
  kc_StorageClassName :: "string option"
  kc_VolumeMode :: "string option"
  kc_VolumeName :: string

text \<open>\<open>resource.MustParse\<close> of the size panics when it is not a quantity: \<open>None\<close>.\<close>

definition translateClaim :: "devWorld \<Rightarrow> 's dev \<Rightarrow> devClaim option" where
  "translateClaim dw dev =
     (case de_ParseQuantity dw (PersistentVolumeSize dw dev) of
        None \<Rightarrow> None
      | Some sz \<Rightarrow>
          Some \<lparr>kc_Name = GetVolumeName dev,
                kc_Labels = grange_put (PersistentVolumeLabels dev) [(DevLabel, ''true'')],
                kc_Annotations = PersistentVolumeAnnotations dev,
                kc_AccessModes = [PersistentVolumeAccessMode dev],
                kc_Storage = Some sz,
                kc_StorageClassName =
                  (if PersistentVolumeStorageClass dev = [] then None else Some (PersistentVolumeStorageClass dev)),
                kc_VolumeMode = Some (PersistentVolumeMode dev), kc_VolumeName = []\<rparr>)"

definition GetDownCommand :: "string \<Rightarrow> string" where
  "GetDownCommand devPath =
     (if devPath \<noteq> ''okteto.yml'' \<and> devPath \<noteq> [] then ''okteto down -v -f '' @ devPath else ''okteto down -v'')"

definition claimError :: "string \<Rightarrow> string \<Rightarrow> upErr" where
  "claimError devPath what = ErrText (what @ ''. Run '' @ quote (GetDownCommand devPath) @ '' and try again'')"

text \<open>A claim that has to grow restarts the pods: the same fresh value for an annotation of all of them.\<close>

definition restartMetadata :: "string \<Rightarrow> metadata option \<Rightarrow> metadata" where
  "restartMetadata uuid m =
     (case m of
        None \<Rightarrow> \<lparr>md_Labels = None, md_Annotations = Some [(OktetoRestartAnnotation, uuid)]\<rparr>
      | Some m \<Rightarrow> m\<lparr>md_Annotations := Some (gput OktetoRestartAnnotation uuid (elems (md_Annotations m)))\<rparr>)"

definition restartServices :: "string \<Rightarrow> devService list \<Rightarrow> devService list option" where
  "restartServices uuid ss =
     (if list_ex (\<lambda>s. dv_Metadata s = None) ss then None
      else Some (map (\<lambda>s. s\<lparr>dv_Metadata := Some (restartMetadata uuid (dv_Metadata s))\<rparr>) ss))"

definition restartDev :: "string \<Rightarrow> mainDev \<Rightarrow> mainDev option" where
  "restartDev uuid dev =
     (case dv_Services dev of
        None \<Rightarrow> Some (dev\<lparr>dv_Metadata := Some (restartMetadata uuid (dv_Metadata dev))\<rparr>)
      | Some ss \<Rightarrow>
          (case restartServices uuid ss of
             None \<Rightarrow> None
           | Some ss \<Rightarrow>
               Some (dev\<lparr>dv_Metadata := Some (restartMetadata uuid (dv_Metadata dev)), dv_Services := Some ss\<rparr>)))"

text \<open>\<open>sq\<close> prints a quantity and \<open>tenGi\<close> is the quantity \<open>10Gi\<close>, the default of older versions.\<close>

definition checkClaimSettings :: "'s dev \<Rightarrow> string \<Rightarrow> devClaim \<Rightarrow> upErr option" where
  "checkClaimSettings dev devPath k =
     (let class = PersistentVolumeStorageClass dev
      in if class \<noteq> [] \<and> kc_StorageClassName k = None
         then Some (claimError devPath (''okteto volume storageclass is '' @ quote [] @ '' instead of '' @ quote class))
         else if class \<noteq> [] \<and> kc_StorageClassName k \<noteq> Some class
         then Some (claimError devPath (''okteto volume storageclass cannot be updated from ''
                @ quote (the (kc_StorageClassName k)) @ '' to '' @ quote class))
         else if length (kc_AccessModes k) = 1 \<and> PersistentVolumeAccessMode dev \<noteq> hd (kc_AccessModes k)
         then Some (claimError devPath (''okteto volume access-mode is '' @ quote (hd (kc_AccessModes k))
                @ '' instead of '' @ quote (PersistentVolumeAccessMode dev)))
         else if kc_VolumeMode k \<noteq> None \<and> kc_VolumeMode k \<noteq> Some (PersistentVolumeMode dev)
         then Some (claimError devPath (''okteto volume mode is '' @ quote (the (kc_VolumeMode k))
                @ '' instead of '' @ quote (PersistentVolumeMode dev)))
         else None)"

definition checkPVCValues :: "devWorld \<Rightarrow> (quantity \<Rightarrow> string) \<Rightarrow> quantity \<Rightarrow> string \<Rightarrow> string \<Rightarrow> devClaim \<Rightarrow> mainDev
    \<Rightarrow> upStop + mainDev" where
  "checkPVCValues dw sq tenGi uuid devPath k dev =
     (case kc_Storage k of
        None \<Rightarrow> Inl (Fails (claimError devPath ''current okteto volume size is wrong''))
      | Some current \<Rightarrow>
          (case de_ParseQuantity dw (PersistentVolumeSize dw dev) of
             None \<Rightarrow> Inl (Fails (ErrText (''error parsing dev volume size '' @ PersistentVolumeSize dw dev)))
           | Some wanted \<Rightarrow>
               if wanted < current \<and> (current \<noteq> tenGi \<or> HasDefaultPersistentVolumeSize dw dev)
               then Inl (Fails (claimError devPath (''okteto volume size '' @ quote (PersistentVolumeSize dw dev)
                      @ '' cannot be less than previous value '' @ quote (sq current))))
               else
                 (case (if current < wanted then restartDev uuid dev else Some dev) of
                    None \<Rightarrow> Inl UpPanics
                  | Some dev \<Rightarrow>
                      (case checkClaimSettings dev devPath k of
                         Some e \<Rightarrow> Inl (Fails e)
                       | None \<Rightarrow> Inr dev))))"

definition isDynamicallyProvisionedPVCError :: "upErr \<Rightarrow> string \<Rightarrow> bool" where
  "isDynamicallyProvisionedPVCError e claim \<longleftrightarrow>
     contains (errString e)
       (''persistentvolumeclaims '' @ [CHR 0x22] @ claim @ [CHR 0x22] @ '' is forbidden: only dynamically provisioned pvc ''
        @ ''can be resized and the storageclass that provisions the pvc must support resize'')"

text \<open>
  \<open>got\<close> is the claim in the cluster and \<open>wrote\<close> the answer to the claim that is created or updated.
  The result is the development container, whose annotations may have changed, and the claim written.
\<close>

datatype claimWrite = CreateClaim devClaim | UpdateClaim devClaim

definition createClaim :: "(claimWrite \<Rightarrow> upErr option) \<Rightarrow> devClaim \<Rightarrow> mainDev \<Rightarrow> upStop + mainDev \<times> claimWrite" where
  "createClaim wrote k dev =
     (case wrote (CreateClaim k) of
        Some e \<Rightarrow> Inl (Fails (WrapErr ''error creating kubernetes volume claim: '' e))
      | None \<Rightarrow> Inr (dev, CreateClaim k))"

definition updateClaim :: "(claimWrite \<Rightarrow> upErr option) \<Rightarrow> devClaim \<Rightarrow> devClaim \<Rightarrow> mainDev \<Rightarrow> upStop + mainDev \<times> claimWrite" where
  "updateClaim wrote k old dev =
     (let k = k\<lparr>kc_StorageClassName :=
                  (case kc_StorageClassName k of None \<Rightarrow> kc_StorageClassName old | Some c \<Rightarrow> Some c),
                kc_VolumeName := kc_VolumeName old\<rparr>
      in case wrote (UpdateClaim k) of
           None \<Rightarrow> Inr (dev, UpdateClaim k)
         | Some e \<Rightarrow>
             if isDynamicallyProvisionedPVCError e (kc_Name k) then Inr (dev, UpdateClaim k)
             else Inl (Fails (WrapErr ''error updating kubernetes volume claim: '' e)))"

definition CreateForDev :: "devWorld \<Rightarrow> (quantity \<Rightarrow> string) \<Rightarrow> quantity \<Rightarrow> string \<Rightarrow> upErr + devClaim
    \<Rightarrow> (claimWrite \<Rightarrow> upErr option) \<Rightarrow> string \<Rightarrow> mainDev \<Rightarrow> upStop + mainDev \<times> claimWrite" where
  "CreateForDev dw sq tenGi uuid got wrote devPath dev =
     (case translateClaim dw dev of
        None \<Rightarrow> Inl UpPanics
      | Some k \<Rightarrow>
          (case got of
             Inl e \<Rightarrow>
               if contains (errString e) ''not found'' then createClaim wrote k dev
               else Inl (Fails (WrapErr ''error getting kubernetes volume claim: '' e))
           | Inr old \<Rightarrow>
               if kc_Name old = [] then createClaim wrote k dev
               else case checkPVCValues dw sq tenGi uuid devPath old dev of
                      Inl stop \<Rightarrow> Inl stop
                    | Inr dev \<Rightarrow> updateClaim wrote k old dev))"

text \<open>
  Destroying a claim polls: a deletion that is refused because the claim is gone ends it. A poll is
  the answer to the deletion, whether the time is over with the pods listed then, and the cancellation.
\<close>

record claimPoll =
  cp_Delete :: "upErr option"
  cp_Late :: bool
  cp_Pods :: "upErr + pod list"
  cp_Cancelled :: "upErr option"

definition checkIfAttached :: "string \<Rightarrow> upErr + pod list \<Rightarrow> upErr option" where
  "checkIfAttached name pods =
     (case pods of
        Inl e \<Rightarrow> None
      | Inr ps \<Rightarrow>
          (case find (\<lambda>p. name \<in> set (po_Claims p)) ps of
             None \<Rightarrow> None
           | Some p \<Rightarrow>
               Some (ErrText (''can'' @ [CHR 0x27] @ ''t delete the volume '' @ quote name @ '' since it'' @ [CHR 0x27]
                 @ ''s still attached to '' @ quote (''pod/'' @ po_Name p)))))"

fun destroyVolume :: "string \<Rightarrow> string \<Rightarrow> claimPoll list \<Rightarrow> upStop option" where
  "destroyVolume name timeout [] = Some Blocks"
| "destroyVolume name timeout (p # ps) =
     (case cp_Delete p of
        Some e \<Rightarrow>
          if IsNotFound (errString e) then None
          else Some (Fails (ErrText (''error deleting kubernetes volume: '' @ errString e)))
      | None \<Rightarrow>
          if cp_Late p then
            Some (Fails (case checkIfAttached name (cp_Pods p) of
                           Some e \<Rightarrow> e
                         | None \<Rightarrow> ErrText (''volume claim '' @ quote name @ '' wasn'' @ [CHR 0x27] @ ''t destroyed after '' @ timeout)))
          else case cp_Cancelled p of
                 Some e \<Rightarrow> Some (Fails e)
               | None \<Rightarrow> destroyVolume name timeout ps)"

section \<open>The secret\<close>

text \<open>The files are read one after another; a key with \<open>stignore\<close> in it gets a number.\<close>

fun secretFiles :: "(string \<Rightarrow> upErr + string) \<Rightarrow> nat \<Rightarrow> secret list \<Rightarrow> smap \<Rightarrow> upErr + smap" where
  "secretFiles readFile idx [] data = Inr data"
| "secretFiles readFile idx (s # ss) data =
     (case readFile (se_LocalPath s) of
        Inl e \<Rightarrow> Inl (WrapErr (''error reading secret '' @ quote (se_LocalPath s) @ '': '') e)
      | Inr content \<Rightarrow>
          if contains (GetKeyName s) ''stignore''
          then secretFiles readFile (Suc idx) ss (gput (GetKeyName s @ ''-'' @ showNat (Suc idx)) content data)
          else secretFiles readFile idx ss (gput (GetKeyName s) content data))"

text \<open>
  \<open>config\<close> is the Syncthing configuration, \<open>cert\<close> and \<open>key\<close> the constants of \<^verbatim>\<open>certs.go\<close>. The result is the
  name and the data written, and whether the secret was there.
\<close>

definition writeDevSecret :: "upErr + string \<Rightarrow> string \<Rightarrow> string \<Rightarrow> (string \<Rightarrow> upErr + string)
    \<Rightarrow> (string \<Rightarrow> smap \<Rightarrow> bool \<Rightarrow> upErr option) \<Rightarrow> 's dev \<Rightarrow> bool \<Rightarrow> upErr + string \<times> smap \<times> bool" where
  "writeDevSecret config cert key readFile wrote dev exists =
     (case config of
        Inl e \<Rightarrow> Inl (WrapErr ''error generating syncthing configuration: '' e)
      | Inr xml \<Rightarrow>
          (case secretFiles readFile 0 (elems (dv_Secrets dev))
                  [(''config.xml'', xml), (''cert.pem'', cert), (''key.pem'', key)] of
             Inl e \<Rightarrow> Inl e
           | Inr data \<Rightarrow>
               (case wrote (secretName (dv_Name dev)) data exists of
                  Some e \<Rightarrow>
                    Inl (WrapErr (if exists then ''error updating kubernetes okteto secret: ''
                                  else ''error creating kubernetes sync secret: '') e)
                | None \<Rightarrow> Inr (secretName (dv_Name dev), data, exists))))"

definition createDevSecret :: "upErr + string \<Rightarrow> upErr + string \<Rightarrow> string \<Rightarrow> string \<Rightarrow> (string \<Rightarrow> upErr + string)
    \<Rightarrow> (string \<Rightarrow> smap \<Rightarrow> bool \<Rightarrow> upErr option) \<Rightarrow> 's dev \<Rightarrow> upErr + string \<times> smap \<times> bool" where
  "createDevSecret got config cert key readFile wrote dev =
     (case got of
        Inl e \<Rightarrow>
          if contains (errString e) ''not found'' then writeDevSecret config cert key readFile wrote dev False
          else Inl (WrapErr ''error getting kubernetes secret: '' e)
      | Inr found \<Rightarrow> writeDevSecret config cert key readFile wrote dev (found \<noteq> []))"

definition destroyDevSecret :: "upErr option \<Rightarrow> upErr option" where
  "destroyDevSecret deleted =
     (case deleted of
        None \<Rightarrow> None
      | Some e \<Rightarrow>
          if contains (errString e) ''not found'' then None
          else Some (ErrText (''error deleting kubernetes okteto secret: '' @ errString e)))"

section \<open>The service of a development container without an application\<close>

definition oktetoAutoIngressAnnotation :: string where
  [go_consts]: "oktetoAutoIngressAnnotation = ''dev.okteto.com/auto-ingress''"

text \<open>The metadata is dereferenced: \<open>None\<close> is a panic.\<close>

definition translateDevService :: "'s dev \<Rightarrow> string \<Rightarrow> k8sService option" where
  "translateDevService dev ns =
     (case dv_Metadata dev of
        None \<Rightarrow> None
      | Some m \<Rightarrow>
          Some \<lparr>ks_Meta = newMeta (dv_Name dev) ns [(DevLabel, ''true'')]
                  (grange_put (elems (md_Annotations m))
                     (if elems (dv_Services dev) = [] then [(oktetoAutoIngressAnnotation, ''true'')] else [])),
                ks_Selector = [(''app'', dv_Name dev)], ks_Type = ''ClusterIP'', ks_ClusterIP = [], ks_ExternalName = [],
                ks_Ports = [\<lparr>sp_Name = dv_Name dev, sp_Port = 8080, sp_TargetPort = 8080, sp_Protocol = []\<rparr>]\<rparr>)"

end
