(* ===== verification/DevObjectsProps.thy ===== *)
theory DevObjectsProps
  imports DevObjects
begin

text \<open>
  What the objects of a development container have in common with the pods that use them: the secret
  holds every file the pods mount, a volume claim is updated without losing what it has, the
  application a development container is looked up for is unique.
\<close>

section \<open>The secret and the volumes that mount it\<close>

lemma gget_gput: "gget (gput k v m) k' = (if k' = k then Some v else gget m k')"
  by (simp add: gget_def gput_def update_conv')

text \<open>The names that need a number are the same for the secret and for its volume.\<close>

definition plainNames :: "secret list \<Rightarrow> bool" where
  "plainNames ss \<longleftrightarrow> (\<forall>s \<in> set ss. contains (GetKeyName s) ''stignore'' = contains (GetKeyName s) ''.stignore'')"

lemma secretFiles_other:
  "secretFiles readFile idx ss data = Inr data' \<Longrightarrow> plainNames ss \<Longrightarrow>
     k \<notin> kp_Key ` set (secretItems idx ss) \<Longrightarrow> gget data' k = gget data k"
proof (induction ss arbitrary: idx data)
  case (Cons s ss)
  then show ?case
    by (auto simp: plainNames_def gget_gput split: sum.splits if_splits)
qed simp

lemma length_secretItems: "length (secretItems idx ss) = length ss"
  by (induction idx ss rule: secretItems.induct) simp_all

lemma secretFiles_item:
  "secretFiles readFile idx ss data = Inr data' \<Longrightarrow> plainNames ss \<Longrightarrow> distinct (map kp_Key (secretItems idx ss)) \<Longrightarrow>
     i < length ss \<Longrightarrow>
     \<exists>content. readFile (se_LocalPath (ss ! i)) = Inr content \<and> gget data' (kp_Key (secretItems idx ss ! i)) = Some content"
proof (induction ss arbitrary: idx data i)
  case (Cons s ss)
  have plain: "plainNames ss" "contains (GetKeyName s) ''stignore'' = contains (GetKeyName s) ''.stignore''"
    using Cons.prems(2) by (simp_all add: plainNames_def)
  let ?num = "contains (GetKeyName s) ''.stignore''"
  let ?idx = "if ?num then Suc idx else idx" and ?key = "if ?num then GetKeyName s @ ''-'' @ showNat (Suc idx) else GetKeyName s"
  obtain content where c: "readFile (se_LocalPath s) = Inr content"
    and run: "secretFiles readFile ?idx ss (gput ?key content data) = Inr data'"
    using Cons.prems(1) plain(2) by (auto split: sum.splits if_splits)
  have items: "kp_Key (secretItems idx (s # ss) ! 0) = ?key" "tl (secretItems idx (s # ss)) = secretItems ?idx ss"
    by simp_all
  have d: "distinct (map kp_Key (secretItems ?idx ss))" "?key \<notin> kp_Key ` set (secretItems ?idx ss)"
    using Cons.prems(3) by (auto split: if_splits)
  show ?case
  proof (cases i)
    case 0
    with secretFiles_other [OF run plain(1) d(2)] c items show ?thesis by (simp add: gget_gput)
  next
    case (Suc j)
    with Cons.IH [OF run plain(1) d(1), of j] Cons.prems(4) show ?thesis by auto
  qed
qed simp

lemma volume_of_secret:
  "v \<in> set (ps_Volumes (TranslateOktetoDevSecret name ss spec)) \<Longrightarrow> v \<notin> set (ps_Volumes spec) \<Longrightarrow>
     v_Source v = SecretSource (secretName name) (secretItems 0 ss)"
  by (auto simp: TranslateOktetoDevSecret_def addVolume_def split: if_splits)


text \<open>A name with \<^verbatim>\<open>stignore\<close> and no dot before it gets a number in the secret only.\<close>

lemma stignore_name_mismatch:
  "secretFiles (\<lambda>p. Inr ''x'') 0 [\<lparr>se_LocalPath = ''a'', se_RemotePath = ''/etc/mystignore'', se_Mode = 420\<rparr>] [] =
     Inr [(''dev-secret-mystignore-1'', ''x'')]
   \<and> map kp_Key (secretItems 0 [\<lparr>se_LocalPath = ''a'', se_RemotePath = ''/etc/mystignore'', se_Mode = 420\<rparr>]) = [''dev-secret-mystignore'']"
  by code_simp

text \<open>Two secrets with the same file name share a key: both paths get the content of the second.\<close>

lemma secret_keys_collide:
  "secretFiles (\<lambda>p. Inr p) 0 [\<lparr>se_LocalPath = ''a'', se_RemotePath = ''/a/key'', se_Mode = 420\<rparr>,
     \<lparr>se_LocalPath = ''b'', se_RemotePath = ''/b/key'', se_Mode = 420\<rparr>] [] = Inr [(''dev-secret-key'', ''b'')]"
  by code_simp

section \<open>The volume claim\<close>

lemma restartDev_fields:
  "restartDev uuid dev = Some dev' \<Longrightarrow> dv_PersistentVolumeInfo dev' = dv_PersistentVolumeInfo dev \<and> dv_Name dev' = dv_Name dev"
  by (auto simp: restartDev_def split: option.splits)

lemma restartMetadata_restarts: "gget (elems (md_Annotations (restartMetadata uuid m))) OktetoRestartAnnotation = Some uuid"
  by (cases m) (simp_all add: restartMetadata_def gget_gput, simp add: gget_def)

lemma restartDev_restarts:
  "restartDev uuid dev = Some dev' \<Longrightarrow>
     \<exists>m. dv_Metadata dev' = Some m \<and> gget (elems (md_Annotations m)) OktetoRestartAnnotation = Some uuid"
  using restartMetadata_restarts [of uuid "dv_Metadata dev"] by (auto simp: restartDev_def split: option.splits)

lemma same_volume:
  assumes "dv_PersistentVolumeInfo dev' = dv_PersistentVolumeInfo dev"
  shows "PersistentVolumeSize dw dev' = PersistentVolumeSize dw dev" "PersistentVolumeStorageClass dev' = PersistentVolumeStorageClass dev"
    "PersistentVolumeAccessMode dev' = PersistentVolumeAccessMode dev" "PersistentVolumeMode dev' = PersistentVolumeMode dev"
    "HasDefaultPersistentVolumeSize dw dev' = HasDefaultPersistentVolumeSize dw dev"
  using assms by (simp_all add: PersistentVolumeSize_def PersistentVolumeStorageClass_def PersistentVolumeAccessMode_def
      PersistentVolumeMode_def HasDefaultPersistentVolumeSize_def)

lemma checkPVCValues_ok:
  assumes "checkPVCValues dw sq tenGi uuid path k dev = Inr dev'" and "de_ParseQuantity dw (PersistentVolumeSize dw dev) = Some wanted"
  shows "\<exists>current. kc_Storage k = Some current
    \<and> (current \<le> wanted \<or> current = tenGi \<and> \<not> HasDefaultPersistentVolumeSize dw dev)
    \<and> checkClaimSettings dev path k = None
    \<and> (current < wanted \<longrightarrow> (\<exists>m. dv_Metadata dev' = Some m \<and> gget (elems (md_Annotations m)) OktetoRestartAnnotation = Some uuid))"
proof -
  obtain current dev1 where c: "kc_Storage k = Some current" "\<not> (wanted < current \<and> (current \<noteq> tenGi \<or> HasDefaultPersistentVolumeSize dw dev))"
    "(if current < wanted then restartDev uuid dev else Some dev) = Some dev1" "checkClaimSettings dev1 path k = None" "dev' = dev1"
    using assms by (auto simp: checkPVCValues_def split: option.splits if_splits)
  have same: "dv_PersistentVolumeInfo dev1 = dv_PersistentVolumeInfo dev"
    using c(3) restartDev_fields by (auto split: if_splits)
  have "checkClaimSettings dev path k = None"
    using c(4) unfolding checkClaimSettings_def same_volume [OF same] .
  moreover have "current < wanted \<longrightarrow> (\<exists>m. dv_Metadata dev1 = Some m \<and> gget (elems (md_Annotations m)) OktetoRestartAnnotation = Some uuid)"
    using c(3) restartDev_restarts by (auto split: if_splits)
  moreover have "current \<le> wanted \<or> current = tenGi \<and> \<not> HasDefaultPersistentVolumeSize dw dev"
    using c(2) by linarith
  ultimately show ?thesis using c(1) c(5) by blast
qed

text \<open>C31. A volume claim that is in the cluster is updated only to the volume, storage class and mode it has; its access
  mode is that of the manifest; its size does not shrink, except from the old default of 10Gi; and when it grows the pods
  are marked for a restart.\<close>

theorem claim_update_keeps_volume:
  assumes "CreateForDev dw sq tenGi uuid (Inr old) wrote path dev = Inr (dev', UpdateClaim k)"
  shows "kc_VolumeName k = kc_VolumeName old \<and> kc_StorageClassName k = kc_StorageClassName old
    \<and> (kc_VolumeMode old \<noteq> None \<longrightarrow> kc_VolumeMode k = kc_VolumeMode old)
    \<and> (length (kc_AccessModes old) = 1 \<longrightarrow> kc_AccessModes k = kc_AccessModes old)
    \<and> (\<exists>current wanted. kc_Storage old = Some current \<and> kc_Storage k = Some wanted
        \<and> (current \<le> wanted \<or> current = tenGi \<and> \<not> HasDefaultPersistentVolumeSize dw dev)
        \<and> (current < wanted \<longrightarrow> (\<exists>m. dv_Metadata dev' = Some m \<and> gget (elems (md_Annotations m)) OktetoRestartAnnotation = Some uuid)))"
proof -
  obtain k0 dev1 where k0: "translateClaim dw dev = Some k0"
    and ok: "checkPVCValues dw sq tenGi uuid path old dev = Inr dev1" and up: "updateClaim wrote k0 old dev1 = Inr (dev', UpdateClaim k)"
    using assms by (auto simp: CreateForDev_def createClaim_def split: option.splits if_splits sum.splits)
  obtain wanted where w: "de_ParseQuantity dw (PersistentVolumeSize dw dev) = Some wanted" "kc_Storage k0 = Some wanted"
    and f: "kc_StorageClassName k0 = (if PersistentVolumeStorageClass dev = [] then None else Some (PersistentVolumeStorageClass dev))"
      "kc_VolumeMode k0 = Some (PersistentVolumeMode dev)" "kc_AccessModes k0 = [PersistentVolumeAccessMode dev]"
    using k0 by (auto simp: translateClaim_def split: option.splits)
  have k: "k = k0\<lparr>kc_StorageClassName := (case kc_StorageClassName k0 of None \<Rightarrow> kc_StorageClassName old | Some c \<Rightarrow> Some c),
                kc_VolumeName := kc_VolumeName old\<rparr>" "dev' = dev1"
    using up by (auto simp: updateClaim_def Let_def split: option.splits if_splits)
  obtain current where c: "kc_Storage old = Some current"
    "current \<le> wanted \<or> current = tenGi \<and> \<not> HasDefaultPersistentVolumeSize dw dev"
    and settings: "checkClaimSettings dev path old = None"
    and m: "current < wanted \<longrightarrow> (\<exists>m. dv_Metadata dev1 = Some m \<and> gget (elems (md_Annotations m)) OktetoRestartAnnotation = Some uuid)"
    using checkPVCValues_ok [OF ok w(1)] by blast
  from settings have "PersistentVolumeStorageClass dev \<noteq> [] \<longrightarrow> kc_StorageClassName old = Some (PersistentVolumeStorageClass dev)"
    "length (kc_AccessModes old) = 1 \<longrightarrow> hd (kc_AccessModes old) = PersistentVolumeAccessMode dev"
    "kc_VolumeMode old \<noteq> None \<longrightarrow> kc_VolumeMode old = Some (PersistentVolumeMode dev)"
    by (auto simp: checkClaimSettings_def Let_def split: if_splits)
  with k f w c m show ?thesis
    by (auto simp: length_Suc_conv)
qed

text \<open>The exception: a claim of 10Gi is updated to a smaller size, which the API server refuses.\<close>

lemma ten_gi_claim_shrinks:
  assumes "de_ParseQuantity dw (PersistentVolumeSize dw dev) = Some wanted" "wanted < tenGi" "\<not> HasDefaultPersistentVolumeSize dw dev"
    and "kc_Storage old = Some tenGi" "kc_Name old \<noteq> []" "checkClaimSettings dev path old = None" "\<And>k. wrote k = None"
  shows "\<exists>k. CreateForDev dw sq tenGi uuid (Inr old) wrote path dev = Inr (dev, UpdateClaim k) \<and> kc_Storage k = Some wanted"
  using assms by (simp add: CreateForDev_def translateClaim_def updateClaim_def checkPVCValues_def Let_def)

section \<open>Looking up the application\<close>

lemma originals_unique: "originals g xs = [x] \<Longrightarrow> x \<in> set xs \<and> gstr (om_Labels (g x)) DevCloneLabel = []
    \<and> (\<forall>y \<in> set xs. gstr (om_Labels (g y)) DevCloneLabel = [] \<longrightarrow> y = x)"
proof -
  assume o: "originals g xs = [x]"
  have "set (originals g xs) = {y \<in> set xs. gstr (om_Labels (g y)) DevCloneLabel = []}"
    by (auto simp: originals_def)
  with o show ?thesis by auto
qed

text \<open>A deployment that is looked up by labels is found only when exactly one of those that match is no clone of
  a development container.\<close>

theorem deployment_by_labels_unique:
  assumes "deploymentByDev get list dev = Found d" and "elems (dv_Selector dev) \<noteq> []"
  shows "\<exists>ds. list (LabelsSelector dev) = Inr ds \<and> d \<in> set ds \<and> gstr (om_Labels (d_Meta d)) DevCloneLabel = []
    \<and> (\<forall>d' \<in> set ds. gstr (om_Labels (d_Meta d')) DevCloneLabel = [] \<longrightarrow> d' = d)"
proof -
  obtain ds where ds: "list (LabelsSelector dev) = Inr ds" "originals d_Meta ds = [d]"
    using assms by (auto simp: deploymentByDev_def split: sum.splits if_splits list.splits)
  with originals_unique [OF ds(2)] show ?thesis by blast
qed

text \<open>When all the stateful sets that match are clones, the first of none is taken.\<close>

lemma statefulset_clones_panic:
  "elems (dv_Selector dev) \<noteq> [] \<Longrightarrow> list (LabelsSelector dev) = Inr ss \<Longrightarrow> ss \<noteq> [] \<Longrightarrow>
     \<forall>s \<in> set ss. gstr (om_Labels (sfs_Meta s)) DevCloneLabel \<noteq> [] \<Longrightarrow> statefulSetByDev get list dev = None"
proof -
  assume a: "elems (dv_Selector dev) \<noteq> []" "list (LabelsSelector dev) = Inr ss" "ss \<noteq> []"
    "\<forall>s \<in> set ss. gstr (om_Labels (sfs_Meta s)) DevCloneLabel \<noteq> []"
  then have "originals sfs_Meta ss = []" by (simp add: originals_def)
  with a show ?thesis by (cases ss) (simp_all add: statefulSetByDev_def)
qed

text \<open>A service without metadata ends the program when the volume has to grow.\<close>

lemma service_without_metadata_panics:
  "s \<in> set ss \<Longrightarrow> dv_Metadata s = None \<Longrightarrow> dv_Services dev = Some ss \<Longrightarrow> restartDev uuid dev = None"
  by (auto simp: restartDev_def restartServices_def list_ex_iff)

section \<open>Examples\<close>

definition secretDev :: mainDev where
  "secretDev = exampleDev\<lparr>dv_Secrets := Some [\<lparr>se_LocalPath = ''t'', se_RemotePath = ''/etc/token'', se_Mode = 420\<rparr>,
     \<lparr>se_LocalPath = ''i'', se_RemotePath = ''/src/.stignore'', se_Mode = 420\<rparr>]\<rparr>"

definition secretVolumeOf :: "mainDev \<Rightarrow> volume" where
  "secretVolumeOf dev = \<lparr>v_Name = oktetoDevSecretVolume,
     v_Source = SecretSource (secretName (dv_Name dev)) (secretItems 0 (elems (dv_Secrets dev)))\<rparr>"


definition exampleClaim :: devClaim where
  "exampleClaim = \<lparr>kc_Name = ''api-okteto'', kc_Labels = [], kc_Annotations = [], kc_AccessModes = [''ReadWriteOnce''],
     kc_Storage = Some 10, kc_StorageClassName = Some ''fast'', kc_VolumeMode = Some ''Filesystem'', kc_VolumeName = ''v1''\<rparr>"

lemma claim_update_keeps_volume_witness:
  "\<exists>dev' k. CreateForDev exampleDevWorld (\<lambda>q. []) 20 ''u'' (Inr exampleClaim) (\<lambda>k. None) [] exampleDev = Inr (dev', UpdateClaim k)
    \<and> kc_VolumeName k = ''v1'' \<and> kc_StorageClassName k = Some ''fast''"
proof -
  have "case CreateForDev exampleDevWorld (\<lambda>q. []) 20 ''u'' (Inr exampleClaim) (\<lambda>k. None) [] exampleDev of
      Inr (dev', UpdateClaim k) \<Rightarrow> True | _ \<Rightarrow> False"
    by code_simp
  then obtain dev' k where run: "CreateForDev exampleDevWorld (\<lambda>q. []) 20 ''u'' (Inr exampleClaim) (\<lambda>k. None) [] exampleDev
      = Inr (dev', UpdateClaim k)"
    by (auto split: sum.splits prod.splits claimWrite.splits)
  have "kc_VolumeName exampleClaim = ''v1''" "kc_StorageClassName exampleClaim = Some ''fast''"
    by (simp_all add: exampleClaim_def)
  with claim_update_keeps_volume [OF run] run show ?thesis by simp
qed

definition selectedDev :: mainDev where
  "selectedDev = exampleDev\<lparr>dv_Selector := Some [(''app'', ''api'')]\<rparr>"

definition labelled :: "string \<Rightarrow> smap \<Rightarrow> deployment" where
  "labelled n ls = \<lparr>d_Meta = \<lparr>om_Name = n, om_Namespace = ''ns'', om_UID = n, om_Labels = ls, om_Annotations = []\<rparr>,
     d_Replicas = None, d_MatchLabels = [], d_Strategy = [],
     d_Template = \<lparr>pt_Meta = newMeta [] [] [] [], pt_Spec = emptyPodSpec\<rparr>\<rparr>"

lemma deployment_by_labels_unique_witness:
  "\<exists>ds. (Inr [labelled ''api'' [], labelled ''api-okteto'' [(DevCloneLabel, ''uid'')]] :: string + deployment list) = Inr ds
    \<and> labelled ''api'' [] \<in> set ds \<and> gstr (om_Labels (d_Meta (labelled ''api'' []))) DevCloneLabel = []
    \<and> (\<forall>d' \<in> set ds. gstr (om_Labels (d_Meta d')) DevCloneLabel = [] \<longrightarrow> d' = labelled ''api'' [])"
  by (rule deployment_by_labels_unique [of "\<lambda>n. LookupNotFound" "\<lambda>s. Inr [labelled ''api'' [], labelled ''api-okteto'' [(DevCloneLabel, ''uid'')]]"
        selectedDev "labelled ''api'' []"])
    (simp_all add: deploymentByDev_def selectedDev_def originals_def labelled_def gstr_def gget_def)

end
