(* ===== verification/Forwarding.thy ===== *)
theory Forwarding
  imports DevModel UpErrors
begin

text \<open>
  Ports forwarded between the machine of the developer and the cluster: the manager on top of the
  Kubernetes API (\<^verbatim>\<open>src/pkg/k8s/forward/manager.go\<close>), the one on top of SSH
  (\<^verbatim>\<open>src/pkg/ssh/manager.go\<close>, \<^verbatim>\<open>src/pkg/ssh/reverse.go\<close>), the syntax of a forward
  (\<^verbatim>\<open>src/pkg/model/forward\<close>) and how \<open>okteto up\<close> fills a manager (\<^verbatim>\<open>src/cmd/up/forwards.go\<close>). What
  both managers promise is the locale \<open>forwarder\<close>. Which local ports can be bound and which services
  carry a label are parameters; labels that are there but empty are taken as absent.
\<close>

section \<open>The syntax of a forward\<close>

definition forwardString :: "forward \<Rightarrow> string" where
  "forwardString f =
     (if fw_Service f then showInt (fw_Local f) @ '':'' @ fw_ServiceName f @ '':'' @ showInt (fw_Remote f)
      else showInt (fw_Local f) @ '':'' @ showInt (fw_Remote f))"

definition emptyForward :: forward where
  "emptyForward = \<lparr>fw_Labels = [], fw_ServiceName = [], fw_Local = 0, fw_Remote = 0, fw_Service = False,
     fw_IsGlobal = False\<rparr>"

definition MalformedPortForward :: "string \<Rightarrow> upErr" where
  "MalformedPortForward raw = ErrText (''wrong port-forward syntax '' @ [CHR 0x27] @ raw @ [CHR 0x27]
     @ '', must be of the form '' @ [CHR 0x27] @ ''localPort:remotePort'' @ [CHR 0x27] @ '' or '' @ [CHR 0x27]
     @ ''localPort:serviceName:remotePort'' @ [CHR 0x27])"

definition CannotConvertLocal :: "string \<Rightarrow> string \<Rightarrow> upErr" where
  "CannotConvertLocal port raw = ErrText (''Cannot convert local port '' @ [CHR 0x27] @ port @ [CHR 0x27]
     @ '' in port-forward '' @ [CHR 0x27] @ raw @ [CHR 0x27])"

record forwardRaw =
  fr_Labels :: "smap option"
  fr_ServiceName :: string
  fr_Local :: int
  fr_Remote :: int

definition UnmarshalExtendedForm :: "upErr + forwardRaw \<Rightarrow> upErr + forward" where
  "UnmarshalExtendedForm node =
     (case node of
        Inl e \<Rightarrow> Inl e
      | Inr raw \<Rightarrow>
          let f = emptyForward\<lparr>fw_Local := fr_Local raw, fw_Remote := fr_Remote raw,
                               fw_ServiceName := fr_ServiceName raw, fw_Labels := elems (fr_Labels raw),
                               fw_Service := (elems (fr_Labels raw) \<noteq> [] \<or> fr_ServiceName raw \<noteq> [])\<rparr>
          in if fr_Labels raw \<noteq> None \<and> fw_ServiceName f \<noteq> []
             then Inl (ErrText (''Can not use ServiceName and Labels to specify the service.'' @ [CHR 0x0A]
                    @ ''Use either the service name or labels to get the service to expose.''))
             else Inr f)"

text \<open>\<open>Forward.UnmarshalYAML\<close>: the node as a string, or else as a record.\<close>

definition unmarshalForward :: "string option \<Rightarrow> upErr + forwardRaw \<Rightarrow> upErr + forward" where
  "unmarshalForward asString asRecord =
     (case asString of
        None \<Rightarrow> UnmarshalExtendedForm asRecord
      | Some raw \<Rightarrow>
          (case split (CHR '':'') raw of
             [l, r] \<Rightarrow>
               (case parseInt 64 l of
                  None \<Rightarrow> Inl (CannotConvertLocal l raw)
                | Some local \<Rightarrow>
                    (case parseInt 64 r of
                       None \<Rightarrow> Inl (MalformedPortForward raw)
                     | Some remote \<Rightarrow> Inr (emptyForward\<lparr>fw_Local := local, fw_Remote := remote\<rparr>)))
           | [l, svc, r] \<Rightarrow>
               (case parseInt 64 l of
                  None \<Rightarrow> Inl (CannotConvertLocal l raw)
                | Some local \<Rightarrow>
                    (case parseInt 64 r of
                       None \<Rightarrow> Inl (MalformedPortForward raw)
                     | Some remote \<Rightarrow>
                         Inr (emptyForward\<lparr>fw_Local := local, fw_Remote := remote, fw_Service := True,
                                          fw_ServiceName := svc\<rparr>)))
           | _ \<Rightarrow> Inl (MalformedPortForward raw)))"

record globalForward =
  gf_Labels :: "smap option"
  gf_ServiceName :: string
  gf_Local :: int
  gf_Remote :: int
  gf_IsAdded :: bool

definition globalForwardString :: "globalForward \<Rightarrow> string" where
  "globalForwardString gf = showInt (gf_Local gf) @ '':'' @ gf_ServiceName gf @ '':'' @ showInt (gf_Remote gf)"

definition UnmarshalGlobalExtended :: "upErr + forwardRaw \<Rightarrow> upErr + globalForward" where
  "UnmarshalGlobalExtended node =
     (case node of
        Inl e \<Rightarrow> Inl e
      | Inr raw \<Rightarrow>
          if fr_Labels raw \<noteq> None \<and> fr_ServiceName raw \<noteq> []
          then Inl (ErrText (''Can not use both ServiceName and Labels to select the service.'' @ [CHR 0x0A]
                 @ ''Use either the service name or labels to select the service to be exposed.''))
          else if fr_Labels raw = None \<and> fr_ServiceName raw = []
          then Inl (ErrText ''You need to specify either ServiceName or labels to select the service.'')
          else Inr \<lparr>gf_Labels = fr_Labels raw, gf_ServiceName = fr_ServiceName raw, gf_Local = fr_Local raw,
                    gf_Remote = fr_Remote raw, gf_IsAdded = False\<rparr>)"

definition unmarshalGlobalForward :: "string option \<Rightarrow> upErr + forwardRaw \<Rightarrow> upErr + globalForward" where
  "unmarshalGlobalForward asString asRecord =
     (case asString of
        None \<Rightarrow> UnmarshalGlobalExtended asRecord
      | Some raw \<Rightarrow>
          (case split (CHR '':'') raw of
             [l, svcName, r] \<Rightarrow>
               if svcName = [] then Inl (ErrText ''service name cannot be empty'')
               else (case parseInt 64 l of
                       None \<Rightarrow> Inl (CannotConvertLocal l raw)
                     | Some local \<Rightarrow>
                         (case parseInt 64 r of
                            None \<Rightarrow> Inl (CannotConvertLocal l raw)
                          | Some remote \<Rightarrow>
                              Inr \<lparr>gf_Labels = None, gf_ServiceName = svcName, gf_Local = local,
                                   gf_Remote = remote, gf_IsAdded = False\<rparr>))
           | _ \<Rightarrow> Inl (ErrText (''Wrong global forward syntax '' @ [CHR 0x27] @ raw @ [CHR 0x27]
                 @ '', must be of the form '' @ [CHR 0x27] @ ''localPort:serviceName:remotePort'' @ [CHR 0x27]))))"

section \<open>The machine and the cluster\<close>

record forwardWorld =
  fwo_GOOS :: string
  fwo_IsPortAvailable :: "string \<Rightarrow> int \<Rightarrow> bool"
  fwo_ServicesByLabel :: "string \<Rightarrow> upErr + string list"

definition TransformLabelsToSelector :: "smap \<Rightarrow> string" where
  "TransformLabelsToSelector ls = join '','' (map (\<lambda>(key, value). key @ ''='' @ value) ls)"

definition GetServiceNameByLabel :: "forwardWorld \<Rightarrow> smap \<Rightarrow> upErr + string" where
  "GetServiceNameByLabel fw ls =
     (let labels = TransformLabelsToSelector ls
      in case fwo_ServicesByLabel fw labels of
           Inl e \<Rightarrow> Inl e
         | Inr [] \<Rightarrow> Inl (ErrText (''could not find any service with the following labels: '' @ [CHR 0x27] @ labels @ [CHR 0x27]))
         | Inr [name] \<Rightarrow> Inr name
         | Inr names \<Rightarrow>
             Inl (ErrText (''services ['' @ join '', '' names @ ''] have the following labels: '' @ [CHR 0x27] @ labels
               @ [CHR 0x27] @ ''.'' @ [CHR 0x0A]
               @ ''Please specify the one you want to forward by name or use more specific labels'')))"

definition TransformLabelsToServiceName :: "forwardWorld \<Rightarrow> forward \<Rightarrow> upErr + forward" where
  "TransformLabelsToServiceName fw f =
     (case GetServiceNameByLabel fw (fw_Labels f) of
        Inl e \<Rightarrow> Inl e
      | Inr serviceName \<Rightarrow> Inr (f\<lparr>fw_ServiceName := serviceName\<rparr>))"

definition listedTwice :: "int \<Rightarrow> string \<Rightarrow> upErr" where
  "listedTwice port where' = ErrText (''port '' @ showInt port @ '' is listed multiple times, please check your ''
     @ where' @ ''configuration'')"

definition privilegedDarwin :: "int \<Rightarrow> upErr" where
  "privilegedDarwin port = ErrText (''local port '' @ showInt port @ '' is privileged. Define '' @ [CHR 0x27]
     @ ''interface: 0.0.0.0'' @ [CHR 0x27] @ '' in your okteto manifest and try again'')"

definition privilegedLinux :: "int \<Rightarrow> upErr" where
  "privilegedLinux port = ErrText (''local port '' @ showInt port @ '' is privileged. Try running '' @ [CHR 0x22]
     @ ''sudo setcap '' @ [CHR 0x27] @ ''cap_net_bind_service=+ep'' @ [CHR 0x27] @ '' /usr/local/bin/okteto''
     @ [CHR 0x22] @ '' and try again'')"

definition alreadyInUse :: "int \<Rightarrow> string" where
  "alreadyInUse port = ''local port '' @ showInt port @ '' is already in-use in your local machine''"

section \<open>Forwards through the Kubernetes API\<close>

record portForwardManager =
  pf_ports :: "(int, forward) gomap"
  pf_services :: "string list"
  pf_iface :: string
  pf_stopped :: bool

definition NewPortForwardManager :: "string \<Rightarrow> portForwardManager" where
  "NewPortForwardManager iface = \<lparr>pf_ports = [], pf_services = [], pf_iface = iface, pf_stopped = False\<rparr>"

definition pfAdd :: "forwardWorld \<Rightarrow> portForwardManager \<Rightarrow> forward \<Rightarrow> upErr + portForwardManager" where
  "pfAdd fw p f =
     (let port = fw_Local f
      in if gget (pf_ports p) port \<noteq> None then Inl (listedTwice port [])
         else if \<not> fwo_IsPortAvailable fw (pf_iface p) port
         then Inl (if port \<le> 1024 \<and> fwo_GOOS fw = ''darwin'' then privilegedDarwin port
                   else if port \<le> 1024 \<and> fwo_GOOS fw = ''linux'' then privilegedLinux port
                   else ErrText (alreadyInUse port))
         else Inr (p\<lparr>pf_ports := gput port f (pf_ports p),
                     pf_services := (if fw_Service f then List.insert (fw_ServiceName f) (pf_services p)
                                     else pf_services p)\<rparr>))"

definition notImplemented :: upErr where
  "notImplemented = ErrText ''not implemented''"

text \<open>\<open>StartGlobalForwarding\<close> and \<open>AddReverse\<close> of this manager.\<close>

definition pfStartGlobalForwarding :: "portForwardManager \<Rightarrow> upErr + portForwardManager" where
  "pfStartGlobalForwarding p = Inl notImplemented"

definition pfAddReverse :: "portForwardManager \<Rightarrow> reverse \<Rightarrow> upErr + portForwardManager" where
  "pfAddReverse p r = Inl notImplemented"

definition portPair :: "forward \<Rightarrow> string" where
  "portPair f = showInt (fw_Local f) @ '':'' @ showInt (fw_Remote f)"

definition devPodPorts :: "portForwardManager \<Rightarrow> string list" where
  "devPodPorts p = map portPair (filter (\<lambda>f. \<not> fw_Service f) (map snd (pf_ports p)))"

definition getServicePorts :: "string \<Rightarrow> (int, forward) gomap \<Rightarrow> string list" where
  "getServicePorts service forwards =
     map portPair (filter (\<lambda>f. fw_Service f \<and> fw_ServiceName f = service) (map snd forwards))"

section \<open>Forwards through SSH\<close>

record sshForward =
  sf_local :: string
  sf_remote :: string

record forwardManager =
  fm_localInterface :: string
  fm_remoteInterface :: string
  fm_forwards :: "(int, sshForward) gomap"
  fm_globalForwards :: "(int, sshForward) gomap"
  fm_reverses :: "(int, sshForward) gomap"

definition NewForwardManager :: "string \<Rightarrow> string \<Rightarrow> forwardManager" where
  "NewForwardManager localInterface remoteInterface =
     \<lparr>fm_localInterface = localInterface, fm_remoteInterface = remoteInterface, fm_forwards = [],
      fm_globalForwards = [], fm_reverses = []\<rparr>"

definition canAdd :: "forwardWorld \<Rightarrow> forwardManager \<Rightarrow> int \<Rightarrow> bool \<Rightarrow> upErr option" where
  "canAdd fw fm port checkAvailable =
     (if gget (fm_reverses fm) port \<noteq> None then Some (listedTwice port ''reverse forwards '')
      else if gget (fm_forwards fm) port \<noteq> None then Some (listedTwice port ''forwards '')
      else if gget (fm_globalForwards fm) port \<noteq> None then Some (listedTwice port ''global forwards '')
      else if \<not> checkAvailable then None
      else if \<not> fwo_IsPortAvailable fw (fm_localInterface fm) port
      then Some (if port \<le> 1024 \<and> fwo_GOOS fw = ''darwin'' \<and> fm_localInterface fm = Localhost
                 then privilegedDarwin port
                 else if port \<le> 1024 \<and> fwo_GOOS fw = ''linux'' then privilegedLinux port
                 else WrapErr (alreadyInUse port @ '': '') ErrPortAlreadyAllocated)
      else None)"

text \<open>\<open>net.JoinHostPort\<close>.\<close>

definition JoinHostPort :: "string \<Rightarrow> int \<Rightarrow> string" where
  "JoinHostPort host port =
     (if CHR '':'' \<in> set host then ''['' @ host @ '']:'' @ showInt port else host @ '':'' @ showInt port)"

definition fmAdd :: "forwardWorld \<Rightarrow> forwardManager \<Rightarrow> forward \<Rightarrow> upErr + forwardManager" where
  "fmAdd fw fm f =
     (case canAdd fw fm (fw_Local f) True of
        Some e \<Rightarrow> Inl e
      | None \<Rightarrow>
          let new = \<lparr>sf_local = JoinHostPort (fm_localInterface fm) (fw_Local f),
                     sf_remote = (if fw_Service f then JoinHostPort (fw_ServiceName f) (fw_Remote f)
                                  else JoinHostPort (fm_remoteInterface fm) (fw_Remote f))\<rparr>
          in Inr (if fw_IsGlobal f
                  then fm\<lparr>fm_globalForwards := gput (fw_Local f) new (fm_globalForwards fm)\<rparr>
                  else fm\<lparr>fm_forwards := gput (fw_Local f) new (fm_forwards fm)\<rparr>))"

definition fmAddReverse :: "forwardWorld \<Rightarrow> forwardManager \<Rightarrow> reverse \<Rightarrow> upErr + forwardManager" where
  "fmAddReverse fw fm r =
     (case canAdd fw fm (re_Local r) False of
        Some e \<Rightarrow> Inl e
      | None \<Rightarrow>
          Inr (fm\<lparr>fm_reverses := gput (re_Local r)
                 \<lparr>sf_local = JoinHostPort (fm_localInterface fm) (re_Local r),
                  sf_remote = JoinHostPort (fm_remoteInterface fm) (re_Remote r)\<rparr> (fm_reverses fm)\<rparr>))"

section \<open>What a manager of forwards promises\<close>

text \<open>
  The interface \<open>forwarder\<close> of \<^verbatim>\<open>src/cmd/up/types.go\<close> as \<open>okteto up\<close> relies on it: \<open>taken\<close> are the
  local ports that have a forward, a port is added once, and adding one leaves the others.
\<close>

locale forwarder =
  fixes addTo :: "'f \<Rightarrow> forward \<Rightarrow> upErr + 'f"
    and addReverseTo :: "'f \<Rightarrow> reverse \<Rightarrow> upErr + 'f"
    and taken :: "'f \<Rightarrow> int set"
  assumes add_new: "addTo m f = Inr m' \<Longrightarrow> fw_Local f \<notin> taken m \<and> taken m' = insert (fw_Local f) (taken m)"
    and reverse_new: "addReverseTo m r = Inr m' \<Longrightarrow> re_Local r \<notin> taken m \<and> taken m' = insert (re_Local r) (taken m)"
begin

lemma add_taken: "addTo m f = Inr m' \<Longrightarrow> taken m' = insert (fw_Local f) (taken m)"
  using add_new by blast

lemma reverse_taken: "addReverseTo m r = Inr m' \<Longrightarrow> taken m' = insert (re_Local r) (taken m)"
  using reverse_new by blast

lemma taken_twice: "fw_Local f \<in> taken m \<Longrightarrow> isl (addTo m f)"
  using add_new [of m f] by (cases "addTo m f") auto

end

definition pfTaken :: "portForwardManager \<Rightarrow> int set" where
  "pfTaken p = set (gkeys (pf_ports p))"

definition fmTaken :: "forwardManager \<Rightarrow> int set" where
  "fmTaken fm = set (gkeys (fm_forwards fm)) \<union> set (gkeys (fm_globalForwards fm)) \<union> set (gkeys (fm_reverses fm))"

interpretation pf: forwarder "pfAdd fw" pfAddReverse pfTaken for fw
  by unfold_locales
    (auto simp: pfAdd_def pfAddReverse_def pfTaken_def Let_def set_gkeys_put gget_None_iff split: if_splits)

interpretation fm: forwarder "fmAdd fw" "fmAddReverse fw" fmTaken for fw
  by unfold_locales
    (auto simp: fmAdd_def fmAddReverse_def canAdd_def fmTaken_def Let_def set_gkeys_put gget_None_iff
      split: if_splits option.splits)

section \<open>Filling a manager\<close>

text \<open>
  The loops of \<^verbatim>\<open>src/cmd/up/forwards.go\<close>, for either manager: \<open>addTo\<close> and \<open>addReverseTo\<close> are its methods.
  A labelled forward is replaced in the development container by the one with the name of its service.
\<close>

definition labelled :: "forward \<Rightarrow> bool" where
  "labelled f \<longleftrightarrow> fw_Labels f \<noteq> []"

text \<open>\<open>upContext.forwards\<close> without SSH stops at the first error.\<close>

fun addForwards :: "forwardWorld \<Rightarrow> ('f \<Rightarrow> forward \<Rightarrow> upErr + 'f) \<Rightarrow> forward list \<Rightarrow> 'f \<Rightarrow> upErr + forward list \<times> 'f" where
  "addForwards fw addTo [] m = Inr ([], m)"
| "addForwards fw addTo (f # fs) m =
     (case (if labelled f then TransformLabelsToServiceName fw f else Inr f) of
        Inl e \<Rightarrow> Inl e
      | Inr f \<Rightarrow>
          (case addTo m f of
             Inl e \<Rightarrow> Inl e
           | Inr m \<Rightarrow>
               (case addForwards fw addTo fs m of
                  Inl e \<Rightarrow> Inl e
                | Inr (fs, m) \<Rightarrow> Inr (f # fs, m))))"

text \<open>
  One tick of \<open>addToForwarder\<close>: the forwards of the development container, the manager, the ports that
  count as added and the last error.
\<close>

record 'f tick =
  tk_Manager :: 'f
  tk_Added :: "int list"
  tk_Err :: "upErr option"

fun tickForwards :: "forwardWorld \<Rightarrow> ('f \<Rightarrow> forward \<Rightarrow> upErr + 'f) \<Rightarrow> forward list \<Rightarrow> 'f tick \<Rightarrow> forward list \<times> 'f tick" where
  "tickForwards fw addTo [] t = ([], t)"
| "tickForwards fw addTo (f # fs) t =
     (let (f', t') =
        (if fw_Local f \<in> set (tk_Added t) then (f, t)
         else
           case (if labelled f then TransformLabelsToServiceName fw f else Inr f) of
             Inl e \<Rightarrow> (f, t\<lparr>tk_Err := Some e\<rparr>)
           | Inr f' \<Rightarrow>
               let t = (if labelled f then t\<lparr>tk_Added := fw_Local f' # tk_Added t\<rparr> else t)
               in case addTo (tk_Manager t) f' of
                    Inl e \<Rightarrow> (f', t\<lparr>tk_Err := Some e\<rparr>)
                  | Inr m \<Rightarrow> (f', t\<lparr>tk_Manager := m, tk_Added := fw_Local f' # tk_Added t\<rparr>));
          (fs', t'') = tickForwards fw addTo fs t'
      in (f' # fs', t''))"

fun tickReverses :: "('f \<Rightarrow> reverse \<Rightarrow> upErr + 'f) \<Rightarrow> reverse list \<Rightarrow> 'f tick \<Rightarrow> 'f tick" where
  "tickReverses addReverseTo [] t = t"
| "tickReverses addReverseTo (r # rs) t =
     tickReverses addReverseTo rs
       (if re_Local r \<in> set (tk_Added t) then t
        else case addReverseTo (tk_Manager t) r of
               Inl e \<Rightarrow> t\<lparr>tk_Err := Some e\<rparr>
             | Inr m \<Rightarrow> t\<lparr>tk_Manager := m, tk_Added := re_Local r # tk_Added t\<rparr>)"

text \<open>
  The loop over the events: a tick, with the machine and the cluster as they are then, or the end of
  the ten seconds. The result is \<open>None\<close> while it still waits.
\<close>

datatype forwardEvent = Tick forwardWorld | ForwardTimeout

fun addToForwarder :: "(forwardWorld \<Rightarrow> 'f \<Rightarrow> forward \<Rightarrow> upErr + 'f) \<Rightarrow> (forwardWorld \<Rightarrow> 'f \<Rightarrow> reverse \<Rightarrow> upErr + 'f)
    \<Rightarrow> string \<Rightarrow> reverse list \<Rightarrow> forwardEvent list \<Rightarrow> forward list \<Rightarrow> 'f tick
    \<Rightarrow> (upErr option \<times> forward list \<times> 'f tick) option" where
  "addToForwarder addTo addReverseTo timeout reverses [] fs t = None"
| "addToForwarder addTo addReverseTo timeout reverses (ForwardTimeout # evs) fs t =
     Some ((case tk_Err t of Some e \<Rightarrow> Some e
            | None \<Rightarrow> Some (ErrText (''could not create local ports after '' @ timeout))), fs, t)"
| "addToForwarder addTo addReverseTo timeout reverses (Tick fw # evs) fs t =
     (case tickForwards fw (addTo fw) fs (t\<lparr>tk_Err := None\<rparr>) of
        (fs, t) \<Rightarrow>
          if tk_Err t \<noteq> None then addToForwarder addTo addReverseTo timeout reverses evs fs t
          else let t = tickReverses (addReverseTo fw) reverses t
               in if tk_Err t \<noteq> None then addToForwarder addTo addReverseTo timeout reverses evs fs t
                  else Some (None, fs, t))"

subsection \<open>Global forwards\<close>

definition isNeededGlobalForwarder :: "globalForward list \<Rightarrow> bool" where
  "isNeededGlobalForwarder gfs = list_ex (\<lambda>f. \<not> gf_IsAdded f) gfs"

definition toForward :: "globalForward \<Rightarrow> forward" where
  "toForward gf = \<lparr>fw_Labels = elems (gf_Labels gf), fw_ServiceName = gf_ServiceName gf, fw_Local = gf_Local gf,
     fw_Remote = gf_Remote gf, fw_Service = True, fw_IsGlobal = True\<rparr>"

text \<open>A port that is in use is tried again later; another error ends the loop.\<close>

fun addGlobalForwards :: "forwardWorld \<Rightarrow> ('f \<Rightarrow> forward \<Rightarrow> upErr + 'f) \<Rightarrow> globalForward list \<Rightarrow> 'f
    \<Rightarrow> upErr option \<times> globalForward list \<times> 'f" where
  "addGlobalForwards fw addTo [] m = (None, [], m)"
| "addGlobalForwards fw addTo (gf # gfs) m =
     (let rest = (\<lambda>gf m. case addGlobalForwards fw addTo gfs m of (e, gfs', m') \<Rightarrow> (e, gf # gfs', m'))
      in if gf_IsAdded gf then rest gf m
         else
           case (if gf_Labels gf \<noteq> None then TransformLabelsToServiceName fw (toForward gf) else Inr (toForward gf)) of
             Inl e \<Rightarrow> (Some e, gf # gfs, m)
           | Inr f \<Rightarrow>
               let gf = (if gf_Labels gf \<noteq> None then gf\<lparr>gf_ServiceName := fw_ServiceName f\<rparr> else gf)
               in case addTo m f of
                    Inl e \<Rightarrow> if errorsIs ErrPortAlreadyAllocated e then rest gf m else (Some e, gf # gfs, m)
                  | Inr m \<Rightarrow> rest (gf\<lparr>gf_IsAdded := True\<rparr>) m)"

text \<open>
  \<open>setGlobalForwardsIfRequiredLoop\<close>: an error goes to \<open>GlobalForwarderStatus\<close>, which ends the session; the
  loop is over when every global forward was added or the activation is cancelled.
\<close>

datatype globalEvent = GlobalTick forwardWorld | GlobalDone

fun setGlobalForwardsIfRequiredLoop :: "(forwardWorld \<Rightarrow> 'f \<Rightarrow> forward \<Rightarrow> upErr + 'f) \<Rightarrow> ('f \<Rightarrow> upErr + 'f)
    \<Rightarrow> globalEvent list \<Rightarrow> globalForward list \<Rightarrow> 'f \<Rightarrow> (upErr option \<times> globalForward list \<times> 'f) option" where
  "setGlobalForwardsIfRequiredLoop addTo startGlobal [] gfs m =
     (if isNeededGlobalForwarder gfs then None else Some (None, gfs, m))"
| "setGlobalForwardsIfRequiredLoop addTo startGlobal (ev # evs) gfs m =
     (if \<not> isNeededGlobalForwarder gfs then Some (None, gfs, m)
      else case ev of
        GlobalDone \<Rightarrow> Some (None, gfs, m)
      | GlobalTick fw \<Rightarrow>
          (case addGlobalForwards fw (addTo fw) gfs m of
             (Some e, gfs, m) \<Rightarrow> Some (Some e, gfs, m)
           | (None, gfs, m) \<Rightarrow>
               (case startGlobal m of
                  Inl e \<Rightarrow> Some (Some e, gfs, m)
                | Inr m \<Rightarrow> setGlobalForwardsIfRequiredLoop addTo startGlobal evs gfs m)))"

subsection \<open>The forwards of a session\<close>

definition ClusterPort :: int where "ClusterPort = 22000"

definition GUIPort :: int where "GUIPort = 8384"

definition localForward :: "int \<Rightarrow> int \<Rightarrow> forward" where
  "localForward local remote = emptyForward\<lparr>fw_Local := local, fw_Remote := remote\<rparr>"

text \<open>
  \<open>sync\<close> are the ports of the remote Syncthing on this machine, \<open>started\<close> is the result of starting the
  manager and \<open>entry\<close> that of writing the SSH configuration. Without SSH the ports of Syncthing come last.
\<close>

definition directForwards :: "forwardWorld \<Rightarrow> int \<times> int \<Rightarrow> upErr option \<Rightarrow> mainDev
    \<Rightarrow> upErr + forward list \<times> portForwardManager" where
  "directForwards fw sync started dev =
     (case addForwards fw (pfAdd fw) (elems (dv_Forward dev)) (NewPortForwardManager (dv_Interface dev)) of
        Inl e \<Rightarrow> Inl e
      | Inr (fs, m) \<Rightarrow>
          (case pfAdd fw m (localForward (fst sync) ClusterPort) of
             Inl e \<Rightarrow> Inl e
           | Inr m \<Rightarrow>
               (case pfAdd fw m (localForward (snd sync) GUIPort) of
                  Inl e \<Rightarrow> Inl e
                | Inr m \<Rightarrow> (case started of Some e \<Rightarrow> Inl e | None \<Rightarrow> Inr (fs, m)))))"

definition sshForwards :: "devWorld \<Rightarrow> forwardWorld \<Rightarrow> forwardEvent list \<Rightarrow> int \<times> int \<Rightarrow> string \<Rightarrow> upErr option \<Rightarrow> bool
    \<Rightarrow> mainDev \<Rightarrow> (upErr + mainDev \<times> portForwardManager \<times> forwardManager) option" where
  "sshForwards dw fw evs sync timeout started entry dev =
     (let dev = AssignRemotePort dw dev
      in case pfAdd fw (NewPortForwardManager (dv_Interface dev)) (localForward (dv_RemotePort dev) (dv_SSHServerPort dev)) of
           Inl e \<Rightarrow> Some (Inl e)
         | Inr p \<Rightarrow>
             (case fmAdd fw (NewForwardManager (dv_Interface dev) ''0.0.0.0'') (localForward (fst sync) ClusterPort) of
                Inl e \<Rightarrow> Some (Inl e)
              | Inr m \<Rightarrow>
                  (case fmAdd fw m (localForward (snd sync) GUIPort) of
                     Inl e \<Rightarrow> Some (Inl e)
                   | Inr m \<Rightarrow>
                       (case addToForwarder fmAdd fmAddReverse timeout (elems (dv_Reverse dev)) evs (elems (dv_Forward dev))
                               \<lparr>tk_Manager = m, tk_Added = [], tk_Err = None\<rparr> of
                          None \<Rightarrow> None
                        | Some (Some e, _, _) \<Rightarrow> Some (Inl e)
                        | Some (None, fs, t) \<Rightarrow>
                            Some (case started of
                                    Some e \<Rightarrow> Inl e
                                  | None \<Rightarrow>
                                      if \<not> entry then Inl (ErrText ''failed to add entry to your SSH config file'')
                                      else Inr (dev\<lparr>dv_Forward := (if dv_Forward dev = None then None else Some fs)\<rparr>,
                                                p, tk_Manager t))))))"

section \<open>What the loops achieve\<close>

text \<open>
  Without labels, a port that counts as added is taken in the manager; when a tick ends without an
  error every port of the development container counts as added.
\<close>

context forwarder
begin

lemma tickForwards_sound:
  assumes "tickForwards fw addTo fs t = (fs', t')" and "list_all (\<lambda>f. \<not> labelled f) fs"
    and "set (tk_Added t) \<subseteq> taken (tk_Manager t)"
  shows "fs' = fs \<and> set (tk_Added t') \<subseteq> taken (tk_Manager t') \<and> set (tk_Added t) \<subseteq> set (tk_Added t')
    \<and> (tk_Err t' = None \<longrightarrow> tk_Err t = None \<and> fw_Local ` set fs \<subseteq> set (tk_Added t'))"
  using assms
proof (induction fs arbitrary: t fs' t')
  case Nil
  then show ?case by simp
next
  case (Cons f fs)
  show ?case
  proof (cases "fw_Local f \<in> set (tk_Added t)")
    case True
    with Cons.prems obtain fs2 where r: "tickForwards fw addTo fs t = (fs2, t')" "fs' = f # fs2"
      by (auto split: prod.splits)
    from Cons.IH [OF r(1)] Cons.prems r(2) True show ?thesis by auto
  next
    case False
    show ?thesis
    proof (cases "addTo (tk_Manager t) f")
      case (Inl e)
      with False Cons.prems obtain fs2 where
        r: "tickForwards fw addTo fs (t\<lparr>tk_Err := Some e\<rparr>) = (fs2, t')" "fs' = f # fs2"
        by (auto split: prod.splits)
      from Cons.IH [OF r(1)] Cons.prems r(2) show ?thesis by auto
    next
      case (Inr m)
      let ?t = "t\<lparr>tk_Manager := m, tk_Added := fw_Local f # tk_Added t\<rparr>"
      from Inr False Cons.prems obtain fs2 where
        r: "tickForwards fw addTo fs ?t = (fs2, t')" "fs' = f # fs2"
        by (auto split: prod.splits)
      have "set (tk_Added ?t) \<subseteq> taken (tk_Manager ?t)"
        using Cons.prems(3) add_taken [OF Inr] by auto
      from Cons.IH [OF r(1) _ this] Cons.prems r(2) show ?thesis by auto
    qed
  qed
qed

lemma tickReverses_sound:
  assumes "set (tk_Added t) \<subseteq> taken (tk_Manager t)"
  shows "set (tk_Added (tickReverses addReverseTo rs t)) \<subseteq> taken (tk_Manager (tickReverses addReverseTo rs t))
    \<and> set (tk_Added t) \<subseteq> set (tk_Added (tickReverses addReverseTo rs t))
    \<and> (tk_Err (tickReverses addReverseTo rs t) = None \<longrightarrow>
         tk_Err t = None \<and> re_Local ` set rs \<subseteq> set (tk_Added (tickReverses addReverseTo rs t)))"
  using assms
proof (induction rs arbitrary: t)
  case Nil
  then show ?case by simp
next
  case (Cons r rs)
  show ?case
  proof (cases "re_Local r \<in> set (tk_Added t)")
    case True
    with Cons.IH [of t] Cons.prems show ?thesis by auto
  next
    case False
    show ?thesis
    proof (cases "addReverseTo (tk_Manager t) r")
      case (Inl e)
      with False Cons.IH [of "t\<lparr>tk_Err := Some e\<rparr>"] Cons.prems show ?thesis by auto
    next
      case (Inr m)
      let ?t = "t\<lparr>tk_Manager := m, tk_Added := re_Local r # tk_Added t\<rparr>"
      have "set (tk_Added ?t) \<subseteq> taken (tk_Manager ?t)"
        using Cons.prems reverse_taken [OF Inr] by auto
      from Cons.IH [OF this] Inr False show ?thesis by auto
    qed
  qed
qed

lemma addGlobalForwards_sound:
  "addGlobalForwards fw addTo gfs m = (e, gfs', m') \<Longrightarrow>
     taken m \<subseteq> taken m' \<and> length gfs' = length gfs
     \<and> (\<forall>i < length gfs. gf_Local (gfs' ! i) = gf_Local (gfs ! i)
          \<and> (gf_IsAdded (gfs' ! i) \<longrightarrow> gf_IsAdded (gfs ! i) \<or> gf_Local (gfs ! i) \<in> taken m'))"
proof (induction gfs arbitrary: m e gfs' m')
  case Nil
  then show ?case by simp
next
  case (Cons gf gfs)
  have step: ?case if r: "addGlobalForwards fw addTo gfs m2 = (e, gfs2, m')" and g: "gfs' = gf2 # gfs2"
      and l: "gf_Local gf2 = gf_Local gf" and m: "taken m \<subseteq> taken m2"
      and a: "gf_IsAdded gf2 \<Longrightarrow> gf_IsAdded gf \<or> gf_Local gf \<in> taken m2" for gf2 gfs2 m2
    using Cons.IH [OF r] g l m a by (auto simp: nth_Cons split: nat.splits)
  show ?case
  proof (cases "gf_IsAdded gf")
    case True
    with Cons.prems obtain gfs2 where "addGlobalForwards fw addTo gfs m = (e, gfs2, m')" "gfs' = gf # gfs2"
      by (auto split: prod.splits)
    from step [OF this] True show ?thesis by simp
  next
    case False
    define fo where "fo = (if gf_Labels gf \<noteq> None then TransformLabelsToServiceName fw (toForward gf) else Inr (toForward gf))"
    note prems = Cons.prems [unfolded addGlobalForwards.simps Let_def, folded fo_def]
    show ?thesis
    proof (cases fo)
      case (Inl e')
      with prems False have "m' = m" "gfs' = gf # gfs" by simp_all
      then show ?thesis by simp
    next
      case (Inr f)
      then have fl: "fw_Local f = gf_Local gf"
        by (auto simp: fo_def TransformLabelsToServiceName_def toForward_def split: if_splits sum.splits)
      define gf2 where "gf2 = (if gf_Labels gf \<noteq> None then gf\<lparr>gf_ServiceName := fw_ServiceName f\<rparr> else gf)"
      have g2: "gf_Local gf2 = gf_Local gf" "gf_IsAdded gf2 = gf_IsAdded gf" by (simp_all add: gf2_def)
      show ?thesis
      proof (cases "addTo m f")
        case (Inl e')
        show ?thesis
        proof (cases "errorsIs ErrPortAlreadyAllocated e'")
          case True
          with prems False Inr Inl obtain gfs2 where
            "addGlobalForwards fw addTo gfs m = (e, gfs2, m')" "gfs' = gf2 # gfs2"
            by (auto simp: gf2_def split: prod.splits)
          from step [OF this] g2 show ?thesis by simp
        next
          case f: False
          with prems False Inr Inl have "m' = m" "gfs' = gf2 # gfs" by (auto simp: gf2_def)
          with g2 show ?thesis by (auto simp: nth_Cons split: nat.splits)
        qed
      next
        case m2: (Inr m2)
        with prems False Inr obtain gfs2 where
          "addGlobalForwards fw addTo gfs m2 = (e, gfs2, m')" "gfs' = gf2\<lparr>gf_IsAdded := True\<rparr> # gfs2"
          by (auto simp: gf2_def split: prod.splits)
        from step [OF this] g2 add_taken [OF m2] fl show ?thesis by auto
      qed
    qed
  qed
qed

end

subsection \<open>The manager of okteto up\<close>

text \<open>The three groups of an SSH manager never share a local port.\<close>

definition fmApart :: "forwardManager \<Rightarrow> bool" where
  "fmApart fm \<longleftrightarrow>
     set (gkeys (fm_forwards fm)) \<inter> set (gkeys (fm_globalForwards fm)) = {}
     \<and> set (gkeys (fm_forwards fm)) \<inter> set (gkeys (fm_reverses fm)) = {}
     \<and> set (gkeys (fm_globalForwards fm)) \<inter> set (gkeys (fm_reverses fm)) = {}"

lemma fmApart_add: "fmAdd fw m f = Inr m' \<Longrightarrow> fmApart m \<Longrightarrow> fmApart m'"
  by (auto simp: fmAdd_def canAdd_def fmApart_def Let_def set_gkeys_put gget_None_iff split: if_splits option.splits)

lemma fmApart_reverse: "fmAddReverse fw m r = Inr m' \<Longrightarrow> fmApart m \<Longrightarrow> fmApart m'"
  by (auto simp: fmAddReverse_def canAdd_def fmApart_def set_gkeys_put gget_None_iff split: if_splits option.splits)

lemma fmApart_tickForwards:
  "tickForwards fw (fmAdd fw) fs t = (fs', t') \<Longrightarrow> fmApart (tk_Manager t) \<Longrightarrow> fmApart (tk_Manager t')"
  by (induction fs arbitrary: t fs' t')
    (auto simp: Let_def split: if_splits prod.splits sum.splits dest: fmApart_add)

lemma fmApart_tickReverses:
  "fmApart (tk_Manager t) \<Longrightarrow> fmApart (tk_Manager (tickReverses (fmAddReverse fw) rs t))"
  by (induction rs arbitrary: t) (auto split: sum.splits dest: fmApart_reverse)

definition startTick :: "'f \<Rightarrow> 'f tick" where
  "startTick m = \<lparr>tk_Manager = m, tk_Added = [], tk_Err = None\<rparr>"

lemma addToForwarder_spec:
  assumes "addToForwarder fmAdd fmAddReverse tmo rs evs fs t = Some (None, fs', t')"
    and "list_all (\<lambda>f. \<not> labelled f) fs" and "set (tk_Added t) \<subseteq> fmTaken (tk_Manager t)"
    and "fmApart (tk_Manager t)"
  shows "fs' = fs \<and> fw_Local ` set fs \<union> re_Local ` set rs \<subseteq> fmTaken (tk_Manager t') \<and> fmApart (tk_Manager t')"
  using assms
proof (induction evs arbitrary: fs t)
  case Nil
  then show ?case by simp
next
  case (Cons ev evs)
  then obtain fw where ev: "ev = Tick fw" by (cases ev) (auto split: option.splits)
  obtain fs1 t1 where t1: "tickForwards fw (fmAdd fw) fs (t\<lparr>tk_Err := None\<rparr>) = (fs1, t1)" by fastforce
  have s1: "fs1 = fs \<and> set (tk_Added t1) \<subseteq> fmTaken (tk_Manager t1)
      \<and> (tk_Err t1 = None \<longrightarrow> fw_Local ` set fs \<subseteq> set (tk_Added t1))"
    using fm.tickForwards_sound [OF t1 Cons.prems(2)] Cons.prems(3) by simp
  have a1: "fmApart (tk_Manager t1)" using fmApart_tickForwards [OF t1] Cons.prems(4) by simp
  let ?t2 = "tickReverses (fmAddReverse fw) rs t1"
  have s2: "set (tk_Added ?t2) \<subseteq> fmTaken (tk_Manager ?t2) \<and> set (tk_Added t1) \<subseteq> set (tk_Added ?t2)
      \<and> (tk_Err ?t2 = None \<longrightarrow> re_Local ` set rs \<subseteq> set (tk_Added ?t2))"
    using fm.tickReverses_sound [of t1 fw rs] s1 by simp
  have a2: "fmApart (tk_Manager ?t2)" using fmApart_tickReverses [OF a1] .
  show ?case
  proof (cases "tk_Err t1 = None")
    case False
    with Cons.IH [of fs t1] Cons.prems s1 a1 t1 ev show ?thesis by simp
  next
    case n1: True
    show ?thesis
    proof (cases "tk_Err ?t2 = None")
      case False
      with Cons.IH [of fs ?t2] n1 Cons.prems s1 s2 a2 t1 ev show ?thesis by simp
    next
      case True
      with n1 Cons.prems(1) t1 s1 s2 a2 ev show ?thesis by auto
    qed
  qed
qed


definition exampleForward :: forward where
  "exampleForward = emptyForward\<lparr>fw_Local := 8080, fw_Remote := 80\<rparr>"

definition freeWorld :: forwardWorld where
  "freeWorld = \<lparr>fwo_GOOS = ''linux'', fwo_IsPortAvailable = (\<lambda>_ _. True), fwo_ServicesByLabel = (\<lambda>_. Inr [''db''])\<rparr>"

definition busyWorld :: forwardWorld where
  "busyWorld = freeWorld\<lparr>fwo_IsPortAvailable := (\<lambda>_ _. False)\<rparr>"


text \<open>
  A labelled forward counts as added before it is: when its port cannot be bound at the first tick the
  second one skips it, and the loop succeeds without it.
\<close>

lemma labelled_forward_lost:
  assumes "labelled f" and "TransformLabelsToServiceName fw f = Inr f'" and "fmAdd fw m f' = Inl e"
  shows "\<exists>t. addToForwarder fmAdd fmAddReverse tmo [] (Tick fw # Tick fw2 # evs) [f] (startTick m) = Some (None, [f'], t)
    \<and> tk_Manager t = m"
proof -
  have "fw_Local f' = fw_Local f"
    using assms(2) by (auto simp: TransformLabelsToServiceName_def split: sum.splits)
  with assms show ?thesis by (simp add: startTick_def)
qed

text \<open>A session that reconnects has a new manager, but global forwards still count as added: none is restored.\<close>

lemma global_forwards_not_restored:
  "list_all gf_IsAdded gfs \<Longrightarrow>
     \<not> isNeededGlobalForwarder gfs \<and> addGlobalForwards fw addTo gfs m = (None, gfs, m)"
  by (induction gfs) (simp_all add: isNeededGlobalForwarder_def)

text \<open>Without SSH a global forward ends the session at the first tick.\<close>

lemma global_forwards_need_ssh:
  "isNeededGlobalForwarder gfs \<Longrightarrow>
     \<exists>e gfs' m'. setGlobalForwardsIfRequiredLoop pfAdd pfStartGlobalForwarding (GlobalTick fw # evs) gfs m
       = Some (Some e, gfs', m')"
  by (auto simp: pfStartGlobalForwarding_def split: prod.splits option.splits)

subsection \<open>The syntax is read as it is written\<close>

lemma showInt_no_colon: "CHR '':'' \<notin> set (showInt i)"
proof -
  have "CHR '':'' \<notin> set (showNat n)" for n
    using showNat_digits [of n] by (auto simp: list_all_iff isDigit_def)
  then show ?thesis by (simp add: showInt_def)
qed

text \<open>A forward is written and read back unchanged, when its service has no colon in its name.\<close>

theorem forward_round_trip:
  assumes "fw_Labels f = []" and "\<not> fw_IsGlobal f" and "CHR '':'' \<notin> set (fw_ServiceName f)"
    and "\<not> fw_Service f \<longrightarrow> fw_ServiceName f = []"
    and "- (2 ^ 63) \<le> fw_Local f" "fw_Local f < 2 ^ 63" "- (2 ^ 63) \<le> fw_Remote f" "fw_Remote f < 2 ^ 63"
  shows "unmarshalForward (Some (forwardString f)) node = Inr f"
proof (cases "fw_Service f")
  case True
  have "split (CHR '':'') (join '':'' [showInt (fw_Local f), fw_ServiceName f, showInt (fw_Remote f)])
      = [showInt (fw_Local f), fw_ServiceName f, showInt (fw_Remote f)]"
    using assms(3) by (intro split_join) (simp_all add: showInt_no_colon)
  with True assms show ?thesis
    by (simp add: unmarshalForward_def forwardString_def parseInt_showInt emptyForward_def)
next
  case False
  have "split (CHR '':'') (join '':'' [showInt (fw_Local f), showInt (fw_Remote f)])
      = [showInt (fw_Local f), showInt (fw_Remote f)]"
    by (intro split_join) (simp_all add: showInt_no_colon)
  with False assms show ?thesis
    by (simp add: unmarshalForward_def forwardString_def parseInt_showInt emptyForward_def)
qed

theorem forward_round_trip_witness:
  "unmarshalForward (Some (forwardString (emptyForward\<lparr>fw_Local := 5432, fw_Service := True, fw_ServiceName := ''db'',
       fw_Remote := 5433\<rparr>))) (Inl ErrLostSyncthing)
   = Inr (emptyForward\<lparr>fw_Local := 5432, fw_Service := True, fw_ServiceName := ''db'', fw_Remote := 5433\<rparr>)"
  by (rule forward_round_trip) (simp_all add: emptyForward_def)

end
