(* ===== verification/UpSession.thy ===== *)
theory UpSession
  imports DevObjects Forwarding
begin

text \<open>
  One activation of a development container: \<^verbatim>\<open>src/cmd/up/activate.go\<close>, \<^verbatim>\<open>devdeployer.go\<close>, \<^verbatim>\<open>syncthing.go\<close>,
  and of \<^verbatim>\<open>exec.go\<close> and \<^verbatim>\<open>up.go\<close> what it calls. The state is what \<open>upContext\<close> holds and the list of the calls
  made so far; the rest of the world is a record of functions of that list, so that every call may
  fail, and may answer differently each time. A step returns its result, or how it stops: with an
  error, by a panic, or blocked on a channel for ever.

  A channel of capacity one is the value in it. The goroutine that initializes Syncthing runs up to
  its end where it is started; the goroutine that runs the command, up to the command's end; the
  other goroutines (monitors, the watch of the applications, global forwards) are the events that end
  the wait of \<open>waitUntilExitOrInterruptOrApply\<close>.
\<close>

section \<open>The world and the state\<close>

datatype upCall =
    UpdateState string
  | ProvideClient
  | LookUpApp
  | InitSyncthing
  | SaveSyncConfig
  | HardTerminate
  | ReadClone
  | RefreshApp
  | WriteClaim
  | WriteSecret
  | DeployApp app
  | WriteDevService
  | FindPod
  | WatchPod
  | WatchEvents
  | StartForwarder
  | DestroyPod string
  | RunSyncthing
  | PingSyncthing bool
  | ScanFiles bool
  | ConnectSyncthing
  | CheckSpace
  | CompleteSync
  | UpdateSyncConfig
  | RestartSyncthing
  | CleanCommand
  | ExecCommand "string list"
  | RestoreTerminal
  | CancelContext
  | StopSyncthing
  | StopForwarder
  | StopHybrid
  | UpdateToken
  | DeleteState

record syncthing =
  sy_Ports :: "int \<times> int"
  sy_ResetDatabase :: bool
  sy_Type :: string
  sy_IgnoreDelete :: bool

datatype upForwarder = DirectForwarder portForwardManager | SSHForwarder portForwardManager forwardManager

record upState =
  us_Dev :: mainDev
  us_GlobalForward :: "globalForward list"
  us_Translations :: "(string, translation) gomap"
  us_Pod :: "pod option"
  us_Sy :: "syncthing option"
  us_Forwarder :: "upForwarder option"
  us_GlobalForwarderStatus :: bool
  us_ShutdownCompleted :: "bool option"
  us_hardTerminate :: "upErr option option"
  us_cleaned :: "string option"
  us_Cancel :: bool
  us_isRetry :: bool
  us_success :: bool
  us_resetSyncthing :: bool
  us_isTerm :: bool
  us_interruptReceived :: bool
  us_hybridCommand :: bool
  us_Trace :: "upCall list"

text \<open>Events of the watches and timers of the waiting loops.\<close>

datatype sleepEvent = SleepTimeout | SleepTick "upErr + app"

datatype podWatchEvent =
    WatchTicker
  | EventNotCast "upErr option"
  | PodEvent string string string string
  | PodNotCast "upErr option"
  | PodState string string bool
  | WatchCancelled upErr

text \<open>An event with the time at the top of the loop before it and the time it is handled.\<close>

record watchStep =
  ws_Top :: int
  ws_Now :: int
  ws_Event :: podWatchEvent

datatype exitEvent =
    CommandDone
  | Disconnected "upErr option"
  | GlobalForwarderFailed upErr
  | SentToBackground
  | AppChanged "upErr option"

record upWorld =
  uw_Dev :: devWorld
  uw_AppWorld :: appWorld
  uw_Namespace :: string
  uw_ManifestName :: string
  uw_ManifestPath :: string
  uw_ManifestPathFlag :: string
  uw_Username :: string
  uw_ShowQuantity :: "quantity \<Rightarrow> string"
  uw_TenGi :: quantity
  uw_IsOkteto :: bool
  uw_Pid :: string
  uw_Err :: "upCall list \<Rightarrow> upCall \<Rightarrow> upErr option"
  uw_Clients :: "upCall list \<Rightarrow> nat \<Rightarrow> appClient"
  uw_DevClone :: "upCall list \<Rightarrow> app \<Rightarrow> upErr + app"
  uw_Deployed :: "upCall list \<Rightarrow> app \<Rightarrow> app"
  uw_SleepEvents :: "upCall list \<Rightarrow> sleepEvent list"
  uw_NewSyncthing :: "upCall list \<Rightarrow> upErr + int \<times> int"
  uw_Claim :: "upCall list \<Rightarrow> upErr + devClaim"
  uw_ClaimWrite :: "upCall list \<Rightarrow> claimWrite \<Rightarrow> upErr option"
  uw_UUID :: "upCall list \<Rightarrow> string"
  uw_PodTries :: "upCall list \<Rightarrow> podTry list"
  uw_WatchSteps :: "upCall list \<Rightarrow> watchStep list"
  uw_Forwards :: "upCall list \<Rightarrow> forwardWorld"
  uw_ForwardEvents :: "upCall list \<Rightarrow> forwardEvent list"
  uw_SSHEntry :: "upCall list \<Rightarrow> bool"
  uw_TimeoutText :: string
  uw_PodLists :: "upCall list \<Rightarrow> podLists"
  uw_PodLogs :: "upCall list \<Rightarrow> string option"
  uw_CleanOutput :: "upCall list \<Rightarrow> string"
  uw_Ping :: "upCall list \<Rightarrow> bool"
  uw_Exit :: "upCall list \<Rightarrow> exitEvent option"
  uw_ReadPid :: "upCall list \<Rightarrow> string"

type_synonym 'a upAct = "upState \<Rightarrow> (upStop + 'a) \<times> upState"

definition record_call :: "upCall \<Rightarrow> upState \<Rightarrow> upState" where
  "record_call c s = s\<lparr>us_Trace := us_Trace s @ [c]\<rparr>"

text \<open>A call whose error ends the step, and a call whose error is only logged.\<close>

definition upcall :: "upWorld \<Rightarrow> upCall \<Rightarrow> unit upAct" where
  "upcall w c s =
     ((case uw_Err w (us_Trace s) c of None \<Rightarrow> Inr () | Some e \<Rightarrow> Inl (Fails e)), record_call c s)"

definition uplog :: "upCall \<Rightarrow> unit upAct" where
  "uplog c s = (Inr (), record_call c s)"

definition upvalue :: "upStop + 'a \<Rightarrow> 'a upAct" where
  "upvalue r s = (r, s)"

definition upget :: "(upState \<Rightarrow> 'a) \<Rightarrow> 'a upAct" where
  "upget f s = (Inr (f s), s)"

definition upput :: "(upState \<Rightarrow> upState) \<Rightarrow> unit upAct" where
  "upput f s = (Inr (), f s)"

abbreviation upseq :: "unit upAct \<Rightarrow> 'a upAct \<Rightarrow> 'a upAct" where
  "upseq m n \<equiv> andThen m (\<lambda>_. n)"

text \<open>\<open>now f\<close> is an answer of the world at this point.\<close>

definition now :: "(upCall list \<Rightarrow> 'a) \<Rightarrow> 'a upAct" where
  "now f = upget (\<lambda>s. f (us_Trace s))"

definition provide :: "upWorld \<Rightarrow> unit upAct" where
  "provide w = upcall w ProvideClient"

definition updateState :: "upWorld \<Rightarrow> string \<Rightarrow> unit upAct" where
  "updateState w st = upcall w (UpdateState st)"

section \<open>Before the development container\<close>

definition setDevContainer :: "app \<Rightarrow> unit upAct" where
  "setDevContainer a s =
     (case GetDevContainer (PodSpec a) (dv_Container (us_Dev s)) of
        Inl e \<Rightarrow> (Inl (appStop e), s)
      | Inr None \<Rightarrow>
          (Inl (Fails (ErrText (''container '' @ quote (dv_Container (us_Dev s)) @ '' does not exist in deployment ''
             @ quote (dv_Name (us_Dev s))))), s)
      | Inr (Some i) \<Rightarrow>
          let c = ps_Containers (PodSpec a) ! i
          in (Inr (), s\<lparr>us_Dev := (us_Dev s)\<lparr>dv_Container := c_Name c,
                                             dv_Image := orDefault (dv_Image (us_Dev s)) (c_Image c)\<rparr>\<rparr>))"

text \<open>The ports are those of the remote Syncthing on this machine. Without an instance nothing is sent.\<close>

definition initializeSyncthing :: "upWorld \<Rightarrow> unit upAct" where
  "initializeSyncthing w s =
     (let new = uw_NewSyncthing w (us_Trace s);
          s = record_call InitSyncthing s
      in case new of
           Inl e \<Rightarrow> (Inr (), s)
         | Inr ports \<Rightarrow>
             let s = record_call SaveSyncConfig (s\<lparr>us_Sy := Some \<lparr>sy_Ports = ports, sy_ResetDatabase = us_resetSyncthing s,
                                             sy_Type = ''sendonly'', sy_IgnoreDelete = True\<rparr>\<rparr>)
             in (Inr (), record_call HardTerminate
                   (s\<lparr>us_hardTerminate := Some (uw_Err w (us_Trace s) HardTerminate)\<rparr>)))"

definition isSleeping :: "app \<Rightarrow> bool" where
  "isSleeping a \<longleftrightarrow> gget (om_Annotations (ObjectMeta a)) StateBeforeSleepingAnnontation \<noteq> None"

text \<open>After the time limit the code goes on with the application as it is.\<close>

fun waitAwake :: "app \<Rightarrow> sleepEvent list \<Rightarrow> upStop + app" where
  "waitAwake a [] = Inl Blocks"
| "waitAwake a (SleepTimeout # es) = Inr a"
| "waitAwake a (SleepTick r # es) =
     (case r of
        Inl e \<Rightarrow> Inl (Fails e)
      | Inr a' \<Rightarrow> if isSleeping a' then waitAwake a' es else Inr a')"

text \<open>The application afterwards: refreshed, unless it was its clone that was looked at.\<close>

definition waitUntilAppIsAwaken :: "upWorld \<Rightarrow> app \<Rightarrow> app upAct" where
  "waitUntilAppIsAwaken w a =
     andThen (upget (\<lambda>s. dv_Autocreate (us_Dev s)))
       (\<lambda>autocreate.
          if autocreate then returnE a
          else
            upseq (provide w)
              (if IsDevModeOn a then
                 andThen (now (\<lambda>tr. uw_DevClone w tr a))
                   (\<lambda>clone. upseq (uplog ReadClone)
                      (case clone of
                         Inl e \<Rightarrow> failE (Fails e)
                       | Inr c \<Rightarrow>
                           if \<not> isSleeping c then returnE a
                           else andThen (now (\<lambda>tr. waitAwake c (uw_SleepEvents w tr)))
                                  (\<lambda>r. upseq (uplog RefreshApp) (andThen (upvalue r) (\<lambda>_. returnE a)))))
               else if \<not> isSleeping a then returnE a
               else andThen (now (\<lambda>tr. waitAwake a (uw_SleepEvents w tr)))
                      (\<lambda>r. upseq (uplog RefreshApp) (upvalue r))))"

section \<open>Deploying the development container\<close>

definition servicesUpWait :: "upWorld \<Rightarrow> bool" where
  "servicesUpWait w = LoadBooleanOrDefault (de_World (uw_Dev w)) ''OKTETO_SERVICES_UP_WAIT'' False"

text \<open>A sandbox that is not in the cluster is not written; else the object the cluster returns is kept.\<close>

definition deployApp :: "upWorld \<Rightarrow> app \<Rightarrow> app upAct" where
  "deployApp w a =
     (case a of
        DeploymentApp d _ \<Rightarrow>
          if om_UID (d_Meta d) = [] \<and> gstr (om_Annotations (d_Meta d)) OktetoAutoCreateAnnotation = OktetoUpCmd
          then returnE a
          else andThen (now (\<lambda>tr. uw_Deployed w tr a)) (\<lambda>a'. upseq (upcall w (DeployApp a)) (returnE a'))
      | StatefulSetApp _ _ \<Rightarrow>
          andThen (now (\<lambda>tr. uw_Deployed w tr a)) (\<lambda>a'. upseq (upcall w (DeployApp a)) (returnE a')))"

definition deployTranslation :: "upWorld \<Rightarrow> translation \<Rightarrow> translation upAct" where
  "deployTranslation w tr =
     (case tl_DevApp tr of
        None \<Rightarrow> failE UpPanics
      | Some devApp \<Rightarrow>
          andThen (deployApp w (onMeta (delAnnotation DeploymentRevisionAnnotation) devApp))
            (\<lambda>devApp. andThen (deployApp w (tl_App tr))
               (\<lambda>a. returnE (tr\<lparr>tl_DevApp := Some devApp, tl_App := a\<rparr>))))"

definition keepTranslation :: "string \<Rightarrow> translation \<Rightarrow> unit upAct" where
  "keepTranslation name tr = upput (\<lambda>s. s\<lparr>us_Translations := gput name tr (us_Translations s)\<rparr>)"

definition deployNamed :: "upWorld \<Rightarrow> string \<times> translation \<Rightarrow> unit upAct" where
  "deployNamed w ntr = andThen (deployTranslation w (snd ntr)) (keepTranslation (fst ntr))"

definition mainTranslation :: "(string, translation) gomap \<Rightarrow> (string \<times> translation) option" where
  "mainTranslation trMap = find (\<lambda>(n, tr). tl_IsMain tr) trMap"

definition devTranslations :: "(string, translation) gomap \<Rightarrow> (string \<times> translation) list" where
  "devTranslations trMap = filter (\<lambda>(n, tr). \<not> tl_IsMain tr) trMap"

definition deployMainDev :: "upWorld \<Rightarrow> (string, translation) gomap \<Rightarrow> unit upAct" where
  "deployMainDev w trMap =
     (case mainTranslation trMap of None \<Rightarrow> failE UpPanics | Some ntr \<Rightarrow> deployNamed w ntr)"

text \<open>A fresh annotation on the pod template forces a new pod.\<close>

definition forceRedeploy :: "string \<Rightarrow> translation \<Rightarrow> translation" where
  "forceRedeploy uuid tr =
     tr\<lparr>tl_DevApp := map_option (onTemplateMeta (putAnnotation ''okteto.dev/force-redeploy'' uuid)) (tl_DevApp tr)\<rparr>"

fun deployDevServices :: "upWorld \<Rightarrow> (string \<times> translation) list \<Rightarrow> unit upAct" where
  "deployDevServices w [] = returnE ()"
| "deployDevServices w ((n, tr) # trs) =
     andThen (now (uw_UUID w))
       (\<lambda>uuid. upseq (deployNamed w (n, forceRedeploy uuid tr)) (deployDevServices w trs))"

definition receiveHardTerminate :: "unit upAct" where
  "receiveHardTerminate s =
     (case us_hardTerminate s of
        None \<Rightarrow> (Inl Blocks, s)
      | Some err \<Rightarrow>
          ((case err of None \<Rightarrow> Inr () | Some e \<Rightarrow> Inl (Fails e)), s\<lparr>us_hardTerminate := None\<rparr>))"

definition createVolume :: "upWorld \<Rightarrow> unit upAct" where
  "createVolume w s =
     (let tr = us_Trace s
      in case CreateForDev (uw_Dev w) (uw_ShowQuantity w) (uw_TenGi w) (uw_UUID w tr) (uw_Claim w tr)
                (uw_ClaimWrite w tr) (uw_ManifestPath w) (us_Dev s) of
           Inl stop \<Rightarrow> (Inl stop, record_call WriteClaim s)
         | Inr (dev, _) \<Rightarrow> (Inr (), record_call WriteClaim (s\<lparr>us_Dev := dev\<rparr>)))"

text \<open>The main development container is the one the translations share.\<close>

definition translateApps :: "upWorld \<Rightarrow> app \<Rightarrow> unit upAct" where
  "translateApps w a s =
     (case GetTranslations (uw_Dev w) (uw_Clients w (us_Trace s) 0) (uw_Namespace w) (uw_ManifestName w) (uw_Username w)
             (us_Dev s) a (us_resetSyncthing s \<or> \<not> PersistentVolumeEnabled (us_Dev s)) of
        Inl e \<Rightarrow> (Inl (appStop e), s)
      | Inr trMap \<Rightarrow>
          let s = s\<lparr>us_Translations := trMap,
                    us_Dev := (case mainTranslation trMap of None \<Rightarrow> us_Dev s | Some (_, tr) \<Rightarrow> tl_MainDev tr)\<rparr>
          in case TranslateDevMode (uw_AppWorld w) trMap of
               Inl e \<Rightarrow> (Inl (appStop e), s)
             | Inr trMap \<Rightarrow> (Inr (), s\<lparr>us_Translations := trMap\<rparr>))"

definition findPod :: "upWorld \<Rightarrow> unit upAct" where
  "findPod w =
     andThen (upget (\<lambda>s. GetRunningPodInLoop (uw_ShowQuantity w) (us_Dev s) (uw_PodTries w (us_Trace s))))
       (\<lambda>r. upseq (uplog FindPod) (andThen (upvalue r) (\<lambda>p. upput (\<lambda>s. s\<lparr>us_Pod := Some p\<rparr>))))"

definition createDevService :: "upWorld \<Rightarrow> unit upAct" where
  "createDevService w =
     andThen (upget (\<lambda>s. translateDevService (us_Dev s) (uw_Namespace w)))
       (\<lambda>svc. case svc of None \<Rightarrow> failE UpPanics | Some _ \<Rightarrow> upcall w WriteDevService)"

definition createDevContainer :: "upWorld \<Rightarrow> app \<Rightarrow> bool \<Rightarrow> unit upAct" where
  "createDevContainer w a create =
     upseq (updateState w ''starting'')
     (upseq (provide w)
     (andThen (upget (\<lambda>s. PersistentVolumeEnabled (us_Dev s)))
     (\<lambda>volume. upseq (if volume then createVolume w else returnE ())
     (upseq (translateApps w a)
     (upseq receiveHardTerminate
     (upseq (upcall w WriteSecret)
     (andThen (upget us_Translations)
     (\<lambda>trMap. upseq (deployMainDev w trMap)
     (upseq (if servicesUpWait w then returnE () else deployDevServices w (devTranslations trMap))
     (upseq (if create then createDevService w else returnE ())
       (findPod w)))))))))))"

section \<open>Waiting until its pod runs\<close>

record podWait =
  pw_Killing :: bool
  pw_Failed :: "string option"
  pw_To :: int

definition insufficientResources :: upErr where
  "insufficientResources =
     UserError (ErrText ''insufficient resources'')
       (''Increase cluster resources or timeout of resources. More information is available here: ''
        @ ''https://okteto.com/docs/reference/okteto-manifest/#timeout-time-optional'')"

definition volumeFullHint :: "upWorld \<Rightarrow> string" where
  "volumeFullHint w =
     join ([CHR 0x0A] @ ''    '')
       [''Okteto volume is full.'',
        ''Increase your persistent volume size, run '' @ quote (GetDownCommand (uw_ManifestPathFlag w)) @ '' and try '' @ quote ''okteto up'' @ '' again.'',
        ''More information about configuring your persistent volume at https://okteto.com/docs/reference/okteto-manifest/#persistentvolume-object-optional'']"

text \<open>The end of the patience with a pod that cannot be scheduled.\<close>

definition schedulingGivenUp :: "int \<Rightarrow> podWait \<Rightarrow> upErr option" where
  "schedulingGivenUp time pw =
     (case pw_Failed pw of
        None \<Rightarrow> None
      | Some msg \<Rightarrow>
          if pw_To pw < time then
            Some (if contains msg ''Insufficient cpu'' \<or> contains msg ''Insufficient memory'' then insufficientResources
                  else ErrText msg)
          else None)"

definition failedReasons :: "string list" where
  "failedReasons = [''Failed'', ''FailedCreatePodSandBox'', ''ErrImageNeverPull'', ''InspectFailed'', ''FailedCreatePodContainer'']"

definition failedEvent :: "upWorld \<Rightarrow> string \<Rightarrow> string \<Rightarrow> upErr option" where
  "failedEvent w type msg =
     (if contains msg ''pod has unbound immediate PersistentVolumeClaims'' then None
      else if contains msg (''is in the cache, so can'' @ [CHR 0x27] @ ''t be assumed'') then None
      else if contains msg ''failed to create subPath directory''
      then Some (UserError (ErrText ''there is no space left in persistent volume'') (volumeFullHint w))
      else if type = ''Warning'' \<and> contains msg ''container veth name'' \<and> contains msg ''already exists'' then None
      else Some (ErrText msg))"

text \<open>An event of the pod: an error ends the wait.\<close>

definition podEvent :: "upWorld \<Rightarrow> app \<Rightarrow> int \<Rightarrow> int \<Rightarrow> string \<Rightarrow> string \<Rightarrow> string \<Rightarrow> podWait \<Rightarrow> upErr + podWait" where
  "podEvent w a timeout time reason type msg pw =
     (if reason = ''FailedScheduling'' then
        Inr (if pw_Failed pw = None then pw\<lparr>pw_Failed := Some msg, pw_To := time + timeout\<rparr> else pw)
      else if reason = ''TriggeredScaleUp'' then Inr (pw\<lparr>pw_Failed := None\<rparr>)
      else if reason \<in> set failedReasons then
        (case failedEvent w type msg of None \<Rightarrow> Inr pw | Some e \<Rightarrow> Inl e)
      else if reason = ''Killing'' then
        if Kind a = ''StatefulSet'' then Inr (pw\<lparr>pw_Killing := True\<rparr>) else Inl ErrDevPodDeleted
      else if reason \<in> {''SuccessfulAttachVolume'', ''Started'', ''Pulling''} then Inr (pw\<lparr>pw_Failed := None\<rparr>)
      else Inr pw)"

text \<open>The calls an event makes, whatever they answer: pulling an image is written to the state file.\<close>

definition eventCalls :: "string \<Rightarrow> upCall list" where
  "eventCalls reason = (if reason = ''Pulling'' then [UpdateState ''pulling''] else [])"

definition logEvent :: "string \<Rightarrow> unit upAct" where
  "logEvent reason = upput (\<lambda>s. fold record_call (eventCalls reason) s)"

definition rewatch :: "bool \<Rightarrow> upErr option \<Rightarrow> upErr option" where
  "rewatch skipped err = (if skipped then None else err)"

fun watchPod :: "upWorld \<Rightarrow> app \<Rightarrow> int \<Rightarrow> string \<Rightarrow> watchStep list \<Rightarrow> podWait \<Rightarrow> unit upAct" where
  "watchPod w a timeout uid [] pw = failE Blocks"
| "watchPod w a timeout uid (st # sts) pw =
     (case schedulingGivenUp (ws_Top st) pw of
        Some e \<Rightarrow> failE (Fails e)
      | None \<Rightarrow>
          (case ws_Event st of
             WatchTicker \<Rightarrow> watchPod w a timeout uid sts pw
           | EventNotCast err \<Rightarrow>
               (case rewatch (pw_Killing pw) err of
                  Some e \<Rightarrow> failE (Fails e)
                | None \<Rightarrow> watchPod w a timeout uid sts pw)
           | PodEvent u reason type msg \<Rightarrow>
               if pw_Killing pw \<or> u \<noteq> uid then watchPod w a timeout uid sts pw
               else (case podEvent w a timeout (ws_Now st) reason type msg pw of
                       Inl e \<Rightarrow> failE (Fails e)
                     | Inr pw' \<Rightarrow>
                         upseq (logEvent reason) (watchPod w a timeout uid sts pw'))
           | PodNotCast err \<Rightarrow>
               (case err of Some e \<Rightarrow> failE (Fails e) | None \<Rightarrow> watchPod w a timeout uid sts pw)
           | PodState u phase deleted \<Rightarrow>
               if u \<noteq> uid then watchPod w a timeout uid sts pw
               else if phase = ''Running'' then returnE ()
               else if deleted then failE (Fails ErrDevPodDeleted)
               else watchPod w a timeout uid sts pw
           | WatchCancelled e \<Rightarrow> failE (Fails e)))"

definition waitUntilDevelopmentContainerIsRunning :: "upWorld \<Rightarrow> app \<Rightarrow> unit upAct" where
  "waitUntilDevelopmentContainerIsRunning w a =
     andThen (upget us_Dev)
       (\<lambda>dev. upseq (if \<not> IsHybridModeEnabled dev \<and> PersistentVolumeEnabled dev
                    then uplog (UpdateState ''attaching'') else returnE ())
          (upseq (provide w)
          (upseq (upcall w WatchPod)
          (upseq (upcall w WatchEvents)
          (andThen (upget us_Pod)
          (\<lambda>p. case p of
             None \<Rightarrow> failE UpPanics
           | Some p \<Rightarrow>
               andThen (now (uw_WatchSteps w))
                 (\<lambda>steps. watchPod w a (to_Resources (dv_Timeout dev)) (po_UID p) steps
                    \<lparr>pw_Killing = False, pw_Failed = None, pw_To = 0\<rparr>)))))))"

definition devMode :: "upWorld \<Rightarrow> app \<Rightarrow> bool \<Rightarrow> unit upAct" where
  "devMode w a create = upseq (createDevContainer w a create) (waitUntilDevelopmentContainerIsRunning w a)"

section \<open>Port forwards\<close>

text \<open>The manager reports a start that fails, after its ports were added.\<close>

definition forwardPorts :: "upWorld \<Rightarrow> upErr option \<Rightarrow> (int \<times> int) \<Rightarrow> upState
    \<Rightarrow> upStop + mainDev \<times> upForwarder" where
  "forwardPorts w started ports s =
     (let dev = us_Dev s; fw = uw_Forwards w (us_Trace s)
      in if RemoteModeEnabled (uw_Dev w) dev then
           (case sshForwards (uw_Dev w) fw (uw_ForwardEvents w (us_Trace s)) ports (uw_TimeoutText w) started
                   (uw_SSHEntry w (us_Trace s)) dev of
              None \<Rightarrow> Inl Blocks
            | Some (Inl e) \<Rightarrow> Inl (Fails e)
            | Some (Inr (dev, p, m)) \<Rightarrow> Inr (dev, SSHForwarder p m))
         else
           (case directForwards fw ports started dev of
              Inl e \<Rightarrow> Inl (Fails e)
            | Inr (fs, m) \<Rightarrow>
                Inr (dev\<lparr>dv_Forward := (if dv_Forward dev = None then None else Some fs)\<rparr>, DirectForwarder m)))"

definition startForwards :: "upWorld \<Rightarrow> unit upAct" where
  "startForwards w s =
     (case us_Sy s of
        None \<Rightarrow> (Inl UpPanics, s)
      | Some sy \<Rightarrow>
          (case forwardPorts w (uw_Err w (us_Trace s) StartForwarder) (sy_Ports sy) s of
             Inl stop \<Rightarrow> (Inl stop, record_call StartForwarder s)
           | Inr (dev, m) \<Rightarrow>
               (Inr (), record_call StartForwarder
                  (s\<lparr>us_Dev := dev, us_Forwarder := Some m,
                     us_GlobalForwarderStatus :=
                       us_GlobalForwarderStatus s \<or> isNeededGlobalForwarder (us_GlobalForward s)\<rparr>))))"

definition upForwards :: "upWorld \<Rightarrow> unit upAct" where
  "upForwards w = upseq (provide w) (startForwards w)"

section \<open>Synchronization\<close>

text \<open>A handler of an error; what blocks or panics is not handled.\<close>

definition catchE :: "'a upAct \<Rightarrow> (upErr \<Rightarrow> 'a upAct) \<Rightarrow> 'a upAct" where
  "catchE m h s = (case m s of (Inl (Fails e), s') \<Rightarrow> h e s' | (r, s') \<Rightarrow> (r, s'))"

definition startErrorHint :: "upWorld \<Rightarrow> upState \<Rightarrow> string" where
  "startErrorHint w s =
     (let logs = ''Check your development container logs for errors: ''
            @ quote (''kubectl logs '' @ (case us_Pod s of None \<Rightarrow> [] | Some p \<Rightarrow> po_Name p));
          reset = ''Run '' @ quote (GetDownCommand (uw_ManifestPathFlag w)) @ '' to reset your development container and ''
      in if elems (dv_Secrets (us_Dev s)) \<noteq> [] then
           join [CHR 0x0A, CHR 0x09]
             [logs @ '','', ''Check that your container can write to the destination path of your secrets.'', reset @ ''try again'']
         else join ([CHR 0x0A] @ ''    '') [logs @ ''.'', reset @ ''try again''])"

definition wrongUser :: "upWorld \<Rightarrow> int \<Rightarrow> upErr" where
  "wrongUser w userID =
     UserError (ErrText (''User '' @ showInt userID @ '' doesn'' @ [CHR 0x27] @ ''t have write permissions for synchronization paths''))
       (''Set '' @ quote (''securityContext.runAsUser: '' @ showInt userID) @ '' in your okteto manifest.''
        @ [CHR 0x0A, CHR 0x09] @ ''After that, run '' @ quote (GetDownCommand (uw_ManifestPathFlag w))
        @ '' to reset your development container and run '' @ quote ''okteto up'' @ '' again'')"

text \<open>The user of the container, checked against the one of the manifest, which is dereferenced.\<close>

definition checkUser :: "upWorld \<Rightarrow> int \<Rightarrow> mainDev \<Rightarrow> upStop option" where
  "checkUser w userID dev =
     (if \<not> PersistentVolumeEnabled dev \<or> userID = - 1 then None
      else case dv_SecurityContext dev of
             None \<Rightarrow> Some UpPanics
           | Some sc \<Rightarrow>
               (case dsc_RunAsUser sc of
                  None \<Rightarrow> Some UpPanics
                | Some u \<Rightarrow> if userID = u then None else Some (Fails (wrongUser w userID))))"

text \<open>It always stops: it looks for the reason why the development container does not answer.\<close>

definition checkOktetoStartError :: "upWorld \<Rightarrow> string \<Rightarrow> unit upAct" where
  "checkOktetoStartError w msg =
     upseq (provide w)
     (andThen (upget (\<lambda>s. getApp (uw_Clients w (us_Trace s) 0) (asService (us_Dev s))))
     (\<lambda>found. case found of
        Inl e \<Rightarrow> failE (appStop e)
      | Inr a \<Rightarrow>
          andThen (now (\<lambda>tr. uw_DevClone w tr a))
          (\<lambda>clone. upseq (uplog RefreshApp)
            (case clone of
               Inl e \<Rightarrow> failE (Fails e)
             | Inr devApp \<Rightarrow>
                 andThen (now (\<lambda>tr. GetRunningPod (uw_PodLists w tr) devApp))
                 (\<lambda>p. upseq (uplog FindPod)
                   (case p of
                      Inl e \<Rightarrow> failE (Fails e)
                    | Inr _ \<Rightarrow>
                        andThen (upget (\<lambda>s. checkUser w (GetPodUserID (uw_PodLogs w (us_Trace s))) (us_Dev s)))
                        (\<lambda>user. case user of
                           Some stop \<Rightarrow> failE stop
                         | None \<Rightarrow>
                             andThen (upget (startErrorHint w))
                               (\<lambda>hint. failE (Fails (UserError (ErrText msg) hint))))))))))"

definition startSyncthing :: "upWorld \<Rightarrow> unit upAct" where
  "startSyncthing w =
     upseq (updateState w ''startingSync'')
     (upseq (upcall w RunSyncthing)
     (upseq (upcall w (PingSyncthing True))
     (upseq (catchE (upcall w (PingSyncthing False))
              (\<lambda>e. andThen (upget us_success)
                (\<lambda>success. if isTransient success (Some e) then failE (Fails e)
                           else checkOktetoStartError w ''Failed to connect to the synchronization service'')))
     (upseq (upcall w (ScanFiles True))
     (upseq (upcall w (ScanFiles False))
       (upcall w ConnectSyncthing))))))"

definition getInsufficientSpaceError :: "upWorld \<Rightarrow> mainDev \<Rightarrow> upErr \<Rightarrow> upErr" where
  "getInsufficientSpaceError w dev e =
     UserError e
       (if PersistentVolumeEnabled dev then volumeFullHint w
        else join ([CHR 0x0A] @ ''    '')
               [''The synchronization service is running out of space.'',
                ''Enable persistent volumes in your okteto manifest and try again.'',
                ''More information about configuring your persistent volume at https://okteto.com/docs/reference/okteto-manifest/#persistentvolume-object-optional''])"

definition syncError :: "upWorld \<Rightarrow> mainDev \<Rightarrow> upErr \<Rightarrow> upErr" where
  "syncError w dev e =
     (if e = ErrLostSyncthing then e
      else if e = ErrInsufficientSpace then getInsufficientSpaceError w dev e
      else if e = ErrNeedsResetSyncError then
        UserError (ErrText ''the synchronization service state is inconsistent'')
          (''Try running '' @ quote ''okteto up --reset'' @ '' to reset the synchronization service'')
      else
        UserError e
          (join ([CHR 0x0A] @ ''    '')
             [''Help us improve okteto by filing an issue in https://github.com/okteto/okteto/issues/new.'',
              ''Please include the file generated by '' @ quote ''okteto doctor'' @ '' if possible.'',
              ''Then, try to run '' @ quote (GetDownCommand (uw_ManifestPathFlag w)) @ '' + '' @ quote ''okteto up'' @ '' again'']))"

definition synchronizeFiles :: "upWorld \<Rightarrow> unit upAct" where
  "synchronizeFiles w =
     catchE (upcall w CompleteSync)
       (\<lambda>e. andThen (upget us_Dev) (\<lambda>dev. failE (Fails (syncError w dev e))))"

definition sendReceive :: "upState \<Rightarrow> upState" where
  "sendReceive s = s\<lparr>us_Sy := map_option (\<lambda>sy. sy\<lparr>sy_Type := ''sendreceive'', sy_IgnoreDelete := False\<rparr>) (us_Sy s)\<rparr>"

definition upSync :: "upWorld \<Rightarrow> unit upAct" where
  "upSync w =
     upseq (startSyncthing w)
     (upseq (updateState w ''synchronizing'')
     (andThen (upget (\<lambda>s. IsHybridModeEnabled (us_Dev s)))
     (\<lambda>hybrid. upseq (if hybrid then returnE () else uplog CheckSpace)
     (upseq (synchronizeFiles w)
     (upseq (upput sendReceive)
     (upseq (upcall w UpdateSyncConfig)
       (upcall w RestartSyncthing)))))))"

section \<open>The command and the end of an activation\<close>

text \<open>Without a client the output of the cleaning is never sent.\<close>

definition cleanCommand :: "upWorld \<Rightarrow> unit upAct" where
  "cleanCommand w =
     catchE (upseq (provide w)
              (andThen (now (uw_CleanOutput w))
                (\<lambda>out. upseq (uplog CleanCommand) (upput (\<lambda>s. s\<lparr>us_cleaned := Some out\<rparr>)))))
       (\<lambda>e. returnE ())"

definition RunCommand :: "upWorld \<Rightarrow> string list \<Rightarrow> unit upAct" where
  "RunCommand w cmd =
     upseq (updateState w ''ready'')
     (upseq (provide w)
     (upseq (upput (\<lambda>s. if RemoteModeEnabled (uw_Dev w) (us_Dev s) \<and> IsHybridModeEnabled (us_Dev s)
                        then s\<lparr>us_hybridCommand := True\<rparr> else s))
       (upcall w (ExecCommand cmd))))"

text \<open>
  The goroutine of the command: it waits for the output of the cleaning, and sends the result.
  \<open>None\<close> means that nothing is ever sent.
\<close>

definition commandRoutine :: "upWorld \<Rightarrow> upErr option option upAct" where
  "commandRoutine w =
     andThen (upget us_cleaned)
       (\<lambda>cleaned.
          case cleaned of
            None \<Rightarrow> returnE None
          | Some _ \<Rightarrow>
              upseq (upput (\<lambda>s. s\<lparr>us_cleaned := None\<rparr>))
              (andThen (upget (\<lambda>s. elems (dv_Command (us_Dev s))))
                (\<lambda>cmd. catchE (upseq (RunCommand w cmd) (returnE (Some None))) (\<lambda>e. returnE (Some (Some e))))))"

definition exitError :: "upWorld \<Rightarrow> upErr option option \<Rightarrow> exitEvent \<Rightarrow> upState \<Rightarrow> upStop + upErr option" where
  "exitError w result ev s =
     (case ev of
        CommandDone \<Rightarrow>
          (case result of
             None \<Rightarrow> Inl Blocks
           | Some None \<Rightarrow> Inr None
           | Some (Some e) \<Rightarrow>
               Inr (Some (if isTransient (us_success s) (Some e) then e else CommandError ErrCommandFailed e)))
      | Disconnected e \<Rightarrow>
          Inr (if e = Some ErrInsufficientSpace then Some (getInsufficientSpaceError w (us_Dev s) ErrInsufficientSpace) else e)
      | GlobalForwarderFailed e \<Rightarrow> if us_GlobalForwarderStatus s then Inr (Some e) else Inl Blocks
      | SentToBackground \<Rightarrow>
          Inr (Some (UserError (ErrText ''connection lost to your development container'')
                 (''Use '' @ quote ''okteto up'' @ '' to reconnect'')))
      | AppChanged e \<Rightarrow> Inr e)"

definition waitUntilExitOrInterruptOrApply :: "upWorld \<Rightarrow> upErr option option \<Rightarrow> upErr option upAct" where
  "waitUntilExitOrInterruptOrApply w result s =
     ((case uw_Exit w (us_Trace s) of None \<Rightarrow> Inl Blocks | Some ev \<Rightarrow> exitError w result ev s), s)"

definition shouldRetry :: "upWorld \<Rightarrow> upErr option \<Rightarrow> upState \<Rightarrow> bool" where
  "shouldRetry w err s =
     (case err of
        None \<Rightarrow> False
      | Some e \<Rightarrow>
          e = ErrLostSyncthing \<or> e = ErrCommandFailed \<and> \<not> uw_Ping w (us_Trace s) \<or> e = ErrApplyToApp)"

definition destroyPod :: "upWorld \<Rightarrow> unit upAct" where
  "destroyPod w =
     andThen (upget us_Pod)
       (\<lambda>p. case p of None \<Rightarrow> failE UpPanics | Some p \<Rightarrow> upcall w (DestroyPod (po_Name p)))"

section \<open>An activation\<close>

definition sendShutdown :: "unit upAct" where
  "sendShutdown s =
     (if us_ShutdownCompleted s = Some False then (Inr (), s\<lparr>us_ShutdownCompleted := Some True\<rparr>) else (Inl Blocks, s))"

definition shutdownHybridMode :: "unit upAct" where
  "shutdownHybridMode s = (Inr (), if us_hybridCommand s then record_call StopHybrid s else s)"

definition shutdownCalls :: "upState \<Rightarrow> upCall list" where
  "shutdownCalls s =
     (if us_isTerm s then [RestoreTerminal] else [])
     @ (if us_Cancel s then [CancelContext] else [])
     @ (if us_Sy s \<noteq> None then [StopSyncthing] else [])
     @ (if us_Forwarder s \<noteq> None then [StopForwarder] else [])
     @ (if IsHybridModeEnabled (us_Dev s) \<and> us_hybridCommand s then [StopHybrid] else [])"

definition shutdown :: "unit upAct" where
  "shutdown = upseq (upput (\<lambda>s. fold record_call (shutdownCalls s) s)) sendShutdown"

definition autocreateClash :: "app \<Rightarrow> mainDev \<Rightarrow> bool" where
  "autocreateClash a dev \<longleftrightarrow>
     dv_Autocreate dev \<and> gget (om_Annotations (ObjectMeta a)) OktetoAutoCreateAnnotation \<noteq> Some OktetoUpCmd"

definition appAlreadyExists :: "mainDev \<Rightarrow> upErr" where
  "appAlreadyExists dev =
     UserError (ErrText (''app '' @ quote (dv_Name dev) @ '' already exist''))
       ''use a different name in your okteto.yaml, or remove the autocreate property''"

definition devModeError :: "upErr \<Rightarrow> unit upAct" where
  "devModeError e =
     andThen (upget us_success)
       (\<lambda>success. failE (Fails
          (if isTransient success (Some e) \<or> isUserError e then e
           else WrapErr (''couldn'' @ [CHR 0x27] @ ''t activate your development container'' @ [CHR 0x0A] @ ''    '') e)))"

definition forwardsError :: "upWorld \<Rightarrow> upErr \<Rightarrow> unit upAct" where
  "forwardsError w e =
     (if e = ErrSSHConnectError then
        catchE (checkOktetoStartError w ''Failed to connect to your development container'')
          (\<lambda>e. if e = ErrLostSyncthing
               then upseq (catchE (destroyPod w)
                            (\<lambda>e. failE (Fails (WrapErr ''error recreating development container: '' e))))
                      (failE (Fails e))
               else failE (Fails e))
      else failE (Fails (WrapErr (''couldn'' @ [CHR 0x27] @ ''t connect to your development container: '') e)))"

definition syncFailed :: "upWorld \<Rightarrow> upErr \<Rightarrow> unit upAct" where
  "syncFailed w e =
     andThen (upget (shouldRetry w (Some e)))
       (\<lambda>retry. failE (Fails (if retry then ErrLostSyncthing else e)))"

definition lookUpApp :: "upWorld \<Rightarrow> (app \<times> bool) upAct" where
  "lookUpApp w =
     andThen (upget (\<lambda>s. GetApp (uw_Clients w (us_Trace s)) (us_Dev s) (uw_Namespace w) (us_isRetry s)))
       (\<lambda>r. upseq (uplog LookUpApp) (upvalue r))"

text \<open>What follows once the command runs.\<close>

definition afterCommand :: "upWorld \<Rightarrow> upErr option option \<Rightarrow> unit upAct" where
  "afterCommand w result =
     andThen (waitUntilExitOrInterruptOrApply w result)
     (\<lambda>prev. andThen (upget (shouldRetry w prev))
     (\<lambda>retry.
        if retry then
          andThen (upget (\<lambda>s. PersistentVolumeEnabled (us_Dev s)))
            (\<lambda>volume. upseq (if volume then returnE () else destroyPod w) (failE (Fails ErrLostSyncthing)))
        else case prev of None \<Rightarrow> returnE () | Some e \<Rightarrow> failE (Fails e)))"

definition runActivated :: "upWorld \<Rightarrow> unit upAct" where
  "runActivated w =
     upseq (upput (\<lambda>s. s\<lparr>us_isRetry := True\<rparr>))
     (upseq (catchE (upForwards w) (forwardsError w))
     (upseq (cleanCommand w)
     (upseq (catchE (upSync w) (syncFailed w))
     (upseq (if servicesUpWait w
             then andThen (upget us_Translations) (\<lambda>trMap. deployDevServices w (devTranslations trMap))
             else returnE ())
     (upseq (upput (\<lambda>s. s\<lparr>us_success := True\<rparr>))
     (andThen (commandRoutine w) (afterCommand w)))))))"

definition developApp :: "upWorld \<Rightarrow> app \<Rightarrow> bool \<Rightarrow> unit upAct" where
  "developApp w a create =
     upseq (initializeSyncthing w)
     (upseq (setDevContainer a)
     (andThen (waitUntilAppIsAwaken w a)
     (\<lambda>a. upseq (catchE (devMode w a create) devModeError) (runActivated w))))"

definition activateApp :: "upWorld \<Rightarrow> app \<Rightarrow> bool \<Rightarrow> unit upAct" where
  "activateApp w a create =
     (case RestoreOriginal (uw_AppWorld w) a of
        Inl e \<Rightarrow> failE (appStop e)
      | Inr a \<Rightarrow>
          andThen (upget us_Dev)
          (\<lambda>dev. case ValidateMountPaths (PodSpec a) dev of
             Some e \<Rightarrow> failE (appStop e)
           | None \<Rightarrow> developApp w a create))"

definition activateBody :: "upWorld \<Rightarrow> unit upAct" where
  "activateBody w =
     upseq (provide w)
     (andThen (lookUpApp w)
     (\<lambda>(a, create). andThen (upget us_Dev)
     (\<lambda>dev. andThen (upget us_isRetry)
     (\<lambda>retry.
        if autocreateClash a dev then failE (Fails (appAlreadyExists dev))
        else if retry \<and> \<not> IsDevModeOn a then
          (if IsHybridModeEnabled dev then shutdownHybridMode else returnE ())
        else activateApp w a create))))"

definition freshActivation :: "upState \<Rightarrow> upState" where
  "freshActivation s =
     s\<lparr>us_Cancel := True, us_ShutdownCompleted := Some False, us_Sy := None, us_Forwarder := None,
       us_cleaned := None, us_hardTerminate := None\<rparr>"

text \<open>The shutdown is deferred once the state file was written.\<close>

definition activate :: "upWorld \<Rightarrow> unit upAct" where
  "activate w =
     upseq (updateState w ''activating'')
     (upseq (upput freshActivation)
     (\<lambda>s. case activateBody w s of
            (Inl Blocks, s') \<Rightarrow> (Inl Blocks, s')
          | (Inl UpPanics, s') \<Rightarrow> (Inl UpPanics, s')
          | (r, s') \<Rightarrow>
              if us_interruptReceived s' then (r, s')
              else (case shutdown s' of (Inl stop, s'') \<Rightarrow> (Inl stop, s'') | (Inr _, s'') \<Rightarrow> (r, s''))))"

section \<open>The loop of a session\<close>

definition receiveShutdown :: "unit upAct" where
  "receiveShutdown s =
     (if us_ShutdownCompleted s = Some True then (Inr (), s\<lparr>us_ShutdownCompleted := Some False\<rparr>) else (Inl Blocks, s))"

definition anotherUpCommand :: upErr where
  "anotherUpCommand =
     UserError (ErrText (''development container has been deactivated by another '' @ quote ''okteto up'' @ '' command''))
       (''Use '' @ quote ''okteto exec'' @ '' to open another terminal to your development container'')"

datatype loopEnd = Exits "upErr option" | LoopBlocks | LoopPanics | GoesOn

text \<open>
  After an activation: go on, with the flag for transient errors, or send on \<open>Exit\<close>. An activation that
  succeeds ends the session; a token that cannot be updated counts as a transient error.
\<close>

definition afterActivation :: "upWorld \<Rightarrow> upErr option \<Rightarrow> upState \<Rightarrow> (bool + upErr option) \<times> upState" where
  "afterActivation w err s =
     (case err of
        None \<Rightarrow> (Inr None, s)
      | Some e \<Rightarrow>
          let tokenError = uw_IsOkteto w \<and> uw_Err w (us_Trace s) UpdateToken \<noteq> None;
              s = (if uw_IsOkteto w then record_call UpdateToken s else s)
          in if tokenError then (Inl True, s)
             else if e = ErrLostSyncthing then (Inl False, s)
             else if isTransient (us_success s) (Some e) then (Inl True, s)
             else (Inr (Some e), s))"

text \<open>The wait before another activation: \<open>None\<close> is to go on.\<close>

definition beforeRetry :: "upWorld \<Rightarrow> upState \<Rightarrow> loopEnd option \<times> upState" where
  "beforeRetry w s =
     (case receiveShutdown s of
        (Inl _, s) \<Rightarrow> (Some LoopBlocks, s)
      | (Inr _, s) \<Rightarrow>
          if uw_ReadPid w (us_Trace s) = uw_Pid w then (None, s)
          else (Some (Exits (Some anotherUpCommand)),
                if IsHybridModeEnabled (us_Dev s) then snd (shutdownHybridMode s) else s))"

definition loopTurn :: "upWorld \<Rightarrow> bool \<Rightarrow> upState \<Rightarrow> (bool + loopEnd) \<times> upState" where
  "loopTurn w transient s =
     (case (if us_isRetry s \<or> transient then beforeRetry w s else (None, s)) of
        (Some stop, s) \<Rightarrow> (Inr stop, s)
      | (None, s) \<Rightarrow>
          (case activate w s of
             (Inl Blocks, s) \<Rightarrow> (Inr LoopBlocks, s)
           | (Inl UpPanics, s) \<Rightarrow> (Inr LoopPanics, s)
           | (Inl (Fails e), s) \<Rightarrow> apfst (map_sum id Exits) (afterActivation w (Some e) s)
           | (Inr _, s) \<Rightarrow> apfst (map_sum id Exits) (afterActivation w None s)))"

text \<open>The state file is deleted when the loop returns. The fuel is the number of turns.\<close>

fun loopTurns :: "nat \<Rightarrow> upWorld \<Rightarrow> bool \<Rightarrow> upState \<Rightarrow> loopEnd \<times> upState" where
  "loopTurns 0 w transient s = (GoesOn, s)"
| "loopTurns (Suc n) w transient s =
     (case loopTurn w transient s of
        (Inl transient', s') \<Rightarrow> loopTurns n w transient' s'
      | (Inr (Exits e), s') \<Rightarrow> (Exits e, record_call DeleteState s')
      | (Inr stop, s') \<Rightarrow> (stop, s'))"

definition activateLoop :: "nat \<Rightarrow> upWorld \<Rightarrow> upState \<Rightarrow> loopEnd \<times> upState" where
  "activateLoop n w s = loopTurns n w False s"

text \<open>A signal: the shutdown runs on the state at that moment, whatever the loop is doing.\<close>

definition interrupted :: "unit upAct" where
  "interrupted = upseq (upput (\<lambda>s. s\<lparr>us_interruptReceived := True\<rparr>)) shutdown"

end
