(* ===== verification/UpSessionProps.thy ===== *)
theory UpSessionProps
  imports UpSession DevMode
begin

text \<open>
  What an activation and the loop around it achieve. The calculus: a triple for steps of a session,
  with a postcondition for each way a step ends, and its rules; and the relation that a step adds
  certain calls, in order, to the trace.
\<close>

section \<open>Triples\<close>

text \<open>A panic ends the program: it needs no postcondition. A step of a triple does not block.\<close>

definition upTriple :: "(upState \<Rightarrow> bool) \<Rightarrow> 'a upAct \<Rightarrow> ('a \<Rightarrow> upState \<Rightarrow> bool) \<Rightarrow> (upState \<Rightarrow> bool) \<Rightarrow> bool" where
  "upTriple P m Q E \<longleftrightarrow>
     (\<forall>s. P s \<longrightarrow> (case m s of (Inr a, s') \<Rightarrow> Q a s' | (Inl (Fails _), s') \<Rightarrow> E s' | (Inl Blocks, _) \<Rightarrow> False
                       | (Inl UpPanics, _) \<Rightarrow> True))"

lemma triple_andThen:
  assumes "upTriple P m R E" and "\<And>a. upTriple (R a) (f a) Q E"
  shows "upTriple P (andThen m f) Q E"
  unfolding upTriple_def andThen_def
proof (intro allI impI)
  fix s assume "P s"
  with assms(1) have m: "case m s of (Inr a, s') \<Rightarrow> R a s' | (Inl (Fails _), s') \<Rightarrow> E s' | (Inl Blocks, _) \<Rightarrow> False
      | (Inl UpPanics, _) \<Rightarrow> True" by (simp add: upTriple_def)
  obtain r s' where r: "m s = (r, s')" by (cases "m s")
  show "case (case m s of (Inl e, s') \<Rightarrow> (Inl e, s') | (Inr a, s') \<Rightarrow> f a s') of
      (Inr a, s') \<Rightarrow> Q a s' | (Inl (Fails _), s') \<Rightarrow> E s' | (Inl Blocks, _) \<Rightarrow> False | (Inl UpPanics, _) \<Rightarrow> True"
  proof (cases r)
    case (Inl stop)
    with m r show ?thesis by (cases stop) simp_all
  next
    case (Inr a)
    with m r assms(2) [of a] show ?thesis by (simp add: upTriple_def)
  qed
qed

lemma triple_catchE:
  assumes "upTriple P m Q R" and "\<And>e. upTriple R (h e) Q E"
  shows "upTriple P (catchE m h) Q E"
  unfolding upTriple_def catchE_def
proof (intro allI impI)
  fix s assume "P s"
  with assms(1) have m: "case m s of (Inr a, s') \<Rightarrow> Q a s' | (Inl (Fails _), s') \<Rightarrow> R s' | (Inl Blocks, _) \<Rightarrow> False
      | (Inl UpPanics, _) \<Rightarrow> True" by (simp add: upTriple_def)
  obtain r s' where r: "m s = (r, s')" by (cases "m s")
  show "case (case m s of (Inl (Fails e), s') \<Rightarrow> h e s' | (r, s') \<Rightarrow> (r, s')) of
      (Inr a, s') \<Rightarrow> Q a s' | (Inl (Fails _), s') \<Rightarrow> E s' | (Inl Blocks, _) \<Rightarrow> False | (Inl UpPanics, _) \<Rightarrow> True"
  proof (cases r)
    case (Inl stop)
    with m r assms(2) show ?thesis by (cases stop) (simp_all add: upTriple_def)
  next
    case (Inr a)
    with m r show ?thesis by simp
  qed
qed

lemma triple_returnE: "(\<And>s. P s \<Longrightarrow> Q a s) \<Longrightarrow> upTriple P (returnE a) Q E"
  by (simp add: upTriple_def returnE_def)

lemma triple_failE: "(\<And>s. P s \<Longrightarrow> E s) \<Longrightarrow> stop \<noteq> Blocks \<Longrightarrow> upTriple P (failE stop) Q E"
  by (simp add: upTriple_def failE_def split: upStop.split)

lemma triple_upget: "(\<And>s. P s \<Longrightarrow> Q (f s) s) \<Longrightarrow> upTriple P (upget f) Q E"
  by (simp add: upTriple_def upget_def)

lemma triple_upput: "(\<And>s. P s \<Longrightarrow> Q () (f s)) \<Longrightarrow> upTriple P (upput f) Q E"
  by (simp add: upTriple_def upput_def)

section \<open>Steps that leave the channels alone\<close>

text \<open>
  The channels and flags that decide whether the loop can go on. A quiet step does not block and
  does not touch them.
\<close>

definition control :: "upState \<Rightarrow> bool option \<times> bool \<times> bool \<times> bool" where
  "control s = (us_ShutdownCompleted s, us_interruptReceived s, us_hardTerminate s \<noteq> None, us_cleaned s \<noteq> None)"

definition quiet :: "'a upAct \<Rightarrow> bool" where
  "quiet m \<longleftrightarrow> (\<forall>s. fst (m s) \<noteq> Inl Blocks \<and> control (snd (m s)) = control s)"

named_theorems quiets

lemma quiet_andThen [quiets]: "quiet m \<Longrightarrow> (\<And>a. quiet (f a)) \<Longrightarrow> quiet (andThen m f)"
  unfolding quiet_def andThen_def by (auto split: prod.split sum.split) (metis fst_conv snd_conv)+

lemma quiet_catchE [quiets]: "quiet m \<Longrightarrow> (\<And>e. quiet (h e)) \<Longrightarrow> quiet (catchE m h)"
  unfolding quiet_def catchE_def by (auto split: prod.split sum.split upStop.split) (metis fst_conv snd_conv)+

lemma control_record_call [simp]: "control (record_call c s) = control s"
  by (simp add: control_def record_call_def)

lemma control_record_calls [simp]: "control (fold record_call cs s) = control s"
  by (induction cs arbitrary: s) simp_all

lemma control_updates [simp]:
  "control (s\<lparr>us_Dev := d\<rparr>) = control s" "control (s\<lparr>us_Translations := ts\<rparr>) = control s"
  "control (s\<lparr>us_Pod := p\<rparr>) = control s" "control (s\<lparr>us_Sy := sy\<rparr>) = control s"
  "control (s\<lparr>us_Forwarder := f\<rparr>) = control s" "control (s\<lparr>us_GlobalForwarderStatus := g\<rparr>) = control s"
  "control (s\<lparr>us_isRetry := b\<rparr>) = control s" "control (s\<lparr>us_success := b\<rparr>) = control s"
  "control (s\<lparr>us_hybridCommand := b\<rparr>) = control s"
  by (simp_all add: control_def)

lemma quiet_returnE [quiets]: "quiet (returnE a)"
  by (simp add: quiet_def returnE_def)

lemma quiet_failE [quiets]: "stop \<noteq> Blocks \<Longrightarrow> quiet (failE stop)"
  by (simp add: quiet_def failE_def)

lemma quiet_upget [quiets]: "quiet (upget f)"
  by (simp add: quiet_def upget_def)

lemma quiet_now [quiets]: "quiet (now f)"
  by (simp add: now_def quiet_upget)

lemma quiet_upput [quiets]: "(\<And>s. control (f s) = control s) \<Longrightarrow> quiet (upput f)"
  by (simp add: quiet_def upput_def)

text \<open>What the world or the state tells is a value the rest depends on; these rules come before the one for sequences.\<close>

lemma quiet_upget_then: "(\<And>s. quiet (k (f s))) \<Longrightarrow> quiet (andThen (upget f) k)"
  by (simp add: quiet_def andThen_def upget_def)

lemma quiet_now_then: "(\<And>tr. quiet (k (f tr))) \<Longrightarrow> quiet (andThen (now f) k)"
  by (simp add: quiet_def andThen_def now_def upget_def)

lemmas quiet_asks = quiet_upget_then quiet_now_then

lemma quiet_uplog [quiets]: "quiet (uplog c)"
  by (simp add: quiet_def uplog_def)

lemma quiet_upcall [quiets]: "quiet (upcall w c)"
  by (simp add: quiet_def upcall_def split: option.split)

lemma quiet_upvalue [quiets]: "r \<noteq> Inl Blocks \<Longrightarrow> quiet (upvalue r)"
  by (simp add: quiet_def upvalue_def)

lemma quiet_if [quiets]: "(b \<Longrightarrow> quiet m) \<Longrightarrow> (\<not> b \<Longrightarrow> quiet n) \<Longrightarrow> quiet (if b then m else n)"
  by simp

lemma quiet_sum [quiets]: "(\<And>e. quiet (f e)) \<Longrightarrow> (\<And>a. quiet (g a)) \<Longrightarrow> quiet (case x of Inl e \<Rightarrow> f e | Inr a \<Rightarrow> g a)"
  by (cases x) simp_all

lemma quiet_option [quiets]: "(x = None \<Longrightarrow> quiet f) \<Longrightarrow> (\<And>a. x = Some a \<Longrightarrow> quiet (g a)) \<Longrightarrow> quiet (case x of None \<Rightarrow> f | Some a \<Rightarrow> g a)"
  by (cases x) simp_all

lemma quiet_prod [quiets]: "(\<And>a b. quiet (f a b)) \<Longrightarrow> quiet (case x of (a, b) \<Rightarrow> f a b)"
  by (cases x) simp_all

lemma quiet_provide [quiets]: "quiet (provide w)"
  by (simp add: provide_def quiets)

lemma quiet_updateState [quiets]: "quiet (updateState w st)"
  by (simp add: updateState_def quiets)

section \<open>A world whose time limits run out\<close>

text \<open>
  Syncthing can be created and the client provided; every wait has a time limit that is over at some
  point, and the wait for the end of the command sees an event other than one of global forwards.
  Every call may still fail, in any way.
\<close>

definition responsive :: "upWorld \<Rightarrow> bool" where
  "responsive w \<longleftrightarrow>
     (\<forall>tr. \<exists>ports. uw_NewSyncthing w tr = Inr ports)
     \<and> (\<forall>tr. uw_Err w tr ProvideClient = None)
     \<and> (\<forall>tr. SleepTimeout \<in> set (uw_SleepEvents w tr))
     \<and> (\<forall>tr. 11 < length (uw_PodTries w tr) \<and> py_Late (uw_PodTries w tr ! 11))
     \<and> (\<forall>tr. \<exists>st \<in> set (uw_WatchSteps w tr). \<exists>e. ws_Event st = WatchCancelled e)
     \<and> (\<forall>tr. ForwardTimeout \<in> set (uw_ForwardEvents w tr))
     \<and> (\<forall>tr. \<exists>ev. uw_Exit w tr = Some ev \<and> (\<forall>e. ev \<noteq> GlobalForwarderFailed e))"

lemma waitAwake_ends: "SleepTimeout \<in> set es \<Longrightarrow> waitAwake a es \<noteq> Inl Blocks"
  by (induction a es rule: waitAwake.induct) (auto split: sum.split)

lemma statefulSetResourceLimitError_ends: "statefulSetResourceLimitError sq msg dev \<noteq> Blocks"
  by (simp add: statefulSetResourceLimitError_def)

lemma CheckConditionErrors_ends: "CheckConditionErrors sq a cs dev \<noteq> Some Blocks"
  by (auto simp: CheckConditionErrors_def Let_def statefulSetResourceLimitError_def split: option.split app.split)

lemma getRunningPodInLoop_ends:
  "11 - retries < length ys \<Longrightarrow> retries \<le> 11 \<Longrightarrow> py_Late (ys ! (11 - retries)) \<Longrightarrow>
     getRunningPodInLoop sq dev retries ys \<noteq> Inl Blocks"
proof (induction sq dev retries ys rule: getRunningPodInLoop.induct)
  case (2 sq dev retries y ys)
  show ?case
  proof (cases "retries = 11")
    case True
    with 2 show ?thesis
      by (auto split: sum.split option.split simp: CheckConditionErrors_ends)
  next
    case False
    then have "11 - retries = Suc (11 - Suc retries)" using 2 by linarith
    with 2 False have "11 - Suc retries < length ys" "Suc retries \<le> 11" "py_Late (ys ! (11 - Suc retries))"
      by simp_all
    with 2(1) show ?thesis
      by (auto split: sum.split option.split simp: CheckConditionErrors_ends)
  qed
qed simp

lemma quiet_logEvent [quiets]: "quiet (logEvent reason)"
  by (simp add: logEvent_def quiets)

lemma quiet_watchPod:
  "\<exists>st \<in> set sts. \<exists>e. ws_Event st = WatchCancelled e \<Longrightarrow> quiet (watchPod w a timeout uid sts pw)"
proof (induction sts arbitrary: pw)
  case (Cons st sts)
  show ?case
  proof (cases "\<exists>e. ws_Event st = WatchCancelled e")
    case False
    with Cons have IH: "quiet (watchPod w a timeout uid sts pw')" for pw' by auto
    show ?thesis using False
      by (auto intro!: quiets IH split: option.split podWatchEvent.split sum.split)
  qed (auto intro!: quiets split: option.split)
qed simp

lemma addToForwarder_waits:
  "addToForwarder add addRev tmo rs evs fs t = None \<Longrightarrow> ForwardTimeout \<notin> set evs"
proof (induction evs arbitrary: fs t)
  case (Cons ev evs)
  then show ?case by (cases ev) (auto simp: Let_def split: prod.splits option.splits if_splits)
qed simp

lemma sshForwards_waits: "sshForwards dw fw evs ports tmo started entry dev = None \<Longrightarrow> ForwardTimeout \<notin> set evs"
  by (auto simp: sshForwards_def Let_def dest: addToForwarder_waits split: sum.splits option.splits if_splits)

lemma forwardPorts_ends: "responsive w \<Longrightarrow> forwardPorts w started ports s \<noteq> Inl Blocks"
  by (auto simp: forwardPorts_def responsive_def Let_def dest: sshForwards_waits split: sum.split option.split)

lemma appStop_ends [simp]: "appStop e \<noteq> Blocks"
  by (simp add: appStop_def)

lemma GetApp_ends: "GetApp c dev ns retry \<noteq> Inl Blocks"
  by (auto simp: GetApp_def Let_def split: sum.split)

lemma claim_ends: "CreateForDev dw sq tenGi uuid got wrote path dev \<noteq> Inl Blocks"
  by (auto simp: CreateForDev_def createClaim_def updateClaim_def checkPVCValues_def Let_def
      split: option.split sum.split)

subsection \<open>Which steps are quiet\<close>

lemma quiet_setDevContainer [quiets]: "quiet (setDevContainer a)"
  by (auto simp: quiet_def setDevContainer_def Let_def split: sum.split option.split)

lemma quiet_waitUntilAppIsAwaken [quiets]: "responsive w \<Longrightarrow> quiet (waitUntilAppIsAwaken w a)"
  unfolding waitUntilAppIsAwaken_def
  by (intro quiet_asks quiets) (simp_all add: responsive_def waitAwake_ends)

lemma quiet_deployApp [quiets]: "quiet (deployApp w a)"
  by (auto simp: deployApp_def intro!: quiets split: app.split)

lemma quiet_deployNamed [quiets]: "quiet (deployNamed w ntr)"
  unfolding deployNamed_def deployTranslation_def keepTranslation_def by (intro quiets) simp_all

lemma quiet_deployDevServices [quiets]: "quiet (deployDevServices w trs)"
  by (induction w trs rule: deployDevServices.induct) (auto intro!: quiets)

lemma quiet_deployMainDev [quiets]: "quiet (deployMainDev w trMap)"
  unfolding deployMainDev_def by (intro quiets) simp

lemma quiet_createVolume [quiets]: "quiet (createVolume w)"
  by (auto simp: quiet_def createVolume_def Let_def claim_ends split: sum.split)

lemma quiet_translateApps [quiets]: "quiet (translateApps w a)"
  by (auto simp: quiet_def translateApps_def Let_def split: sum.split)

lemma quiet_createDevService [quiets]: "quiet (createDevService w)"
  unfolding createDevService_def by (intro quiets) simp

lemma findPod_ends: "responsive w \<Longrightarrow> GetRunningPodInLoop sq dev (uw_PodTries w tr) \<noteq> Inl Blocks"
  unfolding GetRunningPodInLoop_def responsive_def by (intro getRunningPodInLoop_ends) simp_all

lemma quiet_findPod [quiets]: "responsive w \<Longrightarrow> quiet (findPod w)"
  unfolding findPod_def by (intro quiet_asks quiets) (simp_all add: findPod_ends)

lemma watch_ends: "responsive w \<Longrightarrow> quiet (watchPod w a n uid (uw_WatchSteps w tr) pw)"
  unfolding responsive_def by (intro quiet_watchPod) blast

lemma quiet_waitRunning [quiets]: "responsive w \<Longrightarrow> quiet (waitUntilDevelopmentContainerIsRunning w a)"
  unfolding waitUntilDevelopmentContainerIsRunning_def
  by (intro quiet_asks quiets watch_ends) simp_all

lemma quiet_upForwards [quiets]: "responsive w \<Longrightarrow> quiet (upForwards w)"
proof -
  assume "responsive w"
  then have "quiet (startForwards w)"
    by (auto simp: quiet_def startForwards_def forwardPorts_ends split: option.split sum.split)
  then show ?thesis unfolding upForwards_def by (intro quiets)
qed

lemma checkUser_ends: "checkUser w u dev \<noteq> Some Blocks"
  by (auto simp: checkUser_def split: option.split)

lemma quiet_checkOktetoStartError [quiets]: "quiet (checkOktetoStartError w msg)"
  unfolding checkOktetoStartError_def
  by (intro quiet_asks quiets) (auto simp: checkUser_ends)

lemma quiet_upSync [quiets]: "quiet (upSync w)"
  unfolding upSync_def startSyncthing_def synchronizeFiles_def sendReceive_def by (intro quiets) simp_all

lemma quiet_destroyPod [quiets]: "quiet (destroyPod w)"
  unfolding destroyPod_def by (intro quiets) simp

lemma quiet_forwardsError [quiets]: "quiet (forwardsError w e)"
  unfolding forwardsError_def by (intro quiets) simp_all

lemma quiet_syncFailed [quiets]: "quiet (syncFailed w e)"
  unfolding syncFailed_def by (intro quiets) simp

lemma quiet_devModeError [quiets]: "quiet (devModeError e)"
  unfolding devModeError_def by (intro quiets) simp

lemma quiet_RunCommand [quiets]: "quiet (RunCommand w cmd)"
  unfolding RunCommand_def by (intro quiets) simp

lemma quiet_lookUpApp [quiets]: "quiet (lookUpApp w)"
  unfolding lookUpApp_def by (intro quiet_asks quiets) (simp add: GetApp_ends)

lemma quiet_shutdownHybridMode [quiets]: "quiet shutdownHybridMode"
  by (simp add: quiet_def shutdownHybridMode_def)

section \<open>An activation does not block\<close>

text \<open>
  While an activation runs, its shutdown has not been announced and no signal has come; a value waits
  in the channel of the hard termination, and in the one of the cleaning, when the flags say so.
\<close>

definition alive :: "upState \<Rightarrow> bool" where
  "alive s \<longleftrightarrow> us_ShutdownCompleted s = Some False \<and> \<not> us_interruptReceived s"

definition holding :: "bool \<Rightarrow> bool \<Rightarrow> upState \<Rightarrow> bool" where
  "holding h c s \<longleftrightarrow> alive s \<and> (h \<longrightarrow> us_hardTerminate s \<noteq> None) \<and> (c \<longrightarrow> us_cleaned s \<noteq> None)"

lemma holding_control: "control s = control s' \<Longrightarrow> holding h c s = holding h c s' \<and> alive s = alive s'"
  by (auto simp: holding_def alive_def control_def)

lemma holding_alive: "holding h c s \<Longrightarrow> alive s"
  by (simp add: holding_def)

lemma holding_less: "holding h c s \<Longrightarrow> holding False False s"
  by (simp add: holding_def)

lemma triple_quiet: "quiet m \<Longrightarrow> upTriple (holding h c) m (\<lambda>_. holding h c) alive"
proof -
  assume q: "quiet m"
  have "holding h c s' \<and> alive s'" if "holding h c s" "m s = (r, s')" for s r s'
    using q that holding_control [of s' s] holding_alive [of h c s] by (auto simp: quiet_def dest: spec [of _ s])
  moreover have "m s \<noteq> (Inl Blocks, s')" for s s'
    using q by (auto simp: quiet_def dest: spec [of _ s])
  ultimately show ?thesis
    unfolding upTriple_def by (auto split: prod.split sum.split upStop.split)
qed

lemma triple_then:
  "quiet m \<Longrightarrow> (\<And>a. upTriple (holding h c) (f a) Q alive) \<Longrightarrow> upTriple (holding h c) (andThen m f) Q alive"
  by (rule triple_andThen [OF triple_quiet])

lemma triple_initializeSyncthing:
  assumes "responsive w"
  shows "upTriple (holding False False) (initializeSyncthing w) (\<lambda>_. holding True False) alive"
proof -
  obtain ports where "\<And>tr. uw_NewSyncthing w tr = Inr (ports tr)"
    using assms unfolding responsive_def by metis
  then show ?thesis
    by (simp add: upTriple_def initializeSyncthing_def Let_def holding_def alive_def record_call_def)
qed

lemma triple_receiveHardTerminate:
  "upTriple (holding True False) receiveHardTerminate (\<lambda>_. holding False False) alive"
  by (auto simp: upTriple_def receiveHardTerminate_def holding_def alive_def split: option.split)

lemma triple_cleanCommand:
  "responsive w \<Longrightarrow> upTriple (holding False False) (cleanCommand w) (\<lambda>_. holding False True) alive"
  by (auto simp: upTriple_def cleanCommand_def catchE_def andThen_def provide_def upcall_def uplog_def now_def upget_def
      upput_def returnE_def responsive_def holding_def alive_def record_call_def split: option.split)

lemma commandRoutine_run:
  "us_cleaned s = Some out \<Longrightarrow> commandRoutine w s =
     (case RunCommand w (elems (dv_Command (us_Dev s))) (s\<lparr>us_cleaned := None\<rparr>) of
        (Inr _, s') \<Rightarrow> (Inr (Some None), s')
      | (Inl (Fails e), s') \<Rightarrow> (Inr (Some (Some e)), s')
      | (Inl stop, s') \<Rightarrow> (Inl stop, s'))"
  by (simp add: commandRoutine_def andThen_def upget_def upput_def catchE_def returnE_def
      split: prod.split sum.split upStop.split)

lemma triple_commandRoutine:
  "upTriple (holding False True) (commandRoutine w) (\<lambda>r s. holding False False s \<and> r \<noteq> None) alive"
  unfolding upTriple_def
proof (intro allI impI)
  fix s assume h: "holding False True s"
  then obtain out where out: "us_cleaned s = Some out" by (auto simp: holding_def)
  let ?s = "s\<lparr>us_cleaned := None\<rparr>" and ?cmd = "elems (dv_Command (us_Dev s))"
  obtain r s' where r: "RunCommand w ?cmd ?s = (r, s')" by (cases "RunCommand w ?cmd ?s")
  have "holding False False ?s" using h by (simp add: holding_def alive_def)
  with triple_quiet [OF quiet_RunCommand, of False False w ?cmd] r
  have "case r of Inr _ \<Rightarrow> holding False False s' | Inl (Fails _) \<Rightarrow> alive s' | Inl Blocks \<Rightarrow> False | Inl UpPanics \<Rightarrow> True"
    by (simp add: upTriple_def split: sum.splits upStop.splits) (auto dest!: spec [of _ ?s])
  then show "case commandRoutine w s of (Inr a, s') \<Rightarrow> holding False False s' \<and> a \<noteq> None | (Inl (Fails _), s') \<Rightarrow> alive s'
      | (Inl Blocks, _) \<Rightarrow> False | (Inl UpPanics, _) \<Rightarrow> True"
    by (simp add: commandRoutine_run [OF out] r holding_def split: sum.splits upStop.splits)
qed

lemma triple_end: "quiet m \<Longrightarrow> upTriple (holding h c) m (\<lambda>_. alive) alive"
  using triple_quiet [of m h c] holding_alive
  unfolding upTriple_def by (fastforce split: prod.splits sum.splits upStop.splits)

lemma triple_createDevContainer:
  "responsive w \<Longrightarrow> upTriple (holding True False) (createDevContainer w a create) (\<lambda>_. holding False False) alive"
  unfolding createDevContainer_def
  by (intro triple_andThen [OF triple_receiveHardTerminate] triple_then triple_quiet quiets) simp_all

lemma triple_devMode:
  "responsive w \<Longrightarrow> upTriple (holding True False) (devMode w a create) (\<lambda>_. holding False False) alive"
  unfolding devMode_def
  by (intro triple_andThen [OF triple_createDevContainer] triple_quiet quiets)

lemma triple_devModeError: "upTriple alive (devModeError e) Q alive"
  by (auto simp: upTriple_def devModeError_def andThen_def upget_def failE_def)

lemma triple_waitExit:
  assumes "responsive w" "r \<noteq> None"
  shows "upTriple (holding False False) (waitUntilExitOrInterruptOrApply w r) (\<lambda>_. holding False False) alive"
proof -
  have "fst (waitUntilExitOrInterruptOrApply w r s) \<noteq> Inl Blocks" for s
  proof -
    obtain ev where "uw_Exit w (us_Trace s) = Some ev" "\<forall>e. ev \<noteq> GlobalForwarderFailed e"
      using assms(1) unfolding responsive_def by blast
    then show ?thesis
      using assms(2) by (cases ev) (auto simp: waitUntilExitOrInterruptOrApply_def exitError_def split: option.split)
  qed
  then have "quiet (waitUntilExitOrInterruptOrApply w r)"
    by (simp add: quiet_def waitUntilExitOrInterruptOrApply_def)
  then show ?thesis by (rule triple_quiet)
qed

lemma triple_afterCommand:
  "responsive w \<Longrightarrow> upTriple (\<lambda>s. holding False False s \<and> r \<noteq> None) (afterCommand w r) (\<lambda>_. alive) alive"
proof (cases "r = None")
  case False
  assume "responsive w"
  then have "upTriple (holding False False) (afterCommand w r) (\<lambda>_. alive) alive"
    unfolding afterCommand_def using False
    by (intro triple_andThen [OF triple_waitExit] triple_then triple_end quiets) simp_all
  then show ?thesis by (simp add: upTriple_def)
qed (simp add: upTriple_def)

lemma triple_runActivated: "responsive w \<Longrightarrow> upTriple (holding False False) (runActivated w) (\<lambda>_. alive) alive"
  unfolding runActivated_def
  by (intro triple_andThen [OF triple_cleanCommand] triple_andThen [OF triple_commandRoutine triple_afterCommand]
      triple_then quiets) simp_all

lemma triple_developApp:
  assumes w: "responsive w"
  shows "upTriple (holding False False) (developApp w a create) (\<lambda>_. alive) alive"
proof -
  have "upTriple (holding True False) (catchE (devMode w a create) devModeError) (\<lambda>_. holding False False) alive" for a
    by (intro triple_catchE [OF triple_devMode] triple_devModeError w)
  note devMode = triple_andThen [OF this]
  show ?thesis unfolding developApp_def
    by (intro triple_andThen [OF triple_initializeSyncthing] triple_then devMode triple_runActivated quiets w)
qed

lemma triple_cases:
  "(\<And>e. upTriple P (f e) Q E) \<Longrightarrow> (\<And>a. upTriple P (g a) Q E) \<Longrightarrow> upTriple P (case x of Inl e \<Rightarrow> f e | Inr a \<Rightarrow> g a) Q E"
  "upTriple P h Q E \<Longrightarrow> (\<And>b. upTriple P (k b) Q E) \<Longrightarrow> upTriple P (case y of None \<Rightarrow> h | Some b \<Rightarrow> k b) Q E"
  "upTriple P m Q E \<Longrightarrow> upTriple P n Q E \<Longrightarrow> upTriple P (if c then m else n) Q E"
  "(\<And>u v. upTriple P (l u v) Q E) \<Longrightarrow> upTriple P (case z of (u, v) \<Rightarrow> l u v) Q E"
  by (simp_all split: sum.split option.split prod.split)

lemma triple_activateApp: "responsive w \<Longrightarrow> upTriple (holding False False) (activateApp w a create) (\<lambda>_. alive) alive"
  unfolding activateApp_def
  by (intro triple_cases triple_then triple_developApp triple_end [OF quiet_failE] quiet_upget) simp_all

lemma triple_activateBody: "responsive w \<Longrightarrow> upTriple alive (activateBody w) (\<lambda>_. alive) alive"
proof -
  assume w: "responsive w"
  have "upTriple (holding False False) (activateBody w) (\<lambda>_. alive) alive"
    unfolding activateBody_def
    by (intro triple_cases triple_then triple_activateApp w triple_end [OF quiet_failE] triple_end [OF quiet_returnE]
        triple_end [OF quiet_shutdownHybridMode] quiet_upget quiet_provide quiet_lookUpApp) simp_all
  moreover have "holding False False = alive" by (auto simp: holding_def fun_eq_iff)
  ultimately show ?thesis by simp
qed

text \<open>A returned activation has announced its shutdown.\<close>

definition announced :: "upState \<Rightarrow> bool" where
  "announced s \<longleftrightarrow> us_ShutdownCompleted s = Some True \<and> \<not> us_interruptReceived s"

lemma shutdown_announces: "alive s \<Longrightarrow> \<exists>s'. shutdown s = (Inr (), s') \<and> announced s'"
proof -
  assume a: "alive s"
  let ?s = "fold record_call (shutdownCalls s) s"
  have "control ?s = control s" by simp
  then have "us_ShutdownCompleted ?s = Some False" "\<not> us_interruptReceived ?s"
    using a by (auto simp: alive_def control_def)
  then show ?thesis
    by (simp add: shutdown_def andThen_def upput_def sendShutdown_def announced_def)
qed

lemma activate_announces:
  assumes w: "responsive w" and st: "\<And>tr. uw_Err w tr (UpdateState ''activating'') = None"
    and i: "\<not> us_interruptReceived s" and r: "activate w s = (r, s')"
  shows "r \<noteq> Inl Blocks \<and> (r \<noteq> Inl UpPanics \<longrightarrow> announced s')"
proof -
  let ?s = "freshActivation (record_call (UpdateState ''activating'') s)"
  have run: "activate w s = (case activateBody w ?s of
      (Inl Blocks, s') \<Rightarrow> (Inl Blocks, s') | (Inl UpPanics, s') \<Rightarrow> (Inl UpPanics, s')
    | (r, s') \<Rightarrow> if us_interruptReceived s' then (r, s')
        else (case shutdown s' of (Inl stop, s'') \<Rightarrow> (Inl stop, s'') | (Inr _, s'') \<Rightarrow> (r, s'')))"
    by (simp add: activate_def andThen_def updateState_def upcall_def st upput_def)
  have "alive ?s" using i by (simp add: alive_def freshActivation_def record_call_def)
  then have b: "case activateBody w ?s of (Inr _, s') \<Rightarrow> alive s' | (Inl (Fails _), s') \<Rightarrow> alive s'
      | (Inl Blocks, _) \<Rightarrow> False | (Inl UpPanics, _) \<Rightarrow> True"
    using triple_activateBody [OF w] by (simp add: upTriple_def)
  obtain q t where q: "activateBody w ?s = (q, t)" by (cases "activateBody w ?s")
  show ?thesis
  proof (cases "alive t")
    case True
    with shutdown_announces [OF True] r q b run show ?thesis
      by (auto simp: alive_def split: sum.splits upStop.splits)
  next
    case False
    with r q b run show ?thesis by (auto split: sum.splits upStop.splits)
  qed
qed

section \<open>The loop goes on or ends\<close>

lemma afterActivation_control:
  "us_ShutdownCompleted (snd (afterActivation w err s)) = us_ShutdownCompleted s
     \<and> us_interruptReceived (snd (afterActivation w err s)) = us_interruptReceived s"
  by (simp add: afterActivation_def record_call_def Let_def split: option.split)

lemma loopTurn_announces:
  assumes w: "responsive w" and st: "\<And>tr. uw_Err w tr (UpdateState ''activating'') = None"
    and i: "\<not> us_interruptReceived s" and a: "us_isRetry s \<or> transient \<Longrightarrow> announced s"
    and r: "loopTurn w transient s = (r, s')"
  shows "r \<noteq> Inr LoopBlocks \<and> (\<forall>t. r = Inl t \<longrightarrow> announced s')"
proof -
  obtain stop t where b: "(if us_isRetry s \<or> transient then beforeRetry w s else (None, s)) = (stop, t)"
    by (cases "if us_isRetry s \<or> transient then beforeRetry w s else (None, s)")
  with a i have t: "stop \<noteq> Some LoopBlocks" "\<not> us_interruptReceived t" "stop = None \<or> (\<exists>e. stop = Some (Exits e))"
    by (auto simp: beforeRetry_def receiveShutdown_def announced_def shutdownHybridMode_def record_call_def
        split: if_splits)
  obtain q u where q: "activate w t = (q, u)" by (cases "activate w t")
  note ann = activate_announces [OF w st t(2) q]
  show ?thesis
  proof (cases stop)
    case (Some e)
    with r b t show ?thesis by (auto simp: loopTurn_def)
  next
    case None
    have done_turn: "r' \<noteq> Inr LoopBlocks \<and> (\<forall>f. r' = Inl f \<longrightarrow> announced s'')"
      if "announced u" "apfst (map_sum id Exits) (afterActivation w err u) = (r', s'')" for err r' s''
      using that afterActivation_control [of w err u]
      by (cases "fst (afterActivation w err u)") (auto simp: announced_def apfst_def map_prod_def split: prod.splits)
    show ?thesis
    proof (cases q)
      case (Inl e)
      with None r b q ann done_turn show ?thesis by (cases e) (auto simp: loopTurn_def)
    next
      case (Inr x)
      with None r b q ann done_turn show ?thesis by (auto simp: loopTurn_def)
    qed
  qed
qed

lemma loopTurns_run:
  assumes w: "responsive w" and st: "\<And>tr. uw_Err w tr (UpdateState ''activating'') = None"
  shows "\<not> us_interruptReceived s \<Longrightarrow> (us_isRetry s \<or> transient \<longrightarrow> announced s) \<Longrightarrow>
    fst (loopTurns n w transient s) \<noteq> LoopBlocks"
proof (induction n arbitrary: transient s)
  case (Suc n)
  obtain r s' where r: "loopTurn w transient s = (r, s')" by (cases "loopTurn w transient s")
  note ann = loopTurn_announces [OF w st Suc.prems(1) _ r]
  show ?case
  proof (cases r)
    case (Inl t)
    with ann Suc.prems have "announced s'" by simp
    with Suc.IH [of s' t] Inl r show ?thesis by (simp add: announced_def)
  next
    case (Inr e)
    with ann Suc.prems r show ?thesis by (cases e) auto
  qed
qed simp


section \<open>The order of an activation\<close>

definition isExec :: "upCall \<Rightarrow> bool" where
  "isExec c \<longleftrightarrow> (\<exists>cmd. c = ExecCommand cmd)"

text \<open>A step that runs no command, and makes these calls in this order when it succeeds.\<close>

definition adds :: "upCall list \<Rightarrow> 'a upAct \<Rightarrow> bool" where
  "adds xs m \<longleftrightarrow>
     (\<forall>s. \<exists>ys. us_Trace (snd (m s)) = us_Trace s @ ys \<and> list_all (\<lambda>c. \<not> isExec c) ys
              \<and> (\<forall>a. fst (m s) = Inr a \<longrightarrow> subseq xs ys))"

text \<open>A step that makes these calls, in this order, before the command.\<close>

definition leads :: "upCall list \<Rightarrow> 'a upAct \<Rightarrow> bool" where
  "leads xs m \<longleftrightarrow>
     (\<forall>s. \<exists>ys. us_Trace (snd (m s)) = us_Trace s @ ys
        \<and> (list_all (\<lambda>c. \<not> isExec c) ys \<or> (\<exists>us cmd vs. ys = us @ ExecCommand cmd # vs \<and> subseq xs us)))"

named_theorems addss

lemma adds_none: "adds xs m \<Longrightarrow> adds [] m"
  unfolding adds_def by fastforce

lemma adds_andThen:
  assumes "adds xs m" "\<And>a. adds ys (f a)" shows "adds (xs @ ys) (andThen m f)"
  unfolding adds_def
proof
  fix s
  obtain r s' where r: "m s = (r, s')" by (cases "m s")
  from assms(1) r obtain us where us: "us_Trace s' = us_Trace s @ us" "list_all (\<lambda>c. \<not> isExec c) us"
    "\<And>a. r = Inr a \<Longrightarrow> subseq xs us" unfolding adds_def by (metis fst_conv snd_conv)
  show "\<exists>zs. us_Trace (snd (andThen m f s)) = us_Trace s @ zs \<and> list_all (\<lambda>c. \<not> isExec c) zs
      \<and> (\<forall>a. fst (andThen m f s) = Inr a \<longrightarrow> subseq (xs @ ys) zs)"
  proof (cases r)
    case (Inl e)
    with us r show ?thesis by (intro exI [of _ us]) (simp add: andThen_def)
  next
    case (Inr a)
    from assms(2) [of a] obtain vs where vs: "us_Trace (snd (f a s')) = us_Trace s' @ vs" "list_all (\<lambda>c. \<not> isExec c) vs"
      "\<And>b. fst (f a s') = Inr b \<Longrightarrow> subseq ys vs" unfolding adds_def by blast
    with us r Inr show ?thesis
      by (intro exI [of _ "us @ vs"]) (auto simp: andThen_def intro: list_emb_append_mono)
  qed
qed

lemma adds_then [addss]: "adds [] m \<Longrightarrow> (\<And>a. adds xs (f a)) \<Longrightarrow> adds xs (andThen m f)"
  using adds_andThen [of "[]" m xs f] by simp

lemma adds_catchE [addss]:
  assumes "adds xs m" "\<And>e. adds xs (h e)" shows "adds xs (catchE m h)"
  unfolding adds_def
proof
  fix s
  obtain r s' where r: "m s = (r, s')" by (cases "m s")
  from assms(1) r obtain us where us: "us_Trace s' = us_Trace s @ us" "list_all (\<lambda>c. \<not> isExec c) us"
    "\<And>a. r = Inr a \<Longrightarrow> subseq xs us" unfolding adds_def by (metis fst_conv snd_conv)
  show "\<exists>zs. us_Trace (snd (catchE m h s)) = us_Trace s @ zs \<and> list_all (\<lambda>c. \<not> isExec c) zs
      \<and> (\<forall>a. fst (catchE m h s) = Inr a \<longrightarrow> subseq xs zs)"
  proof (cases "\<exists>e. r = Inl (Fails e)")
    case False
    with us r show ?thesis
      by (intro exI [of _ us]) (simp add: catchE_def split: sum.split upStop.split)
  next
    case True
    then obtain e where e: "r = Inl (Fails e)" by blast
    from assms(2) [of e] obtain vs where vs: "us_Trace (snd (h e s')) = us_Trace s' @ vs" "list_all (\<lambda>c. \<not> isExec c) vs"
      "\<And>b. fst (h e s') = Inr b \<Longrightarrow> subseq xs vs" unfolding adds_def by blast
    with us r e show ?thesis
      by (intro exI [of _ "us @ vs"]) (auto simp: catchE_def)
  qed
qed

lemma adds_failE [addss]: "adds xs (failE e)"
  by (simp add: adds_def failE_def)

lemma adds_returnE [addss]: "adds [] (returnE a)"
  by (simp add: adds_def returnE_def)

lemma adds_upget [addss]: "adds [] (upget f)"
  by (simp add: adds_def upget_def)

lemma adds_now [addss]: "adds [] (now f)"
  by (simp add: now_def adds_upget)

lemma adds_upvalue [addss]: "adds [] (upvalue r)"
  by (simp add: adds_def upvalue_def)

lemma adds_upput [addss]: "(\<And>s. us_Trace (f s) = us_Trace s) \<Longrightarrow> adds [] (upput f)"
  by (simp add: adds_def upput_def)

lemma trace_record_call [simp]: "us_Trace (record_call c s) = us_Trace s @ [c]"
  by (simp add: record_call_def)

lemma trace_record_calls [simp]: "us_Trace (fold record_call cs s) = us_Trace s @ cs"
  by (induction cs arbitrary: s) simp_all

lemma adds_upcall [addss]: "\<not> isExec c \<Longrightarrow> adds [c] (upcall w c)"
  by (auto simp: adds_def upcall_def)

lemma adds_uplog [addss]: "\<not> isExec c \<Longrightarrow> adds [c] (uplog c)"
  by (auto simp: adds_def uplog_def)

lemma isExec_simps [simp]:
  "\<not> isExec (UpdateState x)" "\<not> isExec ProvideClient" "\<not> isExec LookUpApp" "\<not> isExec InitSyncthing"
  "\<not> isExec SaveSyncConfig" "\<not> isExec HardTerminate" "\<not> isExec ReadClone" "\<not> isExec RefreshApp"
  "\<not> isExec WriteClaim" "\<not> isExec WriteSecret" "\<not> isExec (DeployApp a)" "\<not> isExec WriteDevService"
  "\<not> isExec FindPod" "\<not> isExec WatchPod" "\<not> isExec WatchEvents" "\<not> isExec StartForwarder"
  "\<not> isExec (DestroyPod x)" "\<not> isExec RunSyncthing" "\<not> isExec (PingSyncthing b)" "\<not> isExec (ScanFiles b)"
  "\<not> isExec ConnectSyncthing" "\<not> isExec CheckSpace" "\<not> isExec CompleteSync" "\<not> isExec UpdateSyncConfig"
  "\<not> isExec RestartSyncthing" "\<not> isExec CleanCommand" "\<not> isExec RestoreTerminal" "\<not> isExec CancelContext"
  "\<not> isExec StopSyncthing" "\<not> isExec StopForwarder" "\<not> isExec StopHybrid" "isExec (ExecCommand cmd)"
  by (simp_all add: isExec_def)

lemma adds_cases [addss]:
  "(\<And>e. adds xs (f e)) \<Longrightarrow> (\<And>a. adds xs (g a)) \<Longrightarrow> adds xs (case x of Inl e \<Rightarrow> f e | Inr a \<Rightarrow> g a)"
  "adds xs h \<Longrightarrow> (\<And>b. adds xs (k b)) \<Longrightarrow> adds xs (case y of None \<Rightarrow> h | Some b \<Rightarrow> k b)"
  "adds xs m \<Longrightarrow> adds xs n \<Longrightarrow> adds xs (if c then m else n)"
  "(\<And>u v. adds xs (l u v)) \<Longrightarrow> adds xs (case z of (u, v) \<Rightarrow> l u v)"
  by (simp_all split: sum.split option.split prod.split)

lemma adds_call:
  "\<not> isExec c \<Longrightarrow> adds xs n \<Longrightarrow> adds (c # xs) (upseq (upcall w c) n)"
  "\<not> isExec c \<Longrightarrow> adds xs n \<Longrightarrow> adds (c # xs) (upseq (uplog c) n)"
  using adds_andThen [OF adds_upcall [of c w], of xs "\<lambda>_. n"] adds_andThen [OF adds_uplog [of c], of xs "\<lambda>_. n"]
  by simp_all

lemma adds_other [addss]: "\<not> isExec c \<Longrightarrow> adds [] (upcall w c)" "\<not> isExec c \<Longrightarrow> adds [] (uplog c)"
  using adds_upcall [of c w] adds_uplog [of c] by (auto intro: adds_none)

lemma adds_updateState: "adds [UpdateState st] (updateState w st)" "adds [] (updateState w st)"
  by (simp_all add: updateState_def addss)

lemma adds_provide [addss]: "adds [] (provide w)"
  by (simp add: provide_def addss)

lemma adds_setDevContainer [addss]: "adds [] (setDevContainer a)"
  by (auto simp: adds_def setDevContainer_def Let_def split: sum.split option.split)

lemma adds_initializeSyncthing: "adds [InitSyncthing] (initializeSyncthing w)"
  by (auto simp: adds_def initializeSyncthing_def Let_def split: sum.split)

lemma adds_waitUntilAppIsAwaken [addss]: "adds [] (waitUntilAppIsAwaken w a)"
  unfolding waitUntilAppIsAwaken_def by (intro addss) simp_all

lemma adds_deployApp [addss]: "adds [] (deployApp w a)"
  by (auto simp: deployApp_def intro!: addss split: app.split)

lemma adds_deployNamed [addss]: "adds [] (deployNamed w ntr)"
  unfolding deployNamed_def deployTranslation_def keepTranslation_def by (intro addss) simp_all

lemma adds_deployDevServices [addss]: "adds [] (deployDevServices w trs)"
  by (induction w trs rule: deployDevServices.induct) (auto intro!: addss)

lemma adds_deployMainDev [addss]: "adds [] (deployMainDev w trMap)"
  unfolding deployMainDev_def by (intro addss)

lemma adds_createVolume [addss]: "adds [] (createVolume w)"
  by (auto simp: adds_def createVolume_def Let_def split: sum.split)

lemma adds_translateApps [addss]: "adds [] (translateApps w a)"
  by (auto simp: adds_def translateApps_def Let_def split: sum.split)

lemma adds_receiveHardTerminate [addss]: "adds [] receiveHardTerminate"
  by (auto simp: adds_def receiveHardTerminate_def split: option.split)

lemma adds_createDevService [addss]: "adds [] (createDevService w)"
  unfolding createDevService_def by (intro addss) simp

lemma adds_findPod: "adds [FindPod] (findPod w)"
  unfolding findPod_def by (intro adds_then [OF adds_upget] adds_call addss) simp_all

lemma adds_createDevContainer: "adds [UpdateState ''starting'', WriteSecret, FindPod] (createDevContainer w a create)"
  unfolding createDevContainer_def updateState_def
  by (intro adds_call adds_findPod addss) simp_all

lemma adds_watchPod [addss]: "adds [] (watchPod w a timeout uid sts pw)"
proof (induction sts arbitrary: pw)
  case (Cons st sts)
  have "adds [] (logEvent reason)" for reason
    by (simp add: adds_def logEvent_def upput_def eventCalls_def)
  then show ?case
    by (auto intro!: addss Cons split: option.split podWatchEvent.split sum.split)
qed (simp add: addss)

lemma adds_waitRunning: "adds [WatchPod, WatchEvents] (waitUntilDevelopmentContainerIsRunning w a)"
  unfolding waitUntilDevelopmentContainerIsRunning_def
  by (intro adds_call addss) simp_all

lemma adds_devMode:
  "adds [UpdateState ''starting'', WriteSecret, FindPod, WatchPod, WatchEvents] (devMode w a create)"
  using adds_andThen [OF adds_createDevContainer adds_waitRunning] by (simp add: devMode_def)

lemma adds_upForwards: "adds [StartForwarder] (upForwards w)"
  unfolding upForwards_def
  by (intro adds_then [OF adds_provide]) (auto simp: adds_def startForwards_def split: option.split sum.split)

lemma adds_checkOktetoStartError [addss]: "adds xs (checkOktetoStartError w msg)"
proof -
  have "\<forall>s b. fst (checkOktetoStartError w msg s) \<noteq> Inr b"
    by (auto simp: checkOktetoStartError_def andThen_def upget_def now_def uplog_def failE_def
        split: prod.split sum.split option.split)
  moreover have "adds [] (checkOktetoStartError w msg)"
    unfolding checkOktetoStartError_def by (intro addss) simp_all
  ultimately show ?thesis unfolding adds_def by fastforce
qed

lemma adds_startSyncthing: "adds [RunSyncthing, ScanFiles True, ScanFiles False, ConnectSyncthing] (startSyncthing w)"
  unfolding startSyncthing_def updateState_def
  by (intro adds_call addss) simp_all

lemma adds_synchronizeFiles: "adds [CompleteSync] (synchronizeFiles w)"
  unfolding synchronizeFiles_def by (intro addss) simp_all

lemma adds_upSync:
  "adds [RunSyncthing, ScanFiles True, ScanFiles False, ConnectSyncthing, CompleteSync, UpdateSyncConfig, RestartSyncthing] (upSync w)"
proof -
  have "adds [] (upput sendReceive)"
    by (simp add: adds_upput sendReceive_def)
  then have "adds [UpdateSyncConfig, RestartSyncthing]
      (upseq (upput sendReceive) (upseq (upcall w UpdateSyncConfig) (upcall w RestartSyncthing)))"
    by (intro adds_then [OF _ adds_call(1)] addss) (simp_all add: sendReceive_def)
  then have "adds [CompleteSync, UpdateSyncConfig, RestartSyncthing] (upseq (synchronizeFiles w)
      (upseq (upput sendReceive) (upseq (upcall w UpdateSyncConfig) (upcall w RestartSyncthing))))" (is "adds ?xs ?m")
    using adds_andThen [OF adds_synchronizeFiles [of w]] by fastforce
  then have "adds ?xs (upseq (if hybrid then returnE () else uplog CheckSpace) ?m)" for hybrid
    by (rule adds_then [rotated]) (simp add: addss)
  then have "adds ?xs (andThen (upget (\<lambda>s. IsHybridModeEnabled (us_Dev s)))
      (\<lambda>hybrid. upseq (if hybrid then returnE () else uplog CheckSpace) ?m))"
    by (rule adds_then [OF adds_upget])
  then have "adds ?xs (upseq (updateState w ''synchronizing'') (andThen (upget (\<lambda>s. IsHybridModeEnabled (us_Dev s)))
      (\<lambda>hybrid. upseq (if hybrid then returnE () else uplog CheckSpace) ?m)))"
    by (rule adds_then [OF adds_updateState(2)])
  from adds_andThen [OF adds_startSyncthing [of w] this] show ?thesis by (simp add: upSync_def)
qed

lemma adds_cleanCommand [addss]: "adds [] (cleanCommand w)"
  unfolding cleanCommand_def by (intro addss) simp_all

lemma adds_destroyPod [addss]: "adds [] (destroyPod w)"
  unfolding destroyPod_def by (intro addss) simp

lemma adds_forwardsError [addss]: "adds xs (forwardsError w e)"
proof -
  have "\<forall>s b. fst (forwardsError w e s) \<noteq> Inr b"
    by (auto simp: forwardsError_def catchE_def andThen_def failE_def split: prod.split sum.split upStop.split)
      (auto simp: checkOktetoStartError_def andThen_def upget_def now_def uplog_def failE_def
        split: prod.splits sum.splits option.splits)
  moreover have "adds [] (forwardsError w e)"
    unfolding forwardsError_def by (intro addss)
  ultimately show ?thesis unfolding adds_def by fastforce
qed

lemma adds_syncFailed [addss]: "adds xs (syncFailed w e)"
  unfolding syncFailed_def by (intro addss)

lemma adds_devModeError [addss]: "adds xs (devModeError e)"
  unfolding devModeError_def by (intro addss)

lemma adds_afterCommand [addss]: "adds [] (afterCommand w r)"
proof -
  have "adds [] (waitUntilExitOrInterruptOrApply w r)"
    by (simp add: adds_def waitUntilExitOrInterruptOrApply_def)
  then show ?thesis unfolding afterCommand_def by (intro addss)
qed

lemma adds_lookUpApp: "adds [LookUpApp] (lookUpApp w)"
  unfolding lookUpApp_def by (intro adds_then [OF adds_upget] adds_call addss) simp_all

lemma adds_shutdown [addss]: "adds [] shutdown"
  by (auto simp: adds_def shutdown_def andThen_def upput_def sendShutdown_def shutdownCalls_def)

lemma adds_shutdownHybridMode [addss]: "adds [] shutdownHybridMode"
  by (simp add: adds_def shutdownHybridMode_def)

subsection \<open>The command comes last\<close>

lemma leads_adds: "adds xs m \<Longrightarrow> leads ys m"
  unfolding leads_def adds_def by blast

lemma leads_andThen:
  assumes "adds xs m" "\<And>a. leads ys (f a)" shows "leads (xs @ ys) (andThen m f)"
  unfolding leads_def
proof
  fix s
  obtain r s' where r: "m s = (r, s')" by (cases "m s")
  from assms(1) r obtain us where us: "us_Trace s' = us_Trace s @ us" "list_all (\<lambda>c. \<not> isExec c) us"
    "\<And>a. r = Inr a \<Longrightarrow> subseq xs us" unfolding adds_def by (metis fst_conv snd_conv)
  show "\<exists>zs. us_Trace (snd (andThen m f s)) = us_Trace s @ zs \<and> (list_all (\<lambda>c. \<not> isExec c) zs
      \<or> (\<exists>us cmd vs. zs = us @ ExecCommand cmd # vs \<and> subseq (xs @ ys) us))"
  proof (cases r)
    case (Inl e)
    with us r show ?thesis by (intro exI [of _ us]) (simp add: andThen_def)
  next
    case (Inr a)
    from assms(2) [of a] obtain vs where vs: "us_Trace (snd (f a s')) = us_Trace s' @ vs"
      "list_all (\<lambda>c. \<not> isExec c) vs \<or> (\<exists>us cmd ws. vs = us @ ExecCommand cmd # ws \<and> subseq ys us)"
      unfolding leads_def by blast
    have "us_Trace (snd (andThen m f s)) = us_Trace s @ us @ vs"
      using us vs r Inr by (simp add: andThen_def)
    moreover have "list_all (\<lambda>c. \<not> isExec c) (us @ vs)
        \<or> (\<exists>us' cmd ws. us @ vs = us' @ ExecCommand cmd # ws \<and> subseq (xs @ ys) us')"
    proof (cases "list_all (\<lambda>c. \<not> isExec c) vs")
      case False
      then obtain us' cmd ws where "vs = us' @ ExecCommand cmd # ws" "subseq ys us'" using vs by blast
      then have "us @ vs = (us @ us') @ ExecCommand cmd # ws" "subseq (xs @ ys) (us @ us')"
        using us(3) Inr by (auto intro: list_emb_append_mono)
      then show ?thesis by blast
    qed (use us in simp)
    ultimately show ?thesis by blast
  qed
qed

lemma leads_then: "adds [] m \<Longrightarrow> (\<And>a. leads ys (f a)) \<Longrightarrow> leads ys (andThen m f)"
  using leads_andThen [of "[]" m ys f] by simp

lemma leads_before:
  assumes "leads xs m" "\<And>a. adds [] (f a)" shows "leads xs (andThen m f)"
  unfolding leads_def
proof
  fix s
  obtain r s' where r: "m s = (r, s')" by (cases "m s")
  from assms(1) r obtain us where us: "us_Trace s' = us_Trace s @ us" 
    "list_all (\<lambda>c. \<not> isExec c) us \<or> (\<exists>us' cmd vs. us = us' @ ExecCommand cmd # vs \<and> subseq xs us')"
    unfolding leads_def by (metis snd_conv)
  show "\<exists>zs. us_Trace (snd (andThen m f s)) = us_Trace s @ zs \<and> (list_all (\<lambda>c. \<not> isExec c) zs
      \<or> (\<exists>us cmd vs. zs = us @ ExecCommand cmd # vs \<and> subseq xs us))"
  proof (cases r)
    case (Inl e)
    with us r show ?thesis by (intro exI [of _ us]) (simp add: andThen_def)
  next
    case (Inr a)
    from assms(2) [of a] obtain vs where vs: "us_Trace (snd (f a s')) = us_Trace s' @ vs" "list_all (\<lambda>c. \<not> isExec c) vs"
      unfolding adds_def by blast
    have "us_Trace (snd (andThen m f s)) = us_Trace s @ us @ vs"
      using us vs r Inr by (simp add: andThen_def)
    moreover have "list_all (\<lambda>c. \<not> isExec c) (us @ vs)
        \<or> (\<exists>us' cmd ws. us @ vs = us' @ ExecCommand cmd # ws \<and> subseq xs us')"
    proof (cases "list_all (\<lambda>c. \<not> isExec c) us")
      case False
      then obtain us' cmd ws where "us = us' @ ExecCommand cmd # ws" "subseq xs us'" using us by blast
      then have "us @ vs = us' @ ExecCommand cmd # (ws @ vs)" "subseq xs us'" by simp_all
      then show ?thesis by blast
    qed (use vs in simp)
    ultimately show ?thesis by blast
  qed
qed

lemma leads_RunCommand: "leads [UpdateState ''ready''] (RunCommand w cmd)"
proof -
  have "leads [] (upcall w (ExecCommand cmd))"
    by (auto simp: leads_def upcall_def Cons_eq_append_conv intro!: exI [of _ "[ExecCommand cmd]"])
  then have "leads [] (upseq (provide w) (upseq (upput (\<lambda>s. if RemoteModeEnabled (uw_Dev w) (us_Dev s) \<and> IsHybridModeEnabled (us_Dev s)
                        then s\<lparr>us_hybridCommand := True\<rparr> else s)) (upcall w (ExecCommand cmd))))"
    by (intro leads_then addss) simp_all
  from leads_andThen [OF adds_updateState(1) [of "''ready''" w] this] show ?thesis
    by (simp add: RunCommand_def)
qed

lemma leads_caught:
  assumes "leads xs m" "\<And>e s. us_Trace (snd (h e s)) = us_Trace s"
  shows "leads xs (catchE m h)"
proof -
  have "us_Trace (snd (catchE m h s)) = us_Trace (snd (m s))" for s
    using assms(2) by (simp add: catchE_def split: prod.split sum.split upStop.split)
  with assms(1) show ?thesis by (simp add: leads_def)
qed

lemma leads_commandRoutine: "leads [UpdateState ''ready''] (commandRoutine w)"
proof -
  have "leads [UpdateState ''ready''] (catchE (upseq (RunCommand w cmd) (returnE (Some None))) (\<lambda>e. returnE (Some (Some e))))" for cmd
    by (intro leads_caught leads_before [OF leads_RunCommand] addss) (simp add: returnE_def)
  then have "leads [UpdateState ''ready'']
      (case cleaned of None \<Rightarrow> returnE None
       | Some _ \<Rightarrow> upseq (upput (\<lambda>s. s\<lparr>us_cleaned := None\<rparr>))
           (andThen (upget (\<lambda>s. elems (dv_Command (us_Dev s))))
             (\<lambda>cmd. catchE (upseq (RunCommand w cmd) (returnE (Some None))) (\<lambda>e. returnE (Some (Some e))))))"
    for cleaned :: "string option"
    by (auto intro!: leads_then [OF adds_upget] leads_then [OF adds_upput] leads_adds [OF adds_returnE] split: option.split)
  then show ?thesis
    unfolding commandRoutine_def by (intro leads_then [OF adds_upget])
qed

abbreviation connected :: "upCall list" where
  "connected \<equiv> [StartForwarder, RunSyncthing, ScanFiles True, ScanFiles False, ConnectSyncthing, CompleteSync,
     UpdateSyncConfig, RestartSyncthing, UpdateState ''ready'']"

lemma leads_runActivated: "leads connected (runActivated w)"
proof -
  have "leads [UpdateState ''ready''] (andThen (commandRoutine w) (afterCommand w))"
    by (intro leads_before [OF leads_commandRoutine] addss)
  then have "leads [UpdateState ''ready''] (upseq (upput (\<lambda>s. s\<lparr>us_success := True\<rparr>)) (andThen (commandRoutine w) (afterCommand w)))"
    by (rule leads_then [OF adds_upput, rotated]) simp
  then have rest: "leads [UpdateState ''ready'']
      (upseq (if servicesUpWait w
              then andThen (upget us_Translations) (\<lambda>trMap. deployDevServices w (devTranslations trMap)) else returnE ())
        (upseq (upput (\<lambda>s. s\<lparr>us_success := True\<rparr>)) (andThen (commandRoutine w) (afterCommand w))))" (is "leads _ ?m")
    by (rule leads_then [rotated]) (intro addss)
  have "leads ([RunSyncthing, ScanFiles True, ScanFiles False, ConnectSyncthing, CompleteSync,
      UpdateSyncConfig, RestartSyncthing] @ [UpdateState ''ready'']) (upseq (catchE (upSync w) (syncFailed w)) ?m)"
    by (intro leads_andThen [OF adds_catchE [OF adds_upSync adds_syncFailed]] rest)
  then have "leads (tl connected) (upseq (cleanCommand w) (upseq (catchE (upSync w) (syncFailed w)) ?m))"
    by (intro leads_then [OF adds_cleanCommand]) simp
  then have "leads ([StartForwarder] @ tl connected)
      (upseq (catchE (upForwards w) (forwardsError w)) (upseq (cleanCommand w) (upseq (catchE (upSync w) (syncFailed w)) ?m)))"
    by (intro leads_andThen [OF adds_catchE [OF adds_upForwards adds_forwardsError]])
  then have "leads connected (upseq (upput (\<lambda>s. s\<lparr>us_isRetry := True\<rparr>))
      (upseq (catchE (upForwards w) (forwardsError w)) (upseq (cleanCommand w) (upseq (catchE (upSync w) (syncFailed w)) ?m))))"
    by (intro leads_then [OF adds_upput]) simp_all
  then show ?thesis by (simp add: runActivated_def)
qed

abbreviation milestones :: "upCall list" where
  "milestones \<equiv> [InitSyncthing, UpdateState ''starting'', WriteSecret, FindPod, WatchPod, WatchEvents] @ connected"

lemma leads_developApp: "leads milestones (developApp w a create)"
proof -
  have "leads (tl milestones) (upseq (catchE (devMode w a create) devModeError) (runActivated w))" for a
    using leads_andThen [OF adds_catchE [OF adds_devMode adds_devModeError] leads_runActivated] by simp
  then have "leads (tl milestones) (upseq (setDevContainer a) (andThen (waitUntilAppIsAwaken w a)
      (\<lambda>a. upseq (catchE (devMode w a create) devModeError) (runActivated w))))"
    by (intro leads_then [OF adds_setDevContainer] leads_then [OF adds_waitUntilAppIsAwaken])
  from leads_andThen [OF adds_initializeSyncthing [of w] this] show ?thesis
    by (simp add: developApp_def)
qed

lemma leads_activateApp: "leads milestones (activateApp w a create)"
proof (cases "RestoreOriginal (uw_AppWorld w) a")
  case (Inr b)
  have "leads milestones (case ValidateMountPaths (PodSpec b) dev of Some e \<Rightarrow> failE (appStop e)
      | None \<Rightarrow> developApp w b create)" for dev :: mainDev
    using leads_developApp [of w b create] leads_adds [OF adds_failE]
    by (cases "ValidateMountPaths (PodSpec b) dev") (auto simp del: append.simps)
  then have "leads milestones (andThen (upget us_Dev) (\<lambda>dev. case ValidateMountPaths (PodSpec b) dev of
      Some e \<Rightarrow> failE (appStop e) | None \<Rightarrow> developApp w b create))"
    by (rule leads_then [OF adds_upget])
  with Inr show ?thesis by (simp add: activateApp_def del: append.simps)
qed (simp add: activateApp_def leads_adds [OF adds_failE])

lemma leads_activateBody: "leads (LookUpApp # milestones) (activateBody w)"
proof -
  have "leads milestones (if autocreateClash a dev then failE (Fails (appAlreadyExists dev))
      else if retry \<and> \<not> IsDevModeOn a then (if IsHybridModeEnabled dev then shutdownHybridMode else returnE ())
      else activateApp w a create)" for a create retry dev
    by (simp add: leads_activateApp leads_adds [OF adds_failE] leads_adds [OF adds_returnE]
        leads_adds [OF adds_shutdownHybridMode] del: append.simps)
  then have "leads milestones (case x of (a, create) \<Rightarrow> andThen (upget us_Dev) (\<lambda>dev. andThen (upget us_isRetry) (\<lambda>retry.
      if autocreateClash a dev then failE (Fails (appAlreadyExists dev))
      else if retry \<and> \<not> IsDevModeOn a then (if IsHybridModeEnabled dev then shutdownHybridMode else returnE ())
      else activateApp w a create)))" for x :: "app \<times> bool"
    by (cases x) (simp only: prod.case, intro leads_then [OF adds_upget])
  from leads_then [OF adds_provide leads_andThen [OF adds_lookUpApp this]] show ?thesis
    by (simp add: activateBody_def)
qed

lemma leads_activate: "leads (UpdateState ''activating'' # LookUpApp # milestones) (activate w)"
proof -
  have sd: "\<exists>ys. us_Trace (snd (shutdown s)) = us_Trace s @ ys \<and> list_all (\<lambda>c. \<not> isExec c) ys" for s
    using adds_shutdown unfolding adds_def by blast
  have "leads (LookUpApp # milestones) (\<lambda>s. case activateBody w s of
            (Inl Blocks, s') \<Rightarrow> (Inl Blocks, s')
          | (Inl UpPanics, s') \<Rightarrow> (Inl UpPanics, s')
          | (r, s') \<Rightarrow>
              if us_interruptReceived s' then (r, s')
              else (case shutdown s' of (Inl stop, s'') \<Rightarrow> (Inl stop, s'') | (Inr _, s'') \<Rightarrow> (r, s'')))" (is "leads _ ?m")
    unfolding leads_def
  proof
    fix s
    obtain r s' where b: "activateBody w s = (r, s')" by (cases "activateBody w s")
    obtain ys where ys: "us_Trace s' = us_Trace s @ ys" "list_all (\<lambda>c. \<not> isExec c) ys
        \<or> (\<exists>us cmd vs. ys = us @ ExecCommand cmd # vs \<and> subseq (LookUpApp # milestones) us)"
      using leads_activateBody [of w] b unfolding leads_def by (metis snd_conv)
    have "snd (?m s) \<in> {s', snd (shutdown s')}"
      using b by (auto split: sum.split upStop.split prod.split)
    then obtain zs where zs: "us_Trace (snd (?m s)) = us_Trace s' @ zs" "list_all (\<lambda>c. \<not> isExec c) zs"
      using sd [of s'] by fastforce
    have "list_all (\<lambda>c. \<not> isExec c) (ys @ zs)
        \<or> (\<exists>us cmd vs. ys @ zs = us @ ExecCommand cmd # vs \<and> subseq (LookUpApp # milestones) us)"
    proof (cases "list_all (\<lambda>c. \<not> isExec c) ys")
      case False
      then obtain us cmd vs where "ys = us @ ExecCommand cmd # vs" "subseq (LookUpApp # milestones) us"
        using ys(2) by blast
      then have "ys @ zs = us @ ExecCommand cmd # (vs @ zs)" "subseq (LookUpApp # milestones) us" by simp_all
      then show ?thesis by blast
    qed (use zs in simp)
    then show "\<exists>xs. us_Trace (snd (?m s)) = us_Trace s @ xs \<and> (list_all (\<lambda>c. \<not> isExec c) xs
        \<or> (\<exists>us cmd vs. xs = us @ ExecCommand cmd # vs \<and> subseq (LookUpApp # milestones) us))"
      using zs(1) ys(1) by (intro exI [of _ "ys @ zs"]) simp
  qed
  then have "leads (LookUpApp # milestones) (upseq (upput freshActivation) ?m)"
    by (rule leads_then [OF adds_upput, rotated]) (simp add: freshActivation_def)
  from leads_andThen [OF adds_updateState(1) [of "''activating''" w] this] show ?thesis
    by (simp add: activate_def)
qed


section \<open>How a session ends\<close>

lemma afterActivation_error:
  "afterActivation w err s = (Inr (Some e), s') \<Longrightarrow>
     err = Some e \<and> e \<noteq> ErrLostSyncthing \<and> \<not> isTransient (us_success s') (Some e)"
  by (auto simp: afterActivation_def Let_def split: option.splits if_splits)

lemma afterActivation_exit:
  "apfst (map_sum id Exits) (afterActivation w err s) = (Inr (Exits (Some e)), s') \<Longrightarrow>
     e \<noteq> ErrLostSyncthing \<and> \<not> isTransient (us_success s') (Some e)"
  using afterActivation_error [of w err s e s']
  by (cases "afterActivation w err s"; cases "fst (afterActivation w err s)") auto

lemma beforeRetry_exit: "beforeRetry w s = (Some (Exits (Some e)), s') \<Longrightarrow> e = anotherUpCommand"
  by (auto simp: beforeRetry_def split: prod.splits sum.splits if_splits)

lemma loopTurn_exit:
  assumes "loopTurn w transient s = (Inr (Exits (Some e)), s')"
  shows "e = anotherUpCommand \<or> e \<noteq> ErrLostSyncthing \<and> \<not> isTransient (us_success s') (Some e)"
  using assms beforeRetry_exit afterActivation_exit
  unfolding loopTurn_def by (fastforce split: prod.splits option.splits sum.splits upStop.splits if_splits)

lemma loopTurns_exit:
  "loopTurns n w transient s = (Exits (Some e), s') \<Longrightarrow>
     us_Trace s' \<noteq> [] \<and> last (us_Trace s') = DeleteState
     \<and> (e = anotherUpCommand \<or> e \<noteq> ErrLostSyncthing \<and> \<not> isTransient (us_success s') (Some e))"
proof (induction n w transient s rule: loopTurns.induct)
  case (2 n w transient s)
  obtain r t where r: "loopTurn w transient s = (r, t)" by (cases "loopTurn w transient s")
  show ?case
  proof (cases r)
    case (Inl b)
    with 2 r show ?thesis by simp
  next
    case (Inr stop)
    with 2(2) r have "stop = Exits (Some e)" "s' = record_call DeleteState t"
      by (auto split: loopEnd.splits)
    with loopTurn_exit [of w transient s e t] r Inr show ?thesis by (simp add: record_call_def)
  qed
qed simp

text \<open>C29. A session ends with an error only when it cannot reconnect: its state file is deleted, and the error is that
  of another \<^verbatim>\<open>okteto up\<close> or one that is neither a lost connection nor transient.\<close>

theorem session_error_is_final:
  assumes "activateLoop n w s = (Exits (Some e), s')"
  shows "last (us_Trace s') = DeleteState
    \<and> (e = anotherUpCommand \<or> e \<noteq> ErrLostSyncthing \<and> \<not> isTransient (us_success s') (Some e))"
  using assms loopTurns_exit by (simp add: activateLoop_def)

text \<open>The wait for the pod ends well only once this pod was seen running.\<close>

lemma watchPod_running:
  "watchPod w a timeout uid sts pw s = (Inr (), s') \<Longrightarrow>
     \<exists>st \<in> set sts. \<exists>deleted. ws_Event st = PodState uid ''Running'' deleted"
proof (induction sts arbitrary: pw s)
  case (Cons st sts)
  have logged: "\<exists>st \<in> set sts. \<exists>deleted. ws_Event st = PodState uid ''Running'' deleted"
    if "upseq (logEvent reason) (watchPod w a timeout uid sts pw') s = (Inr (), s')" for reason pw'
    using that Cons.IH by (auto simp: andThen_def logEvent_def upput_def)
  show ?case
    using Cons.prems Cons.IH logged
    by (cases "ws_Event st") (auto simp: failE_def returnE_def split: option.splits if_splits sum.splits)
qed (simp add: failE_def)

lemma us_Pod_record_calls [simp]: "us_Pod (fold record_call cs s) = us_Pod s"
  by (induction cs arbitrary: s) (simp_all add: record_call_def)

lemma watchPod_pod: "us_Pod (snd (watchPod w a timeout uid sts pw s)) = us_Pod s"
proof (induction sts arbitrary: pw s)
  case (Cons st sts)
  then show ?case
    by (cases "ws_Event st")
      (simp_all add: failE_def returnE_def andThen_def logEvent_def upput_def split: option.split sum.split)
qed (simp add: failE_def)

lemma waitRunning_saw:
  assumes "waitUntilDevelopmentContainerIsRunning w a s = (Inr (), s')"
  shows "\<exists>p tr deleted. us_Pod s' = Some p
    \<and> (\<exists>st \<in> set (uw_WatchSteps w tr). ws_Event st = PodState (po_UID p) ''Running'' deleted)"
proof -
  obtain t where t: "(case us_Pod t of None \<Rightarrow> failE UpPanics
      | Some p \<Rightarrow> andThen (now (uw_WatchSteps w)) (\<lambda>steps. watchPod w a (to_Resources (dv_Timeout (us_Dev s))) (po_UID p) steps
                    \<lparr>pw_Killing = False, pw_Failed = None, pw_To = 0\<rparr>)) t = (Inr (), s')"
    using assms unfolding waitUntilDevelopmentContainerIsRunning_def
    by (fastforce dest!: andThen_Inr [THEN iffD1] simp: upget_def)
  then obtain p where p: "us_Pod t = Some p"
    by (auto simp: failE_def split: option.splits)
  with t have run: "watchPod w a (to_Resources (dv_Timeout (us_Dev s))) (po_UID p) (uw_WatchSteps w (us_Trace t))
      \<lparr>pw_Killing = False, pw_Failed = None, pw_To = 0\<rparr> t = (Inr (), s')"
    by (simp add: andThen_def now_def upget_def)
  from watchPod_running [OF run] p watchPod_pod show ?thesis
    by (metis run snd_conv)
qed

text \<open>The development container is ready only after the pod that was found for it, and no other, was seen
  running.\<close>

theorem activation_saw_its_pod:
  assumes "devMode w a create s = (Inr (), s')"
  shows "\<exists>p tr deleted. us_Pod s' = Some p
    \<and> (\<exists>st \<in> set (uw_WatchSteps w tr). ws_Event st = PodState (po_UID p) ''Running'' deleted)"
  proof -
  obtain t where "waitUntilDevelopmentContainerIsRunning w a t = (Inr (), s')"
    using assms unfolding devMode_def andThen_Inr by blast
  then show ?thesis by (rule waitRunning_saw)
qed

section \<open>Ways a session stops for ever\<close>

text \<open>Syncthing that cannot be created is logged by its goroutine; the activation waits for its answer.\<close>

lemma syncthing_error_blocks:
  assumes "uw_NewSyncthing w (us_Trace s) = Inl e" and "us_hardTerminate s = None"
  shows "fst (upseq (initializeSyncthing w) receiveHardTerminate s) = Inl Blocks"
  using assms by (simp add: andThen_def initializeSyncthing_def receiveHardTerminate_def record_call_def)

text \<open>Without a client the cleaning sends nothing, and the command is never run.\<close>

lemma clean_without_client_blocks:
  assumes "\<And>tr. uw_Err w tr ProvideClient = Some e" and "us_cleaned s = None" and "\<And>tr. uw_Exit w tr = Some CommandDone"
  shows "fst (upseq (cleanCommand w) (andThen (commandRoutine w) (afterCommand w)) s) = Inl Blocks"
  using assms by (simp add: cleanCommand_def catchE_def provide_def upcall_def andThen_def returnE_def
      commandRoutine_def upget_def afterCommand_def waitUntilExitOrInterruptOrApply_def exitError_def record_call_def)

text \<open>A state file that cannot be written, and a token that cannot be updated: the loop waits for a shutdown
  that never began.\<close>

lemma state_file_failure_blocks:
  assumes "\<And>tr. uw_Err w tr (UpdateState ''activating'') = Some e" "uw_IsOkteto w"
    "\<And>tr. uw_Err w tr UpdateToken = Some e'" "\<not> us_isRetry s" "us_ShutdownCompleted s = None"
  shows "fst (activateLoop 2 w s) = LoopBlocks"
  using assms by (simp add: activateLoop_def numeral_2_eq_2 loopTurn_def activate_def andThen_def updateState_def
      upcall_def afterActivation_def beforeRetry_def receiveShutdown_def record_call_def)

text \<open>The error of a failed command is wrapped, so that the retry on a lost connection is never taken for it.\<close>

lemma failed_command_not_retried:
  assumes "uw_Exit w (us_Trace s) = Some CommandDone" and "\<not> isTransient (us_success s) (Some e)" and "e \<noteq> ErrLostSyncthing" and "e \<noteq> ErrApplyToApp"
  shows "fst (afterCommand w (Some (Some e)) s) = Inl (Fails (CommandError ErrCommandFailed e))"
  using assms by (simp add: afterCommand_def andThen_def waitUntilExitOrInterruptOrApply_def exitError_def upget_def
      shouldRetry_def failE_def)

text \<open>A signal before the first activation waits on a channel that does not exist; so does one while the session
  already shuts down.\<close>

lemma interrupt_blocks:
  "us_ShutdownCompleted s \<noteq> Some False \<Longrightarrow> fst (interrupted s) = Inl Blocks"
proof -
  assume "us_ShutdownCompleted s \<noteq> Some False"
  moreover have "us_ShutdownCompleted (fold record_call cs t) = us_ShutdownCompleted t" for cs t
    by (induction cs arbitrary: t) (simp_all add: record_call_def)
  ultimately show ?thesis
    by (simp add: interrupted_def andThen_def upput_def shutdown_def sendShutdown_def)
qed

text \<open>A pod that runs and is being deleted is accepted.\<close>

lemma deleted_pod_accepted:
  "ws_Event st = PodState uid ''Running'' True \<Longrightarrow> schedulingGivenUp (ws_Top st) pw = None \<Longrightarrow>
     watchPod w a timeout uid (st # sts) pw s = (Inr (), s)"
  by (simp add: returnE_def)

text \<open>With a volume and no security context the check of the user ends the program.\<close>

lemma user_check_panics:
  "PersistentVolumeEnabled dev \<Longrightarrow> userID \<noteq> - 1 \<Longrightarrow> dv_SecurityContext dev = None \<Longrightarrow>
     checkUser w userID dev = Some UpPanics"
  by (simp add: checkUser_def)

text \<open>The mounts of a container that does not exist are looked at before its existence is checked.\<close>

lemma missing_container_panics:
  assumes "RestoreOriginal (uw_AppWorld w) a = Inr b" and "PersistentVolumeEnabled (us_Dev s)"
    and "dv_PersistentVolumeInfo (us_Dev s) \<noteq> None" and "GetDevContainer (PodSpec b) (dv_Container (us_Dev s)) = Inr None"
  shows "fst (activateApp w a create s) = Inl UpPanics"
  using assms by (auto simp: activateApp_def andThen_def upget_def ValidateMountPaths_def PersistentVolumeEnabled_def
      appStop_def failE_def split: option.splits)

section \<open>Examples\<close>

text \<open>A pod that is created, pulls its image and runs.\<close>

definition exampleUpPod :: pod where
  "exampleUpPod = \<lparr>po_Name = ''api-okteto-1'', po_UID = ''pod'', po_Labels = [], po_Owners = [''rs''], po_Phase = ''Pending'',
     po_Reason = [], po_Deleted = False, po_Conditions = [], po_Claims = []\<rparr>"

definition examplePodLists :: podLists where
  "examplePodLists =
     \<lparr>pl_ReplicaSets = Inr [\<lparr>rs_UID = ''rs'', rs_Owners = [''uid''], rs_Annotations = [(DeploymentRevisionAnnotation, [])]\<rparr>],
      pl_Pods = Inr [exampleUpPod], pl_UpdateRevision = []\<rparr>"

definition exampleTry :: podTry where
  "exampleTry = \<lparr>py_Refresh = Inr exampleApp, py_Conditions = [], py_Lists = examplePodLists, py_Late = True,
     py_Cancelled = None\<rparr>"

text \<open>A world in which every call succeeds and the command ends.\<close>

definition exampleUpWorld :: upWorld where
  "exampleUpWorld =
     \<lparr>uw_Dev = exampleDevWorld, uw_AppWorld = exampleAppWorld, uw_Namespace = ''ns'', uw_ManifestName = ''shop'',
      uw_ManifestPath = [], uw_ManifestPathFlag = [], uw_Username = ''cindy'', uw_ShowQuantity = (\<lambda>q. []), uw_TenGi = 10000,
      uw_IsOkteto = True, uw_Pid = ''42'',
      uw_Err = (\<lambda>tr c. None),
      uw_Clients = (\<lambda>tr n. \<lparr>ac_DeploymentByDev = (\<lambda>dev. case exampleApp of DeploymentApp d _ \<Rightarrow> Found d | _ \<Rightarrow> LookupNotFound),
                            ac_StatefulSetByDev = (\<lambda>dev. LookupNotFound)\<rparr>),
      uw_DevClone = (\<lambda>tr a. Inr a), uw_Deployed = (\<lambda>tr a. a), uw_SleepEvents = (\<lambda>tr. [SleepTimeout]),
      uw_NewSyncthing = (\<lambda>tr. Inr (22001, 22002)), uw_Claim = (\<lambda>tr. Inl (ErrText ''not found'')),
      uw_ClaimWrite = (\<lambda>tr k. None), uw_UUID = (\<lambda>tr. ''u''), uw_PodTries = (\<lambda>tr. replicate 12 exampleTry),
      uw_WatchSteps = (\<lambda>tr. [\<lparr>ws_Top = 0, ws_Now = 0, ws_Event = PodEvent ''pod'' ''Pulling'' ''Normal'' ''api''\<rparr>,
                             \<lparr>ws_Top = 1, ws_Now = 1, ws_Event = PodState ''pod'' ''Running'' False\<rparr>,
                             \<lparr>ws_Top = 2, ws_Now = 2, ws_Event = WatchCancelled (ErrText ''cancelled'')\<rparr>]),
      uw_Forwards = (\<lambda>tr. freeWorld), uw_ForwardEvents = (\<lambda>tr. [Tick freeWorld, ForwardTimeout]), uw_SSHEntry = (\<lambda>tr. True),
      uw_TimeoutText = ''1m'', uw_PodLists = (\<lambda>tr. examplePodLists), uw_PodLogs = (\<lambda>tr. None), uw_CleanOutput = (\<lambda>tr. []),
      uw_Ping = (\<lambda>tr. True), uw_Exit = (\<lambda>tr. Some CommandDone), uw_ReadPid = (\<lambda>tr. ''42'')\<rparr>"

definition exampleUpState :: upState where
  "exampleUpState =
     \<lparr>us_Dev = exampleDev, us_GlobalForward = [], us_Translations = [], us_Pod = None, us_Sy = None, us_Forwarder = None,
      us_GlobalForwarderStatus = False, us_ShutdownCompleted = None, us_hardTerminate = None, us_cleaned = None,
      us_Cancel = False, us_isRetry = False, us_success = False, us_resetSyncthing = False, us_isTerm = False,
      us_interruptReceived = False, us_hybridCommand = False, us_Trace = []\<rparr>"



text \<open>A development container without volume, on an application with one container.\<close>

definition smallDev :: mainDev where
  "smallDev = (NewDev exampleDevWorld)
     \<lparr>dv_Name := ''api'',
      dv_PersistentVolumeInfo := Some \<lparr>pv_Annotations = [], pv_Labels = [], pv_AccessMode = [], pv_Size = [],
        pv_StorageClass = [], pv_VolumeMode = [], pv_Enabled = False\<rparr>,
      dv_Metadata := Some \<lparr>md_Labels = None, md_Annotations = None\<rparr>\<rparr>"

definition smallApp :: app where
  "smallApp = DeploymentApp
     \<lparr>d_Meta = \<lparr>om_Name = ''api'', om_Namespace = ''ns'', om_UID = ''uid'', om_Labels = [], om_Annotations = []\<rparr>,
      d_Replicas = Some 1, d_MatchLabels = [], d_Strategy = [],
      d_Template = \<lparr>pt_Meta = newMeta [] [] [] [],
        pt_Spec = emptyPodSpec\<lparr>ps_Containers := [emptyContainer\<lparr>c_Name := ''api'', c_Image := ''i''\<rparr>]\<rparr>\<rparr>\<rparr> []"

definition smallClient :: appClient where
  "smallClient =
     \<lparr>ac_DeploymentByDev = (\<lambda>dev. case smallApp of DeploymentApp d _ \<Rightarrow> Found d | _ \<Rightarrow> LookupNotFound),
      ac_StatefulSetByDev = (\<lambda>dev. LookupNotFound)\<rparr>"

definition smallWorld :: upWorld where
  "smallWorld = exampleUpWorld
     \<lparr>uw_PodTries := (\<lambda>tr. replicate 12 (exampleTry\<lparr>py_Refresh := Inr smallApp\<rparr>)),
      uw_Clients := (\<lambda>tr n. smallClient),
      uw_Dev := exampleDevWorld\<lparr>de_World := exampleWorld\<lparr>w_Env := [(OktetoExecuteSSHEnvVar, ''false'')]\<rparr>\<rparr>\<rparr>"

definition smallState :: upState where
  "smallState = exampleUpState\<lparr>us_Dev := smallDev\<rparr>"

definition smallReady :: upState where
  "smallReady = (freshActivation smallState)
     \<lparr>us_Dev := smallDev\<lparr>dv_Container := ''api'', dv_Image := ''i''\<rparr>,
      us_Sy := Some \<lparr>sy_Ports = (22001, 22002), sy_ResetDatabase = False, sy_Type = ''sendonly'', sy_IgnoreDelete = True\<rparr>,
      us_hardTerminate := Some None,
      us_Trace := [UpdateState ''activating'', ProvideClient, LookUpApp, InitSyncthing, SaveSyncConfig, HardTerminate,
        ProvideClient]\<rparr>"

definition smallFound :: upState where
  "smallFound = (freshActivation smallState)\<lparr>us_Trace := [UpdateState ''activating'', ProvideClient, LookUpApp]\<rparr>"

definition smallRunning :: "upCall list \<Rightarrow> (string, translation) gomap \<Rightarrow> upState" where
  "smallRunning tr ts =
     smallReady\<lparr>us_Trace := tr, us_hardTerminate := None, us_Pod := Some exampleUpPod, us_Translations := ts\<rparr>"

lemma small_found:
  "andThen (updateState smallWorld ''activating'')
     (\<lambda>_. upseq (upput freshActivation) (upseq (provide smallWorld) (lookUpApp smallWorld))) smallState
   = (Inr (smallApp, False), smallFound)"
  by code_simp

lemma small_tests:
  "autocreateClash smallApp smallDev = False" "RestoreOriginal (uw_AppWorld smallWorld) smallApp = Inr smallApp"
  "ValidateMountPaths (PodSpec smallApp) smallDev = None"
  by code_simp+

lemma small_ready:
  "upseq (initializeSyncthing smallWorld) (upseq (setDevContainer smallApp) (waitUntilAppIsAwaken smallWorld smallApp))
     smallFound = (Inr smallApp, smallReady)"
  by code_simp

lemma small_devMode:
  "case devMode smallWorld smallApp False smallReady of (r, s) \<Rightarrow> r = Inr () \<and> s = smallRunning (us_Trace s) (us_Translations s)"
  by code_simp

lemma small_command: "us_Trace (snd (runActivated smallWorld (smallRunning tr ts))) = tr @
     [ProvideClient, StartForwarder, ProvideClient, CleanCommand, UpdateState ''startingSync'', RunSyncthing,
      PingSyncthing True, PingSyncthing False, ScanFiles True, ScanFiles False, ConnectSyncthing,
      UpdateState ''synchronizing'', CheckSpace, CompleteSync, UpdateSyncConfig, RestartSyncthing,
      UpdateState ''ready'', ProvideClient, ExecCommand []]"
  by code_simp simp

lemma andThen_assoc: "andThen (andThen m f) g s = andThen m (\<lambda>a. andThen (f a) g) s"
  by (simp add: andThen_def split: prod.split sum.split)

lemma andThen_run: "m s = (Inr a, s') \<Longrightarrow> andThen m f s = f a s'"
  by (simp add: andThen_def)

lemma small_develops: "\<exists>tr ts. developApp smallWorld smallApp False smallFound = runActivated smallWorld (smallRunning tr ts)"
proof -
  obtain tr ts where d: "devMode smallWorld smallApp False smallReady = (Inr (), smallRunning tr ts)"
    using small_devMode by (auto split: prod.splits)
  have "developApp smallWorld smallApp False smallFound =
      upseq (catchE (devMode smallWorld smallApp False) devModeError) (runActivated smallWorld) smallReady"
    using small_ready unfolding developApp_def by (auto simp: andThen_def split: prod.splits sum.splits)
  also have "\<dots> = runActivated smallWorld (smallRunning tr ts)"
    by (rule andThen_run) (simp add: catchE_def d)
  finally show ?thesis by blast
qed

lemma small_body: 
  "\<exists>tr ts. activateBody smallWorld (freshActivation (record_call (UpdateState ''activating'') smallState))
      = runActivated smallWorld (smallRunning tr ts)"
proof -
  have f: "us_Dev smallFound = smallDev" "us_isRetry smallFound = False"
    by (simp_all add: smallFound_def smallState_def freshActivation_def exampleUpState_def)
  have "updateState smallWorld ''activating'' smallState = (Inr (), record_call (UpdateState ''activating'') smallState)"
    by (simp add: updateState_def upcall_def smallWorld_def exampleUpWorld_def)
  with small_found have "upseq (provide smallWorld) (lookUpApp smallWorld)
      (freshActivation (record_call (UpdateState ''activating'') smallState)) = (Inr (smallApp, False), smallFound)"
    by (simp add: andThen_def upput_def)
  then have "activateBody smallWorld (freshActivation (record_call (UpdateState ''activating'') smallState))
      = activateApp smallWorld smallApp False smallFound"
    unfolding activateBody_def
    by (subst andThen_assoc [symmetric]) (simp add: andThen_run f small_tests andThen_def upget_def)
  also have "\<dots> = developApp smallWorld smallApp False smallFound"
    by (simp add: activateApp_def small_tests f andThen_def upget_def)
  finally show ?thesis using small_develops by simp
qed

lemma small_activation: "ExecCommand [] \<in> set (us_Trace (snd (activate smallWorld smallState)))"
proof -
  obtain tr ts where b: "activateBody smallWorld (freshActivation (record_call (UpdateState ''activating'') smallState))
      = runActivated smallWorld (smallRunning tr ts)" using small_body by blast
  have st: "updateState smallWorld ''activating'' smallState = (Inr (), record_call (UpdateState ''activating'') smallState)"
    by (simp add: updateState_def upcall_def smallWorld_def exampleUpWorld_def)
  have sd: "set (us_Trace s) \<subseteq> set (us_Trace (snd (shutdown s)))" for s
    using adds_shutdown unfolding adds_def by (metis Un_upper1 set_append)
  have "ExecCommand [] \<in> set (us_Trace (snd (runActivated smallWorld (smallRunning tr ts))))"
    by (simp add: small_command)
  then show ?thesis
    using sd [of "snd (runActivated smallWorld (smallRunning tr ts))"] b
    by (auto simp: activate_def andThen_def st upput_def split: prod.splits sum.splits upStop.splits)
qed



lemma activation_saw_its_pod_witness:
  "\<exists>p tr deleted. us_Pod (snd (devMode smallWorld smallApp False smallReady)) = Some p
    \<and> (\<exists>st \<in> set (uw_WatchSteps smallWorld tr). ws_Event st = PodState (po_UID p) ''Running'' deleted)"
proof -
  have "devMode smallWorld smallApp False smallReady = (Inr (), snd (devMode smallWorld smallApp False smallReady))"
    using small_devMode by (auto split: prod.splits)
  then show ?thesis by (rule activation_saw_its_pod)
qed

text \<open>A world whose disk is full.\<close>

definition fullDiskWorld :: upWorld where
  "fullDiskWorld = exampleUpWorld
     \<lparr>uw_Err := (\<lambda>tr c. if c = UpdateState ''activating'' then Some (ErrText ''disk full'') else None)\<rparr>"

lemma full_disk_exits: "fst (activateLoop 1 fullDiskWorld exampleUpState) = Exits (Some (ErrText ''disk full''))"
proof -
  have "\<not> isTransient False (Some (ErrText ''disk full''))" by code_simp
  then show ?thesis
    by (simp add: activateLoop_def loopTurn_def activate_def andThen_def updateState_def upcall_def afterActivation_def
        fullDiskWorld_def exampleUpWorld_def exampleUpState_def record_call_def)
qed

lemma session_error_is_final_witness:
  "last (us_Trace (snd (activateLoop 1 fullDiskWorld exampleUpState))) = DeleteState
    \<and> (ErrText ''disk full'' = anotherUpCommand
       \<or> ErrText ''disk full'' \<noteq> ErrLostSyncthing
         \<and> \<not> isTransient (us_success (snd (activateLoop 1 fullDiskWorld exampleUpState))) (Some (ErrText ''disk full'')))"
proof (rule session_error_is_final)
  show "activateLoop 1 fullDiskWorld exampleUpState
      = (Exits (Some (ErrText ''disk full'')), snd (activateLoop 1 fullDiskWorld exampleUpState))"
    using full_disk_exits by (metis prod.collapse)
qed

end
