(* ===== verification/BuildSection.thy ===== *)
theory BuildSection
  imports Compose UpErrors
begin

text \<open>
  The build section of a manifest: \<^verbatim>\<open>src/pkg/build/manifest_section.go\<close>, the build arguments and secrets of
  \<^verbatim>\<open>info.go\<close>, \<^verbatim>\<open>args.go\<close> and \<^verbatim>\<open>secret.go\<close>. \<open>env.ExpandEnv\<close> is an argument \<open>expand\<close>, given the environment of
  the process. The completion of a list of images with what they depend on is a total function; it returns
  exactly what the images reach.
\<close>

section \<open>The section\<close>

text \<open>A decoded section may have an image without a definition; a validated one has none.\<close>

type_synonym manifestBuild = "(string, buildInfo) gomap"

definition buildToGraph :: "manifestBuild \<Rightarrow> graph" where
  "buildToGraph b = map (\<lambda>(k, v). (k, bi_DependsOn v)) b"

fun repeatedImages :: "string list \<Rightarrow> buildInfo list \<Rightarrow> string list" where
  "repeatedImages seen [] = []"
| "repeatedImages seen (v # vs) =
     (if bi_Image v = [] then repeatedImages seen vs
      else if bi_Image v \<in> set seen then bi_Image v # repeatedImages (bi_Image v # seen) vs
      else repeatedImages (bi_Image v # seen) vs)"

definition cycleError :: "string list \<Rightarrow> upErr option" where
  "cycleError cycle =
     (case cycle of
        [] \<Rightarrow> None
      | [c] \<Rightarrow> Some (ErrText (''manifest build validation failed: image '' @ quote c @ '' is referenced on its dependencies''))
      | _ \<Rightarrow> Some (ErrText (''manifest validation failed: cyclic dependendecy found between ''
               @ join '', '' (butlast cycle) @ '' and '' @ last cycle)))"

text \<open>The result is the error, or the section without pointers and the images the warning names.\<close>

definition validateBuild :: "(string, buildInfo option) gomap \<Rightarrow> upErr + manifestBuild \<times> string list" where
  "validateBuild b =
     (case List.find (\<lambda>(k, v). v = None) b of
        Some (k, _) \<Rightarrow>
          Inl (ErrText (''manifest validation failed: service '' @ quote k @ '' build section not defined correctly''))
      | None \<Rightarrow>
          let mb = map (\<lambda>(k, v). (k, the v)) b
          in case cycleError (GetDependentCyclic (buildToGraph mb)) of
               Some e \<Rightarrow> Inl e
             | None \<Rightarrow> Inr (mb, repeatedImages [] (map snd mb)))"

definition getListDiff :: "string list \<Rightarrow> string list \<Rightarrow> string list" where
  "getListDiff l1 l2 =
     (if length l1 < length l2 then filter (\<lambda>s. s \<notin> set l1) l2 else filter (\<lambda>s. s \<notin> set l2) l1)"

text \<open>One pass appends what the nodes of the list depend on; its set is that of the list.\<close>

fun addDependencies :: "string list \<Rightarrow> string list \<Rightarrow> string list" where
  "addDependencies acc [] = acc"
| "addDependencies acc (d # ds) = addDependencies (if d \<in> set acc then acc else acc @ [d]) ds"

fun dependenciesPass :: "graph \<Rightarrow> string list \<Rightarrow> string list \<Rightarrow> string list" where
  "dependenciesPass g [] acc = acc"
| "dependenciesPass g (n # ns) acc = dependenciesPass g ns (addDependencies acc (succs g n))"

definition targets :: "graph \<Rightarrow> string set" where
  "targets g = \<Union> (set ` snd ` set g)"

lemma succs_targets: "set (succs g n) \<subseteq> targets g"
proof (cases "gget g n")
  case None
  then show ?thesis by (simp add: succs_def)
next
  case (Some ds)
  then show ?thesis using gget_in_set [OF Some] by (force simp: succs_def targets_def)
qed

lemma finite_targets [simp]: "finite (targets g)"
  by (simp add: targets_def)

lemma addDependencies_append:
  "\<exists>ys. addDependencies acc ds = acc @ ys \<and> set ys = set ds - set acc \<and> distinct ys"
proof (induction acc ds rule: addDependencies.induct)
  case (1 acc)
  show ?case by simp
next
  case (2 acc d ds)
  show ?case
  proof (cases "d \<in> set acc")
    case True
    with 2 show ?thesis by auto
  next
    case False
    with 2 obtain ys where "addDependencies (acc @ [d]) ds = (acc @ [d]) @ ys" "set ys = set ds - set (acc @ [d])" "distinct ys"
      by auto
    with False show ?thesis by (intro exI [of _ "d # ys"]) auto
  qed
qed

lemma dependenciesPass_append:
  "\<exists>ys. dependenciesPass g ns acc = acc @ ys \<and> set ys = edges g `` set ns - set acc \<and> distinct ys"
proof (induction g ns acc rule: dependenciesPass.induct)
  case (1 g acc)
  show ?case by simp
next
  case (2 g n ns acc)
  obtain xs where xs: "addDependencies acc (succs g n) = acc @ xs" "set xs = set (succs g n) - set acc" "distinct xs"
    using addDependencies_append by blast
  from 2 obtain ys where "dependenciesPass g ns (acc @ xs) = (acc @ xs) @ ys"
    "set ys = edges g `` set ns - set (acc @ xs)" "distinct ys"
    unfolding xs(1) by blast
  with xs show ?case by (intro exI [of _ "xs @ ys"]) (auto simp: edges_def)
qed

function getDependentNodes :: "graph \<Rightarrow> string list \<Rightarrow> string list" where
  "getDependentNodes g startingNodes =
     (let all = dependenciesPass g startingNodes startingNodes
      in if length startingNodes \<noteq> length all then getDependentNodes g all else all)"
  by pat_completeness auto

termination
proof (relation "measure (\<lambda>(g, ns). card (targets g - set ns))", goal_cases)
  case (2 g ns all)
  obtain ys where ys: "all = ns @ ys" "set ys = edges g `` set ns - set ns"
    using 2 dependenciesPass_append [of g ns ns] by auto
  with 2 obtain y where "y \<in> set ys" by (cases ys) auto
  moreover have "set ys \<subseteq> targets g" using ys(2) succs_targets [of g] by (auto simp: edges_def)
  ultimately have "targets g - set all \<subset> targets g - set ns" using ys by auto
  then show ?case by (simp add: psubset_card_mono)
qed simp

declare getDependentNodes.simps [simp del]

text \<open>The list to build, and the images the warning names.\<close>

definition GetSvcsToBuildFromList :: "manifestBuild \<Rightarrow> string list \<Rightarrow> string list \<times> string list" where
  "GetSvcsToBuildFromList b toBuild =
     (let all = getDependentNodes (buildToGraph b) toBuild
      in (all, if length toBuild \<noteq> length all then getListDiff toBuild all else []))"

lemma succs_buildToGraph:
  "succs (buildToGraph b) n = (case gget b n of None \<Rightarrow> [] | Some i \<Rightarrow> bi_DependsOn i)"
  by (auto simp: succs_def buildToGraph_def gget_def map_of_map split: option.split)

lemma getDependentNodes_exact:
  "\<exists>ys. getDependentNodes g ns = ns @ ys \<and> distinct ys \<and> set ys = (edges g)\<^sup>* `` set ns - set ns"
proof (induction g ns rule: getDependentNodes.induct)
  case (1 g ns)
  obtain xs where xs: "dependenciesPass g ns ns = ns @ xs" "set xs = edges g `` set ns - set ns" "distinct xs"
    using dependenciesPass_append by blast
  show ?case
  proof (cases "xs = []")
    case True
    with xs have "edges g `` set ns \<subseteq> set ns" by auto
    then have "(edges g)\<^sup>* `` set ns = set ns" by (simp add: Image_closed_trancl)
    with xs True show ?thesis by (simp add: getDependentNodes.simps [of g ns])
  next
    case False
    with 1 xs(1) obtain ys where ys: "getDependentNodes g (ns @ xs) = (ns @ xs) @ ys" "distinct ys"
      "set ys = (edges g)\<^sup>* `` set (ns @ xs) - set (ns @ xs)" by fastforce
    have "(edges g)\<^sup>* `` set (ns @ xs) = (edges g)\<^sup>* `` set ns"
      using xs(2) by (auto intro: converse_rtrancl_into_rtrancl)
    moreover have "set xs \<subseteq> (edges g)\<^sup>* `` set ns" using xs(2) by auto
    ultimately have "set (xs @ ys) = (edges g)\<^sup>* `` set ns - set ns" "distinct (xs @ ys)"
      using xs ys by auto
    with ys(1) xs(1) False show ?thesis
      by (intro exI [of _ "xs @ ys"]) (simp add: getDependentNodes.simps [of g ns])
  qed
qed

text \<open>C39. Completing the images to build ends for every section, also for one with cycles or with unknown names: the
  result is the given list followed by every other image that is reached from it over \<open>depends_on\<close>, each once.\<close>

theorem build_list_completed:
  "\<exists>ys. fst (GetSvcsToBuildFromList b toBuild) = toBuild @ ys \<and> distinct ys
     \<and> set ys = (edges (buildToGraph b))\<^sup>* `` set toBuild - set toBuild"
  using getDependentNodes_exact by (simp add: GetSvcsToBuildFromList_def Let_def)

section \<open>Arguments and secrets\<close>

definition argString :: "(string \<Rightarrow> upErr + string) \<Rightarrow> var \<Rightarrow> string" where
  "argString expand a =
     (case expand (va_Value a) of
        Inl _ \<Rightarrow> va_Name a @ ''='' @ va_Value a
      | Inr v \<Rightarrow> va_Name a @ ''='' @ v)"

definition SerializeArgs :: "(string \<Rightarrow> upErr + string) \<Rightarrow> var list \<Rightarrow> string list" where
  "SerializeArgs expand buildArgs = sort (map (argString expand) buildArgs)"

definition secretString :: "buildSecret \<Rightarrow> string" where
  "secretString s = (if bse_Env s \<noteq> [] then ''env:'' @ bse_Env s else ''file:'' @ bse_File s)"

definition normalizeServiceName :: "string \<Rightarrow> string" where
  "normalizeServiceName serviceName = toLower (replaceAll serviceName ''_'' ''-'')"

definition isServiceInDependencies :: "buildInfo \<Rightarrow> string \<Rightarrow> bool" where
  "isServiceInDependencies i serviceName \<longleftrightarrow> normalizeServiceName serviceName \<in> set (bi_DependsOn i)"

text \<open>\<open>^OKTETO_BUILD_(.+)_(REGISTRY|REPOSITORY|IMAGE|TAG|SHA)$\<close>, the first group.\<close>

definition buildEnvService :: "string \<Rightarrow> string option" where
  "buildEnvService k =
     (if \<not> hasPrefix k ''OKTETO_BUILD_'' then None
      else let rest = drop 13 k
           in case List.find (\<lambda>t. hasSuffix rest (CHR ''_'' # t)) [''REGISTRY'', ''REPOSITORY'', ''IMAGE'', ''TAG'', ''SHA''] of
                None \<Rightarrow> None
              | Some t \<Rightarrow>
                  let name = trimSuffix rest (CHR ''_'' # t)
                  in if name = [] \<or> CHR 0x0A \<in> set name then None else Some name)"

definition hiddenArg :: "buildInfo \<Rightarrow> string \<Rightarrow> bool" where
  "hiddenArg i k \<longleftrightarrow>
     (case buildEnvService k of None \<Rightarrow> False | Some serviceName \<Rightarrow> \<not> isServiceInDependencies i serviceName)"

text \<open>The names that were there before are not replaced; those of the map are distinct.\<close>

fun addPreviousArgs :: "(string \<Rightarrow> upErr + string) \<Rightarrow> string list \<Rightarrow> smap \<Rightarrow> buildInfo \<Rightarrow> upErr + buildInfo" where
  "addPreviousArgs expand already [] i = Inr i"
| "addPreviousArgs expand already ((k, v) # rest) i =
     (if k \<in> set already \<or> hiddenArg i k then addPreviousArgs expand already rest i
      else case expand v of
             Inl e \<Rightarrow> Inl e
           | Inr v \<Rightarrow>
               addPreviousArgs expand already rest (i\<lparr>bi_Args := bi_Args i @ [\<lparr>va_Name = k, va_Value = v\<rparr>]\<rparr>))"

definition addExpandedPreviousImageArgs :: "(string \<Rightarrow> upErr + string) \<Rightarrow> smap \<Rightarrow> buildInfo \<Rightarrow> upErr + buildInfo" where
  "addExpandedPreviousImageArgs expand previous i = addPreviousArgs expand (map va_Name (bi_Args i)) previous i"

fun expandArgs :: "(string \<Rightarrow> upErr + string) \<Rightarrow> smap \<Rightarrow> var list \<Rightarrow> upErr + var list" where
  "expandArgs expand previous [] = Inr []"
| "expandArgs expand previous (a # as) =
     (case expand (case gget previous (va_Name a) of None \<Rightarrow> va_Value a | Some v \<Rightarrow> v) of
        Inl e \<Rightarrow> Inl e
      | Inr v \<Rightarrow>
          (case expandArgs expand previous as of
             Inl e \<Rightarrow> Inl e
           | Inr as' \<Rightarrow> Inr (a\<lparr>va_Value := v\<rparr> # as')))"

definition expandManifestBuildArgs :: "(string \<Rightarrow> upErr + string) \<Rightarrow> smap \<Rightarrow> buildInfo \<Rightarrow> upErr + buildInfo" where
  "expandManifestBuildArgs expand previous i =
     (case expandArgs expand previous (bi_Args i) of Inl e \<Rightarrow> Inl e | Inr as \<Rightarrow> Inr (i\<lparr>bi_Args := as\<rparr>))"

text \<open>\<open>home\<close> is \<open>os.UserHomeDir\<close>.\<close>

fun expandSecretFiles :: "upErr + string \<Rightarrow> (string \<Rightarrow> upErr + string) \<Rightarrow> (string, buildSecret) gomap
    \<Rightarrow> upErr + (string, buildSecret) gomap" where
  "expandSecretFiles home expand [] = Inr []"
| "expandSecretFiles home expand ((k, s) # rest) =
     (let add = (\<lambda>s. case expandSecretFiles home expand rest of Inl e \<Rightarrow> Inl e | Inr r \<Rightarrow> Inr ((k, s) # r));
          put = (\<lambda>val. case expand val of Inl e \<Rightarrow> Inl e | Inr v \<Rightarrow> add (s\<lparr>bse_File := v\<rparr>))
      in if bse_File s = [] then add s
         else if hasPrefix (bse_File s) ''~/'' then
           (case home of Inl e \<Rightarrow> Inl e | Inr h \<Rightarrow> put (joinPaths [h, drop 2 (bse_File s)]))
         else put (bse_File s))"

definition expandSecrets :: "upErr + string \<Rightarrow> (string \<Rightarrow> upErr + string) \<Rightarrow> buildInfo \<Rightarrow> upErr + buildInfo" where
  "expandSecrets home expand i =
     (case expandSecretFiles home expand (bi_Secrets i) of Inl e \<Rightarrow> Inl e | Inr s \<Rightarrow> Inr (i\<lparr>bi_Secrets := s\<rparr>))"

definition AddArgs :: "upErr + string \<Rightarrow> (string \<Rightarrow> upErr + string) \<Rightarrow> smap \<Rightarrow> buildInfo \<Rightarrow> upErr + buildInfo" where
  "AddArgs home expand previous i =
     (case expandManifestBuildArgs expand previous i of
        Inl e \<Rightarrow> Inl e
      | Inr i \<Rightarrow>
          (case expandSecrets home expand i of
             Inl e \<Rightarrow> Inl e
           | Inr i \<Rightarrow> addExpandedPreviousImageArgs expand previous i))"

section \<open>Which variables of earlier builds an image sees\<close>

text \<open>
  The name in the variable is normalised, the names of \<open>depends_on\<close> are not: an image that is not written in
  lower case, or has an underscore, is never seen as a dependency.
\<close>

lemma underscore_dependency_hidden:
  "hiddenArg (emptyBuildInfo\<lparr>bi_DependsOn := [''my_api'']\<rparr>) ''OKTETO_BUILD_MY_API_IMAGE''"
  by (simp add: hiddenArg_def buildEnvService_def isServiceInDependencies_def normalizeServiceName_def hasPrefix_def
      hasSuffix_def trimSuffix_def replaceAll_def replaceEach.simps toLower_def lowerChar_def suffix_def)


text \<open>The name of a variable that is set for an image, of one of the five kinds.\<close>

definition buildEnvName :: "string \<Rightarrow> string" where
  "buildEnvName service = toUpper (replaceAll service ''-'' ''_'')"

definition buildEnvKey :: "string \<Rightarrow> string \<Rightarrow> string" where
  "buildEnvKey service kind = ''OKTETO_BUILD_'' @ buildEnvName service @ ''_'' @ kind"

definition buildEnvKinds :: "string list" where
  "buildEnvKinds = [''REGISTRY'', ''REPOSITORY'', ''IMAGE'', ''TAG'', ''SHA'']"

definition plainChar :: "char \<Rightarrow> bool" where
  "plainChar c \<longleftrightarrow> c \<noteq> CHR ''_'' \<and> c \<noteq> CHR 0x0A \<and> \<not> (CHR ''A'' \<le> c \<and> c \<le> CHR ''Z'')"

lemma replaceEach_char: "replaceEach [a] [b] s = map (\<lambda>c. if c = a then b else c) s"
proof (induction s)
  case (Cons c s)
  then show ?case by (auto simp: replaceEach.simps [of "[a]" "[b]" "c # s"])
qed (simp add: replaceEach.simps)

lemma replaceAll_char: "replaceAll s [a] [b] = map (\<lambda>c. if c = a then b else c) s"
  by (simp add: replaceAll_def replaceEach_char)

lemma plainChar_round_trip:
  assumes "plainChar c"
  shows "lowerChar (let d = upperChar (if c = CHR ''-'' then CHR ''_'' else c) in if d = CHR ''_'' then CHR ''-'' else d) = c"
    and "upperChar (if c = CHR ''-'' then CHR ''_'' else c) \<noteq> CHR 0x0A"
proof -
  consider (dash) "c = CHR ''-''" | (lower) "c \<noteq> CHR ''-''" "CHR ''a'' \<le> c" "c \<le> CHR ''z''"
    | (other) "c \<noteq> CHR ''-''" "upperChar c = c"
    by (cases "c = CHR ''-''"; cases "CHR ''a'' \<le> c"; cases "c \<le> CHR ''z''") (simp_all add: upperChar_def)
  then have "lowerChar (let d = upperChar (if c = CHR ''-'' then CHR ''_'' else c) in if d = CHR ''_'' then CHR ''-'' else d) = c
      \<and> upperChar (if c = CHR ''-'' then CHR ''_'' else c) \<noteq> CHR 0x0A"
  proof cases
    case dash
    then show ?thesis by (simp add: upperChar_def lowerChar_def)
  next
    case lower
    let ?n = "of_char c :: nat"
    have n: "97 \<le> ?n" "?n \<le> 122" using lower by (simp_all add: less_eq_char_def)
    have d: "upperChar c = char_of (?n - 32)" using lower by (simp add: upperChar_def)
    have od: "(of_char (upperChar c) :: nat) = ?n - 32" unfolding d using n by simp
    have "upperChar c \<noteq> CHR ''_''" "upperChar c \<noteq> CHR 0x0A" using od n by auto
    moreover have "lowerChar (upperChar c) = c"
      unfolding lowerChar_def less_eq_char_def od using n by (auto simp: le_diff_conv)
    ultimately show ?thesis using lower by simp
  next
    case other
    then show ?thesis using assms by (auto simp: plainChar_def lowerChar_def)
  qed
  then show "lowerChar (let d = upperChar (if c = CHR ''-'' then CHR ''_'' else c) in if d = CHR ''_'' then CHR ''-'' else d) = c"
    and "upperChar (if c = CHR ''-'' then CHR ''_'' else c) \<noteq> CHR 0x0A" by simp_all
qed

lemma normalizeServiceName_buildEnvName:
  "list_all plainChar service \<Longrightarrow> normalizeServiceName (buildEnvName service) = service"
  unfolding normalizeServiceName_def buildEnvName_def replaceAll_char toUpper_def toLower_def
  by (induction service) (use plainChar_round_trip(1) in \<open>simp_all add: Let_def\<close>)

lemma buildEnvName_one_line:
  "list_all plainChar service \<Longrightarrow> CHR 0x0A \<notin> set (buildEnvName service)"
  unfolding buildEnvName_def replaceAll_char toUpper_def
  by (induction service) (use plainChar_round_trip(2) in \<open>force simp: eq_commute\<close>)+

lemma suffix_last_part:
  assumes "c \<notin> set t" and "c \<notin> set t'"
  shows "suffix (c # t') (n @ c # t) \<longleftrightarrow> t = t'"
proof
  assume "suffix (c # t') (n @ c # t)"
  then obtain zs where "n @ c # t = zs @ c # t'" by (auto simp: suffix_def)
  then have "rev t @ c # rev n = rev t' @ c # rev zs" by (metis append_Cons append_assoc rev.simps(2) rev_append append_Nil)
  then have "takeWhile (\<lambda>x. x \<noteq> c) (rev t @ c # rev n) = takeWhile (\<lambda>x. x \<noteq> c) (rev t' @ c # rev zs)" by simp
  moreover have "takeWhile (\<lambda>x. x \<noteq> c) (rev u @ c # v) = rev u" if "c \<notin> set u" for u v
    using that by (subst takeWhile_append2) auto
  ultimately show "t = t'" using assms by simp
qed (simp add: suffix_def)

lemma buildEnvService_key:
  assumes "kind \<in> set buildEnvKinds" and "buildEnvName service \<noteq> []" and "CHR 0x0A \<notin> set (buildEnvName service)"
  shows "buildEnvService (buildEnvKey service kind) = Some (buildEnvName service)"
  using assms
  by (auto simp: buildEnvService_def buildEnvKey_def buildEnvKinds_def hasPrefix_def hasSuffix_def trimSuffix_def suffix_last_part)

definition emptyBuildInfo :: buildInfo where
  "emptyBuildInfo = \<lparr>bi_Secrets = [], bi_Context = [], bi_Dockerfile = [], bi_Target = [], bi_Image = [], bi_CacheFrom = [],
     bi_Args = [], bi_VolumesToInclude = [], bi_ExportCache = [], bi_DependsOn = []\<rparr>"



end
