(* ===== verification/Images.thy ===== *)
theory Images
  imports UpErrors Sha256 Names
begin

text \<open>
  Images and registries: \<^verbatim>\<open>src/pkg/registry/image.go\<close>, \<^verbatim>\<open>replacer.go\<close>, \<^verbatim>\<open>registry.go\<close>, of \<^verbatim>\<open>client.go\<close> how it
  reads the registry's errors, and the lines of a Dockerfile that \<^verbatim>\<open>src/pkg/cmd/build/translator.go\<close> edits.
  The regular expressions of the code are written out as functions on byte strings. The registry itself,
  and \<open>name.ParseReference\<close>, are arguments.
\<close>

section \<open>Constants and configuration\<close>

definition DevRegistry :: string where [go_consts]: "DevRegistry = ''okteto.dev''"
definition GlobalRegistry :: string where [go_consts]: "GlobalRegistry = ''okteto.global''"
definition DefaultGlobalNamespace :: string where [go_consts]: "DefaultGlobalNamespace = ''okteto''"
definition OktetoDefaultImageTag :: string where [go_consts]: "OktetoDefaultImageTag = ''okteto''"
definition globalTestImage :: string where [go_consts]: "globalTestImage = ''okteto.global/test''"

record registryConfig =
  ig_IsOktetoCluster :: bool
  ig_GlobalNamespace :: string
  ig_Namespace :: string
  ig_RegistryURL :: string

section \<open>The short names of the registries\<close>

text \<open>A pattern in which a dot stands for any character but a new line, at the start of a text.\<close>

fun dotMatches :: "string \<Rightarrow> string \<Rightarrow> bool" where
  "dotMatches [] s = True"
| "dotMatches (p # ps) [] = False"
| "dotMatches (p # ps) (c # cs) = ((if p = CHR ''.'' then c \<noteq> CHR 0x0A else c = p) \<and> dotMatches ps cs)"

definition regSpace :: "char \<Rightarrow> bool" where
  "regSpace c \<longleftrightarrow> c \<in> {CHR '' '', CHR 0x09, CHR 0x0A, CHR 0x0C, CHR 0x0D}"

fun afterSpace :: "string \<Rightarrow> string \<Rightarrow> bool" where
  "afterSpace p [] = False"
| "afterSpace p (c # cs) = (regSpace c \<and> dotMatches p cs \<or> afterSpace p cs)"

definition registryMatches :: "string \<Rightarrow> string \<Rightarrow> bool" where
  "registryMatches registryType img \<longleftrightarrow> dotMatches registryType img \<or> afterSpace registryType img"

text \<open>The match decides whether something is replaced; what is replaced is the first occurrence.\<close>

definition registryReplace :: "string \<Rightarrow> string \<Rightarrow> string \<Rightarrow> string \<Rightarrow> string" where
  "registryReplace url img registryType namespace =
     (if registryMatches registryType img then replaceFirst img registryType (url @ ''/'' @ namespace) else img)"

definition overTags :: "(string \<Rightarrow> string) \<Rightarrow> string \<Rightarrow> string" where
  "overTags f tag = trimSuffix (concat (map (\<lambda>t. f t @ '','') (split (CHR '','') tag))) '',''"

definition globalNamespace :: "registryConfig \<Rightarrow> string" where
  "globalNamespace ig = (if ig_GlobalNamespace ig \<noteq> [] then ig_GlobalNamespace ig else DefaultGlobalNamespace)"

definition ExpandOktetoGlobalRegistry :: "registryConfig \<Rightarrow> string \<Rightarrow> string" where
  "ExpandOktetoGlobalRegistry ig tag =
     overTags (\<lambda>t. registryReplace (ig_RegistryURL ig) t GlobalRegistry (globalNamespace ig)) tag"

definition ExpandOktetoDevRegistry :: "registryConfig \<Rightarrow> string \<Rightarrow> string" where
  "ExpandOktetoDevRegistry ig tag =
     overTags (\<lambda>t. registryReplace (ig_RegistryURL ig) t DevRegistry (ig_Namespace ig)) tag"

definition expandImageRegistries :: "registryConfig \<Rightarrow> string \<Rightarrow> string" where
  "expandImageRegistries ig img =
     (if ig_IsOktetoCluster ig then ExpandOktetoGlobalRegistry ig (ExpandOktetoDevRegistry ig img) else img)"

section \<open>The parts of an img\<close>

definition GetRegistryAndRepo :: "string \<Rightarrow> string \<times> string" where
  "GetRegistryAndRepo tag =
     (case split (CHR ''/'') tag of
        [] \<Rightarrow> (''docker.io'', [])
      | [a] \<Rightarrow> (''docker.io'', a)
      | [a, b] \<Rightarrow> if CHR ''.'' \<in> set a then (a, b) else (''docker.io'', a @ ''/'' @ b)
      | parts \<Rightarrow> (join ''/'' (take (length parts - 2) parts), join ''/'' (drop (length parts - 2) parts)))"

definition domainOf :: "string \<Rightarrow> string \<times> string" where
  "domainOf img =
     (case index img (CHR ''/'') of
        None \<Rightarrow> ([], img)
      | Some i \<Rightarrow>
          let host = take i img
          in if CHR ''.'' \<notin> set host \<and> CHR '':'' \<notin> set host \<and> host \<noteq> ''localhost'' then ([], img)
             else (host, drop (Suc i) img))"

definition GetRepoNameAndTag :: "string \<Rightarrow> string \<times> string" where
  "GetRepoNameAndTag img =
     (case index img (CHR ''@'') of
        Some i \<Rightarrow> (take i img, drop (Suc i) img)
      | None \<Rightarrow>
          (case domainOf img of (domain, remainder) \<Rightarrow>
             (case lastIndex remainder (CHR '':'') of
                None \<Rightarrow> (img, ''latest'')
              | Some i \<Rightarrow>
                  if domain = [] then (take i remainder, drop (Suc i) remainder)
                  else (domain @ ''/'' @ take i remainder, drop (Suc i) remainder))))"

text \<open>A port without a protocol is left out, and so is one that is no number of 32 bits.\<close>

definition exposedPort :: "string \<Rightarrow> int option" where
  "exposedPort p =
     (case index p (CHR ''/'') of
        None \<Rightarrow> None
      | Some i \<Rightarrow> parseInt 32 (take i p))"

definition getExposedPortsFromCfg :: "string list \<Rightarrow> int list" where
  "getExposedPortsFromCfg ports = List.map_filter exposedPort ports"

section \<open>The registry\<close>

text \<open>An error of the transport has codes; the text of every error is known.\<close>

datatype remoteErr = TransportError "string list" string | OtherRemote string

fun remoteText :: "remoteErr \<Rightarrow> string" where
  "remoteText (TransportError codes s) = s"
| "remoteText (OtherRemote s) = s"

definition hasCode :: "string \<Rightarrow> remoteErr \<Rightarrow> bool" where
  "hasCode code e \<longleftrightarrow> (case e of TransportError codes _ \<Rightarrow> code \<in> set codes | OtherRemote _ \<Rightarrow> False)"

definition malformedDigest :: "string \<Rightarrow> upErr" where
  "malformedDigest img =
     UserError (ErrText ''malformed image digest'')
       (''Image '' @ [CHR 0x22] @ img @ [CHR 0x22] @ '' seems malformed. Please run ''
        @ quote ''okteto build --no-cache'' @ '' to rebuild your image'')"

text \<open>\<open>parse\<close> is \<open>name.ParseReference\<close>: registry, repository and identifier.\<close>

type_synonym imageParser = "string \<Rightarrow> upErr + string \<times> string \<times> string"

definition GetDescriptor :: "imageParser \<Rightarrow> (string \<Rightarrow> remoteErr + 'd) \<Rightarrow> string \<Rightarrow> upErr + 'd" where
  "GetDescriptor parse remote img =
     (case parse img of
        Inl e \<Rightarrow> Inl e
      | Inr _ \<Rightarrow>
          (case remote img of
             Inr d \<Rightarrow> Inr d
           | Inl e \<Rightarrow>
               Inl (if hasCode ''MANIFEST_UNKNOWN_FOR_BEING_INVALID'' e then malformedDigest img
                    else if hasCode ''MANIFEST_UNKNOWN'' e then WrapErr ''error getting image descriptor: '' ErrNotFound
                    else WrapErr ''error getting image descriptor: '' (ErrText (remoteText e)))))"

definition GetDigest :: "imageParser \<Rightarrow> (string \<Rightarrow> remoteErr + string) \<Rightarrow> string \<Rightarrow> upErr + string" where
  "GetDigest parse remote img =
     (case GetDescriptor parse remote img of
        Inl e \<Rightarrow> Inl (WrapErr ''error getting image digest: '' e)
      | Inr d \<Rightarrow> Inr d)"

text \<open>\<open>digest\<close> is the client's \<open>GetDigest\<close>.\<close>

definition GetImageTagWithDigest :: "registryConfig \<Rightarrow> (string \<Rightarrow> upErr + string) \<Rightarrow> string \<Rightarrow> upErr + string" where
  "GetImageTagWithDigest ig digest img =
     (let expanded = expandImageRegistries ig img;
          (registry, repositoryWithTag) = GetRegistryAndRepo expanded;
          (repository, _) = GetRepoNameAndTag repositoryWithTag
      in case digest expanded of
           Inl e \<Rightarrow> Inl (WrapErr ''error getting image tag with digest: '' e)
         | Inr d \<Rightarrow> Inr (registry @ ''/'' @ repository @ ''@'' @ d))"

definition IsOktetoRegistry :: "registryConfig \<Rightarrow> string \<Rightarrow> bool" where
  "IsOktetoRegistry ig img \<longleftrightarrow>
     ig_IsOktetoCluster ig \<and> hasPrefix (expandImageRegistries ig img) (ig_RegistryURL ig)"

definition IsGlobalRegistry :: "registryConfig \<Rightarrow> string \<Rightarrow> bool" where
  "IsGlobalRegistry ig img \<longleftrightarrow>
     hasPrefix (expandImageRegistries ig img) (ig_RegistryURL ig @ ''/'' @ ig_GlobalNamespace ig @ ''/'')"

definition GetImageTag :: "registryConfig \<Rightarrow> string \<Rightarrow> string \<Rightarrow> string \<Rightarrow> string" where
  "GetImageTag ig img service namespace =
     (if ig_RegistryURL ig \<noteq> [] then
        if IsOktetoRegistry ig img then img
        else ig_RegistryURL ig @ ''/'' @ namespace @ ''/'' @ service @ '':okteto''
      else fst (GetRepoNameAndTag img) @ '':okteto'')"

record imageReference =
  ir_Registry :: string
  ir_Repo :: string
  ir_Tag :: string
  ir_Image :: string

definition GetImageReference :: "imageParser \<Rightarrow> string \<Rightarrow> upErr + imageReference" where
  "GetImageReference parse img =
     (case parse img of
        Inl e \<Rightarrow> Inl e
      | Inr (registry, repo, ident) \<Rightarrow>
          Inr \<lparr>ir_Registry = registry, ir_Repo = repo, ir_Tag = ident, ir_Image = img\<rparr>)"

definition HasGlobalPushAccess :: "registryConfig \<Rightarrow> (string \<Rightarrow> bool \<times> upErr option) \<Rightarrow> bool \<times> upErr option" where
  "HasGlobalPushAccess ig access =
     (if \<not> ig_IsOktetoCluster ig then (False, None) else access (ExpandOktetoGlobalRegistry ig globalTestImage))"

definition GetDevImageFromGlobal :: "registryConfig \<Rightarrow> string \<Rightarrow> string" where
  "GetDevImageFromGlobal ig imageWithDigest =
     (let (reg, repositoryWithTag) = GetRegistryAndRepo imageWithDigest;
          (repo, _) = GetRepoNameAndTag repositoryWithTag
      in reg @ ''/'' @ replaceFirst repo (ig_GlobalNamespace ig @ ''/'') (ig_Namespace ig @ ''/'')
         @ '':'' @ OktetoDefaultImageTag)"

text \<open>\<open>copy from to\<close> reads the one image and writes it as the other; the digest afterwards is only asked for.\<close>

definition registryClone :: "registryConfig \<Rightarrow> imageParser \<Rightarrow> (string \<Rightarrow> string \<Rightarrow> upErr option)
    \<Rightarrow> (string \<Rightarrow> upErr + string) \<Rightarrow> string \<Rightarrow> string \<Rightarrow> upErr + string" where
  "registryClone ig parse copy digest src dst =
     (let dst = expandImageRegistries ig dst
      in case parse dst of
           Inl e \<Rightarrow> Inl e
         | Inr _ \<Rightarrow>
             (case copy src dst of
                Some e \<Rightarrow> Inl e
              | None \<Rightarrow>
                  (case GetImageTagWithDigest ig digest dst of Inl _ \<Rightarrow> Inr dst | Inr r \<Rightarrow> Inr r)))"

section \<open>Dockerfiles\<close>

definition registryTranslate :: "registryConfig \<Rightarrow> string \<Rightarrow> string" where
  "registryTranslate ig line =
     (if contains line DevRegistry then registryReplace (ig_RegistryURL ig) line DevRegistry (ig_Namespace ig)
      else if contains line GlobalRegistry
      then registryReplace (ig_RegistryURL ig) line GlobalRegistry (globalNamespace ig)
      else line)"

definition generateProjectHash :: "string \<Rightarrow> string \<Rightarrow> string \<Rightarrow> string \<Rightarrow> string" where
  "generateProjectHash repositoryURL dockerfilePath buildTarget cacheTarget =
     take 12 (EncodeToString (Sum256 (''build-'' @ repositoryURL @ ''-'' @ dockerfilePath @ ''-'' @ buildTarget @ ''-'' @ cacheTarget)))"

text \<open>The text after the first occurrence of a word, and the longest start of a text without certain characters.\<close>

fun afterWord :: "string \<Rightarrow> string \<Rightarrow> string option" where
  "afterWord w [] = (if w = [] then Some [] else None)"
| "afterWord w (c # cs) = (if prefix w (c # cs) then Some (drop (length w) (c # cs)) else afterWord w cs)"

definition posixSpace :: "char \<Rightarrow> bool" where
  "posixSpace c \<longleftrightarrow> regSpace c \<or> c = CHR 0x0B"

definition hasCacheMount :: "string \<Rightarrow> bool" where
  "hasCacheMount line \<longleftrightarrow>
     hasPrefix line ''RUN''
     \<and> (case afterWord ''--mount='' (drop 3 line) of None \<Rightarrow> False | Some rest \<Rightarrow> contains rest ''type=cache'')"

text \<open>The parameters of every mount, from left to right; a mount without parameters is none.\<close>

function mountsOf :: "string \<Rightarrow> string list" where
  "mountsOf line =
     (case line of
        [] \<Rightarrow> []
      | c # cs \<Rightarrow>
          if prefix ''--mount='' line \<and> takeWhile (Not \<circ> posixSpace) (drop 8 line) \<noteq> []
          then takeWhile (Not \<circ> posixSpace) (drop 8 line) # mountsOf (dropWhile (Not \<circ> posixSpace) (drop 8 line))
          else mountsOf cs)"
  by pat_completeness auto
termination
proof (relation "measure length", goal_cases)
  case (2 line c cs)
  have "length (dropWhile (Not \<circ> posixSpace) (drop 8 line)) \<le> length (drop 8 line)"
    by (rule length_dropWhile_le)
  also have "\<dots> < length line" using 2 by simp
  finally show ?case by simp
qed simp_all

declare mountsOf.simps [simp del]

definition isWord :: "char \<Rightarrow> bool" where
  "isWord c \<longleftrightarrow> c = CHR ''_'' \<or> isDigit c \<or> (CHR ''A'' \<le> c \<and> c \<le> CHR ''Z'') \<or> (CHR ''a'' \<le> c \<and> c \<le> CHR ''z'')"

fun hasIDParam :: "bool \<Rightarrow> string \<Rightarrow> bool" where
  "hasIDParam inWord [] = False"
| "hasIDParam inWord (c # cs) = (\<not> inWord \<and> prefix ''id='' (c # cs) \<or> hasIDParam (isWord c) cs)"

fun targetOf :: "string \<Rightarrow> string" where
  "targetOf [] = []"
| "targetOf (c # cs) =
     (let value = takeWhile (\<lambda>x. x \<noteq> CHR '','' \<and> \<not> regSpace x) (drop 7 (c # cs))
      in if prefix ''target='' (c # cs) \<and> value \<noteq> [] then value else targetOf cs)"

text \<open>A cache mount without a name gets one, in the line edited so far.\<close>

definition nameMount :: "(string \<Rightarrow> string) \<Rightarrow> string \<Rightarrow> string \<Rightarrow> string" where
  "nameMount hash params line =
     (if \<not> contains params ''type=cache'' \<or> hasIDParam False params then line
      else replaceFirst line (''--mount='' @ params) (''--mount=id='' @ hash (targetOf params) @ '','' @ params))"

definition cacheMountTranslate :: "(string \<Rightarrow> string) \<Rightarrow> string \<Rightarrow> string" where
  "cacheMountTranslate hash line =
     (if \<not> hasCacheMount line then line else fold (nameMount hash) (mountsOf line) line)"

text \<open>\<open>open\<close> and \<open>create\<close> may fail, and so may the reader on a line that is too long.\<close>

definition translateDockerfile :: "registryConfig \<Rightarrow> string \<Rightarrow> string \<Rightarrow> string \<Rightarrow> string list \<Rightarrow> string list" where
  "translateDockerfile ig repo dockerfile target lines =
     map (cacheMountTranslate (generateProjectHash repo dockerfile target) \<circ> registryTranslate ig) lines"

section \<open>What the functions on images do\<close>

lemma index_None_iff: "index s c = None \<longleftrightarrow> c \<notin> set s"
  by (induction s) auto

lemma index_Some: "index s c = Some i \<Longrightarrow> s = take i s @ c # drop (Suc i) s \<and> c \<notin> set (take i s)"
  by (induction s arbitrary: i) (auto split: if_splits)

lemma lastIndex_None_iff: "lastIndex s c = None \<longleftrightarrow> c \<notin> set s"
  by (induction s) (auto split: option.splits)

lemma domainOf_cut:
  "domainOf img = ([], img) \<or> (\<exists>d r. domainOf img = (d, r) \<and> d \<noteq> [] \<and> img = d @ CHR ''/'' # r \<and> CHR ''/'' \<notin> set d)"
proof (cases "index img (CHR ''/'')")
  case (Some i)
  from index_Some [OF this] show ?thesis
    by (cases "take i img = []") (auto simp: domainOf_def Let_def Some)
qed (simp add: domainOf_def)

lemma split_at_colon:
  assumes "s @ CHR '':'' # t = d @ CHR ''/'' # r" "CHR ''/'' \<notin> set t"
  shows "\<exists>s'. s = d @ CHR ''/'' # s' \<and> r = s' @ CHR '':'' # t"
  using assms by (auto simp: append_eq_append_conv2 Cons_eq_append_conv append_eq_Cons_conv)

text \<open>The repository and the tag of an image are found again, whatever host and port the repository starts with.\<close>

theorem repo_tag_round_trip:
  assumes "CHR ''@'' \<notin> set repo" "CHR ''@'' \<notin> set tag" "CHR '':'' \<notin> set tag" "CHR ''/'' \<notin> set tag"
  shows "GetRepoNameAndTag (repo @ '':'' @ tag) = (repo, tag)"
proof -
  let ?img = "repo @ CHR '':'' # tag"
  have at: "index ?img (CHR ''@'') = None" using assms by (simp add: index_None_iff)
  from domainOf_cut [of ?img] show ?thesis
  proof
    assume "domainOf ?img = ([], ?img)"
    with at show ?thesis by (simp add: GetRepoNameAndTag_def lastIndex_append [OF assms(3)])
  next
    assume "\<exists>d r. domainOf ?img = (d, r) \<and> d \<noteq> [] \<and> ?img = d @ CHR ''/'' # r \<and> CHR ''/'' \<notin> set d"
    then obtain d r where d: "domainOf ?img = (d, r)" "d \<noteq> []" "?img = d @ CHR ''/'' # r" by blast
    from split_at_colon [OF d(3) assms(4)] obtain s' where "repo = d @ CHR ''/'' # s'" "r = s' @ CHR '':'' # tag" by blast
    with d at show ?thesis by (simp add: GetRepoNameAndTag_def lastIndex_append [OF assms(3)])
  qed
qed

lemma repo_tag_round_trip_witness: "GetRepoNameAndTag (''localhost:5000/team/app'' @ '':'' @ ''v1'') = (''localhost:5000/team/app'', ''v1'')"
  by (rule repo_tag_round_trip) simp_all

subsection \<open>Short names\<close>

lemma split_absent: "c \<notin> set s \<Longrightarrow> split c s = [s]"
  by (induction s) auto

lemma split_append: "c \<notin> set s \<Longrightarrow> split c (s @ c # t) = s # split c t"
  by (induction s) auto

lemma overTags_single: "CHR '','' \<notin> set tag \<Longrightarrow> overTags f tag = f tag"
  by (simp add: overTags_def split_absent trimSuffix_def hasSuffix_def)

lemma dotMatches_refl: "list_all (\<lambda>c. c \<noteq> CHR 0x0A) p \<Longrightarrow> dotMatches p (p @ s)"
  by (induction p) auto

lemma registryReplace_prefix:
  "list_all (\<lambda>c. c \<noteq> CHR 0x0A) r \<Longrightarrow> registryReplace url (r @ s) r ns = url @ ''/'' @ ns @ s"
  by (simp add: registryReplace_def registryMatches_def dotMatches_refl replaceFirst.simps)

lemma newline_free [simp]: "list_all (\<lambda>c. c \<noteq> CHR 0x0A) DevRegistry" "list_all (\<lambda>c. c \<noteq> CHR 0x0A) GlobalRegistry"
  by (simp_all add: DevRegistry_def GlobalRegistry_def)

lemma comma_free: "CHR '','' \<notin> set DevRegistry" "CHR '','' \<notin> set GlobalRegistry"
  by (simp_all add: DevRegistry_def GlobalRegistry_def)

lemma no_dev_in_global: "\<not> registryMatches DevRegistry (GlobalRegistry @ s) \<longleftrightarrow> \<not> afterSpace DevRegistry (GlobalRegistry @ s)"
  by (simp add: registryMatches_def DevRegistry_def GlobalRegistry_def)

lemma registryReplace_none: "\<not> registryMatches r img \<Longrightarrow> registryReplace url img r ns = img"
  by (simp add: registryReplace_def)

text \<open>In an Okteto cluster the short name of the development registry stands for the namespace of the user in the
  registry of the cluster, and the short name of the global registry for the global namespace; the images
  are recognized as such, and their registry and repository are found.\<close>

theorem short_names_expand:
  assumes "ig_IsOktetoCluster ig" "ig_GlobalNamespace ig \<noteq> []" "CHR '','' \<notin> set name" "CHR ''/'' \<notin> set name"
    "CHR '','' \<notin> set (ig_RegistryURL ig)" "CHR '','' \<notin> set (ig_Namespace ig)"
    "CHR ''/'' \<notin> set (ig_RegistryURL ig)" "CHR ''/'' \<notin> set (ig_Namespace ig)" "CHR ''/'' \<notin> set (ig_GlobalNamespace ig)"
    "\<not> registryMatches GlobalRegistry (ig_RegistryURL ig @ ''/'' @ ig_Namespace ig @ ''/'' @ name)"
    "\<not> registryMatches DevRegistry (GlobalRegistry @ ''/'' @ name)"
  shows "expandImageRegistries ig (DevRegistry @ ''/'' @ name) = ig_RegistryURL ig @ ''/'' @ ig_Namespace ig @ ''/'' @ name
    \<and> expandImageRegistries ig (GlobalRegistry @ ''/'' @ name) = ig_RegistryURL ig @ ''/'' @ ig_GlobalNamespace ig @ ''/'' @ name
    \<and> IsOktetoRegistry ig (DevRegistry @ ''/'' @ name) \<and> IsGlobalRegistry ig (GlobalRegistry @ ''/'' @ name)
    \<and> GetRegistryAndRepo (expandImageRegistries ig (DevRegistry @ ''/'' @ name)) = (ig_RegistryURL ig, ig_Namespace ig @ ''/'' @ name)
    \<and> GetRegistryAndRepo (expandImageRegistries ig (GlobalRegistry @ ''/'' @ name)) = (ig_RegistryURL ig, ig_GlobalNamespace ig @ ''/'' @ name)"
proof -
  have dev: "expandImageRegistries ig (DevRegistry @ ''/'' @ name) = ig_RegistryURL ig @ ''/'' @ ig_Namespace ig @ ''/'' @ name"
    using assms by (simp add: expandImageRegistries_def ExpandOktetoDevRegistry_def ExpandOktetoGlobalRegistry_def
        overTags_single comma_free registryReplace_prefix registryReplace_none)
  have glob: "expandImageRegistries ig (GlobalRegistry @ ''/'' @ name) = ig_RegistryURL ig @ ''/'' @ ig_GlobalNamespace ig @ ''/'' @ name"
    using assms by (simp add: expandImageRegistries_def ExpandOktetoDevRegistry_def ExpandOktetoGlobalRegistry_def
        overTags_single comma_free registryReplace_prefix registryReplace_none globalNamespace_def)
  have parts: "GetRegistryAndRepo (ig_RegistryURL ig @ ''/'' @ ns @ ''/'' @ name) = (ig_RegistryURL ig, ns @ ''/'' @ name)"
    if "CHR ''/'' \<notin> set ns" for ns
    using assms that by (simp add: GetRegistryAndRepo_def split_append split_absent)
  show ?thesis
    using assms dev glob parts by (simp add: IsOktetoRegistry_def IsGlobalRegistry_def hasPrefix_def prefix_def)
qed

definition exampleRegistry :: registryConfig where
  "exampleRegistry = \<lparr>ig_IsOktetoCluster = True, ig_GlobalNamespace = ''okteto'', ig_Namespace = ''cindy'',
     ig_RegistryURL = ''registry.acme.com''\<rparr>"

lemma short_names_expand_witness:
  "expandImageRegistries exampleRegistry (DevRegistry @ ''/'' @ ''app:1'') = ''registry.acme.com/cindy/app:1''
    \<and> IsGlobalRegistry exampleRegistry (GlobalRegistry @ ''/'' @ ''app:1'')"
proof -
  have "\<not> registryMatches GlobalRegistry (ig_RegistryURL exampleRegistry @ ''/'' @ ig_Namespace exampleRegistry @ ''/'' @ ''app:1'')"
    "\<not> registryMatches DevRegistry (GlobalRegistry @ ''/'' @ ''app:1'')"
    by code_simp+
  with short_names_expand [of exampleRegistry "''app:1''"] show ?thesis by (simp add: exampleRegistry_def)
qed

subsection \<open>What the functions on images do not do\<close>

text \<open>A stage copied from an image by its short name keeps the short name: the equals sign is no white space.\<close>

lemma copy_from_not_translated:
  "registryTranslate exampleRegistry ''COPY --from=okteto.dev/base /a /a'' = ''COPY --from=okteto.dev/base /a /a''"
  by code_simp

text \<open>A cache mount whose parameters start another one's leaves that one without its name, and spoils the first.\<close>

lemma cache_mount_misnamed:
  "cacheMountTranslate (\<lambda>target. ''H'') ''RUN --mount=type=cache,target=/ab,id=x --mount=type=cache,target=/a true''
     = ''RUN --mount=id=H,type=cache,target=/ab,id=x --mount=type=cache,target=/a true''"
  by code_simp

text \<open>An image of the global registry in a nested repository is cloned to the global registry.\<close>

lemma nested_image_stays_global:
  "GetDevImageFromGlobal exampleRegistry ''registry.acme.com/okteto/team/app@sha256:0'' = ''registry.acme.com/okteto/team/app:okteto''"
  by code_simp

text \<open>The registry of the cluster is recognized by a prefix of the text, not of the host.\<close>

lemma registry_prefix_only: "IsOktetoRegistry exampleRegistry ''registry.acme.com.evil.org/app''"
  by code_simp

text \<open>A registry with a port and no dot is taken for a user of Docker Hub.\<close>

lemma port_without_dot: "GetRegistryAndRepo ''localhost:5000/app'' = (''docker.io'', ''localhost:5000/app'')"
  by code_simp

end
