(* ===== verification/SmartBuilds.thy ===== *)
theory SmartBuilds
  imports BuildSection Images
begin

text \<open>
  Smart builds: which images of a manifest need no build because the registry has them. The names of the
  images (\<^verbatim>\<open>src/cmd/build/v2/tagger.go\<close>), the hash of what an image is built from (\<^verbatim>\<open>smartbuild/hasher.go\<close>), the
  probe of the registry (\<^verbatim>\<open>image_cache.go\<close>), the copy from the global registry (\<^verbatim>\<open>cloner.go\<close>), the variables
  set for an image (\<^verbatim>\<open>environment/environment.go\<close>) and the two strategies that check all images of a build:
  one after the other (\<^verbatim>\<open>sequential.go\<close>), and one goroutine per image that waits for those it depends on
  (\<^verbatim>\<open>parallel.go\<close>), as a step relation whose steps interleave freely.
\<close>

section \<open>The world and the state\<close>

text \<open>
  Every question to the outside is an event; git, the registry and the clock answer depending on all
  events before. \<open>bw_Expand\<close> is \<open>env.ExpandEnv\<close>, given the environment of the process.
\<close>

datatype buildEvent =
    AskedSHA string
  | AskedDiff string
  | AskedTime
  | AskedDigest string
  | ClonedImage string string
  | SolvedImage string
  | SleptTwoSeconds

datatype readResult = FileMissing | ReadFails | FileContents string

text \<open>
  The options of a build; a flag that was not given is no list. The SSH sessions and host names, which only
  other commands set, are left out.
\<close>

record buildOptions =
  bo_File :: string
  bo_OriginalDockerfile :: string
  bo_OutputMode :: string
  bo_Path :: string
  bo_Platform :: string
  bo_Tag :: string
  bo_Target :: string
  bo_BuildArgs :: "string list"
  bo_Secrets :: "string list option"
  bo_ExportCache :: "string list"
  bo_CommandArgs :: "string list"
  bo_CacheFrom :: "string list option"
  bo_NoCache :: bool

record buildWorld =
  bw_Registry :: registryConfig
  bw_ContextName :: string
  bw_OutputFormat :: string
  bw_Parse :: imageParser
  bw_Remote :: "buildEvent list \<Rightarrow> string \<Rightarrow> remoteErr + string"
  bw_Copy :: "buildEvent list \<Rightarrow> string \<Rightarrow> string \<Rightarrow> upErr option"
  bw_DirSHA :: "buildEvent list \<Rightarrow> string \<Rightarrow> upErr + string"
  bw_DiffHash :: "buildEvent list \<Rightarrow> string \<Rightarrow> upErr + string"
  bw_Now :: "buildEvent list \<Rightarrow> int"
  bw_Solve :: "buildEvent list \<Rightarrow> buildOptions \<Rightarrow> upErr option"
  bw_ReadFile :: "string \<Rightarrow> readResult"
  bw_IsFile :: "string \<Rightarrow> bool"
  bw_Getwd :: "string option"
  bw_Expand :: "smap \<Rightarrow> string \<Rightarrow> upErr + string"

record buildState =
  b_Env :: smap
  b_BuildEnv :: smap
  b_Hashes :: smap
  b_Trace :: "buildEvent list"

definition logged :: "buildEvent \<Rightarrow> buildState \<Rightarrow> buildState" where
  "logged e s = s\<lparr>b_Trace := e # b_Trace s\<rparr>"

definition expandIn :: "buildWorld \<Rightarrow> buildState \<Rightarrow> string \<Rightarrow> upErr + string" where
  "expandIn w s = bw_Expand w (b_Env s)"

text \<open>What a command of one manifest keeps: the configuration of the builder and the validated build section.\<close>

record builderConfig =
  bc_HasGlobalAccess :: bool
  bc_IsCleanProject :: bool
  bc_IsOkteto :: bool
  bc_SmartBuildsEnabled :: bool

record smartConfig =
  sc_IsEnabled :: bool
  sc_IsSequential :: bool

record buildSetup =
  bu_Config :: builderConfig
  bu_Smart :: smartConfig
  bu_ManifestName :: string
  bu_IsStack :: bool
  bu_Build :: manifestBuild

section \<open>Configuration\<close>

definition OktetoEnableSmartBuildEnvVar :: string where
  [go_consts]: "OktetoEnableSmartBuildEnvVar = ''OKTETO_SMART_BUILDS_ENABLED''"
definition ParallelCheckStrategyEnvVar :: string where
  [go_consts]: "ParallelCheckStrategyEnvVar = ''OKTETO_BUILD_CHECK_STRATEGY_PARALLEL''"

definition loadBool :: "smap \<Rightarrow> string \<Rightarrow> bool \<Rightarrow> bool" where
  "loadBool env k d =
     (let v = gstr env k in if v = [] then d else case parseBool v of None \<Rightarrow> False | Some h \<Rightarrow> h)"

definition NewConfig :: "smap \<Rightarrow> smartConfig" where
  "NewConfig env =
     \<lparr>sc_IsEnabled = loadBool env OktetoEnableSmartBuildEnvVar True,
      sc_IsSequential = \<not> loadBool env ParallelCheckStrategyEnvVar True\<rparr>"

definition getIsSmartBuildEnabled :: "smap \<Rightarrow> bool" where
  "getIsSmartBuildEnabled env =
     (let v = gstr env OktetoEnableSmartBuildEnvVar
      in if v = [] then True else case parseBool v of None \<Rightarrow> True | Some b \<Rightarrow> b)"

text \<open>The results of the two questions come with their errors, which are only logged.\<close>

definition getConfigStateless :: "bool \<times> upErr option \<Rightarrow> bool \<times> upErr option \<Rightarrow> bool \<Rightarrow> smap \<Rightarrow> builderConfig" where
  "getConfigStateless access clean isOkteto env =
     \<lparr>bc_HasGlobalAccess = fst access, bc_IsCleanProject = fst clean, bc_IsOkteto = isOkteto,
      bc_SmartBuildsEnabled = getIsSmartBuildEnabled env\<rparr>"

text \<open>
  An invalid value of the flag: the warning says that smart builds remain enabled, and so does the builder's
  configuration, but the controller that decides is disabled.
\<close>

lemma invalid_flag_disables_smart_builds:
  assumes "parseBool (gstr env OktetoEnableSmartBuildEnvVar) = None" "gstr env OktetoEnableSmartBuildEnvVar \<noteq> []"
  shows "getIsSmartBuildEnabled env \<and> \<not> sc_IsEnabled (NewConfig env)"
  using assms by (simp add: getIsSmartBuildEnabled_def NewConfig_def loadBool_def Let_def)

section \<open>The names of images\<close>

definition serviceHasDockerfile :: "buildInfo \<Rightarrow> bool" where
  "serviceHasDockerfile i \<longleftrightarrow> bi_Dockerfile i \<noteq> []"

definition getTargetRegistries :: "bool \<Rightarrow> string list" where
  "getTargetRegistries isOkteto = (if isOkteto then [DevRegistry, GlobalRegistry] else [])"

definition useReferenceTemplate :: "string \<Rightarrow> string \<Rightarrow> string \<Rightarrow> string \<Rightarrow> string" where
  "useReferenceTemplate targetRegistry repoName svcName tag =
     targetRegistry @ ''/'' @ repoName @ ''-'' @ svcName @ '':'' @ tag"

definition getServiceDevImageReference :: "string \<Rightarrow> string \<Rightarrow> buildInfo \<Rightarrow> string" where
  "getServiceDevImageReference manifestName svcName b =
     (if bi_Image b \<noteq> [] \<or> \<not> serviceHasDockerfile b then bi_Image b
      else useReferenceTemplate DevRegistry (ResourceK8sMetaString manifestName) svcName OktetoDefaultImageTag)"

definition GetImageReferencesForTag :: "builderConfig \<Rightarrow> string \<Rightarrow> string \<Rightarrow> string \<Rightarrow> string list" where
  "GetImageReferencesForTag bc manifestName svcToBuildName tag =
     (if tag = [] then []
      else map (\<lambda>r. useReferenceTemplate r (ResourceK8sMetaString manifestName) svcToBuildName tag)
             (getTargetRegistries (bc_IsOkteto bc)))"

definition GetImageReferencesForDeploy :: "string \<Rightarrow> string \<Rightarrow> string list" where
  "GetImageReferencesForDeploy manifestName svcToBuildName =
     [useReferenceTemplate DevRegistry (ResourceK8sMetaString manifestName) svcToBuildName OktetoDefaultImageTag]"

text \<open>\<open>extendedImageRegex\<close>: registry, namespace, name and tag, without a port; its group is the name.\<close>

definition nameChar :: "char \<Rightarrow> bool" where
  "nameChar c \<longleftrightarrow> isWord c \<or> c = CHR ''-'' \<or> c = CHR ''.''"

definition namePart :: "string \<Rightarrow> bool" where
  "namePart s \<longleftrightarrow> s \<noteq> [] \<and> list_all nameChar s"

definition extendedImageName :: "string \<Rightarrow> string option" where
  "extendedImageName img =
     (case split (CHR ''/'') img of
        [a, b, c] \<Rightarrow>
          (case split (CHR '':'') c of
             [name, tag] \<Rightarrow> if namePart a \<and> namePart b \<and> namePart name \<and> namePart tag then Some name else None
           | _ \<Rightarrow> None)
      | _ \<Rightarrow> None)"

fun globalTags :: "registryConfig \<Rightarrow> string \<Rightarrow> string \<Rightarrow> string \<Rightarrow> string list \<Rightarrow> string \<Rightarrow> string" where
  "globalTags ig namespace registryURL buildHash [] acc = acc"
| "globalTags ig namespace registryURL buildHash (tag # tags) acc =
     (let expandedTag = ExpandOktetoDevRegistry ig tag
      in case extendedImageName expandedTag of
           None \<Rightarrow> globalTags ig namespace registryURL buildHash tags acc
         | Some name \<Rightarrow>
             if hasPrefix expandedTag (registryURL @ ''/'' @ namespace @ ''/'') then
               globalTags ig namespace registryURL buildHash tags
                 (acc @ (if acc \<noteq> [] then '','' else [])
                  @ ExpandOktetoGlobalRegistry ig (GlobalRegistry @ ''/'' @ name @ '':'' @ buildHash))
             else globalTags ig namespace registryURL buildHash tags acc)"

definition GetGlobalTagFromDevIfNeccesary ::
    "builderConfig \<Rightarrow> bool \<Rightarrow> registryConfig \<Rightarrow> string \<Rightarrow> string \<Rightarrow> string \<Rightarrow> string \<Rightarrow> string" where
  "GetGlobalTagFromDevIfNeccesary bc enabled ig tags namespace registryURL buildHash =
     (if \<not> bc_HasGlobalAccess bc \<or> \<not> enabled \<or> buildHash = [] then []
      else globalTags ig namespace registryURL buildHash (split (CHR '','') tags) [])"

section \<open>The hash of a build\<close>

definition getDockerfileContent :: "buildWorld \<Rightarrow> string \<Rightarrow> string \<Rightarrow> string" where
  "getDockerfileContent w dockerfileContext dockerfilePath =
     (case bw_ReadFile w dockerfilePath of
        FileContents c \<Rightarrow> EncodeToString (Sum256 c)
      | ReadFails \<Rightarrow> EncodeToString (Sum256 [])
      | FileMissing \<Rightarrow>
          (case bw_ReadFile w (joinPaths [dockerfileContext, dockerfilePath]) of
             FileContents c \<Rightarrow> EncodeToString (Sum256 c)
           | _ \<Rightarrow> []))"

definition secretText :: "string \<times> buildSecret \<Rightarrow> string" where
  "secretText = (\<lambda>(key, value). key @ ''='' @ (if bse_Env value \<noteq> [] then secretString value else bse_File value))"

definition hashText :: "buildWorld \<Rightarrow> (string \<Rightarrow> upErr + string) \<Rightarrow> buildInfo \<Rightarrow> string \<Rightarrow> string \<Rightarrow> string" where
  "hashText w expand i commitHash diff =
     ''commit:'' @ commitHash @ '';''
     @ ''target:'' @ bi_Target i @ '';''
     @ ''build_args:'' @ join '';'' (map (argString expand) (bi_Args i)) @ '';''
     @ ''secrets:'' @ join '';'' (map secretText (bi_Secrets i)) @ '';''
     @ ''context:'' @ bi_Context i @ '';''
     @ ''dockerfile_content:'' @ getDockerfileContent w (bi_Context i) (bi_Dockerfile i) @ '';''
     @ ''diff:'' @ diff @ '';''
     @ ''image:'' @ bi_Image i @ '';''"

definition calculateRandomShaForService :: "buildWorld \<Rightarrow> string \<Rightarrow> buildState \<Rightarrow> string \<times> buildState" where
  "calculateRandomShaForService w service s =
     (EncodeToString (Sum256 (service @ ''-'' @ showInt (bw_Now w (b_Trace s)))), logged AskedTime s)"

definition orRandom :: "buildWorld \<Rightarrow> string \<Rightarrow> upErr + string \<Rightarrow> buildState \<Rightarrow> string \<times> buildState" where
  "orRandom w service answer s =
     (case answer of Inl _ \<Rightarrow> calculateRandomShaForService w service s | Inr sha \<Rightarrow> (sha, s))"

definition absContext :: "buildWorld \<Rightarrow> string \<Rightarrow> string" where
  "absContext w context =
     (let context = (if context = [] then ''.'' else context)
      in case bw_Getwd w of
           None \<Rightarrow> context
         | Some wd \<Rightarrow> if IsAbs context then context else joinPaths [wd, context])"

definition hashWithBuildContext :: "buildWorld \<Rightarrow> buildInfo \<Rightarrow> string \<Rightarrow> buildState \<Rightarrow> string \<times> buildState" where
  "hashWithBuildContext w i service s =
     (let dir = absContext w (bi_Context i)
      in case gget (b_Hashes s) service of
           Some h \<Rightarrow> (h, s)
         | None \<Rightarrow>
             let (commit, s1) = orRandom w service (bw_DirSHA w (b_Trace s) dir) (logged (AskedSHA dir) s);
                 (diff, s2) = orRandom w service (bw_DiffHash w (b_Trace s1) dir) (logged (AskedDiff dir) s1);
                 h = EncodeToString (Sum256 (hashText w (expandIn w s2) i commit diff))
             in (h, s2\<lparr>b_Hashes := gput service h (b_Hashes s2)\<rparr>))"

section \<open>Questions to the registry\<close>

definition digestOf :: "buildWorld \<Rightarrow> buildEvent list \<Rightarrow> string \<Rightarrow> upErr + string" where
  "digestOf w tr img = GetImageTagWithDigest (bw_Registry w) (GetDigest (bw_Parse w) (bw_Remote w tr)) img"

definition lookupReferenceWithDigest :: "buildWorld \<Rightarrow> string \<Rightarrow> buildState \<Rightarrow> (upErr + string) \<times> buildState" where
  "lookupReferenceWithDigest w ref s = (digestOf w (b_Trace s) ref, logged (AskedDigest ref) s)"

definition smartEnabled :: "buildSetup \<Rightarrow> bool" where
  "smartEnabled x = sc_IsEnabled (bu_Smart x)"

text \<open>The references \<open>IsCached\<close> asks for; without a hash there is none.\<close>

definition cacheReferences :: "buildWorld \<Rightarrow> buildSetup \<Rightarrow> string \<Rightarrow> string \<Rightarrow> string \<Rightarrow> string list" where
  "cacheReferences w x img buildHash svc =
     (if buildHash = [] then []
      else if img \<noteq> [] then
        (let g = GetGlobalTagFromDevIfNeccesary (bu_Config x) (smartEnabled x) (bw_Registry w) img
                   (ig_Namespace (bw_Registry w)) (ig_RegistryURL (bw_Registry w)) buildHash
         in if g \<noteq> [] then [g] else [])
      else GetImageReferencesForTag (bu_Config x) (bu_ManifestName x) svc buildHash)"

fun probeReferences :: "buildWorld \<Rightarrow> string list \<Rightarrow> buildState \<Rightarrow> string option \<times> buildState" where
  "probeReferences w [] s = (None, s)"
| "probeReferences w (r # rs) s =
     (case lookupReferenceWithDigest w r s of
        (Inl _, s') \<Rightarrow> probeReferences w rs s'
      | (Inr img, s') \<Rightarrow> (Some img, s'))"

definition IsCached :: "buildWorld \<Rightarrow> buildSetup \<Rightarrow> string \<Rightarrow> string \<Rightarrow> string \<Rightarrow> buildState \<Rightarrow> string option \<times> buildState" where
  "IsCached w x img buildHash svc s = probeReferences w (cacheReferences w x img buildHash svc) s"

text \<open>\<open>Clone\<close> may ask for the digest of the copy; the answer is that after the copy.\<close>

definition CloneGlobalImageToDev :: "buildWorld \<Rightarrow> string \<Rightarrow> string \<Rightarrow> buildState \<Rightarrow> (upErr + string) \<times> buildState" where
  "CloneGlobalImageToDev w globalImage svcImage s =
     (if IsGlobalRegistry (bw_Registry w) globalImage then
        (let svcImage = (if svcImage = [] then GetDevImageFromGlobal (bw_Registry w) globalImage else svcImage);
             s' = logged (ClonedImage globalImage svcImage) s
         in case registryClone (bw_Registry w) (bw_Parse w) (bw_Copy w (b_Trace s))
                   (GetDigest (bw_Parse w) (bw_Remote w (b_Trace s'))) globalImage svcImage of
              Inl e \<Rightarrow> (Inl (WrapErr (''error cloning image '' @ quote globalImage @ '' to '' @ quote svcImage @ '': '') e), s')
            | Inr devImage \<Rightarrow> (Inr devImage, s'))
      else (Inr globalImage, s))"

text \<open>The services to build have passed \<open>validateServices\<close>, so each is in the section.\<close>

definition infoOf :: "buildSetup \<Rightarrow> string \<Rightarrow> buildInfo" where
  "infoOf x svc = (case gget (bu_Build x) svc of None \<Rightarrow> emptyBuildInfo | Some i \<Rightarrow> i)"

definition cloneGlobalImageToDev :: "buildWorld \<Rightarrow> buildSetup \<Rightarrow> string \<Rightarrow> string \<Rightarrow> buildState
    \<Rightarrow> (upErr + string) \<times> buildState" where
  "cloneGlobalImageToDev w x cachedImage svc s =
     (let i = infoOf x svc;
          devImage = (if bi_Dockerfile i \<noteq> [] \<and> bi_Image i = []
                      then hd (GetImageReferencesForDeploy (bu_ManifestName x) svc) else bi_Image i)
      in CloneGlobalImageToDev w cachedImage devImage s)"

section \<open>The variables of an image\<close>

text \<open>\<open>os.Setenv\<close> refuses some names and values; the error is ignored.\<close>

definition osSetenv :: "string \<Rightarrow> string \<Rightarrow> smap \<Rightarrow> smap" where
  "osSetenv k v env =
     (if k = [] \<or> CHR ''='' \<in> set k \<or> CHR 0x00 \<in> set k \<or> CHR 0x00 \<in> set v then env else gput k v env)"

definition SetEnvVar :: "string \<Rightarrow> string \<Rightarrow> buildState \<Rightarrow> buildState" where
  "SetEnvVar k v s = s\<lparr>b_BuildEnv := gput k v (b_BuildEnv s), b_Env := osSetenv k v (b_Env s)\<rparr>"

text \<open>The variables in the order they are set, each under the lock of its own.\<close>

definition serviceEnvVars :: "buildWorld \<Rightarrow> string \<Rightarrow> string \<Rightarrow> (string \<times> string) list" where
  "serviceEnvVars w service reference =
     (case GetImageReference (bw_Parse w) reference of
        Inl _ \<Rightarrow> []
      | Inr ref \<Rightarrow>
          [(buildEnvKey service ''REGISTRY'', ir_Registry ref),
           (buildEnvKey service ''REPOSITORY'', ir_Repo ref),
           (buildEnvKey service ''IMAGE'', ir_Image ref),
           (buildEnvKey service ''TAG'', ir_Tag ref),
           (buildEnvKey service ''SHA'',
            if hasPrefix (ir_Tag ref) ''sha256:'' then OktetoDefaultImageTag @ ''@'' @ ir_Tag ref else ir_Tag ref)])"

definition SetServiceEnvVars :: "buildWorld \<Rightarrow> string \<Rightarrow> string \<Rightarrow> buildState \<Rightarrow> buildState" where
  "SetServiceEnvVars w service reference s =
     fold (\<lambda>(k, v). SetEnvVar k v) (serviceEnvVars w service reference) s"

section \<open>The image to deploy\<close>

fun firstDeployed :: "buildWorld \<Rightarrow> string list \<Rightarrow> string list \<Rightarrow> buildState \<Rightarrow> (upErr + string) \<times> buildState" where
  "firstDeployed w all [] s = (Inl (ErrText (''images ['' @ join '', '' all @ ''] not found'')), s)"
| "firstDeployed w all (r # rs) s =
     (case lookupReferenceWithDigest w r s of
        (Inl e, s') \<Rightarrow>
          if IsNotFound (errString e) then firstDeployed w all rs s'
          else (Inl (WrapErr (''error checking image at registry '' @ r @ '': '') e), s')
      | (Inr img, s') \<Rightarrow> (Inr img, s'))"

definition GetImageDigestReferenceForServiceDeploy :: "buildWorld \<Rightarrow> string \<Rightarrow> string \<Rightarrow> buildInfo \<Rightarrow> buildState
    \<Rightarrow> (upErr + string) \<times> buildState" where
  "GetImageDigestReferenceForServiceDeploy w manifestName service i s =
     (let possible = (if bi_Dockerfile i \<noteq> [] \<and> bi_Image i = [] then GetImageReferencesForDeploy manifestName service
                      else if bi_Image i \<noteq> [] then [bi_Image i] else [])
      in firstDeployed w possible possible s)"

end
