(* ===== verification/BuildChecks.thy ===== *)
theory BuildChecks
  imports SmartBuilds
begin

text \<open>
  The two strategies that find out which services of a build are cached (\<^verbatim>\<open>src/cmd/build/v2/smartbuild/sequential.go\<close>
  and \<^verbatim>\<open>parallel.go\<close>). The parallel one starts a goroutine per service; a step is one access to what the
  goroutines share: the end of the wait for a dependency, the hash under its lock, a question to the registry, a
  variable under its lock, the closing of the channel. Steps of different goroutines interleave freely.
\<close>

section \<open>One after the other\<close>

text \<open>\<open>dependantMap\<close>: the services of the section that name a service, in the order of the section.\<close>

definition dependantMap :: "manifestBuild \<Rightarrow> string \<Rightarrow> string list" where
  "dependantMap mb svc = concat (map (\<lambda>(n, i). map (\<lambda>d. n) (filter (\<lambda>d. d = svc) (bi_DependsOn i))) mb)"

text \<open>The recursion over dependants ends because every call marks a service of the section.\<close>

function addDependents :: "manifestBuild \<Rightarrow> string set \<Rightarrow> string list \<Rightarrow> bmap \<Rightarrow> string list \<Rightarrow> bmap \<times> string list" where
  "addDependents mb names [] processed notCached = (processed, notCached)"
| "addDependents mb names (d # ds) processed notCached =
     (if gbool processed d then addDependents mb names ds processed notCached
      else if d \<notin> names then addDependents mb names ds (gput d True processed) notCached
      else case addDependents mb names (dependantMap mb d) (gput d True processed) (notCached @ [d]) of
             (processed', notCached') \<Rightarrow> addDependents mb names ds processed' notCached')"
  by pat_completeness auto

lemma dependantMap_keys: "set (dependantMap mb d) \<subseteq> set (gkeys mb)"
  by (force simp: dependantMap_def gkeys_def)

lemma addDependents_grows:
  "addDependents_dom (mb, names, ds, p, nc) \<Longrightarrow> trues p \<subseteq> trues (fst (addDependents mb names ds p nc))"
proof (induction rule: addDependents.pinduct)
  case (1 mb names p nc)
  then show ?case by (simp add: addDependents.psimps)
next
  case (2 mb names d ds p nc)
  show ?case
  proof (cases "gbool p d \<or> d \<notin> names")
    case True
    with 2 show ?thesis by (auto simp: addDependents.psimps trues_put)
  next
    case False
    obtain p1 nc1 where r: "addDependents mb names (dependantMap mb d) (gput d True p) (nc @ [d]) = (p1, nc1)"
      by (cases "addDependents mb names (dependantMap mb d) (gput d True p) (nc @ [d])") auto
    have "trues (gput d True p) \<subseteq> trues p1" using "2.IH"(3) False r by simp
    moreover have "trues p1 \<subseteq> trues (fst (addDependents mb names ds p1 nc1))" using "2.IH"(4) False r by simp
    ultimately show ?thesis using 2(1) False r by (auto simp: addDependents.psimps trues_put)
  qed
qed

termination addDependents
proof (relation "measures [\<lambda>(mb, names, ds, p, nc). card ((set (gkeys mb) \<union> set ds) - trues p),
                           \<lambda>(mb, names, ds, p, nc). length ds]", goal_cases)
  case 1
  show ?case by simp
next
  case (2 mb names d ds p nc)
  then have "set (gkeys mb) \<union> set ds - trues p = set (gkeys mb) \<union> set (d # ds) - trues p"
    by (auto simp: gbool_trues)
  then show ?case by simp
next
  case (3 mb names d ds p nc)
  have "set (gkeys mb) \<union> set ds - trues (gput d True p) \<subset> set (gkeys mb) \<union> set (d # ds) - trues p"
    using 3 by (auto simp: gbool_trues trues_put)
  then show ?case by (simp add: psubset_card_mono)
next
  case (4 mb names d ds p nc)
  have "set (gkeys mb) \<union> set (dependantMap mb d) - trues (gput d True p) \<subset> set (gkeys mb) \<union> set (d # ds) - trues p"
    using 4 dependantMap_keys [of mb d] by (auto simp: gbool_trues trues_put)
  then show ?case by (simp add: psubset_card_mono)
next
  case (5 mb names d ds p nc p1 nc1)
  then have "trues (gput d True p) \<subseteq> trues p1"
    using addDependents_grows [of mb names "dependantMap mb d" "gput d True p" "nc @ [d]"] by (metis fst_conv)
  then have "set (gkeys mb) \<union> set ds - trues p1 \<subset> set (gkeys mb) \<union> set (d # ds) - trues p"
    using 5(1) by (auto simp: gbool_trues trues_put)
  then show ?case by (simp add: psubset_card_mono)
qed

text \<open>The lists of names; the times and results kept for the metrics are left out.\<close>

fun checkInOrder :: "buildWorld \<Rightarrow> buildSetup \<Rightarrow> string set \<Rightarrow> string list \<Rightarrow> bmap \<Rightarrow> string list \<Rightarrow> string list
    \<Rightarrow> buildState \<Rightarrow> (upErr + string list \<times> string list) \<times> buildState" where
  "checkInOrder w x names [] processed cached notCached s = (Inr (cached, notCached), s)"
| "checkInOrder w x names (svc # svcs) processed cached notCached s =
     (if gbool processed svc then checkInOrder w x names svcs processed cached notCached s
      else case hashWithBuildContext w (infoOf x svc) svc s of
        (buildHash, s1) \<Rightarrow>
          (case IsCached w x (bi_Image (infoOf x svc)) buildHash svc s1 of
             (Some cachedImage, s2) \<Rightarrow>
               (case cloneGlobalImageToDev w x cachedImage svc s2 of
                  (Inl e, s3) \<Rightarrow> (Inl (WrapErr (''error cloning svc '' @ svc @ '' global image to dev: '') e), s3)
                | (Inr reference, s3) \<Rightarrow>
                    checkInOrder w x names svcs (gput svc True processed) (cached @ [svc]) notCached
                      (SetServiceEnvVars w svc reference s3))
           | (None, s2) \<Rightarrow>
               (case addDependents (bu_Build x) names (dependantMap (bu_Build x) svc) (gput svc True processed) (notCached @ [svc]) of
                  (processed', notCached') \<Rightarrow> checkInOrder w x names svcs processed' cached notCached' s2)))"

definition checkSequentially :: "buildWorld \<Rightarrow> buildSetup \<Rightarrow> string list \<Rightarrow> buildState
    \<Rightarrow> (upErr + string list \<times> string list) \<times> buildState" where
  "checkSequentially w x svcsToBuild s = checkInOrder w x (set svcsToBuild) svcsToBuild [] [] [] s"

section \<open>All at once\<close>

datatype phase =
    Waiting "string list"
  | Hashing
  | Probing "string list"
  | Cloning string
  | Publishing "(string \<times> string) list"
  | Finished bool "upErr option"
  | Crashed

record parState =
  pr_Nodes :: "(string, phase) gomap"
  pr_Shared :: buildState

definition dependenciesOf :: "buildSetup \<Rightarrow> string \<Rightarrow> string list" where
  "dependenciesOf x svc = bi_DependsOn (infoOf x svc)"

definition parStart :: "buildSetup \<Rightarrow> string list \<Rightarrow> buildState \<Rightarrow> parState" where
  "parStart x svcs s = \<lparr>pr_Nodes = map (\<lambda>svc. (svc, Waiting (dependenciesOf x svc))) svcs, pr_Shared = s\<rparr>"

text \<open>
  What one goroutine does next; \<open>None\<close> while it waits for a channel that is open, and after its end. A
  dependency without a node is a nil pointer.
\<close>

fun phaseStep :: "buildWorld \<Rightarrow> buildSetup \<Rightarrow> string \<Rightarrow> (string, phase) gomap \<Rightarrow> phase \<Rightarrow> buildState
    \<Rightarrow> (phase \<times> buildState) option" where
  "phaseStep w x svc nds (Waiting []) s = Some (Hashing, s)"
| "phaseStep w x svc nds (Waiting (d # ds)) s =
     (case gget nds d of
        None \<Rightarrow> Some (Crashed, s)
      | Some (Finished isCached _) \<Rightarrow> Some (if isCached then Waiting ds else Finished False None, s)
      | Some _ \<Rightarrow> None)"
| "phaseStep w x svc nds Hashing s =
     (case hashWithBuildContext w (infoOf x svc) svc s of
        (buildHash, s') \<Rightarrow> Some (Probing (cacheReferences w x (bi_Image (infoOf x svc)) buildHash svc), s'))"
| "phaseStep w x svc nds (Probing []) s = Some (Finished False None, s)"
| "phaseStep w x svc nds (Probing (r # rs)) s =
     (case lookupReferenceWithDigest w r s of
        (Inl _, s') \<Rightarrow> Some (Probing rs, s')
      | (Inr img, s') \<Rightarrow> Some (Cloning img, s'))"
| "phaseStep w x svc nds (Cloning img) s =
     (case cloneGlobalImageToDev w x img svc s of
        (Inl e, s') \<Rightarrow>
          Some (Finished False (Some (WrapErr (''error cloning svc '' @ svc @ '' global image to dev: '') e)), s')
      | (Inr reference, s') \<Rightarrow> Some (Publishing (serviceEnvVars w svc reference), s'))"
| "phaseStep w x svc nds (Publishing []) s = Some (Finished True None, s)"
| "phaseStep w x svc nds (Publishing ((k, v) # kvs)) s = Some (Publishing kvs, SetEnvVar k v s)"
| "phaseStep w x svc nds (Finished isCached e) s = None"
| "phaseStep w x svc nds Crashed s = None"

text \<open>A panic of one goroutine ends the process.\<close>

definition crashed :: "parState \<Rightarrow> bool" where
  "crashed st \<longleftrightarrow> Crashed \<in> snd ` set (pr_Nodes st)"

definition goStep :: "buildWorld \<Rightarrow> buildSetup \<Rightarrow> string \<Rightarrow> parState \<Rightarrow> parState option" where
  "goStep w x svc st =
     (if crashed st then None
      else case gget (pr_Nodes st) svc of
        None \<Rightarrow> None
      | Some ph \<Rightarrow>
          (case phaseStep w x svc (pr_Nodes st) ph (pr_Shared st) of
             None \<Rightarrow> None
           | Some (ph', s') \<Rightarrow> Some \<lparr>pr_Nodes = gput svc ph' (pr_Nodes st), pr_Shared = s'\<rparr>))"

inductive parStep :: "buildWorld \<Rightarrow> buildSetup \<Rightarrow> parState \<Rightarrow> parState \<Rightarrow> bool" for w x where
  goroutine: "goStep w x svc st = Some st' \<Longrightarrow> parStep w x st st'"

inductive_cases parStepE: "parStep w x st st'"

definition isFinished :: "phase \<Rightarrow> bool" where
  "isFinished ph \<longleftrightarrow> (case ph of Finished _ _ \<Rightarrow> True | _ \<Rightarrow> False)"

definition allFinished :: "parState \<Rightarrow> bool" where
  "allFinished st \<longleftrightarrow> list_all (isFinished \<circ> snd) (pr_Nodes st)"

text \<open>After \<open>wg.Wait()\<close>: the results in the order of the services, or the error of the first that has one.\<close>

fun collectNodes :: "(string, phase) gomap \<Rightarrow> string list \<Rightarrow> upErr + string list \<times> string list" where
  "collectNodes nds [] = Inr ([], [])"
| "collectNodes nds (svc # svcs) =
     (case gget nds svc of
        Some (Finished _ (Some e)) \<Rightarrow> Inl e
      | ph \<Rightarrow>
          (case collectNodes nds svcs of
             Inl e \<Rightarrow> Inl e
           | Inr (cached, notCached) \<Rightarrow>
               Inr (if ph = Some (Finished True None) then (svc # cached, notCached) else (cached, svc # notCached))))"

text \<open>
  A run under a schedule, which says whose turn it is; the turn of a goroutine that cannot go on is lost. It
  has a result once all have ended.
\<close>

definition parRun :: "buildWorld \<Rightarrow> buildSetup \<Rightarrow> string list \<Rightarrow> parState \<Rightarrow> parState" where
  "parRun w x sched st = foldl (\<lambda>st svc. case goStep w x svc st of None \<Rightarrow> st | Some st' \<Rightarrow> st') st sched"

definition checkInParallel :: "buildWorld \<Rightarrow> buildSetup \<Rightarrow> string list \<Rightarrow> string list \<Rightarrow> buildState
    \<Rightarrow> ((upErr + string list \<times> string list) \<times> buildState) option" where
  "checkInParallel w x sched svcsToBuild s =
     (let st = parRun w x sched (parStart x svcsToBuild s)
      in if allFinished st then Some (collectNodes (pr_Nodes st) svcsToBuild, pr_Shared st) else None)"

section \<open>An example\<close>

text \<open>Two services on one base, and a fourth that needs both.\<close>

definition exampleSetup :: buildSetup where
  "exampleSetup =
     \<lparr>bu_Config = \<lparr>bc_HasGlobalAccess = False, bc_IsCleanProject = True, bc_IsOkteto = True, bc_SmartBuildsEnabled = True\<rparr>,
      bu_Smart = \<lparr>sc_IsEnabled = True, sc_IsSequential = False\<rparr>, bu_ManifestName = ''shop'', bu_IsStack = False,
      bu_Build = map (\<lambda>(n, ds). (n, emptyBuildInfo\<lparr>bi_Dockerfile := ''Dockerfile'', bi_DependsOn := ds\<rparr>))
        [(''base'', []), (''api'', [''base'']), (''web'', [''base'']), (''app'', [''api'', ''web''])]\<rparr>"

definition exampleOrder :: "string list" where
  "exampleOrder = [''base'', ''api'', ''web'', ''app'']"

text \<open>A registry with the images in whose names one of some texts occurs, and hashes that are known.\<close>

definition exampleBuildWorld :: "string list \<Rightarrow> buildWorld" where
  "exampleBuildWorld present =
     \<lparr>bw_Registry = \<lparr>ig_IsOktetoCluster = False, ig_GlobalNamespace = ''okteto'', ig_Namespace = ''dev'', ig_RegistryURL = []\<rparr>,
      bw_ContextName = ''ctx'', bw_OutputFormat = ''plain'', bw_Parse = (\<lambda>img. Inr (''okteto.dev'', ''shop'', ''sha256:1'')),
      bw_Remote = (\<lambda>tr img. if list_ex (contains img) present then Inr ''sha256:1''
                            else Inl (OtherRemote ''not found'')),
      bw_Copy = (\<lambda>tr src dst. None), bw_DirSHA = (\<lambda>tr d. Inr ''c''), bw_DiffHash = (\<lambda>tr d. Inr ''d''),
      bw_Now = (\<lambda>tr. 0), bw_Solve = (\<lambda>tr opts. None), bw_ReadFile = (\<lambda>f. FileMissing), bw_IsFile = (\<lambda>f. False),
      bw_Getwd = Some ''/src'', bw_Expand = (\<lambda>env s. Inr s)\<rparr>"

definition exampleBuildState :: buildState where
  "exampleBuildState = \<lparr>b_Env = [], b_BuildEnv = [], b_Hashes = map (\<lambda>s. (s, ''h'')) exampleOrder, b_Trace = []\<rparr>"

definition exampleSchedule :: "string list" where
  "exampleSchedule = replicate 10 ''base'' @ [''app''] @ replicate 11 ''api'' @ replicate 6 ''web'' @ replicate 3 ''app''"

text \<open>
  The sequential strategy builds dependants in the order it meets them, not in that of the dependencies: here
  \<open>app\<close> is put before \<open>web\<close>, which it depends on.
\<close>

lemma sequential_check_breaks_order:
  "fst (checkSequentially (exampleBuildWorld []) exampleSetup exampleOrder exampleBuildState)
     = Inr ([], [''base'', ''api'', ''app'', ''web''])
   \<and> ''web'' \<in> set (dependenciesOf exampleSetup ''app'')"
  by code_simp

lemma example_sequential:
  "fst (checkSequentially (exampleBuildWorld [''-base:'', ''-api:'']) exampleSetup exampleOrder exampleBuildState)
     = Inr ([''base'', ''api''], [''web'', ''app''])"
  by code_simp

lemma example_parallel:
  "map_option fst (checkInParallel (exampleBuildWorld [''-base:'', ''-api:'']) exampleSetup exampleSchedule exampleOrder exampleBuildState)
     = Some (Inr ([''base'', ''api''], [''web'', ''app'']))"
  by code_simp

end
