(* ===== verification/BuildChecksProps.thy ===== *)
theory BuildChecksProps
  imports BuildChecks
begin

text \<open>
  What the two strategies of smart builds guarantee: the parallel one never waits for ever and never touches a
  missing node, its result is a partition of the services in their order in which the services a cached one
  depends on are cached; and in a world that answers steadily both strategies compute the same reference sets.
\<close>

section \<open>Services in the order of their dependencies\<close>

fun orderedAfter :: "('a \<Rightarrow> 'a list) \<Rightarrow> 'a set \<Rightarrow> 'a list \<Rightarrow> bool" where
  "orderedAfter deps seen [] = True"
| "orderedAfter deps seen (s # ss) = (s \<notin> seen \<and> set (deps s) \<subseteq> seen \<and> orderedAfter deps (insert s seen) ss)"

lemma orderedAfter_append:
  "orderedAfter deps seen (xs @ ys) \<longleftrightarrow> orderedAfter deps seen xs \<and> orderedAfter deps (seen \<union> set xs) ys"
  by (induction xs arbitrary: seen) (auto simp: insert_commute Un_insert_left)

lemma orderedAfter_distinct: "orderedAfter deps seen xs \<Longrightarrow> distinct xs \<and> set xs \<inter> seen = {}"
  by (induction xs arbitrary: seen) auto

lemma orderedAfter_deps:
  "orderedAfter deps seen xs \<Longrightarrow> x \<in> set xs \<Longrightarrow> set (deps x) \<subseteq> seen \<union> set xs"
  by (induction xs arbitrary: seen) fastforce+

text \<open>What is left after removing services is ordered once those count as seen.\<close>

lemma orderedAfter_filter:
  "orderedAfter deps seen xs \<Longrightarrow> seen \<subseteq> seen' \<Longrightarrow> (\<forall>x \<in> set xs. \<not> P x \<longrightarrow> x \<in> seen') \<Longrightarrow>
     (\<forall>x \<in> set xs. P x \<longrightarrow> x \<notin> seen') \<Longrightarrow> orderedAfter deps seen' (filter P xs)"
proof (induction xs arbitrary: seen seen')
  case (Cons x xs)
  show ?case
  proof (cases "P x")
    case True
    have "orderedAfter deps (insert x seen') (filter P xs)"
      using Cons.prems orderedAfter_distinct [of deps "insert x seen" xs]
      by (intro Cons.IH [of "insert x seen"]) auto
    with True Cons.prems show ?thesis by auto
  next
    case False
    with Cons.prems have "insert x seen \<subseteq> seen'" by auto
    then have "orderedAfter deps seen' (filter P xs)" using Cons.prems by (intro Cons.IH [of "insert x seen"]) auto
    with False show ?thesis by simp
  qed
qed simp

section \<open>The invariant of the goroutines\<close>

definition cachedNode :: "(string, phase) gomap \<Rightarrow> string \<Rightarrow> bool" where
  "cachedNode nds d \<longleftrightarrow> gget nds d = Some (Finished True None)"

definition phaseOk :: "(string \<Rightarrow> string list) \<Rightarrow> (string, phase) gomap \<Rightarrow> string \<Rightarrow> phase \<Rightarrow> bool" where
  "phaseOk deps nds svc ph \<longleftrightarrow>
     (case ph of
        Waiting ds \<Rightarrow> \<exists>past. deps svc = past @ ds \<and> (\<forall>d \<in> set past. cachedNode nds d)
      | Finished isCached e \<Rightarrow> isCached \<longrightarrow> e = None \<and> (\<forall>d \<in> set (deps svc). cachedNode nds d)
      | Crashed \<Rightarrow> False
      | _ \<Rightarrow> \<forall>d \<in> set (deps svc). cachedNode nds d)"

definition parInv :: "buildSetup \<Rightarrow> string list \<Rightarrow> parState \<Rightarrow> bool" where
  "parInv x svcs st \<longleftrightarrow>
     gkeys (pr_Nodes st) = svcs
     \<and> (\<forall>svc ph. gget (pr_Nodes st) svc = Some ph \<longrightarrow> phaseOk (dependenciesOf x) (pr_Nodes st) svc ph)"

lemma phaseOk_mono:
  "phaseOk deps nds svc ph \<Longrightarrow> (\<And>d. cachedNode nds d \<Longrightarrow> cachedNode nds' d) \<Longrightarrow> phaseOk deps nds' svc ph"
  by (auto simp: phaseOk_def split: phase.splits)

lemma phaseStep_ok:
  assumes "phaseStep w x svc nds ph s = Some (ph', s')" and "phaseOk (dependenciesOf x) nds svc ph"
    and "set (dependenciesOf x svc) \<subseteq> set (gkeys nds)"
    and "\<And>d e. gget nds d = Some (Finished True e) \<Longrightarrow> e = None"
  shows "phaseOk (dependenciesOf x) nds svc ph'"
proof (cases "(w, x, svc, nds, ph, s)" rule: phaseStep.cases)
  case (2 _ _ _ _ d ds s)
  with assms(2) obtain past where past: "dependenciesOf x svc = past @ d # ds" "\<forall>d \<in> set past. cachedNode nds d"
    by (auto simp: phaseOk_def)
  with assms(3) obtain phd where phd: "gget nds d = Some phd" by (auto simp: gkeys_iff subset_iff)
  with assms(1) 2 obtain c e where c: "phd = Finished c e" "ph' = (if c then Waiting ds else Finished False None)"
    by (auto split: phase.splits)
  show ?thesis
  proof (cases c)
    case True
    with c phd assms(4) have "cachedNode nds d" by (auto simp: cachedNode_def)
    with past c True show ?thesis by (auto simp: phaseOk_def intro!: exI [of _ "past @ [d]"])
  qed (simp add: c phaseOk_def)
qed (use assms(1,2) in \<open>auto simp: phaseOk_def split: prod.splits sum.splits\<close>)

lemma goStep_Some:
  "goStep w x svc st = Some st' \<longleftrightarrow>
     \<not> crashed st \<and> (\<exists>ph ph' s'. gget (pr_Nodes st) svc = Some ph
       \<and> phaseStep w x svc (pr_Nodes st) ph (pr_Shared st) = Some (ph', s')
       \<and> st' = \<lparr>pr_Nodes = gput svc ph' (pr_Nodes st), pr_Shared = s'\<rparr>)"
  by (auto simp: goStep_def split: option.split prod.split)

lemma gkeys_put_same: "gget m k \<noteq> None \<Longrightarrow> gkeys (gput k v m) = gkeys m"
  by (induction m) (auto simp: gget_Cons gkeys_def gput_def split: if_splits)

lemma parInv_start: "distinct svcs \<Longrightarrow> parInv x svcs (parStart x svcs s)"
  by (auto simp: parInv_def parStart_def gkeys_def comp_def phaseOk_def dest!: gget_in_set)

lemma parInv_step:
  assumes "parInv x svcs st" and "goStep w x svc st = Some st'"
    and "\<And>svc. svc \<in> set svcs \<Longrightarrow> set (dependenciesOf x svc) \<subseteq> set svcs"
  shows "parInv x svcs st'"
proof -
  let ?n = "pr_Nodes st"
  from assms(2) obtain ph ph' s' where st: "gget ?n svc = Some ph" "phaseStep w x svc ?n ph (pr_Shared st) = Some (ph', s')"
    "st' = \<lparr>pr_Nodes = gput svc ph' ?n, pr_Shared = s'\<rparr>" by (auto simp: goStep_Some)
  have keys: "gkeys ?n = svcs" and ok: "\<And>s ph. gget ?n s = Some ph \<Longrightarrow> phaseOk (dependenciesOf x) ?n s ph"
    using assms(1) by (auto simp: parInv_def)
  have "svc \<in> set svcs" using st(1) keys by (auto simp: gkeys_iff)
  moreover have "e = None" if "gget ?n d = Some (Finished True e)" for d e
    using ok [OF that] by (simp add: phaseOk_def)
  ultimately have new: "phaseOk (dependenciesOf x) ?n svc ph'"
    using phaseStep_ok [OF st(2) ok [OF st(1)]] assms(3) keys by auto
  have mono: "cachedNode (pr_Nodes st') d" if "cachedNode ?n d" for d
    using that st by (auto simp: cachedNode_def gget_put)
  have "gkeys (pr_Nodes st') = svcs" using keys st by (simp add: gkeys_put_same)
  moreover have "phaseOk (dependenciesOf x) (pr_Nodes st') s ph" if "gget (pr_Nodes st') s = Some ph" for s ph
  proof (rule phaseOk_mono [OF _ mono])
    show "phaseOk (dependenciesOf x) ?n s ph"
      using that new ok st(3) by (auto simp: gget_put split: if_splits)
  qed
  ultimately show ?thesis by (simp add: parInv_def)
qed

lemma parInv_not_crashed: "parInv x svcs st \<Longrightarrow> distinct svcs \<Longrightarrow> \<not> crashed st"
proof
  assume inv: "parInv x svcs st" and "distinct svcs" and "crashed st"
  then have "gwf (pr_Nodes st)" by (simp add: parInv_def gwf_def gkeys_def)
  moreover obtain k where "(k, Crashed) \<in> set (pr_Nodes st)" using \<open>crashed st\<close> by (auto simp: crashed_def)
  ultimately have "gget (pr_Nodes st) k = Some Crashed" by (rule in_set_gget)
  with inv have "phaseOk (dependenciesOf x) (pr_Nodes st) k Crashed" unfolding parInv_def by blast
  then show False by (simp add: phaseOk_def)
qed

section \<open>The work that is left\<close>

fun phaseWork :: "phase \<Rightarrow> nat" where
  "phaseWork (Waiting ds) = 12 + length ds"
| "phaseWork Hashing = 11"
| "phaseWork (Probing rs) = 8 + length rs"
| "phaseWork (Cloning img) = 7"
| "phaseWork (Publishing kvs) = Suc (length kvs)"
| "phaseWork (Finished isCached e) = 0"
| "phaseWork Crashed = 0"

definition parWork :: "parState \<Rightarrow> nat" where
  "parWork st = sum_list (map (phaseWork \<circ> snd) (pr_Nodes st))"

lemma cacheReferences_at_most_two: "length (cacheReferences w x img h svc) \<le> 2"
  by (simp add: cacheReferences_def GetImageReferencesForTag_def getTargetRegistries_def Let_def)

lemma serviceEnvVars_at_most_five: "length (serviceEnvVars w svc ref) \<le> 5"
  by (simp add: serviceEnvVars_def split: sum.split)

lemma phaseStep_works:
  assumes "phaseStep w x svc nds ph s = Some (ph', s')"
  shows "phaseWork ph' < phaseWork ph"
proof (cases ph)
  case (Waiting ds)
  with assms show ?thesis by (cases ds) (auto split: option.splits phase.splits)
next
  case Hashing
  with assms obtain h where "ph' = Probing (cacheReferences w x (bi_Image (infoOf x svc)) h svc)"
    by (auto split: prod.splits)
  with Hashing show ?thesis using cacheReferences_at_most_two [of w x "bi_Image (infoOf x svc)" h svc] by simp
next
  case (Probing rs)
  with assms show ?thesis by (cases rs) (auto split: prod.splits sum.splits)
next
  case (Cloning img)
  from assms Cloning obtain b e ref where "ph' = Finished b e \<or> ph' = Publishing (serviceEnvVars w svc ref)"
    by (auto split: prod.splits sum.splits)
  with Cloning show ?thesis using serviceEnvVars_at_most_five [of w svc ref] by auto
next
  case (Publishing kvs)
  with assms show ?thesis by (cases "(w, x, svc, nds, ph, s)" rule: phaseStep.cases) auto
qed (use assms in simp_all)

lemma sum_put:
  "gget m k = Some v \<Longrightarrow> sum_list (map (f \<circ> snd) (gput k v' m)) + f v = sum_list (map (f \<circ> snd) m) + (f v' :: nat)"
  by (induction m) (auto simp: gget_Cons gput_def split: if_splits)

lemma goStep_works: "goStep w x svc st = Some st' \<Longrightarrow> parWork st' < parWork st"
proof -
  assume "goStep w x svc st = Some st'"
  then obtain ph ph' s' where st: "gget (pr_Nodes st) svc = Some ph"
    "phaseStep w x svc (pr_Nodes st) ph (pr_Shared st) = Some (ph', s')"
    "st' = \<lparr>pr_Nodes = gput svc ph' (pr_Nodes st), pr_Shared = s'\<rparr>" by (auto simp: goStep_Some)
  show ?thesis using sum_put [OF st(1), of phaseWork ph'] phaseStep_works [OF st(2)] st(3) by (simp add: parWork_def)
qed

lemma parStep_run:
  assumes "(parStep w x ^^ n) (parStart x svcs s) st" and "orderedAfter (dependenciesOf x) {} svcs"
  shows "parInv x svcs st \<and> n + parWork st \<le> (\<Sum>svc \<leftarrow> svcs. 12 + length (dependenciesOf x svc))"
  using assms(1)
proof (induction n arbitrary: st)
  case 0
  then show ?case using assms(2) orderedAfter_distinct [OF assms(2)]
    by (auto simp: parInv_start) (simp add: parWork_def parStart_def comp_def)
next
  case (Suc n)
  then obtain st1 where run: "(parStep w x ^^ n) (parStart x svcs s) st1" and "parStep w x st1 st" by auto
  then obtain svc where step: "goStep w x svc st1 = Some st" by (auto elim: parStepE)
  have "parInv x svcs st"
    using Suc.IH [OF run] step orderedAfter_deps [OF assms(2)] by (blast intro: parInv_step)
  with Suc.IH [OF run] goStep_works [OF step] show ?case by simp
qed

section \<open>No goroutine waits for ever\<close>

lemma phaseStep_enabled:
  assumes "\<not> isFinished ph" and "ph \<noteq> Crashed"
    and "\<And>ds d. ph = Waiting (d # ds) \<Longrightarrow> \<exists>phd. gget nds d = Some phd \<and> isFinished phd"
  shows "\<exists>r. phaseStep w x svc nds ph s = Some r"
proof (cases ph)
  case (Waiting ds)
  show ?thesis
  proof (cases ds)
    case (Cons d ds')
    with Waiting assms(3) obtain phd where "gget nds d = Some phd" "isFinished phd" by blast
    with Waiting Cons show ?thesis by (cases phd) (auto simp: isFinished_def)
  qed (simp add: Waiting)
next
  case (Probing rs)
  then show ?thesis by (cases rs) (auto split: prod.splits sum.splits)
next
  case (Publishing kvs)
  then show ?thesis by (cases kvs) auto
qed (use assms in \<open>auto simp: isFinished_def split: prod.splits sum.splits\<close>)

lemma parInv_progress:
  assumes inv: "parInv x svcs st" and ord: "orderedAfter (dependenciesOf x) {} svcs" and "\<not> allFinished st"
  shows "\<exists>st'. parStep w x st st'"
proof -
  let ?done = "\<lambda>svc. \<exists>ph. gget (pr_Nodes st) svc = Some ph \<and> isFinished ph"
  have wf: "gwf (pr_Nodes st)" and keys: "gkeys (pr_Nodes st) = svcs"
    using inv orderedAfter_distinct [OF ord] by (auto simp: parInv_def gwf_def gkeys_def)
  from assms(3) obtain k ph where "(k, ph) \<in> set (pr_Nodes st)" "\<not> isFinished ph"
    by (auto simp: allFinished_def list_all_iff)
  then have "gget (pr_Nodes st) k = Some ph" "\<not> ?done k" using in_set_gget [OF wf] by auto
  then have "\<exists>k \<in> set svcs. \<not> ?done k" using keys by (metis gkeys_iff)
  then obtain ys a zs where split: "svcs = ys @ a # zs" "\<not> ?done a" "\<forall>y \<in> set ys. ?done y"
    using split_list_first_prop [of svcs "\<lambda>k. \<not> ?done k"] by auto
  have "set (dependenciesOf x a) \<subseteq> set ys" using ord split(1) by (simp add: orderedAfter_append)
  with split(3) have deps: "?done d" if "d \<in> set (dependenciesOf x a)" for d using that by auto
  obtain ph where ph: "gget (pr_Nodes st) a = Some ph" using split(1) keys by (metis gkeys_iff in_set_conv_decomp)
  have ok: "phaseOk (dependenciesOf x) (pr_Nodes st) a ph" using inv ph by (simp add: parInv_def)
  have "\<exists>r. phaseStep w x a (pr_Nodes st) ph (pr_Shared st) = Some r"
  proof (rule phaseStep_enabled)
    show "\<not> isFinished ph" using split(2) ph by auto
    show "ph \<noteq> Crashed" using ok by (auto simp: phaseOk_def)
  next
    fix ds d assume "ph = Waiting (d # ds)"
    with ok deps show "?done d" by (auto simp: phaseOk_def)
  qed
  with ph parInv_not_crashed [OF inv] orderedAfter_distinct [OF ord] show ?thesis
    by (metis goStep_Some parStep.goroutine surj_pair)
qed

lemma example_ordered: "orderedAfter (dependenciesOf exampleSetup) {} exampleOrder"
  by code_simp

lemma parRun_steps: "\<exists>n. (parStep w x ^^ n) st (parRun w x sched st)"
proof (induction sched arbitrary: st)
  case Nil
  show ?case by (intro exI [of _ 0]) (simp add: parRun_def)
next
  case (Cons svc sched)
  show ?case
  proof (cases "goStep w x svc st")
    case None
    with Cons show ?thesis by (simp add: parRun_def)
  next
    case (Some st')
    then have "parStep w x st st'" by (rule parStep.goroutine)
    moreover obtain n where "(parStep w x ^^ n) st' (parRun w x sched st')" using Cons by blast
    ultimately have "(parStep w x ^^ Suc n) st (parRun w x sched st')" by (meson relpowp_Suc_I2)
    moreover have "parRun w x (svc # sched) st = parRun w x sched st'" using Some by (simp add: parRun_def)
    ultimately show ?thesis by (metis (no_types))
  qed
qed

text \<open>C36. The parallel check of the cache ends, however the goroutines interleave and whatever git and the registry
  answer: no run has more steps than the bound, and as long as one goroutine has not ended one of them can go on.\<close>

theorem parallel_check_terminates:
  assumes "orderedAfter (dependenciesOf x) {} svcs" and "(parStep w x ^^ n) (parStart x svcs s) st"
  shows "n \<le> (\<Sum>svc \<leftarrow> svcs. 12 + length (dependenciesOf x svc)) \<and> (allFinished st \<or> (\<exists>st'. parStep w x st st'))"
  using parStep_run [OF assms(2,1)] parInv_progress [OF _ assms(1), of st w] by auto

theorem parallel_check_terminates_witness:
  "\<exists>n \<le> 52. (parStep (exampleBuildWorld [''-base:'']) exampleSetup ^^ n) (parStart exampleSetup exampleOrder exampleBuildState)
      (parRun (exampleBuildWorld [''-base:'']) exampleSetup exampleSchedule (parStart exampleSetup exampleOrder exampleBuildState))"
proof -
  obtain n where n: "(parStep (exampleBuildWorld [''-base:'']) exampleSetup ^^ n) (parStart exampleSetup exampleOrder exampleBuildState)
      (parRun (exampleBuildWorld [''-base:'']) exampleSetup exampleSchedule (parStart exampleSetup exampleOrder exampleBuildState))"
    using parRun_steps by blast
  have "(\<Sum>svc \<leftarrow> exampleOrder. 12 + length (dependenciesOf exampleSetup svc)) = 52" by code_simp
  with parallel_check_terminates [OF example_ordered n] n show ?thesis by auto
qed

section \<open>The result\<close>

text \<open>A run can always be completed: there is a schedule after which all goroutines have ended.\<close>

lemma parRun_completes:
  "parInv x svcs st \<Longrightarrow> orderedAfter (dependenciesOf x) {} svcs \<Longrightarrow> \<exists>sched. allFinished (parRun w x sched st)"
proof (induction "parWork st" arbitrary: st rule: less_induct)
  case less
  show ?case
  proof (cases "allFinished st")
    case True
    then have "allFinished (parRun w x [] st)" by (simp add: parRun_def)
    then show ?thesis ..
  next
    case False
    then obtain svc st' where step: "goStep w x svc st = Some st'"
      using parInv_progress [OF less.prems, of w] by (auto elim: parStepE)
    have "parInv x svcs st'"
      using parInv_step [OF less.prems(1) step] orderedAfter_deps [OF less.prems(2)] by auto
    then obtain sched where "allFinished (parRun w x sched st')"
      using less.hyps [OF goStep_works [OF step]] less.prems(2) by blast
    then have "allFinished (parRun w x (svc # sched) st)" using step by (simp add: parRun_def)
    then show ?thesis ..
  qed
qed

lemma collectNodes_filter:
  assumes "collectNodes nds svcs = Inr (c, n)"
  shows "c = filter (cachedNode nds) svcs \<and> n = filter (\<lambda>s. \<not> cachedNode nds s) svcs
    \<and> (\<forall>svc \<in> set svcs. \<forall>b e. gget nds svc \<noteq> Some (Finished b (Some e)))"
  using assms
proof (induction svcs arbitrary: c n)
  case (Cons svc svcs)
  from Cons.prems have no: "\<forall>b e. gget nds svc \<noteq> Some (Finished b (Some e))" by auto
  with Cons.prems obtain c' n' where rec: "collectNodes nds svcs = Inr (c', n')"
    and cn: "(c, n) = (if gget nds svc = Some (Finished True None) then (svc # c', n') else (c', svc # n'))"
    by (auto split: option.splits phase.splits sum.splits if_splits)
  from Cons.IH [OF rec] cn no show ?case by (auto simp: cachedNode_def split: if_splits)
qed simp

lemma parallel_check_result:
  assumes ord: "orderedAfter (dependenciesOf x) {} svcs"
    and res: "checkInParallel w x sched svcs s = Some (Inr (c, n), s')"
  shows "c = filter (\<lambda>svc. svc \<in> set c) svcs \<and> n = filter (\<lambda>svc. svc \<notin> set c) svcs
    \<and> (\<forall>svc \<in> set c. set (dependenciesOf x svc) \<subseteq> set c)"
proof -
  define st where "st = parRun w x sched (parStart x svcs s)"
  from res have col: "collectNodes (pr_Nodes st) svcs = Inr (c, n)"
    by (auto simp: checkInParallel_def Let_def st_def split: if_splits)
  have inv: "parInv x svcs st"
    unfolding st_def using parRun_steps [of w x "parStart x svcs s" sched] parStep_run [OF _ ord] by blast
  note cn = collectNodes_filter [OF col]
  then have mem: "svc \<in> set c \<longleftrightarrow> svc \<in> set svcs \<and> cachedNode (pr_Nodes st) svc" for svc by auto
  have "set (dependenciesOf x svc) \<subseteq> set c" if "svc \<in> set c" for svc
    using that inv orderedAfter_deps [OF ord] mem by (fastforce simp: parInv_def cachedNode_def phaseOk_def)
  moreover have "c = filter (\<lambda>svc. svc \<in> set c) svcs" "n = filter (\<lambda>svc. svc \<notin> set c) svcs"
    using cn mem by (auto intro: filter_cong)
  ultimately show ?thesis by blast
qed

text \<open>C37. Whatever the schedule and the answers, a parallel check without error splits the services to build into cached
  and others in the order it was given, every image a cached one depends on is cached, and the others come after
  the images they depend on once the cached ones are there.\<close>

theorem parallel_check_partition:
  assumes "orderedAfter (dependenciesOf x) {} svcs"
    and "checkInParallel w x sched svcs s = Some (Inr (cached, notCached), s')"
  shows "cached = filter (\<lambda>svc. svc \<in> set cached) svcs \<and> notCached = filter (\<lambda>svc. svc \<notin> set cached) svcs
    \<and> (\<forall>svc \<in> set cached. set (dependenciesOf x svc) \<subseteq> set cached)
    \<and> orderedAfter (dependenciesOf x) (set cached) notCached"
  using parallel_check_result [OF assms] orderedAfter_filter [OF assms(1), of "set cached" "\<lambda>svc. svc \<notin> set cached"]
  by fastforce

theorem parallel_check_partition_witness:
  "orderedAfter (dependenciesOf exampleSetup) {''base'', ''api''} [''web'', ''app'']"
proof -
  obtain s where "checkInParallel (exampleBuildWorld [''-base:'', ''-api:'']) exampleSetup exampleSchedule exampleOrder exampleBuildState
      = Some (Inr ([''base'', ''api''], [''web'', ''app'']), s)"
    using example_parallel by (auto simp: map_option_case split: option.splits)
  from parallel_check_partition [OF example_ordered this]
  have "orderedAfter (dependenciesOf exampleSetup) (set [''base'', ''api'']) [''web'', ''app'']" by (elim conjE)
  then show ?thesis by (simp only: list.set)
qed

end
