(* ===== verification/Builds.thy ===== *)
theory Builds
  imports BuildChecksProps
begin

text \<open>
  The command that builds the images of a manifest: the order of the services (\<^verbatim>\<open>src/cmd/build/v2/graph.go\<close> and
  \<^verbatim>\<open>src/pkg/dag/dag.go\<close>, over a graph library that is an argument), the options of one build
  (\<^verbatim>\<open>src/pkg/cmd/build/build.go\<close>), the loop of \<^verbatim>\<open>src/cmd/build/v2/build.go\<close>, and the question which images a
  deployment has to build first (\<^verbatim>\<open>src/cmd/build/v2/services.go\<close>). BuildKit is a question to the world.
\<close>

section \<open>The order of the services\<close>

text \<open>The graph library: vertices are nodes with their identifier and what they depend on.\<close>

type_synonym dagNode = "string \<times> string list"

record 'g dagLib =
  dl_NewDAG :: 'g
  dl_AddVertex :: "dagNode \<Rightarrow> 'g \<Rightarrow> upErr + 'g"
  dl_AddEdge :: "string \<Rightarrow> string \<Rightarrow> 'g \<Rightarrow> upErr + 'g"
  dl_GetVertex :: "string \<Rightarrow> 'g \<Rightarrow> upErr + dagNode"
  dl_GetAncestors :: "string \<Rightarrow> 'g \<Rightarrow> upErr + (string, dagNode) gomap"
  dl_OrderedWalk :: "'g \<Rightarrow> dagNode list"

fun addVertices :: "'g dagLib \<Rightarrow> dagNode list \<Rightarrow> 'g \<Rightarrow> upErr + 'g" where
  "addVertices lib [] g = Inr g"
| "addVertices lib (n # ns) g = (case dl_AddVertex lib n g of Inl e \<Rightarrow> Inl e | Inr g' \<Rightarrow> addVertices lib ns g')"

fun addEdgesTo :: "'g dagLib \<Rightarrow> string \<Rightarrow> string list \<Rightarrow> 'g \<Rightarrow> upErr + 'g" where
  "addEdgesTo lib i [] g = Inr g"
| "addEdgesTo lib i (d # ds) g = (case dl_AddEdge lib d i g of Inl e \<Rightarrow> Inl e | Inr g' \<Rightarrow> addEdgesTo lib i ds g')"

fun addEdges :: "'g dagLib \<Rightarrow> dagNode list \<Rightarrow> 'g \<Rightarrow> upErr + 'g" where
  "addEdges lib [] g = Inr g"
| "addEdges lib (n # ns) g = (case addEdgesTo lib (fst n) (snd n) g of Inl e \<Rightarrow> Inl e | Inr g' \<Rightarrow> addEdges lib ns g')"

definition dagFrom :: "'g dagLib \<Rightarrow> dagNode list \<Rightarrow> upErr + 'g" where
  "dagFrom lib ns =
     (case addVertices lib ns (dl_NewDAG lib) of Inl e \<Rightarrow> Inl e | Inr g \<Rightarrow> addEdges lib ns g)"

fun selectNodes :: "'g dagLib \<Rightarrow> 'g \<Rightarrow> string list \<Rightarrow> (string, dagNode) gomap \<Rightarrow> upErr + (string, dagNode) gomap" where
  "selectNodes lib g [] selection = Inr selection"
| "selectNodes lib g (i # is) selection =
     (case dl_GetVertex lib i g of
        Inl e \<Rightarrow> Inl e
      | Inr n \<Rightarrow>
          (case dl_GetAncestors lib i g of
             Inl e \<Rightarrow> Inl e
           | Inr ancestors \<Rightarrow> selectNodes lib g is (grange_put ancestors (gput i n selection))))"

definition Subtree :: "'g dagLib \<Rightarrow> string list \<Rightarrow> 'g \<Rightarrow> upErr + 'g" where
  "Subtree lib nodeIds g =
     (if nodeIds = [] then Inr g
      else case selectNodes lib g nodeIds [] of Inl e \<Rightarrow> Inl e | Inr selection \<Rightarrow> dagFrom lib (map snd selection))"

definition Ordered :: "'g dagLib \<Rightarrow> 'g \<Rightarrow> string list" where
  "Ordered lib g = map fst (dl_OrderedWalk lib g)"

definition newBuildGraph :: "buildSetup \<Rightarrow> string list \<Rightarrow> dagNode list" where
  "newBuildGraph x services = map (\<lambda>svc. (svc, dependenciesOf x svc)) services"

definition orderServices :: "'g dagLib \<Rightarrow> buildSetup \<Rightarrow> string list \<Rightarrow> upErr + string list" where
  "orderServices lib x toBuildSvcs =
     (case dagFrom lib (newBuildGraph x toBuildSvcs) of
        Inl e \<Rightarrow> Inl e
      | Inr tree \<Rightarrow>
          (case Subtree lib toBuildSvcs tree of Inl e \<Rightarrow> Inl e | Inr tree \<Rightarrow> Inr (Ordered lib tree)))"

section \<open>What to build\<close>

definition ErrNoServicesToBuildDefined :: upErr where
  "ErrNoServicesToBuildDefined = ErrText ''no services to build defined''"

definition ErrNoFlagAllowedOnSingleImageBuild :: upErr where
  "ErrNoFlagAllowedOnSingleImageBuild =
     ErrText (''flags only allowed when building a single image with '' @ [CHR 0x60] @ ''okteto build [NAME]'' @ [CHR 0x60])"

definition getToBuildSvcs :: "manifestBuild \<Rightarrow> buildOptions \<Rightarrow> string list" where
  "getToBuildSvcs mb options =
     (if bo_CommandArgs options \<noteq> [] then fst (GetSvcsToBuildFromList mb (bo_CommandArgs options)) else gkeys mb)"

definition validateBuildServices :: "manifestBuild \<Rightarrow> string list \<Rightarrow> upErr option" where
  "validateBuildServices mb svcsToBuild =
     (let invalid = filter (\<lambda>s. gget mb s = None) svcsToBuild
      in if invalid \<noteq> [] then Some (ErrText (''invalid services names, not found at manifest: ['' @ join '' '' invalid @ '']''))
         else None)"

definition validateOptions :: "manifestBuild \<Rightarrow> string list \<Rightarrow> buildOptions \<Rightarrow> upErr option" where
  "validateOptions mb svcsToBuild options =
     (if svcsToBuild = [] then Some ErrNoServicesToBuildDefined
      else case validateBuildServices mb svcsToBuild of
             Some e \<Rightarrow> Some e
           | None \<Rightarrow>
               if length svcsToBuild \<noteq> 1
                  \<and> (bo_Tag options \<noteq> [] \<or> bo_Target options \<noteq> [] \<or> bo_CacheFrom options \<noteq> None \<or> bo_Secrets options \<noteq> None)
               then Some ErrNoFlagAllowedOnSingleImageBuild else None)"

section \<open>The options of one build\<close>

definition BuildkitProgressEnvVar :: string where [go_consts]: "BuildkitProgressEnvVar = ''BUILDKIT_PROGRESS''"
definition OktetoContextEnvVar :: string where [go_consts]: "OktetoContextEnvVar = ''OKTETO_CONTEXT''"
definition OktetoNamespaceEnvVar :: string where [go_consts]: "OktetoNamespaceEnvVar = ''OKTETO_NAMESPACE''"

definition setOutputMode :: "smap \<Rightarrow> string \<Rightarrow> string" where
  "setOutputMode env outputMode =
     (if outputMode \<noteq> [] then outputMode
      else if gstr env BuildkitProgressEnvVar \<in> {''plain'', ''json''} then ''plain'' else ''tty'')"

definition extractFromContextAndDockerfile :: "buildWorld \<Rightarrow> string \<Rightarrow> string \<Rightarrow> string" where
  "extractFromContextAndDockerfile w context dockerfile =
     (if IsAbs dockerfile then dockerfile
      else let joinPath = joinPaths [context, dockerfile]
           in if \<not> bw_IsFile w joinPath then dockerfile
              else case bw_Getwd w of
                     None \<Rightarrow> joinPath
                   | Some wd \<Rightarrow> if IsAbs joinPath then joinPath else joinPaths [wd, joinPath])"

text \<open>\<open>strings.SplitN(arg, "=", 2)\<close>, a missing value being empty.\<close>

definition optionArg :: "string \<Rightarrow> var" where
  "optionArg arg =
     (case index arg (CHR ''='') of
        None \<Rightarrow> \<lparr>va_Name = arg, va_Value = []\<rparr>
      | Some i \<Rightarrow> \<lparr>va_Name = take i arg, va_Value = drop (Suc i) arg\<rparr>)"

text \<open>The arguments of the context; those the manifest sets are not replaced.\<close>

definition defaultBuildArgs :: "buildWorld \<Rightarrow> buildInfo \<Rightarrow> var list" where
  "defaultBuildArgs w b =
     filter (\<lambda>a. va_Name a \<notin> va_Name ` set (bi_Args b) \<and> va_Value a \<noteq> [])
       [\<lparr>va_Name = OktetoContextEnvVar, va_Value = bw_ContextName w\<rparr>,
        \<lparr>va_Name = OktetoNamespaceEnvVar, va_Value = ig_Namespace (bw_Registry w)\<rparr>]"

definition mergedBuildArgs :: "buildWorld \<Rightarrow> buildInfo \<Rightarrow> string list \<Rightarrow> var list" where
  "mergedBuildArgs w b buildArgs =
     (let given = map optionArg buildArgs
      in given @ filter (\<lambda>e. va_Name e \<notin> va_Name ` set given) (bi_Args b)
         @ (if IsOktetoRegistry (bw_Registry w) (bi_Image b) then defaultBuildArgs w b else []))"

definition secretOption :: "string \<times> buildSecret \<Rightarrow> string" where
  "secretOption = (\<lambda>(i, s). if bse_Env s \<noteq> [] then ''id='' @ i @ '',env='' @ bse_Env s else ''id='' @ i @ '',src='' @ bse_File s)"

definition overrideInfo :: "buildWorld \<Rightarrow> string \<Rightarrow> string \<Rightarrow> buildInfo \<Rightarrow> buildOptions \<Rightarrow> buildInfo" where
  "overrideInfo w manifestName svcName b options =
     (let b = (if bo_Target options \<noteq> [] then b\<lparr>bi_Target := bo_Target options\<rparr> else b);
          b = (case bo_CacheFrom options of Some (c # cs) \<Rightarrow> b\<lparr>bi_CacheFrom := c # cs\<rparr> | _ \<Rightarrow> b);
          b = (if bo_Tag options \<noteq> [] then b\<lparr>bi_Image := bo_Tag options\<rparr> else b)
      in if ig_IsOktetoCluster (bw_Registry w) \<and> bi_Image b = [] then
           b\<lparr>bi_Image := useReferenceTemplate DevRegistry (ResourceK8sMetaString manifestName) svcName OktetoDefaultImageTag\<rparr>
         else b)"

definition OptsFromBuildInfo :: "buildWorld \<Rightarrow> smap \<Rightarrow> string \<Rightarrow> string \<Rightarrow> buildInfo \<Rightarrow> buildOptions \<Rightarrow> buildOptions" where
  "OptsFromBuildInfo w env manifestName svcName b options =
     (let b = overrideInfo w manifestName svcName b options
      in \<lparr>bo_File = (if bi_Context b \<noteq> [] \<and> bi_Dockerfile b \<noteq> []
                    then extractFromContextAndDockerfile w (bi_Context b) (bi_Dockerfile b) else bi_Dockerfile b),
          bo_OriginalDockerfile = bi_Dockerfile b,
          bo_OutputMode = setOutputMode env (if bo_OutputMode options \<noteq> [] then bo_OutputMode options else bw_OutputFormat w),
          bo_Path = bi_Context b, bo_Platform = bo_Platform options, bo_Tag = bi_Image b, bo_Target = bi_Target b,
          bo_BuildArgs = SerializeArgs (bw_Expand w env) (mergedBuildArgs w b (bo_BuildArgs options)),
          bo_Secrets = (case (bo_Secrets options, bi_Secrets b) of
                          (None, []) \<Rightarrow> None
                        | (None, ss) \<Rightarrow> Some (map secretOption ss)
                        | (Some os, ss) \<Rightarrow> Some (os @ map secretOption ss)),
          bo_ExportCache = bi_ExportCache b, bo_CommandArgs = [], bo_CacheFrom = Some (bi_CacheFrom b),
          bo_NoCache = bo_NoCache options\<rparr>)"

definition OptsFromBuildInfoForRemoteDeploy :: "buildInfo \<Rightarrow> buildOptions \<Rightarrow> buildOptions" where
  "OptsFromBuildInfoForRemoteDeploy b options =
     \<lparr>bo_File = bi_Dockerfile b, bo_OriginalDockerfile = [], bo_OutputMode = bo_OutputMode options, bo_Path = bi_Context b,
      bo_Platform = bo_Platform options, bo_Tag = [], bo_Target = [], bo_BuildArgs = [], bo_Secrets = None,
      bo_ExportCache = [], bo_CommandArgs = [], bo_CacheFrom = None, bo_NoCache = False\<rparr>"

text \<open>
  An argument of the command line that the manifest does not have is given twice when it is one of the
  context's: only the arguments of the manifest are compared with the defaults.
\<close>

lemma command_line_context_argument_doubled:
  assumes "IsOktetoRegistry (bw_Registry w) (bi_Image b)" and "bi_Args b = []" and "ig_Namespace (bw_Registry w) \<noteq> []"
  shows "filter (\<lambda>a. va_Name a = OktetoNamespaceEnvVar) (mergedBuildArgs w b [''OKTETO_NAMESPACE=other''])
     = [\<lparr>va_Name = OktetoNamespaceEnvVar, va_Value = ''other''\<rparr>,
        \<lparr>va_Name = OktetoNamespaceEnvVar, va_Value = ig_Namespace (bw_Registry w)\<rparr>]"
  using assms by (simp add: mergedBuildArgs_def defaultBuildArgs_def optionArg_def go_consts)

section \<open>The tags of a single image\<close>

fun validateTags :: "registryConfig \<Rightarrow> string list \<Rightarrow> upErr option" where
  "validateTags ig [] = None"
| "validateTags ig (tag # tags) =
     (if \<not> IsOktetoRegistry ig tag then validateTags ig tags
      else let isGlobal = IsGlobalRegistry ig tag;
               expanded = (if isGlobal then ExpandOktetoGlobalRegistry ig tag else ExpandOktetoDevRegistry ig tag)
           in if count_list expanded (CHR ''/'') \<noteq> 2 then
                Some (UserError (ErrText (quote expanded @ '' isn'' @ [CHR 0x27] @ ''t a valid image tag''))
                  (''The Okteto Registry syntax is: '' @ quote ((if isGlobal then GlobalRegistry else DevRegistry) @ ''/image_name'')))
              else validateTags ig tags)"

definition validateImages :: "registryConfig \<Rightarrow> string \<Rightarrow> upErr option" where
  "validateImages ig imageTags =
     (if hasPrefix imageTags (ig_RegistryURL ig) \<and> count_list imageTags (CHR ''/'') = 2 then None
      else validateTags ig (split (CHR '','') imageTags))"

section \<open>Building\<close>

definition getBuildInfoWithoutVolumeMounts :: "registryConfig \<Rightarrow> buildInfo \<Rightarrow> bool \<Rightarrow> buildInfo" where
  "getBuildInfoWithoutVolumeMounts ig i isStackManifest =
     (let r = i\<lparr>bi_VolumesToInclude := []\<rparr>
      in if isStackManifest \<and> ig_IsOktetoCluster ig \<and> \<not> IsOktetoRegistry ig (bi_Image i) then r\<lparr>bi_Image := []\<rparr> else r)"

text \<open>\<open>attempts\<close> more questions, two seconds apart.\<close>

fun digestAttempts :: "buildWorld \<Rightarrow> nat \<Rightarrow> string \<Rightarrow> buildState \<Rightarrow> (upErr + string) \<times> buildState" where
  "digestAttempts w attempts reference s =
     (case lookupReferenceWithDigest w reference s of
        (Inr d, s') \<Rightarrow> (Inr d, s')
      | (Inl e, s') \<Rightarrow>
          (case attempts of 0 \<Rightarrow> (Inl e, s') | Suc n \<Rightarrow> digestAttempts w n reference (logged SleptTwoSeconds s')))"

declare digestAttempts.simps [simp del]

text \<open>Every tag has to be there; the first one is returned.\<close>

fun pushedTags :: "buildWorld \<Rightarrow> string list \<Rightarrow> buildState \<Rightarrow> (upErr + string list) \<times> buildState" where
  "pushedTags w [] s = (Inr [], s)"
| "pushedTags w (tag # tags) s =
     (case digestAttempts w 2 tag s of
        (Inl e, s') \<Rightarrow> (Inl (WrapErr (''error accessing image at registry '' @ tag @ '' after 3 attempts: '') e), s')
      | (Inr d, s') \<Rightarrow>
          (case pushedTags w tags s' of (Inl e, s'') \<Rightarrow> (Inl e, s'') | (Inr ds, s'') \<Rightarrow> (Inr (d # ds), s'')))"

definition userHomeDir :: "smap \<Rightarrow> upErr + string" where
  "userHomeDir env = (if gstr env ''HOME'' = [] then Inl (ErrText ''$HOME is not defined'') else Inr (gstr env ''HOME''))"

definition buildSvcFromDockerfile :: "buildWorld \<Rightarrow> buildSetup \<Rightarrow> buildOptions \<Rightarrow> string \<Rightarrow> buildState
    \<Rightarrow> (upErr + string) \<times> buildState" where
  "buildSvcFromDockerfile w x options svc s =
     (let i = getBuildInfoWithoutVolumeMounts (bw_Registry w) (infoOf x svc) (bu_IsStack x);
          (buildHash, s) = (if smartEnabled x then hashWithBuildContext w i svc s else ([], s));
          tagsToBuild = getServiceDevImageReference (bu_ManifestName x) svc i;
          globalImage = GetGlobalTagFromDevIfNeccesary (bu_Config x) (smartEnabled x) (bw_Registry w) tagsToBuild
                          (ig_Namespace (bw_Registry w)) (ig_RegistryURL (bw_Registry w)) buildHash;
          i = i\<lparr>bi_Image := (if globalImage \<noteq> [] then tagsToBuild @ '','' @ globalImage else tagsToBuild)\<rparr>
      in case AddArgs (userHomeDir (b_Env s)) (expandIn w s) (b_BuildEnv s) i of
           Inl e \<Rightarrow> (Inl (WrapErr (''error expanding build args from service '' @ quote svc @ '': '') e), s)
         | Inr i \<Rightarrow>
             let buildOptions = OptsFromBuildInfo w (b_Env s) (bu_ManifestName x) svc i options;
                 s' = logged (SolvedImage svc) s
             in case bw_Solve w (b_Trace s) buildOptions of
                  Some e \<Rightarrow> (Inl e, s')
                | None \<Rightarrow>
                    (case pushedTags w (split (CHR '','') (bo_Tag buildOptions)) s' of
                       (Inl e, s'') \<Rightarrow> (Inl e, s'')
                     | (Inr ds, s'') \<Rightarrow> (Inr (hd ds), s'')))"

definition buildServiceImages :: "buildWorld \<Rightarrow> buildSetup \<Rightarrow> buildOptions \<Rightarrow> string \<Rightarrow> buildState
    \<Rightarrow> (upErr + string) \<times> buildState" where
  "buildServiceImages w x options svc s =
     (if serviceHasDockerfile (infoOf x svc) then buildSvcFromDockerfile w x options svc s else (Inr [], s))"

fun buildServices :: "buildWorld \<Rightarrow> buildSetup \<Rightarrow> buildOptions \<Rightarrow> string list \<Rightarrow> buildState \<Rightarrow> upErr option \<times> buildState" where
  "buildServices w x options [] s = (None, s)"
| "buildServices w x options (svc # svcs) s =
     (if \<not> ig_IsOktetoCluster (bw_Registry w) \<and> bi_Image (infoOf x svc) = [] then
        (Some (ErrText (quote (''build.'' @ svc @ ''.image'') @ '' is required if your context doesn'' @ [CHR 0x27] @ ''t have Okteto installed'')), s)
      else case buildServiceImages w x options svc s of
             (Inl e, s') \<Rightarrow> (Some (WrapErr (''error building service '' @ quote svc @ '': '') e), s')
           | (Inr imageTag, s') \<Rightarrow> buildServices w x options svcs (SetServiceEnvVars w svc imageTag s'))"

definition checkServicesCache :: "buildWorld \<Rightarrow> buildSetup \<Rightarrow> string list \<Rightarrow> string list \<Rightarrow> buildState
    \<Rightarrow> ((upErr + string list \<times> string list) \<times> buildState) option" where
  "checkServicesCache w x sched svcs s =
     (if sc_IsSequential (bu_Smart x) then Some (checkSequentially w x svcs s) else checkInParallel w x sched svcs s)"

text \<open>
  From the services to build on; \<open>None\<close> when the schedule of the check ends before its goroutines. The
  expansion of the manifest's variables after the last build is left to the caller.
\<close>

definition buildManifest :: "'g dagLib \<Rightarrow> buildWorld \<Rightarrow> buildSetup \<Rightarrow> string list \<Rightarrow> buildOptions \<Rightarrow> buildState
    \<Rightarrow> (upErr option \<times> buildState) option" where
  "buildManifest lib w x sched options s =
     (let toBuildSvcs = getToBuildSvcs (bu_Build x) options
      in case validateOptions (bu_Build x) toBuildSvcs options of
           Some e \<Rightarrow> Some (if errorsIs ErrNoServicesToBuildDefined e then None else Some e, s)
         | None \<Rightarrow>
             (case orderServices lib x toBuildSvcs of
                Inl e \<Rightarrow> Some (Some e, s)
              | Inr svcs \<Rightarrow>
                  if \<not> bo_NoCache options \<and> smartEnabled x then
                    (case checkServicesCache w x sched svcs s of
                       None \<Rightarrow> None
                     | Some (Inl e, s') \<Rightarrow> Some (Some (WrapErr ''error checking images: '' e), s')
                     | Some (Inr (cached, notCached), s') \<Rightarrow> Some (buildServices w x options notCached s'))
                  else Some (buildServices w x options svcs s)))"

section \<open>The images a deployment needs\<close>

definition ErrImageIsNotAOktetoBuildSyntax :: upErr where
  "ErrImageIsNotAOktetoBuildSyntax = ErrText ''image is not an okteto build syntax''"

definition ErrOktetBuildSyntaxImageIsNotInBuildSection :: upErr where
  "ErrOktetBuildSyntaxImageIsNotInBuildSection = ErrText ''image is not in the build section''"

text \<open>
  Whether a service has to be built, the variables of one that has not, and the image of a service of the
  deployed compose that names none.
\<close>

definition checkServiceToBuildDuringDeploy :: "buildWorld \<Rightarrow> buildSetup \<Rightarrow> string \<Rightarrow> composeServices option \<times> buildState
    \<Rightarrow> bool \<times> composeServices option \<times> buildState" where
  "checkServiceToBuildDuringDeploy w x service = (\<lambda>(compose, s).
     (let i = infoOf x service;
          i = (if bu_IsStack x \<and> ig_IsOktetoCluster (bw_Registry w) \<and> \<not> IsOktetoRegistry (bw_Registry w) (bi_Image i)
               then i\<lparr>bi_Image := []\<rparr> else i)
      in case GetImageDigestReferenceForServiceDeploy w (bu_ManifestName x) service i s of
           (Inl e, s') \<Rightarrow> (True, compose, s')
         | (Inr imageWithDigest, s') \<Rightarrow>
             (False,
              (case compose of
                 None \<Rightarrow> None
               | Some svcs \<Rightarrow>
                   (case gget svcs service of
                      None \<Rightarrow> Some svcs
                    | Some svc \<Rightarrow>
                        if s_Image svc = [] then
                          Some (gput service (svc\<lparr>s_Image := ''${'' @ buildEnvKey service ''IMAGE'' @ ''}''\<rparr>) svcs)
                        else Some svcs)),
              SetServiceEnvVars w service imageWithDigest s')))"

fun checkServicesToBuild :: "buildWorld \<Rightarrow> buildSetup \<Rightarrow> string list \<Rightarrow> composeServices option \<times> buildState
    \<Rightarrow> string list \<times> composeServices option \<times> buildState" where
  "checkServicesToBuild w x [] st = ([], st)"
| "checkServicesToBuild w x (svc # svcs) st =
     (case checkServiceToBuildDuringDeploy w x svc st of
        (toBuild, st') \<Rightarrow>
          (case checkServicesToBuild w x svcs st' of
             (rest, st'') \<Rightarrow> (if toBuild then svc # rest else rest, st'')))"

text \<open>
  The checks are goroutines; here each runs at once, in the order of the section. An empty result sends the
  caller on to the expansion of the manifest's variables.
\<close>

definition GetServicesToBuildDuringExecution :: "buildWorld \<Rightarrow> buildSetup \<Rightarrow> string list \<Rightarrow> composeServices option \<times> buildState
    \<Rightarrow> string list \<times> composeServices option \<times> buildState" where
  "GetServicesToBuildDuringExecution w x svcsToDeploy st =
     checkServicesToBuild w x (filter (\<lambda>s. svcsToDeploy = [] \<or> s \<in> set svcsToDeploy) (gkeys (bu_Build x))) st"

text \<open>\<open>OKTETO_BUILD_(\w+)_\<close> in a text: the leftmost match, its group as long as possible.\<close>

fun buildSyntaxName :: "string \<Rightarrow> string option" where
  "buildSyntaxName [] = None"
| "buildSyntaxName (c # cs) =
     (let run = takeWhile isWord (drop 13 (c # cs))
      in if prefix ''OKTETO_BUILD_'' (c # cs) then
           (case lastIndex run (CHR ''_'') of
              Some (Suc i) \<Rightarrow> Some (take (Suc i) run)
            | _ \<Rightarrow> buildSyntaxName cs)
         else buildSyntaxName cs)"

definition GetSvcToBuildFromRegex :: "manifestBuild \<Rightarrow> string \<Rightarrow> upErr + string" where
  "GetSvcToBuildFromRegex mb img =
     (case buildSyntaxName img of
        None \<Rightarrow> Inl ErrImageIsNotAOktetoBuildSyntax
      | Some name \<Rightarrow>
          (case gget (fold (\<lambda>svc m. gput (buildEnvName svc) svc m) (gkeys mb) []) name of
             None \<Rightarrow> Inl ErrOktetBuildSyntaxImageIsNotInBuildSection
           | Some svc \<Rightarrow> Inr svc))"

end
