(* ===== verification/BuildChecksSame.thy ===== *)
theory BuildChecksSame
  imports BuildChecksProps
begin

text \<open>
  In a world that answers the same question always the same way both strategies of smart builds find the same
  services cached: those of a reference definition that goes through the services once, in their order.
\<close>

section \<open>The reference\<close>

text \<open>A service is cached when all it depends on is and the registry has one of its references.\<close>

fun referenceCached :: "('a \<Rightarrow> 'a list) \<Rightarrow> ('a \<Rightarrow> bool) \<Rightarrow> 'a list \<Rightarrow> 'a list \<Rightarrow> 'a list" where
  "referenceCached deps probe cached [] = cached"
| "referenceCached deps probe cached (s # ss) =
     referenceCached deps probe (if set (deps s) \<subseteq> set cached \<and> probe s then cached @ [s] else cached) ss"

lemma referenceCached_unique:
  assumes "orderedAfter deps seen ss" and "X \<inter> seen = set cached"
    and "\<forall>s \<in> set ss. s \<in> X \<longleftrightarrow> set (deps s) \<subseteq> X \<and> probe s"
  shows "set (referenceCached deps probe cached ss) = X \<inter> (seen \<union> set ss)"
  using assms
proof (induction ss arbitrary: seen cached)
  case Nil
  then show ?case by simp
next
  case (Cons s ss)
  have "set (deps s) \<subseteq> X \<longleftrightarrow> set (deps s) \<subseteq> set cached" using Cons.prems(1,2) by auto
  with Cons.prems have "X \<inter> insert s seen = set (if set (deps s) \<subseteq> set cached \<and> probe s then cached @ [s] else cached)"
    by auto
  from Cons.IH [OF _ this] Cons.prems show ?case by simp
qed

section \<open>A world that answers steadily\<close>

definition steadyWorld :: "buildWorld \<Rightarrow> bool" where
  "steadyWorld w \<longleftrightarrow>
     (\<forall>tr. bw_Remote w tr = bw_Remote w [] \<and> bw_DirSHA w tr = bw_DirSHA w [] \<and> bw_DiffHash w tr = bw_DiffHash w []
           \<and> bw_Now w tr = bw_Now w []) \<and> (\<forall>env. bw_Expand w env = bw_Expand w [])"

definition hashIn :: "buildWorld \<Rightarrow> buildSetup \<Rightarrow> buildState \<Rightarrow> string \<Rightarrow> string" where
  "hashIn w x s svc = fst (hashWithBuildContext w (infoOf x svc) svc s)"

definition sameHashes :: "buildWorld \<Rightarrow> buildSetup \<Rightarrow> buildState \<Rightarrow> buildState \<Rightarrow> bool" where
  "sameHashes w x s s' \<longleftrightarrow> (\<forall>svc. hashIn w x s' svc = hashIn w x s svc)"

definition referencesIn :: "buildWorld \<Rightarrow> buildSetup \<Rightarrow> buildState \<Rightarrow> string \<Rightarrow> string list" where
  "referencesIn w x s svc = cacheReferences w x (bi_Image (infoOf x svc)) (hashIn w x s svc) svc"

definition inRegistry :: "buildWorld \<Rightarrow> string \<Rightarrow> bool" where
  "inRegistry w r \<longleftrightarrow> (\<exists>d. digestOf w [] r = Inr d)"

definition probeIn :: "buildWorld \<Rightarrow> buildSetup \<Rightarrow> buildState \<Rightarrow> string \<Rightarrow> bool" where
  "probeIn w x s svc \<longleftrightarrow> list_ex (inRegistry w) (referencesIn w x s svc)"

lemma steady_digest: "steadyWorld w \<Longrightarrow> digestOf w tr r = digestOf w [] r"
  unfolding steadyWorld_def digestOf_def by metis

lemma steady_orRandom:
  assumes "steadyWorld w"
  shows "fst (orRandom w svc a s) =
      (case a of Inl _ \<Rightarrow> EncodeToString (Sum256 (svc @ ''-'' @ showInt (bw_Now w []))) | Inr sha \<Rightarrow> sha)"
    and "b_Hashes (snd (orRandom w svc a s)) = b_Hashes s"
proof -
  have "bw_Now w (b_Trace s) = bw_Now w []" using assms unfolding steadyWorld_def by metis
  then show "fst (orRandom w svc a s) =
      (case a of Inl _ \<Rightarrow> EncodeToString (Sum256 (svc @ ''-'' @ showInt (bw_Now w []))) | Inr sha \<Rightarrow> sha)"
    by (simp add: orRandom_def calculateRandomShaForService_def split: sum.split)
qed (simp add: orRandom_def calculateRandomShaForService_def logged_def split: sum.split)

lemma hashIn_cong:
  assumes st: "steadyWorld w" and h: "gget (b_Hashes s) svc = gget (b_Hashes s') svc"
  shows "hashIn w x s svc = hashIn w x s' svc"
proof (cases "gget (b_Hashes s) svc")
  case None
  have a: "bw_DirSHA w tr = bw_DirSHA w []" "bw_DiffHash w tr = bw_DiffHash w []" for tr
    using st unfolding steadyWorld_def by metis+
  have e: "expandIn w t = bw_Expand w []" for t
    using st unfolding steadyWorld_def expandIn_def by metis
  show ?thesis
    using None h by (simp add: hashIn_def hashWithBuildContext_def split_beta Let_def e
        a [of "b_Trace t" for t] steady_orRandom(1) [OF st])
next
  case (Some v)
  moreover from this h have "gget (b_Hashes s') svc = Some v" by simp
  ultimately show ?thesis by (simp add: hashIn_def hashWithBuildContext_def Let_def)
qed

lemma sameHashes_refl [simp]: "sameHashes w x s s"
  by (simp add: sameHashes_def)

lemma sameHashes_trans: "sameHashes w x s1 s2 \<Longrightarrow> sameHashes w x s2 s3 \<Longrightarrow> sameHashes w x s1 s3"
  by (simp add: sameHashes_def)

lemma sameHashes_eq: "steadyWorld w \<Longrightarrow> b_Hashes s' = b_Hashes s \<Longrightarrow> sameHashes w x s s'"
  unfolding sameHashes_def by (metis hashIn_cong)

lemma hash_sameHashes:
  assumes st: "steadyWorld w" and r: "hashWithBuildContext w (infoOf x svc) svc s = (h, s')"
  shows "h = hashIn w x s svc \<and> sameHashes w x s s'"
proof (intro conjI)
  show h: "h = hashIn w x s svc" using r by (simp add: hashIn_def)
  show "sameHashes w x s s'"
  proof (cases "gget (b_Hashes s) svc")
    case None
    with r have s': "b_Hashes s' = gput svc h (b_Hashes s)"
      by (auto simp: hashWithBuildContext_def Let_def logged_def steady_orRandom(2) [OF st] split: prod.splits
          dest!: arg_cong [of "orRandom _ _ _ _" _ "b_Hashes \<circ> snd"])
    show ?thesis
      unfolding sameHashes_def
    proof
      fix svc'
      show "hashIn w x s' svc' = hashIn w x s svc'"
      proof (cases "svc' = svc")
        case True
        have "gget (b_Hashes s') svc = Some h" by (simp add: s' gget_put)
        then have "hashIn w x s' svc = h" by (simp add: hashIn_def hashWithBuildContext_def Let_def)
        with True h show ?thesis by simp
      next
        case False
        then show ?thesis by (intro hashIn_cong [OF st]) (simp add: s' gget_put)
      qed
    qed
  next
    case (Some v)
    with r have "s' = s" by (simp add: hashWithBuildContext_def Let_def)
    then show ?thesis by simp
  qed
qed

lemma lookup_steady:
  assumes "steadyWorld w" and "lookupReferenceWithDigest w r s = (a, s')"
  shows "a = digestOf w [] r \<and> sameHashes w x s s'"
  using assms steady_digest [OF assms(1)]
  by (auto simp: lookupReferenceWithDigest_def logged_def intro!: sameHashes_eq)

lemma clone_steady: "steadyWorld w \<Longrightarrow> cloneGlobalImageToDev w x img svc s = (a, s') \<Longrightarrow> sameHashes w x s s'"
  by (rule sameHashes_eq)
    (auto simp: cloneGlobalImageToDev_def CloneGlobalImageToDev_def Let_def logged_def split: if_splits sum.splits)

lemma SetEnvVar_steady: "steadyWorld w \<Longrightarrow> sameHashes w x s (SetEnvVar k v s)"
  by (rule sameHashes_eq) (simp_all add: SetEnvVar_def)

lemma SetServiceEnvVars_hashes: "b_Hashes (fold (\<lambda>(k, v). SetEnvVar k v) kvs s) = b_Hashes s"
  by (induction kvs arbitrary: s) (auto simp: SetEnvVar_def)

lemma SetServiceEnvVars_steady: "steadyWorld w \<Longrightarrow> sameHashes w x s (SetServiceEnvVars w svc ref s)"
  by (rule sameHashes_eq) (simp_all add: SetServiceEnvVars_def SetServiceEnvVars_hashes)

lemma probeReferences_steady:
  "steadyWorld w \<Longrightarrow> probeReferences w rs s = (a, s') \<Longrightarrow>
     (a \<noteq> None \<longleftrightarrow> list_ex (inRegistry w) rs) \<and> sameHashes w x s s'"
proof (induction w rs s rule: probeReferences.induct)
  case (2 w r rs s)
  obtain b s1 where l: "lookupReferenceWithDigest w r s = (b, s1)" by fastforce
  note ls = lookup_steady [OF "2.prems"(1) l, of x]
  show ?case
  proof (cases b)
    case (Inl e)
    with 2 l have "(a \<noteq> None \<longleftrightarrow> list_ex (inRegistry w) rs) \<and> sameHashes w x s1 s'" by auto
    moreover from ls Inl have "\<not> inRegistry w r" by (metis Inl_Inr_False inRegistry_def)
    ultimately show ?thesis using ls by (auto intro: sameHashes_trans)
  next
    case (Inr d)
    with "2.prems"(2) l have "a = Some d" "s' = s1" by simp_all
    moreover from Inr ls have "inRegistry w r" by (metis inRegistry_def)
    ultimately show ?thesis using ls by simp
  qed
qed simp

section \<open>The parallel strategy\<close>

definition notCachedNode :: "(string, phase) gomap \<Rightarrow> string \<Rightarrow> bool" where
  "notCachedNode nds d \<longleftrightarrow> (\<exists>e. gget nds d = Some (Finished False e))"

definition phaseRef :: "buildWorld \<Rightarrow> buildSetup \<Rightarrow> buildState \<Rightarrow> (string, phase) gomap \<Rightarrow> string \<Rightarrow> phase \<Rightarrow> bool" where
  "phaseRef w x s0 nds svc ph \<longleftrightarrow>
     (case ph of
        Probing rs \<Rightarrow> \<exists>pre. referencesIn w x s0 svc = pre @ rs \<and> \<not> list_ex (inRegistry w) pre
      | Cloning _ \<Rightarrow> probeIn w x s0 svc
      | Publishing _ \<Rightarrow> probeIn w x s0 svc
      | Finished isCached e \<Rightarrow>
          (if isCached then probeIn w x s0 svc
           else e \<noteq> None \<or> \<not> probeIn w x s0 svc \<or> (\<exists>d \<in> set (dependenciesOf x svc). notCachedNode nds d))
      | _ \<Rightarrow> True)"

definition parRef :: "buildWorld \<Rightarrow> buildSetup \<Rightarrow> buildState \<Rightarrow> parState \<Rightarrow> bool" where
  "parRef w x s0 st \<longleftrightarrow> sameHashes w x s0 (pr_Shared st)
     \<and> (\<forall>svc ph. gget (pr_Nodes st) svc = Some ph \<longrightarrow> phaseRef w x s0 (pr_Nodes st) svc ph)"

lemma phaseRef_mono:
  "phaseRef w x s0 nds svc ph \<Longrightarrow> (\<And>d. notCachedNode nds d \<Longrightarrow> notCachedNode nds' d) \<Longrightarrow> phaseRef w x s0 nds' svc ph"
  by (cases ph) (auto simp: phaseRef_def split: if_splits)

lemma phaseStep_ref:
  assumes step: "phaseStep w x svc nds ph s = Some (ph', s')" and st: "steadyWorld w" and same: "sameHashes w x s0 s"
    and ref: "phaseRef w x s0 nds svc ph" and ok: "phaseOk (dependenciesOf x) nds svc ph"
  shows "phaseRef w x s0 nds svc ph' \<and> sameHashes w x s0 s'"
proof (cases ph)
  case (Waiting ds)
  show ?thesis
  proof (cases ds)
    case (Cons d ds')
    with Waiting ok have "d \<in> set (dependenciesOf x svc)" by (auto simp: phaseOk_def)
    show ?thesis
    proof (cases "\<exists>b e. gget nds d = Some (Finished b e)")
      case True
      then obtain b e where "gget nds d = Some (Finished b e)" by blast
      with step Waiting Cons same \<open>d \<in> _\<close> show ?thesis
        by (cases b) (auto simp: phaseRef_def notCachedNode_def intro!: bexI [of _ d])
    next
      case False
      with step Waiting Cons same show ?thesis
        by (auto simp: phaseRef_def split: option.splits phase.splits)
    qed
  qed (use step Waiting same in \<open>auto simp: phaseRef_def\<close>)
next
  case Hashing
  obtain h s1 where h: "hashWithBuildContext w (infoOf x svc) svc s = (h, s1)" by fastforce
  with hash_sameHashes [OF st h] same have "h = hashIn w x s0 svc" "sameHashes w x s0 s1"
    by (auto simp: sameHashes_def)
  with step Hashing h show ?thesis by (auto simp: phaseRef_def referencesIn_def)
next
  case (Probing rs)
  with ref obtain pre where pre: "referencesIn w x s0 svc = pre @ rs" "\<not> list_ex (inRegistry w) pre"
    by (auto simp: phaseRef_def)
  show ?thesis
  proof (cases rs)
    case Nil
    with pre step Probing same show ?thesis by (auto simp: phaseRef_def probeIn_def)
  next
    case (Cons r rs')
    obtain a s1 where l: "lookupReferenceWithDigest w r s = (a, s1)" by fastforce
    from lookup_steady [OF st l] same have a: "a = digestOf w [] r" "sameHashes w x s0 s1"
      by (auto intro: sameHashes_trans)
    show ?thesis
    proof (cases a)
      case (Inl e)
      with pre Cons a have "referencesIn w x s0 svc = (pre @ [r]) @ rs' \<and> \<not> list_ex (inRegistry w) (pre @ [r])"
        by (auto simp: inRegistry_def)
      then have "phaseRef w x s0 nds svc (Probing rs')" unfolding phaseRef_def by auto
      with step Probing Cons l Inl a show ?thesis by auto
    next
      case (Inr d)
      with a have "inRegistry w r" by (metis inRegistry_def)
      with pre Cons have "probeIn w x s0 svc" by (simp add: probeIn_def)
      with step Probing Cons l Inr a show ?thesis by (auto simp: phaseRef_def)
    qed
  qed
next
  case (Cloning img)
  obtain a s1 where c: "cloneGlobalImageToDev w x img svc s = (a, s1)" by fastforce
  have "sameHashes w x s0 s1" using clone_steady [OF st c] same by (rule sameHashes_trans [rotated])
  with step Cloning c ref show ?thesis by (auto simp: phaseRef_def split: sum.splits)
next
  case (Publishing kvs)
  show ?thesis
  proof (cases kvs)
    case (Cons kv kvs')
    obtain k v where kv: "kv = (k, v)" by fastforce
    have "sameHashes w x s0 (SetEnvVar k v s)" using same SetEnvVar_steady [OF st] by (rule sameHashes_trans)
    with step Publishing Cons kv ref show ?thesis by (auto simp: phaseRef_def)
  qed (use step Publishing ref same in \<open>auto simp: phaseRef_def\<close>)
qed (use step in simp_all)

lemma parRef_start: "distinct svcs \<Longrightarrow> parRef w x s (parStart x svcs s)"
  by (auto simp: parRef_def parStart_def phaseRef_def dest!: gget_in_set)

lemma parRef_step:
  assumes step: "goStep w x svc st = Some st'" and st: "steadyWorld w" and ref: "parRef w x s0 st"
    and inv: "parInv x svcs st"
  shows "parRef w x s0 st'"
proof -
  let ?n = "pr_Nodes st"
  from step obtain ph ph' s' where n: "gget ?n svc = Some ph" "phaseStep w x svc ?n ph (pr_Shared st) = Some (ph', s')"
    "st' = \<lparr>pr_Nodes = gput svc ph' ?n, pr_Shared = s'\<rparr>" by (auto simp: goStep_Some)
  have new: "phaseRef w x s0 ?n svc ph' \<and> sameHashes w x s0 s'"
    using ref inv n by (intro phaseStep_ref [OF n(2) st]) (auto simp: parRef_def parInv_def)
  have mono: "notCachedNode (pr_Nodes st') d" if "notCachedNode ?n d" for d
    using that n by (auto simp: notCachedNode_def gget_put)
  have "phaseRef w x s0 (pr_Nodes st') s ph" if "gget (pr_Nodes st') s = Some ph" for s ph
  proof (rule phaseRef_mono [OF _ mono])
    show "phaseRef w x s0 ?n s ph" using that new ref n(3) by (auto simp: gget_put parRef_def split: if_splits)
  qed
  with new n(3) show ?thesis by (simp add: parRef_def)
qed

lemma parRef_run:
  assumes "(parStep w x ^^ n) (parStart x svcs s) st" and ord: "orderedAfter (dependenciesOf x) {} svcs"
    and "steadyWorld w"
  shows "parRef w x s st"
  using assms(1)
proof (induction n arbitrary: st)
  case 0
  then show ?case using orderedAfter_distinct [OF ord] parRef_start by auto
next
  case (Suc n)
  then obtain st1 where run: "(parStep w x ^^ n) (parStart x svcs s) st1" and "parStep w x st1 st" by auto
  then obtain svc where "goStep w x svc st1 = Some st" by (auto elim: parStepE)
  then show ?case using Suc.IH [OF run] parStep_run [OF run ord] assms(3) by (blast intro: parRef_step)
qed

lemma parallel_reference:
  assumes ord: "orderedAfter (dependenciesOf x) {} svcs" and st: "steadyWorld w"
    and res: "checkInParallel w x sched svcs s = Some (Inr (c, n), s')"
  shows "svc \<in> set svcs \<Longrightarrow> svc \<in> set c \<longleftrightarrow> set (dependenciesOf x svc) \<subseteq> set c \<and> probeIn w x s svc"
proof -
  assume svc: "svc \<in> set svcs"
  define fin where "fin = parRun w x sched (parStart x svcs s)"
  from res have col: "collectNodes (pr_Nodes fin) svcs = Inr (c, n)" and all: "allFinished fin"
    by (auto simp: checkInParallel_def Let_def fin_def split: if_splits)
  obtain k where run: "(parStep w x ^^ k) (parStart x svcs s) fin"
    unfolding fin_def using parRun_steps by blast
  have inv: "parInv x svcs fin" using parStep_run [OF run ord] by blast
  have ref: "parRef w x s fin" by (rule parRef_run [OF run ord st])
  note cn = collectNodes_filter [OF col]
  have mem: "d \<in> set c \<longleftrightarrow> d \<in> set svcs \<and> cachedNode (pr_Nodes fin) d" for d using cn by auto
  obtain ph where ph: "gget (pr_Nodes fin) svc = Some ph" using svc inv by (metis parInv_def gkeys_iff)
  with all have "isFinished ph" using gget_in_set [OF ph] by (force simp: allFinished_def list_all_iff)
  then obtain b e where b: "ph = Finished b e" by (cases ph) (auto simp: isFinished_def)
  with cn svc ph have "e = None" by (cases e) auto
  moreover have "phaseRef w x s (pr_Nodes fin) svc ph" using ref ph unfolding parRef_def by blast
  ultimately have pr: "if b then probeIn w x s svc
      else \<not> probeIn w x s svc \<or> (\<exists>d \<in> set (dependenciesOf x svc). notCachedNode (pr_Nodes fin) d)"
    using b by (auto simp: phaseRef_def)
  show ?thesis
  proof (cases b)
    case True
    with ph b \<open>e = None\<close> svc have "svc \<in> set c" by (simp add: mem cachedNode_def)
    with True pr parallel_check_result [OF ord res] show ?thesis by auto
  next
    case False
    with ph b have "svc \<notin> set c" by (simp add: mem cachedNode_def)
    moreover have "d \<notin> set c" if "notCachedNode (pr_Nodes fin) d" for d
      using that by (auto simp: mem cachedNode_def notCachedNode_def)
    ultimately show ?thesis using False pr by auto
  qed
qed

section \<open>The sequential strategy\<close>

text \<open>What marking the dependants of a service that is not cached has established.\<close>

definition marked :: "manifestBuild \<Rightarrow> string set \<Rightarrow> string list \<Rightarrow> bmap \<Rightarrow> string list \<Rightarrow> bmap \<Rightarrow> string list \<Rightarrow> bool" where
  "marked mb names ds p nc p' new \<longleftrightarrow>
     trues p \<subseteq> trues p' \<and> trues p' \<inter> names = trues p \<inter> names \<union> set new \<and> set new \<inter> trues p = {} \<and> set new \<subseteq> names
     \<and> set ds \<subseteq> trues p' \<and> (\<forall>n \<in> set new. set (dependantMap mb n) \<subseteq> trues p')
     \<and> (\<forall>n \<in> set new. \<exists>u \<in> set nc \<union> set new. n \<in> set (dependantMap mb u))"

lemma addDependents_marked:
  assumes "addDependents mb names ds p nc = (p', nc')" and "\<forall>d \<in> set ds. \<exists>u \<in> set nc. d \<in> set (dependantMap mb u)"
  shows "\<exists>new. nc' = nc @ new \<and> marked mb names ds p nc p' new"
  using assms
proof (induction mb names ds p nc arbitrary: p' nc' rule: addDependents.induct)
  case (1 mb names p nc)
  then show ?case by (auto simp: marked_def)
next
  case (2 mb names d ds p nc)
  show ?case
  proof (cases "gbool p d")
    case True
    with 2 obtain new where "nc' = nc @ new" "marked mb names ds p nc p' new" by auto
    with True show ?thesis by (auto simp: marked_def gbool_trues)
  next
    case fresh: False
    show ?thesis
    proof (cases "d \<in> names")
      case False
      with 2 fresh obtain new where "nc' = nc @ new" "marked mb names ds (gput d True p) nc p' new" by auto
      with False show ?thesis by (auto simp: marked_def trues_put)
    next
      case True
      obtain p1 nc1 where r: "addDependents mb names (dependantMap mb d) (gput d True p) (nc @ [d]) = (p1, nc1)" by fastforce
      with "2.IH"(3) [OF fresh _ r] True obtain new1 where new1: "nc1 = (nc @ [d]) @ new1"
        "marked mb names (dependantMap mb d) (gput d True p) (nc @ [d]) p1 new1" by auto
      from r "2.prems"(1) fresh True have rest: "addDependents mb names ds p1 nc1 = (p', nc')" by simp
      have "\<forall>d \<in> set ds. \<exists>u \<in> set nc1. d \<in> set (dependantMap mb u)" using "2.prems"(2) new1(1) by auto
      with "2.IH"(4) [OF fresh _ r [symmetric] rest] True obtain new2 where new2: "nc' = nc1 @ new2"
        "marked mb names ds p1 nc1 p' new2" by auto
      have "marked mb names (d # ds) p nc p' (d # new1 @ new2)"
        unfolding marked_def
      proof (intro conjI)
        have grow: "trues p1 \<subseteq> trues p'" and d: "d \<in> trues p1" and p: "trues p \<subseteq> trues p1"
          using new1(2) new2(2) by (auto simp: marked_def trues_put)
        show "trues p \<subseteq> trues p'" using grow p by blast
        show "set (d # ds) \<subseteq> trues p'" using grow d new2(2) by (auto simp: marked_def)
        show "set (d # new1 @ new2) \<subseteq> names" using True new1(2) new2(2) by (auto simp: marked_def)
        show "trues p' \<inter> names = trues p \<inter> names \<union> set (d # new1 @ new2)"
          using True new1(2) new2(2) by (auto simp: marked_def trues_put)
        show "set (d # new1 @ new2) \<inter> trues p = {}"
          using fresh p new1(2) new2(2) by (auto simp: marked_def trues_put gbool_trues)
        show "\<forall>n \<in> set (d # new1 @ new2). set (dependantMap mb n) \<subseteq> trues p'"
        proof
          fix n assume "n \<in> set (d # new1 @ new2)"
          then consider "n = d" | "n \<in> set new1" | "n \<in> set new2" by auto
          then show "set (dependantMap mb n) \<subseteq> trues p'"
            using grow new1(2) new2(2) unfolding marked_def by cases blast+
        qed
        show "\<forall>n \<in> set (d # new1 @ new2). \<exists>u \<in> set nc \<union> set (d # new1 @ new2). n \<in> set (dependantMap mb u)"
        proof
          fix n assume "n \<in> set (d # new1 @ new2)"
          then consider "n = d" | "n \<in> set new1" | "n \<in> set new2" by auto
          then show "\<exists>u \<in> set nc \<union> set (d # new1 @ new2). n \<in> set (dependantMap mb u)"
          proof cases
            case 1
            with "2.prems"(2) show ?thesis by auto
          next
            case 2
            with new1(2) obtain u where "u \<in> set (nc @ [d]) \<union> set new1" "n \<in> set (dependantMap mb u)"
              unfolding marked_def by blast
            then show ?thesis by (intro bexI [of _ u]) auto
          next
            case 3
            with new2(2) obtain u where "u \<in> set nc1 \<union> set new2" "n \<in> set (dependantMap mb u)"
              unfolding marked_def by blast
            with new1(1) show ?thesis by (intro bexI [of _ u]) auto
          qed
        qed
      qed
      with new1(1) new2(1) show ?thesis by auto
    qed
  qed
qed

definition seqInv :: "buildWorld \<Rightarrow> buildSetup \<Rightarrow> buildState \<Rightarrow> string set \<Rightarrow> string set \<Rightarrow> bmap \<Rightarrow> string list \<Rightarrow> string list \<Rightarrow> bool" where
  "seqInv w x s0 names done p c nc \<longleftrightarrow>
     trues p \<inter> names = set c \<union> set nc \<and> done \<subseteq> trues p \<and> set c \<inter> set nc = {}
     \<and> (\<forall>u \<in> set c. set (dependenciesOf x u) \<subseteq> set c \<and> probeIn w x s0 u)
     \<and> (\<forall>u \<in> set nc. set (dependantMap (bu_Build x) u) \<inter> names \<subseteq> set nc)
     \<and> (\<forall>u \<in> set nc. \<not> probeIn w x s0 u \<or> (\<exists>d \<in> set (dependenciesOf x u). d \<in> set nc))"

lemma dependantMap_iff:
  "gwf (bu_Build x) \<Longrightarrow> n \<in> set (dependantMap (bu_Build x) u) \<longleftrightarrow> u \<in> set (dependenciesOf x n)"
proof
  assume wf: "gwf (bu_Build x)" and "n \<in> set (dependantMap (bu_Build x) u)"
  then obtain i where "(n, i) \<in> set (bu_Build x)" "u \<in> set (bi_DependsOn i)" by (auto simp: dependantMap_def)
  with in_set_gget [OF wf] show "u \<in> set (dependenciesOf x n)" by (auto simp: dependenciesOf_def infoOf_def)
next
  assume "u \<in> set (dependenciesOf x n)"
  then obtain i where "gget (bu_Build x) n = Some i" "u \<in> set (bi_DependsOn i)"
    by (auto simp: dependenciesOf_def infoOf_def emptyBuildInfo_def split: option.splits)
  with gget_in_set [of "bu_Build x" n i] show "n \<in> set (dependantMap (bu_Build x) u)"
    by (force simp: dependantMap_def)
qed

text \<open>A service that is marked not cached, with its dependants.\<close>

lemma seqInv_not_cached:
  assumes inv: "seqInv w x s0 names done p c nc" and wf: "gwf (bu_Build x)" and svc: "svc \<in> names" "\<not> gbool p svc"
    and np: "\<not> probeIn w x s0 svc"
    and add: "addDependents (bu_Build x) names (dependantMap (bu_Build x) svc) (gput svc True p) (nc @ [svc]) = (p', nc')"
  shows "seqInv w x s0 names (insert svc done) p' c nc'"
proof -
  let ?m = "dependantMap (bu_Build x)"
  from addDependents_marked [OF add] obtain new where new: "nc' = (nc @ [svc]) @ new"
    "marked (bu_Build x) names (?m svc) (gput svc True p) (nc @ [svc]) p' new" by auto
  have p': "trues p' \<inter> names = set c \<union> set nc'" and fresh: "insert svc (set new) \<inter> trues p = {}"
    using new inv svc by (auto simp: marked_def seqInv_def trues_put gbool_trues)
  have cp: "set c \<subseteq> trues p" using inv by (auto simp: seqInv_def)
  have closed: "set (?m u) \<inter> names \<subseteq> set nc'" if u: "u \<in> insert svc (set new)" for u
  proof
    fix v assume v: "v \<in> set (?m u) \<inter> names"
    have "set (?m u) \<subseteq> trues p'" using u new(2) by (auto simp: marked_def)
    with v p' have "v \<in> set c \<union> set nc'" by auto
    moreover have "v \<notin> set c"
    proof
      assume "v \<in> set c"
      moreover have "u \<in> set (dependenciesOf x v)" using v dependantMap_iff [OF wf] by auto
      ultimately have "u \<in> set c" using inv by (auto simp: seqInv_def)
      with u fresh cp show False by auto
    qed
    ultimately show "v \<in> set nc'" by blast
  qed
  have why: "\<exists>d \<in> set (dependenciesOf x u). d \<in> set nc'" if "u \<in> set new" for u
    using that new dependantMap_iff [OF wf] by (fastforce simp: marked_def)
  show ?thesis
    unfolding seqInv_def
  proof (intro conjI)
    show "insert svc done \<subseteq> trues p'" using inv new(2) by (auto simp: seqInv_def marked_def trues_put)
    show "set c \<inter> set nc' = {}" using inv fresh cp new(1) by (auto simp: seqInv_def)
    show "\<forall>u \<in> set nc'. set (?m u) \<inter> names \<subseteq> set nc'"
      using inv closed new(1) by (fastforce simp: seqInv_def)
    show "\<forall>u \<in> set nc'. \<not> probeIn w x s0 u \<or> (\<exists>d \<in> set (dependenciesOf x u). d \<in> set nc')"
      using inv np why new(1) by (auto simp: seqInv_def)
  qed (use inv p' in \<open>auto simp: seqInv_def\<close>)
qed

lemma seqInv_cached:
  assumes inv: "seqInv w x s0 names done p c nc" and wf: "gwf (bu_Build x)" and svc: "svc \<in> names" "\<not> gbool p svc"
    and "probeIn w x s0 svc" and deps: "set (dependenciesOf x svc) \<subseteq> done" "done \<subseteq> names"
  shows "seqInv w x s0 names (insert svc done) (gput svc True p) (c @ [svc]) nc"
proof -
  have "d \<in> set c" if d: "d \<in> set (dependenciesOf x svc)" for d
  proof (rule ccontr)
    assume "d \<notin> set c"
    with d deps inv have "d \<in> set nc" by (auto simp: seqInv_def)
    moreover have "svc \<in> set (dependantMap (bu_Build x) d)" using d dependantMap_iff [OF wf] by simp
    ultimately have "svc \<in> set nc" using inv svc(1) by (auto simp: seqInv_def)
    with inv svc(2) show False by (auto simp: seqInv_def gbool_trues)
  qed
  with assms show ?thesis by (auto simp: seqInv_def trues_put gbool_trues)
qed

lemma checkInOrder_reference:
  assumes "checkInOrder w x names svcs p c nc s = (Inr (c', nc'), s')" and "steadyWorld w" and "gwf (bu_Build x)"
    and "seqInv w x s0 names done p c nc" and "orderedAfter (dependenciesOf x) done svcs" and "names = done \<union> set svcs"
    and "sameHashes w x s0 s"
  shows "\<exists>p'. seqInv w x s0 names names p' c' nc'"
  using assms
proof (induction w x names svcs p c nc s arbitrary: "done" rule: checkInOrder.induct)
  case (1 w x names p c nc s)
  then show ?case by auto
next
  case (2 w x names svc svcs p c nc s)
  have names: "names = insert svc done \<union> set svcs" and ord: "orderedAfter (dependenciesOf x) (insert svc done) svcs"
    and deps: "set (dependenciesOf x svc) \<subseteq> done" "done \<subseteq> names" and sn: "svc \<in> names"
    using "2.prems"(5,6) by auto
  show ?case
  proof (cases "gbool p svc")
    case True
    with "2.prems"(4) have "seqInv w x s0 names (insert svc done) p c nc" by (auto simp: seqInv_def gbool_trues)
    with "2.IH"(1) [OF True _ "2.prems"(2,3) _ ord names] True "2.prems"(1,7) show ?thesis by simp
  next
    case fresh: False
    obtain h s1 where h: "hashWithBuildContext w (infoOf x svc) svc s = (h, s1)" by fastforce
    obtain a s2 where a: "IsCached w x (bi_Image (infoOf x svc)) h svc s1 = (a, s2)" by fastforce
    have s1: "sameHashes w x s0 s1" "h = hashIn w x s0 svc"
      using hash_sameHashes [OF "2.prems"(2) h] "2.prems"(7) by (auto simp: sameHashes_def)
    have s2: "sameHashes w x s0 s2" and probe: "a \<noteq> None \<longleftrightarrow> probeIn w x s0 svc"
      using probeReferences_steady [OF "2.prems"(2) a [unfolded IsCached_def], of x] s1
      by (auto simp: probeIn_def referencesIn_def intro: sameHashes_trans)
    show ?thesis
    proof (cases a)
      case None
      obtain p1 nc1 where add: "addDependents (bu_Build x) names (dependantMap (bu_Build x) svc) (gput svc True p) (nc @ [svc]) = (p1, nc1)"
        by fastforce
      have inv: "seqInv w x s0 names (insert svc done) p1 c nc1"
        using seqInv_not_cached [OF "2.prems"(4,3) sn fresh _ add] probe None by simp
      have "checkInOrder w x names svcs p1 c nc1 s2 = (Inr (c', nc'), s')"
        using "2.prems"(1) fresh h a None add by simp
      then show ?thesis
        using "2.IH"(2) [OF fresh h [symmetric] a [symmetric] None add [symmetric] _ "2.prems"(2,3) inv ord names s2] by blast
    next
      case (Some img)
      obtain r s3 where r: "cloneGlobalImageToDev w x img svc s2 = (r, s3)" by fastforce
      with "2.prems"(1) fresh h a Some obtain ref where ref: "r = Inr ref" by (cases r) auto
      have inv: "seqInv w x s0 names (insert svc done) (gput svc True p) (c @ [svc]) nc"
        using seqInv_cached [OF "2.prems"(4,3) sn fresh _ deps] probe Some by simp
      have s4: "sameHashes w x s0 (SetServiceEnvVars w svc ref s3)"
        using s2 clone_steady [OF "2.prems"(2) r] SetServiceEnvVars_steady [OF "2.prems"(2)] by (metis sameHashes_trans)
      have "checkInOrder w x names svcs (gput svc True p) (c @ [svc]) nc (SetServiceEnvVars w svc ref s3) = (Inr (c', nc'), s')"
        using "2.prems"(1) fresh h a Some r ref by simp
      then show ?thesis
        using "2.IH"(3) [OF fresh h [symmetric] a [symmetric] Some r [symmetric] ref _ "2.prems"(2,3) inv ord names s4] by blast
    qed
  qed
qed

lemma sequential_reference:
  assumes ord: "orderedAfter (dependenciesOf x) {} svcs" and st: "steadyWorld w" and wf: "gwf (bu_Build x)"
    and res: "checkSequentially w x svcs s = (Inr (c, n), s')"
  shows "set c \<union> set n = set svcs \<and> set c \<inter> set n = {}
    \<and> (\<forall>svc \<in> set svcs. svc \<in> set c \<longleftrightarrow> set (dependenciesOf x svc) \<subseteq> set c \<and> probeIn w x s svc)"
proof -
  have "seqInv w x s (set svcs) {} [] [] []" by (simp add: seqInv_def)
  from checkInOrder_reference [OF res [unfolded checkSequentially_def] st wf this ord] obtain p where
    inv: "seqInv w x s (set svcs) (set svcs) p c n" by auto
  then have part: "set c \<union> set n = set svcs" "set c \<inter> set n = {}" by (auto simp: seqInv_def)
  moreover have "svc \<in> set c \<longleftrightarrow> set (dependenciesOf x svc) \<subseteq> set c \<and> probeIn w x s svc" if "svc \<in> set svcs" for svc
  proof (cases "svc \<in> set c")
    case True
    then show ?thesis using inv by (simp add: seqInv_def)
  next
    case False
    with that part have "svc \<in> set n" by blast
    with inv have "\<not> probeIn w x s svc \<or> (\<exists>d \<in> set (dependenciesOf x svc). d \<in> set n)" by (simp add: seqInv_def)
    with False part(2) show ?thesis by blast
  qed
  ultimately show ?thesis by blast
qed



end
