(* ===== verification/BuildsProps.thy ===== *)
theory BuildsProps
  imports Builds BuildChecksSame
begin

text \<open>
  What the build command guarantees: the order it computes with the graph library puts every service after
  those it depends on, and a build without error builds every service that is not cached once, in that order.
\<close>

section \<open>What is relied on of the graph library\<close>

text \<open>
  \<open>R g V E\<close>: the graph \<open>g\<close> has the vertices \<open>V\<close> and the edges \<open>E\<close>. Vertices have identifiers of their own, edges
  join vertices, the vertices the library returns are of the graph, and the ordered walk visits each vertex
  once and after the vertices its edges come from.
\<close>

definition dagLaws :: "'g dagLib \<Rightarrow> ('g \<Rightarrow> dagNode set \<Rightarrow> (string \<times> string) set \<Rightarrow> bool) \<Rightarrow> bool" where
  "dagLaws lib R \<longleftrightarrow>
     R (dl_NewDAG lib) {} {}
     \<and> (\<forall>g V E n g'. R g V E \<longrightarrow> dl_AddVertex lib n g = Inr g' \<longrightarrow> R g' (insert n V) E \<and> fst n \<notin> fst ` V)
     \<and> (\<forall>g V E a b g'. R g V E \<longrightarrow> dl_AddEdge lib a b g = Inr g' \<longrightarrow> R g' V (insert (a, b) E) \<and> a \<in> fst ` V \<and> b \<in> fst ` V)
     \<and> (\<forall>g V E i n. R g V E \<longrightarrow> dl_GetVertex lib i g = Inr n \<longrightarrow> n \<in> V \<and> fst n = i)
     \<and> (\<forall>g V E i m. R g V E \<longrightarrow> dl_GetAncestors lib i g = Inr m \<longrightarrow> (\<forall>(k, n) \<in> set m. n \<in> V \<and> fst n = k))
     \<and> (\<forall>g V E. R g V E \<longrightarrow> distinct (map fst (dl_OrderedWalk lib g)) \<and> set (dl_OrderedWalk lib g) = V
          \<and> (\<forall>ys n zs. dl_OrderedWalk lib g = ys @ n # zs \<longrightarrow> (\<forall>a. (a, fst n) \<in> E \<longrightarrow> a \<in> fst ` set ys)))"

lemma dagLaws_D:
  assumes "dagLaws lib R"
  shows dagLaws_new: "R (dl_NewDAG lib) {} {}"
    and dagLaws_vertex: "R g V E \<Longrightarrow> dl_AddVertex lib n g = Inr g' \<Longrightarrow> R g' (insert n V) E \<and> fst n \<notin> fst ` V"
    and dagLaws_edge: "R g V E \<Longrightarrow> dl_AddEdge lib a b g = Inr g' \<Longrightarrow> R g' V (insert (a, b) E) \<and> a \<in> fst ` V \<and> b \<in> fst ` V"
    and dagLaws_get: "R g V E \<Longrightarrow> dl_GetVertex lib i g = Inr n \<Longrightarrow> n \<in> V \<and> fst n = i"
    and dagLaws_ancestors: "R g V E \<Longrightarrow> dl_GetAncestors lib i g = Inr m \<Longrightarrow> \<forall>(k, n) \<in> set m. n \<in> V \<and> fst n = k"
    and dagLaws_walk: "R g V E \<Longrightarrow> distinct (map fst (dl_OrderedWalk lib g)) \<and> set (dl_OrderedWalk lib g) = V
          \<and> (\<forall>ys n zs. dl_OrderedWalk lib g = ys @ n # zs \<longrightarrow> (\<forall>a. (a, fst n) \<in> E \<longrightarrow> a \<in> fst ` set ys))"
proof -
  note laws = assms [unfolded dagLaws_def]
  show "R (dl_NewDAG lib) {} {}" using laws by (elim conjE)
  show "R g V E \<Longrightarrow> dl_AddVertex lib n g = Inr g' \<Longrightarrow> R g' (insert n V) E \<and> fst n \<notin> fst ` V"
    using laws [THEN conjunct2, THEN conjunct1] by iprover
  show "R g V E \<Longrightarrow> dl_AddEdge lib a b g = Inr g' \<Longrightarrow> R g' V (insert (a, b) E) \<and> a \<in> fst ` V \<and> b \<in> fst ` V"
    using laws [THEN conjunct2, THEN conjunct2, THEN conjunct1] by iprover
  show "R g V E \<Longrightarrow> dl_GetVertex lib i g = Inr n \<Longrightarrow> n \<in> V \<and> fst n = i"
    using laws [THEN conjunct2, THEN conjunct2, THEN conjunct2, THEN conjunct1] by iprover
  show "R g V E \<Longrightarrow> dl_GetAncestors lib i g = Inr m \<Longrightarrow> \<forall>(k, n) \<in> set m. n \<in> V \<and> fst n = k"
    using laws [THEN conjunct2, THEN conjunct2, THEN conjunct2, THEN conjunct2, THEN conjunct1] by iprover
  show "R g V E \<Longrightarrow> distinct (map fst (dl_OrderedWalk lib g)) \<and> set (dl_OrderedWalk lib g) = V
          \<and> (\<forall>ys n zs. dl_OrderedWalk lib g = ys @ n # zs \<longrightarrow> (\<forall>a. (a, fst n) \<in> E \<longrightarrow> a \<in> fst ` set ys))"
    using laws [THEN conjunct2, THEN conjunct2, THEN conjunct2, THEN conjunct2, THEN conjunct2] by iprover
qed

lemma addVertices_laws:
  "dagLaws lib R \<Longrightarrow> R g V E \<Longrightarrow> addVertices lib ns g = Inr g' \<Longrightarrow> R g' (V \<union> set ns) E"
proof (induction lib ns g arbitrary: V rule: addVertices.induct)
  case (2 lib n ns g)
  then obtain g1 where g1: "dl_AddVertex lib n g = Inr g1" "addVertices lib ns g1 = Inr g'" by (auto split: sum.splits)
  from dagLaws_vertex [OF "2.prems"(1,2) g1(1)] have "R g1 (insert n V) E" by blast
  from "2.IH" [OF g1(1) "2.prems"(1) this g1(2)] show ?case by simp
qed auto

lemma addEdgesTo_laws:
  "dagLaws lib R \<Longrightarrow> R g V E \<Longrightarrow> addEdgesTo lib i ds g = Inr g' \<Longrightarrow>
     R g' V (E \<union> (\<lambda>d. (d, i)) ` set ds) \<and> set ds \<subseteq> fst ` V"
proof (induction lib i ds g arbitrary: E rule: addEdgesTo.induct)
  case (2 lib i d ds g)
  then obtain g1 where g1: "dl_AddEdge lib d i g = Inr g1" "addEdgesTo lib i ds g1 = Inr g'" by (auto split: sum.splits)
  from dagLaws_edge [OF "2.prems"(1,2) g1(1)] have r: "R g1 V (insert (d, i) E)" and "d \<in> fst ` V" by blast+
  with "2.IH" [OF g1(1) "2.prems"(1) r g1(2)] show ?case by simp
qed auto

lemma addEdges_laws:
  "dagLaws lib R \<Longrightarrow> R g V E \<Longrightarrow> addEdges lib ns g = Inr g' \<Longrightarrow>
     R g' V (E \<union> {(d, fst n) | d n. n \<in> set ns \<and> d \<in> set (snd n)}) \<and> (\<forall>n \<in> set ns. set (snd n) \<subseteq> fst ` V)"
proof (induction lib ns g arbitrary: E rule: addEdges.induct)
  case (2 lib n ns g)
  then obtain g1 where g1: "addEdgesTo lib (fst n) (snd n) g = Inr g1" "addEdges lib ns g1 = Inr g'"
    by (auto split: sum.splits)
  with addEdgesTo_laws [OF "2.prems"(1,2)] have r1: "R g1 V (E \<union> (\<lambda>d. (d, fst n)) ` set (snd n))"
    and n: "set (snd n) \<subseteq> fst ` V" by blast+
  have "E \<union> (\<lambda>d. (d, fst n)) ` set (snd n) \<union> {(d, fst m) | d m. m \<in> set ns \<and> d \<in> set (snd m)}
      = E \<union> {(d, fst m) | d m. m \<in> set (n # ns) \<and> d \<in> set (snd m)}" by (auto simp del: split_paired_Ex)
  with "2.IH" [OF g1(1) "2.prems"(1) r1 g1(2)] n show ?case by simp
qed simp

lemma dagFrom_laws:
  assumes "dagLaws lib R" and "dagFrom lib ns = Inr g"
  shows "R g (set ns) {(d, fst n) | d n. n \<in> set ns \<and> d \<in> set (snd n)} \<and> (\<forall>n \<in> set ns. set (snd n) \<subseteq> fst ` set ns)"
proof -
  from assms(2) obtain g1 where g1: "addVertices lib ns (dl_NewDAG lib) = Inr g1" "addEdges lib ns g1 = Inr g"
    by (auto simp: dagFrom_def split: sum.splits)
  from addVertices_laws [OF assms(1) dagLaws_new [OF assms(1)] g1(1)] have "R g1 (set ns) {}" by simp
  from addEdges_laws [OF assms(1) this g1(2)] show ?thesis by simp
qed

lemma selectNodes_laws:
  fixes lib :: "'g dagLib"
  assumes "dagLaws lib R" and "R g V E"
  shows "selectNodes lib g is sel = Inr sel' \<Longrightarrow> \<forall>(k, n) \<in> set sel. n \<in> V \<and> fst n = k \<Longrightarrow>
     (\<forall>(k, n) \<in> set sel'. n \<in> V \<and> fst n = k) \<and> set (gkeys sel) \<union> set is \<subseteq> set (gkeys sel')"
proof (induction "is" arbitrary: sel)
  case (Cons i "is")
  then obtain n m where n: "dl_GetVertex lib i g = Inr n" "dl_GetAncestors lib i g = Inr m"
    and rec: "selectNodes lib g is (grange_put m (gput i n sel)) = Inr sel'" by (auto split: sum.splits)
  have nV: "n \<in> V \<and> fst n = i" and mV: "\<forall>(k, n) \<in> set m. n \<in> V \<and> fst n = k"
    using dagLaws_get [OF assms n(1)] dagLaws_ancestors [OF assms n(2)] by blast+
  have put: "set (gput k v s) \<subseteq> insert (k, v) (set s)" for k :: string and v :: dagNode and s
    by (induction s) (auto simp: gput_def)
  have range: "set (grange_put m' s) \<subseteq> set m' \<union> set s" for m' :: "(string, dagNode) gomap" and s
  proof (induction m' s rule: grange_put.induct)
    case (2 k v src dst)
    with put [of k v dst] show ?case by auto
  qed simp
  have keys: "set (gkeys (grange_put m' s)) = set (gkeys m') \<union> set (gkeys s)" for m' :: "(string, dagNode) gomap" and s
  proof (induction m' s rule: grange_put.induct)
    case (2 k v src dst)
    have "gkeys ((k, v) # src) = k # gkeys src" by (simp add: gkeys_def)
    with 2 show ?case by (simp add: set_gkeys_put)
  qed (simp add: gkeys_def)
  have "\<forall>(k, n) \<in> set (grange_put m (gput i n sel)). n \<in> V \<and> fst n = k"
    using range [of m "gput i n sel"] put [of i n sel] nV mV Cons.prems(2) by fastforce
  from Cons.IH [OF rec this] show ?case by (auto simp: keys set_gkeys_put)
qed auto

text \<open>Services in an order in which each comes after what it depends on, of the services asked for.\<close>

lemma orderedAfter_walk:
  assumes "distinct xs" and "\<And>ys n zs. xs = ys @ n # zs \<Longrightarrow> set (deps n) \<subseteq> set ys"
  shows "orderedAfter deps {} xs"
proof -
  have "orderedAfter deps (set ys) zs" if "xs = ys @ zs" for ys zs
    using that
  proof (induction zs arbitrary: ys)
    case (Cons n zs)
    then have "orderedAfter deps (set (ys @ [n])) zs" by (intro Cons.IH) simp
    with Cons.prems assms show ?case by auto
  qed simp
  from this [of "[]" xs] show ?thesis by simp
qed

lemma orderServices_ordered:
  assumes laws: "dagLaws lib R" and res: "orderServices lib x toBuild = Inr svcs"
  shows "orderedAfter (dependenciesOf x) {} svcs \<and> set svcs = set toBuild"
proof -
  let ?N = "newBuildGraph x toBuild" and ?E = "{(d, s) | d s. s \<in> set toBuild \<and> d \<in> set (dependenciesOf x s)}"
  from res obtain g g' where g: "dagFrom lib ?N = Inr g" and g': "Subtree lib toBuild g = Inr g'" and svcs: "svcs = Ordered lib g'"
    by (auto simp: orderServices_def split: sum.splits)
  have E: "{(d, fst n) | d n. n \<in> set ns \<and> d \<in> set (snd n)} = ?E" if "set ns = set ?N" for ns
    unfolding that by (auto simp: newBuildGraph_def)
  have Rg: "R g (set ?N) ?E" using dagFrom_laws [OF laws g] E [of ?N] by simp
  have "R g' (set ?N) ?E"
  proof (cases "toBuild = []")
    case True
    with g' Rg show ?thesis by (simp add: Subtree_def)
  next
    case False
    with g' obtain sel where sel: "selectNodes lib g toBuild [] = Inr sel" "dagFrom lib (map snd sel) = Inr g'"
      by (auto simp: Subtree_def split: sum.splits)
    from selectNodes_laws [OF laws Rg sel(1)] have mem: "\<forall>(k, n) \<in> set sel. n \<in> set ?N \<and> fst n = k"
      and keys: "set toBuild \<subseteq> set (gkeys sel)" by auto
    have "set (map snd sel) = set ?N"
    proof
      show "set ?N \<subseteq> set (map snd sel)"
      proof
        fix n assume n: "n \<in> set ?N"
        then obtain s where s: "s \<in> set toBuild" "n = (s, dependenciesOf x s)" by (auto simp: newBuildGraph_def)
        with keys obtain m where "(s, m) \<in> set sel" by (auto simp: gkeys_def)
        with mem s show "n \<in> set (map snd sel)" by (force simp: newBuildGraph_def)
      qed
    qed (use mem in auto)
    with dagFrom_laws [OF laws sel(2)] E show ?thesis by simp
  qed
  then have walk: "distinct svcs" "set (dl_OrderedWalk lib g') = set ?N"
    "\<And>ys n zs a. dl_OrderedWalk lib g' = ys @ n # zs \<Longrightarrow> (a, fst n) \<in> ?E \<Longrightarrow> a \<in> fst ` set ys"
    using dagLaws_walk [OF laws] unfolding svcs Ordered_def by (simp, simp, blast)
  have set: "set svcs = set toBuild"
    unfolding svcs Ordered_def set_map walk(2) by (force simp: newBuildGraph_def)
  have "set (dependenciesOf x n) \<subseteq> set ys" if split: "svcs = ys @ n # zs" for ys n zs
  proof
    fix a assume a: "a \<in> set (dependenciesOf x n)"
    from split obtain ys' m zs' where w: "dl_OrderedWalk lib g' = ys' @ m # zs'" "map fst ys' = ys" "fst m = n"
      unfolding svcs Ordered_def by (auto simp: map_eq_append_conv map_eq_Cons_conv)
    have "(a, fst m) \<in> ?E" using a split set w(3) by auto
    with walk(3) [OF w(1)] w(2) show "a \<in> set ys" by auto
  qed
  with walk(1) set show ?thesis by (simp add: orderedAfter_walk)
qed

section \<open>What is built\<close>

definition solvedIn :: "buildEvent list \<Rightarrow> string list" where
  "solvedIn tr = List.map_filter (\<lambda>e. case e of SolvedImage svc \<Rightarrow> Some svc | _ \<Rightarrow> None) (rev tr)"

lemma solvedIn_Cons:
  "solvedIn (e # tr) = solvedIn tr @ (case e of SolvedImage svc \<Rightarrow> [svc] | _ \<Rightarrow> [])"
  by (cases e) (simp_all add: solvedIn_def map_filter_def)

lemma solvedIn_Nil [simp]: "solvedIn [] = []"
  by (simp add: solvedIn_def map_filter_def)

definition solvedBy :: "buildState \<Rightarrow> string list" where
  "solvedBy s = solvedIn (b_Trace s)"

lemma solvedBy_logged: "solvedBy (logged e s) = solvedBy s @ (case e of SolvedImage svc \<Rightarrow> [svc] | _ \<Rightarrow> [])"
  by (simp add: solvedBy_def logged_def solvedIn_Cons)

lemma solvedBy_update [simp]: "solvedBy (s\<lparr>b_Hashes := h\<rparr>) = solvedBy s" "solvedBy (s\<lparr>b_BuildEnv := e, b_Env := f\<rparr>) = solvedBy s"
  by (simp_all add: solvedBy_def)

lemma solvedBy_SetEnvVar [simp]: "solvedBy (SetEnvVar k v s) = solvedBy s"
  by (simp add: SetEnvVar_def)

lemma solvedBy_SetServiceEnvVars [simp]: "solvedBy (SetServiceEnvVars w svc ref s) = solvedBy s"
proof -
  have "solvedBy (fold (\<lambda>(k, v). SetEnvVar k v) kvs s) = solvedBy s" for kvs
    by (induction kvs arbitrary: s) auto
  then show ?thesis by (simp add: SetServiceEnvVars_def)
qed

lemma solvedBy_orRandom: "orRandom w svc a s = (h, s') \<Longrightarrow> solvedBy s' = solvedBy s"
  by (auto simp: orRandom_def calculateRandomShaForService_def solvedBy_logged split: sum.splits)

lemma solvedBy_hash: "hashWithBuildContext w i svc s = (h, s') \<Longrightarrow> solvedBy s' = solvedBy s"
  by (auto simp: hashWithBuildContext_def Let_def solvedBy_logged dest!: solvedBy_orRandom split: option.splits prod.splits)

lemma solvedBy_lookup: "lookupReferenceWithDigest w r s = (a, s') \<Longrightarrow> solvedBy s' = solvedBy s"
  by (auto simp: lookupReferenceWithDigest_def solvedBy_logged)

lemma solvedBy_clone: "cloneGlobalImageToDev w x img svc s = (a, s') \<Longrightarrow> solvedBy s' = solvedBy s"
  by (auto simp: cloneGlobalImageToDev_def CloneGlobalImageToDev_def Let_def solvedBy_logged split: if_splits sum.splits)

lemma solvedBy_phaseStep: "phaseStep w x svc nds ph s = Some (ph', s') \<Longrightarrow> solvedBy s' = solvedBy s"
  by (cases "(w, x, svc, nds, ph, s)" rule: phaseStep.cases)
    (auto split: option.splits phase.splits prod.splits sum.splits dest: solvedBy_hash solvedBy_lookup solvedBy_clone)

lemma solvedBy_goStep: "goStep w x svc st = Some st' \<Longrightarrow> solvedBy (pr_Shared st') = solvedBy (pr_Shared st)"
  by (auto simp: goStep_Some dest: solvedBy_phaseStep)

lemma solvedBy_parRun: "solvedBy (pr_Shared (parRun w x sched st)) = solvedBy (pr_Shared st)"
  by (induction sched arbitrary: st) (auto simp: parRun_def solvedBy_goStep split: option.split)

lemma solvedBy_checkInParallel: "checkInParallel w x sched svcs s = Some (r, s') \<Longrightarrow> solvedBy s' = solvedBy s"
  using solvedBy_parRun [of w x sched "parStart x svcs s"]
  by (auto simp: checkInParallel_def Let_def parStart_def split: if_splits)

lemma solvedBy_digestAttempts: "digestAttempts w n r s = (a, s') \<Longrightarrow> solvedBy s' = solvedBy s"
proof (induction w n r s arbitrary: a s' rule: digestAttempts.induct)
  case (1 w n r s)
  obtain b s1 where l: "lookupReferenceWithDigest w r s = (b, s1)" by fastforce
  note s1 = solvedBy_lookup [OF l]
  show ?case
  proof (cases b)
    case (Inl e)
    show ?thesis
    proof (cases n)
      case 0
      with "1.prems" l Inl s1 show ?thesis by (simp add: digestAttempts.simps [of w 0])
    next
      case (Suc m)
      with "1.prems" l Inl have "digestAttempts w m r (logged SleptTwoSeconds s1) = (a, s')"
        by (simp add: digestAttempts.simps [of w "Suc m"])
      from "1.IH" [OF l [symmetric] Inl Suc this] s1 show ?thesis by (simp add: solvedBy_logged)
    qed
  next
    case (Inr d)
    with "1.prems" l s1 show ?thesis by (simp add: digestAttempts.simps [of w n])
  qed
qed

lemma solvedBy_pushedTags: "pushedTags w tags s = (a, s') \<Longrightarrow> solvedBy s' = solvedBy s"
  by (induction w tags s arbitrary: a s' rule: pushedTags.induct)
    (auto split: prod.splits sum.splits dest!: solvedBy_digestAttempts)

lemma solvedBy_build:
  assumes "buildSvcFromDockerfile w x options svc s = (Inr tag, s')"
  shows "solvedBy s' = solvedBy s @ [svc]"
  using assms
  by (auto simp: buildSvcFromDockerfile_def Let_def solvedBy_logged split: prod.splits sum.splits option.splits if_splits
      dest!: solvedBy_pushedTags solvedBy_hash)

lemma buildServices_solved:
  "buildServices w x options svcs s = (None, s') \<Longrightarrow>
     solvedBy s' = solvedBy s @ filter (\<lambda>svc. serviceHasDockerfile (infoOf x svc)) svcs"
proof (induction w x options svcs s rule: buildServices.induct)
  case (2 w x options svc svcs s)
  then obtain tag s1 where b: "buildServiceImages w x options svc s = (Inr tag, s1)"
    and rec: "buildServices w x options svcs (SetServiceEnvVars w svc tag s1) = (None, s')"
    by (auto split: if_splits prod.splits sum.splits)
  have "solvedBy s1 = solvedBy s @ (if serviceHasDockerfile (infoOf x svc) then [svc] else [])"
    using b solvedBy_build by (auto simp: buildServiceImages_def split: if_splits)
  with 2 b rec show ?case by (auto split: if_splits)
qed simp

text \<open>
  A graph library for the examples: it takes an edge only when the vertices were added in its direction, and
  walks in the order of addition.
\<close>

definition exampleDag :: "(dagNode list \<times> (string \<times> string) list) dagLib" where
  "exampleDag =
     \<lparr>dl_NewDAG = ([], []),
      dl_AddVertex = (\<lambda>n (ns, es). if fst n \<in> fst ` set ns then Inl (ErrText ''duplicate'') else Inr (ns @ [n], es)),
      dl_AddEdge = (\<lambda>a b (ns, es).
        if b \<in> fst ` set ns \<and> a \<in> set (takeWhile (\<lambda>c. c \<noteq> b) (map fst ns)) then Inr (ns, (a, b) # es)
        else Inl (ErrText ''unknown or loop'')),
      dl_GetVertex = (\<lambda>i (ns, es). case gget ns i of None \<Rightarrow> Inl (ErrText ''unknown'') | Some ds \<Rightarrow> Inr (i, ds)),
      dl_GetAncestors = (\<lambda>i (ns, es).
        Inr (map (\<lambda>n. (fst n, n)) (filter (\<lambda>n. fst n \<noteq> i
          \<and> fst n \<in> set (getDependentNodes (map (\<lambda>n. (fst n, map fst (filter (\<lambda>e. snd e = fst n) es))) ns) [i])) ns))),
      dl_OrderedWalk = fst\<rparr>"

definition exampleDagHas :: "dagNode list \<times> (string \<times> string) list \<Rightarrow> dagNode set \<Rightarrow> (string \<times> string) set \<Rightarrow> bool" where
  "exampleDagHas g V E \<longleftrightarrow> set (fst g) = V \<and> set (snd g) = E \<and> distinct (map fst (fst g))
     \<and> (\<forall>(a, b) \<in> set (snd g). a \<in> set (takeWhile (\<lambda>c. c \<noteq> b) (map fst (fst g))))"

lemma takeWhile_before: "x \<notin> set xs \<Longrightarrow> takeWhile (\<lambda>c. c \<noteq> x) (xs @ x # ys) = xs"
  by (induction xs) auto

lemma exampleDag_laws: "dagLaws exampleDag exampleDagHas"
  unfolding dagLaws_def
proof (intro conjI allI impI)
  show "exampleDagHas (dl_NewDAG exampleDag) {} {}" by (simp add: exampleDagHas_def exampleDag_def)
next
  fix g V E n g'
  assume g: "exampleDagHas g V E" "dl_AddVertex exampleDag n g = Inr g'"
  then have n: "fst n \<notin> fst ` V" "g' = (fst g @ [n], snd g)"
    by (auto simp: exampleDagHas_def exampleDag_def split: if_splits prod.splits)
  have "set (takeWhile (\<lambda>c. c \<noteq> b) xs) \<subseteq> set (takeWhile (\<lambda>c. c \<noteq> b) (xs @ ys))" for b :: string and xs ys
    by (induction xs) auto
  with g(1) n show "exampleDagHas g' (insert n V) E" unfolding exampleDagHas_def by fastforce
  show "fst n \<notin> fst ` V" by fact
next
  fix g V E a b g'
  assume g: "exampleDagHas g V E" "dl_AddEdge exampleDag a b g = Inr g'"
  then have ab: "b \<in> fst ` V" "a \<in> set (takeWhile (\<lambda>c. c \<noteq> b) (map fst (fst g)))" "g' = (fst g, (a, b) # snd g)"
    by (auto simp: exampleDagHas_def exampleDag_def split: if_splits prod.splits)
  then show "exampleDagHas g' V (insert (a, b) E)" "b \<in> fst ` V" using g(1) by (auto simp: exampleDagHas_def)
  show "a \<in> fst ` V" using set_takeWhileD [OF ab(2)] g(1) by (auto simp: exampleDagHas_def)
next
  fix g V E i n
  assume g: "exampleDagHas g V E" "dl_GetVertex exampleDag i g = Inr n"
  then show "n \<in> V" "fst n = i"
    by (auto simp: exampleDagHas_def exampleDag_def split: option.splits prod.splits dest: gget_in_set)
next
  fix g V E i m
  assume g: "exampleDagHas g V E" "dl_GetAncestors exampleDag i g = Inr m"
  then show "\<forall>(k, n) \<in> set m. n \<in> V \<and> fst n = k"
    by (cases g) (auto simp: exampleDagHas_def exampleDag_def)
next
  fix g V E
  assume g: "exampleDagHas g V E"
  then show "distinct (map fst (dl_OrderedWalk exampleDag g))" "set (dl_OrderedWalk exampleDag g) = V"
    by (auto simp: exampleDagHas_def exampleDag_def)
next
  fix g V E ys n zs a
  assume g: "exampleDagHas g V E" and w: "dl_OrderedWalk exampleDag g = ys @ n # zs" and a: "(a, fst n) \<in> E"
  then have "a \<in> set (takeWhile (\<lambda>c. c \<noteq> fst n) (map fst ys @ fst n # map fst zs))" "fst n \<notin> fst ` set ys"
    by (auto simp: exampleDagHas_def exampleDag_def)
  moreover from this(2) have "takeWhile (\<lambda>c. c \<noteq> fst n) (map fst ys @ fst n # map fst zs) = map fst ys"
    by (intro takeWhile_before) simp
  ultimately show "a \<in> fst ` set ys" by simp
qed

section \<open>What the cache misses\<close>

text \<open>An image with two tags is looked up under one reference that is no reference.\<close>

definition taggedSetup :: buildSetup where
  "taggedSetup = exampleSetup\<lparr>bu_Config := (bu_Config exampleSetup)\<lparr>bc_HasGlobalAccess := True\<rparr>\<rparr>"

definition exampleCluster :: buildWorld where
  "exampleCluster = (exampleBuildWorld [''-base:'', '':okteto''])
     \<lparr>bw_Registry := \<lparr>ig_IsOktetoCluster = True, ig_GlobalNamespace = ''okteto'', ig_Namespace = ''dev'', ig_RegistryURL = ''reg.dev''\<rparr>\<rparr>"

lemma two_tags_never_cached:
  "cacheReferences exampleCluster taggedSetup ''okteto.dev/a:1,okteto.dev/b:1'' ''h'' svc = [''reg.dev/okteto/a:h,reg.dev/okteto/b:h'']"
  by code_simp

text \<open>
  A service of a compose with an image outside the registry of okteto: the build forgets the image and pushes
  one of its own, the check asks for the image's, of which there is none.
\<close>

lemma compose_image_never_cached:
  "cacheReferences exampleCluster taggedSetup ''docker.io/acme/api:1'' ''h'' ''api'' = []
   \<and> bi_Image (getBuildInfoWithoutVolumeMounts (bw_Registry exampleCluster) (emptyBuildInfo\<lparr>bi_Image := ''docker.io/acme/api:1''\<rparr>) True) = []"
  by code_simp

text \<open>The hash depends on the order in which the map of the secrets is gone through.\<close>

lemma hash_depends_on_map_order:
  "hashText w expand (i\<lparr>bi_Secrets := [(''a'', \<lparr>bse_File = ''x'', bse_Env = []\<rparr>), (''b'', \<lparr>bse_File = ''y'', bse_Env = []\<rparr>)]\<rparr>) c d
   \<noteq> hashText w expand (i\<lparr>bi_Secrets := [(''b'', \<lparr>bse_File = ''y'', bse_Env = []\<rparr>), (''a'', \<lparr>bse_File = ''x'', bse_Env = []\<rparr>)]\<rparr>) c d"
  by (simp add: hashText_def secretText_def)

text \<open>Leaving out the services without a property, also among the dependencies, keeps the order.\<close>

lemma orderedAfter_filter_deps:
  assumes "orderedAfter deps seen xs" and "{d \<in> seen. D d} \<subseteq> seen'" and "seen' \<subseteq> seen"
  shows "orderedAfter (\<lambda>svc. filter D (deps svc)) seen' (filter D xs)"
  using assms
proof (induction xs arbitrary: seen seen')
  case (Cons y ys)
  show ?case
  proof (cases "D y")
    case True
    with Cons.prems have "orderedAfter (\<lambda>svc. filter D (deps svc)) (insert y seen') (filter D ys)"
      by (intro Cons.IH [of "insert y seen"]) auto
    with True Cons.prems show ?thesis by auto
  next
    case False
    with Cons.prems have "orderedAfter (\<lambda>svc. filter D (deps svc)) seen' (filter D ys)"
      by (intro Cons.IH [of "insert y seen"]) auto
    with False show ?thesis by simp
  qed
qed simp

text \<open>The only refused options of a build that ends well are those of a build of nothing.\<close>

lemma buildManifest_valid:
  assumes "getToBuildSvcs (bu_Build x) options \<noteq> []"
    and "buildManifest lib w x sched options s = Some (None, s')"
  shows "validateOptions (bu_Build x) (getToBuildSvcs (bu_Build x) options) options = None"
proof (cases "validateOptions (bu_Build x) (getToBuildSvcs (bu_Build x) options) options")
  case (Some e)
  with assms(2) have "errorsIs ErrNoServicesToBuildDefined e" by (auto simp: buildManifest_def Let_def split: if_splits)
  with Some assms(1) show ?thesis
    by (auto simp: validateOptions_def validateBuildServices_def Let_def ErrNoServicesToBuildDefined_def
        ErrNoFlagAllowedOnSingleImageBuild_def split: if_splits)
qed


definition smallSetup :: buildSetup where
  "smallSetup = exampleSetup\<lparr>bu_Build := map (\<lambda>(n, ds). (n, emptyBuildInfo\<lparr>bi_Dockerfile := ''Dockerfile'', bi_DependsOn := ds\<rparr>))
        [(''base'', []), (''api'', [''base''])]\<rparr>"
definition exampleOptions :: buildOptions where
  "exampleOptions =
     \<lparr>bo_File = [], bo_OriginalDockerfile = [], bo_OutputMode = [], bo_Path = [], bo_Platform = [], bo_Tag = [], bo_Target = [],
      bo_BuildArgs = [], bo_Secrets = None, bo_ExportCache = [], bo_CommandArgs = [], bo_CacheFrom = None, bo_NoCache = False\<rparr>"

lemma example_build:
  "map_option (\<lambda>(e, s). (e, solvedIn (b_Trace s)))
     (buildManifest exampleDag exampleCluster smallSetup (replicate 10 ''base'' @ replicate 6 ''api'') exampleOptions exampleBuildState)
   = Some (None, [''api''])"
  by code_simp

end
