(* ===== verification/Pipeline.thy ===== *)
theory Pipeline
  imports ComposeDeploy UpErrors
begin

text \<open>
  The record a development environment leaves in the cluster: the configuration map of
  \<^verbatim>\<open>src/pkg/cmd/pipeline/translate.go\<close> and \<^verbatim>\<open>crud.go\<close> (name, status, manifest, variables, phases, log), and the handler of
  \<^verbatim>\<open>src/cmd/deploy/cfghandler.go\<close> over it. A state is a run over the cluster and the buffer of the log, which recording
  the log reads. A map of an object read from the cluster is empty exactly when it is nil, as empty maps are not
  stored: a write to such a map is the panic of a write to a nil map. JSON is the library of the
  Kubernetes API and a parameter.
\<close>

section \<open>Base64\<close>

text \<open>\<open>base64.StdEncoding.DecodeString\<close>: line ends are skipped, padding is needed, the bits it leaves over are ignored.\<close>

definition base64Val :: "char \<Rightarrow> nat option" where
  "base64Val c =
     (let n = (of_char c :: nat) in
      if 65 \<le> n \<and> n \<le> 90 then Some (n - 65)
      else if 97 \<le> n \<and> n \<le> 122 then Some (n - 71)
      else if 48 \<le> n \<and> n \<le> 57 then Some (n + 4)
      else if c = CHR ''+'' then Some 62
      else if c = CHR ''/'' then Some 63 else None)"

fun decodeQuads :: "string \<Rightarrow> string option" where
  "decodeQuads [] = Some []"
| "decodeQuads (a # b # c # d # s) =
     (case (base64Val a, base64Val b) of
        (Some x, Some y) \<Rightarrow>
          if c = CHR ''='' then (if d = CHR ''='' \<and> s = [] then Some [char_of (x * 4 + y div 16)] else None)
          else (case base64Val c of
              None \<Rightarrow> None
            | Some z \<Rightarrow>
                if d = CHR ''='' then (if s = [] then Some [char_of (x * 4 + y div 16), char_of (y mod 16 * 16 + z div 4)] else None)
                else (case (base64Val d, decodeQuads s) of
                    (Some w, Some t) \<Rightarrow> Some (char_of (x * 4 + y div 16) # char_of (y mod 16 * 16 + z div 4)
                                           # char_of (z mod 4 * 64 + w) # t)
                  | _ \<Rightarrow> None))
      | _ \<Rightarrow> None)"
| "decodeQuads _ = None"

definition base64Decode :: "string \<Rightarrow> string option" where
  "base64Decode s = decodeQuads (filter (\<lambda>c. c \<noteq> CHR 0x0A \<and> c \<noteq> CHR 0x0D) s)"

section \<open>The recorded log\<close>

definition maxLogOutput :: nat where "maxLogOutput = 800 * 1024"
definition maxLogOutputRaw :: nat where "maxLogOutputRaw = maxLogOutput * 3 div 4"

text \<open>
  \<open>bufio.Scanner\<close> over a buffer, line by line: a line of 64 KB or more ends the scan, and the scanner has then read
  64 KB of that line. The second component is what the buffer holds afterwards.
\<close>

definition maxScanTokenSize :: nat where "maxScanTokenSize = 64 * 1024"

definition dropCR :: "string \<Rightarrow> string" where
  "dropCR l = trimSuffix l [CHR 0x0D]"

function scanLines :: "string \<Rightarrow> string list \<times> string" where
  "scanLines s =
     (if s = [] then ([], [])
      else let l = takeWhile (\<lambda>c. c \<noteq> CHR 0x0A) s
           in if maxScanTokenSize \<le> length l then ([], drop maxScanTokenSize s)
              else case scanLines (drop (Suc (length l)) s) of (ls, rest) \<Rightarrow> (dropCR l # ls, rest))"
  by pat_completeness auto
termination scanLines
  by (relation "measure length") auto

declare scanLines.simps [simp del]

text \<open>The loop over the lines from the last one: the text kept and the line it ended with.\<close>

fun capLines :: "string list \<Rightarrow> string \<Rightarrow> string \<Rightarrow> string \<times> string" where
  "capLines [] capped head = (capped, head)"
| "capLines (l # ls) capped head =
     (if maxLogOutputRaw < length capped + length (l @ [CHR 0x0A]) then (capped, l @ [CHR 0x0A])
      else capLines ls ((l @ [CHR 0x0A]) @ capped) (l @ [CHR 0x0A]))"

definition translateOutput :: "string \<Rightarrow> string \<times> string" where
  "translateOutput buffer =
     (if maxLogOutputRaw < length buffer
      then let (ls, rest) = scanLines buffer;
               (capped, head) = capLines (rev ls) [] []
           in (trimPrefix capped head, rest)
      else (buffer, buffer))"

section \<open>Data of the configuration map\<close>

definition nameField :: string where [go_consts]: "nameField = ''name''"
definition repoField :: string where [go_consts]: "repoField = ''repository''"
definition branchField :: string where [go_consts]: "branchField = ''branch''"
definition filenameField :: string where [go_consts]: "filenameField = ''filename''"
definition yamlField :: string where [go_consts]: "yamlField = ''yaml''"
definition iconField :: string where [go_consts]: "iconField = ''icon''"
definition actionLockField :: string where [go_consts]: "actionLockField = ''actionLock''"
definition actionNameField :: string where [go_consts]: "actionNameField = ''actionName''"
definition variablesField :: string where [go_consts]: "variablesField = ''variables''"
definition buildEnvVarField :: string where [go_consts]: "buildEnvVarField = ''buildEnvs''"
definition devBranchField :: string where [go_consts]: "devBranchField = ''dev-branch''"
definition PhasesField :: string where [go_consts]: "PhasesField = ''phases''"
definition actionDefaultName :: string where [go_consts]: "actionDefaultName = ''cli''"
definition destroyingStatus :: string where [go_consts]: "destroyingStatus = ''destroying''"
definition ConfigmapNamePrefix :: string where [go_consts]: "ConfigmapNamePrefix = ''okteto-git-''"
definition OktetoDependencyEnvsKey :: string where [go_consts]: "OktetoDependencyEnvsKey = ''dependencyEnvs''"
definition LastUpdatedAnnotation :: string where [go_consts]: "LastUpdatedAnnotation = ''dev.okteto.com/last-updated''"

record cfgData =
  cd_Name :: string
  cd_Namespace :: string
  cd_Status :: string
  cd_Repository :: string
  cd_Branch :: string
  cd_Filename :: string
  cd_Manifest :: string
  cd_Icon :: string
  cd_Variables :: "string list"

text \<open>
  \<open>json.Marshal\<close> and \<open>json.Unmarshal\<close> of \<^verbatim>\<open>k8s.io/apimachinery\<close> on the four types the code stores; \<open>'f\<close> is
  \<open>float64\<close>, with \<open>Duration.Seconds\<close>. The world holds what the process reads: the variable
  \<open>OKTETO_ACTION_NAME\<close>, the time in \<open>TimeFormat\<close>, and what the writer of the log in use adds to its buffer.
\<close>

record 'f jsonLib =
  jl_Envs :: "smap \<Rightarrow> string + string"
  jl_BuildEnvs :: "(string, smap) gomap \<Rightarrow> string + string"
  jl_Variables :: "(string \<times> string) list \<Rightarrow> string + string"
  jl_Phases :: "(string \<times> 'f) list \<Rightarrow> string + string"
  jl_ReadBuildEnvs :: "string \<Rightarrow> string + (string, smap) gomap"
  jl_ReadVariables :: "string \<Rightarrow> string + (string \<times> string) list"
  jl_ReadPhases :: "string \<Rightarrow> string + (string \<times> 'f) list"
  jl_Seconds :: "int \<Rightarrow> 'f"

record pipelineWorld =
  pw_ActionName :: string
  pw_Now :: string
  pw_LogLine :: "string \<Rightarrow> string \<Rightarrow> string"

record 'c pstate =
  ps_Run :: "'c run"
  ps_Output :: string

type_synonym ('c, 'a) paction = "'c pstate \<Rightarrow> (derr + 'a) \<times> 'c pstate"

definition onRun :: "('c, 'a) action \<Rightarrow> ('c, 'a) paction" where
  "onRun m s = (case m (ps_Run s) of (x, r) \<Rightarrow> (x, s\<lparr>ps_Run := r\<rparr>))"

text \<open>\<open>if err != nil { return err }\<close> after a call of the API.\<close>

definition orFail :: "string option \<Rightarrow> ('c, unit) paction" where
  "orFail e = (case e of None \<Rightarrow> returnE () | Some e \<Rightarrow> failE (Err e))"

definition configmapsGet :: "'c client \<Rightarrow> string \<Rightarrow> string \<Rightarrow> ('c, string + configMap) paction" where
  "configmapsGet k name ns = onRun (ask (k_GetConfigMap k ns name))"

definition getOrFail :: "'c client \<Rightarrow> string \<Rightarrow> string \<Rightarrow> ('c, configMap) paction" where
  "getOrFail k name ns =
     andThen (configmapsGet k name ns) (\<lambda>got. case got of Inl e \<Rightarrow> failE (Err e) | Inr cm \<Rightarrow> returnE cm)"

text \<open>\<open>cmap.Data[key] = value\<close>.\<close>

definition setData :: "string \<Rightarrow> string \<Rightarrow> configMap \<Rightarrow> ('c, configMap) paction" where
  "setData key val cm =
     (if cm_Data cm = [] then failE Panic else returnE (cm\<lparr>cm_Data := gput key val (cm_Data cm)\<rparr>))"

definition deployMap :: "'c client \<Rightarrow> configMap \<Rightarrow> ('c, unit) paction" where
  "deployMap k cm = andThen (onRun (configmapsDeploy k cm (cm_Namespace cm))) orFail"

definition TranslatePipelineName :: "string \<Rightarrow> string" where
  "TranslatePipelineName name = ConfigmapNamePrefix @ ResourceK8sMetaString name"

section \<open>Variables\<close>

text \<open>\<open>strings.SplitN(s, "=", 2)\<close> when it gives two parts.\<close>

definition cutVar :: "string \<Rightarrow> (string \<times> string) option" where
  "cutVar s = (case index s (CHR ''='') of None \<Rightarrow> None | Some i \<Rightarrow> Some (take i s, drop (Suc i) s))"

definition translateVariables :: "'f jsonLib \<Rightarrow> string list \<Rightarrow> string" where
  "translateVariables js vars =
     (let v = List.map_filter cutVar vars
      in if v = [] then []
         else case jl_Variables js v of Inl e \<Rightarrow> [] | Inr t \<Rightarrow> base64 t)"

definition DecodeStringToDeployVariable :: "'f jsonLib \<Rightarrow> string \<Rightarrow> (string \<times> string) list" where
  "DecodeStringToDeployVariable js s =
     (case base64Decode s of
        None \<Rightarrow> []
      | Some t \<Rightarrow> (case jl_ReadVariables js t of Inl e \<Rightarrow> [] | Inr vs \<Rightarrow> vs))"

section \<open>Writing the map\<close>

definition recordOutput :: "configMap \<Rightarrow> ('c, configMap) paction" where
  "recordOutput cm s =
     (case translateOutput (ps_Output s) of
        (out, rest) \<Rightarrow> (Inr (cm\<lparr>cm_Data := gput outputField (base64 out) (cm_Data cm)\<rparr>), s\<lparr>ps_Output := rest\<rparr>))"

definition branchOf :: "cfgData \<Rightarrow> string" where
  "branchOf d = (if cd_Repository d = [] then [] else cd_Branch d)"

definition sandBoxData :: "'f jsonLib \<Rightarrow> cfgData \<Rightarrow> smap" where
  "sandBoxData js d =
     (let m = [(nameField, cd_Name d), (statusField, cd_Status d), (repoField, cd_Repository d),
               (branchField, branchOf d), (filenameField, []), (yamlField, base64 (cd_Manifest d)),
               (iconField, cd_Icon d)];
          m = (if cd_Variables d \<noteq> [] then gput variablesField (translateVariables js (cd_Variables d)) m else m)
      in if cd_Repository d \<noteq> [] then gput filenameField (cd_Filename d) m else m)"

definition translateConfigMapSandBox :: "'f jsonLib \<Rightarrow> pipelineWorld \<Rightarrow> cfgData \<Rightarrow> ('c, configMap) paction" where
  "translateConfigMapSandBox js w d =
     recordOutput
       \<lparr>cm_Namespace = cd_Namespace d, cm_Name = TranslatePipelineName (ResourceK8sMetaString (cd_Name d)),
        cm_Labels = [(GitDeployLabel, ''true'')], cm_Annotations = [(LastUpdatedAnnotation, pw_Now w)],
        cm_Data = sandBoxData js d\<rparr>"

definition operationRunning :: string where
  "operationRunning = ''There is a pipeline operation already running''"

definition actionNameOf :: "pipelineWorld \<Rightarrow> string" where
  "actionNameOf w = (if pw_ActionName w = [] then actionDefaultName else pw_ActionName w)"

definition updatedData :: "'f jsonLib \<Rightarrow> pipelineWorld \<Rightarrow> cfgData \<Rightarrow> smap \<Rightarrow> smap" where
  "updatedData js w d m =
     (let m = gput nameField (cd_Name d) m;
          m = gput statusField (cd_Status d) m;
          m = gput yamlField (base64 (cd_Manifest d)) m;
          m = gput iconField (cd_Icon d) m;
          m = gput actionNameField (actionNameOf w) m;
          m = (if cd_Repository d \<noteq> []
               then gput repoField (cd_Repository d) (gput filenameField (cd_Filename d) m) else m);
          m = (if branchOf d \<noteq> [] then gput branchField (branchOf d) m else m)
      in if cd_Variables d \<noteq> [] then gput variablesField (translateVariables js (cd_Variables d)) m
         else gdel variablesField m)"

definition updateCmap :: "'f jsonLib \<Rightarrow> pipelineWorld \<Rightarrow> cfgData \<Rightarrow> configMap \<Rightarrow> ('c, configMap) paction" where
  "updateCmap js w d cm =
     (let cm = cm\<lparr>cm_Annotations := gput LastUpdatedAnnotation (pw_Now w) (cm_Annotations cm)\<rparr>
      in if \<exists>v \<in> set_option (gget (cm_Data cm) actionLockField). v \<noteq> actionNameOf w then failE (Err operationRunning)
         else if cm_Labels cm = [] then failE Panic
         else if cm_Data cm = [] then failE Panic
         else recordOutput (cm\<lparr>cm_Labels := gput GitDeployLabel ''true'' (cm_Labels cm),
                               cm_Data := updatedData js w d (cm_Data cm)\<rparr>))"

text \<open>\<open>IsAlreadyExists\<close> and \<open>IsConflict\<close> of the Kubernetes API, on its errors.\<close>

record apiErrors =
  ae_IsAlreadyExists :: "string \<Rightarrow> bool"
  ae_IsConflict :: "string \<Rightarrow> bool"

definition createSandBox :: "'c client \<Rightarrow> apiErrors \<Rightarrow> configMap \<Rightarrow> ('c, unit) paction" where
  "createSandBox k ae cm =
     andThen (onRun (apiWrite k (CreateConfigMap (cm_Namespace cm) cm))) (\<lambda>e. case e of
       None \<Rightarrow> returnE ()
     | Some e \<Rightarrow> failE (Err (if ae_IsAlreadyExists ae e then operationRunning else e)))"

definition TranslateConfigMapAndDeploy ::
  "'c client \<Rightarrow> apiErrors \<Rightarrow> 'f jsonLib \<Rightarrow> pipelineWorld \<Rightarrow> cfgData \<Rightarrow> ('c, configMap) paction" where
  "TranslateConfigMapAndDeploy k ae js w d =
     andThen (configmapsGet k (TranslatePipelineName (cd_Name d)) (cd_Namespace d)) (\<lambda>got.
     andThen (case got of
         Inr cm \<Rightarrow> returnE cm
       | Inl e \<Rightarrow>
           if \<not> IsNotFound e then failE (Err e)
           else andThen (translateConfigMapSandBox js w d) (\<lambda>cm.
                andThen (createSandBox k ae cm) (\<lambda>_. returnE cm))) (\<lambda>cm.
     andThen (updateCmap js w d cm) (\<lambda>cm.
     andThen (onRun (configmapsDeploy k cm (cm_Namespace cm))) (\<lambda>e. case e of
         None \<Rightarrow> returnE cm
       | Some e \<Rightarrow> failE (Err (if ae_IsConflict ae e then operationRunning else e))))))"

definition UpdateConfigMapFields :: "'c client \<Rightarrow> 'f jsonLib \<Rightarrow> pipelineWorld \<Rightarrow> configMap \<Rightarrow> cfgData \<Rightarrow> ('c, unit) paction" where
  "UpdateConfigMapFields k js w cm d =
     andThen (getOrFail k (cm_Name cm) (cm_Namespace cm)) (\<lambda>cm.
     andThen (updateCmap js w d cm) (deployMap k))"

text \<open>The loop of \<open>UpdateEnvs\<close> over the variables: the first one without \<open>=\<close> is an error.\<close>

fun envsToSet :: "string list \<Rightarrow> smap \<Rightarrow> string + smap" where
  "envsToSet [] m = Inr m"
| "envsToSet (e # es) m =
     (case cutVar e of
        None \<Rightarrow> Inl (''invalid env format: '' @ quote e)
      | Some (n, v) \<Rightarrow> envsToSet es (gput n v m))"

definition UpdateEnvs :: "'c client \<Rightarrow> 'f jsonLib \<Rightarrow> string \<Rightarrow> string \<Rightarrow> string list \<Rightarrow> ('c, unit) paction" where
  "UpdateEnvs k js name ns envs =
     andThen (getOrFail k (TranslatePipelineName name) ns) (\<lambda>cm.
     case envsToSet envs [] of
       Inl e \<Rightarrow> failE (Err e)
     | Inr m \<Rightarrow>
         if m = [] then returnE ()
         else (case jl_Envs js m of
             Inl e \<Rightarrow> failE (Err e)
           | Inr t \<Rightarrow> andThen (setData OktetoDependencyEnvsKey (base64 t) cm) (deployMap k)))"

text \<open>The first phase with the name gets the new duration; without one, a phase is added.\<close>

fun putPhase :: "string \<Rightarrow> 'f \<Rightarrow> (string \<times> 'f) list \<Rightarrow> (string \<times> 'f) list" where
  "putPhase n d [] = [(n, d)]"
| "putPhase n d ((m, e) # ps) = (if m = n then (m, d) # ps else (m, e) # putPhase n d ps)"

definition readPhases :: "'f jsonLib \<Rightarrow> configMap \<Rightarrow> string + (string \<times> 'f) list" where
  "readPhases js cm = (case gget (cm_Data cm) PhasesField of None \<Rightarrow> Inr [] | Some v \<Rightarrow> jl_ReadPhases js v)"

definition AddPhaseDuration ::
  "'c client \<Rightarrow> 'f jsonLib \<Rightarrow> string \<Rightarrow> string \<Rightarrow> string \<Rightarrow> int \<Rightarrow> ('c, unit) paction" where
  "AddPhaseDuration k js name ns phase duration =
     andThen (getOrFail k (TranslatePipelineName name) ns) (\<lambda>cm.
     case readPhases js cm of
       Inl e \<Rightarrow> failE (Err e)
     | Inr ps \<Rightarrow>
         (case jl_Phases js (putPhase phase (jl_Seconds js duration) ps) of
            Inl e \<Rightarrow> failE (Err e)
          | Inr t \<Rightarrow> andThen (setData PhasesField t cm) (deployMap k)))"

definition SetBuildEnvVars :: "'c client \<Rightarrow> 'f jsonLib \<Rightarrow> string \<Rightarrow> string \<Rightarrow> (string, smap) gomap \<Rightarrow> ('c, unit) paction" where
  "SetBuildEnvVars k js name ns envVars =
     andThen (getOrFail k (TranslatePipelineName name) ns) (\<lambda>cm.
       if envVars \<noteq> []
       then (case jl_BuildEnvs js envVars of
           Inl e \<Rightarrow> failE (Err (''failed to encode env vars: '' @ e))
         | Inr t \<Rightarrow> deployMap k (cm\<lparr>cm_Data := gput buildEnvVarField (base64 t) (cm_Data cm)\<rparr>))
       else deployMap k (cm\<lparr>cm_Data := gdel buildEnvVarField (cm_Data cm)\<rparr>))"

definition UpdateLatestUpBranch :: "'c client \<Rightarrow> string \<Rightarrow> string \<Rightarrow> string \<Rightarrow> ('c, unit) paction" where
  "UpdateLatestUpBranch k name ns branch =
     andThen (getOrFail k (TranslatePipelineName name) ns) (\<lambda>cm.
       if gstr (cm_Data cm) devBranchField = branch then returnE ()
       else andThen (setData devBranchField branch cm) (deployMap k))"

section \<open>Reading the map\<close>

definition GetConfigmapVariablesEncoded :: "'c client \<Rightarrow> string \<Rightarrow> string \<Rightarrow> ('c, string) paction" where
  "GetConfigmapVariablesEncoded k name ns =
     andThen (configmapsGet k (TranslatePipelineName name) ns) (\<lambda>got. case got of
       Inl e \<Rightarrow> if \<not> IsNotFound e then failE (Err e) else returnE []
     | Inr cm \<Rightarrow> returnE (gstr (cm_Data cm) variablesField))"

definition buildEnvVarsOf :: "'f jsonLib \<Rightarrow> configMap \<Rightarrow> string + (string, smap) gomap" where
  "buildEnvVarsOf js cm =
     (case gget (cm_Data cm) buildEnvVarField of
        None \<Rightarrow> Inr []
      | Some v \<Rightarrow>
          (case base64Decode v of
             None \<Rightarrow> Inl ''illegal base64 data''
           | Some t \<Rightarrow> jl_ReadBuildEnvs js t))"

definition GetConfigmapBuildEnvVars :: "'c client \<Rightarrow> 'f jsonLib \<Rightarrow> string \<Rightarrow> string \<Rightarrow> ('c, (string, smap) gomap) paction" where
  "GetConfigmapBuildEnvVars k js name ns =
     andThen (getOrFail k (TranslatePipelineName name) ns) (\<lambda>cm.
       case buildEnvVarsOf js cm of Inl e \<Rightarrow> failE (Err e) | Inr m \<Rightarrow> returnE m)"

definition IsDeployed :: "'c client \<Rightarrow> string \<Rightarrow> string \<Rightarrow> ('c, bool) paction" where
  "IsDeployed k name ns =
     andThen (configmapsGet k (TranslatePipelineName name) ns) (\<lambda>got. returnE (case got of
       Inl e \<Rightarrow> False | Inr cm \<Rightarrow> gstr (cm_Data cm) statusField \<noteq> errorStatus))"

text \<open>The names of the deployments and the stateful sets with the label of the environment, as the two lists of the API.\<close>

record 'c lister =
  ls_Deployments :: "string \<Rightarrow> string \<Rightarrow> 'c \<Rightarrow> (string + string list) \<times> 'c"
  ls_StatefulSets :: "string \<Rightarrow> string \<Rightarrow> 'c \<Rightarrow> (string + string list) \<times> 'c"

definition deployedBySelector :: "string \<Rightarrow> string" where
  "deployedBySelector name = DeployedByLabel @ ''='' @ ResourceK8sMetaString name"

definition listOrFail :: "(string + string list) \<Rightarrow> ('c, string list) paction" where
  "listOrFail got = (case got of Inl e \<Rightarrow> failE (Err e) | Inr ns \<Rightarrow> returnE ns)"

definition ListDeployments :: "'c lister \<Rightarrow> string \<Rightarrow> string \<Rightarrow> ('c, string list) paction" where
  "ListDeployments l name ns = andThen (onRun (ask (ls_Deployments l ns (deployedBySelector name)))) listOrFail"

definition ListStatefulsets :: "'c lister \<Rightarrow> string \<Rightarrow> string \<Rightarrow> ('c, string list) paction" where
  "ListStatefulsets l name ns = andThen (onRun (ask (ls_StatefulSets l ns (deployedBySelector name)))) listOrFail"

definition HasDeployedSomething :: "'c lister \<Rightarrow> string \<Rightarrow> string \<Rightarrow> ('c, bool) paction" where
  "HasDeployedSomething l name ns =
     andThen (ListDeployments l name ns) (\<lambda>ds.
       if ds \<noteq> [] then returnE True
       else andThen (ListStatefulsets l name ns) (\<lambda>ss. returnE (ss \<noteq> [])))"

section \<open>The handler of the commands\<close>

text \<open>
  The handler asks for a client before every operation; what it holds are the providers of the code (\<open>ha_Provide\<close> gives
  the error of \<open>ProvideWithLogger\<close>, if any). Errors of the commands are those of \<^verbatim>\<open>pkg/errors\<close>, or a panic.
\<close>

datatype cmdErr = CmdPanic | CmdErr upErr

type_synonym ('c, 'a) caction = "'c pstate \<Rightarrow> (cmdErr + 'a) \<times> 'c pstate"

record ('c, 'f) handler =
  ha_Provide :: "'c \<Rightarrow> string option \<times> 'c"
  ha_Client :: "'c client"
  ha_Errors :: apiErrors
  ha_Json :: "'f jsonLib"
  ha_World :: pipelineWorld

definition commandErr :: "derr \<Rightarrow> cmdErr" where
  "commandErr e = (case e of Panic \<Rightarrow> CmdPanic | Err t \<Rightarrow> CmdErr (ErrText t))"

definition onMap :: "('c, 'a) paction \<Rightarrow> ('c, 'a) caction" where
  "onMap m s = (case m s of (Inl e, s') \<Rightarrow> (Inl (commandErr e), s') | (Inr a, s') \<Rightarrow> (Inr a, s'))"

definition withClient :: "('c, 'f) handler \<Rightarrow> ('c, 'a) caction \<Rightarrow> ('c, 'a) caction" where
  "withClient h m =
     andThen (onMap (onRun (ask (ha_Provide h)))) (\<lambda>e. case e of
       Some e \<Rightarrow> failE (CmdErr (ErrText e))
     | None \<Rightarrow> m)"

definition handlerTranslate :: "('c, 'f) handler \<Rightarrow> cfgData \<Rightarrow> ('c, configMap) caction" where
  "handlerTranslate h d =
     withClient h (onMap (TranslateConfigMapAndDeploy (ha_Client h) (ha_Errors h) (ha_Json h) (ha_World h) d))"

definition handlerVariables :: "('c, 'f) handler \<Rightarrow> string \<Rightarrow> string \<Rightarrow> ('c, string) caction" where
  "handlerVariables h name ns = withClient h (onMap (GetConfigmapVariablesEncoded (ha_Client h) name ns))"

definition handlerUpdateEnvs :: "('c, 'f) handler \<Rightarrow> string \<Rightarrow> string \<Rightarrow> string list \<Rightarrow> ('c, unit) caction" where
  "handlerUpdateEnvs h name ns envs = withClient h (onMap (UpdateEnvs (ha_Client h) (ha_Json h) name ns envs))"

definition handlerAddPhase :: "('c, 'f) handler \<Rightarrow> string \<Rightarrow> string \<Rightarrow> string \<Rightarrow> int \<Rightarrow> ('c, unit) caction" where
  "handlerAddPhase h name ns phase d =
     withClient h (onMap (AddPhaseDuration (ha_Client h) (ha_Json h) name ns phase d))"

text \<open>\<open>ErrorLevel\<close> is the level of the line that an error adds to the log.\<close>

definition ErrorLevel :: string where [go_consts]: "ErrorLevel = ''error''"

definition AddToBuffer :: "pipelineWorld \<Rightarrow> string \<Rightarrow> string \<Rightarrow> 'c pstate \<Rightarrow> 'c pstate" where
  "AddToBuffer w level msg s = s\<lparr>ps_Output := ps_Output s @ pw_LogLine w level msg\<rparr>"

definition updateWithError :: "('c, 'f) handler \<Rightarrow> configMap \<Rightarrow> cfgData \<Rightarrow> upErr option \<Rightarrow> ('c, unit) caction" where
  "updateWithError h cm d errMain s =
     (case errMain of
        None \<Rightarrow> onMap (UpdateConfigMapFields (ha_Client h) (ha_Json h) (ha_World h) cm d) s
      | Some e \<Rightarrow>
          andThen (onMap (UpdateConfigMapFields (ha_Client h) (ha_Json h) (ha_World h) cm (d\<lparr>cd_Status := errorStatus\<rparr>)))
            (\<lambda>_. failE (CmdErr e)) (AddToBuffer (ha_World h) ErrorLevel (errString e) s))"

definition handlerUpdate :: "('c, 'f) handler \<Rightarrow> configMap \<Rightarrow> cfgData \<Rightarrow> upErr option \<Rightarrow> ('c, unit) caction" where
  "handlerUpdate h cm d errMain = withClient h (updateWithError h cm d errMain)"

text \<open>
  The regular expression of the build variables: \<open>.+\<close> is greedy, so the last part is the one after the last
  underscore, and it does not match a line end.
\<close>

definition buildVarNames :: "string list" where
  "buildVarNames = [''REGISTRY'', ''REPOSITORY'', ''IMAGE'', ''TAG'', ''SHA'']"

definition matchBuildVar :: "string \<Rightarrow> (string \<times> string) option" where
  "matchBuildVar k =
     (if \<not> hasPrefix k ''OKTETO_BUILD_'' then None
      else let rest = drop 13 k
           in case lastIndex rest (CHR ''_'') of
                None \<Rightarrow> None
              | Some i \<Rightarrow>
                  if take i rest \<noteq> [] \<and> CHR 0x0A \<notin> set (take i rest) \<and> drop (Suc i) rest \<in> set buildVarNames
                  then Some (take i rest, drop (Suc i) rest) else None)"

text \<open>\<open>buildEnvVars[name][varName] = v\<close>, with an inner map made where there is none.\<close>

definition putVar :: "string \<Rightarrow> string \<Rightarrow> string \<Rightarrow> (string, smap) gomap \<Rightarrow> (string, smap) gomap" where
  "putVar n var v m = gput n (gput var v (case gget m n of None \<Rightarrow> [] | Some vs \<Rightarrow> vs)) m"

fun groupBuildVars :: "smap \<Rightarrow> (string, smap) gomap \<Rightarrow> (string, smap) gomap" where
  "groupBuildVars [] m = m"
| "groupBuildVars ((k, v) # envs) m =
     groupBuildVars envs
       (case matchBuildVar k of
          None \<Rightarrow> m
        | Some (n, var) \<Rightarrow> putVar n var v m)"

definition handlerSetBuildEnvVars :: "('c, 'f) handler \<Rightarrow> string \<Rightarrow> string \<Rightarrow> smap \<Rightarrow> ('c, unit) caction" where
  "handlerSetBuildEnvVars h name ns envVars =
     withClient h (onMap (SetBuildEnvVars (ha_Client h) (ha_Json h) name ns (groupBuildVars envVars [])))"

definition dependencyVar :: "string \<Rightarrow> string \<Rightarrow> string \<Rightarrow> string" where
  "dependencyVar name build var =
     ''OKTETO_DEPENDENCY_'' @ toUpper (replaceAll (ResourceK8sMetaString name) ''-'' ''_'')
       @ ''_BUILD_'' @ build @ ''_'' @ var"

fun dependencyVarsOf :: "string \<Rightarrow> string \<Rightarrow> smap \<Rightarrow> smap \<Rightarrow> smap" where
  "dependencyVarsOf name build [] envs = envs"
| "dependencyVarsOf name build ((var, v) # vs) envs =
     dependencyVarsOf name build vs (gput (dependencyVar name build var) v envs)"

fun dependencyVars :: "string \<Rightarrow> (string, smap) gomap \<Rightarrow> smap \<Rightarrow> smap" where
  "dependencyVars name [] envs = envs"
| "dependencyVars name ((build, vs) # m) envs = dependencyVars name m (dependencyVarsOf name build vs envs)"

definition GetDependencyBuildEnvVars :: "('c, 'f) handler \<Rightarrow> string \<Rightarrow> string \<Rightarrow> ('c, smap) caction" where
  "GetDependencyBuildEnvVars h name ns =
     withClient h (andThen (onMap (GetConfigmapBuildEnvVars (ha_Client h) (ha_Json h) name ns)) (\<lambda>m.
       returnE (if m = [] then [] else dependencyVars name m [])))"

end
