(* ===== verification/PipelineProps.thy ===== *)
theory PipelineProps
  imports Pipeline
begin

text \<open>
  What holds of the record of a development environment: Base64 decodes what it encodes and the recorded log stays below
  the limit; an update keeps the entries it does not own and the lock of another operation; an error is
  recorded as one; the variables of the built images reach the environments that depend on this one.
\<close>

section \<open>Base64\<close>

lemma base64Val_base64Char:
  assumes "n < 64"
  shows "base64Val (base64Char n) = Some n"
proof -
  consider "n < 26" | "26 \<le> n" "n < 52" | "52 \<le> n" "n < 62" | "n = 62" | "n = 63" using assms by linarith
  then show ?thesis by (cases, simp_all add: base64Val_def base64Char_def Let_def, linarith)
qed

lemma base64Char_other:
  assumes "n < 64"
  shows "base64Char n \<noteq> CHR ''=''" "base64Char n \<noteq> CHR 0x0A" "base64Char n \<noteq> CHR 0x0D"
  using base64Val_base64Char [OF assms] by (auto simp: base64Val_def)

text \<open>The sextets of a byte, and the bytes back.\<close>

lemma byte_less: "(of_char c :: nat) < 256"
  by (metis mod_less_divisor of_char_mod_256 zero_less_numeral)

lemma sextets:
  fixes x y z :: nat
  assumes "x < 256" and "y < 256" and "z < 256"
  shows "x div 4 < 64" and "x mod 4 * 16 < 64" and "x mod 4 * 16 + y div 16 < 64"
    and "y mod 16 * 4 < 64" and "y mod 16 * 4 + z div 64 < 64" and "z mod 64 < 64"
proof -
  have "y div 16 < 16" "z div 64 < 4" "x mod 4 < 4" "y mod 16 < 16" using assms by (simp_all add: div_less_iff_less_mult)
  then show "x mod 4 * 16 < 64" "x mod 4 * 16 + y div 16 < 64" "y mod 16 * 4 < 64" "y mod 16 * 4 + z div 64 < 64"
    by linarith+
qed (use assms in simp_all)

lemma bytes_back:
  fixes y z :: nat
  assumes "y < 256" and "z < 256"
  shows "y div 16 div 16 = 0" and "y div 16 mod 16 * 16 + y mod 16 = y"
    and "z div 64 div 4 = 0" and "z div 64 mod 4 * 64 + z mod 64 = z"
  using assms by (simp_all add: div_less_iff_less_mult)

lemmas base64_facts = sextets [OF byte_less byte_less byte_less] bytes_back [OF byte_less byte_less]
  base64Val_base64Char base64Char_other

lemma base64_no_line_end: "c \<in> set (base64 s) \<Longrightarrow> c \<noteq> CHR 0x0A \<and> c \<noteq> CHR 0x0D"
  by (induction s rule: base64.induct) (auto simp: Let_def base64_facts)

lemma decodeQuads_base64: "decodeQuads (base64 s) = Some s"
  by (induction s rule: base64.induct) (simp_all add: Let_def base64_facts)

text \<open>What \<open>EncodeToString\<close> writes into the configuration map, \<open>DecodeString\<close> reads back.\<close>

lemma base64Decode_base64: "base64Decode (base64 s) = Some s"
proof -
  have "filter (\<lambda>c. c \<noteq> CHR 0x0A \<and> c \<noteq> CHR 0x0D) (base64 s) = base64 s"
    by (rule filter_True) (use base64_no_line_end in blast)
  then show ?thesis by (simp add: base64Decode_def decodeQuads_base64)
qed

lemma length_base64: "length (base64 s) = 4 * ((length s + 2) div 3)"
proof (induction s rule: base64.induct)
  case (4 a b c s)
  have "(Suc (Suc (Suc (length s))) + 2) div 3 = Suc ((length s + 2) div 3)" by simp
  with 4 show ?case by (simp add: Let_def)
qed (simp_all add: Let_def)

section \<open>The log\<close>

definition withEnds :: "string list \<Rightarrow> string" where
  "withEnds ls = concat (map (\<lambda>l. l @ [CHR 0x0A]) ls)"

lemma withEnds_simps [simp]: "withEnds [] = []" "withEnds (l # ls) = l @ CHR 0x0A # withEnds ls"
    "withEnds (ls @ ms) = withEnds ls @ withEnds ms"
  by (simp_all add: withEnds_def)

lemma scanLines_no_line_end: "l \<in> set (fst (scanLines s)) \<Longrightarrow> CHR 0x0A \<notin> set l"
proof (induction s rule: scanLines.induct)
  case (1 s)
  have "CHR 0x0A \<notin> set (dropCR (takeWhile (\<lambda>c. c \<noteq> CHR 0x0A) s))"
    by (auto simp: dropCR_def trimSuffix_def dest!: in_set_takeD set_takeWhileD)
  with 1 show ?case
    by (subst (asm) (2) scanLines.simps) (auto simp: Let_def split: if_splits prod.splits)
qed

text \<open>The lines kept are the last ones, and the loop ends with the line before them, unless that is none.\<close>

lemma capLines_tail:
  assumes "capLines (rev ls) (withEnds ms) head = (capped, head')" and "length (withEnds ms) \<le> maxLogOutputRaw"
  shows "\<exists>k. capped = withEnds (drop k ls @ ms) \<and> length capped \<le> maxLogOutputRaw \<and> k \<le> length ls
    \<and> (if k = 0 then head' = (case ls of [] \<Rightarrow> head | l # _ \<Rightarrow> l @ [CHR 0x0A])
       else head' = ls ! (k - 1) @ [CHR 0x0A] \<and> maxLogOutputRaw < length (withEnds (drop (k - 1) ls @ ms)))"
  using assms
proof (induction ls arbitrary: ms head rule: rev_induct)
  case (snoc l ls)
  show ?case
  proof (cases "maxLogOutputRaw < length (withEnds ms) + length (l @ [CHR 0x0A])")
    case True
    with snoc.prems show ?thesis by (intro exI [of _ "Suc (length ls)"]) (auto simp: nth_append)
  next
    case False
    with snoc.prems have "capLines (rev ls) (withEnds (l # ms)) (l @ [CHR 0x0A]) = (capped, head')"
      and "length (withEnds (l # ms)) \<le> maxLogOutputRaw" by simp_all
    from snoc.IH [OF this] obtain k where k: "capped = withEnds (drop k ls @ l # ms)" "length capped \<le> maxLogOutputRaw"
      "k \<le> length ls" "if k = 0 then head' = (case ls of [] \<Rightarrow> l @ [CHR 0x0A] | l # _ \<Rightarrow> l @ [CHR 0x0A])
       else head' = ls ! (k - 1) @ [CHR 0x0A] \<and> maxLogOutputRaw < length (withEnds (drop (k - 1) ls @ l # ms))" by blast
    then show ?thesis
      by (intro exI [of _ k]) (cases ls; auto simp: nth_append drop_Cons' split: if_splits list.splits)
  qed
qed auto

lemma capLines_all:
  assumes "capLines (rev ls) [] [] = (capped, head)"
  shows "\<exists>k. capped = withEnds (drop k ls) \<and> length capped \<le> maxLogOutputRaw \<and> k \<le> length ls
    \<and> (if k = 0 then head = (case ls of [] \<Rightarrow> [] | l # _ \<Rightarrow> l @ [CHR 0x0A])
       else head = ls ! (k - 1) @ [CHR 0x0A] \<and> maxLogOutputRaw < length (withEnds (drop (k - 1) ls)))"
  using capLines_tail [of ls "[]" "[]" capped head] assms by (simp only: withEnds_simps append_Nil2 list.size simp_thms le0)

lemma withEnds_prefix:
  assumes "CHR 0x0A \<notin> set l" and "\<forall>m \<in> set ls. CHR 0x0A \<notin> set m" and "prefix (l @ [CHR 0x0A]) (withEnds ls)"
  shows "\<exists>ms. ls = l # ms"
proof (cases ls)
  case Nil
  with assms(3) show ?thesis by simp
next
  case (Cons m ms)
  have first: "takeWhile (\<lambda>c. c \<noteq> CHR 0x0A) (l @ CHR 0x0A # t) = l" if "CHR 0x0A \<notin> set l" for l t :: string
    using that by (induction l) auto
  from assms(3) Cons obtain t where "l @ CHR 0x0A # t = m @ CHR 0x0A # withEnds ms" by (auto simp: prefix_def)
  with first [of l t] first [of m "withEnds ms"] assms(1,2) Cons show ?thesis by simp
qed

lemma length_unlines_drop: "i \<le> j \<Longrightarrow> length (withEnds (drop j ls)) \<le> length (withEnds (drop i ls))"
proof -
  assume "i \<le> j"
  then have "drop i ls = take (j - i) (drop i ls) @ drop j ls"
    by (metis append_take_drop_id drop_drop le_add_diff_inverse2)
  then show ?thesis by (metis withEnds_simps(3) length_append le_add2)
qed

text \<open>The log as it is stored, encoded in Base64, is never larger than the limit for it.\<close>

lemma stored_log_bounded: "length (base64 (fst (translateOutput b))) \<le> maxLogOutput"
proof -
  have raw: "length (fst (translateOutput b)) \<le> maxLogOutputRaw"
  proof (cases "maxLogOutputRaw < length b")
    case True
    obtain ls rest where ls: "scanLines b = (ls, rest)" by fastforce
    obtain capped head where c: "capLines (rev ls) [] [] = (capped, head)" by fastforce
    with capLines_all [of ls capped head] have "length capped \<le> maxLogOutputRaw" by blast
    then have "length (trimPrefix capped head) \<le> maxLogOutputRaw" by (auto simp: trimPrefix_def)
    with True ls c show ?thesis by (simp add: translateOutput_def)
  qed (simp add: translateOutput_def)
  then have "length (fst (translateOutput b)) \<le> 614400"
    by (simp add: maxLogOutputRaw_def maxLogOutput_def)
  then show ?thesis by (simp add: length_base64 maxLogOutput_def)
qed



text \<open>The scanner goes over short lines; a line of 64 KB ends the scan, so no line after it is recorded.\<close>

lemma scanLines_short:
  assumes "CHR 0x0A \<notin> set l" and "length l < maxScanTokenSize"
  shows "scanLines (l @ CHR 0x0A # s) = (case scanLines s of (ls, rest) \<Rightarrow> (dropCR l # ls, rest))"
proof -
  have "takeWhile (\<lambda>c. c \<noteq> CHR 0x0A) (l @ CHR 0x0A # s) = l" using assms(1) by (induction l) auto
  with assms(2) show ?thesis by (simp add: scanLines.simps [of "l @ CHR 0x0A # s"] Let_def)
qed

lemma long_line_hides_the_rest:
  assumes "\<forall>l \<in> set ms. CHR 0x0A \<notin> set l \<and> length l < maxScanTokenSize"
    and "maxScanTokenSize \<le> length (takeWhile (\<lambda>c. c \<noteq> CHR 0x0A) s)"
  shows "fst (scanLines (withEnds ms @ s)) = map dropCR ms"
  using assms(1)
proof (induction ms)
  case Nil
  from assms(2) have "s \<noteq> []" by (auto simp: maxScanTokenSize_def)
  with assms(2) show ?case by (simp add: scanLines.simps [of s] Let_def)
next
  case (Cons l ms)
  then show ?case by (auto simp: scanLines_short split: prod.splits)
qed

text \<open>Recording a log above the limit empties the buffer: the next record has no line of it.\<close>

lemma scanLines_short_lines:
  "\<forall>l \<in> set ms. CHR 0x0A \<notin> set l \<and> length l < maxScanTokenSize \<Longrightarrow> scanLines (withEnds ms) = (map dropCR ms, [])"
proof (induction ms)
  case Nil
  show ?case by (simp add: scanLines.simps [of "[]"])
next
  case (Cons l ms)
  then show ?case by (simp add: scanLines_short)
qed

lemma recording_empties_the_log:
  assumes "\<forall>l \<in> set ms. CHR 0x0A \<notin> set l \<and> length l < maxScanTokenSize" and "maxLogOutputRaw < length (withEnds ms)"
  shows "snd (translateOutput (withEnds ms)) = []"
  using assms by (simp add: translateOutput_def scanLines_short_lines split: prod.split)

section \<open>Updates of the map\<close>

text \<open>What an update sets or removes.\<close>

definition ownFields :: "string set" where
  "ownFields = {nameField, statusField, yamlField, iconField, actionNameField, filenameField, repoField, branchField,
     variablesField, outputField}"

lemma recordOutput_eq:
  "recordOutput cm s = (Inr (cm\<lparr>cm_Data := gput outputField (base64 (fst (translateOutput (ps_Output s)))) (cm_Data cm)\<rparr>),
     s\<lparr>ps_Output := snd (translateOutput (ps_Output s))\<rparr>)"
  by (simp add: recordOutput_def split: prod.split)

lemma gget_gdel: "gget (gdel k m) k' = (if k' = k then None else gget m k')"
  by (simp add: gget_def gdel_def delete_conv')

lemma updatedData_get:
  shows "k \<notin> ownFields \<Longrightarrow> gget (updatedData js w d m) k = gget m k"
    and "gget (updatedData js w d m) statusField = Some (cd_Status d)"
  by (auto simp: updatedData_def Let_def gget_put gget_gdel ownFields_def go_consts)

lemma updateCmap_result:
  assumes "updateCmap js w d cm s = (Inr cm', s')"
  shows "cm_Data cm' = gput outputField (base64 (fst (translateOutput (ps_Output s)))) (updatedData js w d (cm_Data cm))"
    and "cm_Name cm' = cm_Name cm" and "cm_Namespace cm' = cm_Namespace cm"
    and "gget (cm_Labels cm') GitDeployLabel = Some ''true''"
    and "ps_Run s' = ps_Run s" and "cm_Data cm \<noteq> []"
    and "\<And>v. gget (cm_Data cm) actionLockField = Some v \<Longrightarrow> v = actionNameOf w"
  using assms
  by (auto simp: updateCmap_def recordOutput_eq Let_def failE_def gget_put split: if_splits)

lemma updateCmap_get:
  assumes "updateCmap js w d cm s = (Inr cm', s')"
  shows "gget (cm_Data cm') statusField = Some (cd_Status d)"
    and "k \<notin> ownFields \<Longrightarrow> gget (cm_Data cm') k = gget (cm_Data cm) k"
  unfolding updateCmap_result(1) [OF assms] gget_put
  by (auto simp: updatedData_get ownFields_def) (simp add: go_consts)

text \<open>An update of the record writes the status it is given and keeps every entry it does not own: the lock, the phases, the
  variables of the built images and of the commands, the branch of the last session.\<close>

theorem update_keeps_other_entries:
  assumes "updateCmap js w d cm s = (Inr cm', s')"
  shows "gget (cm_Data cm') statusField = Some (cd_Status d)
    \<and> (\<forall>k. k \<notin> ownFields \<longrightarrow> gget (cm_Data cm') k = gget (cm_Data cm) k)"
  using updateCmap_get [OF assms] by simp

lemma onRun_ask: "onRun (ask f) s = (case f (ru_Cluster (ps_Run s)) of
    (x, c) \<Rightarrow> (Inr x, s\<lparr>ps_Run := (ps_Run s)\<lparr>ru_Cluster := c\<rparr>\<rparr>))"
  by (simp add: onRun_def ask_def split: prod.split)

text \<open>C8. The record of an environment that another action has locked is left alone: the deploy ends with the error that an operation
  is running, before any write.\<close>

theorem locked_environment_untouched:
  assumes "k_GetConfigMap k (cd_Namespace d) (TranslatePipelineName (cd_Name d)) (ru_Cluster (ps_Run s)) = (Inr cm, c)"
    and "gget (cm_Data cm) actionLockField = Some owner" and "owner \<noteq> actionNameOf w"
  shows "\<exists>s'. TranslateConfigMapAndDeploy k ae js w d s = (Inl (Err operationRunning), s')
    \<and> ru_Writes (ps_Run s') = ru_Writes (ps_Run s) \<and> ps_Output s' = ps_Output s"
  using assms
  by (simp add: TranslateConfigMapAndDeploy_def configmapsGet_def onRun_ask andThen_def returnE_def updateCmap_def failE_def)

text \<open>The status that a write to the cluster records, and runs all of whose writes record one status.\<close>

fun writtenStatus :: "apiCall \<Rightarrow> string option" where
  "writtenStatus (CreateConfigMap ns cm) = gget (cm_Data cm) statusField"
| "writtenStatus (UpdateConfigMap ns cm) = gget (cm_Data cm) statusField"
| "writtenStatus _ = None"

definition recordsOnly :: "string \<Rightarrow> 'c pstate \<Rightarrow> 'c pstate \<Rightarrow> bool" where
  "recordsOnly st s s' \<longleftrightarrow>
     (\<exists>ws. ru_Writes (ps_Run s') = ru_Writes (ps_Run s) @ ws \<and> (\<forall>x \<in> set ws. writtenStatus x = Some st))"

lemma recordsOnly_refl: "ps_Run s' = ps_Run s \<Longrightarrow> recordsOnly st s s'"
  by (simp add: recordsOnly_def)

lemma recordsOnly_trans: "recordsOnly st s s' \<Longrightarrow> recordsOnly st s' s'' \<Longrightarrow> recordsOnly st s s''"
  by (force simp: recordsOnly_def)

lemma recordsOnly_andThen:
  assumes "recordsOnly st s (snd (m s))" and "\<And>a s'. m s = (Inr a, s') \<Longrightarrow> recordsOnly st s' (snd (f a s'))"
  shows "recordsOnly st s (snd (andThen m f s))"
proof (cases "m s")
  case (Pair x s1)
  with assms recordsOnly_trans [of st s s1] show ?thesis by (cases x) (auto simp: andThen_def)
qed

lemma recordsOnly_basic:
  "recordsOnly st s (snd (returnE a s))" "recordsOnly st s (snd (failE e s))" "recordsOnly st s (snd (orFail x s))"
  "recordsOnly st s (snd (onRun (ask f) s))" "recordsOnly st s (snd (configmapsGet k n ns s))"
  "recordsOnly st s (snd (getOrFail k n ns s))"
  "recordsOnly st s (snd (updateCmap js w d cm s))"
  by (auto simp: recordsOnly_def returnE_def failE_def orFail_def onRun_ask configmapsGet_def getOrFail_def andThen_def
      updateCmap_def recordOutput_eq Let_def split: prod.split sum.split option.split)

lemma recordsOnly_configmapsDeploy:
  assumes "gget (cm_Data cm) statusField = Some st"
  shows "recordsOnly st s (snd (onRun (configmapsDeploy k cm ns) s))"
  using assms
  by (auto simp: recordsOnly_def onRun_def configmapsDeploy_def andThen_def ask_def apiWrite_def returnE_def
      split: prod.split sum.split)

lemma recordsOnly_UpdateConfigMap: "recordsOnly (cd_Status d) s (snd (UpdateConfigMapFields k js w cm d s))"
  unfolding UpdateConfigMapFields_def deployMap_def
  by (intro recordsOnly_andThen recordsOnly_basic recordsOnly_configmapsDeploy)
    (rule updateCmap_get)

lemma onMap_state: "snd (onMap m s) = snd (m s)"
  by (simp add: onMap_def split: prod.split sum.split)

text \<open>C7. The error of a command is recorded as one: an update with an error ends with an error, and whatever it writes to the cluster
  has the status \<open>error\<close>, whatever status the data had.\<close>

theorem failure_recorded_as_error:
  assumes "handlerUpdate h cm d (Some e) s = (x, s')"
  shows "(\<exists>err. x = Inl err) \<and> recordsOnly errorStatus s s'"
proof -
  have update: "recordsOnly errorStatus s1 (snd (updateWithError h cm d (Some e) s1))" for s1
  proof -
    let ?s = "AddToBuffer (ha_World h) ErrorLevel (errString e) s1"
    have "recordsOnly errorStatus ?s (snd (updateWithError h cm d (Some e) s1))"
      using recordsOnly_UpdateConfigMap [of "d\<lparr>cd_Status := errorStatus\<rparr>" ?s]
      by (auto simp: updateWithError_def onMap_state intro!: recordsOnly_andThen recordsOnly_basic)
    then show ?thesis by (simp add: recordsOnly_def AddToBuffer_def)
  qed
  have "recordsOnly errorStatus s (snd (handlerUpdate h cm d (Some e) s))"
    unfolding handlerUpdate_def withClient_def
    by (rule recordsOnly_andThen) (auto simp: onMap_state recordsOnly_basic update split: option.split)
  moreover have "\<exists>err. x = Inl err"
    using assms
    by (auto simp: handlerUpdate_def withClient_def updateWithError_def andThen_def failE_def
        split: prod.splits sum.splits option.splits)
  ultimately show ?thesis using assms by simp
qed

section \<open>Variables of the built images\<close>

lemma buildVarNames_plain: "v \<in> set buildVarNames \<Longrightarrow> CHR ''_'' \<notin> set v"
  by (auto simp: buildVarNames_def)

lemma matchBuildVar_Some:
  assumes "matchBuildVar k = Some (n, var)"
  shows "k = ''OKTETO_BUILD_'' @ n @ CHR ''_'' # var" and "var \<in> set buildVarNames"
proof -
  from assms obtain rest i where k: "k = ''OKTETO_BUILD_'' @ rest" and i: "lastIndex rest (CHR ''_'') = Some i"
    and r: "n = take i rest" "var = drop (Suc i) rest" and v: "var \<in> set buildVarNames"
    by (auto simp: matchBuildVar_def hasPrefix_def prefix_def Let_def split: if_splits option.splits)
  have "rest = take i rest @ CHR ''_'' # drop (Suc i) rest"
    using i by (induction rest arbitrary: i) (auto split: option.splits if_splits)
  with k r v show "k = ''OKTETO_BUILD_'' @ n @ CHR ''_'' # var" and "var \<in> set buildVarNames" by simp_all
qed

text \<open>The last underscore separates what stands before from a name without underscore.\<close>

lemma underscore_unique:
  assumes "n @ CHR ''_'' # v = n' @ CHR ''_'' # v'" and "CHR ''_'' \<notin> set v" and "CHR ''_'' \<notin> set v'"
  shows "n = n' \<and> v = v'"
  using lastIndex_append [OF assms(2), of n] lastIndex_append [OF assms(3), of n'] assms(1) by simp

lemma dependencyVar_inj:
  assumes "dependencyVar name b v = dependencyVar name b' v'" and "v \<in> set buildVarNames" and "v' \<in> set buildVarNames"
  shows "b = b' \<and> v = v'"
  using assms by (intro underscore_unique) (auto simp: dependencyVar_def buildVarNames_plain)

definition entry :: "(string, smap) gomap \<Rightarrow> string \<Rightarrow> string \<Rightarrow> string option" where
  "entry m n var = (case gget m n of None \<Rightarrow> None | Some vs \<Rightarrow> gget vs var)"

lemma entry_putVar: "entry (putVar n var v m) n' var' = (if n' = n \<and> var' = var then Some v else entry m n' var')"
  by (auto simp: putVar_def entry_def gget_put split: option.split)

definition groupWf :: "(string, smap) gomap \<Rightarrow> bool" where
  "groupWf m \<longleftrightarrow> gwf m \<and> (\<forall>n vs. gget m n = Some vs \<longrightarrow> gwf vs \<and> set (gkeys vs) \<subseteq> set buildVarNames)"

lemma groupWf_putVar:
  assumes "groupWf m" and "var \<in> set buildVarNames"
  shows "groupWf (putVar n var v m)"
proof (cases "gget m n")
  case None
  with assms show ?thesis by (simp add: groupWf_def putVar_def gget_put set_gkeys_put) (simp add: gkeys_def)
next
  case (Some vs)
  with assms show ?thesis by (simp add: groupWf_def putVar_def gget_put set_gkeys_put)
qed

lemma groupBuildVars_wf: "groupWf m \<Longrightarrow> groupWf (groupBuildVars envs m)"
proof (induction envs m rule: groupBuildVars.induct)
  case (2 k v envs m)
  have "groupWf (case matchBuildVar k of None \<Rightarrow> m | Some (n, var) \<Rightarrow> putVar n var v m)"
    using 2(2) groupWf_putVar [OF 2(2)] matchBuildVar_Some(2) [of k] by (simp split: option.split)
  from "2.IH" [OF this] show ?case by simp
qed simp

lemma entry_groupBuildVars:
  assumes "gwf envs" and "matchBuildVar k = Some (n, var)"
  shows "entry (groupBuildVars envs m) n var = (case gget envs k of Some v \<Rightarrow> Some v | None \<Rightarrow> entry m n var)"
  using assms(1)
proof (induction envs m rule: groupBuildVars.induct)
  case (2 k' v' envs m)
  then have "gwf envs" and new: "gget envs k' = None" by (auto simp: gwf_def gget_None_iff gkeys_def)
  note IH = "2.IH" [OF this(1)]
  show ?case
  proof (cases "k = k'")
    case True
    with assms(2) IH new show ?thesis by (simp add: gget_Cons entry_putVar)
  next
    case False
    have "matchBuildVar k' \<noteq> Some (n, var)"
      using matchBuildVar_Some(1) [of k' n var] matchBuildVar_Some(1) [OF assms(2)] False by auto
    with IH False show ?thesis by (auto simp: gget_Cons entry_putVar split: option.split)
  qed
qed simp

text \<open>What the dependent environment reads of the grouped variables.\<close>

lemma dependencyVarsOf_get:
  assumes "gwf vs" and "set (gkeys vs) \<subseteq> set buildVarNames" and "var \<in> set buildVarNames"
  shows "gget (dependencyVarsOf name b' vs e) (dependencyVar name b var)
    = (case if b' = b then gget vs var else None of Some v \<Rightarrow> Some v | None \<Rightarrow> gget e (dependencyVar name b var))"
  using assms(1,2)
proof (induction name b' vs e rule: dependencyVarsOf.induct)
  case (2 name b' var' v vs e)
  then have wf: "gwf vs" "gget vs var' = None" "set (gkeys vs) \<subseteq> set buildVarNames" and var': "var' \<in> set buildVarNames"
    by (auto simp: gwf_def gget_None_iff gkeys_def)
  note IH = "2.IH" [OF wf(1,3)]
  show ?case
  proof (cases "b' = b \<and> var' = var")
    case True
    with IH wf(2) show ?thesis by (simp add: gget_Cons gget_put)
  next
    case False
    then have "dependencyVar name b' var' \<noteq> dependencyVar name b var"
      using dependencyVar_inj [OF _ var' assms(3)] by blast
    with IH False show ?thesis by (auto simp: gget_Cons gget_put split: option.split)
  qed
qed simp

lemma groupWf_Cons:
  assumes "groupWf ((b, vs) # m)"
  shows "groupWf m" "gwf vs" "set (gkeys vs) \<subseteq> set buildVarNames" "gget m b = None"
proof -
  from assms show new: "gget m b = None" by (simp add: groupWf_def gwf_def gget_None_iff gkeys_def)
  from assms have all: "gget ((b, vs) # m) n = Some ws \<Longrightarrow> gwf ws \<and> set (gkeys ws) \<subseteq> set buildVarNames" for n ws
    unfolding groupWf_def by blast
  from all [of b vs] show "gwf vs" "set (gkeys vs) \<subseteq> set buildVarNames" by (simp_all add: gget_Cons)
  have "gget m n = Some ws \<Longrightarrow> gwf ws \<and> set (gkeys ws) \<subseteq> set buildVarNames" for n ws
    using all [of n ws] new by (cases "n = b") (simp_all add: gget_Cons)
  moreover have "gwf m" using assms by (simp add: groupWf_def gwf_def)
  ultimately show "groupWf m" unfolding groupWf_def by blast
qed

lemma dependencyVars_get:
  assumes "groupWf m" and "var \<in> set buildVarNames"
  shows "gget (dependencyVars name m e) (dependencyVar name b var)
    = (case entry m b var of Some v \<Rightarrow> Some v | None \<Rightarrow> gget e (dependencyVar name b var))"
  using assms(1)
proof (induction name m e rule: dependencyVars.induct)
  case (2 name b' vs m e)
  note wf = groupWf_Cons [OF 2(2)]
  show ?case
    using "2.IH" [OF wf(1)] dependencyVarsOf_get [OF wf(2,3) assms(2), of name b' e b] wf(4)
    by (auto simp: entry_def gget_Cons split: option.split)
qed (simp add: entry_def)

text \<open>
  What the API promises on configuration maps: a read gives the map of the name and namespace asked for, and after a write that
  succeeds, what was written. Of the JSON library, that it reads back the variables it wrote.
\<close>

definition storesMaps :: "'c client \<Rightarrow> bool" where
  "storesMaps k \<longleftrightarrow>
     (\<forall>ns name c cm c'. k_GetConfigMap k ns name c = (Inr cm, c') \<longrightarrow> cm_Name cm = name \<and> cm_Namespace cm = ns)
     \<and> (\<forall>cm c c' call. call \<in> {CreateConfigMap (cm_Namespace cm) cm, UpdateConfigMap (cm_Namespace cm) cm}
          \<longrightarrow> k_Write k call c = (None, c')
          \<longrightarrow> (\<exists>c''. k_GetConfigMap k (cm_Namespace cm) (cm_Name cm) c' = (Inr cm, c'')))"

definition readsBack :: "'f jsonLib \<Rightarrow> (string, smap) gomap \<Rightarrow> bool" where
  "readsBack js m \<longleftrightarrow> (\<exists>t. jl_BuildEnvs js m = Inr t \<and> jl_ReadBuildEnvs js t = Inr m)"

lemma deployMap_stored:
  assumes "storesMaps k" and "deployMap k cm s = (Inr (), s')" and "ru_Writes (ps_Run s') \<noteq> ru_Writes (ps_Run s)"
  shows "\<exists>c. k_GetConfigMap k (cm_Namespace cm) (cm_Name cm) (ru_Cluster (ps_Run s')) = (Inr cm, c)"
proof -
  from assms(2,3) have "\<exists>c. k_Write k (CreateConfigMap (cm_Namespace cm) cm) c = (None, ru_Cluster (ps_Run s'))
      \<or> k_Write k (UpdateConfigMap (cm_Namespace cm) cm) c = (None, ru_Cluster (ps_Run s'))"
    by (auto simp: deployMap_def andThen_def onRun_def configmapsDeploy_def ask_def apiWrite_def orFail_def returnE_def failE_def
        split: prod.splits sum.splits if_splits option.splits)
  with assms(1) show ?thesis unfolding storesMaps_def by blast
qed

lemma getOrFail_result:
  "getOrFail k n ns s = (Inr cm, s') \<longleftrightarrow>
     (\<exists>c. k_GetConfigMap k ns n (ru_Cluster (ps_Run s)) = (Inr cm, c) \<and> s' = s\<lparr>ps_Run := (ps_Run s)\<lparr>ru_Cluster := c\<rparr>\<rparr>)"
  by (auto simp: getOrFail_def configmapsGet_def onRun_ask andThen_def returnE_def failE_def split: prod.splits sum.splits)

lemma SetBuildEnvVars_stored:
  assumes "storesMaps k" and "readsBack js m" and "SetBuildEnvVars k js name ns m s = (Inr (), s')"
    and "ru_Writes (ps_Run s') \<noteq> ru_Writes (ps_Run s)"
  shows "\<exists>cm c. k_GetConfigMap k ns (TranslatePipelineName name) (ru_Cluster (ps_Run s')) = (Inr cm, c) \<and> buildEnvVarsOf js cm = Inr m"
proof -
  from assms(2) obtain t where t: "jl_BuildEnvs js m = Inr t" "jl_ReadBuildEnvs js t = Inr m" by (auto simp: readsBack_def)
  from assms(3) obtain cm s1 where get: "getOrFail k (TranslatePipelineName name) ns s = (Inr cm, s1)"
    and dep: "deployMap k (cm\<lparr>cm_Data := if m \<noteq> [] then gput buildEnvVarField (base64 t) (cm_Data cm)
          else gdel buildEnvVarField (cm_Data cm)\<rparr>) s1 = (Inr (), s')"
    by (auto simp: SetBuildEnvVars_def andThen_Inr t split: if_splits)
  from get obtain c where c: "k_GetConfigMap k ns (TranslatePipelineName name) (ru_Cluster (ps_Run s)) = (Inr cm, c)"
    and "ru_Writes (ps_Run s1) = ru_Writes (ps_Run s)" unfolding getOrFail_result by auto
  moreover from c assms(1) have "cm_Name cm = TranslatePipelineName name" "cm_Namespace cm = ns"
    unfolding storesMaps_def by blast+
  ultimately have "cm_Name cm = TranslatePipelineName name" "cm_Namespace cm = ns"
    and "ru_Writes (ps_Run s1) = ru_Writes (ps_Run s)" by simp_all
  with deployMap_stored [OF assms(1) dep] assms(4) t show ?thesis
    by (auto simp: buildEnvVarsOf_def gget_put gget_gdel base64Decode_base64)
qed

lemma withClient_ready: "\<forall>c. ha_Provide h c = (None, c) \<Longrightarrow> withClient h m s = m s"
  by (simp add: withClient_def andThen_def onMap_def onRun_ask)

text \<open>C9. The variables of the built images reach the environments that depend on this one: after they have been stored, a dependent
  environment reads, under the name made of this environment and the image, exactly the values that were set.\<close>

theorem build_variables_reach_dependents:
  assumes "storesMaps (ha_Client h)" and "\<forall>c. ha_Provide h c = (None, c)"
    and "gwf envs" and "readsBack (ha_Json h) (groupBuildVars envs [])"
    and "handlerSetBuildEnvVars h name ns envs s = (Inr (), s1)" and "ru_Writes (ps_Run s1) \<noteq> ru_Writes (ps_Run s)"
  shows "\<exists>m s2. GetDependencyBuildEnvVars h name ns s1 = (Inr m, s2)
    \<and> (\<forall>k b var. matchBuildVar k = Some (b, var) \<longrightarrow> gget m (dependencyVar name b var) = gget envs k)"
proof -
  let ?m = "groupBuildVars envs []"
  from assms(5) have "SetBuildEnvVars (ha_Client h) (ha_Json h) name ns ?m s = (Inr (), s1)"
    by (auto simp: handlerSetBuildEnvVars_def withClient_ready [OF assms(2)] onMap_def split: prod.splits sum.splits)
  from SetBuildEnvVars_stored [OF assms(1,4) this assms(6)] obtain cm c
    where cm: "k_GetConfigMap (ha_Client h) ns (TranslatePipelineName name) (ru_Cluster (ps_Run s1)) = (Inr cm, c)"
      "buildEnvVarsOf (ha_Json h) cm = Inr ?m" by blast
  then have get: "GetDependencyBuildEnvVars h name ns s1
      = (Inr (if ?m = [] then [] else dependencyVars name ?m []), s1\<lparr>ps_Run := (ps_Run s1)\<lparr>ru_Cluster := c\<rparr>\<rparr>)"
    by (simp add: GetDependencyBuildEnvVars_def withClient_ready [OF assms(2)] GetConfigmapBuildEnvVars_def getOrFail_def
        configmapsGet_def onRun_ask onMap_def andThen_def returnE_def)
  have "groupWf ?m" by (rule groupBuildVars_wf) (simp add: groupWf_def)
  then have "gget (if ?m = [] then [] else dependencyVars name ?m []) (dependencyVar name b var) = gget envs k"
    if "matchBuildVar k = Some (b, var)" for k b var
    using dependencyVars_get [of ?m var name "[]" b] entry_groupBuildVars [OF assms(3) that, of "[]"]
      matchBuildVar_Some(2) [OF that]
    by (auto simp: entry_def split: option.splits)
  with get show ?thesis by blast
qed

section \<open>A cluster of configuration maps\<close>

text \<open>The limit compared as an integer, for evaluation.\<close>

lemma translateOutput_code [code]:
  "translateOutput buffer =
     (if (614400 :: int) < int (length buffer)
      then let (ls, rest) = scanLines buffer; (capped, head) = capLines (rev ls) [] [] in (trimPrefix capped head, rest)
      else (buffer, buffer))"
  by (simp add: translateOutput_def maxLogOutputRaw_def maxLogOutput_def)

type_synonym mapCluster = "(string \<times> string, configMap) gomap"

fun mapWrite :: "apiCall \<Rightarrow> mapCluster \<Rightarrow> string option \<times> mapCluster" where
  "mapWrite (CreateConfigMap ns cm) c =
     (case gget c (ns, cm_Name cm) of Some _ \<Rightarrow> (Some ''already exists'', c) | None \<Rightarrow> (None, gput (ns, cm_Name cm) cm c))"
| "mapWrite (UpdateConfigMap ns cm) c =
     (case gget c (ns, cm_Name cm) of None \<Rightarrow> (Some ''not found'', c) | Some _ \<Rightarrow> (None, gput (ns, cm_Name cm) cm c))"
| "mapWrite _ c = (None, c)"

definition mapClient :: "mapCluster client" where
  "mapClient =
     \<lparr>k_GetService = (\<lambda>ns n c. (Inl ''not found'', c)), k_GetDeployment = (\<lambda>ns n c. (Inl ''not found'', c)),
      k_GetStatefulSet = (\<lambda>ns n c. (Inl ''not found'', c)), k_GetJob = (\<lambda>ns n c. (Inl ''not found'', c)),
      k_GetPVC = (\<lambda>ns n c. (Inl ''not found'', c)),
      k_GetConfigMap = (\<lambda>ns n c. (case gget c (ns, n) of
          None \<Rightarrow> Inl ''not found'' | Some cm \<Rightarrow> Inr (cm\<lparr>cm_Name := n, cm_Namespace := ns\<rparr>), c)),
      k_GetPod = (\<lambda>ns l c. (Inl ''not found'', c)), k_ListPods = (\<lambda>ns l c. (Inr [], c)),
      k_HealthcheckFailure = (\<lambda>ns n u p c. (None, c)), k_PortAvailable = (\<lambda>ns n ps c. (True, c)),
      k_Write = mapWrite\<rparr>"

lemma mapClient_stores: "storesMaps mapClient"
  by (auto simp: storesMaps_def mapClient_def gget_put split: option.splits)

definition exampleJson :: "int jsonLib" where
  "exampleJson =
     \<lparr>jl_Envs = (\<lambda>m. Inr ''{}''), jl_BuildEnvs = (\<lambda>m. Inr ''{}''), jl_Variables = (\<lambda>vs. Inr ''[]''), jl_Phases = (\<lambda>ps. Inr ''[]''),
      jl_ReadBuildEnvs = (\<lambda>t. Inr [(''API'', [(''TAG'', ''v1'')])]), jl_ReadVariables = (\<lambda>t. Inr []), jl_ReadPhases = (\<lambda>t. Inr []),
      jl_Seconds = (\<lambda>d. d div 1000000000)\<rparr>"

definition exampleHandler :: "(mapCluster, int) handler" where
  "exampleHandler =
     \<lparr>ha_Provide = (\<lambda>c. (None, c)), ha_Client = mapClient,
      ha_Errors = \<lparr>ae_IsAlreadyExists = (\<lambda>e. e = ''already exists''), ae_IsConflict = (\<lambda>e. False)\<rparr>, ha_Json = exampleJson,
      ha_World = \<lparr>pw_ActionName = [], pw_Now = ''2024-01-01T00:00:00'', pw_LogLine = (\<lambda>level msg. msg @ [CHR 0x0A])\<rparr>\<rparr>"

definition exampleData :: "string \<Rightarrow> cfgData" where
  "exampleData name =
     \<lparr>cd_Name = name, cd_Namespace = ''dev'', cd_Status = progressingStatus, cd_Repository = [], cd_Branch = [], cd_Filename = [],
      cd_Manifest = ''deploy:'', cd_Icon = [], cd_Variables = []\<rparr>"

definition exampleMap :: "smap \<Rightarrow> configMap" where
  "exampleMap m = \<lparr>cm_Namespace = ''dev'', cm_Name = ''okteto-git-app'', cm_Labels = [(GitDeployLabel, ''true'')], cm_Annotations = [],
     cm_Data = (statusField, progressingStatus) # m\<rparr>"

definition exampleState :: "smap \<Rightarrow> mapCluster pstate" where
  "exampleState m = \<lparr>ps_Run = \<lparr>ru_Cluster = [((''dev'', ''okteto-git-app''), exampleMap m)], ru_Writes = []\<rparr>, ps_Output = []\<rparr>"

lemmas example_defs = exampleState_def exampleMap_def exampleHandler_def exampleData_def mapClient_def exampleJson_def

theorem locked_environment_untouched_witness:
  "fst (TranslateConfigMapAndDeploy mapClient (ha_Errors exampleHandler) exampleJson (ha_World exampleHandler) (exampleData ''app'')
     (exampleState [(actionLockField, ''installer-1'')])) = Inl (Err operationRunning)"
proof -
  have "k_GetConfigMap mapClient (cd_Namespace (exampleData ''app'')) (TranslatePipelineName (cd_Name (exampleData ''app'')))
      (ru_Cluster (ps_Run (exampleState [(actionLockField, ''installer-1'')])))
    = (Inr (exampleMap [(actionLockField, ''installer-1'')]), ru_Cluster (ps_Run (exampleState [(actionLockField, ''installer-1'')])))"
    and "gget (cm_Data (exampleMap [(actionLockField, ''installer-1'')])) actionLockField = Some ''installer-1''"
    and "''installer-1'' \<noteq> actionNameOf (ha_World exampleHandler)" by code_simp+
  from locked_environment_untouched [OF this, of "ha_Errors exampleHandler" exampleJson] show ?thesis by auto
qed

theorem update_keeps_other_entries_witness:
  "gget (cm_Data (exampleMap [(PhasesField, ''[]'')])) PhasesField = Some ''[]''
   \<and> (\<exists>cm s. updateCmap exampleJson (ha_World exampleHandler) (exampleData ''app'') (exampleMap [(PhasesField, ''[]'')]) (exampleState []) = (Inr cm, s)
       \<and> gget (cm_Data cm) PhasesField = Some ''[]'')"
proof -
  have "\<exists>cm s. updateCmap exampleJson (ha_World exampleHandler) (exampleData ''app'') (exampleMap [(PhasesField, ''[]'')]) (exampleState []) = (Inr cm, s)"
    by (simp add: updateCmap_def recordOutput_eq example_defs Let_def gget_Cons go_consts)
  moreover have "PhasesField \<notin> ownFields" by (simp add: ownFields_def go_consts)
  moreover have "gget (cm_Data (exampleMap [(PhasesField, ''[]'')])) PhasesField = Some ''[]''" by code_simp
  ultimately show ?thesis using update_keeps_other_entries by metis
qed

theorem failure_recorded_as_error_witness:
  "recordsOnly errorStatus (exampleState [])
     (snd (handlerUpdate exampleHandler (exampleMap []) (exampleData ''app'') (Some ErrCommandFailed) (exampleState [])))
   \<and> length (ru_Writes (ps_Run (snd (handlerUpdate exampleHandler (exampleMap []) (exampleData ''app'') (Some ErrCommandFailed)
       (exampleState []))))) = 1"
proof
  show "recordsOnly errorStatus (exampleState [])
     (snd (handlerUpdate exampleHandler (exampleMap []) (exampleData ''app'') (Some ErrCommandFailed) (exampleState [])))"
    by (rule conjunct2 [OF failure_recorded_as_error [OF prod.collapse [symmetric]]])
qed code_simp

text \<open>
  An environment whose name sanitises differently the second time: the first deploy stores its record under a name that no later
  deploy looks up, and every later deploy fails as if an operation were running.
\<close>

lemma second_deploy_blocked:
  "case handlerTranslate exampleHandler (exampleData ''app (-)'') (exampleState []) of
     (Inl e, s) \<Rightarrow> False
   | (Inr cm, s) \<Rightarrow> fst (handlerTranslate exampleHandler (exampleData ''app (-)'') s) = Inl (CmdErr (ErrText operationRunning))"
  by code_simp

definition buildVars :: smap where
  "buildVars = [(''OKTETO_BUILD_API_TAG'', ''v1''), (''HOME'', ''/root'')]"

theorem build_variables_reach_dependents_witness:
  "\<exists>m s. GetDependencyBuildEnvVars exampleHandler ''app'' ''dev''
       (snd (handlerSetBuildEnvVars exampleHandler ''app'' ''dev'' buildVars (exampleState []))) = (Inr m, s)
     \<and> gget m ''OKTETO_DEPENDENCY_APP_BUILD_API_TAG'' = Some ''v1''"
proof -
  have set: "handlerSetBuildEnvVars exampleHandler ''app'' ''dev'' buildVars (exampleState [])
      = (Inr (), snd (handlerSetBuildEnvVars exampleHandler ''app'' ''dev'' buildVars (exampleState [])))"
    and written: "ru_Writes (ps_Run (snd (handlerSetBuildEnvVars exampleHandler ''app'' ''dev'' buildVars (exampleState []))))
      \<noteq> ru_Writes (ps_Run (exampleState []))"
    and group: "groupBuildVars buildVars [] = [(''API'', [(''TAG'', ''v1'')])]"
    and match: "matchBuildVar ''OKTETO_BUILD_API_TAG'' = Some (''API'', ''TAG'')"
    and var: "dependencyVar ''app'' ''API'' ''TAG'' = ''OKTETO_DEPENDENCY_APP_BUILD_API_TAG''"
    and val: "gget buildVars ''OKTETO_BUILD_API_TAG'' = Some ''v1''"
    by code_simp+
  have "storesMaps (ha_Client exampleHandler)" "\<forall>c. ha_Provide exampleHandler c = (None, c)" "gwf buildVars"
    using mapClient_stores by (simp_all add: exampleHandler_def gwf_def buildVars_def)
  moreover have "readsBack (ha_Json exampleHandler) (groupBuildVars buildVars [])"
    unfolding group by (simp add: readsBack_def exampleHandler_def exampleJson_def)
  ultimately obtain m s2
    where get: "GetDependencyBuildEnvVars exampleHandler ''app'' ''dev''
        (snd (handlerSetBuildEnvVars exampleHandler ''app'' ''dev'' buildVars (exampleState []))) = (Inr m, s2)"
      and all: "\<forall>k b var. matchBuildVar k = Some (b, var) \<longrightarrow> gget m (dependencyVar ''app'' b var) = gget buildVars k"
    using build_variables_reach_dependents [OF _ _ _ _ set written] by blast
  from all [rule_format, OF match] var val get show ?thesis by simp
qed

end
